(* ===== verification/Go_Errors.thy ===== *)
theory Go_Errors
  imports Prelude
begin

text \<open>
  Errors as values. \<open>go_error\<close> holds the sentinel errors of \<open>pkg/plugin/errors.go\<close>, its two
  wrapper types \<open>PluginError\<close> and \<open>DeviceError\<close>, the errors made by \<open>fmt.Errorf\<close> (format string and
  arguments are kept, so that \<open>%w\<close> can be told from \<open>%v\<close>), gRPC status errors, errors that come
  from code outside the repository, and a run-time panic (nil dereference, index out of range),
  which ends the operation. \<open>error_text\<close> is the method \<open>Error()\<close>, \<open>errors_is\<close> is
  \<open>errors.Is\<close> for a sentinel target. The lemmas show that classification follows exactly the
  \<open>Unwrap\<close> chain.
\<close>

datatype grpc_code = OK | Internal | InvalidArgument | NotFound | Unavailable | Unimplemented
  | FailedPrecondition | OtherCode nat

datatype go_error =
    ErrNotImplemented
  | ErrPluginNotFound
  | ErrDeviceNotFound
  | ErrNotInitialized
  | ErrAlreadyInitialized
  | ErrCapabilityNotSupported
  | ErrInvalidConfig
  | ErrConnectionFailed
  | ErrResourceNotFound
  | ErrResourceExists
  | ErrOperationFailed
  | PluginError string string go_error string
  | DeviceError string string go_error
  | Errorf string "fmt_arg list"
  | StatusError grpc_code string
  | ExtError string
  | Panic string
and fmt_arg = FStr string | FInt int | FErr go_error | FWrap go_error

type_synonym 'a result = "go_error + 'a"

section \<open>Rendering\<close>

text \<open>\<open>strconv.Quote\<close> on ASCII text, for the verb \<open>%q\<close>.\<close>

definition hex_digit :: "nat \<Rightarrow> char" where
  "hex_digit d = char_of (if d < 10 then 48 + d else 87 + d)"

definition quote_char :: "char \<Rightarrow> string" where
  "quote_char c =
     (if c = CHR 0x22 then [CHR 0x5C, CHR 0x22]
      else if c = CHR 0x5C then [CHR 0x5C, CHR 0x5C]
      else if c = CHR 0x07 then [CHR 0x5C, CHR ''a'']
      else if c = CHR 0x08 then [CHR 0x5C, CHR ''b'']
      else if c = CHR 0x0C then [CHR 0x5C, CHR ''f'']
      else if c = CHR 0x0A then [CHR 0x5C, CHR ''n'']
      else if c = CHR 0x0D then [CHR 0x5C, CHR ''r'']
      else if c = CHR 0x09 then [CHR 0x5C, CHR ''t'']
      else if c = CHR 0x0B then [CHR 0x5C, CHR ''v'']
      else if CHR 0x20 \<le> c \<and> c < CHR 0x7F then [c]
      else [CHR 0x5C, CHR ''x'', hex_digit (of_char c div 16), hex_digit (of_char c mod 16)])"

definition go_quote :: "string \<Rightarrow> string" where
  "go_quote s = CHR 0x22 # concat (map quote_char s) @ [CHR 0x22]"

text \<open>\<open>fmt.Sprintf\<close> for the verbs the sources use; the arguments come rendered. A verb without an
  argument prints \<open>%!v(MISSING)\<close>; superfluous arguments do not occur in the sources.\<close>

fun sprintf :: "string \<Rightarrow> string list \<Rightarrow> string" where
  "sprintf [] args = []"
| "sprintf [c] args = [c]"
| "sprintf (c # d # cs) args =
     (if c \<noteq> CHR ''%'' then c # sprintf (d # cs) args
      else if d = CHR ''%'' then CHR ''%'' # sprintf cs args
      else (case args of
              [] \<Rightarrow> ''%!'' @ [d] @ ''(MISSING)'' @ sprintf cs []
            | a # as \<Rightarrow> (if d = CHR ''q'' then go_quote a else a) @ sprintf cs as))"

definition code_text :: "grpc_code \<Rightarrow> string" where
  "code_text c =
     (case c of OK \<Rightarrow> ''OK'' | Internal \<Rightarrow> ''Internal'' | InvalidArgument \<Rightarrow> ''InvalidArgument''
      | NotFound \<Rightarrow> ''NotFound'' | Unavailable \<Rightarrow> ''Unavailable''
      | Unimplemented \<Rightarrow> ''Unimplemented'' | FailedPrecondition \<Rightarrow> ''FailedPrecondition''
      | OtherCode n \<Rightarrow> ''Code('' @ dec_nat n @ '')'')"

fun error_text :: "go_error \<Rightarrow> string" and arg_text :: "fmt_arg \<Rightarrow> string" where
  "error_text ErrNotImplemented = ''operation not implemented''"
| "error_text ErrPluginNotFound = ''plugin not found''"
| "error_text ErrDeviceNotFound = ''device not found''"
| "error_text ErrNotInitialized = ''plugin not initialized''"
| "error_text ErrAlreadyInitialized = ''plugin already initialized''"
| "error_text ErrCapabilityNotSupported = ''capability not supported''"
| "error_text ErrInvalidConfig = ''invalid configuration''"
| "error_text ErrConnectionFailed = ''connection failed''"
| "error_text ErrResourceNotFound = ''resource not found''"
| "error_text ErrResourceExists = ''resource already exists''"
| "error_text ErrOperationFailed = ''operation failed''"
| "error_text (PluginError p op e d) =
     (if d \<noteq> [] then sprintf ''plugin %s: %s: %v (%s)'' [p, op, error_text e, d]
      else sprintf ''plugin %s: %s: %v'' [p, op, error_text e])"
| "error_text (DeviceError d op e) = sprintf ''device %s: %s: %v'' [d, op, error_text e]"
| "error_text (Errorf f args) = sprintf f (map arg_text args)"
| "error_text (StatusError c m) = sprintf ''rpc error: code = %s desc = %s'' [code_text c, m]"
| "error_text (ExtError m) = m"
| "error_text (Panic m) = ''panic: '' @ m"
| "arg_text (FStr s) = s"
| "arg_text (FInt i) = itoa i"
| "arg_text (FErr e) = error_text e"
| "arg_text (FWrap e) = error_text e"

section \<open>Construction and classification\<close>

definition NewPluginError :: "string \<Rightarrow> string \<Rightarrow> go_error \<Rightarrow> go_error" where
  "NewPluginError plugin op err = PluginError plugin op err []"

definition NewPluginErrorWithDetails ::
    "string \<Rightarrow> string \<Rightarrow> go_error \<Rightarrow> string \<Rightarrow> go_error" where
  "NewPluginErrorWithDetails plugin op err details = PluginError plugin op err details"

definition NewDeviceError :: "string \<Rightarrow> string \<Rightarrow> go_error \<Rightarrow> go_error" where
  "NewDeviceError deviceID op err = DeviceError deviceID op err"

text \<open>The method \<open>Unwrap\<close>: of the two wrapper types, and of what \<open>fmt.Errorf\<close> makes of a format
  with the verb \<open>%w\<close>.\<close>

fun wrapped_arg :: "fmt_arg list \<Rightarrow> go_error option" where
  "wrapped_arg [] = None"
| "wrapped_arg (FWrap e # args) = Some e"
| "wrapped_arg (a # args) = wrapped_arg args"

fun Unwrap :: "go_error \<Rightarrow> go_error option" where
  "Unwrap (PluginError p op e d) = Some e"
| "Unwrap (DeviceError d op e) = Some e"
| "Unwrap (Errorf f args) = wrapped_arg args"
| "Unwrap e = None"

lemma wrapped_arg_size: "wrapped_arg args = Some e \<Longrightarrow> size e < size_list size args"
  by (induction args rule: wrapped_arg.induct) auto

lemma Unwrap_size: "Unwrap e = Some e' \<Longrightarrow> size e' < size e"
  by (induction e rule: Unwrap.induct) (auto dest: wrapped_arg_size)

text \<open>\<open>errors.Is\<close>: the loop of package \<open>errors\<close> over the \<open>Unwrap\<close> chain.\<close>

function errors_is :: "go_error \<Rightarrow> go_error \<Rightarrow> bool" where
  "errors_is e target =
     (e = target \<or> (case Unwrap e of None \<Rightarrow> False | Some e' \<Rightarrow> errors_is e' target))"
  by pat_completeness auto
termination
  by (relation "measure (\<lambda>(e, t). size e)") (auto dest: Unwrap_size)

declare errors_is.simps [simp del]

definition IsNotImplemented :: "go_error \<Rightarrow> bool" where
  "IsNotImplemented err = errors_is err ErrNotImplemented"

definition IsNotFound :: "go_error \<Rightarrow> bool" where
  "IsNotFound err \<longleftrightarrow> errors_is err ErrPluginNotFound \<or> errors_is err ErrDeviceNotFound \<or>
     errors_is err ErrResourceNotFound"

definition IsCapabilityNotSupported :: "go_error \<Rightarrow> bool" where
  "IsCapabilityNotSupported err = errors_is err ErrCapabilityNotSupported"

section \<open>Lemmas\<close>

text \<open>A sentinel is an error that unwraps to nothing and carries no context.\<close>

definition sentinels :: "go_error list" where
  "sentinels = [ErrNotImplemented, ErrPluginNotFound, ErrDeviceNotFound, ErrNotInitialized,
     ErrAlreadyInitialized, ErrCapabilityNotSupported, ErrInvalidConfig, ErrConnectionFailed,
     ErrResourceNotFound, ErrResourceExists, ErrOperationFailed]"

lemma errors_is_refl [simp]: "errors_is e e"
  by (simp add: errors_is.simps)

lemma errors_is_sentinel [simp]:
  "e \<in> set sentinels \<Longrightarrow> errors_is e t \<longleftrightarrow> e = t"
  by (subst errors_is.simps) (auto simp: sentinels_def)

lemma errors_is_step:
  "t \<in> set sentinels \<Longrightarrow> Unwrap e = Some e' \<Longrightarrow> errors_is e t \<longleftrightarrow> errors_is e' t"
  by (subst errors_is.simps) (auto simp: sentinels_def)

lemma errors_is_opaque:
  "Unwrap e = None \<Longrightarrow> errors_is e t \<longleftrightarrow> e = t"
  by (subst errors_is.simps) auto

text \<open>The reference reading of the chain: \<open>target\<close> is reached by finitely many \<open>Unwrap\<close> steps.\<close>

inductive unwraps_to :: "go_error \<Rightarrow> go_error \<Rightarrow> bool" where
  here: "unwraps_to e e"
| there: "Unwrap e = Some e' \<Longrightarrow> unwraps_to e' t \<Longrightarrow> unwraps_to e t"

lemma errors_is_iff_unwraps_to: "errors_is e t \<longleftrightarrow> unwraps_to e t"
proof
  show "errors_is e t \<Longrightarrow> unwraps_to e t"
  proof (induction e t rule: errors_is.induct)
    case (1 e t)
    then show ?case
      by (subst (asm) (2) errors_is.simps)
        (auto intro: unwraps_to.intros split: option.splits)
  qed
  show "unwraps_to e t \<Longrightarrow> errors_is e t"
    by (induction rule: unwraps_to.induct) (auto simp: errors_is.simps)
qed

lemmas error_classes = IsNotImplemented_def IsNotFound_def IsCapabilityNotSupported_def

lemma sprintf_plain: "CHR ''%'' \<notin> set f \<Longrightarrow> sprintf f args = f"
  by (induction f args rule: sprintf.induct) auto

end
