(* ===== verification/Plugin_Types.thy ===== *)
theory Plugin_Types
  imports Go_Errors
begin

text \<open>
  The data of package \<open>plugin\<close> (\<open>pkg/plugin/types.go\<close>, \<open>pkg/plugin/interface.go\<close>): the structs as
  records (a Go field \<open>F\<close> of struct \<open>S\<close> carries a short prefix, since several structs share field
  names), pointers that may be nil as options, and the \<open>PluginChecker\<close>.

  A \<open>plugin\<close> is an interface value as the registry sees it: what \<open>Info()\<close> returns and which of the
  optional interfaces \<open>NetworkPlugin\<close>, \<open>StoragePlugin\<close>, \<open>SecurityPlugin\<close> its dynamic type has. The
  nil interface is \<open>None\<close>.
\<close>

section \<open>Plugin metadata and devices (types.go)\<close>

type_synonym Capability = string

definition DefaultOPIEndpoint :: string where
  "DefaultOPIEndpoint = ''localhost:50051''"

definition CapabilityNetworking :: Capability where
  "CapabilityNetworking = ''networking''"

definition CapabilityStorage :: Capability where
  "CapabilityStorage = ''storage''"

definition CapabilitySecurity :: Capability where
  "CapabilitySecurity = ''security''"

definition CapabilityAIML :: Capability where
  "CapabilityAIML = ''aiml''"

record PCIDeviceID =
  VendorID :: string
  DeviceID :: string
  IdDescription :: string

record PluginInfo =
  Name :: string
  Vendor :: string
  Version :: string
  Description :: string
  SupportedDevices :: "PCIDeviceID list"
  Capabilities :: "Capability list"

definition PCIDeviceID_String :: "PCIDeviceID \<Rightarrow> string" where
  "PCIDeviceID_String p = VendorID p @ '':'' @ DeviceID p"

record Device =
  dev_ID :: string
  dev_PCIAddress :: string
  dev_PCIID :: PCIDeviceID
  dev_Vendor :: string
  dev_Model :: string
  dev_SerialNumber :: string
  dev_FirmwareVersion :: string
  dev_Healthy :: bool
  dev_Metadata :: "(string, string) gomap"

text \<open>The zero value of a struct, from which a composite literal starts.\<close>

definition zero_PCIDeviceID :: PCIDeviceID where
  "zero_PCIDeviceID = \<lparr>VendorID = [], DeviceID = [], IdDescription = []\<rparr>"

definition zero_Device :: Device where
  "zero_Device = \<lparr>dev_ID = [], dev_PCIAddress = [], dev_PCIID = zero_PCIDeviceID, dev_Vendor = [],
     dev_Model = [], dev_SerialNumber = [], dev_FirmwareVersion = [], dev_Healthy = False,
     dev_Metadata = []\<rparr>"

text \<open>\<open>VendorConfig\<close> has type \<open>map[string]interface{}\<close> and is never read by the sources; only its
  keys and printed values are kept.\<close>

record PluginConfig =
  OPIEndpoint :: string
  NetworkEndpoint :: string
  LogLevel :: int
  VendorConfig :: "(string, string) gomap"

record ChassisInfo =
  ch_Manufacturer :: string
  ch_Model :: string
  ch_SerialNumber :: string

record CPUInfo =
  cpu_Model :: string
  cpu_CoreCount :: int
  cpu_ThreadCount :: int
  cpu_FrequencyMHz :: int

record MemoryInfo =
  mem_TotalBytes :: "64 word"
  mem_Type :: string

record NetworkInterface =
  nif_Name :: string
  nif_MACAddress :: string
  nif_SpeedMbps :: int
  nif_LinkUp :: bool

record StorageDevice =
  sd_Name :: string
  sd_Model :: string
  sd_CapacityBytes :: "64 word"
  sd_Type :: string

record InventoryResponse =
  inv_DeviceID :: string
  inv_BIOSVersion :: string
  inv_BMCVersion :: string
  inv_Chassis :: "ChassisInfo option"
  inv_CPU :: "CPUInfo option"
  inv_Memory :: "MemoryInfo option"
  inv_NetworkInterfaces :: "NetworkInterface list"
  inv_StorageDevices :: "StorageDevice list"

section \<open>Interfaces (interface.go)\<close>

record BridgePortRequest =
  req_Name :: string
  req_MACAddress :: string
  req_VLANID :: "int option"
  req_Type :: string
  req_Metadata :: "(string, string) gomap"

record BridgePort =
  bp_ID :: string
  bp_Name :: string
  bp_MACAddress :: string
  bp_VLANID :: "int option"
  bp_Status :: string
  bp_Metadata :: "(string, string) gomap"

record plugin =
  Info :: PluginInfo
  is_NetworkPlugin :: bool
  is_StoragePlugin :: bool
  is_SecurityPlugin :: bool

text \<open>A \<open>PluginChecker\<close> is a wrapper around one plugin.\<close>

definition IsNetworkPlugin :: "plugin \<Rightarrow> bool" where
  "IsNetworkPlugin c = is_NetworkPlugin c"

definition AsNetworkPlugin :: "plugin \<Rightarrow> plugin option" where
  "AsNetworkPlugin c = (if is_NetworkPlugin c then Some c else None)"

definition IsStoragePlugin :: "plugin \<Rightarrow> bool" where
  "IsStoragePlugin c = is_StoragePlugin c"

definition AsStoragePlugin :: "plugin \<Rightarrow> plugin option" where
  "AsStoragePlugin c = (if is_StoragePlugin c then Some c else None)"

definition IsSecurityPlugin :: "plugin \<Rightarrow> bool" where
  "IsSecurityPlugin c = is_SecurityPlugin c"

definition AsSecurityPlugin :: "plugin \<Rightarrow> plugin option" where
  "AsSecurityPlugin c = (if is_SecurityPlugin c then Some c else None)"

text \<open>The loop of \<open>SupportsCapability\<close>, also written out in \<open>Registry.GetByCapability\<close>.\<close>

fun has_capability :: "Capability list \<Rightarrow> Capability \<Rightarrow> bool" where
  "has_capability [] cap = False"
| "has_capability (supported # rest) cap = (if supported = cap then True else has_capability rest cap)"

definition SupportsCapability :: "plugin \<Rightarrow> Capability \<Rightarrow> bool" where
  "SupportsCapability c cap = has_capability (Capabilities (Info c)) cap"

lemma has_capability_iff [simp]: "has_capability cs cap \<longleftrightarrow> cap \<in> set cs"
  by (induction cs) auto

end
