(* ===== verification/Registry.thy ===== *)
theory Registry
  imports Plugin_Types
begin

text \<open>
  The plugin registry (\<open>pkg/plugin/registry.go\<close>). Each method runs under the registry's mutex, so it
  is one atomic function on the state \<open>registry\<close>. The first part translates the methods; the second
  states the invariant that ties the device index to the registered plugins and proves that every
  method keeps it; the third gives the abstract reading (a finite map from plugin names to plugins,
  with look-up by device as a search) and the refinement.
\<close>

section \<open>State and methods\<close>

record registry =
  plugins :: "(string, plugin) gomap"
  deviceIndex :: "(string, string) gomap"

definition NewRegistry :: registry where
  "NewRegistry = \<lparr>plugins = [], deviceIndex = []\<rparr>"

definition device_key :: "PCIDeviceID \<Rightarrow> string" where
  "device_key d = to_lower (PCIDeviceID_String d)"

text \<open>The validation loop of \<open>Register\<close>: the first device that another plugin already claims.\<close>

fun claimed_device :: "(string, string) gomap \<Rightarrow> PCIDeviceID list \<Rightarrow> go_error option" where
  "claimed_device idx [] = None"
| "claimed_device idx (device # rest) =
     (case map_get idx (device_key device) of
        Some existingPlugin \<Rightarrow>
          Some (Errorf ''device %s already claimed by plugin %s''
                  [FStr (device_key device), FStr existingPlugin])
      | None \<Rightarrow> claimed_device idx rest)"

text \<open>The two loops that write the index.\<close>

fun index_devices :: "string \<Rightarrow> PCIDeviceID list \<Rightarrow> (string, string) gomap \<Rightarrow> (string, string) gomap"
  where
  "index_devices name [] idx = idx"
| "index_devices name (device # rest) idx =
     index_devices name rest (map_put (device_key device) name idx)"

definition index_entry :: "(string, string) gomap \<Rightarrow> string \<Rightarrow> string" where
  "index_entry idx k = (case map_get idx k of Some n \<Rightarrow> n | None \<Rightarrow> [])"

fun unindex_devices :: "string \<Rightarrow> PCIDeviceID list \<Rightarrow> (string, string) gomap \<Rightarrow> (string, string) gomap"
  where
  "unindex_devices name [] idx = idx"
| "unindex_devices name (device # rest) idx =
     unindex_devices name rest
       (if index_entry idx (device_key device) = name
        then map_del (device_key device) idx else idx)"

definition Register :: "plugin option \<Rightarrow> registry \<Rightarrow> go_error option \<times> registry" where
  "Register p r =
     (case p of
        None \<Rightarrow> (Some (Errorf ''cannot register nil plugin'' []), r)
      | Some p \<Rightarrow>
          let info = Info p in
          if Name info = [] then (Some (Errorf ''plugin name cannot be empty'' []), r)
          else if map_get (plugins r) (Name info) \<noteq> None
          then (Some (Errorf ''plugin %q already registered'' [FStr (Name info)]), r)
          else (case claimed_device (deviceIndex r) (SupportedDevices info) of
                  Some err \<Rightarrow> (Some err, r)
                | None \<Rightarrow>
                    (None, r\<lparr>plugins := map_put (Name info) p (plugins r),
                             deviceIndex := index_devices (Name info) (SupportedDevices info)
                                              (deviceIndex r)\<rparr>)))"

definition Unregister :: "string \<Rightarrow> registry \<Rightarrow> go_error option \<times> registry" where
  "Unregister name r =
     (case map_get (plugins r) name of
        None \<Rightarrow> (Some (Errorf ''plugin %q not found'' [FStr name]), r)
      | Some p \<Rightarrow>
          (None, r\<lparr>deviceIndex := unindex_devices name (SupportedDevices (Info p)) (deviceIndex r),
                   plugins := map_del name (plugins r)\<rparr>))"

definition Registry_Get :: "string \<Rightarrow> registry \<Rightarrow> plugin option" where
  "Registry_Get name r = map_get (plugins r) name"

definition GetByDeviceID :: "string \<Rightarrow> registry \<Rightarrow> plugin option" where
  "GetByDeviceID deviceID r =
     (case map_get (deviceIndex r) (to_lower deviceID) of
        Some pluginName \<Rightarrow> map_get (plugins r) pluginName
      | None \<Rightarrow> None)"

definition GetByVendorDevice :: "string \<Rightarrow> string \<Rightarrow> registry \<Rightarrow> plugin option" where
  "GetByVendorDevice vendorID deviceID r = GetByDeviceID (vendorID @ '':'' @ deviceID) r"

definition sort_by_name :: "plugin list \<Rightarrow> plugin list" where
  "sort_by_name ps = sort_key (\<lambda>p. Name (Info p)) ps"

definition Registry_List :: "registry \<Rightarrow> plugin list" where
  "Registry_List r = sort_by_name (map snd (plugins r))"

definition ListNames :: "registry \<Rightarrow> string list" where
  "ListNames r = sort (map fst (plugins r))"

definition Registry_Count :: "registry \<Rightarrow> nat" where
  "Registry_Count r = length (plugins r)"

definition GetByCapability :: "Capability \<Rightarrow> registry \<Rightarrow> plugin list" where
  "GetByCapability cap r =
     sort_by_name (filter (\<lambda>p. has_capability (Capabilities (Info p)) cap) (map snd (plugins r)))"

definition GetNetworkPlugins :: "registry \<Rightarrow> plugin list" where
  "GetNetworkPlugins r = sort_by_name (filter is_NetworkPlugin (map snd (plugins r)))"

definition GetStoragePlugins :: "registry \<Rightarrow> plugin list" where
  "GetStoragePlugins r = sort_by_name (filter is_StoragePlugin (map snd (plugins r)))"

definition GetSecurityPlugins :: "registry \<Rightarrow> plugin list" where
  "GetSecurityPlugins r = sort_by_name (filter is_SecurityPlugin (map snd (plugins r)))"

definition FindPluginForDevice :: "string \<Rightarrow> string \<Rightarrow> registry \<Rightarrow> plugin option \<times> bool" where
  "FindPluginForDevice vendorID deviceID r =
     (case GetByVendorDevice vendorID deviceID r of
        Some p \<Rightarrow> (Some p, True)
      | None \<Rightarrow> (None, False))"

definition Clear :: "registry \<Rightarrow> registry" where
  "Clear r = r\<lparr>plugins := [], deviceIndex := []\<rparr>"

text \<open>\<open>MustRegister\<close> panics with a message (\<open>Inl\<close>) when the registration fails.\<close>

definition MustRegister :: "plugin option \<Rightarrow> registry \<Rightarrow> string + registry" where
  "MustRegister p r =
     (case Register p r of
        (Some err, r') \<Rightarrow> Inl (sprintf ''failed to register plugin: %v'' [error_text err])
      | (None, r') \<Rightarrow> Inr r')"

section \<open>Invariant\<close>

definition plugin_keys :: "plugin \<Rightarrow> string list" where
  "plugin_keys p = map device_key (SupportedDevices (Info p))"

text \<open>Every plugin is stored under its own non-empty name, owns all its device keys in the index,
  and every index entry belongs to a stored plugin that supports the device.\<close>

definition registry_inv :: "registry \<Rightarrow> bool" where
  "registry_inv r \<longleftrightarrow>
     map_ok (plugins r) \<and> map_ok (deviceIndex r) \<and>
     (\<forall>(n, p) \<in> set (plugins r). n \<noteq> [] \<and> Name (Info p) = n \<and>
        (\<forall>k \<in> set (plugin_keys p). map_get (deviceIndex r) k = Some n)) \<and>
     (\<forall>(k, n) \<in> set (deviceIndex r).
        (case map_get (plugins r) n of None \<Rightarrow> False | Some p \<Rightarrow> k \<in> set (plugin_keys p)))"

lemma claimed_device_None:
  "claimed_device idx ds = None \<longleftrightarrow> (\<forall>d \<in> set ds. map_get idx (device_key d) = None)"
  by (induction ds) (auto split: option.splits)

lemma map_get_index_devices [simp]:
  "map_get (index_devices n ds idx) k =
     (if k \<in> device_key ` set ds then Some n else map_get idx k)"
  by (induction ds arbitrary: idx) auto

lemma map_ok_index_devices [simp]: "map_ok idx \<Longrightarrow> map_ok (index_devices n ds idx)"
  by (induction ds arbitrary: idx) auto

lemma map_ok_unindex_devices [simp]: "map_ok idx \<Longrightarrow> map_ok (unindex_devices n ds idx)"
  by (induction ds arbitrary: idx) auto

lemma map_get_unindex_devices:
  "n \<noteq> [] \<Longrightarrow> map_get (unindex_devices n ds idx) k =
     (if k \<in> device_key ` set ds \<and> map_get idx k = Some n then None else map_get idx k)"
  by (induction ds arbitrary: idx) (auto simp: index_entry_def split: option.splits)

text \<open>The same invariant, read through look-ups only.\<close>

lemma registry_inv_lookup:
  "registry_inv r \<longleftrightarrow>
     map_ok (plugins r) \<and> map_ok (deviceIndex r) \<and>
     (\<forall>n p. map_get (plugins r) n = Some p \<longrightarrow> n \<noteq> [] \<and> Name (Info p) = n \<and>
        (\<forall>k \<in> set (plugin_keys p). map_get (deviceIndex r) k = Some n)) \<and>
     (\<forall>k n. map_get (deviceIndex r) k = Some n \<longrightarrow>
        (\<exists>p. map_get (plugins r) n = Some p \<and> k \<in> set (plugin_keys p)))"
  unfolding registry_inv_def option_case_ex by (simp add: map_ok_ball cong: conj_cong)

lemma registry_invI:
  assumes "map_ok (plugins r)" "map_ok (deviceIndex r)"
    and "\<And>n p. map_get (plugins r) n = Some p \<Longrightarrow> n \<noteq> [] \<and> Name (Info p) = n"
    and "\<And>n p k. map_get (plugins r) n = Some p \<Longrightarrow> k \<in> set (plugin_keys p) \<Longrightarrow>
      map_get (deviceIndex r) k = Some n"
    and "\<And>k n. map_get (deviceIndex r) k = Some n \<Longrightarrow>
      \<exists>p. map_get (plugins r) n = Some p \<and> k \<in> set (plugin_keys p)"
  shows "registry_inv r"
  unfolding registry_inv_lookup using assms by blast

lemma registry_inv_maps:
  assumes "registry_inv r"
  shows "map_ok (plugins r)" "map_ok (deviceIndex r)"
  using assms by (simp_all add: registry_inv_def)

lemma registry_inv_plugin:
  assumes "registry_inv r" "map_get (plugins r) n = Some p"
  shows "n \<noteq> []" "Name (Info p) = n" "k \<in> set (plugin_keys p) \<Longrightarrow> map_get (deviceIndex r) k = Some n"
  using assms unfolding registry_inv_lookup by blast+

lemma registry_inv_index:
  assumes "registry_inv r" "map_get (deviceIndex r) k = Some n"
  obtains p where "map_get (plugins r) n = Some p" "k \<in> set (plugin_keys p)"
  using assms unfolding registry_inv_lookup by blast

lemma registry_inv_New [simp]: "registry_inv NewRegistry"
  by (simp add: registry_inv_def NewRegistry_def)

lemma registry_inv_Clear [simp]: "registry_inv (Clear r)"
  by (simp add: registry_inv_def Clear_def)

lemma set_plugin_keys: "set (plugin_keys p) = device_key ` set (SupportedDevices (Info p))"
  by (simp add: plugin_keys_def)

text \<open>When \<open>Register\<close> succeeds, and what it then does to the two maps.\<close>

definition can_register :: "plugin option \<Rightarrow> registry \<Rightarrow> bool" where
  "can_register p r =
     (case p of None \<Rightarrow> False
      | Some p \<Rightarrow> Name (Info p) \<noteq> [] \<and> map_get (plugins r) (Name (Info p)) = None \<and>
          list_all (\<lambda>k. map_get (deviceIndex r) k = None) (plugin_keys p))"

lemma Register_fails: "\<not> can_register p r \<Longrightarrow> fst (Register p r) \<noteq> None \<and> snd (Register p r) = r"
  by (auto simp: Register_def can_register_def Let_def list_all_iff set_plugin_keys
      claimed_device_None split: option.splits)

lemma Register_succeeds:
  assumes "can_register (Some p) r"
  shows "Register (Some p) r =
    (None, r\<lparr>plugins := map_put (Name (Info p)) p (plugins r),
             deviceIndex := index_devices (Name (Info p)) (SupportedDevices (Info p)) (deviceIndex r)\<rparr>)"
proof -
  have "claimed_device (deviceIndex r) (SupportedDevices (Info p)) = None"
    using assms by (simp add: claimed_device_None can_register_def list_all_iff set_plugin_keys)
  then show ?thesis
    using assms by (simp add: Register_def can_register_def Let_def)
qed

lemma registry_inv_Register_aux:
  assumes inv: "registry_inv r" and can: "can_register (Some p) r"
  shows "registry_inv (r\<lparr>plugins := map_put (Name (Info p)) p (plugins r),
    deviceIndex := index_devices (Name (Info p)) (SupportedDevices (Info p)) (deviceIndex r)\<rparr>)"
    (is "registry_inv ?r")
proof (rule registry_invI)
  have fresh: "map_get (deviceIndex r) k = None" if "k \<in> set (plugin_keys p)" for k
    using that can by (auto simp: can_register_def list_all_iff)
  show "map_ok (plugins ?r)" "map_ok (deviceIndex ?r)"
    using registry_inv_maps [OF inv] by simp_all
  fix n q assume q: "map_get (plugins ?r) n = Some q"
  then show "n \<noteq> [] \<and> Name (Info q) = n"
    using can registry_inv_plugin(1,2) [OF inv] by (auto simp: can_register_def split: if_splits)
  fix k assume "k \<in> set (plugin_keys q)"
  then show "map_get (deviceIndex ?r) k = Some n"
    using q fresh [of k] registry_inv_plugin(3) [OF inv]
    by (auto simp: set_plugin_keys [symmetric] split: if_splits)
next
  fix k n assume "map_get (deviceIndex ?r) k = Some n"
  then show "\<exists>q. map_get (plugins ?r) n = Some q \<and> k \<in> set (plugin_keys q)"
    using can by (auto simp: set_plugin_keys [symmetric] can_register_def split: if_splits
        elim: registry_inv_index [OF inv])
qed

lemma registry_inv_Register: "registry_inv r \<Longrightarrow> registry_inv (snd (Register p r))"
  by (cases "can_register p r"; cases p)
    (simp_all add: Register_fails Register_succeeds registry_inv_Register_aux can_register_def)

lemma registry_inv_Unregister_aux:
  assumes inv: "registry_inv r" and name: "map_get (plugins r) name = Some p"
  shows "registry_inv (r\<lparr>deviceIndex := unindex_devices name (SupportedDevices (Info p)) (deviceIndex r),
    plugins := map_del name (plugins r)\<rparr>)" (is "registry_inv ?r")
proof (rule registry_invI)
  note p = registry_inv_plugin [OF inv name]
  show "map_ok (plugins ?r)" "map_ok (deviceIndex ?r)"
    using registry_inv_maps [OF inv] by simp_all
  fix n q assume q: "map_get (plugins ?r) n = Some q"
  then have q': "map_get (plugins r) n = Some q" "n \<noteq> name" by (auto split: if_splits)
  show "n \<noteq> [] \<and> Name (Info q) = n"
    using registry_inv_plugin(1,2) [OF inv q'(1)] by simp
  fix k assume "k \<in> set (plugin_keys q)"
  then show "map_get (deviceIndex ?r) k = Some n"
    using q' registry_inv_plugin(3) [OF inv q'(1)] p(1) by (simp add: map_get_unindex_devices)
next
  note p = registry_inv_plugin [OF inv name]
  fix k n assume "map_get (deviceIndex ?r) k = Some n"
  then have kn: "map_get (deviceIndex r) k = Some n" "\<not> (k \<in> set (plugin_keys p) \<and> n = name)"
    using p(1) by (auto simp: map_get_unindex_devices set_plugin_keys split: if_splits)
  then show "\<exists>q. map_get (plugins ?r) n = Some q \<and> k \<in> set (plugin_keys q)"
    using name by (auto elim!: registry_inv_index [OF inv])
qed

lemma registry_inv_Unregister: "registry_inv r \<Longrightarrow> registry_inv (snd (Unregister name r))"
  by (auto simp: Unregister_def registry_inv_Unregister_aux split: option.splits)

section \<open>Abstract registry and refinement\<close>

text \<open>The abstract registry is a finite map from names to plugins. A plugin can be added when its
  name is new and non-empty and no registered plugin supports one of its devices.\<close>

definition spec_register ::
    "plugin option \<Rightarrow> (string \<rightharpoonup> plugin) \<Rightarrow> (string \<rightharpoonup> plugin) option" where
  "spec_register p m =
     (case p of None \<Rightarrow> None
      | Some p \<Rightarrow>
          if Name (Info p) \<noteq> [] \<and> m (Name (Info p)) = None \<and>
             (\<forall>q \<in> ran m. set (plugin_keys q) \<inter> set (plugin_keys p) = {})
          then Some (m(Name (Info p) \<mapsto> p)) else None)"

definition spec_unregister :: "string \<Rightarrow> (string \<rightharpoonup> plugin) \<Rightarrow> (string \<rightharpoonup> plugin) option" where
  "spec_unregister n m = (if m n = None then None else Some (m(n := None)))"

datatype reg_op = OpRegister "plugin option" | OpUnregister string | OpClear

text \<open>A history of calls. A call that fails leaves the abstract registry as it is.\<close>

fun spec_step :: "reg_op \<Rightarrow> (string \<rightharpoonup> plugin) \<Rightarrow> (string \<rightharpoonup> plugin)" where
  "spec_step (OpRegister p) m = (case spec_register p m of None \<Rightarrow> m | Some m' \<Rightarrow> m')"
| "spec_step (OpUnregister n) m = (case spec_unregister n m of None \<Rightarrow> m | Some m' \<Rightarrow> m')"
| "spec_step OpClear m = Map.empty"

fun reg_step :: "reg_op \<Rightarrow> registry \<Rightarrow> registry" where
  "reg_step (OpRegister p) r = snd (Register p r)"
| "reg_step (OpUnregister n) r = snd (Unregister n r)"
| "reg_step OpClear r = Clear r"

text \<open>What clients of the registry rely on: an invariant, a step function that refines the abstract
  one, and look-ups by name and by device that agree with the abstract map.\<close>

locale plugin_directory =
  fixes inv :: "'s \<Rightarrow> bool"
    and start :: 's
    and step :: "reg_op \<Rightarrow> 's \<Rightarrow> 's"
    and get :: "string \<Rightarrow> 's \<Rightarrow> plugin option"
    and find_dev :: "string \<Rightarrow> 's \<Rightarrow> plugin option"
  assumes inv_start: "inv start"
    and inv_step: "inv s \<Longrightarrow> inv (step a s)"
    and get_start: "get n start = None"
    and get_step: "inv s \<Longrightarrow> get n (step a s) = spec_step a (\<lambda>n. get n s) n"
    and find_dev_iff: "inv s \<Longrightarrow> find_dev d s = Some p \<longleftrightarrow>
      (\<exists>n. get n s = Some p \<and> to_lower d \<in> set (plugin_keys p))"
begin

lemma inv_history: "inv (fold step ops start)"
proof -
  have "inv s \<Longrightarrow> inv (fold step ops s)" for s
    by (induction ops arbitrary: s) (auto intro: inv_step)
  then show ?thesis by (simp add: inv_start)
qed

lemma get_history: "(\<lambda>n. get n (fold step ops start)) = fold spec_step ops Map.empty"
proof -
  have "inv s \<Longrightarrow> (\<lambda>n. get n s) = m \<Longrightarrow> (\<lambda>n. get n (fold step ops s)) = fold spec_step ops m" for s m
  proof (induction ops arbitrary: s m)
    case (Cons a ops)
    have "(\<lambda>n. get n (step a s)) = spec_step a m"
      using Cons.prems by (auto simp: get_step)
    then show ?case
      using Cons.IH [of "step a s" "spec_step a m"] Cons.prems inv_step by simp
  qed simp
  moreover have "(\<lambda>n. get n start) = Map.empty"
    using get_start by auto
  ultimately show ?thesis
    using inv_start by blast
qed

text \<open>At most one plugin answers for a device, whatever the history.\<close>

lemma find_dev_history:
  "find_dev d (fold step ops start) = Some p \<longleftrightarrow>
     (\<exists>n. fold spec_step ops Map.empty n = Some p \<and> to_lower d \<in> set (plugin_keys p))"
  using find_dev_iff [OF inv_history] get_history by (metis (no_types, lifting))

end

lemma index_free_iff:
  assumes "registry_inv r"
  shows "(\<forall>q \<in> ran (\<lambda>n. Registry_Get n r). set (plugin_keys q) \<inter> set (plugin_keys x) = {}) \<longleftrightarrow>
    list_all (\<lambda>k. map_get (deviceIndex r) k = None) (plugin_keys x)"
proof -
  have "(\<exists>q \<in> ran (\<lambda>n. Registry_Get n r). k \<in> set (plugin_keys q)) \<longleftrightarrow>
      map_get (deviceIndex r) k \<noteq> None" for k
    using registry_inv_plugin(3) [OF assms] registry_inv_index [OF assms]
    by (auto simp: ran_def Registry_Get_def) (metis option.distinct(1))+
  then show ?thesis
    unfolding list_all_iff by (metis (no_types, lifting) disjoint_iff)
qed

lemma spec_register_Get:
  assumes "registry_inv r"
  shows "spec_register p (\<lambda>n. Registry_Get n r) =
    (if can_register p r then Some ((\<lambda>n. Registry_Get n r)(Name (Info (the p)) \<mapsto> the p)) else None)"
  using index_free_iff [OF assms]
  by (auto simp: spec_register_def can_register_def Registry_Get_def split: option.splits)

text \<open>A registration either happens as the abstract registry says, or is refused with an error and
  changes nothing.\<close>

lemma Register_cases:
  assumes "registry_inv r"
  shows "case spec_register p (\<lambda>n. Registry_Get n r) of
      Some m \<Rightarrow> fst (Register p r) = None \<and> (\<lambda>n. Registry_Get n (snd (Register p r))) = m
    | None \<Rightarrow> fst (Register p r) \<noteq> None \<and> snd (Register p r) = r"
proof (cases "can_register p r")
  case True
  then obtain x where "p = Some x" by (cases p) (auto simp: can_register_def)
  with True show ?thesis
    unfolding spec_register_Get [OF assms] by (auto simp: Register_succeeds Registry_Get_def)
next
  case False
  then show ?thesis by (simp add: spec_register_Get [OF assms] Register_fails)
qed

lemma Get_Register:
  assumes "registry_inv r"
  shows "Registry_Get n (snd (Register p r)) = spec_step (OpRegister p) (\<lambda>n. Registry_Get n r) n"
  using Register_cases [OF assms, of p] by (auto split: option.splits)

lemma Get_Unregister:
  "Registry_Get n (snd (Unregister m r)) = spec_step (OpUnregister m) (\<lambda>n. Registry_Get n r) n"
  by (auto simp: Unregister_def spec_unregister_def Registry_Get_def split: option.splits)

lemma GetByDeviceID_iff:
  assumes "registry_inv r"
  shows "GetByDeviceID d r = Some p \<longleftrightarrow>
    (\<exists>n. Registry_Get n r = Some p \<and> to_lower d \<in> set (plugin_keys p))"
  using registry_inv_plugin(3) [OF assms] registry_inv_index [OF assms]
  by (auto simp: GetByDeviceID_def Registry_Get_def split: option.splits) (metis option.inject)+

interpretation reg: plugin_directory registry_inv NewRegistry reg_step Registry_Get GetByDeviceID
proof unfold_locales
  fix s a n assume inv: "registry_inv s"
  show "registry_inv (reg_step a s)"
    using inv by (cases a) (simp_all add: registry_inv_Register registry_inv_Unregister)
  show "Registry_Get n (reg_step a s) = spec_step a (\<lambda>n. Registry_Get n s) n"
    using inv
    by (cases a) (simp_all only: reg_step.simps Get_Register Get_Unregister,
        simp add: Registry_Get_def Clear_def)
qed (simp_all add: GetByDeviceID_iff, simp add: Registry_Get_def NewRegistry_def)

section \<open>Ordered listings\<close>

lemma inv_names: "registry_inv r \<Longrightarrow> (n, p) \<in> set (plugins r) \<Longrightarrow> Name (Info p) = n"
  by (auto simp: registry_inv_def)

lemma map_Name_plugins: "registry_inv r \<Longrightarrow> map (\<lambda>p. Name (Info p)) (map snd (plugins r)) = map fst (plugins r)"
  using inv_names by auto

lemma inj_on_Name:
  assumes "registry_inv r"
  shows "inj_on (\<lambda>p. Name (Info p)) (set (map snd (plugins r)))"
proof -
  have "distinct (map (\<lambda>p. Name (Info p)) (map snd (plugins r)))"
    unfolding map_Name_plugins [OF assms] by (rule registry_inv_maps(1) [OF assms])
  then show ?thesis by (simp only: distinct_map)
qed

text \<open>All listings filter the stored plugins and sort them by name; a different iteration order of
  the map does not change the result.\<close>

lemma sort_by_name_perm:
  assumes "registry_inv r" "mset (plugins r') = mset (plugins r)"
  shows "sort_by_name (filter P (map snd (plugins r'))) = sort_by_name (filter P (map snd (plugins r)))"
  unfolding sort_by_name_def
proof (rule sort_key_perm)
  have "mset (map snd (plugins r')) = mset (map snd (plugins r))"
    using assms(2) by simp
  then show "mset (filter P (map snd (plugins r'))) = mset (filter P (map snd (plugins r)))"
    by (metis mset_filter)
  have "set (plugins r') = set (plugins r)"
    using assms(2) by (rule mset_eq_setD)
  then show "inj_on (\<lambda>p. Name (Info p)) (set (filter P (map snd (plugins r'))))"
    using inj_on_Name [OF assms(1)] by (auto intro: inj_on_subset)
qed

lemmas registry_listings = Registry_List_def GetByCapability_def GetNetworkPlugins_def
  GetStoragePlugins_def GetSecurityPlugins_def

lemma Registry_List_names:
  assumes "registry_inv r"
  shows "map (\<lambda>p. Name (Info p)) (Registry_List r) = ListNames r"
proof -
  have "mset (map (\<lambda>p. Name (Info p)) (Registry_List r)) = mset (map fst (plugins r))"
    using map_Name_plugins [OF assms]
    by (metis Registry_List_def mset_map mset_sort sort_by_name_def)
  moreover have "sorted (map (\<lambda>p. Name (Info p)) (Registry_List r))"
    by (simp add: Registry_List_def sort_by_name_def)
  ultimately show ?thesis
    unfolding ListNames_def by (metis properties_for_sort)
qed

section \<open>Properties\<close>

definition sample_plugin :: "string \<Rightarrow> string \<Rightarrow> plugin" where
  "sample_plugin n d = \<lparr>Info = \<lparr>Name = n, Vendor = n, Version = ''1.0.0'', Description = n,
     SupportedDevices = [\<lparr>VendorID = ''15B3'', DeviceID = d, IdDescription = n\<rparr>],
     Capabilities = [CapabilityNetworking]\<rparr>,
     is_NetworkPlugin = True, is_StoragePlugin = False, is_SecurityPlugin = False\<rparr>"

lemmas sample_simps = sample_plugin_def NewRegistry_def Register_def Unregister_def Registry_Get_def
  GetByDeviceID_def device_key_def PCIDeviceID_String_def to_lower_def lower_char_def
  plugin_keys_def

text \<open>C1: Whatever sequence of \<open>Register\<close>, \<open>Unregister\<close> and \<open>Clear\<close> calls is made on a new registry,
  successful or not, the device index and the plugin map stay consistent, and \<open>Get\<close> answers exactly
  as the abstract map in which a call is applied when, and only when, its preconditions hold.\<close>

theorem registry_refines_spec:
  "registry_inv (fold reg_step ops NewRegistry) \<and>
   (\<lambda>n. Registry_Get n (fold reg_step ops NewRegistry)) = fold spec_step ops Map.empty"
  using reg.inv_history reg.get_history by blast

text \<open>C2: After any history, \<open>GetByDeviceID\<close> returns a plugin exactly when that plugin is registered
  and supports the device, up to letter case; so no device is ever answered by two plugins, and none
  by a plugin that was unregistered.\<close>

theorem GetByDeviceID_exact:
  "GetByDeviceID d (fold reg_step ops NewRegistry) = Some p \<longleftrightarrow>
     (\<exists>n. fold spec_step ops Map.empty n = Some p \<and>
          (\<exists>id \<in> set (SupportedDevices (Info p)). to_lower (PCIDeviceID_String id) = to_lower d))"
  unfolding reg.find_dev_history by (auto simp: plugin_keys_def device_key_def image_iff) metis+

text \<open>C3: Registration is all or nothing: after any history, \<open>Register\<close> succeeds exactly when the
  plugin is not nil, its name is new and not empty, and no registered plugin claims one of its
  devices, and then adds just that plugin; otherwise it reports an error and the registry, index
  included, is left exactly as it was.\<close>

theorem Register_all_or_nothing:
  "let r = fold reg_step ops NewRegistry in
   (case spec_register p (fold spec_step ops Map.empty) of
      Some m \<Rightarrow> fst (Register p r) = None \<and> (\<lambda>n. Registry_Get n (snd (Register p r))) = m
    | None \<Rightarrow> fst (Register p r) \<noteq> None \<and> snd (Register p r) = r)"
  using Register_cases [OF reg.inv_history, of p ops] unfolding reg.get_history Let_def .

text \<open>C4: Registering a plugin and unregistering it again brings back every answer the registry gave
  before, by name and by device.\<close>

theorem Unregister_undoes_Register:
  assumes "registry_inv r" "Register (Some p) r = (None, r')"
  shows "fst (Unregister (Name (Info p)) r') = None \<and>
    (\<forall>n. Registry_Get n (snd (Unregister (Name (Info p)) r')) = Registry_Get n r) \<and>
    (\<forall>d. GetByDeviceID d (snd (Unregister (Name (Info p)) r')) = GetByDeviceID d r)"
proof -
  have can: "can_register (Some p) r"
    using assms(2) Register_fails [of "Some p" r] by auto
  have r': "r' = snd (Register (Some p) r)" using assms(2) by simp
  let ?u = "snd (Unregister (Name (Info p)) r')"
  have get: "Registry_Get n ?u = Registry_Get n r" for n
    using can by (auto simp: r' Register_succeeds [OF can] Unregister_def Registry_Get_def can_register_def)
  have "registry_inv ?u"
    using assms(1) by (simp add: r' registry_inv_Register registry_inv_Unregister)
  then have "GetByDeviceID d ?u = Some q \<longleftrightarrow> GetByDeviceID d r = Some q" for d q
    using assms(1) by (simp add: GetByDeviceID_iff get)
  then have "GetByDeviceID d ?u = GetByDeviceID d r" for d
    by (metis option.exhaust)
  with get show ?thesis
    by (simp add: r' Register_succeeds [OF can] Unregister_def)
qed

theorem Unregister_undoes_Register_witness:
  "let r = snd (Register (Some (sample_plugin ''intel'' ''1453'')) NewRegistry);
       r' = snd (Register (Some (sample_plugin ''nvidia'' ''A2D6'')) r)
   in fst (Register (Some (sample_plugin ''nvidia'' ''A2D6'')) r) = None \<and>
      fst (Unregister ''nvidia'' r') = None \<and>
      GetByDeviceID ''15b3:a2d6'' r' = Some (sample_plugin ''nvidia'' ''A2D6'') \<and>
      GetByDeviceID ''15b3:a2d6'' (snd (Unregister ''nvidia'' r')) = None"
proof -
  let ?r = "snd (Register (Some (sample_plugin ''intel'' ''1453'')) NewRegistry)"
  let ?p = "sample_plugin ''nvidia'' ''A2D6''"
  have "registry_inv ?r" by (simp add: registry_inv_Register)
  moreover have ok: "fst (Register (Some ?p) ?r) = None" by (simp add: sample_simps)
  then have "Register (Some ?p) ?r = (None, snd (Register (Some ?p) ?r))" by (metis prod.collapse)
  ultimately have "fst (Unregister (Name (Info ?p)) (snd (Register (Some ?p) ?r))) = None \<and>
      GetByDeviceID ''15b3:a2d6'' (snd (Unregister (Name (Info ?p)) (snd (Register (Some ?p) ?r)))) =
      GetByDeviceID ''15b3:a2d6'' ?r"
    using Unregister_undoes_Register by blast
  moreover have "Name (Info ?p) = ''nvidia''" by (simp add: sample_plugin_def)
  moreover have "GetByDeviceID ''15b3:a2d6'' ?r = None" by (simp add: sample_simps)
  moreover have "GetByDeviceID ''15b3:a2d6'' (snd (Register (Some ?p) ?r)) = Some ?p"
    by code_simp
  ultimately show ?thesis using ok by (simp add: Let_def)
qed

text \<open>\<open>List\<close>, \<open>ListNames\<close> and the three interface listings do not depend on the order in which Go
  ranges over the plugin map, and \<open>List\<close> gives the plugins in strictly increasing order of the
  names \<open>ListNames\<close> returns.\<close>

theorem listings_deterministic:
  assumes "registry_inv r" "mset (plugins r') = mset (plugins r)"
  shows "Registry_List r' = Registry_List r \<and> ListNames r' = ListNames r \<and>
    GetByCapability cap r' = GetByCapability cap r \<and> GetNetworkPlugins r' = GetNetworkPlugins r \<and>
    GetStoragePlugins r' = GetStoragePlugins r \<and> GetSecurityPlugins r' = GetSecurityPlugins r \<and>
    map (\<lambda>p. Name (Info p)) (Registry_List r) = ListNames r \<and>
    sorted_wrt (<) (ListNames r) \<and> Registry_Count r = length (Registry_List r)"
proof -
  have "ListNames r' = ListNames r"
    using assms(2) unfolding ListNames_def
    by (metis mset_map properties_for_sort sorted_sort mset_sort)
  moreover have "sorted_wrt (<) (ListNames r)"
    using registry_inv_maps(1) [OF assms(1)] by (simp add: ListNames_def strict_sorted_iff)
  moreover have "Registry_Count r = length (Registry_List r)"
    by (simp add: Registry_Count_def Registry_List_def sort_by_name_def)
  ultimately show ?thesis
    using sort_by_name_perm [OF assms, of "\<lambda>_. True"] sort_by_name_perm [OF assms]
      Registry_List_names [OF assms(1)]
    by (simp add: registry_listings)
qed

theorem listings_deterministic_witness:
  "let a = sample_plugin ''b'' ''1''; b = sample_plugin ''a'' ''2'';
       r = fold reg_step [OpRegister (Some a), OpRegister (Some b)] NewRegistry;
       r' = r\<lparr>plugins := rev (plugins r)\<rparr>
   in plugins r' \<noteq> plugins r \<and> Registry_List r' = Registry_List r \<and> Registry_List r = [b, a]"
proof -
  let ?a = "sample_plugin ''b'' ''1''" and ?b = "sample_plugin ''a'' ''2''"
  let ?r = "fold reg_step [OpRegister (Some ?a), OpRegister (Some ?b)] NewRegistry"
  have "registry_inv ?r" by (rule reg.inv_history)
  then have "Registry_List (?r\<lparr>plugins := rev (plugins ?r)\<rparr>) = Registry_List ?r"
    using listings_deterministic [of ?r "?r\<lparr>plugins := rev (plugins ?r)\<rparr>"] by simp
  moreover have "plugins ?r = [(''b'', ?a), (''a'', ?b)]"
    by (simp add: sample_simps)
  moreover from this have "Registry_List ?r = [?b, ?a]"
    by (simp add: Registry_List_def sort_by_name_def sample_plugin_def)
  ultimately show ?thesis by (simp add: Let_def)
qed

end
