(* ===== verification/Pci_Scan.thy ===== *)
theory Pci_Scan
  imports Plugin_Types
begin

text \<open>
  PCI discovery: the scanner over sysfs (\<open>pkg/plugin/pci/scanner.go\<close>) and the loop shared by all
  vendor plugins (\<open>pkg/plugin/scan.go\<close>). The file system is a parameter: a record of what
  \<open>os.ReadDir\<close>, \<open>os.ReadFile\<close> (also \<open>os.Open\<close>, which is only read from) and \<open>os.Readlink\<close> answer
  for each path. Paths are joined with a slash; the code joins clean components only.
\<close>

section \<open>File system\<close>

datatype entry_type = DirEntry | SymlinkEntry | FileEntry

record dir_entry =
  ent_Name :: string
  ent_Type :: entry_type

definition IsDir :: "dir_entry \<Rightarrow> bool" where
  "IsDir e = (ent_Type e = DirEntry)"

record filesys =
  ReadDir :: "string \<Rightarrow> dir_entry list result"
  ReadFile :: "string \<Rightarrow> string result"
  Readlink :: "string \<Rightarrow> string result"

definition path_join :: "string \<Rightarrow> string \<Rightarrow> string" where
  "path_join a b = a @ ''/'' @ b"

text \<open>\<open>filepath.Base\<close>.\<close>

definition path_base :: "string \<Rightarrow> string" where
  "path_base p =
     (if p = [] then ''.''
      else let q = rev (dropWhile (\<lambda>c. c = CHR ''/'') (rev p))
           in if q = [] then ''/'' else last (split_on (CHR ''/'') q))"

text \<open>\<open>bufio.Scanner\<close> with the default split function: lines without their terminator, a final
  empty line is not reported, and scanning stops at a line that does not fit the 64 KiB buffer.\<close>

definition drop_cr :: "string \<Rightarrow> string" where
  "drop_cr s = (if s \<noteq> [] \<and> last s = CHR 0x0D then butlast s else s)"

definition scan_lines :: "string \<Rightarrow> string list" where
  "scan_lines s =
     (let ls = split_on (CHR 0x0A) s;
          ls = (if last ls = [] then butlast ls else ls)
      in map drop_cr (takeWhile (\<lambda>l. length l < 65536) ls))"

section \<open>Scanner (pci/scanner.go)\<close>

record pci_device =
  Address :: string
  pciVendorID :: string
  pciDeviceID :: string
  SubsystemVendorID :: string
  SubsystemDeviceID :: string
  Class :: string
  Driver :: string
  NumaNode :: string

record Scanner =
  sysfsPath :: string

definition NewScanner :: Scanner where
  "NewScanner = \<lparr>sysfsPath = ''/sys/bus/pci/devices''\<rparr>"

definition readFile :: "filesys \<Rightarrow> string \<Rightarrow> string result" where
  "readFile fs path = (case ReadFile fs path of Inl err \<Rightarrow> Inl err | Inr data \<Rightarrow> Inr data)"

definition readHexFile :: "filesys \<Rightarrow> string \<Rightarrow> string result" where
  "readHexFile fs path =
     (case readFile fs path of
        Inl err \<Rightarrow> Inl err
      | Inr content \<Rightarrow> Inr (trim_prefix (trim_space content) ''0x''))"

text \<open>Every attribute of the device is read on its own; one that cannot be read stays empty.\<close>

definition or_empty :: "string result \<Rightarrow> string" where
  "or_empty r = (case r of Inl _ \<Rightarrow> [] | Inr v \<Rightarrow> v)"

definition readDevice :: "filesys \<Rightarrow> Scanner \<Rightarrow> string \<Rightarrow> pci_device result" where
  "readDevice fs s address =
     (let devicePath = path_join (sysfsPath s) address;
          hex = (\<lambda>f. or_empty (readHexFile fs (path_join devicePath f)))
      in Inr \<lparr>Address = address,
              pciVendorID = hex ''vendor'',
              pciDeviceID = hex ''device'',
              SubsystemVendorID = hex ''subsystem_vendor'',
              SubsystemDeviceID = hex ''subsystem_device'',
              Class = hex ''class'',
              Driver = (case Readlink fs (path_join devicePath ''driver'') of
                          Inl _ \<Rightarrow> [] | Inr target \<Rightarrow> path_base target),
              NumaNode = (case readFile fs (path_join devicePath ''numa_node'') of
                            Inl _ \<Rightarrow> [] | Inr numaNode \<Rightarrow> trim_space numaNode)\<rparr>)"

fun scan_entries :: "filesys \<Rightarrow> Scanner \<Rightarrow> dir_entry list \<Rightarrow> pci_device list" where
  "scan_entries fs s [] = []"
| "scan_entries fs s (entry # rest) =
     (if \<not> IsDir entry then scan_entries fs s rest
      else (case readDevice fs s (ent_Name entry) of
              Inl err \<Rightarrow> scan_entries fs s rest
            | Inr device \<Rightarrow> device # scan_entries fs s rest))"

definition ScanAll :: "filesys \<Rightarrow> Scanner \<Rightarrow> pci_device list result" where
  "ScanAll fs s =
     (case ReadDir fs (sysfsPath s) of
        Inl err \<Rightarrow> Inl (Errorf ''failed to read PCI devices directory: %w'' [FWrap err])
      | Inr entries \<Rightarrow> Inr (scan_entries fs s entries))"

definition ScanByVendorDevice ::
    "filesys \<Rightarrow> Scanner \<Rightarrow> string \<Rightarrow> string \<Rightarrow> pci_device list result" where
  "ScanByVendorDevice fs s vendorID deviceID =
     (case ScanAll fs s of
        Inl err \<Rightarrow> Inl err
      | Inr allDevices \<Rightarrow>
          Inr (filter (\<lambda>device. pciVendorID device = vendorID \<and> pciDeviceID device = deviceID)
                 allDevices))"

definition GetDeviceInfo :: "filesys \<Rightarrow> Scanner \<Rightarrow> string \<Rightarrow> pci_device result" where
  "GetDeviceInfo fs s address =
     (case readDevice fs s address of
        Inl err \<Rightarrow> Inl (Errorf ''failed to read device %s: %w'' [FStr address, FWrap err])
      | Inr device \<Rightarrow> Inr device)"

fun find_serial :: "string list \<Rightarrow> string option" where
  "find_serial [] = None"
| "find_serial (line # rest) =
     (if contains line ''SN''
      then (case cut line ''SN'' of
              Some (_, after) \<Rightarrow> Some (trim_space after)
            | None \<Rightarrow> find_serial rest)
      else find_serial rest)"

definition GetSerialNumber :: "filesys \<Rightarrow> Scanner \<Rightarrow> string \<Rightarrow> string result" where
  "GetSerialNumber fs s address =
     (let vpdPath = path_join (path_join (sysfsPath s) address) ''vpd'' in
      case ReadFile fs vpdPath of
        Inl err \<Rightarrow> Inl (Errorf ''failed to open VPD: %w'' [FWrap err])
      | Inr content \<Rightarrow>
          (case find_serial (scan_lines content) of
             Some serial \<Rightarrow> Inr serial
           | None \<Rightarrow> Inl (Errorf ''serial number not found in VPD'' [])))"

definition GetFirmwareVersion :: "Scanner \<Rightarrow> string \<Rightarrow> string result" where
  "GetFirmwareVersion s address =
     Inl (Errorf ''firmware version must be queried via vendor-specific API'' [])"

section \<open>The shared discovery loop (scan.go)\<close>

definition scanned_device ::
    "filesys \<Rightarrow> string \<Rightarrow> string \<Rightarrow> string \<Rightarrow> PCIDeviceID \<Rightarrow> pci_device \<Rightarrow> Device" where
  "scanned_device fs vendorName idPrefix serialPrefix supportedDevice pciDev =
     zero_Device
       \<lparr>dev_ID := sprintf ''%s-%s'' [idPrefix, Address pciDev],
        dev_PCIAddress := Address pciDev,
        dev_Vendor := vendorName,
        dev_Model := IdDescription supportedDevice,
        dev_Healthy := True,
        dev_Metadata :=
          [(''pci_vendor_id'', pciVendorID pciDev),
           (''pci_device_id'', pciDeviceID pciDev),
           (''pci_class'', Class pciDev),
           (''device_type'', IdDescription supportedDevice),
           (''driver'', Driver pciDev),
           (''numa_node'', NumaNode pciDev)],
        dev_SerialNumber :=
          (case GetSerialNumber fs NewScanner (Address pciDev) of
             Inr serialNum \<Rightarrow> serialNum
           | Inl _ \<Rightarrow> sprintf ''%s-%s'' [serialPrefix, Address pciDev])\<rparr>"

fun scan_supported ::
    "filesys \<Rightarrow> PCIDeviceID list \<Rightarrow> string \<Rightarrow> string \<Rightarrow> string \<Rightarrow> Device list" where
  "scan_supported fs [] vendorName idPrefix serialPrefix = []"
| "scan_supported fs (supportedDevice # rest) vendorName idPrefix serialPrefix =
     (case ScanByVendorDevice fs NewScanner (VendorID supportedDevice) (DeviceID supportedDevice) of
        Inl err \<Rightarrow> []
      | Inr pciDevices \<Rightarrow>
          map (scanned_device fs vendorName idPrefix serialPrefix supportedDevice) pciDevices)
     @ scan_supported fs rest vendorName idPrefix serialPrefix"

definition ScanDevices ::
    "filesys \<Rightarrow> PCIDeviceID list \<Rightarrow> string \<Rightarrow> string \<Rightarrow> string \<Rightarrow> Device list result" where
  "ScanDevices fs supportedDevices vendorName idPrefix serialPrefix =
     Inr (scan_supported fs supportedDevices vendorName idPrefix serialPrefix)"

section \<open>Lemmas\<close>

lemma scan_entries_conv:
  "scan_entries fs s es = map (\<lambda>e. projr (readDevice fs s (ent_Name e))) (filter IsDir es)"
  by (induction es) (auto simp: readDevice_def Let_def)

lemma Address_readDevice [simp]: "Address (projr (readDevice fs s a)) = a"
  by (simp add: readDevice_def Let_def)

lemma addresses_scan_entries:
  "map Address (scan_entries fs s es) = map ent_Name (filter IsDir es)"
  by (simp add: scan_entries_conv)

lemma distinct_scan_addresses:
  "distinct (map ent_Name es) \<Longrightarrow> distinct (map Address (scan_entries fs s es))"
  by (simp add: addresses_scan_entries distinct_map_filter)

lemma ScanByVendorDevice_cases:
  "ScanByVendorDevice fs s v d =
     (case ReadDir fs (sysfsPath s) of
        Inl err \<Rightarrow> Inl (Errorf ''failed to read PCI devices directory: %w'' [FWrap err])
      | Inr es \<Rightarrow> Inr (filter (\<lambda>x. pciVendorID x = v \<and> pciDeviceID x = d) (scan_entries fs s es)))"
  by (simp add: ScanByVendorDevice_def ScanAll_def split: sum.splits)

text \<open>The whole discovery as one comprehension over the directory listing.\<close>

lemma scan_supported_conv:
  assumes "ReadDir fs (sysfsPath NewScanner) = Inr es"
  shows "scan_supported fs sds vn ip sp = concat (map (\<lambda>sd.
    map (scanned_device fs vn ip sp sd)
      (filter (\<lambda>x. pciVendorID x = VendorID sd \<and> pciDeviceID x = DeviceID sd)
        (scan_entries fs NewScanner es))) sds)"
  by (induction sds) (simp_all add: ScanByVendorDevice_cases assms)

lemma scan_supported_error:
  "ReadDir fs (sysfsPath NewScanner) = Inl err \<Longrightarrow> scan_supported fs sds vn ip sp = []"
  by (induction sds) (simp_all add: ScanByVendorDevice_cases)

lemma dev_ID_scanned [simp]: "dev_ID (scanned_device fs vn ip sp sd x) = ip @ ''-'' @ Address x"
  and dev_PCIAddress_scanned [simp]: "dev_PCIAddress (scanned_device fs vn ip sp sd x) = Address x"
  by (simp_all add: scanned_device_def)

lemma find_serial_first:
  "find_serial ls =
     map_option (\<lambda>l. trim_space (snd (the (cut l ''SN'')))) (List.find (\<lambda>l. sublist ''SN'' l) ls)"
  by (induction ls) (auto simp: contains_def cut_None split: option.splits)

lemma distinct_scan_supported:
  assumes rd: "ReadDir fs (sysfsPath NewScanner) = Inr es"
    and names: "distinct (map ent_Name es)"
    and sds: "distinct (map (\<lambda>sd. (VendorID sd, DeviceID sd)) sds)"
  shows "distinct (map dev_ID (scan_supported fs sds vn ip sp))"
  using sds
proof (induction sds)
  case (Cons sd sds)
  let ?all = "scan_entries fs NewScanner es"
  let ?sel = "\<lambda>sd. filter (\<lambda>x. pciVendorID x = VendorID sd \<and> pciDeviceID x = DeviceID sd) ?all"
  have addr: "distinct (map Address ?all)"
    using names by (rule distinct_scan_addresses)
  have "map dev_ID (map (scanned_device fs vn ip sp sd) (?sel sd)) =
      map (\<lambda>a. ip @ ''-'' @ a) (map Address (?sel sd))"
    by simp
  moreover have "distinct (map Address (?sel sd))"
    using addr by (rule distinct_map_filter)
  ultimately have first: "distinct (map dev_ID (map (scanned_device fs vn ip sp sd) (?sel sd)))"
    by (simp add: distinct_map inj_on_def)
  have disj: False
    if i: "i \<in> dev_ID ` set (map (scanned_device fs vn ip sp sd) (?sel sd))"
      "i \<in> dev_ID ` set (scan_supported fs sds vn ip sp)" for i
  proof -
    from i(1) obtain x where x: "x \<in> set (?sel sd)" "i = ip @ ''-'' @ Address x" by auto
    from i(2) obtain sd' y where y: "sd' \<in> set sds" "y \<in> set (?sel sd')" "i = ip @ ''-'' @ Address y"
      unfolding scan_supported_conv [OF rd] by auto
    have "x = y"
      using addr x y by (auto simp: distinct_map dest: inj_onD)
    with x y have "(VendorID sd, DeviceID sd) = (VendorID sd', DeviceID sd')" by auto
    with Cons.prems y(1) show False by (auto simp: image_iff)
  qed
  then have "dev_ID ` set (map (scanned_device fs vn ip sp sd) (?sel sd)) \<inter>
      dev_ID ` set (scan_supported fs sds vn ip sp) = {}"
    by blast
  moreover have "scan_supported fs (sd # sds) vn ip sp =
      map (scanned_device fs vn ip sp sd) (?sel sd) @ scan_supported fs sds vn ip sp"
    by (simp add: ScanByVendorDevice_cases rd)
  ultimately show ?case
    using first Cons by (simp only: map_append distinct_append set_map) simp
qed simp

section \<open>Properties\<close>

text \<open>Device discovery never fails. When the PCI directory can be listed it returns exactly one
  device for every directory entry whose vendor and device files match a supported identifier, and
  two discovered devices never share an ID.\<close>

theorem ScanDevices_exact:
  assumes rd: "ReadDir fs ''/sys/bus/pci/devices'' = Inr es"
    and names: "distinct (map ent_Name es)"
    and sds: "distinct (map (\<lambda>sd. (VendorID sd, DeviceID sd)) sds)"
  shows "\<exists>devs. ScanDevices fs sds vn ip sp = Inr devs \<and> distinct (map dev_ID devs) \<and>
    (\<forall>a. (ip @ ''-'' @ a \<in> set (map dev_ID devs)) \<longleftrightarrow>
       (\<exists>e \<in> set es. IsDir e \<and> ent_Name e = a \<and>
          (let x = projr (readDevice fs NewScanner a) in
           \<exists>sd \<in> set sds. pciVendorID x = VendorID sd \<and> pciDeviceID x = DeviceID sd)))"
proof (intro exI conjI)
  have rd': "ReadDir fs (sysfsPath NewScanner) = Inr es"
    using rd by (simp add: NewScanner_def)
  show "ScanDevices fs sds vn ip sp = Inr (scan_supported fs sds vn ip sp)"
    by (simp add: ScanDevices_def)
  show "distinct (map dev_ID (scan_supported fs sds vn ip sp))"
    by (rule distinct_scan_supported [OF rd' names sds])
  show "\<forall>a. (ip @ ''-'' @ a \<in> set (map dev_ID (scan_supported fs sds vn ip sp))) \<longleftrightarrow>
      (\<exists>e \<in> set es. IsDir e \<and> ent_Name e = a \<and>
          (let x = projr (readDevice fs NewScanner a) in
           \<exists>sd \<in> set sds. pciVendorID x = VendorID sd \<and> pciDeviceID x = DeviceID sd))"
    by (force simp: scan_supported_conv [OF rd'] scan_entries_conv Let_def)
qed

text \<open>Symbolic links are not directory entries for \<open>os.ReadDir\<close>: on a sysfs in which every entry
  of \<open>/sys/bus/pci/devices\<close> is a link, as on Linux, the scan is empty whatever hardware is present.\<close>

theorem ScanAll_ignores_symlinks:
  assumes "ReadDir fs (sysfsPath s) = Inr es" "list_all (\<lambda>e. ent_Type e = SymlinkEntry) es"
  shows "ScanAll fs s = Inr []"
  using assms by (simp add: ScanAll_def scan_entries_conv IsDir_def list_all_iff)

text \<open>A small sysfs with one BlueField-2 function.\<close>

definition sample_sysfs :: "entry_type \<Rightarrow> filesys" where
  "sample_sysfs t =
     \<lparr>ReadDir = (\<lambda>p. if p = ''/sys/bus/pci/devices''
         then Inr [\<lparr>ent_Name = ''0000:03:00.0'', ent_Type = t\<rparr>] else Inl (ExtError ''no such file'')),
      ReadFile = (\<lambda>p. if p = ''/sys/bus/pci/devices/0000:03:00.0/vendor'' then Inr ''0x15b3 ''
         else if p = ''/sys/bus/pci/devices/0000:03:00.0/device'' then Inr ''0xa2d6 ''
         else Inl (ExtError ''no such file'')),
      Readlink = (\<lambda>p. Inl (ExtError ''no such file''))\<rparr>"

definition sample_ids :: "PCIDeviceID list" where
  "sample_ids = [\<lparr>VendorID = ''15b3'', DeviceID = ''a2d6'', IdDescription = ''BlueField-2''\<rparr>]"

theorem ScanDevices_exact_witness:
  "\<exists>devs. ScanDevices (sample_sysfs DirEntry) sample_ids ''NVIDIA'' ''nvidia'' ''NV'' = Inr devs \<and>
     ''nvidia-0000:03:00.0'' \<in> set (map dev_ID devs)"
proof -
  have "ReadDir (sample_sysfs DirEntry) ''/sys/bus/pci/devices'' =
      Inr [\<lparr>ent_Name = ''0000:03:00.0'', ent_Type = DirEntry\<rparr>]"
    by (simp add: sample_sysfs_def)
  from ScanDevices_exact [OF this, of sample_ids "''NVIDIA''" "''nvidia''" "''NV''"]
  obtain devs where devs: "ScanDevices (sample_sysfs DirEntry) sample_ids ''NVIDIA'' ''nvidia'' ''NV'' = Inr devs"
    and mem: "\<And>a. (''nvidia'' @ ''-'' @ a \<in> set (map dev_ID devs)) \<longleftrightarrow>
       (\<exists>e \<in> set [\<lparr>ent_Name = ''0000:03:00.0'', ent_Type = DirEntry\<rparr>]. IsDir e \<and> ent_Name e = a \<and>
          (let x = projr (readDevice (sample_sysfs DirEntry) NewScanner a) in
           \<exists>sd \<in> set sample_ids. pciVendorID x = VendorID sd \<and> pciDeviceID x = DeviceID sd))"
    by (auto simp: sample_ids_def)
  have "''nvidia'' @ ''-'' @ ''0000:03:00.0'' \<in> set (map dev_ID devs)"
    unfolding mem by code_simp
  with devs show ?thesis by auto
qed

theorem ScanAll_ignores_symlinks_witness:
  "ScanAll (sample_sysfs SymlinkEntry) NewScanner = Inr [] \<and>
   map_sum id (map pciVendorID) (ScanAll (sample_sysfs DirEntry) NewScanner) = Inr [''15b3'']"
proof
  show "ScanAll (sample_sysfs SymlinkEntry) NewScanner = Inr []"
    by (rule ScanAll_ignores_symlinks [where es = "[\<lparr>ent_Name = ''0000:03:00.0'', ent_Type = SymlinkEntry\<rparr>]"])
      (simp_all add: sample_sysfs_def NewScanner_def)
  show "map_sum id (map pciVendorID) (ScanAll (sample_sysfs DirEntry) NewScanner) = Inr [''15b3'']"
    by code_simp
qed

end
