(* ===== verification/Mac_Address.thy ===== *)
theory Mac_Address
  imports Go_Errors
begin

text \<open>
  Hardware addresses as package \<open>net\<close> has them: \<open>net.ParseMAC\<close> and \<open>HardwareAddr.String\<close>, which the
  bridge port conversions use in both directions.
\<close>

type_synonym HardwareAddr = "8 word list"

definition hex_val :: "char \<Rightarrow> nat option" where
  "hex_val c =
     (if CHR ''0'' \<le> c \<and> c \<le> CHR ''9'' then Some (of_char c - 48)
      else if CHR ''a'' \<le> c \<and> c \<le> CHR ''f'' then Some (of_char c - 87)
      else if CHR ''A'' \<le> c \<and> c \<le> CHR ''F'' then Some (of_char c - 55)
      else None)"

definition xtoi2 :: "char \<Rightarrow> char \<Rightarrow> 8 word option" where
  "xtoi2 a b = (case (hex_val a, hex_val b) of
      (Some x, Some y) \<Rightarrow> Some (of_nat (16 * x + y)) | _ \<Rightarrow> None)"

text \<open>Pairs of digits separated by \<open>e\<close>; groups of four digits separated by dots.\<close>

fun mac_pairs :: "char \<Rightarrow> string \<Rightarrow> HardwareAddr option" where
  "mac_pairs e [a, b] = map_option (\<lambda>x. [x]) (xtoi2 a b)"
| "mac_pairs e (a # b # c # rest) =
     (if c \<noteq> e then None
      else (case (xtoi2 a b, mac_pairs e rest) of
              (Some x, Some xs) \<Rightarrow> Some (x # xs) | _ \<Rightarrow> None))"
| "mac_pairs e s = None"

fun mac_quads :: "string \<Rightarrow> HardwareAddr option" where
  "mac_quads [a, b, c, d] =
     (case (xtoi2 a b, xtoi2 c d) of (Some x, Some y) \<Rightarrow> Some [x, y] | _ \<Rightarrow> None)"
| "mac_quads (a # b # c # d # e # rest) =
     (if e \<noteq> CHR ''.'' then None
      else (case (xtoi2 a b, xtoi2 c d, mac_quads rest) of
              (Some x, Some y, Some xs) \<Rightarrow> Some (x # y # xs) | _ \<Rightarrow> None))"
| "mac_quads s = None"

definition mac_sizes :: "nat list" where
  "mac_sizes = [6, 8, 20]"

definition mac_error :: "string \<Rightarrow> go_error" where
  "mac_error s = Errorf ''address %s: invalid MAC address'' [FStr s]"

definition ParseMAC :: "string \<Rightarrow> HardwareAddr result" where
  "ParseMAC s =
     (if length s < 14 then Inl (mac_error s)
      else let hw = (if s ! 2 = CHR '':'' \<or> s ! 2 = CHR ''-'' then mac_pairs (s ! 2) s
                     else if s ! 4 = CHR ''.'' then mac_quads s else None)
           in (case hw of
                 Some xs \<Rightarrow> if length xs \<in> set mac_sizes then Inr xs else Inl (mac_error s)
               | None \<Rightarrow> Inl (mac_error s)))"

definition hex2 :: "8 word \<Rightarrow> string" where
  "hex2 w = [hex_digit (unat w div 16), hex_digit (unat w mod 16)]"

definition HardwareAddr_String :: "HardwareAddr \<Rightarrow> string" where
  "HardwareAddr_String hw = join '':'' (map hex2 hw)"

lemma hex_val_digit [simp]: "d < 16 \<Longrightarrow> hex_val (hex_digit d) = Some d"
  by (auto simp: hex_val_def hex_digit_def less_eq_char_def)

lemma unat_byte: "unat (w :: 8 word) < 256"
  using unsigned_less [of w, where 'a = nat] by simp

lemma xtoi2_hex: "xtoi2 (hex_digit (unat w div 16)) (hex_digit (unat w mod 16)) = Some w"
proof -
  have "unat w div 16 < 16" using unat_byte [of w] by (simp add: less_mult_imp_div_less)
  then show ?thesis by (simp add: xtoi2_def)
qed

lemma mac_pairs_String: "hw \<noteq> [] \<Longrightarrow> mac_pairs (CHR '':'') (HardwareAddr_String hw) = Some hw"
proof (induction hw)
  case (Cons w hw)
  then show ?case
    by (cases hw) (simp_all add: HardwareAddr_String_def hex2_def xtoi2_hex)
qed simp

lemma length_HardwareAddr_String: "length (HardwareAddr_String hw) = 3 * length hw - 1"
proof (induction hw)
  case (Cons w hw)
  then show ?case by (cases hw) (simp_all add: HardwareAddr_String_def hex2_def)
qed (simp add: HardwareAddr_String_def)

lemma HardwareAddr_String_sep:
  assumes "1 < length hw"
  shows "HardwareAddr_String hw ! 2 = CHR '':''"
proof -
  obtain w v rest where "hw = w # v # rest"
    using assms by (cases hw; cases "tl hw") auto
  then show ?thesis by (simp add: HardwareAddr_String_def hex2_def)
qed

lemma ParseMAC_String:
  assumes "length hw \<in> set mac_sizes"
  shows "ParseMAC (HardwareAddr_String hw) = Inr hw"
proof -
  have len: "6 \<le> length hw" using assms by (auto simp: mac_sizes_def)
  then have "hw \<noteq> []" "1 < length hw" by auto
  then show ?thesis
    using assms len
    by (simp add: ParseMAC_def length_HardwareAddr_String HardwareAddr_String_sep mac_pairs_String)
qed

lemma ParseMAC_size: "ParseMAC s = Inr hw \<Longrightarrow> length hw \<in> set mac_sizes"
  by (auto simp: ParseMAC_def Let_def split: if_splits option.splits)

end
