(* ===== verification/Opi_Client.thy ===== *)
theory Opi_Client
  imports Mac_Address
begin

text \<open>
  The gRPC client of the OPI bridge (\<open>pkg/opi/client.go\<close>). The bridge is code outside the
  repository: \<open>opi_service\<close> is the record of its procedures, each of which takes the connection, the
  deadline of the call and a request, and steps the state \<open>'r\<close> of the bridge. \<open>world\<close> adds the gRPC
  connections that are open, so that a client that is made and never closed can be seen.

  VRF and SVI calls have no caller in the repository and are left out.
\<close>

section \<open>Messages\<close>

datatype BridgePortType = TYPE_UNSPECIFIED | TYPE_ACCESS | TYPE_TRUNK

definition BridgePortType_String :: "BridgePortType \<Rightarrow> string" where
  "BridgePortType_String t = (case t of
      TYPE_UNSPECIFIED \<Rightarrow> ''BRIDGE_PORT_TYPE_UNSPECIFIED''
    | TYPE_ACCESS \<Rightarrow> ''BRIDGE_PORT_TYPE_ACCESS''
    | TYPE_TRUNK \<Rightarrow> ''BRIDGE_PORT_TYPE_TRUNK'')"

record BridgePortSpec =
  MacAddress :: HardwareAddr
  Ptype :: BridgePortType
  LogicalBridges :: "string list"

record opi_BridgePort =
  obp_Name :: string
  obp_Spec :: "BridgePortSpec option"

record CreateBridgePortRequest =
  BridgePortId :: string
  cbp_BridgePort :: "opi_BridgePort option"

record LogicalBridge =
  lb_Name :: string
  lb_VlanId :: "32 word"

record lc_Device =
  lcd_ID :: string
  lcd_Health :: string
  lcd_Node :: string

type_synonym DeviceListResponse = "(string, lc_Device) gomap"

section \<open>Connections\<close>

datatype connectivity = Idle | Connecting | Ready | TransientFailure | ConnShutdown

record grpc_conn =
  cc_id :: nat
  cc_target :: string

type_synonym deadline = "int option"

record 'r opi_service =
  svc_Init :: "grpc_conn \<Rightarrow> deadline \<Rightarrow> bool \<times> string \<Rightarrow> 'r \<Rightarrow> (string \<times> int) result \<times> 'r"
  svc_GetDevices :: "grpc_conn \<Rightarrow> deadline \<Rightarrow> 'r \<Rightarrow> DeviceListResponse result \<times> 'r"
  svc_SetNumVfs :: "grpc_conn \<Rightarrow> deadline \<Rightarrow> 32 word \<Rightarrow> 'r \<Rightarrow> 32 word result \<times> 'r"
  svc_Ping :: "grpc_conn \<Rightarrow> deadline \<Rightarrow> 'r \<Rightarrow> go_error option \<times> 'r"
  svc_CreateBridgePort ::
    "grpc_conn \<Rightarrow> deadline \<Rightarrow> CreateBridgePortRequest \<Rightarrow> 'r \<Rightarrow> opi_BridgePort result \<times> 'r"
  svc_GetBridgePort :: "grpc_conn \<Rightarrow> deadline \<Rightarrow> string \<Rightarrow> 'r \<Rightarrow> opi_BridgePort result \<times> 'r"
  svc_ListBridgePorts :: "grpc_conn \<Rightarrow> deadline \<Rightarrow> 'r \<Rightarrow> opi_BridgePort list result \<times> 'r"
  svc_DeleteBridgePort :: "grpc_conn \<Rightarrow> deadline \<Rightarrow> string \<Rightarrow> 'r \<Rightarrow> go_error option \<times> 'r"
  svc_CreateLogicalBridge ::
    "grpc_conn \<Rightarrow> deadline \<Rightarrow> string \<times> 32 word \<Rightarrow> 'r \<Rightarrow> LogicalBridge result \<times> 'r"
  svc_GetLogicalBridge :: "grpc_conn \<Rightarrow> deadline \<Rightarrow> string \<Rightarrow> 'r \<Rightarrow> LogicalBridge result \<times> 'r"
  svc_DeleteLogicalBridge :: "grpc_conn \<Rightarrow> deadline \<Rightarrow> string \<Rightarrow> 'r \<Rightarrow> go_error option \<times> 'r"

record 'r world =
  open_conns :: "nat list"
  next_conn :: nat
  remote :: 'r

text \<open>What a call meets: the time, the caller's context deadline, whether an end point can be dialled,
  the state of each connection, and the service.\<close>

record 'r opi_env =
  env_now :: int
  env_deadline :: deadline
  env_dial :: "string \<Rightarrow> go_error option"
  env_state :: "nat \<Rightarrow> connectivity"
  env_svc :: "'r opi_service"

section \<open>Client\<close>

definition second :: int where
  "second = 1000000000"

record clientOptions =
  dialTimeout :: int
  callTimeout :: int
  maxRetries :: int
  retryInterval :: int

type_synonym ClientOption = "clientOptions \<Rightarrow> clientOptions"

definition WithDialTimeout :: "int \<Rightarrow> ClientOption" where
  "WithDialTimeout d = (\<lambda>o'. o'\<lparr>dialTimeout := d\<rparr>)"

definition WithCallTimeout :: "int \<Rightarrow> ClientOption" where
  "WithCallTimeout d = (\<lambda>o'. o'\<lparr>callTimeout := d\<rparr>)"

definition WithRetry :: "int \<Rightarrow> int \<Rightarrow> ClientOption" where
  "WithRetry n interval = (\<lambda>o'. o'\<lparr>maxRetries := n, retryInterval := interval\<rparr>)"

record Client =
  cl_conn :: grpc_conn
  cl_endpoint :: string
  cl_options :: clientOptions

definition default_options :: clientOptions where
  "default_options = \<lparr>dialTimeout = 10 * second, callTimeout = 30 * second, maxRetries = 3,
     retryInterval = 1 * second\<rparr>"

definition newClientWithConn :: "grpc_conn \<Rightarrow> string \<Rightarrow> clientOptions \<Rightarrow> Client" where
  "newClientWithConn conn endpoint options =
     \<lparr>cl_conn = conn, cl_endpoint = endpoint, cl_options = options\<rparr>"

definition NewClientWithConn :: "grpc_conn \<Rightarrow> Client" where
  "NewClientWithConn conn = newClientWithConn conn ''mock'' default_options"

definition NewClient ::
    "'r opi_env \<Rightarrow> string \<Rightarrow> ClientOption list \<Rightarrow> 'r world \<Rightarrow> Client result \<times> 'r world" where
  "NewClient env endpoint opts w =
     (let options = fold (\<lambda>opt o'. opt o') opts default_options in
      case env_dial env endpoint of
        Some err \<Rightarrow>
          (Inl (Errorf ''failed to create OPI client for endpoint %s: %w'' [FStr endpoint, FWrap err]), w)
      | None \<Rightarrow>
          (Inr (newClientWithConn \<lparr>cc_id = next_conn w, cc_target = endpoint\<rparr> endpoint options),
           w\<lparr>open_conns := next_conn w # open_conns w, next_conn := next_conn w + 1\<rparr>))"

text \<open>\<open>conn.Close\<close> of package \<open>grpc\<close>: closing a closed connection is an error.\<close>

definition Close :: "Client \<Rightarrow> 'r world \<Rightarrow> go_error option \<times> 'r world" where
  "Close c w =
     (if cc_id (cl_conn c) \<in> set (open_conns w)
      then (None, w\<lparr>open_conns := removeAll (cc_id (cl_conn c)) (open_conns w)\<rparr>)
      else (Some (ExtError ''grpc: the client connection is closing''), w))"

definition IsConnected :: "'r opi_env \<Rightarrow> Client \<Rightarrow> bool" where
  "IsConnected env c =
     (let state = env_state env (cc_id (cl_conn c)) in state = Ready \<or> state = Idle)"

text \<open>\<open>context.WithTimeout\<close> never moves a deadline that comes earlier.\<close>

definition withTimeout :: "'r opi_env \<Rightarrow> Client \<Rightarrow> deadline" where
  "withTimeout env c =
     (if callTimeout (cl_options c) > 0
      then let d = env_now env + callTimeout (cl_options c)
           in (case env_deadline env of None \<Rightarrow> Some d | Some d' \<Rightarrow> Some (min d' d))
      else env_deadline env)"

text \<open>One remote call: the procedure steps the remote state, everything else stays.\<close>

definition rpc :: "('r \<Rightarrow> 'a \<times> 'r) \<Rightarrow> 'r world \<Rightarrow> 'a \<times> 'r world" where
  "rpc f w = (let (a, r) = f (remote w) in (a, w\<lparr>remote := r\<rparr>))"

definition Lifecycle_Init ::
    "'r opi_env \<Rightarrow> Client \<Rightarrow> bool \<times> string \<Rightarrow> 'r world \<Rightarrow> (string \<times> int) result \<times> 'r world" where
  "Lifecycle_Init env c req = rpc (svc_Init (env_svc env) (cl_conn c) (withTimeout env c) req)"

definition Lifecycle_GetDevices ::
    "'r opi_env \<Rightarrow> Client \<Rightarrow> 'r world \<Rightarrow> DeviceListResponse result \<times> 'r world" where
  "Lifecycle_GetDevices env c = rpc (svc_GetDevices (env_svc env) (cl_conn c) (withTimeout env c))"

definition Lifecycle_SetNumVfs ::
    "'r opi_env \<Rightarrow> Client \<Rightarrow> 32 word \<Rightarrow> 'r world \<Rightarrow> 32 word result \<times> 'r world" where
  "Lifecycle_SetNumVfs env c cnt =
     rpc (svc_SetNumVfs (env_svc env) (cl_conn c) (withTimeout env c) cnt)"

definition Lifecycle_Ping :: "'r opi_env \<Rightarrow> Client \<Rightarrow> 'r world \<Rightarrow> go_error option \<times> 'r world" where
  "Lifecycle_Ping env c = rpc (svc_Ping (env_svc env) (cl_conn c) (withTimeout env c))"

definition Network_CreateBridgePort ::
    "'r opi_env \<Rightarrow> Client \<Rightarrow> CreateBridgePortRequest \<Rightarrow> 'r world \<Rightarrow> opi_BridgePort result \<times> 'r world" where
  "Network_CreateBridgePort env c req =
     rpc (svc_CreateBridgePort (env_svc env) (cl_conn c) (withTimeout env c) req)"

definition Network_GetBridgePort ::
    "'r opi_env \<Rightarrow> Client \<Rightarrow> string \<Rightarrow> 'r world \<Rightarrow> opi_BridgePort result \<times> 'r world" where
  "Network_GetBridgePort env c name =
     rpc (svc_GetBridgePort (env_svc env) (cl_conn c) (withTimeout env c) name)"

definition Network_ListBridgePorts ::
    "'r opi_env \<Rightarrow> Client \<Rightarrow> 'r world \<Rightarrow> opi_BridgePort list result \<times> 'r world" where
  "Network_ListBridgePorts env c =
     rpc (svc_ListBridgePorts (env_svc env) (cl_conn c) (withTimeout env c))"

definition Network_DeleteBridgePort ::
    "'r opi_env \<Rightarrow> Client \<Rightarrow> string \<Rightarrow> 'r world \<Rightarrow> go_error option \<times> 'r world" where
  "Network_DeleteBridgePort env c name =
     rpc (svc_DeleteBridgePort (env_svc env) (cl_conn c) (withTimeout env c) name)"

definition Network_CreateLogicalBridge ::
    "'r opi_env \<Rightarrow> Client \<Rightarrow> string \<times> 32 word \<Rightarrow> 'r world \<Rightarrow> LogicalBridge result \<times> 'r world" where
  "Network_CreateLogicalBridge env c req =
     rpc (svc_CreateLogicalBridge (env_svc env) (cl_conn c) (withTimeout env c) req)"

definition Network_GetLogicalBridge ::
    "'r opi_env \<Rightarrow> Client \<Rightarrow> string \<Rightarrow> 'r world \<Rightarrow> LogicalBridge result \<times> 'r world" where
  "Network_GetLogicalBridge env c name =
     rpc (svc_GetLogicalBridge (env_svc env) (cl_conn c) (withTimeout env c) name)"

definition Network_DeleteLogicalBridge ::
    "'r opi_env \<Rightarrow> Client \<Rightarrow> string \<Rightarrow> 'r world \<Rightarrow> go_error option \<times> 'r world" where
  "Network_DeleteLogicalBridge env c name =
     rpc (svc_DeleteLogicalBridge (env_svc env) (cl_conn c) (withTimeout env c) name)"

lemmas opi_calls = Lifecycle_Init_def Lifecycle_GetDevices_def Lifecycle_SetNumVfs_def
  Lifecycle_Ping_def Network_CreateBridgePort_def Network_GetBridgePort_def
  Network_ListBridgePorts_def Network_DeleteBridgePort_def Network_CreateLogicalBridge_def
  Network_GetLogicalBridge_def Network_DeleteLogicalBridge_def

section \<open>Lemmas\<close>

text \<open>A remote call leaves the connections alone.\<close>

abbreviation same_conns :: "'r world \<Rightarrow> 'r world \<Rightarrow> bool" where
  "same_conns w w' \<equiv> open_conns w' = open_conns w \<and> next_conn w' = next_conn w"

lemma rpc_same_conns [simp]:
  "open_conns (snd (rpc f w)) = open_conns w" "next_conn (snd (rpc f w)) = next_conn w"
  by (simp_all add: rpc_def split: prod.splits)

lemma rpc_conns: "rpc f w = (a, w') \<Longrightarrow> same_conns w w'"
  by (metis rpc_same_conns snd_conv)

text \<open>Handles of open connections are distinct and below the next one to be given out.\<close>

definition world_ok :: "'r world \<Rightarrow> bool" where
  "world_ok w \<longleftrightarrow> distinct (open_conns w) \<and> list_all (\<lambda>n. n < next_conn w) (open_conns w)"

lemma world_ok_NewClient: "world_ok w \<Longrightarrow> world_ok (snd (NewClient env e opts w))"
  by (auto simp: world_ok_def NewClient_def Let_def list_all_iff split: option.splits)

lemma world_ok_Close: "world_ok w \<Longrightarrow> world_ok (snd (Close c w))"
  by (auto simp: world_ok_def Close_def list_all_iff distinct_removeAll)

text \<open>Every call of a client with a positive call timeout carries a deadline within that timeout.\<close>

lemma withTimeout_bounded:
  assumes "callTimeout (cl_options c) > 0"
  obtains d where "withTimeout env c = Some d" "d \<le> env_now env + callTimeout (cl_options c)"
  using assms by (cases "env_deadline env") (auto simp: withTimeout_def Let_def)

lemma NewClient_callTimeout:
  "NewClient env e [] w = (Inr c, w') \<Longrightarrow> callTimeout (cl_options c) = 30 * second"
  by (auto simp: NewClient_def newClientWithConn_def default_options_def split: option.splits)

end
