(* ===== verification/Vendor_Plugins.thy ===== *)
theory Vendor_Plugins
  imports Registry Pci_Scan Opi_Client
begin

text \<open>
  The registry plugins of Intel, Marvell, xSight and MangoBoost (\<open>pkg/plugin/intel\<close>, \<open>marvell\<close>,
  \<open>xsight\<close>, \<open>mangoboost\<close>). The four files carry the same code with different constants; the shared
  bodies are the definitions \<open>opi_*\<close>, and each vendor has its own definitions on top of them.
  MangoBoost has no OPI client, so its \<open>Initialize\<close>, \<open>Shutdown\<close> and \<open>HealthCheck\<close> are separate.

  Every method holds the plugin's mutex, so it is one step on the plugin's state and the world. The
  contract they share is the locale \<open>vendor_lifecycle\<close>, interpreted for each vendor.
\<close>

section \<open>State\<close>

record plugin_state =
  config :: PluginConfig
  initialized :: bool
  opiEndpoint :: string
  devices :: "Device list"
  opiClient :: "Client option"

definition zero_config :: PluginConfig where
  "zero_config = \<lparr>OPIEndpoint = [], NetworkEndpoint = [], LogLevel = 0, VendorConfig = []\<rparr>"

text \<open>\<open>New()\<close>: everything but the logger has its zero value.\<close>

definition plugin_New :: plugin_state where
  "plugin_New = \<lparr>config = zero_config, initialized = False, opiEndpoint = [], devices = [],
     opiClient = None\<rparr>"

type_synonym 'r pstate = "plugin_state \<times> 'r world"

section \<open>Shared bodies\<close>

definition opi_Initialize ::
    "'r opi_env \<Rightarrow> PluginConfig \<Rightarrow> 'r pstate \<Rightarrow> go_error option \<times> 'r pstate" where
  "opi_Initialize env cfg = (\<lambda>(p, w).
     if initialized p then (Some ErrAlreadyInitialized, (p, w))
     else
       let endpoint = (if OPIEndpoint cfg = [] then DefaultOPIEndpoint else OPIEndpoint cfg);
           p = p\<lparr>config := cfg, opiEndpoint := endpoint\<rparr>
       in (case NewClient env endpoint [] w of
             (Inl err, w') \<Rightarrow>
               (Some (Errorf ''failed to create OPI client: %w'' [FWrap err]),
                (p\<lparr>opiClient := None\<rparr>, w'))
           | (Inr c, w') \<Rightarrow> (None, (p\<lparr>opiClient := Some c, initialized := True\<rparr>, w'))))"

definition opi_Shutdown :: "'r pstate \<Rightarrow> go_error option \<times> 'r pstate" where
  "opi_Shutdown = (\<lambda>(p, w).
     if \<not> initialized p then (None, (p, w))
     else
       let w = (case opiClient p of None \<Rightarrow> w | Some c \<Rightarrow> snd (Close c w))
       in (None, (p\<lparr>initialized := False, devices := []\<rparr>, w)))"

definition opi_HealthCheck :: "'r opi_env \<Rightarrow> 'r pstate \<Rightarrow> go_error option \<times> 'r pstate" where
  "opi_HealthCheck env = (\<lambda>(p, w).
     if \<not> initialized p then (Some ErrNotInitialized, (p, w))
     else
       (case opiClient p of
          None \<Rightarrow> (None, (p, w))
        | Some c \<Rightarrow>
            if \<not> IsConnected env c then (Some (Errorf ''OPI client not connected'' []), (p, w))
            else (None, (p, snd (Lifecycle_Ping env c w)))))"

definition scan_DiscoverDevices ::
    "PCIDeviceID list \<Rightarrow> string \<Rightarrow> string \<Rightarrow> string \<Rightarrow> filesys \<Rightarrow> 'r pstate \<Rightarrow>
     Device list result \<times> 'r pstate" where
  "scan_DiscoverDevices ids vendorName idPrefix serialPrefix fs = (\<lambda>(p, w).
     if \<not> initialized p then (Inl ErrNotInitialized, (p, w))
     else
       (case ScanDevices fs ids vendorName idPrefix serialPrefix of
          Inl err \<Rightarrow> (Inl (Errorf ''PCI scan failed: %w'' [FWrap err]), (p, w))
        | Inr ds \<Rightarrow> (Inr ds, (p\<lparr>devices := ds\<rparr>, w))))"

definition chassis_inventory :: "string \<Rightarrow> string \<Rightarrow> Device \<Rightarrow> InventoryResponse" where
  "chassis_inventory manufacturer deviceID device =
     \<lparr>inv_DeviceID = deviceID, inv_BIOSVersion = [], inv_BMCVersion = [],
      inv_Chassis = Some \<lparr>ch_Manufacturer = manufacturer, ch_Model = dev_Model device,
        ch_SerialNumber = dev_SerialNumber device\<rparr>,
      inv_CPU = None, inv_Memory = None, inv_NetworkInterfaces = [], inv_StorageDevices = []\<rparr>"

definition cached_GetInventory :: "string \<Rightarrow> string \<Rightarrow> plugin_state \<Rightarrow> InventoryResponse result" where
  "cached_GetInventory manufacturer deviceID p =
     (if \<not> initialized p then Inl ErrNotInitialized
      else (case List.find (\<lambda>d. dev_ID d = deviceID) (devices p) of
              None \<Rightarrow> Inl (NewDeviceError deviceID ''GetInventory'' ErrDeviceNotFound)
            | Some device \<Rightarrow> Inr (chassis_inventory manufacturer deviceID device)))"

text \<open>The body of every network operation these plugins do not offer.\<close>

definition unsupported :: "plugin_state \<Rightarrow> go_error" where
  "unsupported p = (if \<not> initialized p then ErrNotInitialized else ErrNotImplemented)"

section \<open>Intel (intel/ipu.go)\<close>

definition intel_supportedDevices :: "PCIDeviceID list" where
  "intel_supportedDevices =
     [\<lparr>VendorID = ''8086'', DeviceID = ''1453'', IdDescription = ''Intel IPU E2100''\<rparr>,
      \<lparr>VendorID = ''8086'', DeviceID = ''1454'', IdDescription = ''Intel IPU E2100 VF''\<rparr>,
      \<lparr>VendorID = ''8086'', DeviceID = ''1458'', IdDescription = ''Intel NetSec Accelerator''\<rparr>]"

definition intel_Info :: PluginInfo where
  "intel_Info = \<lparr>Name = ''intel'', Vendor = ''Intel'', Version = ''1.0.0'',
     Description = ''Intel IPU/DPU plugin supporting IPU E2100 and NetSec Accelerator hardware'',
     SupportedDevices = intel_supportedDevices, Capabilities = [CapabilityNetworking]\<rparr>"

definition intel_New :: plugin_state where
  "intel_New = plugin_New"

definition intel_Initialize ::
    "'r opi_env \<Rightarrow> PluginConfig \<Rightarrow> 'r pstate \<Rightarrow> go_error option \<times> 'r pstate" where
  "intel_Initialize = opi_Initialize"

definition intel_Shutdown :: "'r pstate \<Rightarrow> go_error option \<times> 'r pstate" where
  "intel_Shutdown = opi_Shutdown"

definition intel_HealthCheck :: "'r opi_env \<Rightarrow> 'r pstate \<Rightarrow> go_error option \<times> 'r pstate" where
  "intel_HealthCheck = opi_HealthCheck"

definition intel_DiscoverDevices :: "filesys \<Rightarrow> 'r pstate \<Rightarrow> Device list result \<times> 'r pstate" where
  "intel_DiscoverDevices = scan_DiscoverDevices intel_supportedDevices ''Intel'' ''intel'' ''INTEL''"

definition intel_GetInventory :: "string \<Rightarrow> plugin_state \<Rightarrow> InventoryResponse result" where
  "intel_GetInventory = cached_GetInventory ''Intel''"

definition intel_CreateBridgePort :: "BridgePortRequest \<Rightarrow> plugin_state \<Rightarrow> BridgePort result" where
  "intel_CreateBridgePort request p = Inl (unsupported p)"

definition intel_DeleteBridgePort :: "string \<Rightarrow> plugin_state \<Rightarrow> go_error option" where
  "intel_DeleteBridgePort portID p = Some (unsupported p)"

definition intel_GetBridgePort :: "string \<Rightarrow> plugin_state \<Rightarrow> BridgePort result" where
  "intel_GetBridgePort portID p = Inl (unsupported p)"

definition intel_ListBridgePorts :: "plugin_state \<Rightarrow> BridgePort list result" where
  "intel_ListBridgePorts p = Inl (unsupported p)"

definition intel_SetVFCount :: "string \<Rightarrow> int \<Rightarrow> plugin_state \<Rightarrow> go_error option" where
  "intel_SetVFCount deviceID cnt p = Some (unsupported p)"

definition intel_GetVFCount :: "string \<Rightarrow> plugin_state \<Rightarrow> int result" where
  "intel_GetVFCount deviceID p = Inl (unsupported p)"

definition intel_CreateNetworkFunction :: "string \<Rightarrow> string \<Rightarrow> plugin_state \<Rightarrow> go_error option" where
  "intel_CreateNetworkFunction inp outp p = Some (unsupported p)"

definition intel_DeleteNetworkFunction :: "string \<Rightarrow> string \<Rightarrow> plugin_state \<Rightarrow> go_error option" where
  "intel_DeleteNetworkFunction inp outp p = Some (unsupported p)"

section \<open>Marvell (marvell/octeon.go)\<close>

definition marvell_supportedDevices :: "PCIDeviceID list" where
  "marvell_supportedDevices =
     [\<lparr>VendorID = ''177d'', DeviceID = ''b903'', IdDescription = ''Marvell Octeon 10 DPU''\<rparr>,
      \<lparr>VendorID = ''177d'', DeviceID = ''b900'', IdDescription = ''Marvell Octeon 10 CN10K''\<rparr>]"

definition marvell_Info :: PluginInfo where
  "marvell_Info = \<lparr>Name = ''marvell'', Vendor = ''Marvell'', Version = ''1.0.0'',
     Description = ''Marvell Octeon DPU plugin supporting Octeon 10 hardware'',
     SupportedDevices = marvell_supportedDevices, Capabilities = [CapabilityNetworking]\<rparr>"

definition marvell_New :: plugin_state where
  "marvell_New = plugin_New"

definition marvell_Initialize ::
    "'r opi_env \<Rightarrow> PluginConfig \<Rightarrow> 'r pstate \<Rightarrow> go_error option \<times> 'r pstate" where
  "marvell_Initialize = opi_Initialize"

definition marvell_Shutdown :: "'r pstate \<Rightarrow> go_error option \<times> 'r pstate" where
  "marvell_Shutdown = opi_Shutdown"

definition marvell_HealthCheck :: "'r opi_env \<Rightarrow> 'r pstate \<Rightarrow> go_error option \<times> 'r pstate" where
  "marvell_HealthCheck = opi_HealthCheck"

definition marvell_DiscoverDevices :: "filesys \<Rightarrow> 'r pstate \<Rightarrow> Device list result \<times> 'r pstate" where
  "marvell_DiscoverDevices = scan_DiscoverDevices marvell_supportedDevices ''Marvell'' ''marvell'' ''MARVELL''"

definition marvell_GetInventory :: "string \<Rightarrow> plugin_state \<Rightarrow> InventoryResponse result" where
  "marvell_GetInventory = cached_GetInventory ''Marvell''"

definition marvell_CreateBridgePort :: "BridgePortRequest \<Rightarrow> plugin_state \<Rightarrow> BridgePort result" where
  "marvell_CreateBridgePort request p = Inl (unsupported p)"

definition marvell_DeleteBridgePort :: "string \<Rightarrow> plugin_state \<Rightarrow> go_error option" where
  "marvell_DeleteBridgePort portID p = Some (unsupported p)"

definition marvell_GetBridgePort :: "string \<Rightarrow> plugin_state \<Rightarrow> BridgePort result" where
  "marvell_GetBridgePort portID p = Inl (unsupported p)"

definition marvell_ListBridgePorts :: "plugin_state \<Rightarrow> BridgePort list result" where
  "marvell_ListBridgePorts p = Inl (unsupported p)"

definition marvell_SetVFCount :: "string \<Rightarrow> int \<Rightarrow> plugin_state \<Rightarrow> go_error option" where
  "marvell_SetVFCount deviceID cnt p = Some (unsupported p)"

definition marvell_GetVFCount :: "string \<Rightarrow> plugin_state \<Rightarrow> int result" where
  "marvell_GetVFCount deviceID p = Inl (unsupported p)"

definition marvell_CreateNetworkFunction :: "string \<Rightarrow> string \<Rightarrow> plugin_state \<Rightarrow> go_error option" where
  "marvell_CreateNetworkFunction inp outp p = Some (unsupported p)"

definition marvell_DeleteNetworkFunction :: "string \<Rightarrow> string \<Rightarrow> plugin_state \<Rightarrow> go_error option" where
  "marvell_DeleteNetworkFunction inp outp p = Some (unsupported p)"

section \<open>xSight (xsight/xsight.go)\<close>

definition xsight_supportedDevices :: "PCIDeviceID list" where
  "xsight_supportedDevices =
     [\<lparr>VendorID = ''1de5'', DeviceID = ''0001'', IdDescription = ''xSight DPU''\<rparr>]"

definition xsight_Info :: PluginInfo where
  "xsight_Info = \<lparr>Name = ''xsight'', Vendor = ''xSight'', Version = ''1.0.0'',
     Description = ''xSight DPU plugin for xSight hardware'',
     SupportedDevices = xsight_supportedDevices, Capabilities = [CapabilityNetworking]\<rparr>"

definition xsight_New :: plugin_state where
  "xsight_New = plugin_New"

definition xsight_Initialize ::
    "'r opi_env \<Rightarrow> PluginConfig \<Rightarrow> 'r pstate \<Rightarrow> go_error option \<times> 'r pstate" where
  "xsight_Initialize = opi_Initialize"

definition xsight_Shutdown :: "'r pstate \<Rightarrow> go_error option \<times> 'r pstate" where
  "xsight_Shutdown = opi_Shutdown"

definition xsight_HealthCheck :: "'r opi_env \<Rightarrow> 'r pstate \<Rightarrow> go_error option \<times> 'r pstate" where
  "xsight_HealthCheck = opi_HealthCheck"

definition xsight_DiscoverDevices :: "filesys \<Rightarrow> 'r pstate \<Rightarrow> Device list result \<times> 'r pstate" where
  "xsight_DiscoverDevices = scan_DiscoverDevices xsight_supportedDevices ''xSight'' ''xsight'' ''XSIGHT''"

definition xsight_GetInventory :: "string \<Rightarrow> plugin_state \<Rightarrow> InventoryResponse result" where
  "xsight_GetInventory = cached_GetInventory ''xSight''"

definition xsight_CreateBridgePort :: "BridgePortRequest \<Rightarrow> plugin_state \<Rightarrow> BridgePort result" where
  "xsight_CreateBridgePort request p = Inl (unsupported p)"

definition xsight_DeleteBridgePort :: "string \<Rightarrow> plugin_state \<Rightarrow> go_error option" where
  "xsight_DeleteBridgePort portID p = Some (unsupported p)"

definition xsight_GetBridgePort :: "string \<Rightarrow> plugin_state \<Rightarrow> BridgePort result" where
  "xsight_GetBridgePort portID p = Inl (unsupported p)"

definition xsight_ListBridgePorts :: "plugin_state \<Rightarrow> BridgePort list result" where
  "xsight_ListBridgePorts p = Inl (unsupported p)"

definition xsight_SetVFCount :: "string \<Rightarrow> int \<Rightarrow> plugin_state \<Rightarrow> go_error option" where
  "xsight_SetVFCount deviceID cnt p = Some (unsupported p)"

definition xsight_GetVFCount :: "string \<Rightarrow> plugin_state \<Rightarrow> int result" where
  "xsight_GetVFCount deviceID p = Inl (unsupported p)"

definition xsight_CreateNetworkFunction :: "string \<Rightarrow> string \<Rightarrow> plugin_state \<Rightarrow> go_error option" where
  "xsight_CreateNetworkFunction inp outp p = Some (unsupported p)"

definition xsight_DeleteNetworkFunction :: "string \<Rightarrow> string \<Rightarrow> plugin_state \<Rightarrow> go_error option" where
  "xsight_DeleteNetworkFunction inp outp p = Some (unsupported p)"

section \<open>MangoBoost (mangoboost/mangoboost.go)\<close>

definition mangoboost_supportedDevices :: "PCIDeviceID list" where
  "mangoboost_supportedDevices =
     [\<lparr>VendorID = ''1f67'', DeviceID = ''0001'', IdDescription = ''MangoBoost DPU''\<rparr>,
      \<lparr>VendorID = ''1f67'', DeviceID = ''0002'', IdDescription = ''MangoBoost DPU Gen2''\<rparr>]"

definition mangoboost_Info :: PluginInfo where
  "mangoboost_Info = \<lparr>Name = ''mangoboost'', Vendor = ''MangoBoost'', Version = ''1.0.0'',
     Description = ''MangoBoost DPU plugin for MangoBoost hardware'',
     SupportedDevices = mangoboost_supportedDevices, Capabilities = [CapabilityNetworking]\<rparr>"

definition mangoboost_New :: plugin_state where
  "mangoboost_New = plugin_New"

definition mangoboost_Initialize ::
    "'r opi_env \<Rightarrow> PluginConfig \<Rightarrow> 'r pstate \<Rightarrow> go_error option \<times> 'r pstate" where
  "mangoboost_Initialize env cfg = (\<lambda>(p, w).
     if initialized p then (Some ErrAlreadyInitialized, (p, w))
     else
       let endpoint = (if OPIEndpoint cfg = [] then DefaultOPIEndpoint else OPIEndpoint cfg)
       in (None, (p\<lparr>config := cfg, opiEndpoint := endpoint, initialized := True\<rparr>, w)))"

definition mangoboost_Shutdown :: "'r pstate \<Rightarrow> go_error option \<times> 'r pstate" where
  "mangoboost_Shutdown = (\<lambda>(p, w).
     if \<not> initialized p then (None, (p, w))
     else (None, (p\<lparr>initialized := False, devices := []\<rparr>, w)))"

definition mangoboost_HealthCheck :: "'r opi_env \<Rightarrow> 'r pstate \<Rightarrow> go_error option \<times> 'r pstate" where
  "mangoboost_HealthCheck env = (\<lambda>(p, w).
     if \<not> initialized p then (Some ErrNotInitialized, (p, w)) else (None, (p, w)))"

definition mangoboost_DiscoverDevices :: "filesys \<Rightarrow> 'r pstate \<Rightarrow> Device list result \<times> 'r pstate" where
  "mangoboost_DiscoverDevices = scan_DiscoverDevices mangoboost_supportedDevices ''MangoBoost'' ''mangoboost'' ''MANGOBOOST''"

definition mangoboost_GetInventory :: "string \<Rightarrow> plugin_state \<Rightarrow> InventoryResponse result" where
  "mangoboost_GetInventory = cached_GetInventory ''MangoBoost''"

definition mangoboost_CreateBridgePort :: "BridgePortRequest \<Rightarrow> plugin_state \<Rightarrow> BridgePort result" where
  "mangoboost_CreateBridgePort request p = Inl (unsupported p)"

definition mangoboost_DeleteBridgePort :: "string \<Rightarrow> plugin_state \<Rightarrow> go_error option" where
  "mangoboost_DeleteBridgePort portID p = Some (unsupported p)"

definition mangoboost_GetBridgePort :: "string \<Rightarrow> plugin_state \<Rightarrow> BridgePort result" where
  "mangoboost_GetBridgePort portID p = Inl (unsupported p)"

definition mangoboost_ListBridgePorts :: "plugin_state \<Rightarrow> BridgePort list result" where
  "mangoboost_ListBridgePorts p = Inl (unsupported p)"

definition mangoboost_SetVFCount :: "string \<Rightarrow> int \<Rightarrow> plugin_state \<Rightarrow> go_error option" where
  "mangoboost_SetVFCount deviceID cnt p = Some (unsupported p)"

definition mangoboost_GetVFCount :: "string \<Rightarrow> plugin_state \<Rightarrow> int result" where
  "mangoboost_GetVFCount deviceID p = Inl (unsupported p)"

definition mangoboost_CreateNetworkFunction :: "string \<Rightarrow> string \<Rightarrow> plugin_state \<Rightarrow> go_error option" where
  "mangoboost_CreateNetworkFunction inp outp p = Some (unsupported p)"

definition mangoboost_DeleteNetworkFunction :: "string \<Rightarrow> string \<Rightarrow> plugin_state \<Rightarrow> go_error option" where
  "mangoboost_DeleteNetworkFunction inp outp p = Some (unsupported p)"

section \<open>Lifecycle contract\<close>

text \<open>A history of calls on one plugin. The environment of a call is the file system it scans and
  the OPI bridge it talks to.\<close>

datatype 'e life_op = DoInitialize 'e PluginConfig | DoShutdown | DoHealthCheck 'e | DoDiscover 'e

fun life_step ::
    "('e \<Rightarrow> PluginConfig \<Rightarrow> 's \<Rightarrow> go_error option \<times> 's) \<Rightarrow> ('s \<Rightarrow> go_error option \<times> 's) \<Rightarrow>
     ('e \<Rightarrow> 's \<Rightarrow> go_error option \<times> 's) \<Rightarrow> ('e \<Rightarrow> 's \<Rightarrow> Device list result \<times> 's) \<Rightarrow>
     'e life_op \<Rightarrow> 's \<Rightarrow> 's" where
  "life_step ini shut health disc (DoInitialize e c) s = snd (ini e c s)"
| "life_step ini shut health disc DoShutdown s = snd (shut s)"
| "life_step ini shut health disc (DoHealthCheck e) s = snd (health e s)"
| "life_step ini shut health disc (DoDiscover e) s = snd (disc e s)"

text \<open>What the daemon relies on: initialisation happens at most once between two shutdowns, nothing
  works before it, and the connections a plugin opens are exactly those it holds while it is
  initialised.\<close>

locale vendor_lifecycle =
  fixes ini :: "'e \<Rightarrow> PluginConfig \<Rightarrow> 's \<Rightarrow> go_error option \<times> 's"
    and shut :: "'s \<Rightarrow> go_error option \<times> 's"
    and health :: "'e \<Rightarrow> 's \<Rightarrow> go_error option \<times> 's"
    and disc :: "'e \<Rightarrow> 's \<Rightarrow> Device list result \<times> 's"
    and is_init :: "'s \<Rightarrow> bool"
    and held :: "'s \<Rightarrow> nat set"
    and conns :: "'s \<Rightarrow> nat set"
    and wok :: "'s \<Rightarrow> bool"
  assumes init_again: "is_init s \<Longrightarrow> ini e c s = (Some ErrAlreadyInitialized, s)"
    and init_result: "\<not> is_init s \<Longrightarrow> is_init (snd (ini e c s)) \<longleftrightarrow> fst (ini e c s) = None"
    and init_conns: "wok s \<Longrightarrow> \<not> is_init s \<Longrightarrow>
      conns (snd (ini e c s)) = conns s \<union> (if fst (ini e c s) = None then held (snd (ini e c s)) else {})"
    and init_new: "wok s \<Longrightarrow> \<not> is_init s \<Longrightarrow> fst (ini e c s) = None \<Longrightarrow> held (snd (ini e c s)) \<inter> conns s = {}"
    and shut_idle: "\<not> is_init s \<Longrightarrow> shut s = (None, s)"
    and shut_done: "fst (shut s) = None" "\<not> is_init (snd (shut s))"
    and shut_conns: "is_init s \<Longrightarrow> conns (snd (shut s)) = conns s - held s"
    and health_idle: "\<not> is_init s \<Longrightarrow> health e s = (Some ErrNotInitialized, s)"
    and disc_idle: "\<not> is_init s \<Longrightarrow> disc e s = (Inl ErrNotInitialized, s)"
    and health_keeps: "is_init (snd (health e s)) = is_init s" "held (snd (health e s)) = held s"
      "conns (snd (health e s)) = conns s"
    and disc_keeps: "is_init (snd (disc e s)) = is_init s" "held (snd (disc e s)) = held s"
      "conns (snd (disc e s)) = conns s"
    and wok_ini: "wok s \<Longrightarrow> wok (snd (ini e c s))"
    and wok_shut: "wok s \<Longrightarrow> wok (snd (shut s))"
    and wok_health: "wok s \<Longrightarrow> wok (snd (health e s))"
    and wok_disc: "wok s \<Longrightarrow> wok (snd (disc e s))"
begin

abbreviation (input) step :: "'e life_op \<Rightarrow> 's \<Rightarrow> 's" where
  "step \<equiv> life_step ini shut health disc"

text \<open>The connections beyond those of the start are the ones the initialised plugin holds.\<close>

lemma step_conns:
  assumes "wok s" "conns s = base \<union> (if is_init s then held s else {})"
    and "is_init s \<Longrightarrow> held s \<inter> base = {}"
  shows "wok (step a s) \<and>
    conns (step a s) = base \<union> (if is_init (step a s) then held (step a s) else {}) \<and>
    (is_init (step a s) \<longrightarrow> held (step a s) \<inter> base = {})"
proof (cases a)
  case (DoInitialize e c)
  then show ?thesis
    using assms init_again [of s e c] init_result [of s e c] init_conns [of s e c]
      init_new [of s e c] wok_ini [of s e c]
    by (cases "is_init s") auto
next
  case DoShutdown
  then show ?thesis
    using assms shut_idle [of s] shut_done [of s] shut_conns [of s] wok_shut [of s]
    by (cases "is_init s") auto
qed (use assms health_keeps disc_keeps wok_health wok_disc in auto)

lemma history_conns:
  assumes "wok s" "conns s = base \<union> (if is_init s then held s else {})"
    and "is_init s \<Longrightarrow> held s \<inter> base = {}"
  shows "conns (fold step ops s) =
    base \<union> (if is_init (fold step ops s) then held (fold step ops s) else {})"
  using assms
proof (induction ops arbitrary: s)
  case (Cons a ops)
  from step_conns [OF Cons.prems, of a] Cons.IH [of "step a s"] show ?case by simp
qed simp

lemma wok_history: "wok s \<Longrightarrow> wok (fold step ops s)"
proof (induction ops arbitrary: s)
  case (Cons a ops)
  then have "wok (step a s)"
    by (cases a) (auto intro: wok_ini wok_shut wok_health wok_disc)
  then show ?case using Cons.IH by simp
qed simp

lemma no_leak:
  assumes "wok s" "\<not> is_init s"
  shows "conns (fold step (ops @ [DoShutdown]) s) = conns s"
proof -
  have "conns (fold step (ops @ [DoShutdown]) s) = conns s \<union>
      (if is_init (fold step (ops @ [DoShutdown]) s)
       then held (fold step (ops @ [DoShutdown]) s) else {})"
    by (rule history_conns) (use assms in auto)
  then show ?thesis using shut_done by simp
qed

end

section \<open>The four plugins keep the contract\<close>

definition held_conns :: "'r pstate \<Rightarrow> nat set" where
  "held_conns s = (case opiClient (fst s) of None \<Rightarrow> {} | Some c \<Rightarrow> {cc_id (cl_conn c)})"

abbreviation open_set :: "'p \<times> 'r world \<Rightarrow> nat set" where
  "open_set s \<equiv> set (open_conns (snd s))"

text \<open>MangoBoost opens nothing.\<close>

definition no_conns :: "'r pstate \<Rightarrow> nat set" where
  "no_conns s = {}"

lemmas shared_bodies = opi_Initialize_def opi_Shutdown_def opi_HealthCheck_def
  scan_DiscoverDevices_def held_conns_def

lemma opi_lifecycle:
  "vendor_lifecycle (\<lambda>(fs, env). opi_Initialize env) opi_Shutdown (\<lambda>(fs, env). opi_HealthCheck env)
     (\<lambda>(fs, env). scan_DiscoverDevices ids v i sp fs) (\<lambda>s. initialized (fst s)) held_conns open_set
     (\<lambda>s. world_ok (snd s))"
  by unfold_locales
    (auto simp: shared_bodies Let_def NewClient_def newClientWithConn_def Close_def ScanDevices_def
      opi_calls world_ok_def list_all_iff distinct_removeAll
      split: prod.splits option.splits sum.splits if_splits intro: less_SucI)

interpretation intel: vendor_lifecycle "\<lambda>(fs, env). intel_Initialize env" intel_Shutdown
    "\<lambda>(fs, env). intel_HealthCheck env" "\<lambda>(fs, env). intel_DiscoverDevices fs"
    "\<lambda>s. initialized (fst s)" held_conns open_set "\<lambda>s. world_ok (snd s)"
  unfolding intel_Initialize_def intel_Shutdown_def intel_HealthCheck_def intel_DiscoverDevices_def
  by (rule opi_lifecycle)

interpretation marvell: vendor_lifecycle "\<lambda>(fs, env). marvell_Initialize env" marvell_Shutdown
    "\<lambda>(fs, env). marvell_HealthCheck env" "\<lambda>(fs, env). marvell_DiscoverDevices fs"
    "\<lambda>s. initialized (fst s)" held_conns open_set "\<lambda>s. world_ok (snd s)"
  unfolding marvell_Initialize_def marvell_Shutdown_def marvell_HealthCheck_def
    marvell_DiscoverDevices_def
  by (rule opi_lifecycle)

interpretation xsight: vendor_lifecycle "\<lambda>(fs, env). xsight_Initialize env" xsight_Shutdown
    "\<lambda>(fs, env). xsight_HealthCheck env" "\<lambda>(fs, env). xsight_DiscoverDevices fs"
    "\<lambda>s. initialized (fst s)" held_conns open_set "\<lambda>s. world_ok (snd s)"
  unfolding xsight_Initialize_def xsight_Shutdown_def xsight_HealthCheck_def xsight_DiscoverDevices_def
  by (rule opi_lifecycle)

interpretation mangoboost: vendor_lifecycle "\<lambda>(fs, env). mangoboost_Initialize env"
    mangoboost_Shutdown "\<lambda>(fs, env). mangoboost_HealthCheck env"
    "\<lambda>(fs, env). mangoboost_DiscoverDevices fs"
    "\<lambda>s. initialized (fst s)" no_conns open_set "\<lambda>s. world_ok (snd s)"
  by unfold_locales
    (auto simp: mangoboost_Initialize_def mangoboost_Shutdown_def mangoboost_HealthCheck_def
      mangoboost_DiscoverDevices_def scan_DiscoverDevices_def no_conns_def Let_def ScanDevices_def
      split: prod.splits)

text \<open>The steps of each plugin, for histories.\<close>

abbreviation intel_step :: "(filesys \<times> 'r opi_env) life_op \<Rightarrow> 'r pstate \<Rightarrow> 'r pstate" where
  "intel_step \<equiv> life_step (\<lambda>(fs, env). intel_Initialize env) intel_Shutdown
     (\<lambda>(fs, env). intel_HealthCheck env) (\<lambda>(fs, env). intel_DiscoverDevices fs)"

abbreviation marvell_step :: "(filesys \<times> 'r opi_env) life_op \<Rightarrow> 'r pstate \<Rightarrow> 'r pstate" where
  "marvell_step \<equiv> life_step (\<lambda>(fs, env). marvell_Initialize env) marvell_Shutdown
     (\<lambda>(fs, env). marvell_HealthCheck env) (\<lambda>(fs, env). marvell_DiscoverDevices fs)"

abbreviation xsight_step :: "(filesys \<times> 'r opi_env) life_op \<Rightarrow> 'r pstate \<Rightarrow> 'r pstate" where
  "xsight_step \<equiv> life_step (\<lambda>(fs, env). xsight_Initialize env) xsight_Shutdown
     (\<lambda>(fs, env). xsight_HealthCheck env) (\<lambda>(fs, env). xsight_DiscoverDevices fs)"

abbreviation mangoboost_step :: "(filesys \<times> 'r opi_env) life_op \<Rightarrow> 'r pstate \<Rightarrow> 'r pstate" where
  "mangoboost_step \<equiv> life_step (\<lambda>(fs, env). mangoboost_Initialize env) mangoboost_Shutdown
     (\<lambda>(fs, env). mangoboost_HealthCheck env) (\<lambda>(fs, env). mangoboost_DiscoverDevices fs)"

section \<open>Properties\<close>

text \<open>After any history of \<open>Initialize\<close> (failing or not, repeated or not), \<open>HealthCheck\<close>,
  \<open>DiscoverDevices\<close> and \<open>Shutdown\<close> calls that ends in a \<open>Shutdown\<close>, the plugins of Intel, Marvell,
  xSight and MangoBoost have closed every connection they opened and no other.\<close>

theorem vendor_plugins_no_connection_leak:
  assumes "world_ok w"
  shows "open_set (fold intel_step (ops @ [DoShutdown]) (intel_New, w)) = set (open_conns w) \<and>
    open_set (fold marvell_step (ops @ [DoShutdown]) (marvell_New, w)) = set (open_conns w) \<and>
    open_set (fold xsight_step (ops @ [DoShutdown]) (xsight_New, w)) = set (open_conns w) \<and>
    open_set (fold mangoboost_step (ops @ [DoShutdown]) (mangoboost_New, w)) = set (open_conns w)"
  using assms intel.no_leak [of "(intel_New, w)" ops] marvell.no_leak [of "(marvell_New, w)" ops]
    xsight.no_leak [of "(xsight_New, w)" ops] mangoboost.no_leak [of "(mangoboost_New, w)" ops]
  by (simp add: intel_New_def marvell_New_def xsight_New_def mangoboost_New_def plugin_New_def)

definition sample_env :: "unit opi_env" where
  "sample_env = \<lparr>env_now = 0, env_deadline = None, env_dial = (\<lambda>_. None), env_state = (\<lambda>_. Ready),
     env_svc = \<lparr>svc_Init = (\<lambda>_ _ _ r. (Inr ([], 0), r)), svc_GetDevices = (\<lambda>_ _ r. (Inr [], r)),
       svc_SetNumVfs = (\<lambda>_ _ n r. (Inr n, r)), svc_Ping = (\<lambda>_ _ r. (None, r)),
       svc_CreateBridgePort = (\<lambda>_ _ _ r. (Inl (StatusError Unimplemented []), r)),
       svc_GetBridgePort = (\<lambda>_ _ _ r. (Inl (StatusError Unimplemented []), r)),
       svc_ListBridgePorts = (\<lambda>_ _ r. (Inr [], r)), svc_DeleteBridgePort = (\<lambda>_ _ _ r. (None, r)),
       svc_CreateLogicalBridge = (\<lambda>_ _ _ r. (Inl (StatusError Unimplemented []), r)),
       svc_GetLogicalBridge = (\<lambda>_ _ _ r. (Inl (StatusError Unimplemented []), r)),
       svc_DeleteLogicalBridge = (\<lambda>_ _ _ r. (None, r))\<rparr>\<rparr>"

definition sample_world :: "unit world" where
  "sample_world = \<lparr>open_conns = [7], next_conn = 8, remote = ()\<rparr>"

theorem vendor_plugins_no_connection_leak_witness:
  "let ops = [DoInitialize (sample_sysfs DirEntry, sample_env) zero_config,
              DoInitialize (sample_sysfs DirEntry, sample_env) zero_config,
              DoDiscover (sample_sysfs DirEntry, sample_env)]
   in open_set (fold intel_step ops (intel_New, sample_world)) = {7, 8} \<and>
      open_set (fold intel_step (ops @ [DoShutdown]) (intel_New, sample_world)) = {7}"
proof -
  let ?e = "(sample_sysfs DirEntry, sample_env)"
  let ?ops = "[DoInitialize ?e zero_config, DoInitialize ?e zero_config, DoDiscover ?e]"
  have "world_ok sample_world" by (simp add: world_ok_def sample_world_def)
  from vendor_plugins_no_connection_leak [OF this, of ?ops]
  have "open_set (fold intel_step (?ops @ [DoShutdown]) (intel_New, sample_world)) = {7}"
    by (simp add: sample_world_def)
  moreover have "open_set (fold intel_step ?ops (intel_New, sample_world)) = {7, 8}"
    by (simp add: intel_Initialize_def intel_DiscoverDevices_def shared_bodies intel_New_def plugin_New_def
        NewClient_def newClientWithConn_def sample_env_def sample_world_def ScanDevices_def zero_config_def
        insert_commute)
  ultimately show ?thesis unfolding Let_def by blast
qed

text \<open>\<open>GetInventory\<close> answers, after a discovery, for exactly the discovered devices, with the
  device's own model and serial number; for any other identifier the error is one that
  \<open>IsNotFound\<close> recognises through the device error that wraps it.\<close>

theorem GetInventory_after_discovery:
  assumes "scan_DiscoverDevices ids v ip sp fs (p, w) = (Inr ds, (p', w'))"
  shows "case cached_GetInventory v deviceID p' of
      Inr rsp \<Rightarrow> \<exists>d \<in> set ds. dev_ID d = deviceID \<and> inv_DeviceID rsp = deviceID \<and>
        inv_Chassis rsp = Some \<lparr>ch_Manufacturer = v, ch_Model = dev_Model d,
          ch_SerialNumber = dev_SerialNumber d\<rparr>
    | Inl err \<Rightarrow> deviceID \<notin> set (map dev_ID ds) \<and> IsNotFound err \<and> \<not> IsNotImplemented err"
proof -
  have p': "initialized p'" "devices p' = ds"
    using assms by (auto simp: scan_DiscoverDevices_def split: if_splits sum.splits)
  show ?thesis
  proof (cases "List.find (\<lambda>d. dev_ID d = deviceID) ds")
    case None
    have "errors_is (NewDeviceError deviceID ''GetInventory'' ErrDeviceNotFound) ErrDeviceNotFound"
      "\<not> errors_is (NewDeviceError deviceID ''GetInventory'' ErrDeviceNotFound) ErrNotImplemented"
      by (simp_all add: NewDeviceError_def errors_is.simps)
    moreover have "deviceID \<notin> set (map dev_ID ds)"
      using None by (auto simp: find_None_iff)
    ultimately show ?thesis
      using None p' by (simp add: cached_GetInventory_def error_classes)
  next
    case (Some d)
    then have "d \<in> set ds" "dev_ID d = deviceID"
      by (auto simp: find_Some_iff)
    with Some p' show ?thesis
      by (auto simp: cached_GetInventory_def chassis_inventory_def)
  qed
qed

theorem GetInventory_after_discovery_witness:
  "\<exists>ds p' w'. intel_DiscoverDevices (sample_sysfs DirEntry)
       (intel_New\<lparr>initialized := True\<rparr>, sample_world) = (Inr ds, (p', w')) \<and>
     isl (intel_GetInventory ''intel-0000:05:00.0'' p')"
proof -
  let ?r = "intel_DiscoverDevices (sample_sysfs DirEntry) (intel_New\<lparr>initialized := True\<rparr>, sample_world)"
  obtain ds p' w' where r: "?r = (Inr ds, (p', w'))"
    by (simp add: intel_DiscoverDevices_def scan_DiscoverDevices_def ScanDevices_def)
  have "ds = []"
  proof -
    have "projr (fst ?r) = []" by code_simp
    then show ?thesis using r by simp
  qed
  then have "isl (cached_GetInventory ''Intel'' ''intel-0000:05:00.0'' p')"
    using GetInventory_after_discovery [of intel_supportedDevices "''Intel''" "''intel''" "''INTEL''"
        "sample_sysfs DirEntry" "intel_New\<lparr>initialized := True\<rparr>" sample_world ds p' w' "''intel-0000:05:00.0''"] r
    by (auto simp: intel_DiscoverDevices_def split: sum.splits)
  with r show ?thesis by (auto simp: intel_GetInventory_def)
qed

end
