(* ===== verification/Nvidia_Plugin.thy ===== *)
theory Nvidia_Plugin
  imports Vendor_Plugins
begin

text \<open>
  The NVIDIA BlueField plugin (\<open>pkg/plugin/nvidia/bluefield.go\<close>): the one registry plugin that drives
  the OPI bridge. It keeps up to two clients, merges the devices the bridge reports into those of the
  PCI scan, and creates logical bridges and bridge ports. The bridge is the parameter
  \<open>opi_service\<close>; every procedure steps its state. A dereference of a nil client is a \<open>Panic\<close>; the
  invariant \<open>bf_ok\<close> shows that an initialised plugin never reaches one.
\<close>

section \<open>State and lifecycle\<close>

definition nvidia_supportedDevices :: "PCIDeviceID list" where
  "nvidia_supportedDevices =
     [\<lparr>VendorID = ''15b3'', DeviceID = ''a2d6'', IdDescription = ''NVIDIA BlueField-2 DPU''\<rparr>,
      \<lparr>VendorID = ''15b3'', DeviceID = ''a2d2'',
        IdDescription = ''NVIDIA BlueField-2 Integrated ConnectX-6 Dx''\<rparr>,
      \<lparr>VendorID = ''15b3'', DeviceID = ''a2dc'', IdDescription = ''NVIDIA BlueField-3 DPU''\<rparr>,
      \<lparr>VendorID = ''15b3'', DeviceID = ''a2d8'',
        IdDescription = ''NVIDIA BlueField-3 Integrated ConnectX-7''\<rparr>]"

record BlueFieldPlugin =
  bf_config :: PluginConfig
  bf_initialized :: bool
  bf_opiEndpoint :: string
  bf_networkEndpoint :: string
  bf_devices :: "Device list"
  bf_opiClient :: "Client option"
  bf_opiNetworkClient :: "Client option"

definition nvidia_New :: BlueFieldPlugin where
  "nvidia_New = \<lparr>bf_config = zero_config, bf_initialized = False, bf_opiEndpoint = [],
     bf_networkEndpoint = [], bf_devices = [], bf_opiClient = None, bf_opiNetworkClient = None\<rparr>"

type_synonym 'r bstate = "BlueFieldPlugin \<times> 'r world"

definition networkClient :: "BlueFieldPlugin \<Rightarrow> Client option" where
  "networkClient p =
     (if bf_opiNetworkClient p \<noteq> None then bf_opiNetworkClient p else bf_opiClient p)"

definition nvidia_Info :: PluginInfo where
  "nvidia_Info = \<lparr>Name = ''nvidia'', Vendor = ''NVIDIA'', Version = ''1.0.0'',
     Description = ''NVIDIA BlueField DPU plugin supporting BlueField-2 and BlueField-3 hardware'',
     SupportedDevices = nvidia_supportedDevices, Capabilities = [CapabilityNetworking]\<rparr>"

definition nvidia_Initialize ::
    "'r opi_env \<Rightarrow> PluginConfig \<Rightarrow> 'r bstate \<Rightarrow> go_error option \<times> 'r bstate" where
  "nvidia_Initialize env cfg = (\<lambda>(p, w).
     if bf_initialized p then (Some ErrAlreadyInitialized, (p, w))
     else
       let endpoint = (if OPIEndpoint cfg = [] then DefaultOPIEndpoint else OPIEndpoint cfg);
           netEndpoint = NetworkEndpoint cfg;
           p = p\<lparr>bf_config := cfg, bf_opiEndpoint := endpoint, bf_networkEndpoint := netEndpoint\<rparr>
       in (case NewClient env endpoint [] w of
             (Inl err, w1) \<Rightarrow>
               (Some (Errorf ''failed to create OPI client: %w'' [FWrap err]),
                (p\<lparr>bf_opiClient := None\<rparr>, w1))
           | (Inr c, w1) \<Rightarrow>
               let p = p\<lparr>bf_opiClient := Some c\<rparr> in
               if netEndpoint = [] \<or> netEndpoint = endpoint
               then (None, (p\<lparr>bf_opiNetworkClient := Some c, bf_initialized := True\<rparr>, w1))
               else (case NewClient env netEndpoint [] w1 of
                       (Inl err, w2) \<Rightarrow>
                         (Some (Errorf ''failed to create OPI network client: %w'' [FWrap err]),
                          (p\<lparr>bf_opiNetworkClient := None\<rparr>, snd (Close c w2)))
                     | (Inr n, w2) \<Rightarrow>
                         (None, (p\<lparr>bf_opiNetworkClient := Some n, bf_initialized := True\<rparr>, w2)))))"

definition nvidia_Shutdown :: "'r bstate \<Rightarrow> go_error option \<times> 'r bstate" where
  "nvidia_Shutdown = (\<lambda>(p, w).
     if \<not> bf_initialized p then (None, (p, w))
     else
       let w1 = (case bf_opiClient p of None \<Rightarrow> w | Some c \<Rightarrow> snd (Close c w));
           w2 = (case bf_opiNetworkClient p of
                   None \<Rightarrow> w1
                 | Some n \<Rightarrow> if bf_opiNetworkClient p \<noteq> bf_opiClient p then snd (Close n w1) else w1)
       in (None, (p\<lparr>bf_initialized := False, bf_devices := []\<rparr>, w2)))"

definition nvidia_HealthCheck :: "'r opi_env \<Rightarrow> 'r bstate \<Rightarrow> go_error option \<times> 'r bstate" where
  "nvidia_HealthCheck env = (\<lambda>(p, w).
     if \<not> bf_initialized p then (Some ErrNotInitialized, (p, w))
     else
       (case bf_opiClient p of
          None \<Rightarrow> (None, (p, w))
        | Some c \<Rightarrow>
            if \<not> IsConnected env c then (Some (Errorf ''OPI client not connected'' []), (p, w))
            else (None, (p, snd (Lifecycle_Ping env c w)))))"

section \<open>Discovery\<close>

text \<open>One device of the bridge merged into the list: the first device with its ID gets the health as
  metadata, otherwise a device is appended.\<close>

fun set_health :: "string \<Rightarrow> string \<Rightarrow> Device list \<Rightarrow> Device list" where
  "set_health i h [] = []"
| "set_health i h (d # ds) =
     (if dev_ID d = i then d\<lparr>dev_Metadata := map_put ''health'' h (dev_Metadata d)\<rparr> # ds
      else d # set_health i h ds)"

definition opi_device :: "string \<Rightarrow> string \<Rightarrow> Device" where
  "opi_device i h = zero_Device\<lparr>dev_ID := i, dev_Vendor := ''NVIDIA'',
     dev_Healthy := (h = ''healthy'' \<or> h = ''HEALTH_STATUS_OK''),
     dev_Metadata := [(''health'', h)]\<rparr>"

fun merge_devices :: "DeviceListResponse \<Rightarrow> Device list \<Rightarrow> Device list" where
  "merge_devices [] ds = ds"
| "merge_devices ((i, dat) # rest) ds =
     merge_devices rest
       (if i \<in> set (map dev_ID ds) then set_health i (lcd_Health dat) ds
        else ds @ [opi_device i (lcd_Health dat)])"

definition nil_deref :: go_error where
  "nil_deref = Panic ''invalid memory address or nil pointer dereference''"

definition nvidia_DiscoverDevices ::
    "filesys \<Rightarrow> 'r opi_env \<Rightarrow> 'r bstate \<Rightarrow> Device list result \<times> 'r bstate" where
  "nvidia_DiscoverDevices fs env = (\<lambda>(p, w).
     if \<not> bf_initialized p then (Inl ErrNotInitialized, (p, w))
     else
       let scanned = (case ScanDevices fs nvidia_supportedDevices ''NVIDIA'' ''nvidia'' ''NV'' of
                        Inr ds \<Rightarrow> ds | Inl _ \<Rightarrow> [])
       in (case bf_opiClient p of
             None \<Rightarrow> (Inl nil_deref, (p, w))
           | Some c \<Rightarrow>
               (case Lifecycle_GetDevices env c w of
                  (Inr resp, w') \<Rightarrow>
                    let ds = merge_devices resp scanned in (Inr ds, (p\<lparr>bf_devices := ds\<rparr>, w'))
                | (Inl err, w') \<Rightarrow> (Inr scanned, (p\<lparr>bf_devices := scanned\<rparr>, w')))))"

definition nvidia_GetInventory ::
    "'r opi_env \<Rightarrow> string \<Rightarrow> 'r bstate \<Rightarrow> InventoryResponse result \<times> 'r bstate" where
  "nvidia_GetInventory env deviceID = (\<lambda>(p, w).
     if \<not> bf_initialized p then (Inl ErrNotInitialized, (p, w))
     else
       (case List.find (\<lambda>d. dev_ID d = deviceID) (bf_devices p) of
          Some device \<Rightarrow> (Inr (chassis_inventory ''NVIDIA'' deviceID device), (p, w))
        | None \<Rightarrow>
            (case bf_opiClient p of
               None \<Rightarrow> (Inl nil_deref, (p, w))
             | Some c \<Rightarrow>
                 (case Lifecycle_GetDevices env c w of
                    (Inr resp, w') \<Rightarrow>
                      (if map_get resp deviceID \<noteq> None
                       then (Inr (chassis_inventory ''NVIDIA'' deviceID
                                    (zero_Device\<lparr>dev_ID := deviceID, dev_Model := ''Unknown (OPI)''\<rparr>)),
                             (p, w'))
                       else (Inl (NewDeviceError deviceID ''GetInventory'' ErrDeviceNotFound), (p, w')))
                  | (Inl err, w') \<Rightarrow>
                      (Inl (NewDeviceError deviceID ''GetInventory'' ErrDeviceNotFound), (p, w'))))))"

section \<open>Network operations\<close>

text \<open>\<open>status.Code\<close> of package \<open>grpc/status\<close>: the code of the first status error on the chain, and
  \<open>Unknown\<close> (2) when there is none.\<close>

function status_code :: "go_error \<Rightarrow> grpc_code" where
  "status_code e =
     (case e of StatusError c m \<Rightarrow> c
      | _ \<Rightarrow> (case Unwrap e of None \<Rightarrow> OtherCode 2 | Some e' \<Rightarrow> status_code e'))"
  by pat_completeness auto
termination
  by (relation "measure size") (auto dest: Unwrap_size wrapped_arg_size)

declare status_code.simps [simp del]

lemma status_code_StatusError [simp]: "status_code (StatusError c m) = c"
  by (simp add: status_code.simps)

definition logicalBridgeResourceName :: "string \<Rightarrow> string" where
  "logicalBridgeResourceName i = sprintf ''//network.opiproject.org/bridges/%s'' [i]"

definition ensureLogicalBridge ::
    "'r opi_env \<Rightarrow> BlueFieldPlugin \<Rightarrow> 32 word \<Rightarrow> 'r world \<Rightarrow> string result \<times> 'r world" where
  "ensureLogicalBridge env p vlanID w =
     (let bridgeID = sprintf ''bridge-vlan-%d'' [itoa (sint vlanID)];
          bridgeName = logicalBridgeResourceName bridgeID
      in (case networkClient p of
            None \<Rightarrow> (Inl nil_deref, w)
          | Some c \<Rightarrow>
              (case Network_GetLogicalBridge env c bridgeName w of
                 (Inr _, w1) \<Rightarrow> (Inr bridgeName, w1)
               | (Inl err, w1) \<Rightarrow>
                   if status_code err = Unimplemented then (Inl ErrNotImplemented, w1)
                   else if status_code err \<noteq> NotFound
                   then (Inl (Errorf ''OPI get logical bridge failed: %w'' [FWrap err]), w1)
                   else
                     (case Network_CreateLogicalBridge env c (bridgeID, vlanID) w1 of
                        (Inr resp, w2) \<Rightarrow> (Inr (lb_Name resp), w2)
                      | (Inl err2, w2) \<Rightarrow>
                          if status_code err2 = Unimplemented then (Inl ErrNotImplemented, w2)
                          else (Inl (Errorf ''OPI create logical bridge failed: %w'' [FWrap err2]), w2)))))"

definition requested_vlan :: "BridgePortRequest \<Rightarrow> 32 word" where
  "requested_vlan request =
     (case req_VLANID request of
        Some v \<Rightarrow> if v > 0 then word_of_int v else 1
      | None \<Rightarrow> 1)"

definition port_from_reply :: "BridgePortRequest \<Rightarrow> opi_BridgePort \<Rightarrow> BridgePort" where
  "port_from_reply request resp =
     (let respMac = (case obp_Spec resp of
          Some spec \<Rightarrow> if length (MacAddress spec) > 0 then HardwareAddr_String (MacAddress spec)
                      else req_MACAddress request
        | None \<Rightarrow> req_MACAddress request)
      in \<lparr>bp_ID = obp_Name resp, bp_Name = obp_Name resp, bp_MACAddress = respMac,
          bp_VLANID = req_VLANID request, bp_Status = ''Active'', bp_Metadata = []\<rparr>)"

definition nvidia_CreateBridgePort ::
    "'r opi_env \<Rightarrow> BridgePortRequest \<Rightarrow> 'r bstate \<Rightarrow> BridgePort result \<times> 'r bstate" where
  "nvidia_CreateBridgePort env request = (\<lambda>(p, w).
     if \<not> bf_initialized p then (Inl ErrNotInitialized, (p, w))
     else
       (case ParseMAC (req_MACAddress request) of
          Inl err \<Rightarrow> (Inl (Errorf ''invalid MAC address: %w'' [FWrap err]), (p, w))
        | Inr mac \<Rightarrow>
            (case ensureLogicalBridge env p (requested_vlan request) w of
               (Inl err, w1) \<Rightarrow> (Inl err, (p, w1))
             | (Inr logicalBridgeName, w1) \<Rightarrow>
                 let req = \<lparr>BridgePortId = req_Name request,
                            cbp_BridgePort = Some \<lparr>obp_Name = req_Name request,
                              obp_Spec = Some \<lparr>MacAddress = mac, Ptype = TYPE_ACCESS,
                                               LogicalBridges = [logicalBridgeName]\<rparr>\<rparr>\<rparr>
                 in (case networkClient p of
                       None \<Rightarrow> (Inl nil_deref, (p, w1))
                     | Some c \<Rightarrow>
                         (case Network_CreateBridgePort env c req w1 of
                            (Inr resp, w2) \<Rightarrow> (Inr (port_from_reply request resp), (p, w2))
                          | (Inl err, w2) \<Rightarrow>
                              if status_code err = Unimplemented then (Inl ErrNotImplemented, (p, w2))
                              else (Inl (Errorf ''OPI creation failed: %w'' [FWrap err]), (p, w2)))))))"

definition nvidia_DeleteBridgePort ::
    "'r opi_env \<Rightarrow> string \<Rightarrow> 'r bstate \<Rightarrow> go_error option \<times> 'r bstate" where
  "nvidia_DeleteBridgePort env portID = (\<lambda>(p, w).
     if \<not> bf_initialized p then (Some ErrNotInitialized, (p, w))
     else
       (case networkClient p of
          None \<Rightarrow> (Some nil_deref, (p, w))
        | Some c \<Rightarrow>
            (case Network_DeleteBridgePort env c portID w of
               (None, w') \<Rightarrow> (None, (p, w'))
             | (Some err, w') \<Rightarrow>
                 if status_code err = Unimplemented then (Some ErrNotImplemented, (p, w'))
                 else (Some (Errorf ''OPI delete failed: %w'' [FWrap err]), (p, w')))))"

definition listed_port :: "opi_BridgePort \<Rightarrow> BridgePort" where
  "listed_port bp =
     \<lparr>bp_ID = obp_Name bp, bp_Name = obp_Name bp,
      bp_MACAddress = (case obp_Spec bp of Some spec \<Rightarrow> HardwareAddr_String (MacAddress spec) | None \<Rightarrow> []),
      bp_VLANID = None, bp_Status = ''Active'', bp_Metadata = []\<rparr>"

definition nvidia_GetBridgePort ::
    "'r opi_env \<Rightarrow> string \<Rightarrow> 'r bstate \<Rightarrow> BridgePort result \<times> 'r bstate" where
  "nvidia_GetBridgePort env portID = (\<lambda>(p, w).
     if \<not> bf_initialized p then (Inl ErrNotInitialized, (p, w))
     else
       (case networkClient p of
          None \<Rightarrow> (Inl nil_deref, (p, w))
        | Some c \<Rightarrow>
            (case Network_GetBridgePort env c portID w of
               (Inr resp, w') \<Rightarrow> (Inr (listed_port resp), (p, w'))
             | (Inl err, w') \<Rightarrow>
                 if status_code err = Unimplemented then (Inl ErrNotImplemented, (p, w'))
                 else (Inl (Errorf ''OPI get failed: %w'' [FWrap err]), (p, w')))))"

definition nvidia_ListBridgePorts ::
    "'r opi_env \<Rightarrow> 'r bstate \<Rightarrow> BridgePort list result \<times> 'r bstate" where
  "nvidia_ListBridgePorts env = (\<lambda>(p, w).
     if \<not> bf_initialized p then (Inl ErrNotInitialized, (p, w))
     else
       (case networkClient p of
          None \<Rightarrow> (Inl nil_deref, (p, w))
        | Some c \<Rightarrow>
            (case Network_ListBridgePorts env c w of
               (Inr bps, w') \<Rightarrow> (Inr (map listed_port bps), (p, w'))
             | (Inl err, w') \<Rightarrow>
                 if status_code err = Unimplemented then (Inl ErrNotImplemented, (p, w'))
                 else (Inl (Errorf ''OPI list failed: %w'' [FWrap err]), (p, w')))))"

definition nvidia_SetVFCount ::
    "'r opi_env \<Rightarrow> string \<Rightarrow> int \<Rightarrow> 'r bstate \<Rightarrow> go_error option \<times> 'r bstate" where
  "nvidia_SetVFCount env deviceID cnt = (\<lambda>(p, w).
     if \<not> bf_initialized p then (Some ErrNotInitialized, (p, w))
     else
       (case bf_opiClient p of
          None \<Rightarrow> (Some nil_deref, (p, w))
        | Some c \<Rightarrow>
            (case Lifecycle_SetNumVfs env c (word_of_int cnt) w of
               (Inr _, w') \<Rightarrow> (None, (p, w'))
             | (Inl err, w') \<Rightarrow> (Some (Errorf ''OPI SetNumVfs failed: %w'' [FWrap err]), (p, w')))))"

definition nvidia_unsupported :: "BlueFieldPlugin \<Rightarrow> go_error" where
  "nvidia_unsupported p = (if \<not> bf_initialized p then ErrNotInitialized else ErrNotImplemented)"

definition nvidia_GetVFCount :: "string \<Rightarrow> BlueFieldPlugin \<Rightarrow> int result" where
  "nvidia_GetVFCount deviceID p = Inl (nvidia_unsupported p)"

definition nvidia_CreateNetworkFunction :: "string \<Rightarrow> string \<Rightarrow> BlueFieldPlugin \<Rightarrow> go_error option" where
  "nvidia_CreateNetworkFunction inp outp p = Some (nvidia_unsupported p)"

definition nvidia_DeleteNetworkFunction :: "string \<Rightarrow> string \<Rightarrow> BlueFieldPlugin \<Rightarrow> go_error option" where
  "nvidia_DeleteNetworkFunction inp outp p = Some (nvidia_unsupported p)"

section \<open>Lifecycle\<close>

definition bf_held :: "'r bstate \<Rightarrow> nat set" where
  "bf_held s = {cc_id (cl_conn c) |c. bf_opiClient (fst s) = Some c \<or> bf_opiNetworkClient (fst s) = Some c}"

lemma bf_held_eq: "bf_held s =
    (case bf_opiClient (fst s) of None \<Rightarrow> {} | Some c \<Rightarrow> {cc_id (cl_conn c)}) \<union>
    (case bf_opiNetworkClient (fst s) of None \<Rightarrow> {} | Some c \<Rightarrow> {cc_id (cl_conn c)})"
  by (auto simp: bf_held_def split: option.splits)

lemma NewClient_cases:
  obtains (fail) err where "NewClient env e [] w = (Inl err, w)"
  | (ok) c where "NewClient env e [] w =
      (Inr c, w\<lparr>open_conns := next_conn w # open_conns w, next_conn := next_conn w + 1\<rparr>)"
      "cc_id (cl_conn c) = next_conn w"
  by (cases "env_dial env e") (auto simp: NewClient_def newClientWithConn_def Let_def)

text \<open>A client of the plugin is open while the plugin is initialised, so no call meets a nil client.\<close>

definition bf_ok :: "BlueFieldPlugin \<Rightarrow> bool" where
  "bf_ok p \<longleftrightarrow> (bf_initialized p \<longrightarrow> bf_opiClient p \<noteq> None)"

lemma nvidia_Initialize_laws:
  assumes w: "world_ok w" and p: "\<not> bf_initialized p"
    and r: "nvidia_Initialize env cfg (p, w) = (e, (p', w'))"
  shows "world_ok w' \<and> bf_ok p' \<and>
    set (open_conns w') = set (open_conns w) \<union> (if e = None then bf_held (p', w') else {}) \<and>
    (e = None \<longrightarrow> bf_held (p', w') \<inter> set (open_conns w) = {})"
proof -
  let ?ep = "if OPIEndpoint cfg = [] then DefaultOPIEndpoint else OPIEndpoint cfg"
  let ?w1 = "w\<lparr>open_conns := next_conn w # open_conns w, next_conn := next_conn w + 1\<rparr>"
  have fresh: "next_conn w \<notin> set (open_conns w)" "Suc (next_conn w) \<notin> set (open_conns w)"
    and bound: "n < Suc (next_conn w)" "n < Suc (Suc (next_conn w))" if "n \<in> set (open_conns w)" for n
    using w that by (auto simp: world_ok_def list_all_iff less_SucI)
  show ?thesis
  proof (cases rule: NewClient_cases [of env ?ep w])
    case fail
    then show ?thesis
      using r p w by (auto simp: nvidia_Initialize_def Let_def bf_ok_def)
  next
    case c: (ok c)
    have w1: "world_ok ?w1" using w by (auto simp: world_ok_def list_all_iff)
    show ?thesis
    proof (cases "NetworkEndpoint cfg = [] \<or> NetworkEndpoint cfg = ?ep")
      case True
      then show ?thesis
        using r p w1 c fresh by (auto simp: nvidia_Initialize_def Let_def bf_held_eq bf_ok_def)
    next
      case net: False
      then show ?thesis
        using r p w c fresh
        by (cases rule: NewClient_cases [of env "NetworkEndpoint cfg" ?w1])
          (auto simp: nvidia_Initialize_def Let_def bf_ok_def bf_held_eq Close_def world_ok_def
            list_all_iff distinct_removeAll dest: bound)
    qed
  qed
qed

lemma nvidia_Initialize_result:
  "\<not> bf_initialized p \<Longrightarrow> bf_initialized (fst (snd (nvidia_Initialize env cfg (p, w)))) \<longleftrightarrow>
     fst (nvidia_Initialize env cfg (p, w)) = None"
  by (auto simp: nvidia_Initialize_def Let_def split: prod.splits sum.splits)

lemma nvidia_Discover_keeps:
  "bf_initialized (fst (snd (nvidia_DiscoverDevices fs env s))) = bf_initialized (fst s)"
  "bf_opiClient (fst (snd (nvidia_DiscoverDevices fs env s))) = bf_opiClient (fst s)"
  "bf_opiNetworkClient (fst (snd (nvidia_DiscoverDevices fs env s))) = bf_opiNetworkClient (fst s)"
  "same_conns (snd s) (snd (snd (nvidia_DiscoverDevices fs env s)))"
  by (cases s, auto simp: nvidia_DiscoverDevices_def opi_calls Let_def
      split: option.splits sum.splits prod.splits dest: rpc_conns)+

lemma nvidia_Discover_preserves:
  "bf_held (snd (nvidia_DiscoverDevices fs env s)) = bf_held s"
  "open_set (snd (nvidia_DiscoverDevices fs env s)) = open_set s"
  "world_ok (snd s) \<Longrightarrow> world_ok (snd (snd (nvidia_DiscoverDevices fs env s)))"
  "bf_ok (fst s) \<Longrightarrow> bf_ok (fst (snd (nvidia_DiscoverDevices fs env s)))"
  by (simp_all add: bf_held_eq world_ok_def bf_ok_def nvidia_Discover_keeps)

lemma nvidia_HealthCheck_keeps:
  "fst (snd (nvidia_HealthCheck env s)) = fst s \<and> same_conns (snd s) (snd (snd (nvidia_HealthCheck env s)))"
  by (auto simp: nvidia_HealthCheck_def opi_calls split: prod.splits option.splits)

lemma nvidia_HealthCheck_preserves:
  "bf_initialized (fst (snd (nvidia_HealthCheck env s))) = bf_initialized (fst s)"
  "bf_held (snd (nvidia_HealthCheck env s)) = bf_held s"
  "open_set (snd (nvidia_HealthCheck env s)) = open_set s"
  "world_ok (snd s) \<Longrightarrow> world_ok (snd (snd (nvidia_HealthCheck env s)))"
  "bf_ok (fst s) \<Longrightarrow> bf_ok (fst (snd (nvidia_HealthCheck env s)))"
  using nvidia_HealthCheck_keeps [of env s] by (simp_all add: bf_held_eq world_ok_def)

lemma Close_conns [simp]:
  "set (open_conns (snd (Close c w))) = set (open_conns w) - {cc_id (cl_conn c)}"
  by (auto simp: Close_def)

lemma nvidia_Shutdown_laws:
  assumes "nvidia_Shutdown (p, w) = (e, (p', w'))"
  shows "e = None \<and> \<not> bf_initialized p' \<and> (world_ok w \<longrightarrow> world_ok w') \<and>
    (bf_initialized p \<longrightarrow> set (open_conns w') = set (open_conns w) - bf_held (p, w))"
proof (cases "bf_initialized p")
  case True
  then show ?thesis
    using assms
    by (cases "bf_opiClient p"; cases "bf_opiNetworkClient p")
      (auto simp: nvidia_Shutdown_def Let_def bf_held_eq world_ok_Close split: if_splits)
qed (use assms in \<open>auto simp: nvidia_Shutdown_def\<close>)

interpretation nvidia: vendor_lifecycle "\<lambda>(fs, env). nvidia_Initialize env" nvidia_Shutdown
    "\<lambda>(fs, env). nvidia_HealthCheck env" "\<lambda>(fs, env). nvidia_DiscoverDevices fs env"
    "\<lambda>s. bf_initialized (fst s)" bf_held open_set "\<lambda>s. world_ok (snd s) \<and> bf_ok (fst s)"
proof (unfold_locales, goal_cases)
  case (1 s e c) then show ?case by (auto simp: nvidia_Initialize_def split: prod.splits)
next
  case (2 s e c) then show ?case
    using nvidia_Initialize_result [of "fst s" "snd e" c "snd s"] by (simp add: case_prod_unfold)
next
  case (3 s e c) then show ?case
    using nvidia_Initialize_laws [of "snd s" "fst s" "snd e" c]
    by (cases "nvidia_Initialize (snd e) c s") (simp add: case_prod_unfold)
next
  case (4 s e c) then show ?case
    using nvidia_Initialize_laws [of "snd s" "fst s" "snd e" c]
    by (cases "nvidia_Initialize (snd e) c s") (auto simp: case_prod_unfold)
next
  case (5 s) then show ?case by (auto simp: nvidia_Shutdown_def split: prod.splits)
next
  case (6 s) then show ?case
    using nvidia_Shutdown_laws [of "fst s" "snd s"] by (cases "nvidia_Shutdown s") auto
next
  case (7 s) then show ?case
    using nvidia_Shutdown_laws [of "fst s" "snd s"] by (cases "nvidia_Shutdown s") auto
next
  case (8 s) then show ?case
    using nvidia_Shutdown_laws [of "fst s" "snd s"] by (cases "nvidia_Shutdown s") auto
next
  case (9 s e) then show ?case by (auto simp: nvidia_HealthCheck_def split: prod.splits)
next
  case (10 s e) then show ?case by (auto simp: nvidia_DiscoverDevices_def split: prod.splits)
next
  case (17 s e c) then show ?case
    using nvidia_Initialize_laws [of "snd s" "fst s" "snd e" c]
    by (cases "bf_initialized (fst s)"; cases "nvidia_Initialize (snd e) c s")
      (auto simp: case_prod_unfold nvidia_Initialize_def)
next
  case (18 s) then show ?case
    using nvidia_Shutdown_laws [of "fst s" "snd s"] by (cases "nvidia_Shutdown s") (auto simp: bf_ok_def)
qed (simp_all add: nvidia_HealthCheck_preserves nvidia_Discover_preserves nvidia_Discover_keeps
    case_prod_unfold)

abbreviation nvidia_step :: "(filesys \<times> 'r opi_env) life_op \<Rightarrow> 'r bstate \<Rightarrow> 'r bstate" where
  "nvidia_step \<equiv> life_step (\<lambda>(fs, env). nvidia_Initialize env) nvidia_Shutdown
     (\<lambda>(fs, env). nvidia_HealthCheck env) (\<lambda>(fs, env). nvidia_DiscoverDevices fs env)"

section \<open>Merging devices\<close>

lemma dev_ID_set_health [simp]: "map dev_ID (set_health i h ds) = map dev_ID ds"
  by (induction ds) auto

lemma dev_ID_opi_device [simp]: "dev_ID (opi_device i h) = i"
  by (simp add: opi_device_def)

lemma merge_ids:
  "distinct (map dev_ID ds) \<Longrightarrow> distinct (map dev_ID (merge_devices resp ds)) \<and>
     set (map dev_ID (merge_devices resp ds)) = set (map dev_ID ds) \<union> fst ` set resp"
proof (induction resp arbitrary: ds)
  case (Cons x resp)
  obtain i dat where x: "x = (i, dat)" by (cases x)
  show ?case
  proof (cases "i \<in> set (map dev_ID ds)")
    case True
    with Cons.IH [of "set_health i (lcd_Health dat) ds"] Cons.prems x show ?thesis
      by (auto simp del: set_map)
  next
    case False
    with Cons.IH [of "ds @ [opi_device i (lcd_Health dat)]"] Cons.prems x show ?thesis
      by auto
  qed
qed simp

text \<open>The reference reading of the merge, for one device of the result.\<close>

lemma set_health_other:
  "d \<in> set ds \<Longrightarrow> dev_ID d \<noteq> i \<Longrightarrow> d \<in> set (set_health i h ds)"
  by (induction ds) auto

lemma set_health_hit:
  "d \<in> set ds \<Longrightarrow> dev_ID d = i \<Longrightarrow> distinct (map dev_ID ds) \<Longrightarrow>
     d\<lparr>dev_Metadata := map_put ''health'' h (dev_Metadata d)\<rparr> \<in> set (set_health i h ds)"
  by (induction ds) (auto simp: image_iff)

lemma merge_keeps_other:
  "d \<in> set ds \<Longrightarrow> dev_ID d \<notin> fst ` set resp \<Longrightarrow> d \<in> set (merge_devices resp ds)"
proof (induction resp arbitrary: ds)
  case (Cons x resp)
  then show ?case by (cases x) (auto intro!: Cons.IH set_health_other)
qed simp

lemma merge_hit:
  assumes "map_ok resp" "map_get resp i = Some dat" "distinct (map dev_ID ds)"
  shows "(\<forall>d \<in> set ds. dev_ID d = i \<longrightarrow>
      d\<lparr>dev_Metadata := map_put ''health'' (lcd_Health dat) (dev_Metadata d)\<rparr> \<in> set (merge_devices resp ds)) \<and>
    (i \<notin> set (map dev_ID ds) \<longrightarrow> opi_device i (lcd_Health dat) \<in> set (merge_devices resp ds))"
  using assms
proof (induction resp arbitrary: ds)
  case (Cons x resp)
  obtain j e where x: "x = (j, e)" by (cases x)
  show ?case
  proof (cases "j = i")
    case True
    then have e: "e = dat" and notin: "(i, b) \<notin> set resp" for b
      using Cons.prems x by (auto simp: rev_image_eqI)
    show ?thesis
      using True x e notin Cons.prems(3)
      by (auto intro!: merge_keeps_other set_health_hit)
  next
    case False
    let ?ds = "if j \<in> set (map dev_ID ds) then set_health j (lcd_Health e) ds
      else ds @ [opi_device j (lcd_Health e)]"
    have "map_ok resp" "map_get resp i = Some dat" using Cons.prems False x by auto
    moreover have "distinct (map dev_ID ?ds)" using Cons.prems(3) by auto
    ultimately have "(\<forall>d \<in> set ?ds. dev_ID d = i \<longrightarrow>
        d\<lparr>dev_Metadata := map_put ''health'' (lcd_Health dat) (dev_Metadata d)\<rparr> \<in> set (merge_devices resp ?ds)) \<and>
      (i \<notin> set (map dev_ID ?ds) \<longrightarrow> opi_device i (lcd_Health dat) \<in> set (merge_devices resp ?ds))"
      by (rule Cons.IH)
    moreover have "d \<in> set ?ds" if "d \<in> set ds" "dev_ID d = i" for d
      using that False by (auto intro: set_health_other)
    moreover have "i \<in> set (map dev_ID ?ds) \<longleftrightarrow> i \<in> set (map dev_ID ds)"
      using False by (simp only: dev_ID_set_health split: if_split) auto
    ultimately show ?thesis using x by auto
  qed
qed simp

section \<open>Nil clients\<close>

lemma bf_ok_clients:
  assumes "bf_ok p" "bf_initialized p"
  obtains c n where "bf_opiClient p = Some c" "networkClient p = Some n"
  using assms by (cases "bf_opiNetworkClient p"; cases "bf_opiClient p")
    (auto simp: bf_ok_def networkClient_def)

lemma ensureLogicalBridge_no_nil:
  "networkClient p = Some n \<Longrightarrow> fst (ensureLogicalBridge env p v w) \<noteq> Inl nil_deref"
  by (auto simp: ensureLogicalBridge_def nil_deref_def Let_def split: prod.splits sum.splits)

lemma CreateBridgePort_no_nil:
  assumes "bf_ok p"
  shows "fst (nvidia_CreateBridgePort env req (p, w)) \<noteq> Inl nil_deref"
proof (cases "bf_initialized p")
  case True
  with assms obtain n where "networkClient p = Some n" by (blast elim: bf_ok_clients)
  then show ?thesis
    using True ensureLogicalBridge_no_nil [of p n env "requested_vlan req" w]
    by (auto simp: nvidia_CreateBridgePort_def nil_deref_def Let_def split: prod.splits sum.splits)
qed (simp add: nvidia_CreateBridgePort_def nil_deref_def)

lemma nvidia_methods_no_nil:
  assumes "bf_ok p"
  shows "fst (nvidia_DiscoverDevices fs env (p, w)) \<noteq> Inl nil_deref"
    and "fst (nvidia_GetInventory env i (p, w)) \<noteq> Inl nil_deref"
    and "fst (nvidia_DeleteBridgePort env i (p, w)) \<noteq> Some nil_deref"
    and "fst (nvidia_GetBridgePort env i (p, w)) \<noteq> Inl nil_deref"
    and "fst (nvidia_ListBridgePorts env (p, w)) \<noteq> Inl nil_deref"
    and "fst (nvidia_SetVFCount env i n (p, w)) \<noteq> Some nil_deref"
  using assms
  by (cases "bf_initialized p"; auto elim!: bf_ok_clients simp: nvidia_DiscoverDevices_def
      nvidia_GetInventory_def nvidia_DeleteBridgePort_def nvidia_GetBridgePort_def
      nvidia_ListBridgePorts_def nvidia_SetVFCount_def nil_deref_def NewDeviceError_def Let_def
      split: option.splits prod.splits sum.splits)+

section \<open>Properties\<close>

text \<open>The BlueField plugin never leaks a connection: after any history of calls that ends in a
  \<open>Shutdown\<close>, with one or two bridge endpoints and with any of the dials failing (the second one
  included), exactly the connections that were open before are open.\<close>

theorem nvidia_no_connection_leak:
  assumes "world_ok w"
  shows "open_set (fold nvidia_step (ops @ [DoShutdown]) (nvidia_New, w)) = set (open_conns w)"
  using assms nvidia.no_leak [of "(nvidia_New, w)" ops] by (simp add: nvidia_New_def bf_ok_def)

text \<open>An environment in which only the endpoint \<open>net:1\<close> cannot be dialled.\<close>

definition failing_env :: "unit opi_env" where
  "failing_env = sample_env\<lparr>env_dial := (\<lambda>e. if e = ''net:1'' then Some (ExtError ''bad target'') else None)\<rparr>"

definition two_endpoints :: "string \<Rightarrow> PluginConfig" where
  "two_endpoints e = zero_config\<lparr>NetworkEndpoint := e\<rparr>"

theorem nvidia_no_connection_leak_witness:
  "let fs = sample_sysfs DirEntry;
       ops = [DoInitialize (fs, failing_env) (two_endpoints ''net:1''),
              DoInitialize (fs, failing_env) (two_endpoints ''net:2'')]
   in open_set (fold nvidia_step ops (nvidia_New, sample_world)) = {7, 9, 10} \<and>
      open_set (fold nvidia_step (ops @ [DoShutdown]) (nvidia_New, sample_world)) = {7}"
proof -
  let ?e = "(sample_sysfs DirEntry, failing_env)"
  let ?ops = "[DoInitialize ?e (two_endpoints ''net:1''), DoInitialize ?e (two_endpoints ''net:2'')]"
  have "world_ok sample_world" by (simp add: world_ok_def sample_world_def)
  from nvidia_no_connection_leak [OF this, of ?ops]
  have "open_set (fold nvidia_step (?ops @ [DoShutdown]) (nvidia_New, sample_world)) = {7}"
    by (simp add: sample_world_def)
  moreover have "set (open_conns (snd (fold nvidia_step ?ops (nvidia_New, sample_world)))) = {7, 9, 10}"
    by (simp add: nvidia_Initialize_def nvidia_New_def NewClient_def newClientWithConn_def Close_def
        failing_env_def two_endpoints_def sample_env_def sample_world_def zero_config_def
        DefaultOPIEndpoint_def insert_commute Let_def)
  ultimately show ?thesis unfolding Let_def by blast
qed

text \<open>C36: Discovery merges the two views of the hardware without losing or duplicating a device: every
  ID occurs once, the IDs are those of the PCI scan and those the bridge reports, a scanned device
  keeps its data and gets the bridge's health as metadata, and a device only the bridge knows is
  healthy exactly when the bridge says so.\<close>

theorem merge_devices_correct:
  assumes "map_ok resp" "distinct (map dev_ID scanned)"
  shows "distinct (map dev_ID (merge_devices resp scanned)) \<and>
    set (map dev_ID (merge_devices resp scanned)) = set (map dev_ID scanned) \<union> fst ` set resp \<and>
    (\<forall>d \<in> set scanned. map_get resp (dev_ID d) = None \<longrightarrow> d \<in> set (merge_devices resp scanned)) \<and>
    (\<forall>d \<in> set scanned. \<forall>dat. map_get resp (dev_ID d) = Some dat \<longrightarrow>
       d\<lparr>dev_Metadata := map_put ''health'' (lcd_Health dat) (dev_Metadata d)\<rparr>
         \<in> set (merge_devices resp scanned)) \<and>
    (\<forall>i dat. map_get resp i = Some dat \<longrightarrow> i \<notin> set (map dev_ID scanned) \<longrightarrow>
       opi_device i (lcd_Health dat) \<in> set (merge_devices resp scanned))"
proof (intro conjI ballI allI impI)
  show "distinct (map dev_ID (merge_devices resp scanned))"
    "set (map dev_ID (merge_devices resp scanned)) = set (map dev_ID scanned) \<union> fst ` set resp"
    using merge_ids [OF assms(2), of resp] by blast+
next
  fix d assume "d \<in> set scanned" "map_get resp (dev_ID d) = None"
  then show "d \<in> set (merge_devices resp scanned)"
    by (intro merge_keeps_other) (simp_all add: map_of_eq_None_iff)
next
  fix d dat assume "d \<in> set scanned" "map_get resp (dev_ID d) = Some dat"
  then show "d\<lparr>dev_Metadata := map_put ''health'' (lcd_Health dat) (dev_Metadata d)\<rparr>
      \<in> set (merge_devices resp scanned)"
    using merge_hit [OF assms(1) _ assms(2)] by blast
next
  fix i dat assume "map_get resp i = Some dat" "i \<notin> set (map dev_ID scanned)"
  then show "opi_device i (lcd_Health dat) \<in> set (merge_devices resp scanned)"
    using merge_hit [OF assms(1) _ assms(2)] by blast
qed

theorem merge_devices_correct_witness:
  "let scanned = [zero_Device\<lparr>dev_ID := ''a''\<rparr>];
       resp = [(''b'', \<lparr>lcd_ID = ''b'', lcd_Health = ''healthy'', lcd_Node = []\<rparr>)]
   in distinct (map dev_ID (merge_devices resp scanned)) \<and>
      opi_device ''b'' ''healthy'' \<in> set (merge_devices resp scanned) \<and>
      dev_Healthy (opi_device ''b'' ''healthy'')"
proof -
  let ?scanned = "[zero_Device\<lparr>dev_ID := ''a''\<rparr>]"
  let ?resp = "[(''b'', \<lparr>lcd_ID = ''b'', lcd_Health = ''healthy'', lcd_Node = []\<rparr>)]"
  have "map_ok ?resp" "distinct (map dev_ID ?scanned)"
    "map_get ?resp ''b'' = Some \<lparr>lcd_ID = ''b'', lcd_Health = ''healthy'', lcd_Node = []\<rparr>"
    "''b'' \<notin> set (map dev_ID ?scanned)"
    by simp_all
  moreover from merge_devices_correct [OF this(1,2)]
  have "distinct (map dev_ID (merge_devices ?resp ?scanned))"
    and "\<And>i dat. map_get ?resp i = Some dat \<Longrightarrow> i \<notin> set (map dev_ID ?scanned) \<Longrightarrow>
      opi_device i (lcd_Health dat) \<in> set (merge_devices ?resp ?scanned)" by blast+
  ultimately have "distinct (map dev_ID (merge_devices ?resp ?scanned))"
    "opi_device ''b'' ''healthy'' \<in> set (merge_devices ?resp ?scanned)" by force+
  then show ?thesis by (simp add: Let_def opi_device_def)
qed

text \<open>No method of the BlueField plugin dereferences a nil client, whatever history of lifecycle
  calls came before it.\<close>

theorem nvidia_no_nil_client:
  assumes "world_ok w"
  shows "let s = fold nvidia_step ops (nvidia_New, w) in
    fst (nvidia_DiscoverDevices fs env s) \<noteq> Inl nil_deref \<and>
    fst (nvidia_GetInventory env i s) \<noteq> Inl nil_deref \<and>
    fst (nvidia_CreateBridgePort env req s) \<noteq> Inl nil_deref \<and>
    fst (nvidia_DeleteBridgePort env i s) \<noteq> Some nil_deref \<and>
    fst (nvidia_GetBridgePort env i s) \<noteq> Inl nil_deref \<and>
    fst (nvidia_ListBridgePorts env s) \<noteq> Inl nil_deref \<and>
    fst (nvidia_SetVFCount env i n s) \<noteq> Some nil_deref"
proof -
  define s where "s = fold nvidia_step ops (nvidia_New, w)"
  have "bf_ok (fst s)"
    using nvidia.wok_history [of "(nvidia_New, w)" ops] assms
    by (simp add: s_def nvidia_New_def bf_ok_def)
  then show ?thesis
    unfolding s_def [symmetric] Let_def
    by (cases s) (simp add: nvidia_methods_no_nil CreateBridgePort_no_nil)
qed

theorem nvidia_no_nil_client_witness:
  "let s = fold nvidia_step [DoInitialize (sample_sysfs DirEntry, sample_env) zero_config]
         (nvidia_New, sample_world) in
     bf_initialized (fst s) \<and> fst (nvidia_SetVFCount sample_env ''nvidia-0'' 4 s) = None"
proof -
  let ?ops = "[DoInitialize (sample_sysfs DirEntry, sample_env) zero_config]"
  have "world_ok sample_world" by (simp add: world_ok_def sample_world_def)
  from nvidia_no_nil_client [OF this, of ?ops "sample_sysfs DirEntry" sample_env "''nvidia-0''" _ 4]
  have "fst (nvidia_SetVFCount sample_env ''nvidia-0'' 4 (fold nvidia_step ?ops (nvidia_New, sample_world)))
      \<noteq> Some nil_deref"
    unfolding Let_def by blast
  then show ?thesis
    by (simp add: nvidia_Initialize_def nvidia_New_def NewClient_def newClientWithConn_def
        sample_env_def sample_world_def zero_config_def nvidia_SetVFCount_def opi_calls rpc_def Let_def)
qed

text \<open>\<open>ensureLogicalBridge\<close> is idempotent: when the bridge answers a look-up of the name it gave to a
  logical bridge it created, and the first call succeeded, the second call returns a name without
  creating anything: it is the name of the existing bridge and only the look-up reaches the bridge.\<close>

theorem ensureLogicalBridge_idempotent:
  assumes svc: "\<And>c d i v r b r' d'. svc_CreateLogicalBridge (env_svc env) c d (i, v) r = (Inr b, r') \<Longrightarrow>
      lb_Name b = logicalBridgeResourceName i \<and>
      (\<exists>b'. svc_GetLogicalBridge (env_svc env) c d' (lb_Name b) r' = (Inr b', r'))"
    and get: "\<And>c d n r b r' d'. svc_GetLogicalBridge (env_svc env) c d n r = (Inr b, r') \<Longrightarrow>
      svc_GetLogicalBridge (env_svc env) c d' n r' = (Inr b, r')"
    and first: "ensureLogicalBridge env p vlan w = (Inr name, w')"
  shows "ensureLogicalBridge env p vlan w' = (Inr name, w')"
proof -
  let ?i = "sprintf ''bridge-vlan-%d'' [itoa (sint vlan)]"
  obtain c where c: "networkClient p = Some c"
    using first by (auto simp: ensureLogicalBridge_def Let_def split: option.splits)
  have again: "ensureLogicalBridge env p vlan w' = (Inr (logicalBridgeResourceName ?i), w')"
    if "svc_GetLogicalBridge (env_svc env) (cl_conn c) (withTimeout env c)
          (logicalBridgeResourceName ?i) (remote w') = (Inr b, remote w')" for b
    using that c by (simp add: ensureLogicalBridge_def opi_calls rpc_def Let_def)
  show ?thesis
  proof (cases "svc_GetLogicalBridge (env_svc env) (cl_conn c) (withTimeout env c)
      (logicalBridgeResourceName ?i) (remote w)")
    case (Pair res r1)
    show ?thesis
    proof (cases res)
      case (Inr b)
      then have w': "name = logicalBridgeResourceName ?i" "w' = w\<lparr>remote := r1\<rparr>"
        using first c Pair by (auto simp: ensureLogicalBridge_def opi_calls rpc_def Let_def)
      moreover have "svc_GetLogicalBridge (env_svc env) (cl_conn c) (withTimeout env c)
          (logicalBridgeResourceName ?i) r1 = (Inr b, r1)"
        using Pair Inr by (intro get) simp
      ultimately show ?thesis using again [of b] by simp
    next
      case (Inl err)
      obtain res2 r2 where cr: "svc_CreateLogicalBridge (env_svc env) (cl_conn c) (withTimeout env c)
          (?i, vlan) r1 = (res2, r2)" by fastforce
      obtain b where b: "res2 = Inr b" "name = lb_Name b" "w' = w\<lparr>remote := r2\<rparr>"
        using first c Pair Inl cr
        by (auto simp: ensureLogicalBridge_def opi_calls rpc_def Let_def split: if_splits sum.splits)
      with svc cr obtain b' where "lb_Name b = logicalBridgeResourceName ?i"
        "svc_GetLogicalBridge (env_svc env) (cl_conn c) (withTimeout env c) (lb_Name b) r2 = (Inr b', r2)"
        by blast
      then show ?thesis using again [of b'] b by simp
    qed
  qed
qed

text \<open>A bridge that stores the logical bridges it creates.\<close>

definition store_svc :: "string list opi_service" where
  "store_svc =
     \<lparr>svc_Init = (\<lambda>_ _ _ r. (Inr ([], 0), r)), svc_GetDevices = (\<lambda>_ _ r. (Inr [], r)),
      svc_SetNumVfs = (\<lambda>_ _ n r. (Inr n, r)), svc_Ping = (\<lambda>_ _ r. (None, r)),
      svc_CreateBridgePort = (\<lambda>_ _ _ r. (Inl (StatusError Unimplemented []), r)),
      svc_GetBridgePort = (\<lambda>_ _ _ r. (Inl (StatusError Unimplemented []), r)),
      svc_ListBridgePorts = (\<lambda>_ _ r. (Inr [], r)), svc_DeleteBridgePort = (\<lambda>_ _ _ r. (None, r)),
      svc_CreateLogicalBridge = (\<lambda>_ _ (i, v) r.
        (Inr \<lparr>lb_Name = logicalBridgeResourceName i, lb_VlanId = v\<rparr>, logicalBridgeResourceName i # r)),
      svc_GetLogicalBridge = (\<lambda>_ _ n r.
        (if n \<in> set r then Inr \<lparr>lb_Name = n, lb_VlanId = 0\<rparr> else Inl (StatusError NotFound []), r)),
      svc_DeleteLogicalBridge = (\<lambda>_ _ _ r. (None, r))\<rparr>"

definition store_env :: "string list opi_env" where
  "store_env = \<lparr>env_now = 0, env_deadline = None, env_dial = (\<lambda>_. None), env_state = (\<lambda>_. Ready),
     env_svc = store_svc\<rparr>"

definition store_plugin :: BlueFieldPlugin where
  "store_plugin = nvidia_New\<lparr>bf_initialized := True,
     bf_opiClient := Some (NewClientWithConn \<lparr>cc_id = 0, cc_target = ''x''\<rparr>)\<rparr>"

theorem ensureLogicalBridge_idempotent_witness:
  "let w = \<lparr>open_conns = [0], next_conn = 1, remote = []\<rparr>;
       w' = snd (ensureLogicalBridge store_env store_plugin 5 w)
   in remote w' = [''//network.opiproject.org/bridges/bridge-vlan-5''] \<and>
      ensureLogicalBridge store_env store_plugin 5 w' = (Inr (hd (remote w')), w')"
proof -
  let ?w = "\<lparr>open_conns = [0], next_conn = 1, remote = []\<rparr>"
  let ?w' = "snd (ensureLogicalBridge store_env store_plugin 5 ?w)"
  let ?n = "''//network.opiproject.org/bridges/bridge-vlan-5''"
  have r: "remote ?w' = [?n]" "fst (ensureLogicalBridge store_env store_plugin 5 ?w) = Inr ?n"
    by code_simp+
  have "ensureLogicalBridge store_env store_plugin 5 ?w' = (Inr ?n, ?w')"
  proof (rule ensureLogicalBridge_idempotent)
    show "ensureLogicalBridge store_env store_plugin 5 ?w = (Inr ?n, ?w')"
      using r(2) by (metis prod.collapse)
  qed (auto simp: store_env_def store_svc_def split: if_splits)
  with r show ?thesis by (simp add: Let_def)
qed

end
