(* ===== verification/Builtin_Plugins.thy ===== *)
theory Builtin_Plugins
  imports Nvidia_Plugin
begin

text \<open>
  The plugins that ship with the operator, as the default registry holds them after package
  initialisation: each vendor package has an \<open>init\<close> function that calls \<open>MustRegister(New())\<close>. Go fixes
  the order of these calls only up to package dependencies, so the result is proved for every order.
\<close>

definition intel_plugin :: plugin where
  "intel_plugin = \<lparr>Info = intel_Info, is_NetworkPlugin = True, is_StoragePlugin = False,
     is_SecurityPlugin = False\<rparr>"

definition marvell_plugin :: plugin where
  "marvell_plugin = \<lparr>Info = marvell_Info, is_NetworkPlugin = True, is_StoragePlugin = False,
     is_SecurityPlugin = False\<rparr>"

definition xsight_plugin :: plugin where
  "xsight_plugin = \<lparr>Info = xsight_Info, is_NetworkPlugin = True, is_StoragePlugin = False,
     is_SecurityPlugin = False\<rparr>"

definition mangoboost_plugin :: plugin where
  "mangoboost_plugin = \<lparr>Info = mangoboost_Info, is_NetworkPlugin = True, is_StoragePlugin = False,
     is_SecurityPlugin = False\<rparr>"

definition nvidia_plugin :: plugin where
  "nvidia_plugin = \<lparr>Info = nvidia_Info, is_NetworkPlugin = True, is_StoragePlugin = False,
     is_SecurityPlugin = False\<rparr>"

definition builtin_plugins :: "plugin list" where
  "builtin_plugins = [intel_plugin, mangoboost_plugin, marvell_plugin, nvidia_plugin, xsight_plugin]"

fun register_all :: "plugin list \<Rightarrow> registry \<Rightarrow> string + registry" where
  "register_all [] r = Inr r"
| "register_all (p # ps) r =
     (case MustRegister (Some p) r of Inl msg \<Rightarrow> Inl msg | Inr r' \<Rightarrow> register_all ps r')"

text \<open>Plugins that can live in one registry: distinct non-empty names and no shared device.\<close>

definition compatible :: "plugin list \<Rightarrow> bool" where
  "compatible ps \<longleftrightarrow> distinct (map (\<lambda>p. Name (Info p)) ps) \<and> [] \<notin> set (map (\<lambda>p. Name (Info p)) ps) \<and>
     distinct (concat (map (\<lambda>p. remdups (plugin_keys p)) ps))"

definition by_name :: "plugin list \<Rightarrow> (string, plugin) gomap" where
  "by_name ps = map (\<lambda>p. (Name (Info p), p)) ps"

lemma compatible_Cons: "compatible (p # ps) \<Longrightarrow> compatible ps"
  by (auto simp: compatible_def)

lemma register_all_ok:
  assumes "registry_inv r" "compatible ps"
    and "\<forall>p \<in> set ps. map_get (plugins r) (Name (Info p)) = None"
    and "\<forall>p \<in> set ps. \<forall>k \<in> set (plugin_keys p). map_get (deviceIndex r) k = None"
  shows "\<exists>r'. register_all ps r = Inr r' \<and> registry_inv r' \<and>
    (\<lambda>n. Registry_Get n r') = (\<lambda>n. Registry_Get n r) ++ map_get (by_name ps)"
  using assms
proof (induction ps arbitrary: r)
  case (Cons p ps)
  have can: "can_register (Some p) r"
    using Cons.prems by (auto simp: can_register_def compatible_def list_all_iff)
  let ?r = "snd (Register (Some p) r)"
  have must: "MustRegister (Some p) r = Inr ?r"
    by (simp add: MustRegister_def Register_succeeds [OF can])
  have disj: "set (plugin_keys q) \<inter> set (plugin_keys p) = {}" "Name (Info q) \<noteq> Name (Info p)"
    if "q \<in> set ps" for q
    using Cons.prems(2) that by (auto simp: compatible_def image_iff)
  have "\<exists>r'. register_all ps ?r = Inr r' \<and> registry_inv r' \<and>
    (\<lambda>n. Registry_Get n r') = (\<lambda>n. Registry_Get n ?r) ++ map_get (by_name ps)"
  proof (rule Cons.IH)
    show "registry_inv ?r" using Cons.prems(1) by (rule registry_inv_Register)
    show "compatible ps" using Cons.prems(2) by (rule compatible_Cons)
    show "\<forall>q \<in> set ps. map_get (plugins ?r) (Name (Info q)) = None"
      using Cons.prems(3) disj by (simp add: Register_succeeds [OF can])
    show "\<forall>q \<in> set ps. \<forall>k \<in> set (plugin_keys q). map_get (deviceIndex ?r) k = None"
      using Cons.prems(4) disj by (auto simp: Register_succeeds [OF can] set_plugin_keys)
  qed
  moreover have "map_get (by_name ps) (Name (Info p)) = None"
    using disj(2) by (fastforce simp: by_name_def map_of_eq_None_iff)
  then have "(\<lambda>n. Registry_Get n ?r) ++ map_get (by_name ps) =
      (\<lambda>n. Registry_Get n r) ++ map_get (by_name (p # ps))"
    by (auto simp: Register_succeeds [OF can] Registry_Get_def by_name_def map_add_def fun_eq_iff
        split: option.splits)
  ultimately show ?case
    using must by simp
qed (simp add: by_name_def)

lemma registry_List_of:
  assumes "registry_inv r" "compatible ps" "\<And>n. Registry_Get n r = map_get (by_name ps) n"
  shows "Registry_List r = sort_by_name ps"
proof -
  have "map_ok (by_name ps)"
    using assms(2) by (simp add: compatible_def by_name_def comp_def)
  moreover have "map_get (plugins r) = map_get (by_name ps)"
    using assms(3) by (auto simp: Registry_Get_def)
  ultimately have "mset (plugins r) = mset (by_name ps)"
    using registry_inv_maps(1) [OF assms(1)]
    by (metis distinct_map map_of_inject_set set_eq_iff_mset_eq_distinct)
  then have "mset (map snd (plugins r)) = mset (map snd (by_name ps))"
    by simp
  also have "map snd (by_name ps) = ps" by (simp add: by_name_def comp_def)
  finally show ?thesis
    unfolding Registry_List_def sort_by_name_def
    by (rule sort_key_perm) (rule inj_on_Name [OF assms(1)])
qed

lemmas vendor_infos = intel_plugin_def marvell_plugin_def xsight_plugin_def mangoboost_plugin_def
  nvidia_plugin_def intel_Info_def marvell_Info_def xsight_Info_def mangoboost_Info_def nvidia_Info_def
  intel_supportedDevices_def marvell_supportedDevices_def xsight_supportedDevices_def
  mangoboost_supportedDevices_def nvidia_supportedDevices_def

lemma compatible_builtin: "compatible builtin_plugins"
  by code_simp

lemma mset_concat_map:
  "mset (concat (map f ps)) = \<Sum>\<^sub># (image_mset (\<lambda>p. mset (f p)) (mset ps))"
  by (induction ps) auto

lemma compatible_perm:
  assumes "mset ps = mset qs"
  shows "compatible ps \<longleftrightarrow> compatible qs"
proof -
  have "distinct (concat (map f ps)) \<longleftrightarrow> distinct (concat (map f qs))" for f :: "plugin \<Rightarrow> string list"
    using assms by (intro mset_eq_imp_distinct_iff) (simp add: mset_concat_map)
  moreover have "distinct (map g ps) \<longleftrightarrow> distinct (map g qs)" for g :: "plugin \<Rightarrow> string"
    using assms by (intro mset_eq_imp_distinct_iff) simp
  moreover have "set ps = set qs" using assms by (rule mset_eq_setD)
  ultimately show ?thesis unfolding compatible_def by simp
qed

lemma by_name_get: "compatible ps \<Longrightarrow> p \<in> set ps \<Longrightarrow> map_get (by_name ps) (Name (Info p)) = Some p"
  by (rule map_of_is_SomeI) (auto simp: by_name_def compatible_def comp_def)

lemma builtin_registered:
  assumes "mset ps = mset builtin_plugins"
  shows "\<exists>r. register_all ps NewRegistry = Inr r \<and> registry_inv r \<and> Registry_List r = builtin_plugins \<and>
    (\<forall>n. Registry_Get n r = map_get (by_name ps) n)"
proof -
  have comp: "compatible ps"
    using assms compatible_builtin compatible_perm by blast
  obtain r where r: "register_all ps NewRegistry = Inr r" "registry_inv r"
    and get: "\<And>n. Registry_Get n r = map_get (by_name ps) n"
    using register_all_ok [OF registry_inv_New comp]
    by (auto simp: NewRegistry_def Registry_Get_def fun_eq_iff)
  have "sort_by_name ps = sort_by_name builtin_plugins"
    unfolding sort_by_name_def using assms compatible_builtin
    by (intro sort_key_perm) (auto simp: compatible_def distinct_map dest: mset_eq_setD)
  moreover have "sort_by_name builtin_plugins = builtin_plugins"
    by (simp add: sort_by_name_def builtin_plugins_def vendor_infos)
  ultimately show ?thesis
    using r get registry_List_of [OF r(2) comp get] by metis
qed

section \<open>Properties\<close>

text \<open>In whatever order the vendor packages are initialised, no \<open>MustRegister\<close> panics; afterwards
  the registry is consistent, lists the five plugins in alphabetical order, and finds for every
  supported PCI identifier of a vendor, in any letter case, that vendor's plugin.\<close>

theorem builtin_registration:
  assumes "mset ps = mset builtin_plugins"
  shows "\<exists>r. register_all ps NewRegistry = Inr r \<and> registry_inv r \<and>
    Registry_List r = [intel_plugin, mangoboost_plugin, marvell_plugin, nvidia_plugin, xsight_plugin] \<and>
    (\<forall>p \<in> set builtin_plugins. \<forall>d \<in> set (SupportedDevices (Info p)). \<forall>v dv.
       to_lower v = to_lower (VendorID d) \<longrightarrow> to_lower dv = to_lower (DeviceID d) \<longrightarrow>
       FindPluginForDevice v dv r = (Some p, True))"
proof -
  have comp: "compatible ps"
    using assms compatible_builtin compatible_perm by blast
  obtain r where r: "register_all ps NewRegistry = Inr r" "registry_inv r"
    and list: "Registry_List r = builtin_plugins"
    and get: "\<And>n. Registry_Get n r = map_get (by_name ps) n"
    using builtin_registered [OF assms] by blast
  have "FindPluginForDevice v dv r = (Some p, True)"
    if p: "p \<in> set builtin_plugins" "d \<in> set (SupportedDevices (Info p))"
      and k: "to_lower v = to_lower (VendorID d)" "to_lower dv = to_lower (DeviceID d)" for p d v dv
  proof -
    have "p \<in> set ps" using p(1) assms mset_eq_setD by blast
    then have "Registry_Get (Name (Info p)) r = Some p"
      using get comp by (simp add: by_name_get)
    moreover have "to_lower (v @ '':'' @ dv) \<in> set (plugin_keys p)"
    proof -
      have "to_lower (v @ '':'' @ dv) = device_key d"
        using k by (simp add: device_key_def PCIDeviceID_String_def to_lower_Cons)
      then show ?thesis using p(2) by (simp add: set_plugin_keys)
    qed
    ultimately have "GetByDeviceID (v @ '':'' @ dv) r = Some p"
      using r(2) GetByDeviceID_iff by blast
    then show ?thesis by (simp add: FindPluginForDevice_def GetByVendorDevice_def)
  qed
  then show ?thesis
    using r list builtin_plugins_def by metis
qed

theorem builtin_registration_witness:
  "\<exists>r. register_all (rev builtin_plugins) NewRegistry = Inr r \<and>
     FindPluginForDevice ''15B3'' ''A2DC'' r = (Some nvidia_plugin, True) \<and>
     FindPluginForDevice ''8086'' ''1453'' r = (Some intel_plugin, True)"
proof -
  have "mset (rev builtin_plugins) = mset builtin_plugins" by simp
  from builtin_registration [OF this] obtain r where
    r: "register_all (rev builtin_plugins) NewRegistry = Inr r"
    and f: "\<And>p d v dv. p \<in> set builtin_plugins \<Longrightarrow> d \<in> set (SupportedDevices (Info p)) \<Longrightarrow>
      to_lower v = to_lower (VendorID d) \<Longrightarrow> to_lower dv = to_lower (DeviceID d) \<Longrightarrow>
      FindPluginForDevice v dv r = (Some p, True)"
    by blast
  have "FindPluginForDevice ''15B3'' ''A2DC'' r = (Some nvidia_plugin, True)"
    by (rule f [where d = "SupportedDevices (Info nvidia_plugin) ! 2"]; code_simp)
  moreover have "FindPluginForDevice ''8086'' ''1453'' r = (Some intel_plugin, True)"
    by (rule f [where d = "SupportedDevices (Info intel_plugin) ! 0"]; code_simp)
  ultimately show ?thesis using r by blast
qed

end
