(* ===== verification/Api_Types.thy ===== *)
theory Api_Types
  imports Go_Errors
begin

text \<open>
  The custom resources the operator works on (\<open>api/v1\<close>), and the condition helpers of
  \<open>apimachinery\<close> (\<open>vendor/k8s.io/apimachinery/pkg/api/meta/conditions.go\<close>) and the name check of the
  API server (\<open>pkg/util/validation\<close> there) that the code relies on. A nil map and an empty map are
  both the empty association list.
\<close>

section \<open>Conditions\<close>

record Condition =
  c_Type :: string
  c_Status :: string
  c_Reason :: string
  c_Message :: string
  c_ObservedGeneration :: int
  c_LastTransitionTime :: int

definition FindStatusCondition :: "Condition list \<Rightarrow> string \<Rightarrow> Condition option" where
  "FindStatusCondition cs t = List.find (\<lambda>c. c_Type c = t) cs"

definition merge_condition :: "Condition \<Rightarrow> Condition \<Rightarrow> Condition" where
  "merge_condition old new =
     old\<lparr>c_Status := c_Status new, c_Reason := c_Reason new, c_Message := c_Message new,
         c_ObservedGeneration := c_ObservedGeneration new,
         c_LastTransitionTime := (if c_Status old \<noteq> c_Status new then c_LastTransitionTime new
                                  else c_LastTransitionTime old)\<rparr>"

fun replace_condition :: "Condition \<Rightarrow> Condition list \<Rightarrow> Condition list" where
  "replace_condition new [] = []"
| "replace_condition new (c # cs) =
     (if c_Type c = c_Type new then merge_condition c new # cs else c # replace_condition new cs)"

text \<open>\<open>meta.SetStatusCondition\<close> for a condition whose transition time is set.\<close>

definition SetStatusCondition :: "Condition \<Rightarrow> Condition list \<Rightarrow> Condition list" where
  "SetStatusCondition new cs =
     (if FindStatusCondition cs (c_Type new) = None then cs @ [new] else replace_condition new cs)"

section \<open>DataProcessingUnit and DataProcessingUnitConfig\<close>

record DataProcessingUnitSpec =
  DpuProductName :: string
  IsDpuSide :: bool
  NodeName :: string

record DataProcessingUnit =
  dpu_Name :: string
  dpu_Labels :: "(string, string) gomap"
  dpu_Annotations :: "(string, string) gomap"
  dpu_Owner :: "string option"
  dpu_Spec :: DataProcessingUnitSpec
  dpu_Conditions :: "Condition list"

text \<open>A label selector is kept as the predicate \<open>metav1.LabelSelectorAsSelector\<close> makes of it; a nil slice of
  matched names is \<open>None\<close>.\<close>

record DataProcessingUnitConfig =
  cfg_Namespace :: string
  cfg_Name :: string
  cfg_Generation :: int
  cfg_DpuSelector :: "((string, string) gomap \<Rightarrow> bool) result option"
  cfg_VfCount :: "32 word option"
  cfg_ObservedGeneration :: int
  cfg_MatchedDPUs :: "string list option"

section \<open>Names\<close>

definition is_alnum :: "char \<Rightarrow> bool" where
  "is_alnum c \<longleftrightarrow> (CHR ''a'' \<le> c \<and> c \<le> CHR ''z'') \<or> (CHR ''A'' \<le> c \<and> c \<le> CHR ''Z'') \<or> is_digit c"

definition is_lower_alnum :: "char \<Rightarrow> bool" where
  "is_lower_alnum c \<longleftrightarrow> (CHR ''a'' \<le> c \<and> c \<le> CHR ''z'') \<or> is_digit c"

text \<open>\<open>[a-z0-9]([-a-z0-9]*[a-z0-9])?\<close>, parts joined by dots, at most 253 characters.\<close>

definition is_dns_label :: "string \<Rightarrow> bool" where
  "is_dns_label s \<longleftrightarrow> s \<noteq> [] \<and> is_lower_alnum (hd s) \<and> is_lower_alnum (last s) \<and>
     list_all (\<lambda>c. is_lower_alnum c \<or> c = CHR ''-'') s"

definition IsDNS1123Subdomain :: "string \<Rightarrow> bool" where
  "IsDNS1123Subdomain s \<longleftrightarrow> length s \<le> 253 \<and> list_all is_dns_label (split_on (CHR ''.'') s)"

definition qualified_part :: "string \<Rightarrow> bool" where
  "qualified_part s \<longleftrightarrow> s \<noteq> [] \<and> length s \<le> 63 \<and> is_alnum (hd s) \<and> is_alnum (last s) \<and>
     list_all (\<lambda>c. is_alnum c \<or> c = CHR ''-'' \<or> c = CHR ''_'' \<or> c = CHR ''.'') s"

definition IsQualifiedName :: "string \<Rightarrow> bool" where
  "IsQualifiedName value =
     (case split_on (CHR ''/'') value of
        [name] \<Rightarrow> qualified_part name
      | [pfx, name] \<Rightarrow> IsDNS1123Subdomain pfx \<and> qualified_part name
      | _ \<Rightarrow> False)"

section \<open>Lemmas\<close>

lemma FindStatusCondition_Set:
  "FindStatusCondition (SetStatusCondition new cs) (c_Type new) =
     Some (case FindStatusCondition cs (c_Type new) of
             None \<Rightarrow> new | Some old \<Rightarrow> merge_condition old new)"
proof -
  have "FindStatusCondition (replace_condition new cs) (c_Type new) =
      map_option (\<lambda>old. merge_condition old new) (FindStatusCondition cs (c_Type new))"
    by (induction cs) (auto simp: FindStatusCondition_def merge_condition_def)
  then show ?thesis
    by (auto simp: SetStatusCondition_def FindStatusCondition_def find_append split: option.splits)
qed

text \<open>Other condition types are not touched.\<close>

lemma FindStatusCondition_Set_other:
  assumes "t \<noteq> c_Type new"
  shows "FindStatusCondition (SetStatusCondition new cs) t = FindStatusCondition cs t"
proof -
  have "FindStatusCondition (replace_condition new cs) t = FindStatusCondition cs t"
    using assms by (induction cs) (auto simp: FindStatusCondition_def merge_condition_def)
  then show ?thesis
    using assms by (auto simp: SetStatusCondition_def FindStatusCondition_def find_append split: option.splits)
qed

lemma two_slashes_not_qualified:
  assumes "2 \<le> count_list s (CHR ''/'')"
  shows "\<not> IsQualifiedName s"
proof -
  have "3 \<le> length (split_on (CHR ''/'') s)" using assms by (simp add: length_split_on)
  then obtain a b c d where "split_on (CHR ''/'') s = a # b # c # d"
    by (metis (no_types, lifting) One_nat_def Suc_le_length_iff numeral_3_eq_3)
  then show ?thesis by (simp add: IsQualifiedName_def)
qed

end
