(* ===== verification/Platform.thy ===== *)
theory Platform
  imports Builtin_Plugins Api_Types
begin

text \<open>
  The hardware platform of the daemon (\<open>internal/platform/platform.go\<close>): PCI devices, network devices
  and product name, the reader of PCI serial numbers, and the functions that make resource names.

  Hardware data comes from the \<open>ghw\<close> package, a parameter (\<open>ghw\<close>), and from sysfs (\<open>filesys\<close>, with
  \<open>os.Stat\<close> of the \<open>physfn\<close> link as a function). Strings are ASCII. The lemmas show that the reader of
  serial numbers is sound, and the shape of sanitised names.
\<close>

section \<open>Platform (platform.go)\<close>

record PCIDevice =
  pci_Address :: string
  pci_VendorID :: string
  pci_VendorName :: string
  pci_ProductID :: string
  pci_ProductName :: string
  pci_ClassName :: string

record NIC =
  nic_Name :: string
  nic_PCIAddress :: "string option"
  nic_MacAddress :: string

record ghw =
  ghw_PCI :: "PCIDevice list result"
  ghw_Network :: "NIC list result"
  ghw_Product :: "string result"

datatype stat_result = StatOk | StatNotExist | StatError go_error

record platform =
  PciDevices :: "PCIDevice list result"
  Product :: "string result"
  ReadDeviceSerialNumber :: "PCIDevice \<Rightarrow> string result"
  GetNetDevNamesFromPCIeAddr :: "string \<Rightarrow> string list result"
  GetNetDevMACAddressFromPCIeAddr :: "string \<Rightarrow> string result"
  stat_physfn :: "string \<Rightarrow> stat_result"

definition byte_at :: "string \<Rightarrow> nat \<Rightarrow> nat" where
  "byte_at data i = of_char (data ! i)"

text \<open>\<open>binary.LittleEndian.Uint32\<close> of four bytes.\<close>

definition le32 :: "string \<Rightarrow> nat \<Rightarrow> nat" where
  "le32 data off = byte_at data off + 256 * byte_at data (off + 1) + 65536 * byte_at data (off + 2)
     + 16777216 * byte_at data (off + 3)"

definition hex_encode :: "string \<Rightarrow> string" where
  "hex_encode s = concat (map (\<lambda>c. [hex_digit (of_char c div 16), hex_digit (of_char c mod 16)]) s)"

text \<open>The loop over the extended capabilities; \<open>visited\<close> is the map of the code.\<close>

function walk_caps :: "string \<Rightarrow> nat list \<Rightarrow> nat \<Rightarrow> string result" where
  "walk_caps data visited offset =
     (if \<not> (offset \<noteq> 0 \<and> offset + 4 \<le> length data)
      then Inl (Errorf ''device serial number capability not found'' [])
      else if offset \<in> set visited
      then Inl (Errorf ''detected loop in PCI extended capabilities'' [])
      else
        let header = le32 data offset in
        if header = 0 then Inl (Errorf ''device serial number capability not found'' [])
        else
          let capID = header mod 65536;
              nextPtr = header div 1048576 mod 4096
          in if capID = 3
             then (if offset + 12 > length data then Inl (Errorf ''invalid DSN capability length'' [])
                   else Inr (hex_encode (take 8 (drop (offset + 4) data))))
             else if nextPtr = 0 then Inl (Errorf ''device serial number capability not found'' [])
             else walk_caps data (offset # visited) (nextPtr * 4))"
  by pat_completeness auto
termination
proof (relation "measure (\<lambda>(data, visited, offset). card ({..<length data} - set visited))")
  fix data :: string and visited :: "nat list" and offset header capID nextPtr :: nat
  assume "\<not> \<not> (offset \<noteq> 0 \<and> offset + 4 \<le> length data)" "offset \<notin> set visited"
  then have "offset \<in> {..<length data} - set visited" by auto
  then have "card ({..<length data} - set (offset # visited)) < card ({..<length data} - set visited)"
    by (intro psubset_card_mono) auto
  then show "((data, offset # visited, nextPtr * 4), (data, visited, offset))
      \<in> measure (\<lambda>(data, visited, offset). card ({..<length data} - set visited))"
    by simp
qed simp

declare walk_caps.simps [simp del]

definition readDeviceSerialFromConfig :: "string \<Rightarrow> string result" where
  "readDeviceSerialFromConfig data =
     (if length data < 256 + 4
      then Inl (Errorf ''config space too small for extended capabilities'' [])
      else walk_caps data [] 256)"

definition hp_ReadDeviceSerialNumber :: "filesys \<Rightarrow> PCIDevice option \<Rightarrow> string result" where
  "hp_ReadDeviceSerialNumber fs dev =
     (case dev of
        None \<Rightarrow> Inl (Errorf ''nil PCI device provided'' [])
      | Some d \<Rightarrow>
          (case ReadFile fs (path_join (path_join ''/sys/bus/pci/devices'' (pci_Address d)) ''config'') of
             Inl err \<Rightarrow> Inl (Errorf ''failed to open config space: %v'' [FErr err])
           | Inr data \<Rightarrow> readDeviceSerialFromConfig data))"

definition hp_GetNetDevNamesFromPCIeAddr :: "ghw \<Rightarrow> string \<Rightarrow> string list result" where
  "hp_GetNetDevNamesFromPCIeAddr g addr =
     (case ghw_Network g of
        Inl err \<Rightarrow> Inl (Errorf ''failed to get network devices: %w'' [FWrap err])
      | Inr nics \<Rightarrow> Inr (map nic_Name (filter (\<lambda>n. nic_PCIAddress n = Some addr) nics)))"

definition hp_GetNetDevNameFromPCIeAddr :: "ghw \<Rightarrow> string \<Rightarrow> string result" where
  "hp_GetNetDevNameFromPCIeAddr g addr =
     (case hp_GetNetDevNamesFromPCIeAddr g addr of
        Inl err \<Rightarrow> Inl err
      | Inr [n] \<Rightarrow> Inr n
      | Inr ns \<Rightarrow> Inl (Errorf ''expected exactly 1 interface for PCIe address %s, got %v''
                        [FStr addr, FStr (''['' @ join '' '' ns @ '']'')]))"

definition hp_GetNetDevMACAddressFromPCIeAddr :: "ghw \<Rightarrow> string \<Rightarrow> string result" where
  "hp_GetNetDevMACAddressFromPCIeAddr g addr =
     (case ghw_Network g of
        Inl err \<Rightarrow> Inl (Errorf ''failed to get network devices: %w'' [FWrap err])
      | Inr nics \<Rightarrow>
          (case List.find (\<lambda>n. nic_PCIAddress n = Some addr) nics of
             Some n \<Rightarrow> Inr (nic_MacAddress n)
           | None \<Rightarrow> Inl (Errorf ''no network device found at address %s'' [FStr addr])))"

definition HardwarePlatform :: "filesys \<Rightarrow> (string \<Rightarrow> stat_result) \<Rightarrow> ghw \<Rightarrow> platform" where
  "HardwarePlatform fs stat g =
     \<lparr>PciDevices = ghw_PCI g, Product = ghw_Product g,
      ReadDeviceSerialNumber = (\<lambda>d. hp_ReadDeviceSerialNumber fs (Some d)),
      GetNetDevNamesFromPCIeAddr = hp_GetNetDevNamesFromPCIeAddr g,
      GetNetDevMACAddressFromPCIeAddr = hp_GetNetDevMACAddressFromPCIeAddr g,
      stat_physfn = stat\<rparr>"

section \<open>Names (vendordetector.go, platform.go)\<close>

definition SanitizePCIAddress :: "string \<Rightarrow> string" where
  "SanitizePCIAddress inp = replace_char (CHR '':'') (CHR ''-'') inp"

definition SanitizeForTemplate :: "string \<Rightarrow> string" where
  "SanitizeForTemplate name = replace_char (CHR ''-'') (CHR ''_'') name"

definition k8s_char :: "char \<Rightarrow> char" where
  "k8s_char c = (if CHR ''a'' \<le> c \<and> c \<le> CHR ''z'' then c
                 else if CHR ''0'' \<le> c \<and> c \<le> CHR ''9'' then c
                 else if c = CHR ''-'' \<or> c = CHR ''.'' then c
                 else CHR ''-'')"

definition is_trim :: "char \<Rightarrow> bool" where
  "is_trim c \<longleftrightarrow> c = CHR ''-'' \<or> c = CHR ''.''"

definition SanitizeForK8sName :: "string \<Rightarrow> string" where
  "SanitizeForK8sName name =
     (if name = [] then ''unknown''
      else let b = map k8s_char (to_lower name);
               out = rev (dropWhile is_trim (rev (dropWhile is_trim b)))
           in if out = [] then ''unknown'' else out)"

section \<open>Serial numbers\<close>

definition is_lower_hex :: "char \<Rightarrow> bool" where
  "is_lower_hex c \<longleftrightarrow> is_digit c \<or> (CHR ''a'' \<le> c \<and> c \<le> CHR ''f'')"

lemma hex_encode_length [simp]: "length (hex_encode s) = 2 * length s"
  by (induction s) (simp_all add: hex_encode_def)

lemma hex_digit_lower: "n < 16 \<Longrightarrow> is_lower_hex (hex_digit n)"
  by (auto simp: hex_digit_def is_lower_hex_def  less_eq_char_def)

lemma hex_encode_chars: "list_all is_lower_hex (hex_encode s)"
proof -
  have "is_lower_hex (hex_digit (of_char c div 16)) \<and> is_lower_hex (hex_digit (of_char c mod 16))" for c :: char
    by (intro conjI hex_digit_lower) (auto simp: less_mult_imp_div_less)
  then show ?thesis unfolding hex_encode_def by (induction s) auto
qed

text \<open>A Device Serial Number capability: its ID in the low half of the header, room for the number.\<close>

definition dsn_at :: "string \<Rightarrow> nat \<Rightarrow> bool" where
  "dsn_at data off \<longleftrightarrow> off + 12 \<le> length data \<and> le32 data off mod 65536 = 3"

definition next_cap :: "string \<Rightarrow> nat \<Rightarrow> nat" where
  "next_cap data off = le32 data off div 1048576 mod 4096"

lemma walk_caps_dsn:
  "le32 data off mod 65536 = 3 \<Longrightarrow> walk_caps data visited off = Inr s \<Longrightarrow>
     dsn_at data off \<and> s = hex_encode (take 8 (drop (off + 4) data))"
  by (subst (asm) walk_caps.simps) (auto simp: dsn_at_def Let_def split: if_splits)

lemma walk_caps_next:
  "le32 data off mod 65536 \<noteq> 3 \<Longrightarrow> walk_caps data visited off = Inr s \<Longrightarrow>
     (off \<noteq> 0 \<and> off + 4 \<le> length data) \<and> off \<notin> set visited \<and> le32 data off \<noteq> 0 \<and> next_cap data off \<noteq> 0 \<and>
     walk_caps data (off # visited) (next_cap data off * 4) = Inr s"
  by (subst (asm) walk_caps.simps) (auto simp: next_cap_def Let_def split: if_splits)

lemma walk_caps_Inr:
  assumes "walk_caps data visited off = Inr s" "4 dvd off"
  shows "\<exists>o'. 4 dvd o' \<and> dsn_at data o' \<and> s = hex_encode (take 8 (drop (o' + 4) data))"
  using assms
proof (induction data visited off rule: walk_caps.induct)
  case (1 data visited offset)
  show ?case
  proof (cases "le32 data offset mod 65536 = 3")
    case True
    then show ?thesis using walk_caps_dsn 1(2,3) by blast
  next
    case False
    note walk_caps_next [OF False 1(2)]
    with False show ?thesis by (intro 1(1)) (auto simp: next_cap_def)
  qed
qed

lemma walk_caps_first_dsn:
  assumes "dsn_at data off" "off \<noteq> 0" "off \<notin> set visited"
  shows "walk_caps data visited off = Inr (hex_encode (take 8 (drop (off + 4) data)))"
proof -
  from assms(1) have "le32 data off \<noteq> 0" by (auto simp: dsn_at_def)
  with assms show ?thesis by (subst walk_caps.simps) (simp add: dsn_at_def Let_def)
qed

text \<open>
  The serial number reader always ends, on every configuration space, also one whose capabilities form
  a cycle (\<open>walk_caps\<close> is total). A serial number it returns is 16 lower-case hexadecimal digits, the
  eight bytes behind the header of a Device Serial Number capability that lies wholly inside the
  configuration space at a 4-byte aligned offset; and when the first extended capability is such a
  capability its number is the result.
\<close>

theorem serial_number_correct:
  "(readDeviceSerialFromConfig data = Inr s \<longrightarrow>
      length s = 16 \<and> list_all is_lower_hex s \<and>
      (\<exists>off. 4 dvd off \<and> dsn_at data off \<and> s = hex_encode (take 8 (drop (off + 4) data)))) \<and>
   (dsn_at data 256 \<longrightarrow> readDeviceSerialFromConfig data = Inr (hex_encode (take 8 (drop 260 data))))"
proof (intro conjI impI)
  assume "readDeviceSerialFromConfig data = Inr s"
  then have "walk_caps data [] 256 = Inr s" by (simp add: readDeviceSerialFromConfig_def split: if_splits)
  then obtain off where off: "4 dvd off" "dsn_at data off" "s = hex_encode (take 8 (drop (off + 4) data))"
    using walk_caps_Inr [of data "[]" 256 s] by auto
  then show "length s = 16" "list_all is_lower_hex s"
    "\<exists>off. 4 dvd off \<and> dsn_at data off \<and> s = hex_encode (take 8 (drop (off + 4) data))"
    using hex_encode_chars by (auto simp: dsn_at_def)
next
  assume "dsn_at data 256"
  then show "readDeviceSerialFromConfig data = Inr (hex_encode (take 8 (drop 260 data)))"
    using walk_caps_first_dsn [of data 256 "[]"] by (simp add: readDeviceSerialFromConfig_def dsn_at_def)
qed

text \<open>A configuration space with the given bytes from offset 256 on.\<close>

definition config_space :: "nat list \<Rightarrow> string" where
  "config_space bytes = replicate 256 (CHR 0x00) @ map char_of bytes"

lemma le32_config_space:
  "i + 3 < length bs \<Longrightarrow> le32 (config_space bs) (256 + i) =
     bs ! i mod 256 + 256 * (bs ! (i + 1) mod 256) + 65536 * (bs ! (i + 2) mod 256) + 16777216 * (bs ! (i + 3) mod 256)"
  by (simp add: le32_def byte_at_def config_space_def nth_append add.commute [of 3])

lemma drop_config_space: "drop (256 + i) (config_space bs) = map char_of (drop i bs)"
  by (simp add: config_space_def drop_map)

theorem serial_number_correct_witness:
  "readDeviceSerialFromConfig (config_space [3, 0, 1, 0, 0xde, 0xad, 0xbe, 0xef, 0, 1, 2, 3]) =
     Inr ''deadbeef00010203''"
proof -
  let ?d = "config_space [3, 0, 1, 0, 0xde, 0xad, 0xbe, 0xef, 0, 1, 2, 3]"
  have "dsn_at ?d 256"
    using le32_config_space [of 0 "[3, 0, 1, 0, 0xde, 0xad, 0xbe, 0xef, 0, 1, 2, 3]"]
    by (simp add: dsn_at_def config_space_def)
  then have "readDeviceSerialFromConfig ?d = Inr (hex_encode (take 8 (drop 260 ?d)))"
    using serial_number_correct by blast
  then show ?thesis
    using drop_config_space [of 4 "[3, 0, 1, 0, 0xde, 0xad, 0xbe, 0xef, 0, 1, 2, 3]"]
    by (simp add: hex_encode_def hex_digit_def char_of_def bit_iff_odd)
qed

text \<open>
  The PCI Express specification gives the offset of the next capability in bytes, and capabilities lie
  at 256 and above; the reader multiplies it by four. So in a configuration space of at most 1024 bytes it
  only ever finds the serial number of the first capability: one that a link of the first capability leads
  to is reported as not found.
\<close>

theorem serial_number_only_first_capability:
  assumes "length data \<le> 1024" and "next_cap data 256 = 0 \<or> 256 \<le> next_cap data 256"
  shows "(\<exists>s. readDeviceSerialFromConfig data = Inr s) \<longleftrightarrow> dsn_at data 256"
proof
  assume "\<exists>s. readDeviceSerialFromConfig data = Inr s"
  then obtain s where s: "walk_caps data [] 256 = Inr s"
    by (auto simp: readDeviceSerialFromConfig_def split: if_splits)
  show "dsn_at data 256"
  proof (cases "le32 data 256 mod 65536 = 3")
    case True
    then show ?thesis using walk_caps_dsn s by blast
  next
    case False
    note nxt = walk_caps_next [OF False s]
    with assms have far: "\<not> next_cap data 256 * 4 + 4 \<le> length data" by auto
    have "walk_caps data [256] (next_cap data 256 * 4) \<noteq> Inr s"
      using far by (subst walk_caps.simps) simp
    with nxt show ?thesis by simp
  qed
next
  assume "dsn_at data 256"
  then show "\<exists>s. readDeviceSerialFromConfig data = Inr s"
    using walk_caps_first_dsn [of data 256 "[]"] by (simp add: readDeviceSerialFromConfig_def dsn_at_def)
qed

text \<open>An Advanced Error Reporting capability linked to a serial number 16 bytes further on.\<close>

definition aer_then_dsn :: "nat list" where
  "aer_then_dsn = [1, 0, 2, 0x11, 0, 0, 0, 0, 0, 0, 0, 0, 0, 0, 0, 0,
                   3, 0, 1, 0, 0xde, 0xad, 0xbe, 0xef, 0, 1, 2, 3]"

theorem serial_number_only_first_capability_witness:
  "next_cap (config_space aer_then_dsn) 256 = 272 \<and> dsn_at (config_space aer_then_dsn) 272 \<and>
   \<not> (\<exists>s. readDeviceSerialFromConfig (config_space aer_then_dsn) = Inr s)"
proof -
  let ?d = "config_space aer_then_dsn"
  have hdr: "le32 ?d 256 = 0x11020001" "le32 ?d 272 = 0x10003"
    using le32_config_space [of 0 aer_then_dsn] le32_config_space [of 16 aer_then_dsn]
    by (simp_all add: aer_then_dsn_def)
  have len: "length ?d = 284" by (simp add: config_space_def aer_then_dsn_def)
  from hdr have nxt: "next_cap ?d 256 = 272" by (simp add: next_cap_def)
  have "(\<exists>s. readDeviceSerialFromConfig ?d = Inr s) \<longleftrightarrow> dsn_at ?d 256"
    by (rule serial_number_only_first_capability) (simp_all add: len nxt)
  with hdr len nxt show ?thesis by (simp add: dsn_at_def)
qed

section \<open>Resource names\<close>

lemma k8s_char_ok: "is_lower_alnum (k8s_char c) \<or> is_trim (k8s_char c)"
  by (auto simp: k8s_char_def is_lower_alnum_def is_trim_def)

lemma k8s_char_id: "is_lower_alnum c \<or> is_trim c \<Longrightarrow> k8s_char c = c \<and> lower_char c = c"
  by (auto simp: k8s_char_def is_lower_alnum_def is_trim_def lower_char_def less_eq_char_def)

lemma alnum_not_trim: "is_lower_alnum c \<Longrightarrow> \<not> is_trim c"
  by (auto simp: is_lower_alnum_def is_trim_def less_eq_char_def)

text \<open>What every result of \<open>SanitizeForK8sName\<close> looks like.\<close>

definition k8s_shape :: "string \<Rightarrow> bool" where
  "k8s_shape s \<longleftrightarrow> s \<noteq> [] \<and> is_lower_alnum (hd s) \<and> is_lower_alnum (last s) \<and>
     list_all (\<lambda>c. is_lower_alnum c \<or> is_trim c) s"

lemma trim_both_shape:
  assumes "list_all (\<lambda>c. is_lower_alnum c \<or> is_trim c) b"
    and "rev (dropWhile is_trim (rev (dropWhile is_trim b))) \<noteq> []"
  shows "k8s_shape (rev (dropWhile is_trim (rev (dropWhile is_trim b))))"
proof -
  let ?l = "dropWhile is_trim b" and ?o = "rev (dropWhile is_trim (rev (dropWhile is_trim b)))"
  have sub: "set ?o \<subseteq> set b" by (auto dest!: set_dropWhileD)
  obtain t where t: "?l = ?o @ t"
    by (metis rev_append rev_rev_ident takeWhile_dropWhile_id)
  have "\<not> is_trim (hd ?o)"
    using assms(2) t hd_dropWhile [of is_trim b] by (cases ?o) auto
  moreover have "\<not> is_trim (last ?o)"
    using assms(2) hd_dropWhile [of is_trim "rev ?l"] by (simp add: last_rev)
  moreover have "hd ?o \<in> set b" "last ?o \<in> set b" using sub assms(2) by (meson hd_in_set last_in_set subsetD)+
  ultimately show ?thesis
    using assms sub unfolding k8s_shape_def list_all_iff by blast
qed

lemma unknown_shape: "k8s_shape ''unknown''"
  by (simp add: k8s_shape_def is_lower_alnum_def less_eq_char_def)

lemma SanitizeForK8sName_shape: "k8s_shape (SanitizeForK8sName name)"
proof -
  have "list_all (\<lambda>c. is_lower_alnum c \<or> is_trim c) (map k8s_char (to_lower name))"
    using k8s_char_ok by (simp add: list_all_iff)
  then show ?thesis
    using trim_both_shape unknown_shape unfolding SanitizeForK8sName_def Let_def by auto
qed

lemma SanitizeForK8sName_fixed:
  assumes "k8s_shape s"
  shows "SanitizeForK8sName s = s"
proof -
  have "to_lower s = s" "map k8s_char s = s"
    using assms k8s_char_id by (auto simp: to_lower_def k8s_shape_def list_all_iff intro!: map_idI)
  moreover have "dropWhile is_trim s = s" "dropWhile is_trim (rev s) = rev s"
    using assms alnum_not_trim by (auto simp: k8s_shape_def dropWhile_eq_self_iff hd_rev)
  moreover have "s \<noteq> []" using assms by (simp add: k8s_shape_def)
  ultimately show ?thesis unfolding SanitizeForK8sName_def Let_def by (simp only: if_False rev_rev_ident)
qed

text \<open>A list of parts joined by dots is a valid name as soon as every part is a label.\<close>

lemma dns_label_shape: "is_dns_label s \<Longrightarrow> k8s_shape s"
  by (auto simp: is_dns_label_def k8s_shape_def list_all_iff is_trim_def)

lemma join_shape: "ls \<noteq> [] \<Longrightarrow> list_all is_dns_label ls \<Longrightarrow> k8s_shape (join ''.'' ls)"
proof (induction "''.''" ls rule: join.induct)
  case (3 x y ys)
  then have "k8s_shape (join ''.'' (y # ys))" "k8s_shape x" by (simp_all add: dns_label_shape)
  then show ?case by (simp add: k8s_shape_def is_trim_def)
qed (simp_all add: dns_label_shape)

lemma subdomain_shape: "IsDNS1123Subdomain s \<Longrightarrow> k8s_shape s"
  using join_shape [of "split_on (CHR ''.'') s"] by (simp add: IsDNS1123Subdomain_def join_split_on)

text \<open>
  \<open>SanitizeForK8sName\<close> always produces a non-empty string of lower-case letters, digits, dots and
  dashes that begins and ends with a letter or digit; it is idempotent, and leaves every valid Kubernetes
  name (node names are such names) as it is.
\<close>

theorem SanitizeForK8sName_correct:
  "k8s_shape (SanitizeForK8sName name) \<and>
   SanitizeForK8sName (SanitizeForK8sName name) = SanitizeForK8sName name \<and>
   (IsDNS1123Subdomain name \<longrightarrow> SanitizeForK8sName name = name)"
  using SanitizeForK8sName_shape SanitizeForK8sName_fixed subdomain_shape by blast

theorem SanitizeForK8sName_correct_witness:
  "SanitizeForK8sName ''worker-1.example'' = ''worker-1.example'' \<and>
   SanitizeForK8sName ''_Intel IPU E2100_'' = ''intel-ipu-e2100''"
proof -
  have "IsDNS1123Subdomain ''worker-1.example''"
    by (simp add: IsDNS1123Subdomain_def is_dns_label_def is_lower_alnum_def less_eq_char_def)
  then have "SanitizeForK8sName ''worker-1.example'' = ''worker-1.example''"
    using SanitizeForK8sName_correct by blast
  moreover have "SanitizeForK8sName ''_Intel IPU E2100_'' = ''intel-ipu-e2100''"
    by (simp add: SanitizeForK8sName_def k8s_char_def to_lower_def lower_char_def is_trim_def less_eq_char_def
        char_of_def bit_iff_odd)
  ultimately show ?thesis by blast
qed

end
