(* ===== verification/Detection.thy ===== *)
theory Detection
  imports Platform
begin

text \<open>
  DPU detection (\<open>internal/platform\<close>): the six vendor detectors and the detector manager that turns what
  they find into \<open>DataProcessingUnit\<close> resources with a vendor plugin each. A detector is the record of the
  methods of the interface \<open>VendorDetector\<close>; the locales \<open>vendor_detector\<close> and \<open>deduping_detector\<close> state
  what the manager relies on, and are interpreted for the six detectors.
\<close>

section \<open>Detectors\<close>

record VendorDetector =
  d_Name :: string
  d_VendorName :: string
  d_PlatformName :: string
  d_IsDpuPlatform :: "platform \<Rightarrow> bool result"
  d_IsDPU :: "platform \<Rightarrow> PCIDevice \<Rightarrow> string list \<Rightarrow> bool result"
  d_GetDpuIdentifier :: "platform \<Rightarrow> PCIDevice \<Rightarrow> string result"
  d_DpuPlatformIdentifier :: "platform \<Rightarrow> string result"

subsection \<open>Intel IPU (ipu.go)\<close>

definition isVirtualFunction :: "platform \<Rightarrow> string \<Rightarrow> bool result" where
  "isVirtualFunction pf device =
     (case stat_physfn pf device of
        StatOk \<Rightarrow> Inr True
      | StatNotExist \<Rightarrow> Inr False
      | StatError err \<Rightarrow> Inl (Errorf ''Error when stating path %s: %v'' [FStr device, FErr err]))"

definition intel_IsDPU :: "platform \<Rightarrow> PCIDevice \<Rightarrow> string list \<Rightarrow> bool result" where
  "intel_IsDPU pf pci dpuDevices =
     (case isVirtualFunction pf (pci_Address pci) of
        Inl err \<Rightarrow> Inl (Errorf ''Error determining if device %s is a VF or PF: %v''
                         [FStr (pci_Address pci), FErr err])
      | Inr isVF \<Rightarrow>
          if isVF \<or> pci_ClassName pci \<noteq> ''Network controller'' \<or>
             pci_VendorName pci \<noteq> ''Intel Corporation'' \<or>
             pci_ProductName pci \<noteq> ''Infrastructure Data Path Function''
          then Inr False
          else
            (case GetNetDevNamesFromPCIeAddr pf (pci_Address pci) of
               Inl err \<Rightarrow> Inl (Errorf ''Error getting network device name for PCI address %s: %v''
                                [FStr (pci_Address pci), FErr err])
             | Inr names \<Rightarrow> Inr (list_ex (\<lambda>n. suffix ''d2'' n) names)))"

definition intel_IsDpuPlatform :: "platform \<Rightarrow> bool result" where
  "intel_IsDpuPlatform pf =
     (case Product pf of
        Inl err \<Rightarrow> Inl (Errorf ''Error getting product info: %v'' [FErr err])
      | Inr name \<Rightarrow> Inr (contains name ''IPU Adapter E2100-CCQDA2''))"

definition intel_GetDpuIdentifier :: "platform \<Rightarrow> PCIDevice \<Rightarrow> string result" where
  "intel_GetDpuIdentifier pf pci =
     Inr (sprintf ''intel-ipu-%s'' [SanitizePCIAddress (pci_Address pci)])"

definition IntelDetector :: VendorDetector where
  "IntelDetector = \<lparr>d_Name = ''Intel IPU E2100'', d_VendorName = ''intel'', d_PlatformName = ''intel-ipu'',
     d_IsDpuPlatform = intel_IsDpuPlatform, d_IsDPU = intel_IsDPU,
     d_GetDpuIdentifier = intel_GetDpuIdentifier,
     d_DpuPlatformIdentifier = (\<lambda>pf. Inr ''intel-ipu'')\<rparr>"

subsection \<open>Marvell (marvell-dpu.go)\<close>

definition any_pci :: "platform \<Rightarrow> string \<Rightarrow> string \<Rightarrow> bool result" where
  "any_pci pf vendor product =
     (case PciDevices pf of
        Inl err \<Rightarrow> Inl (Errorf ''Error getting devices: %v'' [FErr err])
      | Inr ds \<Rightarrow> Inr (list_ex (\<lambda>pci. pci_VendorID pci = vendor \<and> pci_ProductID pci = product) ds))"

definition marvell_IsDPU :: "platform \<Rightarrow> PCIDevice \<Rightarrow> string list \<Rightarrow> bool result" where
  "marvell_IsDPU pf pci dpuDevices =
     Inr (pci_VendorID pci = ''177d'' \<and> pci_ProductID pci = ''b900'')"

definition marvell_IsDpuPlatform :: "platform \<Rightarrow> bool result" where
  "marvell_IsDpuPlatform pf = any_pci pf ''177d'' ''a0f7''"

definition marvell_GetDpuIdentifier :: "platform \<Rightarrow> PCIDevice \<Rightarrow> string result" where
  "marvell_GetDpuIdentifier pf pci =
     Inr (sprintf ''marvell-dpu-%s'' [SanitizePCIAddress (pci_Address pci)])"

definition MarvellDetector :: VendorDetector where
  "MarvellDetector = \<lparr>d_Name = ''Marvell DPU'', d_VendorName = ''marvell'', d_PlatformName = ''marvell-dpu'',
     d_IsDpuPlatform = marvell_IsDpuPlatform, d_IsDPU = marvell_IsDPU,
     d_GetDpuIdentifier = marvell_GetDpuIdentifier,
     d_DpuPlatformIdentifier = (\<lambda>pf. Inr ''marvell-dpu'')\<rparr>"

subsection \<open>Intel NetSec accelerator (netsec-accelerator.go)\<close>

definition netsec_IsDPU :: "platform \<Rightarrow> PCIDevice \<Rightarrow> string list \<Rightarrow> bool result" where
  "netsec_IsDPU pf pci dpuDevices =
     (if pci_VendorID pci = ''8086'' \<and> pci_ProductID pci = ''1599''
      then (case ReadDeviceSerialNumber pf pci of
              Inl err \<Rightarrow> Inl (Errorf ''Error reading device serial number for %s: %v''
                               [FStr (pci_Address pci), FErr err])
            | Inr serial \<Rightarrow> Inr (serial \<notin> set dpuDevices))
      else Inr False)"

definition netsec_IsDpuPlatform :: "platform \<Rightarrow> bool result" where
  "netsec_IsDpuPlatform pf = any_pci pf ''8086'' ''124c''"

definition netsec_GetDpuIdentifier :: "platform \<Rightarrow> PCIDevice \<Rightarrow> string result" where
  "netsec_GetDpuIdentifier pf pci =
     (case ReadDeviceSerialNumber pf pci of
        Inl err \<Rightarrow> Inl err
      | Inr serial \<Rightarrow> Inr (SanitizePCIAddress serial))"

definition netsec_DpuPlatformIdentifier :: "platform \<Rightarrow> string result" where
  "netsec_DpuPlatformIdentifier pf =
     (case GetNetDevMACAddressFromPCIeAddr pf ''0000:f4:00.0'' of
        Inl err \<Rightarrow> Inl (Errorf ''Error getting network device MAC address for %s: %v''
                         [FStr ''0000:f4:00.0'', FErr err])
      | Inr mac \<Rightarrow> Inr (SanitizePCIAddress mac))"

definition NetsecAcceleratorDetector :: VendorDetector where
  "NetsecAcceleratorDetector = \<lparr>d_Name = ''Intel Netsec Accelerator'', d_VendorName = ''intel'',
     d_PlatformName = ''intel-netsec'', d_IsDpuPlatform = netsec_IsDpuPlatform, d_IsDPU = netsec_IsDPU,
     d_GetDpuIdentifier = netsec_GetDpuIdentifier,
     d_DpuPlatformIdentifier = netsec_DpuPlatformIdentifier\<rparr>"

subsection \<open>Detectors that ask the registry (nvidia-bf.go, xsight.go, mangoboost.go)\<close>

text \<open>The three files share their code; the identifier prefix and the plugin name differ.\<close>

definition serial_GetDpuIdentifier :: "string \<Rightarrow> platform \<Rightarrow> PCIDevice \<Rightarrow> string result" where
  "serial_GetDpuIdentifier pfx pf pci =
     (case ReadDeviceSerialNumber pf pci of
        Inl err \<Rightarrow> Inr (sprintf (pfx @ ''%s'') [SanitizePCIAddress (pci_Address pci)])
      | Inr serial \<Rightarrow> Inr (sprintf (pfx @ ''%s'') [serial]))"

definition registry_IsDPU ::
    "registry \<Rightarrow> string \<Rightarrow> string \<Rightarrow> platform \<Rightarrow> PCIDevice \<Rightarrow> string list \<Rightarrow> bool result" where
  "registry_IsDPU reg name pfx pf pci dpuDevices =
     (case GetByDeviceID (to_lower (pci_VendorID pci @ '':'' @ pci_ProductID pci)) reg of
        None \<Rightarrow> Inr False
      | Some p \<Rightarrow>
          if Name (Info p) \<noteq> name then Inr False
          else if pci_ClassName pci \<noteq> ''Network controller'' \<and> pci_ClassName pci \<noteq> ''Ethernet controller''
          then Inr False
          else
            (case serial_GetDpuIdentifier pfx pf pci of
               Inl err \<Rightarrow> Inl err
             | Inr identifier \<Rightarrow> Inr (identifier \<notin> set dpuDevices)))"

definition product_IsDpuPlatform :: "(string \<Rightarrow> bool) \<Rightarrow> platform \<Rightarrow> bool result" where
  "product_IsDpuPlatform match pf =
     (case Product pf of
        Inl err \<Rightarrow> Inl (Errorf ''error getting product info: %v'' [FErr err])
      | Inr name \<Rightarrow> Inr (match name))"

definition product_DpuPlatformIdentifier :: "string \<Rightarrow> platform \<Rightarrow> string result" where
  "product_DpuPlatformIdentifier pfx pf =
     (case Product pf of
        Inl err \<Rightarrow> Inl (Errorf ''error getting product info: %v'' [FErr err])
      | Inr name \<Rightarrow> Inr (sprintf (pfx @ ''%s'') [SanitizeForTemplate name]))"

definition NvidiaDetector :: "registry \<Rightarrow> VendorDetector" where
  "NvidiaDetector reg = \<lparr>d_Name = ''NVIDIA BlueField'', d_VendorName = ''nvidia'', d_PlatformName = ''nvidia-bf'',
     d_IsDpuPlatform = product_IsDpuPlatform (\<lambda>n. contains n ''BlueField''),
     d_IsDPU = registry_IsDPU reg ''nvidia'' ''nvidia-bf-'',
     d_GetDpuIdentifier = serial_GetDpuIdentifier ''nvidia-bf-'',
     d_DpuPlatformIdentifier = product_DpuPlatformIdentifier ''nvidia-bf-''\<rparr>"

definition XSightDetector :: "registry \<Rightarrow> VendorDetector" where
  "XSightDetector reg = \<lparr>d_Name = ''xSight DPU'', d_VendorName = ''xsight'', d_PlatformName = ''xsight'',
     d_IsDpuPlatform = product_IsDpuPlatform (\<lambda>n. contains (to_lower n) ''xsight''),
     d_IsDPU = registry_IsDPU reg ''xsight'' ''xsight-'',
     d_GetDpuIdentifier = serial_GetDpuIdentifier ''xsight-'',
     d_DpuPlatformIdentifier = product_DpuPlatformIdentifier ''xsight-''\<rparr>"

definition MangoBoostDetector :: "registry \<Rightarrow> VendorDetector" where
  "MangoBoostDetector reg = \<lparr>d_Name = ''MangoBoost DPU'', d_VendorName = ''mangoboost'',
     d_PlatformName = ''mangoboost'',
     d_IsDpuPlatform = product_IsDpuPlatform (\<lambda>n. contains (to_lower n) ''mangoboost''),
     d_IsDPU = registry_IsDPU reg ''mangoboost'' ''mangoboost-'',
     d_GetDpuIdentifier = serial_GetDpuIdentifier ''mangoboost-'',
     d_DpuPlatformIdentifier = product_DpuPlatformIdentifier ''mangoboost-''\<rparr>"

section \<open>Detector manager (vendordetector.go)\<close>

record DpuDetectorManager =
  mgr_platform :: platform
  detectors :: "VendorDetector list"
  pluginRegistry :: "registry option"

definition NewDpuDetectorManager :: "registry \<Rightarrow> platform \<Rightarrow> DpuDetectorManager" where
  "NewDpuDetectorManager defaultReg pf =
     \<lparr>mgr_platform = pf,
      detectors = [IntelDetector, MarvellDetector, NetsecAcceleratorDetector, NvidiaDetector defaultReg,
                   XSightDetector defaultReg, MangoBoostDetector defaultReg],
      pluginRegistry = Some defaultReg\<rparr>"

definition GetVendorDirectory :: "DpuDetectorManager \<Rightarrow> string \<Rightarrow> string result" where
  "GetVendorDirectory d dpuProductName =
     (case List.find (\<lambda>det. d_Name det = dpuProductName) (detectors d) of
        Some det \<Rightarrow> Inr (d_PlatformName det)
      | None \<Rightarrow> Inl (Errorf ''unknown DPU product name: %s'' [FStr dpuProductName]))"

definition GetVendorNameByProductName :: "DpuDetectorManager \<Rightarrow> string \<Rightarrow> string result" where
  "GetVendorNameByProductName d dpuProductName =
     (case List.find (\<lambda>det. d_Name det = dpuProductName) (detectors d) of
        Some det \<Rightarrow> Inr (d_VendorName det)
      | None \<Rightarrow> Inl (Errorf ''unknown DPU product name: %s'' [FStr dpuProductName]))"

text \<open>The loop of \<open>detectDpuPlatform\<close>: the detectors that recognise the platform, and all errors.\<close>

fun active_detectors ::
    "platform \<Rightarrow> VendorDetector list \<Rightarrow> VendorDetector list \<times> go_error list" where
  "active_detectors pf [] = ([], [])"
| "active_detectors pf (det # rest) =
     (let (act, errs) = active_detectors pf rest in
      case d_IsDpuPlatform det pf of
        Inl err \<Rightarrow> (act, err # errs)
      | Inr isDPU \<Rightarrow> (if isDPU then det # act else act, errs))"

definition detectDpuPlatform :: "DpuDetectorManager \<Rightarrow> bool \<Rightarrow> VendorDetector option result" where
  "detectDpuPlatform m required =
     (let (act, errs) = active_detectors (mgr_platform m) (detectors m) in
      if errs \<noteq> [] then Inl (Errorf ''Failed to detect DPU platform: %v''
                              [FStr (join [CHR 0x0A] (map error_text errs))])
      else (case act of
              [det] \<Rightarrow> Inr (Some det)
            | [] \<Rightarrow> if required then Inl (Errorf ''Failed to detect any DPU platform'' []) else Inr None
            | _ \<Rightarrow> Inl (Errorf ''Failed to detect DPU platform unambiguously: %v''
                         [FStr (join '' '' (map d_Name act))])))"

definition IsDpu :: "DpuDetectorManager \<Rightarrow> bool result" where
  "IsDpu m = (case detectDpuPlatform m False of Inl err \<Rightarrow> Inl err | Inr det \<Rightarrow> Inr (det \<noteq> None))"

definition postFixDpuSideToIdentifier :: "string \<Rightarrow> bool \<Rightarrow> string" where
  "postFixDpuSideToIdentifier identifier dpuSide = identifier @ (if dpuSide then ''-dpu'' else ''-host'')"

definition uniqueIdentifierForNode :: "string \<Rightarrow> string \<Rightarrow> string" where
  "uniqueIdentifierForNode identifier nodeName =
     (if nodeName = [] then identifier
      else sprintf ''%s-%s'' [identifier, SanitizeForK8sName nodeName])"

definition defaultDpuLabels :: "VendorDetector \<Rightarrow> string \<Rightarrow> bool \<Rightarrow> (string, string) gomap" where
  "defaultDpuLabels det nodeName isDpuSide =
     [(''dpu'', ''enabled''),
      (''dpu.config.openshift.io/side'', if isDpuSide then ''dpu'' else ''host''),
      (''dpu.config.openshift.io/vendor'', to_lower (d_VendorName det)),
      (''dpu.config.openshift.io/product'', SanitizeForK8sName (d_Name det)),
      (''dpu.config.openshift.io/node'', nodeName)]"

text \<open>What \<open>DetectAll\<close> reports: the resource, and of the vendor plugin it makes the mode, the
  identifier and the attached registry plugin with its configuration.\<close>

record DetectedDpu =
  dd_CR :: DataProcessingUnit
  dd_dpuMode :: bool
  dd_dpuIdentifier :: string
  dd_registryPlugin :: "(plugin \<times> PluginConfig) option"

definition findRegistryPluginByVendor :: "registry \<Rightarrow> string \<Rightarrow> plugin option" where
  "findRegistryPluginByVendor reg vendor =
     List.find (\<lambda>p. to_lower (Vendor (Info p)) = to_lower vendor \<or> to_lower (Name (Info p)) = to_lower vendor)
       (Registry_List reg)"

text \<open>\<open>os.Getenv\<close> is the function \<open>getenv\<close>; an unset variable reads as the empty string.\<close>

definition pluginConfigFromEnv :: "(string \<Rightarrow> string) \<Rightarrow> string \<Rightarrow> PluginConfig" where
  "pluginConfigFromEnv getenv vendor =
     (let key = to_upper (replace_char (CHR ''-'') (CHR ''_'') vendor);
          endpoint0 = getenv ''DPU_PLUGIN_OPI_ENDPOINT'';
          network0 = getenv ''DPU_PLUGIN_OPI_NETWORK_ENDPOINT'';
          value = getenv (''DPU_PLUGIN_OPI_ENDPOINT_'' @ key);
          netValue = getenv (''DPU_PLUGIN_OPI_NETWORK_ENDPOINT_'' @ key);
          raw = getenv ''DPU_PLUGIN_LOG_LEVEL''
      in \<lparr>OPIEndpoint = (if vendor \<noteq> [] \<and> value \<noteq> [] then value else endpoint0),
          NetworkEndpoint = (if vendor \<noteq> [] \<and> netValue \<noteq> [] then netValue else network0),
          LogLevel = (if raw \<noteq> [] then (case atoi raw of Some n \<Rightarrow> n | None \<Rightarrow> 0) else 0),
          VendorConfig = []\<rparr>)"

definition attachRegistryPlugin ::
    "(string \<Rightarrow> string) \<Rightarrow> DpuDetectorManager \<Rightarrow> VendorDetector \<Rightarrow> (plugin \<times> PluginConfig) option" where
  "attachRegistryPlugin getenv d det =
     (case pluginRegistry d of
        None \<Rightarrow> None
      | Some reg \<Rightarrow>
          if d_VendorName det = [] then None
          else map_option (\<lambda>p. (p, pluginConfigFromEnv getenv (d_VendorName det)))
                 (findRegistryPluginByVendor reg (d_VendorName det)))"

definition initializing :: "int \<Rightarrow> Condition" where
  "initializing now = \<lparr>c_Type = ''Ready'', c_Status = ''False'', c_Reason = ''Initializing'',
     c_Message = ''DPU resource is being initialized.'', c_ObservedGeneration = 0,
     c_LastTransitionTime = now\<rparr>"

definition detected_dpu ::
    "(string \<Rightarrow> string) \<Rightarrow> int \<Rightarrow> DpuDetectorManager \<Rightarrow> VendorDetector \<Rightarrow> string \<Rightarrow> bool \<Rightarrow> string \<Rightarrow>
     DetectedDpu" where
  "detected_dpu getenv now d det nodeName isDpuSide identifier =
     \<lparr>dd_CR = \<lparr>dpu_Name = postFixDpuSideToIdentifier (uniqueIdentifierForNode identifier nodeName) isDpuSide,
               dpu_Labels = defaultDpuLabels det nodeName isDpuSide,
               dpu_Annotations = [], dpu_Owner = None,
               dpu_Spec = \<lparr>DpuProductName = d_Name det, IsDpuSide = isDpuSide, NodeName = nodeName\<rparr>,
               dpu_Conditions = [initializing now]\<rparr>,
      dd_dpuMode = isDpuSide,
      dd_dpuIdentifier = identifier,
      dd_registryPlugin = attachRegistryPlugin getenv d det\<rparr>"

text \<open>The loop over the PCI devices of the host, with the identifiers found so far.\<close>

fun detect_pci ::
    "platform \<Rightarrow> VendorDetector \<Rightarrow> PCIDevice list \<Rightarrow> string list \<Rightarrow> string list result" where
  "detect_pci pf det [] dpuDevices = Inr []"
| "detect_pci pf det (pci # rest) dpuDevices =
     (case d_IsDPU det pf pci dpuDevices of
        Inl err \<Rightarrow> Inl (Errorf ''Error detecting if device is DPU with detector %v: %v''
                         [FStr (d_Name det), FErr err])
      | Inr isDpu \<Rightarrow>
          if \<not> isDpu then detect_pci pf det rest dpuDevices
          else
            (case d_GetDpuIdentifier det pf pci of
               Inl err \<Rightarrow> Inl (Errorf ''Error getting DPU identifier with detector %v: %v''
                                [FStr (d_Name det), FErr err])
             | Inr identifier \<Rightarrow>
                 (case detect_pci pf det rest (dpuDevices @ [identifier]) of
                    Inl err \<Rightarrow> Inl err
                  | Inr ids \<Rightarrow> Inr (identifier # ids))))"

text \<open>One turn of the outer loop: the DPU itself when the detector recognises the platform, else the
  DPUs among the PCI devices.\<close>

definition detect_one ::
    "(string \<Rightarrow> string) \<Rightarrow> int \<Rightarrow> DpuDetectorManager \<Rightarrow> string \<Rightarrow> VendorDetector \<Rightarrow>
     DetectedDpu list result" where
  "detect_one getenv now d nodeName det =
     (case d_IsDpuPlatform det (mgr_platform d) of
        Inl err \<Rightarrow> Inl (Errorf ''Error detecting if running on DPU platform with detector %v: %v''
                         [FStr (d_Name det), FErr err])
      | Inr dpuPlatform \<Rightarrow>
          if dpuPlatform
          then (case d_DpuPlatformIdentifier det (mgr_platform d) of
                  Inl err \<Rightarrow> Inl err
                | Inr identifier \<Rightarrow> Inr [detected_dpu getenv now d det nodeName True identifier])
          else (case PciDevices (mgr_platform d) of
                  Inl err \<Rightarrow> Inl (Errorf ''Error getting PCI info: %v'' [FErr err])
                | Inr pcis \<Rightarrow>
                    (case detect_pci (mgr_platform d) det pcis [] of
                       Inl err \<Rightarrow> Inl err
                     | Inr ids \<Rightarrow> Inr (map (detected_dpu getenv now d det nodeName False) ids))))"

fun detect_loop ::
    "(string \<Rightarrow> string) \<Rightarrow> int \<Rightarrow> DpuDetectorManager \<Rightarrow> string \<Rightarrow> VendorDetector list \<Rightarrow>
     DetectedDpu list result" where
  "detect_loop getenv now d nodeName [] = Inr []"
| "detect_loop getenv now d nodeName (det # rest) =
     (case detect_one getenv now d nodeName det of
        Inl err \<Rightarrow> Inl err
      | Inr xs \<Rightarrow>
          (case detect_loop getenv now d nodeName rest of
             Inl err \<Rightarrow> Inl err
           | Inr ys \<Rightarrow> Inr (xs @ ys)))"

definition DetectAll ::
    "(string \<Rightarrow> string) \<Rightarrow> int \<Rightarrow> DpuDetectorManager \<Rightarrow> string \<Rightarrow> DetectedDpu list result" where
  "DetectAll getenv now d nodeName = detect_loop getenv now d nodeName (detectors d)"

section \<open>Detection\<close>

text \<open>
  The contract of a vendor detector, as \<open>DetectAll\<close> relies on it: the identifiers of the devices it
  claims carry the mark of the vendor (\<open>mine\<close>).
\<close>

locale vendor_detector =
  fixes det :: VendorDetector and pf :: platform and mine :: "string \<Rightarrow> bool"
  assumes device_mine: "d_IsDPU det pf pci seen = Inr True \<Longrightarrow> d_GetDpuIdentifier det pf pci = Inr i \<Longrightarrow> mine i"
begin

lemma detect_pci_mine: "detect_pci pf det pcis seen = Inr ids \<Longrightarrow> list_all mine ids"
  by (induction pcis arbitrary: seen ids) (auto split: sum.splits if_splits intro: device_mine)

end

text \<open>A detector that recognises the second port of a device it has seen by the serial number.\<close>

locale deduping_detector = vendor_detector +
  assumes dedup: "d_IsDPU det pf pci seen = Inr True \<Longrightarrow> d_GetDpuIdentifier det pf pci = Inr i \<Longrightarrow> i \<notin> set seen"
begin

lemma detect_pci_distinct:
  "detect_pci pf det pcis seen = Inr ids \<Longrightarrow> distinct ids \<and> set ids \<inter> set seen = {}"
proof (induction pcis arbitrary: seen ids)
  case (Cons p ps)
  show ?case
  proof (cases "d_IsDPU det pf p seen = Inr True")
    case True
    with Cons.prems obtain i rest where i: "d_GetDpuIdentifier det pf p = Inr i"
      and r: "detect_pci pf det ps (seen @ [i]) = Inr rest" "ids = i # rest"
      by (auto split: sum.splits if_splits)
    with r Cons.IH [OF r(1)] dedup [OF True i] show ?thesis by auto
  next
    case False
    with Cons show ?thesis by (auto split: sum.splits if_splits)
  qed
qed simp

end

text \<open>A detector whose identifiers are made from the PCI address.\<close>

lemma detect_pci_subseq:
  assumes "\<And>p. d_GetDpuIdentifier det pf p = Inr (f p)"
  shows "detect_pci pf det pcis seen = Inr ids \<Longrightarrow> subseq ids (map f pcis)"
  by (induction pcis arbitrary: seen ids) (auto simp: assms split: sum.splits if_splits)

lemma subseq_distinct: "subseq xs ys \<Longrightarrow> distinct ys \<Longrightarrow> distinct xs"
  by (induction rule: list_emb.induct) (auto dest: list_emb_set)

lemma replace_char_inj:
  assumes "replace_char a b s = replace_char a b t" "b \<notin> set s" "b \<notin> set t"
  shows "s = t"
  using assms unfolding replace_char_def
  by (induction s arbitrary: t) (auto simp: map_eq_Cons_conv Cons_eq_map_conv split: if_splits)

text \<open>PCI addresses of one host: distinct, in lower-case hexadecimal with colons and a dot.\<close>

definition pci_addresses_ok :: "PCIDevice list \<Rightarrow> bool" where
  "pci_addresses_ok pcis \<longleftrightarrow> distinct (map pci_Address pcis) \<and>
     list_all (\<lambda>p. list_all (\<lambda>c. is_lower_hex c \<or> c = CHR '':'' \<or> c = CHR ''.'') (pci_Address p)) pcis"

lemma sanitized_addresses_distinct:
  assumes "pci_addresses_ok pcis"
  shows "distinct (map (\<lambda>p. SanitizePCIAddress (pci_Address p)) pcis)"
proof -
  have "CHR ''-'' \<notin> set (pci_Address p)" if "p \<in> set pcis" for p
    using assms that by (fastforce simp: pci_addresses_ok_def list_all_iff is_lower_hex_def less_eq_char_def)
  then have "inj_on SanitizePCIAddress (set (map pci_Address pcis))"
    by (intro inj_onI) (auto simp: SanitizePCIAddress_def dest: replace_char_inj)
  then have "distinct (map SanitizePCIAddress (map pci_Address pcis))"
    using assms by (simp add: distinct_map pci_addresses_ok_def comp_inj_on)
  then show ?thesis by (simp add: comp_def)
qed

interpretation intel_det: vendor_detector IntelDetector pf "prefix ''intel-ipu-''" for pf
  by unfold_locales (auto simp: IntelDetector_def intel_GetDpuIdentifier_def)

interpretation marvell_det: vendor_detector MarvellDetector pf "prefix ''marvell-dpu-''" for pf
  by unfold_locales (auto simp: MarvellDetector_def marvell_GetDpuIdentifier_def)

lemma serial_identifier_prefix:
  "serial_GetDpuIdentifier ''nvidia-bf-'' pf pci = Inr i \<Longrightarrow> prefix ''nvidia-bf-'' i"
  "serial_GetDpuIdentifier ''xsight-'' pf pci = Inr i \<Longrightarrow> prefix ''xsight-'' i"
  "serial_GetDpuIdentifier ''mangoboost-'' pf pci = Inr i \<Longrightarrow> prefix ''mangoboost-'' i"
  by (auto simp: serial_GetDpuIdentifier_def split: sum.splits)

lemma registry_IsDPU_new:
  "registry_IsDPU reg name pfx pf pci seen = Inr True \<Longrightarrow> serial_GetDpuIdentifier pfx pf pci = Inr i \<Longrightarrow>
     i \<notin> set seen"
  by (auto simp: registry_IsDPU_def split: option.splits if_splits)

interpretation nvidia_det: deduping_detector "NvidiaDetector reg" pf "prefix ''nvidia-bf-''" for reg pf
  by unfold_locales (auto simp: NvidiaDetector_def dest: serial_identifier_prefix registry_IsDPU_new)

interpretation xsight_det: deduping_detector "XSightDetector reg" pf "prefix ''xsight-''" for reg pf
  by unfold_locales (auto simp: XSightDetector_def dest: serial_identifier_prefix registry_IsDPU_new)

interpretation mangoboost_det: deduping_detector "MangoBoostDetector reg" pf "prefix ''mangoboost-''" for reg pf
  by unfold_locales (auto simp: MangoBoostDetector_def dest: serial_identifier_prefix registry_IsDPU_new)

lemma hardware_serial_hex:
  "ReadDeviceSerialNumber (HardwarePlatform fs stat g) pci = Inr s \<Longrightarrow> list_all is_lower_hex s"
  using walk_caps_Inr [of _ "[]" 256 s] hex_encode_chars
  by (auto simp: HardwarePlatform_def hp_ReadDeviceSerialNumber_def readDeviceSerialFromConfig_def
      split: sum.splits if_splits)

lemma SanitizePCIAddress_hex: "list_all is_lower_hex s \<Longrightarrow> SanitizePCIAddress s = s"
  unfolding SanitizePCIAddress_def replace_char_def
  by (rule map_idI) (auto simp: list_all_iff is_lower_hex_def less_eq_char_def)

text \<open>On hardware the serial numbers hold no colon, so the NetSec detector recognises a second port too.\<close>

interpretation netsec_det: deduping_detector NetsecAcceleratorDetector "HardwarePlatform fs stat g"
    "list_all is_lower_hex" for fs stat g
  by unfold_locales
    (auto simp: NetsecAcceleratorDetector_def netsec_GetDpuIdentifier_def netsec_IsDPU_def SanitizePCIAddress_hex
      dest: hardware_serial_hex split: sum.splits if_splits)

subsection \<open>What DetectAll reports\<close>

text \<open>The resource name determines the identifier and the side.\<close>

definition dpu_key :: "DetectedDpu \<Rightarrow> string \<times> bool" where
  "dpu_key x = (dd_dpuIdentifier x, dd_dpuMode x)"

definition resource_name :: "string \<Rightarrow> string \<times> bool \<Rightarrow> string" where
  "resource_name nodeName k = postFixDpuSideToIdentifier (uniqueIdentifierForNode (fst k) nodeName) (snd k)"

lemma resource_name_inj: "inj (resource_name nodeName)"
proof (rule injI)
  fix k l assume eq: "resource_name nodeName k = resource_name nodeName l"
  have "last (resource_name nodeName j) = (if snd j then CHR ''u'' else CHR ''t'')" for j
    by (simp add: resource_name_def postFixDpuSideToIdentifier_def)
  from this [of k] this [of l] eq have side: "snd k = snd l" by (auto split: if_splits)
  have name: "resource_name nodeName j = fst j @ (if nodeName = [] then [] else CHR ''-'' # SanitizeForK8sName nodeName) @
      (if snd j then ''-dpu'' else ''-host'')" for j
    by (simp add: resource_name_def postFixDpuSideToIdentifier_def uniqueIdentifierForNode_def)
  from eq side have "fst k = fst l" unfolding name by simp
  with side show "k = l" by (rule prod_eqI [rotated])
qed

lemma detect_one_Inr:
  assumes "detect_one getenv now d nodeName det = Inr xs"
  shows "\<exists>ids b. d_IsDpuPlatform det (mgr_platform d) = Inr b \<and>
           xs = map (detected_dpu getenv now d det nodeName b) ids \<and>
           (b \<longrightarrow> length ids = 1 \<and> d_DpuPlatformIdentifier det (mgr_platform d) = Inr (hd ids)) \<and>
           (\<not> b \<longrightarrow> (\<exists>pcis. PciDevices (mgr_platform d) = Inr pcis \<and> detect_pci (mgr_platform d) det pcis [] = Inr ids))"
proof -
  obtain b where b: "d_IsDpuPlatform det (mgr_platform d) = Inr b"
    using assms by (cases "d_IsDpuPlatform det (mgr_platform d)") (auto simp: detect_one_def)
  show ?thesis
  proof (cases b)
    case True
    with assms b obtain i where "d_DpuPlatformIdentifier det (mgr_platform d) = Inr i"
      "xs = map (detected_dpu getenv now d det nodeName True) [i]"
      by (auto simp: detect_one_def split: sum.splits)
    with b True show ?thesis by (intro exI [of _ "[i]"]) auto
  next
    case False
    with assms b show ?thesis by (auto simp: detect_one_def split: sum.splits)
  qed
qed

lemma detect_loop_concat:
  "detect_loop getenv now d nodeName dets = Inr ds \<Longrightarrow>
     \<exists>xss. list_all2 (\<lambda>det xs. detect_one getenv now d nodeName det = Inr xs) dets xss \<and> ds = concat xss"
proof (induction dets arbitrary: ds)
  case (Cons det dets)
  then obtain xs ys where "detect_one getenv now d nodeName det = Inr xs"
    "detect_loop getenv now d nodeName dets = Inr ys" "ds = xs @ ys"
    by (auto split: sum.splits)
  moreover obtain yss where "list_all2 (\<lambda>det xs. detect_one getenv now d nodeName det = Inr xs) dets yss"
    "ys = concat yss"
    using Cons.IH calculation(2) by blast
  ultimately show ?case by (intro exI [of _ "xs # yss"]) simp
qed simp

lemma detected_dpu_simps [simp]:
  "dd_dpuIdentifier (detected_dpu getenv now d det nodeName b i) = i"
  "dd_dpuMode (detected_dpu getenv now d det nodeName b i) = b"
  "dpu_Name (dd_CR (detected_dpu getenv now d det nodeName b i)) = resource_name nodeName (i, b)"
  "dd_registryPlugin (detected_dpu getenv now d det nodeName b i) = attachRegistryPlugin getenv d det"
  "IsDpuSide (dpu_Spec (dd_CR (detected_dpu getenv now d det nodeName b i))) = b"
  "DpuProductName (dpu_Spec (dd_CR (detected_dpu getenv now d det nodeName b i))) = d_Name det"
  "NodeName (dpu_Spec (dd_CR (detected_dpu getenv now d det nodeName b i))) = nodeName"
  by (simp_all add: detected_dpu_def resource_name_def)

lemma detect_loop_members:
  assumes "detect_loop getenv now d nodeName dets = Inr ds" "x \<in> set ds"
  shows "\<exists>det \<in> set dets. \<exists>i b. x = detected_dpu getenv now d det nodeName b i \<and>
           d_IsDpuPlatform det (mgr_platform d) = Inr b \<and>
           (b \<longrightarrow> d_DpuPlatformIdentifier det (mgr_platform d) = Inr i)"
proof -
  obtain xss where xss: "list_all2 (\<lambda>det xs. detect_one getenv now d nodeName det = Inr xs) dets xss" "ds = concat xss"
    using detect_loop_concat [OF assms(1)] by blast
  with assms(2) obtain xs where "xs \<in> set xss" "x \<in> set xs" by auto
  with xss(1) obtain det where det: "det \<in> set dets" "detect_one getenv now d nodeName det = Inr xs"
    by (induction rule: list_all2_induct) auto
  obtain ids b where b: "d_IsDpuPlatform det (mgr_platform d) = Inr b"
    "xs = map (detected_dpu getenv now d det nodeName b) ids"
    "b \<longrightarrow> length ids = 1 \<and> d_DpuPlatformIdentifier det (mgr_platform d) = Inr (hd ids)"
    using detect_one_Inr [OF det(2)] by blast
  with \<open>x \<in> set xs\<close> obtain i where "i \<in> set ids" "x = detected_dpu getenv now d det nodeName b i" by auto
  moreover have "b \<longrightarrow> i = hd ids" using b(3) \<open>i \<in> set ids\<close> by (cases ids) auto
  ultimately show ?thesis using det(1) b by metis
qed

text \<open>The DPU side: one resource per detector that recognises the platform.\<close>

lemma detect_loop_dpu_side:
  "detect_loop getenv now d nodeName dets = Inr ds \<Longrightarrow>
     snd (active_detectors (mgr_platform d) dets) = [] \<and>
     length (filter dd_dpuMode ds) = length (fst (active_detectors (mgr_platform d) dets))"
proof (induction dets arbitrary: ds)
  case (Cons det dets)
  then obtain xs ys where xs: "detect_one getenv now d nodeName det = Inr xs" and
    ys: "detect_loop getenv now d nodeName dets = Inr ys" and ds: "ds = xs @ ys"
    by (auto split: sum.splits)
  obtain ids b where b: "d_IsDpuPlatform det (mgr_platform d) = Inr b"
    "xs = map (detected_dpu getenv now d det nodeName b) ids" "b \<longrightarrow> length ids = 1"
    using detect_one_Inr [OF xs] by blast
  then have "length (filter dd_dpuMode xs) = (if b then 1 else 0)"
    by (cases b) (simp_all add: filter_map comp_def)
  with Cons.IH [OF ys] b(1) ds show ?case by (auto simp: Let_def split: prod.splits)
qed simp

lemma IsDpu_active:
  assumes "IsDpu m = Inr b"
  shows "length (fst (active_detectors (mgr_platform m) (detectors m))) = (if b then 1 else 0)"
  using assms
  by (auto simp: IsDpu_def detectDpuPlatform_def Let_def split: prod.splits list.splits if_splits)

lemma distinct_concat_marks:
  assumes "list_all2 (\<lambda>xs P. distinct xs \<and> list_all P xs) xss Ps"
    and "sorted_wrt (\<lambda>P Q. \<forall>x. \<not> (P x \<and> Q x)) Ps"
  shows "distinct (concat xss)"
  using assms
proof (induction rule: list_all2_induct)
  case (Cons xs xss P Ps)
  have "\<exists>Q \<in> set Ps. Q x" if "x \<in> set (concat xss)" for x
    using Cons.hyps(2) that by (induction rule: list_all2_induct) (auto simp: list_all_iff)
  with Cons show ?case by (fastforce simp: list_all_iff)
qed simp

text \<open>The identifiers one detector reports for the host side.\<close>

definition host_ids :: "DetectedDpu list \<Rightarrow> string list" where
  "host_ids xs = map dd_dpuIdentifier (filter (\<lambda>x. \<not> dd_dpuMode x) xs)"

lemma host_ids_detect_one:
  assumes "detect_one getenv now d nodeName det = Inr xs"
  shows "host_ids xs = [] \<or>
         (\<exists>pcis. PciDevices (mgr_platform d) = Inr pcis \<and> detect_pci (mgr_platform d) det pcis [] = Inr (host_ids xs))"
proof -
  obtain ids b where "xs = map (detected_dpu getenv now d det nodeName b) ids"
    "\<not> b \<longrightarrow> (\<exists>pcis. PciDevices (mgr_platform d) = Inr pcis \<and> detect_pci (mgr_platform d) det pcis [] = Inr ids)"
    using detect_one_Inr [OF assms] by blast
  then show ?thesis by (cases b) (auto simp: host_ids_def filter_map comp_def)
qed

definition vendor_marks :: "(string \<Rightarrow> bool) list" where
  "vendor_marks = [prefix ''intel-ipu-'', prefix ''marvell-dpu-'', list_all is_lower_hex,
     prefix ''nvidia-bf-'', prefix ''xsight-'', prefix ''mangoboost-'']"

lemma vendor_marks_disjoint: "sorted_wrt (\<lambda>P Q. \<forall>x. \<not> (P x \<and> Q x)) vendor_marks"
  by (auto simp: vendor_marks_def prefix_def is_lower_hex_def less_eq_char_def)

lemma address_identifiers_distinct:
  assumes "pci_addresses_ok pcis" "detect_pci pf det pcis seen = Inr ids"
    "\<And>p. d_GetDpuIdentifier det pf p = Inr (pfx @ SanitizePCIAddress (pci_Address p))"
  shows "distinct ids"
proof -
  have "distinct (map (\<lambda>p. pfx @ SanitizePCIAddress (pci_Address p)) pcis)"
    using sanitized_addresses_distinct [OF assms(1)] by (auto simp: distinct_map inj_on_def)
  with detect_pci_subseq [OF assms(3,2)] show ?thesis by (rule subseq_distinct)
qed

text \<open>The contracts of the six detectors together, for one pass over the PCI devices.\<close>

lemma detectors_contract:
  assumes "pf = HardwarePlatform fs stat g" "pci_addresses_ok pcis"
  shows "list_all2 (\<lambda>det P. \<forall>ids. detect_pci pf det pcis [] = Inr ids \<longrightarrow> distinct ids \<and> list_all P ids)
    (detectors (NewDpuDetectorManager reg pf)) vendor_marks"
proof -
  have ids: "d_GetDpuIdentifier IntelDetector pf p = Inr (''intel-ipu-'' @ SanitizePCIAddress (pci_Address p))"
    "d_GetDpuIdentifier MarvellDetector pf p = Inr (''marvell-dpu-'' @ SanitizePCIAddress (pci_Address p))" for p
    by (simp_all add: IntelDetector_def intel_GetDpuIdentifier_def MarvellDetector_def marvell_GetDpuIdentifier_def)
  note by_address = address_identifiers_distinct [OF assms(2) _ ids(1)] address_identifiers_distinct [OF assms(2) _ ids(2)]
  show ?thesis
    unfolding NewDpuDetectorManager_def vendor_marks_def assms(1)
    by (auto intro: by_address [unfolded assms(1)] intel_det.detect_pci_mine marvell_det.detect_pci_mine
        netsec_det.detect_pci_mine nvidia_det.detect_pci_mine xsight_det.detect_pci_mine
        mangoboost_det.detect_pci_mine netsec_det.detect_pci_distinct [THEN conjunct1]
        nvidia_det.detect_pci_distinct [THEN conjunct1] xsight_det.detect_pci_distinct [THEN conjunct1]
        mangoboost_det.detect_pci_distinct [THEN conjunct1])
qed

lemma list_all2_detectors:
  assumes "m = NewDpuDetectorManager reg (HardwarePlatform fs stat g)"
    and "\<And>pcis. ghw_PCI g = Inr pcis \<Longrightarrow> pci_addresses_ok pcis"
    and "list_all2 (\<lambda>det xs. detect_one getenv now m nodeName det = Inr xs) (detectors m) xss"
  shows "list_all2 (\<lambda>xs P. distinct xs \<and> list_all P xs) (map host_ids xss) vendor_marks"
proof -
  have pf: "mgr_platform m = HardwarePlatform fs stat g" by (simp add: assms(1) NewDpuDetectorManager_def)
  have pcis: "PciDevices (mgr_platform m) = ghw_PCI g" by (simp add: pf HardwarePlatform_def)
  let ?R = "\<lambda>xs det. detect_one getenv now m nodeName det = Inr xs"
  have R: "list_all2 ?R xss (detectors m)" using assms(3) by (simp add: list_all2_conv_all_nth)
  show ?thesis
  proof (cases "ghw_PCI g")
    case (Inl err)
    then have "distinct (host_ids xs) \<and> list_all P (host_ids xs)" if "?R xs det" for xs det P
      using host_ids_detect_one [OF that] pcis by auto
    moreover have "list_all2 (\<lambda>det P. True) (detectors m) vendor_marks"
      by (simp add: assms(1) NewDpuDetectorManager_def vendor_marks_def)
    ultimately show ?thesis unfolding list_all2_map1 by (rule list_all2_trans [OF _ R])
  next
    case (Inr ps)
    have "distinct (host_ids xs) \<and> list_all P (host_ids xs)"
      if "?R xs det" "\<forall>ids. detect_pci (mgr_platform m) det ps [] = Inr ids \<longrightarrow> distinct ids \<and> list_all P ids" for xs det P
      using host_ids_detect_one [OF that(1)] that(2) pcis Inr by auto
    moreover have "list_all2 (\<lambda>det P. \<forall>ids. detect_pci (mgr_platform m) det ps [] = Inr ids \<longrightarrow> distinct ids \<and> list_all P ids)
        (detectors m) vendor_marks"
      using detectors_contract [OF refl assms(2) [OF Inr]] by (simp add: pf) (simp add: assms(1))
    ultimately show ?thesis unfolding list_all2_map1 by (rule list_all2_trans [OF _ R])
  qed
qed

lemma host_ids_concat: "host_ids (concat xss) = concat (map host_ids xss)"
  by (induction xss) (simp_all add: host_ids_def)

lemma distinct_by_side:
  assumes "distinct (host_ids ds)" "length (filter dd_dpuMode ds) \<le> 1"
  shows "distinct (map dpu_key ds)"
  using assms
proof (induction ds)
  case (Cons x xs)
  show ?case
  proof (cases "dd_dpuMode x")
    case True
    then have "filter dd_dpuMode xs = []" using Cons.prems by simp
    then have "\<forall>y \<in> set xs. \<not> dd_dpuMode y" by (simp add: filter_empty_conv)
    with True Cons show ?thesis by (auto simp: dpu_key_def host_ids_def)
  next
    case False
    with Cons show ?thesis by (auto simp: dpu_key_def host_ids_def)
  qed
qed simp

text \<open>
  C39: On a host whose PCI addresses are distinct and well formed, and whose platform is not ambiguous, a
  successful \<open>DetectAll\<close> reports DPUs with pairwise distinct resource names: the second port of a DPU with a
  serial number is not reported again, and no two vendors share a name.
\<close>

theorem DetectAll_names_distinct:
  assumes "m = NewDpuDetectorManager reg (HardwarePlatform fs stat g)"
    and "\<And>pcis. ghw_PCI g = Inr pcis \<Longrightarrow> pci_addresses_ok pcis"
    and "IsDpu m = Inr b"
    and "DetectAll getenv now m nodeName = Inr ds"
  shows "distinct (map (\<lambda>x. dpu_Name (dd_CR x)) ds)"
proof -
  note loop = assms(4) [unfolded DetectAll_def]
  obtain xss where xss: "list_all2 (\<lambda>det xs. detect_one getenv now m nodeName det = Inr xs) (detectors m) xss"
    "ds = concat xss"
    using detect_loop_concat [OF loop] by blast
  have "distinct (host_ids ds)"
    using distinct_concat_marks [OF list_all2_detectors [OF assms(1,2) xss(1)] vendor_marks_disjoint]
    by (simp add: xss(2) host_ids_concat)
  moreover have "length (filter dd_dpuMode ds) \<le> 1"
    using detect_loop_dpu_side [OF loop] IsDpu_active [OF assms(3)] by auto
  ultimately have "distinct (map (resource_name nodeName) (map dpu_key ds))"
    using distinct_by_side resource_name_inj inj_on_subset by (metis distinct_map subset_UNIV)
  moreover have "dpu_Name (dd_CR x) = resource_name nodeName (dpu_key x)" if "x \<in> set ds" for x
    using detect_loop_members [OF loop that] by (auto simp: dpu_key_def)
  ultimately show ?thesis by (simp cong: map_cong)
qed

text \<open>
  C40: \<open>IsDpu\<close> and \<open>DetectAll\<close> agree: when both succeed, a resource for the DPU side is reported exactly
  when the node is a DPU, and then exactly one; \<open>IsDpu\<close> fails on a node only when a detector fails or
  several detectors recognise it.
\<close>

theorem IsDpu_DetectAll_agree:
  "(IsDpu m = Inr b \<and> DetectAll getenv now m nodeName = Inr ds \<longrightarrow>
      length (filter (\<lambda>x. IsDpuSide (dpu_Spec (dd_CR x))) ds) = (if b then 1 else 0)) \<and>
   (DetectAll getenv now m nodeName = Inr ds \<and> IsDpu m = Inl err \<longrightarrow>
      2 \<le> length (filter (\<lambda>x. IsDpuSide (dpu_Spec (dd_CR x))) ds))"
proof -
  have side: "filter (\<lambda>x. IsDpuSide (dpu_Spec (dd_CR x))) ds = filter dd_dpuMode ds"
    if "detect_loop getenv now m nodeName (detectors m) = Inr ds"
    using detect_loop_members [OF that] by (intro filter_cong) fastforce+
  show ?thesis
  proof (intro conjI impI; elim conjE)
    assume "IsDpu m = Inr b" "DetectAll getenv now m nodeName = Inr ds"
    then show "length (filter (\<lambda>x. IsDpuSide (dpu_Spec (dd_CR x))) ds) = (if b then 1 else 0)"
      using side detect_loop_dpu_side IsDpu_active unfolding DetectAll_def by metis
  next
    assume *: "DetectAll getenv now m nodeName = Inr ds" "IsDpu m = Inl err"
    then obtain act where act: "active_detectors (mgr_platform m) (detectors m) = (act, [])"
      "length (filter dd_dpuMode ds) = length act"
      using detect_loop_dpu_side unfolding DetectAll_def by (metis prod.collapse)
    with *(2) have "2 \<le> length act"
      by (cases act rule: remdups_adj.cases)
        (auto simp: IsDpu_def detectDpuPlatform_def split: sum.splits)
    with act side * show "2 \<le> length (filter (\<lambda>x. IsDpuSide (dpu_Spec (dd_CR x))) ds)"
      unfolding DetectAll_def by simp
  qed
qed

text \<open>The registry plugin of a vendor name, among the built-in plugins.\<close>

definition vendor_plugins :: "(string \<times> plugin) list" where
  "vendor_plugins = [(''intel'', intel_plugin), (''marvell'', marvell_plugin), (''nvidia'', nvidia_plugin),
     (''xsight'', xsight_plugin), (''mangoboost'', mangoboost_plugin)]"

lemma vendor_plugins_found:
  "list_all (\<lambda>(v, p). Name (Info p) = v \<and> to_lower v = v \<and> v \<noteq> [] \<and>
     List.find (\<lambda>q. to_lower (Vendor (Info q)) = to_lower v \<or> to_lower (Name (Info q)) = to_lower v)
       builtin_plugins = Some p) vendor_plugins"
  by code_simp

lemma findRegistryPlugin_builtin:
  assumes "Registry_List r = builtin_plugins" "(v, p) \<in> set vendor_plugins"
  shows "findRegistryPluginByVendor r v = Some p" "Name (Info p) = v" "to_lower v = v" "v \<noteq> []"
    "p \<in> set builtin_plugins"
  using vendor_plugins_found assms find_SomeD unfolding list_all_iff findRegistryPluginByVendor_def by fastforce+

lemma detector_vendor:
  "det \<in> set (detectors (NewDpuDetectorManager r pf)) \<Longrightarrow> \<exists>p. (d_VendorName det, p) \<in> set vendor_plugins"
  by (auto simp: NewDpuDetectorManager_def IntelDetector_def MarvellDetector_def NetsecAcceleratorDetector_def
      NvidiaDetector_def XSightDetector_def MangoBoostDetector_def vendor_plugins_def)

text \<open>
  With the built-in vendor plugins registered in any order, every DPU that \<open>DetectAll\<close> reports has the
  registry plugin of its own vendor attached, the one named by the vendor label of its resource.
\<close>

theorem DetectAll_attaches_vendor_plugin:
  assumes "mset ps = mset builtin_plugins" "register_all ps NewRegistry = Inr r"
    and "DetectAll getenv now (NewDpuDetectorManager r pf) nodeName = Inr ds" "x \<in> set ds"
  shows "\<exists>p \<in> set builtin_plugins.
    dd_registryPlugin x = Some (p, pluginConfigFromEnv getenv (Name (Info p))) \<and>
    map_get (dpu_Labels (dd_CR x)) ''dpu.config.openshift.io/vendor'' = Some (Name (Info p))"
proof -
  have list: "Registry_List r = builtin_plugins" using builtin_registered [OF assms(1)] assms(2) by auto
  let ?m = "NewDpuDetectorManager r pf"
  obtain det i b where det: "det \<in> set (detectors ?m)" "x = detected_dpu getenv now ?m det nodeName b i"
    using detect_loop_members assms(3,4) unfolding DetectAll_def by blast
  obtain p where "(d_VendorName det, p) \<in> set vendor_plugins" using detector_vendor [OF det(1)] by blast
  note p = findRegistryPlugin_builtin [OF list this]
  have "map_get (dpu_Labels (dd_CR x)) ''dpu.config.openshift.io/vendor'' = Some (Name (Info p))"
    by (simp add: det(2) detected_dpu_def defaultDpuLabels_def p)
  moreover have "dd_registryPlugin x = Some (p, pluginConfigFromEnv getenv (Name (Info p)))"
    by (simp add: det(2) attachRegistryPlugin_def NewDpuDetectorManager_def p)
  ultimately show ?thesis using p(5) by blast
qed

text \<open>
  On a node that the NVIDIA detector recognises as a DPU the resource name it reports is never a valid
  Kubernetes name: the detector looks for \<open>BlueField\<close> in the product name and keeps the product name,
  capital letters included, in the identifier.
\<close>

theorem nvidia_dpu_side_name_invalid:
  assumes "DetectAll getenv now (NewDpuDetectorManager r pf) nodeName = Inr ds" "x \<in> set ds"
    and "DpuProductName (dpu_Spec (dd_CR x)) = ''NVIDIA BlueField''" "IsDpuSide (dpu_Spec (dd_CR x))"
  shows "\<not> IsDNS1123Subdomain (dpu_Name (dd_CR x))"
proof
  let ?m = "NewDpuDetectorManager r pf"
  assume valid: "IsDNS1123Subdomain (dpu_Name (dd_CR x))"
  obtain det i b where det: "det \<in> set (detectors ?m)" "x = detected_dpu getenv now ?m det nodeName b i"
    "d_IsDpuPlatform det pf = Inr b" "b \<longrightarrow> d_DpuPlatformIdentifier det pf = Inr i"
    using detect_loop_members [OF assms(1) [unfolded DetectAll_def] assms(2)]
    by (auto simp: NewDpuDetectorManager_def)
  moreover from assms(3,4) det have "b" "d_Name det = ''NVIDIA BlueField''" by auto
  ultimately have det': "det = NvidiaDetector r"
    by (auto simp: NewDpuDetectorManager_def IntelDetector_def MarvellDetector_def NetsecAcceleratorDetector_def
        XSightDetector_def MangoBoostDetector_def)
  obtain name where name: "Product pf = Inr name" "sublist ''BlueField'' name"
      "i = ''nvidia-bf-'' @ SanitizeForTemplate name"
    using det(3,4) \<open>b\<close> unfolding det'
    by (auto simp: NvidiaDetector_def product_IsDpuPlatform_def product_DpuPlatformIdentifier_def go_str
        split: sum.splits)
  have "CHR ''B'' \<in> set name" using name(2) by (auto simp: sublist_def)
  then have "CHR ''B'' \<in> set i" by (auto simp: name(3) SanitizeForTemplate_def replace_char_def image_iff)
  then have "CHR ''B'' \<in> set (dpu_Name (dd_CR x))"
    by (simp add: det(2) resource_name_def postFixDpuSideToIdentifier_def uniqueIdentifierForNode_def)
  with subdomain_shape [OF valid] show False
    by (auto simp: k8s_shape_def list_all_iff is_lower_alnum_def is_trim_def less_eq_char_def)
qed

section \<open>Witnesses of the detection properties\<close>

text \<open>A machine with an NVIDIA card that has no readable serial number and a Marvell card; the product name
  makes it a host or a BlueField DPU.\<close>

definition sample_pci :: "string \<Rightarrow> string \<Rightarrow> string \<Rightarrow> PCIDevice" where
  "sample_pci addr v p = \<lparr>pci_Address = addr, pci_VendorID = v, pci_VendorName = v, pci_ProductID = p,
     pci_ProductName = p, pci_ClassName = ''Network controller''\<rparr>"

definition no_files :: filesys where
  "no_files = \<lparr>ReadDir = (\<lambda>_. Inl (Errorf ''no such file'' [])), ReadFile = (\<lambda>_. Inl (Errorf ''no such file'' [])),
     Readlink = (\<lambda>_. Inl (Errorf ''no such file'' []))\<rparr>"

definition sample_ghw :: "string \<Rightarrow> ghw" where
  "sample_ghw product = \<lparr>ghw_PCI = Inr [sample_pci ''0000:01:00.0'' ''15b3'' ''a2dc'', sample_pci ''0000:02:00.0'' ''177d'' ''b900''],
     ghw_Network = Inr [], ghw_Product = Inr product\<rparr>"

definition builtin_registry :: registry where
  "builtin_registry = (case register_all builtin_plugins NewRegistry of Inr r \<Rightarrow> r | Inl _ \<Rightarrow> NewRegistry)"

definition sample_manager :: "string \<Rightarrow> DpuDetectorManager" where
  "sample_manager product = NewDpuDetectorManager builtin_registry
     (HardwarePlatform no_files (\<lambda>_. StatNotExist) (sample_ghw product))"

text \<open>The names, products, sides and attached plugins of what is detected.\<close>

definition summary :: "DetectedDpu list result \<Rightarrow> (string \<times> string \<times> bool \<times> string option) list option" where
  "summary res = (case res of Inl _ \<Rightarrow> None | Inr ds \<Rightarrow>
     Some (map (\<lambda>x. (dpu_Name (dd_CR x), DpuProductName (dpu_Spec (dd_CR x)), IsDpuSide (dpu_Spec (dd_CR x)),
                    map_option (\<lambda>(p, _). Name (Info p)) (dd_registryPlugin x))) ds))"

lemma summary_Some:
  "summary res = Some zs \<Longrightarrow> \<exists>ds. res = Inr ds \<and>
     map (\<lambda>x. (dpu_Name (dd_CR x), DpuProductName (dpu_Spec (dd_CR x)), IsDpuSide (dpu_Spec (dd_CR x)),
               map_option (\<lambda>(p, _). Name (Info p)) (dd_registryPlugin x))) ds = zs"
  by (auto simp: summary_def split: sum.splits)

lemma sample_host:
  "summary (DetectAll (\<lambda>_. []) 0 (sample_manager ''PowerEdge'') ''n1'') =
     Some [(''marvell-dpu-0000-02-00.0-n1-host'', ''Marvell DPU'', False, Some ''marvell''),
           (''nvidia-bf-0000-01-00.0-n1-host'', ''NVIDIA BlueField'', False, Some ''nvidia'')]"
  by code_simp

lemma sample_dpu:
  "summary (DetectAll (\<lambda>_. []) 0 (sample_manager ''BlueField SoC'') ''n1'') =
     Some [(''marvell-dpu-0000-02-00.0-n1-host'', ''Marvell DPU'', False, Some ''marvell''),
           (''nvidia-bf-BlueField SoC-n1-dpu'', ''NVIDIA BlueField'', True, Some ''nvidia'')]"
  by code_simp

theorem DetectAll_names_distinct_witness:
  "\<exists>ds. DetectAll (\<lambda>_. []) 0 (sample_manager ''PowerEdge'') ''n1'' = Inr ds \<and> length ds = 2 \<and>
     distinct (map (\<lambda>x. dpu_Name (dd_CR x)) ds)"
proof -
  obtain ds where ds: "DetectAll (\<lambda>_. []) 0 (sample_manager ''PowerEdge'') ''n1'' = Inr ds" "length ds = 2"
    using summary_Some [OF sample_host] by auto
  have "IsDpu (sample_manager ''PowerEdge'') = Inr False" by code_simp
  moreover have "pci_addresses_ok pcis" if "ghw_PCI (sample_ghw ''PowerEdge'') = Inr pcis" for pcis
  proof -
    have "case ghw_PCI (sample_ghw ''PowerEdge'') of Inr ps \<Rightarrow> pci_addresses_ok ps | Inl _ \<Rightarrow> True" by code_simp
    with that show ?thesis by simp
  qed
  ultimately have "distinct (map (\<lambda>x. dpu_Name (dd_CR x)) ds)"
    using DetectAll_names_distinct [OF sample_manager_def _ _ ds(1)] by blast
  with ds show ?thesis by blast
qed

theorem IsDpu_DetectAll_agree_witness:
  "\<exists>ds. DetectAll (\<lambda>_. []) 0 (sample_manager ''BlueField SoC'') ''n1'' = Inr ds \<and>
     length (filter (\<lambda>x. IsDpuSide (dpu_Spec (dd_CR x))) ds) = 1"
proof -
  obtain ds where ds: "DetectAll (\<lambda>_. []) 0 (sample_manager ''BlueField SoC'') ''n1'' = Inr ds"
    using summary_Some [OF sample_dpu] by auto
  have "IsDpu (sample_manager ''BlueField SoC'') = Inr True" by code_simp
  with ds IsDpu_DetectAll_agree [of "sample_manager ''BlueField SoC''" True "\<lambda>_. []" 0 "''n1''" ds]
  show ?thesis by auto
qed

theorem DetectAll_attaches_vendor_plugin_witness:
  "\<exists>ds. DetectAll (\<lambda>_. []) 0 (sample_manager ''PowerEdge'') ''n1'' = Inr ds \<and> ds \<noteq> [] \<and>
     (\<exists>p \<in> set builtin_plugins. map_option fst (dd_registryPlugin (hd ds)) = Some p)"
proof -
  obtain ds where ds: "DetectAll (\<lambda>_. []) 0 (sample_manager ''PowerEdge'') ''n1'' = Inr ds" "ds \<noteq> []"
    using summary_Some [OF sample_host] by auto
  have reg: "register_all builtin_plugins NewRegistry = Inr builtin_registry"
    using builtin_registered [OF refl] by (auto simp: builtin_registry_def)
  from DetectAll_attaches_vendor_plugin [OF refl reg ds(1) [unfolded sample_manager_def], of "hd ds"] ds
  show ?thesis by fastforce
qed

theorem nvidia_dpu_side_name_invalid_witness:
  "\<exists>ds x. DetectAll (\<lambda>_. []) 0 (sample_manager ''BlueField SoC'') ''n1'' = Inr ds \<and> x \<in> set ds \<and>
     dpu_Name (dd_CR x) = ''nvidia-bf-BlueField SoC-n1-dpu'' \<and> \<not> IsDNS1123Subdomain (dpu_Name (dd_CR x))"
proof -
  obtain ds where ds: "DetectAll (\<lambda>_. []) 0 (sample_manager ''BlueField SoC'') ''n1'' = Inr ds"
    and m: "map (\<lambda>x. (dpu_Name (dd_CR x), DpuProductName (dpu_Spec (dd_CR x)), IsDpuSide (dpu_Spec (dd_CR x)),
               map_option (\<lambda>(p, _). Name (Info p)) (dd_registryPlugin x))) ds =
      [(''marvell-dpu-0000-02-00.0-n1-host'', ''Marvell DPU'', False, Some ''marvell''),
       (''nvidia-bf-BlueField SoC-n1-dpu'', ''NVIDIA BlueField'', True, Some ''nvidia'')]"
    using summary_Some [OF sample_dpu] by (elim exE conjE) (rule that)
  then obtain x y where x: "ds = [y, x]" "dpu_Name (dd_CR x) = ''nvidia-bf-BlueField SoC-n1-dpu''"
    "DpuProductName (dpu_Spec (dd_CR x)) = ''NVIDIA BlueField''" "IsDpuSide (dpu_Spec (dd_CR x))"
    by (auto simp: map_eq_Cons_conv)
  with nvidia_dpu_side_name_invalid [OF ds [unfolded sample_manager_def], of x]
  have "\<not> IsDNS1123Subdomain (dpu_Name (dd_CR x))" by simp
  with ds x show ?thesis by (intro exI [of _ ds] exI [of _ x]) simp
qed

end
