(* ===== verification/Grpc_Plugin.thy ===== *)
theory Grpc_Plugin
  imports Builtin_Plugins
begin

text \<open>
  The daemon's vendor plugin (\<open>internal/daemon/plugin/vendorplugin.go\<close>): a gRPC client of the
  vendor-specific plugin (VSP) with an optional registry plugin in front of it (hybrid mode). The
  registry plugin is a record of methods over a state \<open>'s\<close>, so that any of the vendor plugins can be
  attached; the VSP is code behind a socket, the parameter \<open>vsp_service\<close> over a state \<open>'v\<close>.

  \<open>Start\<close> retries until the VSP answers or the context ends. Its iterations are a list of what each
  round meets; the result is \<open>None\<close> when the list ends before \<open>Start\<close> returns.
\<close>

section \<open>State and environment\<close>

text \<open>A bridge port as this file reads it: \<open>bridgePortToOPI\<close> selects a field \<open>Type\<close> that
  \<open>plugin.BridgePort\<close> does not declare.\<close>

record typed_BridgePort = BridgePort +
  bp_Type :: string

record 's plugin_methods =
  m_Info :: PluginInfo
  m_isNetwork :: bool
  m_Initialize :: "PluginConfig \<Rightarrow> 's \<Rightarrow> go_error option \<times> 's"
  m_Shutdown :: "'s \<Rightarrow> go_error option \<times> 's"
  m_DiscoverDevices :: "'s \<Rightarrow> Device list result \<times> 's"
  m_CreateBridgePort :: "BridgePortRequest \<Rightarrow> 's \<Rightarrow> typed_BridgePort option result \<times> 's"
  m_DeleteBridgePort :: "string \<Rightarrow> 's \<Rightarrow> go_error option \<times> 's"
  m_SetVFCount :: "string \<Rightarrow> int \<Rightarrow> 's \<Rightarrow> go_error option \<times> 's"
  m_CreateNetworkFunction :: "string \<Rightarrow> string \<Rightarrow> 's \<Rightarrow> go_error option \<times> 's"
  m_DeleteNetworkFunction :: "string \<Rightarrow> string \<Rightarrow> 's \<Rightarrow> go_error option \<times> 's"

text \<open>The five client stubs are made from one connection and dropped with it; \<open>clients\<close> says whether
  they are set. The zero time is \<open>None\<close>.\<close>

record 's GrpcPlugin =
  clients :: bool
  conn :: "nat option"
  dpuMode :: bool
  dpuIdentifier :: string
  pluginSocket :: string
  vspInitialized :: bool
  registryPlugin :: "'s plugin_methods option"
  registryState :: 's
  registryConfig :: PluginConfig
  registryInitialized :: bool
  registryLastAttempt :: "int option"
  registryInitErr :: "go_error option"

record 'v vsp_service =
  vsp_Init :: "bool \<times> string \<Rightarrow> 'v \<Rightarrow> (string \<times> 32 word) result \<times> 'v"
  vsp_CreateBridgePort :: "CreateBridgePortRequest \<Rightarrow> 'v \<Rightarrow> opi_BridgePort result \<times> 'v"
  vsp_DeleteBridgePort :: "string \<Rightarrow> 'v \<Rightarrow> go_error option \<times> 'v"
  vsp_CreateNetworkFunction :: "string \<times> string \<Rightarrow> 'v \<Rightarrow> go_error option \<times> 'v"
  vsp_DeleteNetworkFunction :: "string \<times> string \<Rightarrow> 'v \<Rightarrow> go_error option \<times> 'v"
  vsp_GetDevices :: "'v \<Rightarrow> DeviceListResponse result \<times> 'v"
  vsp_SetNumVfs :: "32 word \<Rightarrow> 'v \<Rightarrow> 32 word result \<times> 'v"

record 'v vsp_env =
  ve_now :: int
  ve_dial :: "string \<Rightarrow> go_error option"
  ve_state :: "nat \<Rightarrow> connectivity"
  ve_svc :: "'v vsp_service"

type_synonym ('s, 'v) gstate = "'s GrpcPlugin \<times> 'v world"

section \<open>Construction\<close>

definition NewGrpcPlugin :: "bool \<Rightarrow> string \<Rightarrow> string \<Rightarrow> 's \<Rightarrow> 's GrpcPlugin" where
  "NewGrpcPlugin mode ident sock s0 =
     \<lparr>clients = False, conn = None, dpuMode = mode, dpuIdentifier = ident, pluginSocket = sock,
      vspInitialized = False, registryPlugin = None, registryState = s0, registryConfig = zero_config,
      registryInitialized = False, registryLastAttempt = None, registryInitErr = None\<rparr>"

definition WithPathManager :: "string \<Rightarrow> 's GrpcPlugin \<Rightarrow> 's GrpcPlugin" where
  "WithPathManager sock g = g\<lparr>pluginSocket := sock\<rparr>"

definition AttachRegistryPlugin ::
    "'s plugin_methods option \<Rightarrow> PluginConfig \<Rightarrow> 's GrpcPlugin \<Rightarrow> 's GrpcPlugin" where
  "AttachRegistryPlugin p cfg g =
     g\<lparr>registryPlugin := p, registryConfig := cfg, registryInitialized := False,
       registryInitErr := None, registryLastAttempt := None\<rparr>"

section \<open>Connections\<close>

definition registryInitRetryInterval :: int where
  "registryInitRetryInterval = 30 * second"

definition ensureRegistryInitialized :: "int \<Rightarrow> 's GrpcPlugin \<Rightarrow> bool \<times> 's GrpcPlugin" where
  "ensureRegistryInitialized now g =
     (case registryPlugin g of
        None \<Rightarrow> (False, g)
      | Some m \<Rightarrow>
          if registryInitialized g then (True, g)
          else if (case registryLastAttempt g of
                     Some t \<Rightarrow> now - t < registryInitRetryInterval | None \<Rightarrow> False)
          then (False, g)
          else
            (case m_Initialize m (registryConfig g) (registryState g) of
               (Some err, s) \<Rightarrow>
                 let g = g\<lparr>registryLastAttempt := Some now, registryState := s\<rparr> in
                 if errors_is err ErrAlreadyInitialized
                 then (True, g\<lparr>registryInitialized := True, registryInitErr := None\<rparr>)
                 else (False, g\<lparr>registryInitErr := Some err\<rparr>)
             | (None, s) \<Rightarrow>
                 (True, g\<lparr>registryLastAttempt := Some now, registryState := s,
                          registryInitialized := True, registryInitErr := None\<rparr>)))"

definition registryNetworkPlugin :: "'s GrpcPlugin \<Rightarrow> 's plugin_methods option \<times> bool" where
  "registryNetworkPlugin g =
     (case registryPlugin g of
        None \<Rightarrow> (None, False)
      | Some m \<Rightarrow> (if m_isNetwork m then (Some m, True) else (None, False)))"

definition close_conn :: "nat \<Rightarrow> 'v world \<Rightarrow> 'v world" where
  "close_conn n w = w\<lparr>open_conns := removeAll n (open_conns w)\<rparr>"

definition dial_vsp :: "'v vsp_env \<Rightarrow> ('s, 'v) gstate \<Rightarrow> go_error option \<times> ('s, 'v) gstate" where
  "dial_vsp env = (\<lambda>(g, w).
     case ve_dial env (pluginSocket g) of
       Some err \<Rightarrow> (Some err, (g, w))
     | None \<Rightarrow>
         (None, (g\<lparr>conn := Some (next_conn w), clients := True\<rparr>,
                 w\<lparr>open_conns := next_conn w # open_conns w, next_conn := next_conn w + 1\<rparr>)))"

definition ensureConnected :: "'v vsp_env \<Rightarrow> ('s, 'v) gstate \<Rightarrow> go_error option \<times> ('s, 'v) gstate" where
  "ensureConnected env = (\<lambda>(g, w).
     case conn g of
       None \<Rightarrow> dial_vsp env (g, w)
     | Some n \<Rightarrow>
         let state = ve_state env n in
         if state = Ready \<or> state = Idle
         then (if clients g then (None, (g, w)) else dial_vsp env (g, w))
         else dial_vsp env (g\<lparr>conn := None, clients := False\<rparr>, close_conn n w))"

definition SetInitDone :: "bool \<Rightarrow> 's GrpcPlugin \<Rightarrow> 's GrpcPlugin" where
  "SetInitDone b g = g\<lparr>vspInitialized := b\<rparr>"

definition IsInitialized :: "'s GrpcPlugin \<Rightarrow> bool" where
  "IsInitialized g = vspInitialized g"

section \<open>Start and Close\<close>

text \<open>What one round of \<open>Start\<close> meets: whether the context has ended when the round begins, the
  environment of its calls, and whether the context ends while the round waits 100 ms.\<close>

record 'v round =
  done_first :: bool
  round_env :: "'v vsp_env"
  done_waiting :: bool

definition ctx_err :: go_error where
  "ctx_err = ExtError ''context canceled''"

fun start_loop ::
    "'v round list \<Rightarrow> ('s, 'v) gstate \<Rightarrow> ((string \<times> 32 word) result \<times> ('s, 'v) gstate) option" where
  "start_loop [] s = None"
| "start_loop (r # rs) s =
     (if done_first r then Some (Inl ctx_err, s)
      else
        (case ensureConnected (round_env r) s of
           (Some err, s1) \<Rightarrow> if done_waiting r then Some (Inl ctx_err, s1) else start_loop rs s1
         | (None, (g, w)) \<Rightarrow>
             (case rpc (vsp_Init (ve_svc (round_env r)) (dpuMode g, dpuIdentifier g)) w of
                (Inr ipPort, w') \<Rightarrow> Some (Inr ipPort, (SetInitDone True g, w'))
              | (Inl err, w') \<Rightarrow>
                  if contains (error_text err) ''already initialized''
                  then Some (Inl err, (SetInitDone True g, w'))
                  else if done_waiting r then Some (Inl ctx_err, (g, w'))
                  else start_loop rs (g, w'))))"

definition Start ::
    "int \<Rightarrow> 'v round list \<Rightarrow> ('s, 'v) gstate \<Rightarrow>
     ((string \<times> 32 word) result \<times> ('s, 'v) gstate) option" where
  "Start now rounds = (\<lambda>(g, w). start_loop rounds (snd (ensureRegistryInitialized now g), w))"

definition GrpcPlugin_Close :: "('s, 'v) gstate \<Rightarrow> ('s, 'v) gstate" where
  "GrpcPlugin_Close = (\<lambda>(g, w).
     let g1 = (case registryPlugin g of
                 None \<Rightarrow> g
               | Some m \<Rightarrow>
                   if registryInitialized g
                   then g\<lparr>registryState := snd (m_Shutdown m (registryState g)),
                          registryInitialized := False, registryInitErr := None,
                          registryLastAttempt := None\<rparr>
                   else g)
     in (case conn g1 of
           None \<Rightarrow> (g1, w)
         | Some n \<Rightarrow> (g1\<lparr>conn := None, clients := False\<rparr>, close_conn n w)))"

section \<open>Identifiers\<close>

definition resolveDeviceID :: "Device \<Rightarrow> string" where
  "resolveDeviceID device =
     (if dev_ID device \<noteq> [] then dev_ID device
      else if dev_PCIAddress device \<noteq> [] then dev_PCIAddress device
      else if VendorID (dev_PCIID device) \<noteq> [] \<or> DeviceID (dev_PCIID device) \<noteq> []
      then PCIDeviceID_String (dev_PCIID device)
      else ''unknown'')"

definition normalizeIdentifier :: "string \<Rightarrow> string" where
  "normalizeIdentifier value = replace_char (CHR '':'') (CHR ''-'') (to_lower value)"

definition vendor_prefixes :: "string list" where
  "vendor_prefixes = [''nvidia-bf-'', ''xsight-'', ''mangoboost-'', ''intel-ipu-'', ''intel-netsec-'',
     ''marvell-dpu-'']"

definition identifierCandidates :: "string \<Rightarrow> string list" where
  "identifierCandidates identifier =
     (let normalized = normalizeIdentifier identifier in
      [normalized]
      @ (case List.find (\<lambda>p. prefix p normalized) vendor_prefixes of
           Some p \<Rightarrow> [trim_prefix normalized p] | None \<Rightarrow> [])
      @ (if suffix ''-dpu'' normalized then [trim_suffix normalized ''-dpu''] else []))"

text \<open>The three fields of a device that are compared, in the order of the code.\<close>

definition device_keys :: "Device \<Rightarrow> string list" where
  "device_keys d = filter (\<lambda>k. k \<noteq> []) [dev_ID d, dev_SerialNumber d, dev_PCIAddress d]"

text \<open>The nested loop over candidates and devices: the first device that matches the first candidate
  that has a match.\<close>

fun first_match :: "(string \<Rightarrow> string \<Rightarrow> bool) \<Rightarrow> string list \<Rightarrow> Device list \<Rightarrow> Device option" where
  "first_match m [] ds = None"
| "first_match m (cand # cs) ds =
     (case List.find (\<lambda>d. \<exists>k \<in> set (device_keys d). m cand (normalizeIdentifier k)) ds of
        Some d \<Rightarrow> Some d
      | None \<Rightarrow> first_match m cs ds)"

definition selectDeviceForIdentifier :: "string \<Rightarrow> Device list \<Rightarrow> Device" where
  "selectDeviceForIdentifier identifier ds =
     (if ds = [] then zero_Device
      else if identifier = [] then hd ds
      else
        let candidates = identifierCandidates identifier in
        (case first_match (\<lambda>cand k. cand = k) candidates ds of
           Some d \<Rightarrow> d
         | None \<Rightarrow>
             (case first_match contains candidates ds of
                Some d \<Rightarrow> d
              | None \<Rightarrow> hd ds)))"

section \<open>Conversions\<close>

definition bridgePortRequestFromOPI :: "CreateBridgePortRequest option \<Rightarrow> BridgePortRequest" where
  "bridgePortRequestFromOPI req =
     (case req of
        None \<Rightarrow> \<lparr>req_Name = [], req_MACAddress = [], req_VLANID = None, req_Type = [], req_Metadata = []\<rparr>
      | Some r \<Rightarrow>
          (case cbp_BridgePort r of
             None \<Rightarrow> \<lparr>req_Name = BridgePortId r, req_MACAddress = [], req_VLANID = None, req_Type = [],
                      req_Metadata = []\<rparr>
           | Some bp \<Rightarrow>
               let name = (if obp_Name bp \<noteq> [] then obp_Name bp else BridgePortId r) in
               (case obp_Spec bp of
                  None \<Rightarrow> \<lparr>req_Name = name, req_MACAddress = [], req_VLANID = None, req_Type = [],
                           req_Metadata = []\<rparr>
                | Some spec \<Rightarrow>
                    \<lparr>req_Name = name,
                     req_MACAddress = (if length (MacAddress spec) > 0
                                       then HardwareAddr_String (MacAddress spec) else []),
                     req_VLANID = (case LogicalBridges spec of [lb] \<Rightarrow> atoi lb | _ \<Rightarrow> None),
                     req_Type = (if Ptype spec \<noteq> TYPE_UNSPECIFIED
                                 then to_lower (BridgePortType_String (Ptype spec)) else []),
                     req_Metadata = (if LogicalBridges spec \<noteq> []
                                     then [(''logical_bridges'', join '','' (LogicalBridges spec))]
                                     else [])\<rparr>)))"

definition port_type :: "string \<Rightarrow> BridgePortType" where
  "port_type t =
     (let t = to_lower t in
      if t = ''trunk'' \<or> t = ''bridge_port_type_trunk'' \<or> t = ''bridge-port-type-trunk'' then TYPE_TRUNK
      else TYPE_ACCESS)"

definition bridgePortToOPI :: "typed_BridgePort option \<Rightarrow> string \<Rightarrow> opi_BridgePort" where
  "bridgePortToOPI port fallbackName =
     (case port of
        None \<Rightarrow> \<lparr>obp_Name = fallbackName, obp_Spec = None\<rparr>
      | Some p \<Rightarrow>
          let name = (if bp_ID p \<noteq> [] then bp_ID p else bp_Name p);
              name = (if name = [] then fallbackName else name)
          in \<lparr>obp_Name = name,
              obp_Spec = Some
                \<lparr>MacAddress = (if bp_MACAddress p \<noteq> []
                               then (case ParseMAC (bp_MACAddress p) of Inr hw \<Rightarrow> hw | Inl _ \<Rightarrow> [])
                               else []),
                 Ptype = port_type (bp_Type p),
                 LogicalBridges = (case bp_VLANID p of Some v \<Rightarrow> [itoa v] | None \<Rightarrow> [])\<rparr>\<rparr>)"

definition lifecycle_device :: "Device \<Rightarrow> lc_Device" where
  "lifecycle_device dev =
     \<lparr>lcd_ID = resolveDeviceID dev, lcd_Health = (if dev_Healthy dev then ''healthy'' else ''unhealthy''),
      lcd_Node = dev_PCIAddress dev\<rparr>"

definition devicesToLifecycleResponse :: "Device list \<Rightarrow> DeviceListResponse" where
  "devicesToLifecycleResponse ds =
     fold (\<lambda>dev m. map_put (resolveDeviceID dev) (lifecycle_device dev) m) ds []"

section \<open>Operations\<close>

text \<open>An error that sends the operation on to the VSP.\<close>

definition falls_back :: "go_error \<Rightarrow> bool" where
  "falls_back err \<longleftrightarrow> IsNotImplemented err \<or> IsCapabilityNotSupported err"

text \<open>The VSP half of an operation: connect, then call.\<close>

definition via_vsp ::
    "'v vsp_env \<Rightarrow> string \<Rightarrow> (go_error \<Rightarrow> 'a) \<Rightarrow> ('v vsp_service \<Rightarrow> 'v \<Rightarrow> 'a \<times> 'v) \<Rightarrow>
     ('s, 'v) gstate \<Rightarrow> 'a \<times> ('s, 'v) gstate" where
  "via_vsp env msg fail call s =
     (case ensureConnected env s of
        (Some err, s') \<Rightarrow> (fail (Errorf msg [FErr err]), s')
      | (None, (g, w)) \<Rightarrow> (let (a, w') = rpc (call (ve_svc env)) w in (a, (g, w'))))"

definition GrpcPlugin_CreateBridgePort ::
    "'v vsp_env \<Rightarrow> CreateBridgePortRequest option \<Rightarrow> ('s, 'v) gstate \<Rightarrow>
     opi_BridgePort result \<times> ('s, 'v) gstate" where
  "GrpcPlugin_CreateBridgePort env createRequest = (\<lambda>(g, w).
     case createRequest of
       None \<Rightarrow> (Inl (Errorf ''CreateBridgePort request is nil'' []), (g, w))
     | Some req \<Rightarrow>
         let (ok, g) = ensureRegistryInitialized (ve_now env) g;
             vsp = (\<lambda>g. via_vsp env ''CreateBridgePort failed to ensure GRPC connection: %v'' Inl
                          (\<lambda>svc. vsp_CreateBridgePort svc req) (g, w))
         in (case (ok, registryNetworkPlugin g) of
               (True, (Some m, True)) \<Rightarrow>
                 let bridgeReq = bridgePortRequestFromOPI (Some req) in
                 (case m_CreateBridgePort m bridgeReq (registryState g) of
                    (Inr port, s) \<Rightarrow>
                      (Inr (bridgePortToOPI port (req_Name bridgeReq)), (g\<lparr>registryState := s\<rparr>, w))
                  | (Inl err, s) \<Rightarrow>
                      if falls_back err then vsp (g\<lparr>registryState := s\<rparr>)
                      else (Inl err, (g\<lparr>registryState := s\<rparr>, w)))
             | _ \<Rightarrow> vsp g))"

text \<open>The operations that only report an error share one shape.\<close>

definition hybrid_op ::
    "'v vsp_env \<Rightarrow> string \<Rightarrow> ('s plugin_methods \<Rightarrow> 's \<Rightarrow> go_error option \<times> 's) \<Rightarrow>
     ('v vsp_service \<Rightarrow> 'v \<Rightarrow> go_error option \<times> 'v) \<Rightarrow> ('s, 'v) gstate \<Rightarrow>
     go_error option \<times> ('s, 'v) gstate" where
  "hybrid_op env msg method call = (\<lambda>(g, w).
     let (ok, g) = ensureRegistryInitialized (ve_now env) g;
         vsp = (\<lambda>g. via_vsp env msg Some call (g, w))
     in (case (ok, registryNetworkPlugin g) of
           (True, (Some m, True)) \<Rightarrow>
             (case method m (registryState g) of
                (None, s) \<Rightarrow> (None, (g\<lparr>registryState := s\<rparr>, w))
              | (Some err, s) \<Rightarrow>
                  if falls_back err then vsp (g\<lparr>registryState := s\<rparr>)
                  else (Some err, (g\<lparr>registryState := s\<rparr>, w)))
         | _ \<Rightarrow> vsp g))"

definition GrpcPlugin_DeleteBridgePort ::
    "'v vsp_env \<Rightarrow> string option \<Rightarrow> ('s, 'v) gstate \<Rightarrow> go_error option \<times> ('s, 'v) gstate" where
  "GrpcPlugin_DeleteBridgePort env deleteRequest s =
     (case deleteRequest of
        None \<Rightarrow> (Some (Errorf ''DeleteBridgePort request is nil'' []), s)
      | Some name \<Rightarrow>
          hybrid_op env ''DeleteBridgePort failed to ensure GRPC connection: %v''
            (\<lambda>m. m_DeleteBridgePort m name) (\<lambda>svc. vsp_DeleteBridgePort svc name) s)"

definition GrpcPlugin_CreateNetworkFunction ::
    "'v vsp_env \<Rightarrow> string \<Rightarrow> string \<Rightarrow> ('s, 'v) gstate \<Rightarrow> go_error option \<times> ('s, 'v) gstate" where
  "GrpcPlugin_CreateNetworkFunction env inp outp =
     hybrid_op env ''CreateNetworkFunction failed to ensure GRPC connection: %v''
       (\<lambda>m. m_CreateNetworkFunction m inp outp) (\<lambda>svc. vsp_CreateNetworkFunction svc (inp, outp))"

definition GrpcPlugin_DeleteNetworkFunction ::
    "'v vsp_env \<Rightarrow> string \<Rightarrow> string \<Rightarrow> ('s, 'v) gstate \<Rightarrow> go_error option \<times> ('s, 'v) gstate" where
  "GrpcPlugin_DeleteNetworkFunction env inp outp =
     hybrid_op env ''DeleteNetworkFunction failed to ensure GRPC connection: %v''
       (\<lambda>m. m_DeleteNetworkFunction m inp outp) (\<lambda>svc. vsp_DeleteNetworkFunction svc (inp, outp))"

definition GrpcPlugin_GetDevices ::
    "'v vsp_env \<Rightarrow> ('s, 'v) gstate \<Rightarrow> DeviceListResponse result \<times> ('s, 'v) gstate" where
  "GrpcPlugin_GetDevices env = (\<lambda>(g, w).
     let (ok, g) = ensureRegistryInitialized (ve_now env) g;
         vsp = (\<lambda>g. via_vsp env ''GetDevices failed to ensure GRPC connection: %v'' Inl vsp_GetDevices (g, w))
     in (case (ok, registryPlugin g) of
           (True, Some m) \<Rightarrow>
             (case m_DiscoverDevices m (registryState g) of
                (Inr ds, s) \<Rightarrow>
                  if ds \<noteq> [] then (Inr (devicesToLifecycleResponse ds), (g\<lparr>registryState := s\<rparr>, w))
                  else vsp (g\<lparr>registryState := s\<rparr>)
              | (Inl err, s) \<Rightarrow> vsp (g\<lparr>registryState := s\<rparr>))
         | _ \<Rightarrow> vsp g))"

definition GrpcPlugin_SetNumVfs ::
    "'v vsp_env \<Rightarrow> 32 word \<Rightarrow> ('s, 'v) gstate \<Rightarrow> 32 word result \<times> ('s, 'v) gstate" where
  "GrpcPlugin_SetNumVfs env cnt = (\<lambda>(g, w).
     let (ok, g) = ensureRegistryInitialized (ve_now env) g;
         vsp = (\<lambda>g. via_vsp env ''SetNumvfs failed to ensure GRPC connection: %v'' Inl
                      (\<lambda>svc. vsp_SetNumVfs svc cnt) (g, w))
     in (case (ok, registryNetworkPlugin g) of
           (True, (Some m, True)) \<Rightarrow>
             (case m_DiscoverDevices m (registryState g) of
                (Inr ds, s) \<Rightarrow>
                  if ds \<noteq> []
                  then
                    let targetID = resolveDeviceID (selectDeviceForIdentifier (dpuIdentifier g) ds) in
                    (case m_SetVFCount m targetID (sint cnt) s of
                       (None, s') \<Rightarrow> (Inr cnt, (g\<lparr>registryState := s'\<rparr>, w))
                     | (Some err, s') \<Rightarrow>
                         if falls_back err then vsp (g\<lparr>registryState := s'\<rparr>)
                         else (Inl err, (g\<lparr>registryState := s'\<rparr>, w)))
                  else vsp (g\<lparr>registryState := s\<rparr>)
              | (Inl err, s) \<Rightarrow> vsp (g\<lparr>registryState := s\<rparr>))
         | _ \<Rightarrow> vsp g))"

section \<open>Connection invariant\<close>

text \<open>Beyond the connections \<open>base\<close> of others, exactly the one the plugin holds is open.\<close>

definition conn_ok :: "nat set \<Rightarrow> ('s, 'v) gstate \<Rightarrow> bool" where
  "conn_ok base s \<longleftrightarrow>
     (clients (fst s) \<longleftrightarrow> conn (fst s) \<noteq> None) \<and> world_ok (snd s) \<and>
     (\<forall>n. conn (fst s) = Some n \<longrightarrow> n \<notin> base) \<and> (\<forall>n \<in> base. n < next_conn (snd s)) \<and>
     set (open_conns (snd s)) = base \<union> set_option (conn (fst s))"

lemma conn_ok_dial:
  assumes "conn_ok base s" "conn (fst s) = None"
  shows "conn_ok base (snd (dial_vsp env s))"
  using assms
  by (auto simp: conn_ok_def dial_vsp_def world_ok_def list_all_iff less_SucI
      split: prod.splits option.splits)

lemma conn_ok_drop:
  assumes "conn_ok base (g, w)" "conn g = Some n"
  shows "conn_ok base (g\<lparr>conn := None, clients := False\<rparr>, close_conn n w)"
  using assms by (auto simp: conn_ok_def world_ok_def close_conn_def distinct_removeAll list_all_iff)

lemma conn_ok_ensureConnected:
  assumes "conn_ok base s"
  shows "conn_ok base (snd (ensureConnected env s))"
proof (cases "conn (fst s)")
  case None
  then show ?thesis
    using assms conn_ok_dial [OF assms] by (auto simp: ensureConnected_def split: prod.splits)
next
  case (Some n)
  obtain g w where s: "s = (g, w)" by (cases s)
  have "clients g" using assms Some s by (simp add: conn_ok_def)
  then show ?thesis
    using assms Some s conn_ok_dial [OF conn_ok_drop]
    by (auto simp: ensureConnected_def Let_def)
qed

lemma conn_ok_registry:
  "conn_ok base (g\<lparr>registryState := x\<rparr>, w) = conn_ok base (g, w)"
  "conn_ok base (snd (ensureRegistryInitialized now g), w) = conn_ok base (g, w)"
  by (auto simp: conn_ok_def ensureRegistryInitialized_def Let_def split: option.splits prod.splits)

lemma conn_ok_rpc: "conn_ok base (g, w) \<Longrightarrow> rpc f w = (a, w') \<Longrightarrow> conn_ok base (g, w')"
  by (auto simp: conn_ok_def world_ok_def dest!: rpc_conns)

lemma conn_ok_via_vsp:
  assumes "conn_ok base s"
  shows "conn_ok base (snd (via_vsp env msg fail call s))"
proof -
  obtain e g w where c: "ensureConnected env s = (e, (g, w))" by (metis prod.exhaust)
  then have "conn_ok base (g, w)"
    using conn_ok_ensureConnected [OF assms, of env] by simp
  then show ?thesis
    using c by (auto simp: via_vsp_def split: option.splits prod.splits intro: conn_ok_rpc)
qed

lemma ensureRegistryInitialized_conn_ok:
  "ensureRegistryInitialized now g = (b, g') \<Longrightarrow> conn_ok base (g', w) = conn_ok base (g, w)"
  using conn_ok_registry(2) [of base now g w] by simp

lemma conn_ok_hybrid_op:
  assumes "conn_ok base s"
  shows "conn_ok base (snd (hybrid_op env msg method call s))"
  using assms
  by (cases s) (auto simp: hybrid_op_def Let_def conn_ok_registry dest: ensureRegistryInitialized_conn_ok
      split: prod.splits option.splits bool.splits intro!: conn_ok_via_vsp)

text \<open>The calls the daemon makes on a running plugin.\<close>

datatype gcall = CallCreateBridgePort "CreateBridgePortRequest option"
  | CallDeleteBridgePort "string option" | CallCreateNetworkFunction string string
  | CallDeleteNetworkFunction string string | CallGetDevices | CallSetNumVfs "32 word" | CallClose

fun gcall_step :: "'v vsp_env \<times> gcall \<Rightarrow> ('s, 'v) gstate \<Rightarrow> ('s, 'v) gstate" where
  "gcall_step (env, CallCreateBridgePort r) s = snd (GrpcPlugin_CreateBridgePort env r s)"
| "gcall_step (env, CallDeleteBridgePort r) s = snd (GrpcPlugin_DeleteBridgePort env r s)"
| "gcall_step (env, CallCreateNetworkFunction a b) s = snd (GrpcPlugin_CreateNetworkFunction env a b s)"
| "gcall_step (env, CallDeleteNetworkFunction a b) s = snd (GrpcPlugin_DeleteNetworkFunction env a b s)"
| "gcall_step (env, CallGetDevices) s = snd (GrpcPlugin_GetDevices env s)"
| "gcall_step (env, CallSetNumVfs n) s = snd (GrpcPlugin_SetNumVfs env n s)"
| "gcall_step (env, CallClose) s = GrpcPlugin_Close s"

lemma conn_ok_Close:
  assumes "conn_ok base s"
  shows "conn_ok base (GrpcPlugin_Close s) \<and> conn (fst (GrpcPlugin_Close s)) = None"
proof -
  obtain g w where s: "s = (g, w)" by (cases s)
  let ?g = "case registryPlugin g of None \<Rightarrow> g
    | Some m \<Rightarrow> if registryInitialized g
        then g\<lparr>registryState := snd (m_Shutdown m (registryState g)), registryInitialized := False,
               registryInitErr := None, registryLastAttempt := None\<rparr> else g"
  have "conn_ok base (?g, w)" "conn ?g = conn g"
    using assms s by (auto simp: conn_ok_def split: option.splits)
  then show ?thesis
    using s conn_ok_drop [of base ?g w] by (auto simp: GrpcPlugin_Close_def Let_def split: option.splits)
qed

lemma conn_ok_gcall:
  assumes "conn_ok base s"
  shows "conn_ok base (gcall_step c s)"
proof -
  obtain env k g w where c: "c = (env, k)" "s = (g, w)" by (metis prod.exhaust)
  show ?thesis
  proof (cases k)
    case (CallCreateBridgePort r)
    then show ?thesis
      using assms c by (auto simp: GrpcPlugin_CreateBridgePort_def Let_def conn_ok_registry
          dest: ensureRegistryInitialized_conn_ok split: prod.splits option.splits bool.splits sum.splits
          intro!: conn_ok_via_vsp)
  next
    case (CallDeleteBridgePort r)
    then show ?thesis
      using assms c conn_ok_hybrid_op
      by (auto simp: GrpcPlugin_DeleteBridgePort_def split: option.splits)
  next
    case CallGetDevices
    then show ?thesis
      using assms c by (auto simp: GrpcPlugin_GetDevices_def Let_def conn_ok_registry
          dest: ensureRegistryInitialized_conn_ok split: prod.splits option.splits bool.splits sum.splits
          intro!: conn_ok_via_vsp)
  next
    case (CallSetNumVfs n)
    then show ?thesis
      using assms c by (auto simp: GrpcPlugin_SetNumVfs_def Let_def conn_ok_registry
          dest: ensureRegistryInitialized_conn_ok split: prod.splits option.splits bool.splits sum.splits
          intro!: conn_ok_via_vsp)
  qed (use assms c conn_ok_hybrid_op conn_ok_Close [THEN conjunct1] in
      \<open>auto simp: GrpcPlugin_CreateNetworkFunction_def GrpcPlugin_DeleteNetworkFunction_def\<close>)
qed

lemma conn_ok_history: "conn_ok base s \<Longrightarrow> conn_ok base (fold gcall_step cs s)"
  by (induction cs arbitrary: s) (simp_all add: conn_ok_gcall)

section \<open>Start\<close>

lemma ensureConnected_dial_ok:
  "ve_dial env = (\<lambda>_. None) \<Longrightarrow> fst (ensureConnected env s) = None"
  by (auto simp: ensureConnected_def dial_vsp_def Let_def split: option.splits prod.splits)

lemma ensureConnected_keeps:
  "ensureConnected env s = (e, s') \<Longrightarrow> vspInitialized (fst s') = vspInitialized (fst s) \<and>
     dpuMode (fst s') = dpuMode (fst s) \<and> dpuIdentifier (fst s') = dpuIdentifier (fst s)"
  by (cases s) (auto simp: ensureConnected_def dial_vsp_def Let_def split: option.splits if_splits)

lemma start_loop_result:
  "start_loop rs s = Some (res, s') \<Longrightarrow>
     (case res of
        Inr ip \<Rightarrow> vspInitialized (fst s')
      | Inl err \<Rightarrow> (err = ctx_err \<and> vspInitialized (fst s') = vspInitialized (fst s) \<and>
            (\<exists>r \<in> set rs. done_first r \<or> done_waiting r)) \<or>
          (contains (error_text err) ''already initialized'' \<and> vspInitialized (fst s')))"
proof (induction rs arbitrary: s)
  case (Cons r rs)
  show ?case
  proof (cases "done_first r")
    case False
    obtain e g w where c: "ensureConnected (round_env r) s = (e, (g, w))" by (metis prod.exhaust)
    have keep: "vspInitialized g = vspInitialized (fst s)"
      using ensureConnected_keeps [OF c] by simp
    show ?thesis
      using Cons.prems Cons.IH [of "(g, w)"] False c keep
        Cons.IH [of "(g, snd (rpc (vsp_Init (ve_svc (round_env r)) (dpuMode g, dpuIdentifier g)) w))"]
      by (auto simp: SetInitDone_def split: option.splits prod.splits sum.splits if_splits)
  qed (use Cons.prems in auto)
qed simp

lemma start_loop_returns:
  fixes s :: "('s, 'v) gstate"
  assumes "\<forall>r \<in> set rs. \<not> done_first r \<and> \<not> done_waiting r"
    and "r \<in> set rs" "ve_dial (round_env r) = (\<lambda>_. None)"
    and "\<And>req v. \<not> isl (fst (vsp_Init (ve_svc (round_env r)) req v))"
  shows "start_loop rs s \<noteq> None"
  using assms(1,2)
proof (induction rs arbitrary: s)
  case (Cons r' rs)
  show ?case
  proof (cases "r' = r")
    case True
    obtain g w where "ensureConnected (round_env r) s = (None, (g, w))"
      using ensureConnected_dial_ok [OF assms(3), of s] by (metis prod.collapse)
    moreover have "\<not> isl (fst (rpc (vsp_Init (ve_svc (round_env r)) (dpuMode g, dpuIdentifier g)) w))"
      using assms(4) by (simp add: rpc_def split: prod.splits) (metis fst_conv)
    ultimately show ?thesis
      using True Cons.prems by (auto split: prod.splits sum.splits)
  next
    case False
    then have "\<forall>r \<in> set rs. \<not> done_first r \<and> \<not> done_waiting r" "r \<in> set rs"
      using Cons.prems by auto
    then have "start_loop rs s' \<noteq> None" for s' :: "('s, 'v) gstate" by (rule Cons.IH)
    then show ?thesis
      using Cons.prems by (auto split: prod.splits sum.splits option.splits)
  qed
qed simp

section \<open>Identifier matching and conversions\<close>

lemma first_match_Some:
  "first_match m cs ds = Some d \<Longrightarrow> d \<in> set ds \<and>
     (\<exists>cand \<in> set cs. \<exists>k \<in> set (device_keys d). m cand (normalizeIdentifier k))"
  by (induction cs) (auto split: option.splits dest!: find_SomeD)

lemma first_match_hd:
  assumes "\<exists>d \<in> set ds. \<exists>k \<in> set (device_keys d). m cand (normalizeIdentifier k)"
  obtains d where "first_match m (cand # cs) ds = Some d" "d \<in> set ds"
    "\<exists>k \<in> set (device_keys d). m cand (normalizeIdentifier k)"
proof -
  obtain d where d: "List.find (\<lambda>d. \<exists>k \<in> set (device_keys d). m cand (normalizeIdentifier k)) ds = Some d"
    using assms by (cases "List.find (\<lambda>d. \<exists>k \<in> set (device_keys d). m cand (normalizeIdentifier k)) ds")
      (auto simp: find_None_iff)
  show ?thesis by (rule that [of d]) (use d find_SomeD [OF d] in auto)
qed

lemma identifierCandidates_hd:
  "\<exists>cs. identifierCandidates i = normalizeIdentifier i # cs"
  by (simp add: identifierCandidates_def Let_def)

lemma selectDevice_in: "ds \<noteq> [] \<Longrightarrow> selectDeviceForIdentifier i ds \<in> set ds"
  by (auto simp: selectDeviceForIdentifier_def Let_def split: option.splits dest: first_match_Some)

lemma map_get_lifecycle:
  "map_get (fold (\<lambda>dev m. map_put (resolveDeviceID dev) (lifecycle_device dev) m) ds m0) k =
     (case List.find (\<lambda>d. resolveDeviceID d = k) (rev ds) of
        Some d \<Rightarrow> Some (lifecycle_device d) | None \<Rightarrow> map_get m0 k)"
proof (induction ds arbitrary: m0)
  case (Cons d ds)
  show ?case by (simp add: Cons.IH find_append split: option.splits)
qed simp

section \<open>Attached vendor plugins\<close>

text \<open>The methods of a vendor plugin that implements no network operation, over its own state.\<close>

definition scan_methods ::
    "PluginInfo \<Rightarrow> (PluginConfig \<Rightarrow> 'r pstate \<Rightarrow> go_error option \<times> 'r pstate) \<Rightarrow>
     ('r pstate \<Rightarrow> go_error option \<times> 'r pstate) \<Rightarrow> ('r pstate \<Rightarrow> Device list result \<times> 'r pstate) \<Rightarrow>
     'r pstate plugin_methods" where
  "scan_methods info ini shut disc =
     \<lparr>m_Info = info, m_isNetwork = True, m_Initialize = ini, m_Shutdown = shut, m_DiscoverDevices = disc,
      m_CreateBridgePort = (\<lambda>_ s. (Inl (unsupported (fst s)), s)),
      m_DeleteBridgePort = (\<lambda>_ s. (Some (unsupported (fst s)), s)),
      m_SetVFCount = (\<lambda>_ _ s. (Some (unsupported (fst s)), s)),
      m_CreateNetworkFunction = (\<lambda>_ _ s. (Some (unsupported (fst s)), s)),
      m_DeleteNetworkFunction = (\<lambda>_ _ s. (Some (unsupported (fst s)), s))\<rparr>"

definition intel_methods :: "filesys \<Rightarrow> 'r opi_env \<Rightarrow> 'r pstate plugin_methods" where
  "intel_methods fs env = scan_methods intel_Info (intel_Initialize env) intel_Shutdown
     (intel_DiscoverDevices fs)"

definition marvell_methods :: "filesys \<Rightarrow> 'r opi_env \<Rightarrow> 'r pstate plugin_methods" where
  "marvell_methods fs env = scan_methods marvell_Info (marvell_Initialize env) marvell_Shutdown
     (marvell_DiscoverDevices fs)"

definition xsight_methods :: "filesys \<Rightarrow> 'r opi_env \<Rightarrow> 'r pstate plugin_methods" where
  "xsight_methods fs env = scan_methods xsight_Info (xsight_Initialize env) xsight_Shutdown
     (xsight_DiscoverDevices fs)"

definition mangoboost_methods :: "filesys \<Rightarrow> 'r opi_env \<Rightarrow> 'r pstate plugin_methods" where
  "mangoboost_methods fs env = scan_methods mangoboost_Info (mangoboost_Initialize env)
     mangoboost_Shutdown (mangoboost_DiscoverDevices fs)"

lemma falls_back_NotImplemented [simp]: "falls_back ErrNotImplemented"
  by (simp add: falls_back_def IsNotImplemented_def)

text \<open>A network operation that the attached plugin does not implement is the VSP's operation.\<close>

lemma hybrid_op_not_implemented:
  assumes "ensureRegistryInitialized (ve_now env) g = (True, g')"
    and "registryPlugin g' = Some m" "m_isNetwork m"
    and "method m (registryState g') = (Some ErrNotImplemented, registryState g')"
  shows "hybrid_op env msg method call (g, w) = via_vsp env msg Some call (g', w)"
  using assms by (simp add: hybrid_op_def registryNetworkPlugin_def)

lemma hybrid_op_no_registry:
  assumes "ensureRegistryInitialized (ve_now env) g = (False, g')"
  shows "hybrid_op env msg method call (g, w) = via_vsp env msg Some call (g', w)"
  using assms by (simp add: hybrid_op_def)

section \<open>Retry of the registry plugin\<close>

text \<open>The times at which \<open>ensureRegistryInitialized\<close>, called at the given times, really calls
  \<open>Initialize\<close>: those that become the last attempt.\<close>

fun attempt_times :: "int list \<Rightarrow> 's GrpcPlugin \<Rightarrow> int list" where
  "attempt_times [] g = []"
| "attempt_times (t # ts) g =
     (let g' = snd (ensureRegistryInitialized t g) in
      (if registryLastAttempt g' = Some t \<and> registryLastAttempt g \<noteq> Some t then [t] else [])
      @ attempt_times ts g')"

lemma ensureRegistryInitialized_attempt:
  assumes "ensureRegistryInitialized t g = (b, g')"
  shows "registryLastAttempt g' = registryLastAttempt g \<or>
    registryLastAttempt g' = Some t \<and>
    (\<forall>u. registryLastAttempt g = Some u \<longrightarrow> u + registryInitRetryInterval \<le> t)"
  using assms
  by (auto simp: ensureRegistryInitialized_def Let_def split: option.splits prod.splits if_splits)

lemma attempt_times_spaced:
  "sorted_wrt (\<lambda>a b. a + registryInitRetryInterval \<le> b) (attempt_times ts g) \<and>
   (\<forall>u. registryLastAttempt g = Some u \<longrightarrow>
      (\<forall>a \<in> set (attempt_times ts g). u + registryInitRetryInterval \<le> a))"
proof (induction ts arbitrary: g)
  case (Cons t ts)
  let ?g = "snd (ensureRegistryInitialized t g)"
  have nonneg: "0 \<le> registryInitRetryInterval"
    by (simp add: registryInitRetryInterval_def second_def)
  show ?case
    using ensureRegistryInitialized_attempt [of t g "fst (ensureRegistryInitialized t g)" ?g]
      Cons.IH [of ?g] nonneg
    by (cases "registryLastAttempt ?g = registryLastAttempt g") (force simp: Let_def)+
qed simp

section \<open>Properties\<close>


definition sample_vsp :: "nat vsp_service" where
  "sample_vsp =
     \<lparr>vsp_Init = (\<lambda>_ v. (Inr (''10.0.0.1'', 50151), v + 1)),
      vsp_CreateBridgePort = (\<lambda>r v. (Inr \<lparr>obp_Name = BridgePortId r, obp_Spec = None\<rparr>, v + 1)),
      vsp_DeleteBridgePort = (\<lambda>_ v. (None, v + 1)),
      vsp_CreateNetworkFunction = (\<lambda>_ v. (None, v + 1)),
      vsp_DeleteNetworkFunction = (\<lambda>_ v. (None, v + 1)),
      vsp_GetDevices = (\<lambda>v. (Inr [], v + 1)), vsp_SetNumVfs = (\<lambda>n v. (Inr n, v + 1))\<rparr>"

definition sample_vsp_env :: "connectivity \<Rightarrow> nat vsp_env" where
  "sample_vsp_env st = \<lparr>ve_now = 0, ve_dial = (\<lambda>_. None), ve_state = (\<lambda>_. st), ve_svc = sample_vsp\<rparr>"

definition vsp_world :: "nat world" where
  "vsp_world = \<lparr>open_conns = [], next_conn = 0, remote = 0\<rparr>"


text \<open>C38: \<open>Start\<close> returns: if the context does not end and in some round the VSP can be dialled and
  accepts \<open>Init\<close>, then \<open>Start\<close> returns and the plugin is marked initialised.\<close>

theorem Start_returns:
  assumes "\<forall>r \<in> set rounds. \<not> done_first r \<and> \<not> done_waiting r"
    and "r \<in> set rounds" "ve_dial (round_env r) = (\<lambda>_. None)"
    and "\<And>req v. \<not> isl (fst (vsp_Init (ve_svc (round_env r)) req v))"
  shows "\<exists>res s'. Start now rounds s = Some (res, s') \<and> IsInitialized (fst s')"
proof -
  obtain res s' where "Start now rounds s = Some (res, s')"
    using start_loop_returns [OF assms, of "(snd (ensureRegistryInitialized now (fst s)), snd s)"]
    by (auto simp: Start_def case_prod_unfold)
  moreover from this have "vspInitialized (fst s')"
    using assms(1) by (auto simp: Start_def split: prod.splits sum.splits dest!: start_loop_result)
  ultimately show ?thesis by (simp add: IsInitialized_def)
qed

theorem Start_returns_witness:
  "let bad = \<lparr>done_first = False, round_env = (sample_vsp_env Ready)\<lparr>ve_dial := (\<lambda>_. Some (ExtError ''refused''))\<rparr>,
              done_waiting = False\<rparr>;
       good = \<lparr>done_first = False, round_env = sample_vsp_env Ready, done_waiting = False\<rparr>
   in \<exists>res s'. Start 0 [bad, good] (NewGrpcPlugin True ''id'' ''s'' (), vsp_world) = Some (res, s') \<and>
        IsInitialized (fst s')"
  unfolding Let_def
  by (rule Start_returns [where r = "\<lparr>done_first = False, round_env = sample_vsp_env Ready, done_waiting = False\<rparr>"])
    (simp_all add: sample_vsp_env_def sample_vsp_def)

text \<open>The registry plugin is not hammered: however often the daemon asks, two calls of its
  \<open>Initialize\<close> are at least 30 seconds apart.\<close>

theorem registry_init_rate_limited:
  "sorted_wrt (\<lambda>a b. a + 30000000000 \<le> b) (attempt_times ts g)"
  using attempt_times_spaced [of ts g] by (simp add: registryInitRetryInterval_def second_def)

text \<open>The device chosen for a DPU identifier is one of the discovered devices, and whenever some
  device has an ID, serial number or PCI address that equals the identifier up to letter case and
  colons, the chosen device has one too.\<close>

theorem selectDevice_prefers_exact:
  assumes "ds \<noteq> []"
  shows "selectDeviceForIdentifier i ds \<in> set ds \<and>
    (i \<noteq> [] \<and> (\<exists>d \<in> set ds. normalizeIdentifier i \<in> normalizeIdentifier ` set (device_keys d)) \<longrightarrow>
     normalizeIdentifier i \<in> normalizeIdentifier ` set (device_keys (selectDeviceForIdentifier i ds)))"
proof (intro conjI impI)
  show "selectDeviceForIdentifier i ds \<in> set ds" using assms by (rule selectDevice_in)
next
  assume h: "i \<noteq> [] \<and> (\<exists>d \<in> set ds. normalizeIdentifier i \<in> normalizeIdentifier ` set (device_keys d))"
  obtain cs where cs: "identifierCandidates i = normalizeIdentifier i # cs"
    using identifierCandidates_hd by blast
  have "\<exists>d \<in> set ds. \<exists>k \<in> set (device_keys d). normalizeIdentifier i = normalizeIdentifier k"
    using h by auto
  then obtain d where "first_match (\<lambda>cand k. cand = k) (identifierCandidates i) ds = Some d"
    "\<exists>k \<in> set (device_keys d). normalizeIdentifier i = normalizeIdentifier k"
    unfolding cs using first_match_hd [of ds "\<lambda>cand k. cand = k" "normalizeIdentifier i"] by metis
  moreover from this(1) have "selectDeviceForIdentifier i ds = d"
    using assms h by (simp add: selectDeviceForIdentifier_def)
  ultimately show "normalizeIdentifier i \<in> normalizeIdentifier ` set (device_keys (selectDeviceForIdentifier i ds))"
    by auto
qed

theorem selectDevice_prefers_exact_witness:
  "let a = zero_Device\<lparr>dev_ID := ''nvidia-0000:03:00.0''\<rparr>;
       b = zero_Device\<lparr>dev_ID := ''nvidia-0000:04:00.0'', dev_PCIAddress := ''0000:04:00.0''\<rparr>
   in selectDeviceForIdentifier ''0000-04-00.0'' [a, b] = b"
proof -
  let ?a = "zero_Device\<lparr>dev_ID := ''nvidia-0000:03:00.0''\<rparr>"
  let ?b = "zero_Device\<lparr>dev_ID := ''nvidia-0000:04:00.0'', dev_PCIAddress := ''0000:04:00.0''\<rparr>"
  let ?i = "''0000-04-00.0''"
  have "[?a, ?b] \<noteq> []" by simp
  from selectDevice_prefers_exact [OF this, of ?i]
  have sel: "selectDeviceForIdentifier ?i [?a, ?b] \<in> {?a, ?b}"
    and ex: "(\<exists>d \<in> set [?a, ?b]. normalizeIdentifier ?i \<in> normalizeIdentifier ` set (device_keys d)) \<Longrightarrow>
      normalizeIdentifier ?i \<in> normalizeIdentifier ` set (device_keys (selectDeviceForIdentifier ?i [?a, ?b]))"
    by auto
  have "normalizeIdentifier ?i \<in> normalizeIdentifier ` set (device_keys ?b)"
    "normalizeIdentifier ?i \<notin> normalizeIdentifier ` set (device_keys ?a)"
    by code_simp+
  with sel ex show ?thesis unfolding Let_def by auto
qed

text \<open>A plugin that returns the port it was asked for.\<close>

definition echo_port :: "BridgePortRequest \<Rightarrow> typed_BridgePort" where
  "echo_port r = \<lparr>bp_ID = req_Name r, bp_Name = req_Name r, bp_MACAddress = req_MACAddress r,
     bp_VLANID = req_VLANID r, bp_Status = ''Active'', bp_Metadata = [], bp_Type = req_Type r\<rparr>"

lemma port_type_String: "t \<noteq> TYPE_UNSPECIFIED \<Longrightarrow> port_type (to_lower (BridgePortType_String t)) = t"
  by (cases t) (simp_all, code_simp+)

text \<open>A bridge port request survives the trip through the registry plugin's types: for a plugin
  that returns a port with the requested address, VLAN and type, the specification of the answer is
  the specification of the request.\<close>

theorem bridge_port_roundtrip:
  assumes "length mac \<in> set mac_sizes" "t \<noteq> TYPE_UNSPECIFIED" "int64_range vlan" "name \<noteq> []"
  shows "let req = \<lparr>BridgePortId = i, cbp_BridgePort = Some \<lparr>obp_Name = name, obp_Spec =
        Some \<lparr>MacAddress = mac, Ptype = t, LogicalBridges = [itoa vlan]\<rparr>\<rparr>\<rparr>
    in bridgePortToOPI (Some (echo_port (bridgePortRequestFromOPI (Some req)))) fb =
       the (cbp_BridgePort req)"
proof -
  have "mac \<noteq> []" using assms(1) by (auto simp: mac_sizes_def)
  moreover have "HardwareAddr_String mac \<noteq> []"
    using assms(1) length_HardwareAddr_String [of mac] by (auto simp: mac_sizes_def)
  ultimately show ?thesis
    using assms by (simp add: bridgePortToOPI_def bridgePortRequestFromOPI_def echo_port_def Let_def
        ParseMAC_String port_type_String atoi_itoa)
qed

theorem bridge_port_roundtrip_witness:
  "bridgePortToOPI (Some (echo_port (bridgePortRequestFromOPI (Some \<lparr>BridgePortId = ''p'',
      cbp_BridgePort = Some \<lparr>obp_Name = ''host0-1'', obp_Spec = Some \<lparr>MacAddress = [2, 0, 0, 0, 0, 255],
        Ptype = TYPE_TRUNK, LogicalBridges = [itoa 7]\<rparr>\<rparr>\<rparr>)))) ''fallback'' =
   \<lparr>obp_Name = ''host0-1'', obp_Spec = Some \<lparr>MacAddress = [2, 0, 0, 0, 0, 255],
      Ptype = TYPE_TRUNK, LogicalBridges = [itoa 7]\<rparr>\<rparr>"
  using bridge_port_roundtrip [of "[2, 0, 0, 0, 0, 255]" TYPE_TRUNK 7 "''host0-1''" "''p''" "''fallback''"]
  by (simp add: mac_sizes_def)

text \<open>The device list the daemon reports has exactly one entry for every resolved device ID, and
  the entry carries that ID, the PCI address and the health of the last device with it.\<close>

theorem devicesToLifecycleResponse_correct:
  "map_ok (devicesToLifecycleResponse ds) \<and>
   map_get (devicesToLifecycleResponse ds) k =
     map_option (\<lambda>d. \<lparr>lcd_ID = k, lcd_Health = (if dev_Healthy d then ''healthy'' else ''unhealthy''),
         lcd_Node = dev_PCIAddress d\<rparr>)
       (List.find (\<lambda>d. resolveDeviceID d = k) (rev ds))"
proof
  have "map_ok m \<Longrightarrow> map_ok (fold (\<lambda>dev. map_put (resolveDeviceID dev) (lifecycle_device dev)) ds m)" for m
    by (induction ds arbitrary: m) auto
  then show "map_ok (devicesToLifecycleResponse ds)"
    by (simp add: devicesToLifecycleResponse_def)
  show "map_get (devicesToLifecycleResponse ds) k =
     map_option (\<lambda>d. \<lparr>lcd_ID = k, lcd_Health = (if dev_Healthy d then ''healthy'' else ''unhealthy''),
         lcd_Node = dev_PCIAddress d\<rparr>)
       (List.find (\<lambda>d. resolveDeviceID d = k) (rev ds))"
    unfolding devicesToLifecycleResponse_def map_get_lifecycle
    by (auto simp: lifecycle_device_def split: option.splits dest: find_SomeD)
qed

lemma scan_methods_vsp:
  fixes g :: "'r pstate GrpcPlugin" and w :: "'v world"
  assumes m: "registryPlugin g = Some (scan_methods info ini shut disc)" "registryInitialized g"
    and init: "initialized (fst (registryState g))"
    and disc: "\<And>s :: 'r pstate. initialized (fst (snd (disc s))) = initialized (fst s)"
  shows "hybrid_op env msg (\<lambda>m. m_CreateNetworkFunction m a b) call (g, w) = via_vsp env msg Some call (g, w)"
    and "hybrid_op env msg (\<lambda>m. m_DeleteNetworkFunction m a b) call (g, w) = via_vsp env msg Some call (g, w)"
    and "hybrid_op env msg (\<lambda>m. m_DeleteBridgePort m n) call (g, w) = via_vsp env msg Some call (g, w)"
    and "GrpcPlugin_CreateBridgePort env (Some req) (g, w) =
      via_vsp env ''CreateBridgePort failed to ensure GRPC connection: %v'' Inl
        (\<lambda>svc. vsp_CreateBridgePort svc req) (g, w)"
    and "\<exists>x. GrpcPlugin_SetNumVfs env cnt (g, w) =
      via_vsp env ''SetNumvfs failed to ensure GRPC connection: %v'' Inl
        (\<lambda>svc. vsp_SetNumVfs svc cnt) (g\<lparr>registryState := x\<rparr>, w)"
proof -
  have ens: "ensureRegistryInitialized t g = (True, g)" for t
    using m by (simp add: ensureRegistryInitialized_def)
  have uns: "unsupported (fst (registryState g)) = ErrNotImplemented"
    using init by (simp add: unsupported_def)
  show "hybrid_op env msg (\<lambda>m. m_CreateNetworkFunction m a b) call (g, w) = via_vsp env msg Some call (g, w)"
    "hybrid_op env msg (\<lambda>m. m_DeleteNetworkFunction m a b) call (g, w) = via_vsp env msg Some call (g, w)"
    "hybrid_op env msg (\<lambda>m. m_DeleteBridgePort m n) call (g, w) = via_vsp env msg Some call (g, w)"
    using ens m uns by (auto intro!: hybrid_op_not_implemented simp: scan_methods_def)
  show "GrpcPlugin_CreateBridgePort env (Some req) (g, w) =
      via_vsp env ''CreateBridgePort failed to ensure GRPC connection: %v'' Inl
        (\<lambda>svc. vsp_CreateBridgePort svc req) (g, w)"
    using ens m uns by (simp add: GrpcPlugin_CreateBridgePort_def registryNetworkPlugin_def scan_methods_def)
  obtain res s1 where d: "disc (registryState g) = (res, s1)"
    by (cases "disc (registryState g)") (rule that)
  have "unsupported (fst s1) = ErrNotImplemented"
    using disc [of "registryState g"] d init by (simp add: unsupported_def)
  then have "GrpcPlugin_SetNumVfs env cnt (g, w) =
      via_vsp env ''SetNumvfs failed to ensure GRPC connection: %v'' Inl
        (\<lambda>svc. vsp_SetNumVfs svc cnt) (g\<lparr>registryState := s1\<rparr>, w)"
    using ens m d
    by (auto simp: GrpcPlugin_SetNumVfs_def registryNetworkPlugin_def scan_methods_def Let_def split: sum.splits)
  then show "\<exists>x. GrpcPlugin_SetNumVfs env cnt (g, w) =
      via_vsp env ''SetNumvfs failed to ensure GRPC connection: %v'' Inl
        (\<lambda>svc. vsp_SetNumVfs svc cnt) (g\<lparr>registryState := x\<rparr>, w)" by blast
qed

lemma scan_DiscoverDevices_init:
  "initialized (fst (snd (scan_DiscoverDevices ids v i sp fs s))) = initialized (fst s)"
  by (auto simp: scan_DiscoverDevices_def ScanDevices_def split: prod.splits)

text \<open>With the Intel, Marvell, xSight or MangoBoost plugin attached and initialised, every network
  operation is answered by the VSP exactly as if no registry plugin were attached; setting the VF
  count, which first discovers devices, differs only in the registry plugin's device cache.\<close>

theorem unimplemented_operations_reach_vsp:
  assumes "registryPlugin g = Some m" "registryInitialized g" "initialized (fst (registryState g))"
    and "m \<in> {intel_methods fs oe, marvell_methods fs oe, xsight_methods fs oe, mangoboost_methods fs oe}"
  shows "GrpcPlugin_CreateNetworkFunction env a b (g, w) =
      via_vsp env ''CreateNetworkFunction failed to ensure GRPC connection: %v'' Some
        (\<lambda>svc. vsp_CreateNetworkFunction svc (a, b)) (g, w) \<and>
    GrpcPlugin_DeleteNetworkFunction env a b (g, w) =
      via_vsp env ''DeleteNetworkFunction failed to ensure GRPC connection: %v'' Some
        (\<lambda>svc. vsp_DeleteNetworkFunction svc (a, b)) (g, w) \<and>
    GrpcPlugin_DeleteBridgePort env (Some n) (g, w) =
      via_vsp env ''DeleteBridgePort failed to ensure GRPC connection: %v'' Some
        (\<lambda>svc. vsp_DeleteBridgePort svc n) (g, w) \<and>
    GrpcPlugin_CreateBridgePort env (Some req) (g, w) =
      via_vsp env ''CreateBridgePort failed to ensure GRPC connection: %v'' Inl
        (\<lambda>svc. vsp_CreateBridgePort svc req) (g, w) \<and>
    (\<exists>x. GrpcPlugin_SetNumVfs env cnt (g, w) =
      via_vsp env ''SetNumvfs failed to ensure GRPC connection: %v'' Inl
        (\<lambda>svc. vsp_SetNumVfs svc cnt) (g\<lparr>registryState := x\<rparr>, w))"
proof -
  obtain info ini shut ids v i sp where "m = scan_methods info ini shut (scan_DiscoverDevices ids v i sp fs)"
    using assms(4)
    by (auto simp: intel_methods_def marvell_methods_def xsight_methods_def mangoboost_methods_def
        intel_DiscoverDevices_def marvell_DiscoverDevices_def xsight_DiscoverDevices_def
        mangoboost_DiscoverDevices_def)
  then have "registryPlugin g = Some (scan_methods info ini shut (scan_DiscoverDevices ids v i sp fs))"
    using assms(1) by simp
  note vsp = scan_methods_vsp [OF this assms(2,3) scan_DiscoverDevices_init]
  show ?thesis
    unfolding GrpcPlugin_CreateNetworkFunction_def GrpcPlugin_DeleteNetworkFunction_def
      GrpcPlugin_DeleteBridgePort_def option.case
    by (intro conjI vsp)
qed

theorem unimplemented_operations_reach_vsp_witness:
  "let g = (NewGrpcPlugin True ''id'' ''s'' (intel_New\<lparr>initialized := True\<rparr>, sample_world))
         \<lparr>registryPlugin := Some (intel_methods (sample_sysfs DirEntry) sample_env), registryInitialized := True\<rparr>
   in fst (GrpcPlugin_CreateNetworkFunction (sample_vsp_env Ready) ''a'' ''b'' (g, vsp_world)) = None"
proof -
  let ?g = "(NewGrpcPlugin True ''id'' ''s'' (intel_New\<lparr>initialized := True\<rparr>, sample_world))
      \<lparr>registryPlugin := Some (intel_methods (sample_sysfs DirEntry) sample_env), registryInitialized := True\<rparr>"
  have "registryPlugin ?g = Some (intel_methods (sample_sysfs DirEntry) sample_env)"
    "registryInitialized ?g" "initialized (fst (registryState ?g))"
    by (simp_all add: NewGrpcPlugin_def)
  from unimplemented_operations_reach_vsp [OF this, of "sample_sysfs DirEntry" sample_env
      "sample_vsp_env Ready" "''a''" "''b''" vsp_world]
  have "GrpcPlugin_CreateNetworkFunction (sample_vsp_env Ready) ''a'' ''b'' (?g, vsp_world) =
      via_vsp (sample_vsp_env Ready) ''CreateNetworkFunction failed to ensure GRPC connection: %v'' Some
        (\<lambda>svc. vsp_CreateNetworkFunction svc (''a'', ''b'')) (?g, vsp_world)" by blast
  then show ?thesis
    by (simp add: via_vsp_def ensureConnected_def dial_vsp_def sample_vsp_env_def sample_vsp_def
        vsp_world_def NewGrpcPlugin_def rpc_def)
qed

end
