(* ===== verification/Kube_Api.thy ===== *)
theory Kube_Api
  imports Api_Types
begin

text \<open>
  The Kubernetes API as the daemon and the controllers use it through \<open>client.Client\<close>. The API server is
  not part of the repository: it is the parameter \<open>kube\<close>, a record of the calls over a server state \<open>'s\<close>.
  What the code relies on is the predicate \<open>kube_ok\<close>, documented behaviour of the API server; \<open>store_kube\<close>
  is a server that satisfies it and rejects invalid names, used in the witnesses.

  A successful \<open>Create\<close> answers with the object as stored. \<open>DataProcessingUnit\<close> has a status subresource, so
  \<open>Create\<close> and \<open>Update\<close> ignore the status and \<open>Status().Update\<close> writes nothing else.
\<close>

record 's kube =
  k_ListDpus :: "'s \<Rightarrow> DataProcessingUnit list result"
  k_GetDpu :: "string \<Rightarrow> 's \<Rightarrow> DataProcessingUnit result"
  k_IsNotFound :: "go_error \<Rightarrow> bool"
  k_CreateDpu :: "DataProcessingUnit \<Rightarrow> 's \<Rightarrow> DataProcessingUnit result \<times> 's"
  k_UpdateDpu :: "DataProcessingUnit \<Rightarrow> 's \<Rightarrow> go_error option \<times> 's"
  k_UpdateDpuStatus :: "DataProcessingUnit \<Rightarrow> 's \<Rightarrow> go_error option \<times> 's"
  k_DeleteDpu :: "DataProcessingUnit \<Rightarrow> 's \<Rightarrow> go_error option \<times> 's"
  k_GetNodeLabels :: "string \<Rightarrow> 's \<Rightarrow> (string, string) gomap result"
  k_UpdateNodeLabels :: "string \<Rightarrow> (string, string) gomap \<Rightarrow> 's \<Rightarrow> go_error option \<times> 's"
  k_GetOperatorConfig :: "string \<Rightarrow> 's \<Rightarrow> string result"
  k_SetControllerReference :: "string \<Rightarrow> DataProcessingUnit \<Rightarrow> DataProcessingUnit result"
  k_GetConfig :: "string \<times> string \<Rightarrow> 's \<Rightarrow> DataProcessingUnitConfig result"
  k_UpdateConfigStatus :: "DataProcessingUnitConfig \<Rightarrow> 's \<Rightarrow> go_error option \<times> 's"

section \<open>Documented behaviour\<close>

text \<open>\<open>view\<close> is the set of \<open>DataProcessingUnit\<close> objects of the server by name. A call that fails may or may
  not have taken effect, but never on another object.\<close>

definition only_at :: "string \<Rightarrow> (string \<rightharpoonup> DataProcessingUnit) \<Rightarrow> (string \<rightharpoonup> DataProcessingUnit) \<Rightarrow> bool" where
  "only_at n v v' \<longleftrightarrow> (\<forall>m. m \<noteq> n \<longrightarrow> v' m = v m)"

definition kube_reads_ok :: "'s kube \<Rightarrow> ('s \<Rightarrow> string \<rightharpoonup> DataProcessingUnit) \<Rightarrow> bool" where
  "kube_reads_ok k view \<longleftrightarrow>
     (\<forall>s n c. view s n = Some c \<longrightarrow> dpu_Name c = n) \<and>
     (\<forall>s cs. k_ListDpus k s = Inr cs \<longrightarrow>
        distinct (map dpu_Name cs) \<and> (\<forall>c. c \<in> set cs \<longleftrightarrow> view s (dpu_Name c) = Some c)) \<and>
     (\<forall>s n c. k_GetDpu k n s = Inr c \<longrightarrow> view s n = Some c) \<and>
     (\<forall>s n e. k_GetDpu k n s = Inl e \<and> k_IsNotFound k e \<longrightarrow> view s n = None) \<and>
     (\<forall>u c c'. k_SetControllerReference k u c = Inr c' \<longrightarrow> c' = c\<lparr>dpu_Owner := Some u\<rparr>)"

definition kube_writes_ok :: "'s kube \<Rightarrow> ('s \<Rightarrow> string \<rightharpoonup> DataProcessingUnit) \<Rightarrow> bool" where
  "kube_writes_ok k view \<longleftrightarrow>
     (\<forall>s c r s'. k_CreateDpu k c s = (r, s') \<longrightarrow> only_at (dpu_Name c) (view s) (view s') \<and>
        (\<forall>c'. r = Inr c' \<longrightarrow> view s' (dpu_Name c) = Some (c\<lparr>dpu_Conditions := []\<rparr>) \<and> dpu_Name c' = dpu_Name c)) \<and>
     (\<forall>s c r s'. k_UpdateDpu k c s = (r, s') \<longrightarrow> only_at (dpu_Name c) (view s) (view s') \<and>
        (r = None \<longrightarrow> (\<exists>old. view s (dpu_Name c) = Some old \<and>
            view s' (dpu_Name c) = Some (c\<lparr>dpu_Conditions := dpu_Conditions old\<rparr>)))) \<and>
     (\<forall>s c r s'. k_UpdateDpuStatus k c s = (r, s') \<longrightarrow> only_at (dpu_Name c) (view s) (view s') \<and>
        (r = None \<longrightarrow> (\<exists>old. view s (dpu_Name c) = Some old \<and>
            view s' (dpu_Name c) = Some (old\<lparr>dpu_Conditions := dpu_Conditions c\<rparr>)))) \<and>
     (\<forall>s c r s'. k_DeleteDpu k c s = (r, s') \<longrightarrow> only_at (dpu_Name c) (view s) (view s') \<and>
        (r = None \<longrightarrow> view s' (dpu_Name c) = None)) \<and>
     (\<forall>s n l r s'. k_UpdateNodeLabels k n l s = (r, s') \<longrightarrow> view s' = view s \<and>
        (r = None \<longrightarrow> k_GetNodeLabels k n s' = Inr l)) \<and>
     (\<forall>s c r s'. k_UpdateConfigStatus k c s = (r, s') \<longrightarrow> view s' = view s)"

definition kube_ok :: "'s kube \<Rightarrow> ('s \<Rightarrow> string \<rightharpoonup> DataProcessingUnit) \<Rightarrow> bool" where
  "kube_ok k view \<longleftrightarrow> kube_reads_ok k view \<and> kube_writes_ok k view"

lemma kube_named: "kube_ok k view \<Longrightarrow> view s n = Some c \<Longrightarrow> dpu_Name c = n"
  by (simp add: kube_ok_def kube_reads_ok_def)

lemma kube_list:
  "kube_ok k view \<Longrightarrow> k_ListDpus k s = Inr cs \<Longrightarrow> c \<in> set cs \<longleftrightarrow> view s (dpu_Name c) = Some c"
  "kube_ok k view \<Longrightarrow> k_ListDpus k s = Inr cs \<Longrightarrow> distinct (map dpu_Name cs)"
  by (simp_all add: kube_ok_def kube_reads_ok_def)

lemma kube_get:
  "kube_ok k view \<Longrightarrow> k_GetDpu k n s = Inr c \<Longrightarrow> view s n = Some c"
  "kube_ok k view \<Longrightarrow> k_GetDpu k n s = Inl e \<Longrightarrow> k_IsNotFound k e \<Longrightarrow> view s n = None"
  unfolding kube_ok_def kube_reads_ok_def by metis+

lemma kube_owner:
  "kube_ok k view \<Longrightarrow> k_SetControllerReference k u c = Inr c' \<Longrightarrow> c' = c\<lparr>dpu_Owner := Some u\<rparr>"
  unfolding kube_ok_def kube_reads_ok_def by metis

lemma kube_create:
  assumes "kube_ok k view" "k_CreateDpu k c s = (r, s')"
  shows "only_at (dpu_Name c) (view s) (view s')"
    "r = Inr c' \<Longrightarrow> view s' (dpu_Name c) = Some (c\<lparr>dpu_Conditions := []\<rparr>) \<and> dpu_Name c' = dpu_Name c"
  using assms unfolding kube_ok_def kube_writes_ok_def by metis+

lemma kube_update:
  assumes "kube_ok k view" "k_UpdateDpu k c s = (r, s')"
  shows "only_at (dpu_Name c) (view s) (view s')"
    "r = None \<Longrightarrow> \<exists>old. view s (dpu_Name c) = Some old \<and>
        view s' (dpu_Name c) = Some (c\<lparr>dpu_Conditions := dpu_Conditions old\<rparr>)"
  using assms unfolding kube_ok_def kube_writes_ok_def by metis+

lemma kube_status:
  assumes "kube_ok k view" "k_UpdateDpuStatus k c s = (r, s')"
  shows "only_at (dpu_Name c) (view s) (view s')"
    "r = None \<Longrightarrow> \<exists>old. view s (dpu_Name c) = Some old \<and>
        view s' (dpu_Name c) = Some (old\<lparr>dpu_Conditions := dpu_Conditions c\<rparr>)"
  using assms unfolding kube_ok_def kube_writes_ok_def by metis+

lemma kube_delete:
  assumes "kube_ok k view" "k_DeleteDpu k c s = (r, s')"
  shows "only_at (dpu_Name c) (view s) (view s')" "r = None \<Longrightarrow> view s' (dpu_Name c) = None"
  using assms unfolding kube_ok_def kube_writes_ok_def by metis+

lemma kube_node:
  assumes "kube_ok k view" "k_UpdateNodeLabels k n l s = (r, s')"
  shows "view s' = view s" "r = None \<Longrightarrow> k_GetNodeLabels k n s' = Inr l"
  using assms unfolding kube_ok_def kube_writes_ok_def by metis+

lemma kube_config:
  "kube_ok k view \<Longrightarrow> k_UpdateConfigStatus k c s = (r, s') \<Longrightarrow> view s' = view s"
  unfolding kube_ok_def kube_writes_ok_def by metis

lemma only_at_refl [simp]: "only_at n v v"
  by (simp add: only_at_def)

lemma only_at_trans: "only_at n u v \<Longrightarrow> only_at n v w \<Longrightarrow> only_at n u w"
  by (simp add: only_at_def)

lemma only_at_other: "only_at n v v' \<Longrightarrow> m \<noteq> n \<Longrightarrow> v' m = v m"
  by (simp add: only_at_def)

section \<open>A server\<close>

record store =
  st_dpus :: "DataProcessingUnit list"
  st_nodes :: "(string, (string, string) gomap) gomap"
  st_config :: "DataProcessingUnitConfig option"

definition store_view :: "store \<Rightarrow> string \<rightharpoonup> DataProcessingUnit" where
  "store_view s n = List.find (\<lambda>c. dpu_Name c = n) (st_dpus s)"

definition del_dpu :: "string \<Rightarrow> store \<Rightarrow> store" where
  "del_dpu n s = s\<lparr>st_dpus := filter (\<lambda>c. dpu_Name c \<noteq> n) (st_dpus s)\<rparr>"

definition put_dpu :: "DataProcessingUnit \<Rightarrow> store \<Rightarrow> store" where
  "put_dpu c s = (del_dpu (dpu_Name c) s)\<lparr>st_dpus := st_dpus (del_dpu (dpu_Name c) s) @ [c]\<rparr>"

definition not_found :: go_error where
  "not_found = StatusError NotFound ''not found''"

definition valid_dpu :: "DataProcessingUnit \<Rightarrow> bool" where
  "valid_dpu c \<longleftrightarrow> IsDNS1123Subdomain (dpu_Name c) \<and>
     list_all (\<lambda>(key, _). IsQualifiedName (to_lower key)) (dpu_Annotations c)"

definition store_kube :: "store kube" where
  "store_kube =
     \<lparr>k_ListDpus = (\<lambda>s. Inr (remdups (filter (\<lambda>c. store_view s (dpu_Name c) = Some c) (st_dpus s)))),
      k_GetDpu = (\<lambda>n s. case store_view s n of Some c \<Rightarrow> Inr c | None \<Rightarrow> Inl not_found),
      k_IsNotFound = (\<lambda>e. e = not_found),
      k_CreateDpu = (\<lambda>c s.
        if \<not> valid_dpu c then (Inl (StatusError InvalidArgument ''invalid''), s)
        else if store_view s (dpu_Name c) \<noteq> None then (Inl (StatusError FailedPrecondition ''already exists''), s)
        else (Inr (c\<lparr>dpu_Conditions := []\<rparr>), put_dpu (c\<lparr>dpu_Conditions := []\<rparr>) s)),
      k_UpdateDpu = (\<lambda>c s.
        if \<not> valid_dpu c then (Some (StatusError InvalidArgument ''invalid''), s)
        else (case store_view s (dpu_Name c) of
                None \<Rightarrow> (Some not_found, s)
              | Some old \<Rightarrow> (None, put_dpu (c\<lparr>dpu_Conditions := dpu_Conditions old\<rparr>) s))),
      k_UpdateDpuStatus = (\<lambda>c s.
        case store_view s (dpu_Name c) of
          None \<Rightarrow> (Some not_found, s)
        | Some old \<Rightarrow> (None, put_dpu (old\<lparr>dpu_Conditions := dpu_Conditions c\<rparr>) s)),
      k_DeleteDpu = (\<lambda>c s. (None, del_dpu (dpu_Name c) s)),
      k_GetNodeLabels = (\<lambda>n s. case map_get (st_nodes s) n of Some l \<Rightarrow> Inr l | None \<Rightarrow> Inl not_found),
      k_UpdateNodeLabels = (\<lambda>n l s. (None, s\<lparr>st_nodes := map_put n l (st_nodes s)\<rparr>)),
      k_GetOperatorConfig = (\<lambda>n s. Inr n),
      k_SetControllerReference = (\<lambda>u c. Inr (c\<lparr>dpu_Owner := Some u\<rparr>)),
      k_GetConfig = (\<lambda>_ s. case st_config s of Some c \<Rightarrow> Inr c | None \<Rightarrow> Inl not_found),
      k_UpdateConfigStatus = (\<lambda>c s. (None, s\<lparr>st_config := Some c\<rparr>))\<rparr>"

lemma find_filter_neq: "m \<noteq> n \<Longrightarrow> List.find (\<lambda>c. f c = m) (filter (\<lambda>c. f c \<noteq> n) xs) = List.find (\<lambda>c. f c = m) xs"
  by (induction xs) auto

lemma find_filter_eq: "List.find (\<lambda>c. f c = n) (filter (\<lambda>c. f c \<noteq> n) xs) = None"
  by (induction xs) auto

lemma store_view_put: "store_view (put_dpu c s) = (store_view s)(dpu_Name c \<mapsto> c)"
  by (rule ext) (simp add: store_view_def put_dpu_def del_dpu_def find_append find_filter_neq find_filter_eq
      split: option.splits)

lemma store_view_del: "store_view (del_dpu n s) = (store_view s)(n := None)"
  by (rule ext) (simp add: store_view_def del_dpu_def find_filter_neq find_filter_eq)

lemma store_view_more [simp]:
  "store_view (s\<lparr>st_nodes := x\<rparr>) = store_view s" "store_view (s\<lparr>st_config := y\<rparr>) = store_view s"
  by (simp_all add: store_view_def fun_eq_iff)

lemma store_view_name: "store_view s n = Some c \<Longrightarrow> dpu_Name c = n \<and> c \<in> set (st_dpus s)"
  unfolding store_view_def by (drule find_SomeD) simp

lemma store_kube_ok: "kube_ok store_kube store_view"
proof -
  have "inj_on dpu_Name {c. store_view s (dpu_Name c) = Some c}" for s
    by (rule inj_onI) simp
  then have "distinct (map dpu_Name (remdups (filter (\<lambda>c. store_view s (dpu_Name c) = Some c) xs)))" for s xs
    unfolding distinct_map by (auto intro: inj_on_subset)
  then have "kube_reads_ok store_kube store_view"
    unfolding kube_reads_ok_def store_kube_def
    by (auto split: option.splits dest: store_view_name)
  moreover have "kube_writes_ok store_kube store_view"
    unfolding kube_writes_ok_def store_kube_def
    by (auto simp: only_at_def store_view_put store_view_del split: if_splits option.splits dest: store_view_name)
  ultimately show ?thesis by (simp add: kube_ok_def)
qed

end
