(* ===== verification/Daemon.thy ===== *)
theory Daemon
  imports Detection Grpc_Plugin Kube_Api
begin

text \<open>
  The daemon of a node (\<open>internal/daemon/daemon.go\<close>): it detects the DPUs every second, keeps a
  \<open>ManagedDpu\<close> for each, mirrors them as \<open>DataProcessingUnit\<close> resources and as a label of the node, applies
  the number of virtual functions asked for by annotations, and reports itself ready.

  The daemon is generic in the vendor plugin (\<open>'p\<close>, with the methods of \<open>GrpcPlugin\<close> it calls in
  \<open>vsp_ops\<close>) and in the side manager (\<open>'m\<close>, the interface \<open>SideManager\<close>, of which the loop calls
  \<open>CheckPing\<close>). Errors that are logged and otherwise dropped are returned as a list. The cancel function and
  the done channel of a side manager are set and used together with it.
\<close>

section \<open>State\<close>

record ('p, 'm) ManagedDpu =
  md_CR :: DataProcessingUnit
  md_Plugin :: 'p
  md_Manager :: "'m option"
  md_AppliedVfCount :: "32 word option"

text \<open>\<open>stopped\<close> lists the side managers whose context was cancelled and the plugins closed on removal.\<close>

record ('p, 'm) Daemon =
  managedDpus :: "(string, ('p, 'm) ManagedDpu) gomap"
  dmn_managers :: "'m list"
  dmn_nodeName :: string
  isReady :: bool
  stopped :: "('m option \<times> 'p) list"

record 'p vsp_ops =
  p_IsInitialized :: "'p \<Rightarrow> bool"
  p_SetNumVfs :: "32 word \<Rightarrow> 'p \<Rightarrow> 32 word result \<times> 'p"
  p_Close :: "'p \<Rightarrow> 'p"

record ('p, 'm) side_env =
  NewDpuSideManager :: "'p \<Rightarrow> 'm result"
  NewHostSideManager :: "'p \<Rightarrow> 'm result"
  CheckPing :: "'m \<Rightarrow> bool"

definition NewDaemon :: "string \<Rightarrow> ('p, 'm) Daemon" where
  "NewDaemon nodeName = \<lparr>managedDpus = [], dmn_managers = [], dmn_nodeName = nodeName, isReady = False, stopped = []\<rparr>"

section \<open>Readiness\<close>

definition readinessAddress :: "(string \<Rightarrow> string) \<Rightarrow> string" where
  "readinessAddress getenv =
     (let defaultPort = 8082; raw = getenv ''DPU_DAEMON_READINESS_PORT'' in
      if raw \<noteq> []
      then (case atoi raw of
              Some port \<Rightarrow> if port > 0 \<and> port < 65536 then sprintf '':%d'' [itoa port]
                           else sprintf '':%d'' [itoa defaultPort]
            | None \<Rightarrow> sprintf '':%d'' [itoa defaultPort])
      else sprintf '':%d'' [itoa defaultPort])"

definition markReady :: "('p, 'm) Daemon \<Rightarrow> ('p, 'm) Daemon" where
  "markReady d = (if \<not> isReady d then d\<lparr>isReady := True\<rparr> else d)"

text \<open>The answer to a readiness probe: the status code and the body.\<close>

definition readinessHandler :: "('p, 'm) Daemon \<Rightarrow> nat \<times> string" where
  "readinessHandler d = (if isReady d then (200, ''OK'') else (503, ''Not ready''))"

section \<open>Running a side manager\<close>

text \<open>The other methods of \<open>SideManager\<close>: they answer with an error or not, \<open>Listen\<close> with a listener.\<close>

record ('m, 'l) side_methods =
  sm_StartVsp :: "'m \<Rightarrow> go_error option \<times> 'm"
  sm_SetupDevices :: "'m \<Rightarrow> go_error option \<times> 'm"
  sm_Listen :: "'m \<Rightarrow> 'l result \<times> 'm"
  sm_Serve :: "'l \<Rightarrow> 'm \<Rightarrow> go_error option \<times> 'm"

text \<open>\<open>cancelled\<close>: whether the context of the manager has ended when \<open>Serve\<close> returns.\<close>

definition runSideManager :: "('m, 'l) side_methods \<Rightarrow> bool \<Rightarrow> 'm \<Rightarrow> go_error option \<times> 'm" where
  "runSideManager sm cancelled mgr =
     (case sm_StartVsp sm mgr of
        (Some err, m1) \<Rightarrow> (Some err, m1)
      | (None, m1) \<Rightarrow>
          (case sm_SetupDevices sm m1 of
             (Some err, m2) \<Rightarrow> (Some err, m2)
           | (None, m2) \<Rightarrow>
               (case sm_Listen sm m2 of
                  (Inl err, m3) \<Rightarrow> (Some err, m3)
                | (Inr listener, m3) \<Rightarrow>
                    (case sm_Serve sm listener m3 of
                       (Some err, m4) \<Rightarrow> (if cancelled then None else Some err, m4)
                     | (None, m4) \<Rightarrow> (None, m4)))))"

section \<open>Managed DPUs\<close>

text \<open>The map of the detected DPUs by name: a later one replaces an earlier one of the same name.\<close>

definition currentlyDetected :: "(DataProcessingUnit \<times> 'p) list \<Rightarrow> (string, DataProcessingUnit \<times> 'p) gomap" where
  "currentlyDetected ds = fold (\<lambda>x m. map_put (dpu_Name (fst x)) x m) ds []"

definition add_managed ::
    "(string \<times> DataProcessingUnit \<times> 'p) \<Rightarrow> (string, ('p, 'm) ManagedDpu) gomap \<Rightarrow> (string, ('p, 'm) ManagedDpu) gomap" where
  "add_managed x m =
     (case x of (identifier, cr, plugin) \<Rightarrow>
        if map_get m identifier = None
        then map_put identifier \<lparr>md_CR = cr, md_Plugin = plugin, md_Manager = None, md_AppliedVfCount = None\<rparr> m
        else m)"

definition updateManagedDpus ::
    "'p vsp_ops \<Rightarrow> (DataProcessingUnit \<times> 'p) list \<Rightarrow> ('p, 'm) Daemon \<Rightarrow> ('p, 'm) Daemon" where
  "updateManagedDpus ops ds d =
     (let cur = currentlyDetected ds;
          added = fold add_managed cur (managedDpus d);
          gone = filter (\<lambda>(i, _). map_get cur i = None) added
      in d\<lparr>managedDpus := filter (\<lambda>(i, _). map_get cur i \<noteq> None) added,
           stopped := stopped d @ map (\<lambda>(i, md). (md_Manager md, p_Close ops (md_Plugin md))) gone\<rparr>)"

definition createSideManager :: "('p, 'm) side_env \<Rightarrow> DataProcessingUnit \<Rightarrow> 'p \<Rightarrow> 'm result" where
  "createSideManager env dpuCR dpuPlugin =
     (if IsDpuSide (dpu_Spec dpuCR)
      then (case NewDpuSideManager env dpuPlugin of
              Inl err \<Rightarrow> Inl (Errorf ''failed to create DpuSideManager: %v'' [FErr err])
            | Inr dsm \<Rightarrow> Inr dsm)
      else (case NewHostSideManager env dpuPlugin of
              Inl err \<Rightarrow> Inl (Errorf ''failed to create HostSideManager: %v'' [FErr err])
            | Inr hsm \<Rightarrow> Inr hsm))"

text \<open>The loop that makes the missing side managers; it stops at the first error.\<close>

fun create_managers ::
    "('p, 'm) side_env \<Rightarrow> (string \<times> ('p, 'm) ManagedDpu) list \<Rightarrow>
     go_error option \<times> (string \<times> ('p, 'm) ManagedDpu) list \<times> 'm list" where
  "create_managers env [] = (None, [], [])"
| "create_managers env ((i, md) # rest) =
     (case md_Manager md of
        Some _ \<Rightarrow> (let (err, rest', ms) = create_managers env rest in (err, (i, md) # rest', ms))
      | None \<Rightarrow>
          (case createSideManager env (md_CR md) (md_Plugin md) of
             Inl err \<Rightarrow> (Some err, (i, md) # rest, [])
           | Inr m \<Rightarrow> (let (err, rest', ms) = create_managers env rest
                       in (err, (i, md\<lparr>md_Manager := Some m\<rparr>) # rest', m # ms))))"

definition ready_condition :: "'p vsp_ops \<Rightarrow> ('p, 'm) side_env \<Rightarrow> int \<Rightarrow> ('p, 'm) ManagedDpu \<Rightarrow> Condition result" where
  "ready_condition ops env now md =
     (let cond = (\<lambda>st reason msg. \<lparr>c_Type = ''Ready'', c_Status = st, c_Reason = reason, c_Message = msg,
                    c_ObservedGeneration = 0, c_LastTransitionTime = now\<rparr>) in
      if p_IsInitialized ops (md_Plugin md)
      then (case md_Manager md of
              None \<Rightarrow> Inl (Panic ''nil pointer dereference'')
            | Some m \<Rightarrow>
                if CheckPing env m
                then Inr (cond ''True'' ''Initialized'' ''DPU plugin is initialized and ping successful.'')
                else Inr (cond ''False'' ''PingFailed'' ''DPU plugin is initialized but ping failed.''))
      else Inr (cond ''False'' ''NotInitialized'' ''DPU plugin is not yet initialized.''))"

fun set_conditions ::
    "'p vsp_ops \<Rightarrow> ('p, 'm) side_env \<Rightarrow> int \<Rightarrow> (string \<times> ('p, 'm) ManagedDpu) list \<Rightarrow>
     (string \<times> ('p, 'm) ManagedDpu) list result" where
  "set_conditions ops env now [] = Inr []"
| "set_conditions ops env now ((i, md) # rest) =
     (case ready_condition ops env now md of
        Inl err \<Rightarrow> Inl err
      | Inr c \<Rightarrow>
          (case set_conditions ops env now rest of
             Inl err \<Rightarrow> Inl err
           | Inr rest' \<Rightarrow>
               Inr ((i, md\<lparr>md_CR := (md_CR md)\<lparr>dpu_Conditions := SetStatusCondition c (dpu_Conditions (md_CR md))\<rparr>\<rparr>)
                    # rest')))"

section \<open>Mirroring the DPUs as resources\<close>

text \<open>A missing label reads as the empty string.\<close>

definition label_of :: "(string, string) gomap \<Rightarrow> string \<Rightarrow> string" where
  "label_of ls key = (case map_get ls key of Some v \<Rightarrow> v | None \<Rightarrow> [])"

fun merge_labels :: "(string \<times> string) list \<Rightarrow> (string, string) gomap \<Rightarrow> bool \<times> (string, string) gomap" where
  "merge_labels [] target = (False, target)"
| "merge_labels ((key, v) # rest) target =
     (if label_of target key \<noteq> v
      then (True, snd (merge_labels rest (map_put key v target)))
      else merge_labels rest target)"

definition mergeLabels :: "DataProcessingUnit \<Rightarrow> (string, string) gomap \<Rightarrow> bool \<times> DataProcessingUnit" where
  "mergeLabels target desired =
     (if desired = [] then (False, target)
      else let (changed, ls) = merge_labels desired (dpu_Labels target) in (changed, target\<lparr>dpu_Labels := ls\<rparr>))"

definition conditionsNeedUpdate :: "Condition list \<Rightarrow> Condition list \<Rightarrow> bool" where
  "conditionsNeedUpdate current desired =
     (case FindStatusCondition desired ''Ready'' of
        None \<Rightarrow> FindStatusCondition current ''Ready'' \<noteq> None
      | Some latestDesired \<Rightarrow>
          (case FindStatusCondition current ''Ready'' of
             None \<Rightarrow> True
           | Some latestCurrent \<Rightarrow>
               c_Status latestCurrent \<noteq> c_Status latestDesired \<or>
               c_Reason latestCurrent \<noteq> c_Reason latestDesired \<or>
               c_Message latestCurrent \<noteq> c_Message latestDesired \<or>
               c_ObservedGeneration latestCurrent \<noteq> c_ObservedGeneration latestDesired))"

definition setOwnerReference :: "'s kube \<Rightarrow> DataProcessingUnit \<Rightarrow> 's \<Rightarrow> DataProcessingUnit result" where
  "setOwnerReference k dpuCR s =
     (case k_GetOperatorConfig k ''dpu-operator-config'' s of
        Inl err \<Rightarrow> Inl (Errorf ''failed to get DpuOperatorConfig %q: %v'' [FStr ''dpu-operator-config'', FErr err])
      | Inr owner \<Rightarrow>
          (case k_SetControllerReference k owner dpuCR of
             Inl err \<Rightarrow> Inl (Errorf ''failed to set controller reference: %v'' [FErr err])
           | Inr cr \<Rightarrow> Inr cr))"

text \<open>The branch that creates the resource, and the one that updates it.\<close>

definition create_dpu_cr :: "'s kube \<Rightarrow> DataProcessingUnit \<Rightarrow> 's \<Rightarrow> bool result \<times> 's" where
  "create_dpu_cr k dpuCR s =
     (case setOwnerReference k dpuCR s of
        Inl err \<Rightarrow> (Inl (Errorf ''Failed to set owner reference for DPU CR %s: %v'' [FStr (dpu_Name dpuCR), FErr err]), s)
      | Inr owned \<Rightarrow>
          (case k_CreateDpu k owned s of
             (Inl err, s1) \<Rightarrow> (Inl (Errorf ''Failed to create DPU CR %s: %v'' [FStr (dpu_Name dpuCR), FErr err]), s1)
           | (Inr created, s1) \<Rightarrow>
               (case k_UpdateDpuStatus k created s1 of
                  (Some err, s2) \<Rightarrow>
                    (Inl (Errorf ''Failed to update DPU CR status %s: %v'' [FStr (dpu_Name dpuCR), FErr err]), s2)
                | (None, s2) \<Rightarrow> (Inr True, s2))))"

definition update_dpu_cr ::
    "'s kube \<Rightarrow> DataProcessingUnit \<Rightarrow> DataProcessingUnit \<Rightarrow> 's \<Rightarrow> bool result \<times> 's" where
  "update_dpu_cr k current dpuCR s =
     (let needsSpecUpdate = dpu_Spec current \<noteq> dpu_Spec dpuCR;
          (needsMetadataUpdate, merged) = mergeLabels current (dpu_Labels dpuCR);
          needsStatusUpdate = conditionsNeedUpdate (dpu_Conditions current) (dpu_Conditions dpuCR);
          current1 = (if needsSpecUpdate \<or> needsMetadataUpdate then merged\<lparr>dpu_Spec := dpu_Spec dpuCR\<rparr> else merged)
      in case (if needsSpecUpdate \<or> needsMetadataUpdate then k_UpdateDpu k current1 s else (None, s)) of
           (Some err, s1) \<Rightarrow> (Inl (Errorf ''Failed to update DPU CR spec %s: %v'' [FStr (dpu_Name dpuCR), FErr err]), s1)
         | (None, s1) \<Rightarrow>
             (case (if needsStatusUpdate
                    then k_UpdateDpuStatus k (current1\<lparr>dpu_Conditions := dpu_Conditions dpuCR\<rparr>) s1 else (None, s1)) of
                (Some err, s2) \<Rightarrow>
                  (Inl (Errorf ''Failed to update DPU CR status %s: %v'' [FStr (dpu_Name dpuCR), FErr err]), s2)
              | (None, s2) \<Rightarrow> (Inr (needsSpecUpdate \<or> needsMetadataUpdate \<or> needsStatusUpdate), s2)))"

definition syncSingleDpuCR :: "'s kube \<Rightarrow> DataProcessingUnit \<Rightarrow> 's \<Rightarrow> bool result \<times> 's" where
  "syncSingleDpuCR k dpuCR s =
     (case k_GetDpu k (dpu_Name dpuCR) s of
        Inl err \<Rightarrow>
          if k_IsNotFound k err then create_dpu_cr k dpuCR s
          else (Inl (Errorf ''Failed to get DPU CR %s: %v'' [FStr (dpu_Name dpuCR), FErr err]), s)
      | Inr current \<Rightarrow> update_dpu_cr k current dpuCR s)"

fun sync_managed :: "'s kube \<Rightarrow> DataProcessingUnit list \<Rightarrow> 's \<Rightarrow> bool \<times> go_error list \<times> 's" where
  "sync_managed k [] s = (False, [], s)"
| "sync_managed k (cr # rest) s =
     (case syncSingleDpuCR k cr s of
        (Inl err, s1) \<Rightarrow> (let (changed, errs, s2) = sync_managed k rest s1 in (changed, err # errs, s2))
      | (Inr updated, s1) \<Rightarrow> (let (changed, errs, s2) = sync_managed k rest s1 in (updated \<or> changed, errs, s2)))"

fun delete_orphans :: "'s kube \<Rightarrow> DataProcessingUnit list \<Rightarrow> 's \<Rightarrow> bool \<times> go_error list \<times> 's" where
  "delete_orphans k [] s = (False, [], s)"
| "delete_orphans k (cr # rest) s =
     (case k_DeleteDpu k cr s of
        (Some err, s1) \<Rightarrow> (let (changed, errs, s2) = delete_orphans k rest s1 in (changed, err # errs, s2))
      | (None, s1) \<Rightarrow> (let (changed, errs, s2) = delete_orphans k rest s1 in (True, errs, s2)))"

text \<open>Returns whether anything changed, the errors that are only logged, and the server state.\<close>

definition SyncDpuCRs ::
    "'s kube \<Rightarrow> ('p, 'm) Daemon \<Rightarrow> 's \<Rightarrow> bool result \<times> go_error list \<times> 's" where
  "SyncDpuCRs k d s =
     (case k_ListDpus k s of
        Inl err \<Rightarrow> (Inl (Errorf ''Failed to list existing DPU CRs: %v'' [FErr err]), [], s)
      | Inr items \<Rightarrow>
          let existing = filter (\<lambda>cr. NodeName (dpu_Spec cr) = dmn_nodeName d) items;
              (changed1, errs1, s1) = sync_managed k (map (\<lambda>(_, md). md_CR md) (managedDpus d)) s;
              (changed2, errs2, s2) =
                delete_orphans k (filter (\<lambda>cr. map_get (managedDpus d) (dpu_Name cr) = None) existing) s1
          in (Inr (changed1 \<or> changed2), errs1 @ errs2, s2))"

section \<open>Virtual function counts\<close>

definition DpuConfigVFCountAnnotationPrefix :: string where
  "DpuConfigVFCountAnnotationPrefix = ''dpu.config.openshift.io/vf-count/''"

text \<open>The map from counts to the annotations that ask for them; \<open>int32(parsed)\<close> truncates.\<close>

fun collect_vf_counts ::
    "(string \<times> string) list \<Rightarrow> (32 word, string list) gomap \<Rightarrow> (32 word, string list) gomap result" where
  "collect_vf_counts [] values = Inr values"
| "collect_vf_counts ((key, value) # rest) values =
     (if \<not> prefix DpuConfigVFCountAnnotationPrefix key then collect_vf_counts rest values
      else (case atoi value of
              None \<Rightarrow> Inl (Errorf ''invalid vfCount %q in %s'' [FStr value, FStr key])
            | Some parsed \<Rightarrow>
                if parsed \<le> 0 then Inl (Errorf ''vfCount must be > 0 in %s'' [FStr key])
                else let v = word_of_int parsed;
                         old = (case map_get values v of Some ks \<Rightarrow> ks | None \<Rightarrow> [])
                     in collect_vf_counts rest (map_put v (old @ [key]) values)))"

definition desiredVfCountFromAnnotations :: "(string, string) gomap \<Rightarrow> 32 word option result" where
  "desiredVfCountFromAnnotations annotations =
     (if annotations = [] then Inr None
      else (case collect_vf_counts annotations [] of
              Inl err \<Rightarrow> Inl err
            | Inr values \<Rightarrow>
                (case values of
                   [] \<Rightarrow> Inr None
                 | [(v, _)] \<Rightarrow> Inr (Some v)
                 | _ \<Rightarrow> Inl (Errorf ''conflicting vfCount annotations: %s''
                          [FStr (join ''; '' (map (\<lambda>(v, ks). itoa (sint v) @ ''=['' @ join '' '' ks @ '']'') values))]))))"

definition apply_vf_count ::
    "'p vsp_ops \<Rightarrow> 's kube \<Rightarrow> 's \<Rightarrow> string \<times> ('p, 'm) ManagedDpu \<Rightarrow> string \<times> ('p, 'm) ManagedDpu" where
  "apply_vf_count ops k s x =
     (case x of (name, md) \<Rightarrow>
        if IsDpuSide (dpu_Spec (md_CR md)) then (name, md)
        else (case k_GetDpu k name s of
                Inl err \<Rightarrow> (name, md)
              | Inr current \<Rightarrow>
                  (case desiredVfCountFromAnnotations (dpu_Annotations current) of
                     Inl err \<Rightarrow> (name, md)
                   | Inr None \<Rightarrow> (name, md)
                   | Inr (Some desired) \<Rightarrow>
                       if md_AppliedVfCount md = Some desired then (name, md)
                       else (case p_SetNumVfs ops desired (md_Plugin md) of
                               (Inl err, p) \<Rightarrow> (name, md\<lparr>md_Plugin := p\<rparr>)
                             | (Inr _, p) \<Rightarrow> (name, md\<lparr>md_Plugin := p, md_AppliedVfCount := Some desired\<rparr>)))))"

definition applyDesiredVfCounts :: "'p vsp_ops \<Rightarrow> 's kube \<Rightarrow> 's \<Rightarrow> ('p, 'm) Daemon \<Rightarrow> ('p, 'm) Daemon" where
  "applyDesiredVfCounts ops k s d = d\<lparr>managedDpus := map (apply_vf_count ops k s) (managedDpus d)\<rparr>"

section \<open>Node labels\<close>

definition DpuSideLabelKey :: string where
  "DpuSideLabelKey = ''dpu.config.openshift.io/dpuside''"

definition updateNodeLabels :: "'s kube \<Rightarrow> ('p, 'm) Daemon \<Rightarrow> 's \<Rightarrow> go_error option \<times> 's" where
  "updateNodeLabels k d s =
     (case k_GetNodeLabels k (dmn_nodeName d) s of
        Inl err \<Rightarrow> (Some (Errorf ''Failed to get node %s: %v'' [FStr (dmn_nodeName d), FErr err]), s)
      | Inr labels \<Rightarrow>
          (case managedDpus d of
             [] \<Rightarrow>
               if map_get labels DpuSideLabelKey \<noteq> None
               then (case k_UpdateNodeLabels k (dmn_nodeName d) (map_del DpuSideLabelKey labels) s of
                       (Some err, s1) \<Rightarrow> (Some (Errorf ''Failed to remove DPU side label from node %s: %v''
                                                  [FStr (dmn_nodeName d), FErr err]), s1)
                     | (None, s1) \<Rightarrow> (None, s1))
               else (None, s)
           | (_, md) # _ \<Rightarrow>
               let labelValue = (if IsDpuSide (dpu_Spec (md_CR md)) then ''dpu'' else ''dpu-host'') in
               if map_get labels DpuSideLabelKey \<noteq> Some labelValue
               then (case k_UpdateNodeLabels k (dmn_nodeName d) (map_put DpuSideLabelKey labelValue labels) s of
                       (Some err, s1) \<Rightarrow> (Some (Errorf ''Failed to update DPU side label on node %s: %v''
                                                  [FStr (dmn_nodeName d), FErr err]), s1)
                     | (None, s1) \<Rightarrow> (None, s1))
               else (None, s)))"

section \<open>The loop\<close>

text \<open>One turn of the ticker case of \<open>Serve\<close>: an error ends \<open>Serve\<close>.\<close>

definition serve_tick ::
    "'p vsp_ops \<Rightarrow> ('p, 'm) side_env \<Rightarrow> 's kube \<Rightarrow> int \<Rightarrow> (DataProcessingUnit \<times> 'p) list result \<Rightarrow>
     ('p, 'm) Daemon \<Rightarrow> 's \<Rightarrow> go_error option \<times> ('p, 'm) Daemon \<times> 's" where
  "serve_tick ops env k now detected d s =
     (case detected of
        Inl err \<Rightarrow> (Some err, d, s)
      | Inr ds \<Rightarrow>
          let d1 = updateManagedDpus ops ds d;
              (err, mds, ms) = create_managers env (managedDpus d1);
              d2 = d1\<lparr>managedDpus := mds, dmn_managers := dmn_managers d1 @ ms\<rparr>
          in case err of
               Some e \<Rightarrow> (Some e, d2, s)
             | None \<Rightarrow>
                 (case set_conditions ops env now (managedDpus d2) of
                    Inl e \<Rightarrow> (Some e, d2, s)
                  | Inr mds3 \<Rightarrow>
                      let d3 = d2\<lparr>managedDpus := mds3\<rparr>;
                          (changed, errs, s1) = SyncDpuCRs k d3 s
                      in case changed of
                           Inl e \<Rightarrow> (Some e, d3, s1)
                         | Inr c \<Rightarrow>
                             (case updateNodeLabels k d3 s1 of
                                (Some e, s2) \<Rightarrow> (Some e, d3, s2)
                              | (None, s2) \<Rightarrow>
                                  let d4 = applyDesiredVfCounts ops k s2 d3
                                  in (None, if \<not> c then markReady d4 else d4, s2))))"

text \<open>\<open>shutdown\<close>: the resources are removed, then every routine is cancelled and awaited; the pointer
  to the managed DPUs is dropped without closing their plugins.\<close>

definition daemon_shutdown :: "'s kube \<Rightarrow> ('p, 'm) Daemon \<Rightarrow> 's \<Rightarrow> go_error list \<times> ('p, 'm) Daemon \<times> 's" where
  "daemon_shutdown k d s =
     (let d1 = d\<lparr>managedDpus := []\<rparr>;
          (res, errs, s1) = SyncDpuCRs k d1 s
      in (errs @ (case res of Inl e \<Rightarrow> [e] | Inr _ \<Rightarrow> []), d1, s1))"

section \<open>Managed DPUs follow detection\<close>

lemma map_get_currentlyDetected:
  "map_get (currentlyDetected ds) n = List.find (\<lambda>x. dpu_Name (fst x) = n) (rev ds)"
proof -
  have "map_get (fold (\<lambda>x m. map_put (dpu_Name (fst x)) x m) ds m0) n =
      (case List.find (\<lambda>x. dpu_Name (fst x) = n) (rev ds) of Some x \<Rightarrow> Some x | None \<Rightarrow> map_get m0 n)" for m0
    by (induction ds arbitrary: m0) (auto simp: find_append split: option.splits)
  from this [of "[]"] show ?thesis by (simp add: currentlyDetected_def split: option.splits)
qed

abbreviation fresh_managed :: "DataProcessingUnit \<times> 'p \<Rightarrow> ('p, 'm) ManagedDpu" where
  "fresh_managed x \<equiv> \<lparr>md_CR = fst x, md_Plugin = snd x, md_Manager = None, md_AppliedVfCount = None\<rparr>"

lemma map_get_add_managed:
  "map_get (fold add_managed xs m) n =
     (case map_get m n of Some md \<Rightarrow> Some md | None \<Rightarrow> map_option fresh_managed (map_get xs n))"
  by (induction xs arbitrary: m) (auto simp: add_managed_def split: option.splits if_splits prod.splits)

lemma map_ok_add_managed: "map_ok m \<Longrightarrow> map_ok (fold add_managed xs m)"
proof (induction xs arbitrary: m)
  case (Cons x xs)
  have "map_ok (add_managed x m)" using Cons.prems by (auto simp: add_managed_def split: prod.splits)
  then show ?case using Cons.IH by simp
qed simp

lemma map_get_filter_key: "map_get (filter (\<lambda>(i, _). P i) xs) n = (if P n then map_get xs n else None)"
  by (induction xs) auto

lemma map_ok_filter: "map_ok xs \<Longrightarrow> map_ok (filter P xs)"
  by (induction xs) auto

lemma updateManagedDpus_get:
  "map_get (managedDpus (updateManagedDpus ops ds d)) n =
     (case map_get (currentlyDetected ds) n of
        None \<Rightarrow> None
      | Some x \<Rightarrow> (case map_get (managedDpus d) n of Some md \<Rightarrow> Some md | None \<Rightarrow> Some (fresh_managed x)))"
  unfolding updateManagedDpus_def Let_def
  by (simp add: map_get_filter_key map_get_add_managed split: option.splits)

lemma updateManagedDpus_ok: "map_ok (managedDpus d) \<Longrightarrow> map_ok (managedDpus (updateManagedDpus ops ds d))"
  unfolding updateManagedDpus_def Let_def by (simp add: map_ok_filter map_ok_add_managed)

lemma updateManagedDpus_stopped:
  assumes "map_ok (managedDpus d)"
  shows "\<exists>new. stopped (updateManagedDpus ops ds d) = stopped d @ new \<and>
    set new = {(md_Manager md, p_Close ops (md_Plugin md)) | n md.
                 map_get (managedDpus d) n = Some md \<and> map_get (currentlyDetected ds) n = None}"
proof -
  let ?added = "fold add_managed (currentlyDetected ds) (managedDpus d)"
  let ?gone = "filter (\<lambda>(i, _). map_get (currentlyDetected ds) i = None) ?added"
  have "(n, md) \<in> set ?gone \<longleftrightarrow> map_get (managedDpus d) n = Some md \<and> map_get (currentlyDetected ds) n = None" for n md
  proof -
    have "(n, md) \<in> set ?gone \<longleftrightarrow> map_get ?gone n = Some md"
      using map_ok_filter [OF map_ok_add_managed [OF assms]] by (simp add: map_of_eq_Some_iff)
    then show ?thesis by (auto simp: map_get_filter_key map_get_add_managed split: option.splits)
  qed
  then have "set (map (\<lambda>(i, md). (md_Manager md, p_Close ops (md_Plugin md))) ?gone) =
      {(md_Manager md, p_Close ops (md_Plugin md)) | n md.
         map_get (managedDpus d) n = Some md \<and> map_get (currentlyDetected ds) n = None}"
    by force
  moreover have "stopped (updateManagedDpus ops ds d) =
      stopped d @ map (\<lambda>(i, md). (md_Manager md, p_Close ops (md_Plugin md))) ?gone"
    by (simp add: updateManagedDpus_def Let_def)
  ultimately show ?thesis by blast
qed

lemma find_distinct_rev:
  assumes "distinct (map f xs)"
  shows "List.find (\<lambda>x. f x = n) (rev xs) = Some y \<longleftrightarrow> y \<in> set xs \<and> f y = n"
  using assms
proof (induction xs rule: rev_induct)
  case (snoc x xs)
  then show ?case by (auto simp: image_iff)
qed simp

lemma find_rev:
  assumes "distinct (map f xs)"
  shows "List.find (\<lambda>x. f x = n) (rev xs) = List.find (\<lambda>x. f x = n) xs"
proof -
  have "distinct (map f (rev xs))" using assms by (simp add: rev_map [symmetric])
  then have "List.find (\<lambda>x. f x = n) (rev xs) = Some y \<longleftrightarrow> List.find (\<lambda>x. f x = n) xs = Some y" for y
    using find_distinct_rev [OF assms, of n y] find_distinct_rev [of f "rev xs" n y] by simp
  then show ?thesis by (metis option.exhaust)
qed

section \<open>Virtual function counts\<close>

text \<open>The annotations that ask for a count.\<close>

definition vf_requests :: "(string, string) gomap \<Rightarrow> (string \<times> string) list" where
  "vf_requests ann = filter (\<lambda>(key, _). prefix DpuConfigVFCountAnnotationPrefix key) ann"

definition vf_valid :: "string \<Rightarrow> bool" where
  "vf_valid value \<longleftrightarrow> (case atoi value of Some n \<Rightarrow> 0 < n | None \<Rightarrow> False)"

definition vf_word :: "string \<Rightarrow> 32 word" where
  "vf_word value = word_of_int (the (atoi value))"

lemma collect_vf_counts_ok:
  "(\<exists>vs. collect_vf_counts ann vals = Inr vs) \<longleftrightarrow> list_all (\<lambda>(_, value). vf_valid value) (vf_requests ann)"
  by (induction ann vals rule: collect_vf_counts.induct)
    (auto simp: vf_requests_def vf_valid_def Let_def split: option.splits)

lemma collect_vf_counts_keys:
  "collect_vf_counts ann vals = Inr vs \<Longrightarrow> map_ok vals \<Longrightarrow>
     map_ok vs \<and> fst ` set vs = fst ` set vals \<union> (\<lambda>(_, value). vf_word value) ` set (vf_requests ann)"
proof (induction ann vals rule: collect_vf_counts.induct)
  case (2 key val rest vals)
  have put: "fst ` set (map_put a b m) = insert a (fst ` set m)" for a :: "32 word" and b :: "string list" and m
    by (auto simp flip: dom_map_of_conv_image_fst split: if_splits)
  show ?case
  proof (cases "prefix DpuConfigVFCountAnnotationPrefix key")
    case True
    with 2 show ?thesis
      by (auto simp: vf_requests_def vf_word_def Let_def put split: option.splits if_splits)
  next
    case False
    with 2 show ?thesis by (simp add: vf_requests_def)
  qed
qed (simp add: vf_requests_def)

lemma desiredVf_eq:
  "desiredVfCountFromAnnotations ann =
     (case collect_vf_counts ann [] of
        Inl err \<Rightarrow> Inl err
      | Inr vs \<Rightarrow> (case vs of [] \<Rightarrow> Inr None | [(v, _)] \<Rightarrow> Inr (Some v)
          | _ \<Rightarrow> Inl (Errorf ''conflicting vfCount annotations: %s''
                  [FStr (join ''; '' (map (\<lambda>(v, ks). itoa (sint v) @ ''=['' @ join '' '' ks @ '']'') vs))])))"
  by (simp add: desiredVfCountFromAnnotations_def)

lemma desiredVf_None: "desiredVfCountFromAnnotations ann = Inr None \<longleftrightarrow> vf_requests ann = []"
proof (cases "collect_vf_counts ann []")
  case (Inl err)
  then show ?thesis
    using collect_vf_counts_ok [of ann "[]"] by (auto simp: desiredVf_eq)
next
  case (Inr vs)
  have "(\<lambda>(_, value). vf_word value) ` set (vf_requests ann) = fst ` set vs"
    using collect_vf_counts_keys [OF Inr] by auto
  then show ?thesis by (auto simp: desiredVf_eq Inr split: list.splits)
qed

lemma desiredVf_Some:
  "desiredVfCountFromAnnotations ann = Inr (Some v) \<longleftrightarrow>
     list_all (\<lambda>(_, value). vf_valid value) (vf_requests ann) \<and>
     (\<lambda>(_, value). vf_word value) ` set (vf_requests ann) = {v}"
proof (cases "collect_vf_counts ann []")
  case (Inl err)
  then show ?thesis
    using collect_vf_counts_ok [of ann "[]"] by (auto simp: desiredVf_eq)
next
  case (Inr vs)
  then have good: "list_all (\<lambda>(_, value). vf_valid value) (vf_requests ann)"
    using collect_vf_counts_ok [of ann "[]"] by blast
  have keys: "map_ok vs" "(\<lambda>(_, value). vf_word value) ` set (vf_requests ann) = fst ` set vs"
    using collect_vf_counts_keys [OF Inr] by auto
  have "fst ` set vs = {v} \<longleftrightarrow> (\<exists>ks. vs = [(v, ks)])"
    using keys(1) by (cases vs rule: remdups_adj.cases) auto
  then show ?thesis
    using good keys(2) by (auto simp: desiredVf_eq Inr split: list.splits)
qed

section \<open>Resources follow the managed DPUs\<close>

text \<open>The resource \<open>c\<close> shows what \<open>cr\<close> asks for: the specification and every label.\<close>

definition shows_spec :: "DataProcessingUnit \<Rightarrow> DataProcessingUnit \<Rightarrow> bool" where
  "shows_spec cr c \<longleftrightarrow> dpu_Spec c = dpu_Spec cr \<and>
     (\<forall>(key, v) \<in> set (dpu_Labels cr). label_of (dpu_Labels c) key = v)"

definition shows_ready :: "DataProcessingUnit \<Rightarrow> DataProcessingUnit \<Rightarrow> bool" where
  "shows_ready cr c \<longleftrightarrow> \<not> conditionsNeedUpdate (dpu_Conditions c) (dpu_Conditions cr)"

lemma label_of_put [simp]: "label_of (map_put key v ls) key' = (if key' = key then v else label_of ls key')"
  by (simp add: label_of_def)

lemma merge_labels_keep:
  "key \<notin> fst ` set desired \<Longrightarrow> label_of (snd (merge_labels desired target)) key = label_of target key"
  by (induction desired target rule: merge_labels.induct) auto

lemma merge_labels_correct:
  assumes "map_ok desired"
  shows "(\<forall>(key, v) \<in> set desired. label_of (snd (merge_labels desired target)) key = v) \<and>
    (\<not> fst (merge_labels desired target) \<longrightarrow> snd (merge_labels desired target) = target)"
  using assms
proof (induction desired target rule: merge_labels.induct)
  case (2 key v rest target)
  then have "label_of (snd (merge_labels rest t)) key = label_of t key" for t
    by (intro merge_labels_keep) simp
  with 2 show ?case by auto
qed simp

lemma mergeLabels_correct:
  assumes "map_ok desired" "mergeLabels c desired = (changed, c')"
  shows "\<exists>ls. c' = c\<lparr>dpu_Labels := ls\<rparr> \<and> (\<forall>(key, v) \<in> set desired. label_of ls key = v) \<and> (\<not> changed \<longrightarrow> c' = c)"
proof (cases "desired = []")
  case True
  with assms(2) show ?thesis by (intro exI [of _ "dpu_Labels c"]) (auto simp: mergeLabels_def)
next
  case False
  with assms(2) show ?thesis
    using merge_labels_correct [OF assms(1), of "dpu_Labels c"]
    by (auto simp: mergeLabels_def Let_def split: prod.splits)
qed

lemma conditionsNeedUpdate_refl [simp]: "\<not> conditionsNeedUpdate cs cs"
  by (simp add: conditionsNeedUpdate_def split: option.splits)

text \<open>Syncing one resource: it touches no other, and when it succeeds the resource shows what it should.
  The Ready condition of a resource that is created is written by the next turn.\<close>

lemma create_dpu_cr_correct:
  assumes k: "kube_ok k view" and "map_ok (dpu_Labels cr)" and run: "create_dpu_cr k cr s = (r, s')"
  shows "only_at (dpu_Name cr) (view s) (view s') \<and>
    (\<forall>u. r = Inr u \<longrightarrow> u \<and> (\<exists>c. view s' (dpu_Name cr) = Some c \<and> shows_spec cr c))"
proof -
  consider (owner) e where "setOwnerReference k cr s = Inl e" | (ok) owned where "setOwnerReference k cr s = Inr owned"
    by (cases "setOwnerReference k cr s") auto
  then show ?thesis
  proof cases
    case owner
    with run show ?thesis by (auto simp: create_dpu_cr_def)
  next
    case ok
    then obtain o' where o': "owned = cr\<lparr>dpu_Owner := o'\<rparr>"
      using kube_owner [OF k] by (auto simp: setOwnerReference_def split: sum.splits)
    obtain r1 s1 where c1: "k_CreateDpu k owned s = (r1, s1)" by fastforce
    note create = kube_create [OF k c1]
    show ?thesis
    proof (cases r1)
      case (Inl e)
      with run ok c1 create(1) o' show ?thesis by (auto simp: create_dpu_cr_def)
    next
      case (Inr created)
      obtain r2 s2 where c2: "k_UpdateDpuStatus k created s1 = (r2, s2)" by fastforce
      have same: "dpu_Name created = dpu_Name cr" and
        v1: "view s1 (dpu_Name cr) = Some (owned\<lparr>dpu_Conditions := []\<rparr>)"
        using create(2) [OF Inr] o' by auto
      note status = kube_status [OF k c2]
      have only: "only_at (dpu_Name cr) (view s) (view s2)"
        using create(1) status(1) o' same by (auto intro: only_at_trans)
      show ?thesis
      proof (cases r2)
        case None
        with status(2) v1 same have "view s2 (dpu_Name cr) =
            Some (owned\<lparr>dpu_Conditions := dpu_Conditions created\<rparr>)" by auto
        moreover have "label_of (dpu_Labels cr) key = v" if "(key, v) \<in> set (dpu_Labels cr)" for key v
          using that assms(2) by (simp add: label_of_def)
        ultimately show ?thesis
          using run ok c1 c2 Inr None only o' by (auto simp: create_dpu_cr_def shows_spec_def)
      qed (use run ok c1 c2 Inr only in \<open>auto simp: create_dpu_cr_def\<close>)
    qed
  qed
qed

lemma update_dpu_cr_correct:
  assumes k: "kube_ok k view" and labels: "map_ok (dpu_Labels cr)" and cur: "view s (dpu_Name cr) = Some cur"
    and run: "update_dpu_cr k cur cr s = (r, s')"
  shows "only_at (dpu_Name cr) (view s) (view s') \<and>
    (\<forall>u. r = Inr u \<longrightarrow> (\<exists>c. view s' (dpu_Name cr) = Some c \<and> shows_spec cr c \<and> shows_ready cr c) \<and>
       (\<not> u \<longrightarrow> s' = s))"
proof -
  let ?spec = "dpu_Spec cur \<noteq> dpu_Spec cr" and ?status = "conditionsNeedUpdate (dpu_Conditions cur) (dpu_Conditions cr)"
  obtain meta merged where m: "mergeLabels cur (dpu_Labels cr) = (meta, merged)" by fastforce
  obtain ls where ls: "merged = cur\<lparr>dpu_Labels := ls\<rparr>" "\<forall>(key, v) \<in> set (dpu_Labels cr). label_of ls key = v"
    "\<not> meta \<longrightarrow> merged = cur"
    using mergeLabels_correct [OF labels m] by blast
  have name: "dpu_Name cur = dpu_Name cr" using kube_named [OF k cur] .
  define cur1 where "cur1 = (if ?spec \<or> meta then merged\<lparr>dpu_Spec := dpu_Spec cr\<rparr> else merged)"
  have "dpu_Labels merged = ls" by (simp add: ls(1))
  then have cur1: "dpu_Name cur1 = dpu_Name cr" "shows_spec cr cur1" "dpu_Conditions cur1 = dpu_Conditions cur"
    using ls(1,2) name by (auto simp: cur1_def shows_spec_def)
  obtain r1 s1 where c1: "(if ?spec \<or> meta then k_UpdateDpu k cur1 s else (None, s)) = (r1, s1)" by fastforce
  let ?new = "cur1\<lparr>dpu_Conditions := dpu_Conditions cr\<rparr>"
  have upd: "(r, s') = (case (r1, s1) of
      (Some err, s1) \<Rightarrow> (Inl (Errorf ''Failed to update DPU CR spec %s: %v'' [FStr (dpu_Name cr), FErr err]), s1)
    | (None, s1) \<Rightarrow>
        (case (if ?status then k_UpdateDpuStatus k ?new s1 else (None, s1)) of
           (Some err, s2) \<Rightarrow> (Inl (Errorf ''Failed to update DPU CR status %s: %v'' [FStr (dpu_Name cr), FErr err]), s2)
         | (None, s2) \<Rightarrow> (Inr (?spec \<or> meta \<or> ?status), s2)))"
    unfolding c1 [symmetric] run [symmetric] unfolding update_dpu_cr_def m Let_def cur1_def by simp
  have v1: "only_at (dpu_Name cr) (view s) (view s1)"
    "r1 = None \<Longrightarrow> view s1 (dpu_Name cr) = Some cur1"
    using c1 kube_update [OF k, of cur1 s] cur1 cur ls by (auto simp: cur1_def split: if_splits)
  show ?thesis
  proof (cases r1)
    case (Some e)
    with upd v1(1) show ?thesis by simp
  next
    case None
    obtain r2 s2 where c2: "(if ?status then k_UpdateDpuStatus k ?new s1 else (None, s1)) = (r2, s2)" by fastforce
    have v2: "only_at (dpu_Name cr) (view s1) (view s2)"
      "r2 = None \<Longrightarrow> view s2 (dpu_Name cr) = Some (if ?status then ?new else cur1)"
      using c2 kube_status [OF k, of ?new s1] cur1 v1(2) [OF None] by (auto split: if_splits)
    have only: "only_at (dpu_Name cr) (view s) (view s2)" using v1(1) v2(1) by (rule only_at_trans)
    have res: "(r, s') = (case r2 of Some err \<Rightarrow> (Inl (Errorf ''Failed to update DPU CR status %s: %v''
        [FStr (dpu_Name cr), FErr err]), s2) | None \<Rightarrow> (Inr (?spec \<or> meta \<or> ?status), s2))"
      using upd None c2 by simp
    have "shows_spec cr (if ?status then ?new else cur1) \<and> shows_ready cr (if ?status then ?new else cur1)"
      using cur1 by (auto simp: shows_spec_def shows_ready_def)
    with res only v2(2) c1 c2 show ?thesis by (auto split: option.splits if_splits)
  qed
qed

lemma syncSingleDpuCR_correct:
  assumes k: "kube_ok k view" and "map_ok (dpu_Labels cr)" and "syncSingleDpuCR k cr s = (r, s')"
  shows "only_at (dpu_Name cr) (view s) (view s') \<and>
    (\<forall>u. r = Inr u \<longrightarrow> (\<exists>c. view s' (dpu_Name cr) = Some c \<and> shows_spec cr c \<and>
       (view s (dpu_Name cr) \<noteq> None \<longrightarrow> shows_ready cr c)) \<and> (\<not> u \<longrightarrow> s' = s \<and> view s (dpu_Name cr) \<noteq> None))"
proof (cases "k_GetDpu k (dpu_Name cr) s")
  case (Inl e)
  with assms(3) kube_get(2) [OF k Inl] create_dpu_cr_correct [OF assms(1,2)] show ?thesis
    by (auto simp: syncSingleDpuCR_def split: if_splits)
next
  case (Inr cur)
  with assms(3) kube_get(1) [OF k Inr] update_dpu_cr_correct [OF assms(1,2)] show ?thesis
    by (fastforce simp: syncSingleDpuCR_def)
qed

lemma sync_managed_correct:
  assumes "kube_ok k view" "distinct (map dpu_Name crs)" "\<forall>cr \<in> set crs. map_ok (dpu_Labels cr)"
    and "sync_managed k crs s = (changed, errs, s')"
  shows "(\<forall>n. n \<notin> dpu_Name ` set crs \<longrightarrow> view s' n = view s n) \<and>
    (errs = [] \<longrightarrow> (\<forall>cr \<in> set crs. \<exists>c. view s' (dpu_Name cr) = Some c \<and> shows_spec cr c \<and>
       (view s (dpu_Name cr) \<noteq> None \<longrightarrow> shows_ready cr c)) \<and>
     (\<not> changed \<longrightarrow> s' = s \<and> (\<forall>cr \<in> set crs. view s (dpu_Name cr) \<noteq> None)))"
  using assms(2-)
proof (induction crs arbitrary: s changed errs)
  case (Cons cr crs)
  obtain r s1 where one: "syncSingleDpuCR k cr s = (r, s1)" by fastforce
  obtain ch2 errs2 where rest: "sync_managed k crs s1 = (ch2, errs2, s')"
    using Cons.prems(3) one by (auto simp: Let_def split: sum.splits prod.splits)
  have IH: "\<forall>n. n \<notin> dpu_Name ` set crs \<longrightarrow> view s' n = view s1 n"
    "errs2 = [] \<Longrightarrow> \<forall>cr \<in> set crs. \<exists>c. view s' (dpu_Name cr) = Some c \<and> shows_spec cr c \<and>
       (view s1 (dpu_Name cr) \<noteq> None \<longrightarrow> shows_ready cr c)"
    "errs2 = [] \<Longrightarrow> \<not> ch2 \<Longrightarrow> s' = s1 \<and> (\<forall>cr \<in> set crs. view s1 (dpu_Name cr) \<noteq> None)"
    using Cons.IH [OF _ _ rest] Cons.prems by auto
  have "map_ok (dpu_Labels cr)" using Cons.prems by simp
  note step = syncSingleDpuCR_correct [OF assms(1) this one]
  have other: "view s1 (dpu_Name c) = view s (dpu_Name c)" if "c \<in> set crs" for c
    using step Cons.prems(1) that by (intro only_at_other [of "dpu_Name cr"]) (auto simp: image_iff)
  have mine: "view s' (dpu_Name cr) = view s1 (dpu_Name cr)" using IH(1) Cons.prems(1) by auto
  have frame: "\<forall>n. n \<notin> dpu_Name ` set (cr # crs) \<longrightarrow> view s' n = view s n"
    using IH(1) step by (auto simp: only_at_def)
  show ?case
  proof (cases r)
    case (Inl e)
    with Cons.prems(3) one rest have "errs \<noteq> []" by (auto split: prod.splits)
    with frame show ?thesis by blast
  next
    case (Inr u)
    with Cons.prems(3) one rest have eqs: "changed = (u \<or> ch2)" "errs = errs2" by (auto split: prod.splits)
    obtain c where c: "view s1 (dpu_Name cr) = Some c" "shows_spec cr c"
      "view s (dpu_Name cr) \<noteq> None \<longrightarrow> shows_ready cr c" "\<not> u \<longrightarrow> s1 = s \<and> view s (dpu_Name cr) \<noteq> None"
      using step Inr by blast
    show ?thesis using frame IH(2,3) eqs c mine other by auto
  qed
qed simp

lemma delete_orphans_correct:
  assumes "kube_ok k view" "delete_orphans k crs s = (changed, errs, s')"
  shows "(\<forall>n. n \<notin> dpu_Name ` set crs \<longrightarrow> view s' n = view s n) \<and>
    (errs = [] \<longrightarrow> (\<forall>cr \<in> set crs. view s' (dpu_Name cr) = None) \<and> (\<not> changed \<longrightarrow> crs = [] \<and> s' = s))"
  using assms(2)
proof (induction crs arbitrary: s changed errs)
  case (Cons cr crs)
  obtain r s1 where one: "k_DeleteDpu k cr s = (r, s1)" by fastforce
  obtain ch2 errs2 where rest: "delete_orphans k crs s1 = (ch2, errs2, s')"
    using Cons.prems one by (auto simp: Let_def split: option.splits prod.splits)
  note IH = Cons.IH [OF rest] and del = kube_delete [OF assms(1) one]
  have frame: "\<forall>n. n \<notin> dpu_Name ` set (cr # crs) \<longrightarrow> view s' n = view s n"
    using IH del(1) by (auto simp: only_at_def)
  have gone: "view s' (dpu_Name cr) = None" if "r = None" "errs2 = []"
  proof (cases "dpu_Name cr \<in> dpu_Name ` set crs")
    case True
    then obtain c where "c \<in> set crs" "dpu_Name cr = dpu_Name c" by auto
    then show ?thesis using IH that(2) by simp
  qed (use IH del(2) [OF that(1)] in simp)
  show ?case
    using Cons.prems one rest frame gone IH by (cases r) (auto split: prod.splits)
qed simp

section \<open>The loop invariant\<close>

text \<open>Every managed DPU is filed under the name of its resource, which belongs to the node.\<close>

definition cr_ok :: "string \<Rightarrow> DataProcessingUnit \<Rightarrow> bool" where
  "cr_ok node cr \<longleftrightarrow> map_ok (dpu_Labels cr) \<and> NodeName (dpu_Spec cr) = node"

definition daemon_inv :: "('p, 'm) Daemon \<Rightarrow> bool" where
  "daemon_inv d \<longleftrightarrow> map_ok (managedDpus d) \<and>
     (\<forall>n md. map_get (managedDpus d) n = Some md \<longrightarrow> dpu_Name (md_CR md) = n \<and> cr_ok (dmn_nodeName d) (md_CR md))"

lemma daemon_inv_New [simp]: "daemon_inv (NewDaemon node)"
  by (simp add: daemon_inv_def NewDaemon_def)

lemma daemon_inv_mem:
  "daemon_inv d \<Longrightarrow> (n, md) \<in> set (managedDpus d) \<Longrightarrow> dpu_Name (md_CR md) = n \<and> cr_ok (dmn_nodeName d) (md_CR md)"
  unfolding daemon_inv_def by (metis map_of_is_SomeI)

lemma daemon_inv_names:
  "daemon_inv d \<Longrightarrow> map dpu_Name (map (\<lambda>(_, md). md_CR md) (managedDpus d)) = map fst (managedDpus d)"
  using daemon_inv_mem by (fastforce simp: comp_def split: prod.splits intro!: map_cong)

lemma updateManagedDpus_more [simp]:
  "dmn_nodeName (updateManagedDpus ops ds d) = dmn_nodeName d" "isReady (updateManagedDpus ops ds d) = isReady d"
  by (simp_all add: updateManagedDpus_def Let_def)

lemma daemon_inv_update:
  assumes "daemon_inv d" "\<forall>x \<in> set ds. cr_ok (dmn_nodeName d) (fst x)"
  shows "daemon_inv (updateManagedDpus ops ds d)"
proof -
  have "dpu_Name (md_CR md) = n \<and> cr_ok (dmn_nodeName d) (md_CR md)"
    if "map_get (managedDpus (updateManagedDpus ops ds d)) n = Some md" for n md
    using that assms find_SomeD [of "\<lambda>x. dpu_Name (fst x) = n" "rev ds"]
    by (auto simp: updateManagedDpus_get map_get_currentlyDetected daemon_inv_def split: option.splits)
  then show ?thesis
    using assms(1) updateManagedDpus_ok [of d ops ds] by (simp add: daemon_inv_def)
qed

text \<open>The steps that rewrite the entries keep their names, and the parts of the resource that matter.\<close>

definition same_entries :: "(string \<times> ('p, 'm) ManagedDpu) list \<Rightarrow> (string \<times> ('p, 'm) ManagedDpu) list \<Rightarrow> bool" where
  "same_entries xs ys \<longleftrightarrow> list_all2 (\<lambda>(i, a) (j, b). i = j \<and>
     (\<exists>cs. md_CR b = (md_CR a)\<lparr>dpu_Conditions := cs\<rparr>)) xs ys"

lemma same_entries_refl: "same_entries xs xs"
proof -
  have "\<exists>cs. md_CR b = (md_CR b)\<lparr>dpu_Conditions := cs\<rparr>" for b :: "('p, 'm) ManagedDpu"
    by (rule exI [of _ "dpu_Conditions (md_CR b)"]) simp
  then show ?thesis unfolding same_entries_def by (intro list.rel_refl) (auto split: prod.splits)
qed

lemma same_entries_trans: "same_entries xs ys \<Longrightarrow> same_entries ys zs \<Longrightarrow> same_entries xs zs"
  unfolding same_entries_def by (erule (1) list_all2_trans [rotated]) (auto split: prod.splits)

lemma same_entries_fst: "same_entries xs ys \<Longrightarrow> map fst ys = map fst xs"
  unfolding same_entries_def by (induction rule: list_all2_induct) auto

lemma same_entries_inv:
  assumes "daemon_inv d" "same_entries (managedDpus d) mds"
  shows "daemon_inv (d\<lparr>managedDpus := mds, dmn_managers := ms\<rparr>)" "daemon_inv (d\<lparr>managedDpus := mds\<rparr>)"
proof -
  have ok: "map_ok mds" using assms same_entries_fst [OF assms(2)] by (simp add: daemon_inv_def)
  have "dpu_Name (md_CR b) = n \<and> cr_ok (dmn_nodeName d) (md_CR b)" if "map_get mds n = Some b" for n b
  proof -
    have "(n, b) \<in> set mds" using that by (rule map_of_SomeD)
    with assms(2) obtain a cs where "(n, a) \<in> set (managedDpus d)" "md_CR b = (md_CR a)\<lparr>dpu_Conditions := cs\<rparr>"
      unfolding same_entries_def by (induction rule: list_all2_induct) auto
    with daemon_inv_mem [OF assms(1)] show ?thesis by (auto simp: cr_ok_def)
  qed
  with ok show "daemon_inv (d\<lparr>managedDpus := mds, dmn_managers := ms\<rparr>)" "daemon_inv (d\<lparr>managedDpus := mds\<rparr>)"
    by (simp_all add: daemon_inv_def)
qed

lemma same_entries_Cons:
  "same_entries ((i, a) # xs) ((j, b) # ys) \<longleftrightarrow> i = j \<and> (\<exists>cs. md_CR b = (md_CR a)\<lparr>dpu_Conditions := cs\<rparr>) \<and> same_entries xs ys"
  by (simp add: same_entries_def)

lemma create_managers_entries:
  "create_managers env mds = (err, mds', ms) \<Longrightarrow> same_entries mds mds' \<and>
     (err = None \<longrightarrow> list_all (\<lambda>x. md_Manager (snd x) \<noteq> None) mds')"
proof (induction env mds arbitrary: err mds' ms rule: create_managers.induct)
  case (2 env i md rest)
  have self: "\<exists>cs. md_CR md = (md_CR md)\<lparr>dpu_Conditions := cs\<rparr>"
    by (rule exI [of _ "dpu_Conditions (md_CR md)"]) simp
  from 2 self show ?case
    by (auto simp: same_entries_Cons same_entries_refl split: option.splits sum.splits prod.splits)
qed (simp add: same_entries_refl)

lemma set_conditions_entries:
  "list_all (\<lambda>x. md_Manager (snd x) \<noteq> None) mds \<Longrightarrow> \<exists>mds'. set_conditions ops env now mds = Inr mds' \<and>
     same_entries mds mds' \<and> (\<forall>(i, md) \<in> set mds'. md_Manager md \<noteq> None \<and>
       (\<exists>c. FindStatusCondition (dpu_Conditions (md_CR md)) ''Ready'' = Some c \<and>
          (c_Status c = ''True'' \<longleftrightarrow> p_IsInitialized ops (md_Plugin md) \<and> CheckPing env (the (md_Manager md)))))"
proof (induction mds)
  case (Cons x mds)
  obtain i md where x: "x = (i, md)" by (cases x)
  obtain m where m: "md_Manager md = Some m" using Cons.prems x by auto
  obtain c where c: "ready_condition ops env now md = Inr c" "c_Type c = ''Ready''"
    "c_Status c = ''True'' \<longleftrightarrow> p_IsInitialized ops (md_Plugin md) \<and> CheckPing env m"
    by (cases "p_IsInitialized ops (md_Plugin md)"; cases "CheckPing env m") (auto simp: ready_condition_def m)
  obtain mds' where IH: "set_conditions ops env now mds = Inr mds'" "same_entries mds mds'"
    "\<forall>(i, md) \<in> set mds'. md_Manager md \<noteq> None \<and>
       (\<exists>c. FindStatusCondition (dpu_Conditions (md_CR md)) ''Ready'' = Some c \<and>
          (c_Status c = ''True'' \<longleftrightarrow> p_IsInitialized ops (md_Plugin md) \<and> CheckPing env (the (md_Manager md))))"
    using Cons by auto
  have "\<exists>c'. FindStatusCondition (SetStatusCondition c (dpu_Conditions (md_CR md))) ''Ready'' = Some c' \<and>
      c_Status c' = c_Status c"
    using FindStatusCondition_Set [of c "dpu_Conditions (md_CR md)"] c(2)
    by (auto simp: merge_condition_def split: option.splits)
  with IH c m show ?case by (auto simp: x same_entries_Cons)
qed (simp add: same_entries_refl)

lemma apply_vf_count_entries: "same_entries mds (map (apply_vf_count ops k s) mds)"
proof (induction mds)
  case (Cons x mds)
  obtain i md where x: "x = (i, md)" by (cases x)
  have self: "\<exists>cs. md_CR md = (md_CR md)\<lparr>dpu_Conditions := cs\<rparr>"
    by (rule exI [of _ "dpu_Conditions (md_CR md)"]) simp
  obtain j b where b: "apply_vf_count ops k s (i, md) = (j, b)" by fastforce
  then have "j = i \<and> md_CR b = md_CR md"
    by (auto simp: apply_vf_count_def split: if_splits sum.splits option.splits prod.splits)
  with self Cons b show ?case by (simp add: x same_entries_Cons)
qed (simp add: same_entries_def)

text \<open>They also keep the plugins, all but the one that applies the counts.\<close>

definition plugins_of :: "(string \<times> ('p, 'm) ManagedDpu) list \<Rightarrow> (string \<times> 'p) list" where
  "plugins_of mds = map (\<lambda>(i, md). (i, md_Plugin md)) mds"

lemma map_get_plugins_of: "map_get (plugins_of mds) n = map_option md_Plugin (map_get mds n)"
  by (induction mds) (auto simp: plugins_of_def)

lemma fst_plugins_of: "map fst (plugins_of mds) = map fst mds"
  by (induction mds) (auto simp: plugins_of_def)

lemma create_managers_plugins: "create_managers env mds = (err, mds', ms) \<Longrightarrow> plugins_of mds' = plugins_of mds"
  by (induction env mds arbitrary: err mds' ms rule: create_managers.induct)
    (auto simp: plugins_of_def split: option.splits sum.splits prod.splits)

lemma set_conditions_plugins: "set_conditions ops env now mds = Inr mds' \<Longrightarrow> plugins_of mds' = plugins_of mds"
  by (induction ops env now mds arbitrary: mds' rule: set_conditions.induct)
    (auto simp: plugins_of_def split: sum.splits)

section \<open>Node label\<close>

lemma updateNodeLabels_correct:
  assumes "kube_ok k view" "updateNodeLabels k d s = (None, s')"
  shows "view s' = view s \<and> (\<exists>ls. k_GetNodeLabels k (dmn_nodeName d) s' = Inr ls \<and>
    map_get ls DpuSideLabelKey =
      (case managedDpus d of [] \<Rightarrow> None
       | (_, md) # _ \<Rightarrow> Some (if IsDpuSide (dpu_Spec (md_CR md)) then ''dpu'' else ''dpu-host'')))"
  using assms(2) kube_node [OF assms(1)]
  by (auto simp: updateNodeLabels_def Let_def split: sum.splits list.splits if_splits option.splits prod.splits)

end
