(* ===== verification/Daemon_Props.thy ===== *)
theory Daemon_Props
  imports Daemon
begin

text \<open>
  The properties of the daemon: what it manages follows detection, the resources and the node label follow what
  it manages, plugins of lost DPUs are released, counts of virtual functions are read as asked. The locale
  \<open>daemon_plugin\<close> states what the daemon relies on from a vendor plugin and is interpreted for \<open>GrpcPlugin\<close>.
\<close>

section \<open>Vendor plugins as the daemon uses them\<close>

text \<open>Every managed plugin is in order (\<open>pinv\<close>), and no plugin the daemon stopped holds a connection.\<close>

definition plugins_ok :: "('p \<Rightarrow> bool) \<Rightarrow> ('p \<Rightarrow> bool) \<Rightarrow> ('p, 'm) Daemon \<Rightarrow> bool" where
  "plugins_ok pinv held d \<longleftrightarrow> map_ok (managedDpus d) \<and>
     (\<forall>n md. map_get (managedDpus d) n = Some md \<longrightarrow> pinv (md_Plugin md)) \<and>
     (\<forall>m p. (m, p) \<in> set (stopped d) \<longrightarrow> \<not> held p)"

lemma plugins_ok_markReady [simp]: "plugins_ok pinv held (markReady d) = plugins_ok pinv held d"
  by (simp add: markReady_def plugins_ok_def)

text \<open>What the daemon relies on: \<open>Close\<close> gives the connection back, and applying a number of virtual
  functions keeps the plugin in order.\<close>

locale daemon_plugin =
  fixes ops :: "'p vsp_ops" and pinv :: "'p \<Rightarrow> bool" and held :: "'p \<Rightarrow> bool"
  assumes close_releases: "pinv p \<Longrightarrow> \<not> held (p_Close ops p)"
    and set_vfs_pinv: "pinv p \<Longrightarrow> p_SetNumVfs ops n p = (r, p') \<Longrightarrow> pinv p'"
begin

lemma plugins_ok_update:
  assumes "plugins_ok pinv held d" "\<forall>x \<in> set ds. pinv (snd x)"
  shows "plugins_ok pinv held (updateManagedDpus ops ds d)"
proof -
  have "pinv (md_Plugin md)" if "map_get (managedDpus (updateManagedDpus ops ds d)) n = Some md" for n md
    using that assms find_SomeD [of "\<lambda>x. dpu_Name (fst x) = n" "rev ds"]
    by (auto simp: updateManagedDpus_get map_get_currentlyDetected plugins_ok_def split: option.splits)
  moreover have "\<not> held p" if "(m, p) \<in> set (stopped (updateManagedDpus ops ds d))" for m p
    using that updateManagedDpus_stopped [of d ops ds] assms(1) close_releases by (auto simp: plugins_ok_def)
  ultimately show ?thesis
    using assms(1) updateManagedDpus_ok [of d ops ds] by (simp add: plugins_ok_def)
qed

lemma plugins_ok_cong:
  fixes d d' :: "('p, 'b) Daemon"
  assumes "plugins_of (managedDpus d') = plugins_of (managedDpus d)" "stopped d' = stopped d"
  shows "plugins_ok pinv held d' = plugins_ok pinv held d"
proof -
  have "plugins_ok pinv held e \<longleftrightarrow> map_ok (plugins_of (managedDpus e)) \<and>
      (\<forall>n p. map_get (plugins_of (managedDpus e)) n = Some p \<longrightarrow> pinv p) \<and>
      (\<forall>m p. (m, p) \<in> set (stopped e) \<longrightarrow> \<not> held p)" for e :: "('p, 'b) Daemon"
    by (auto simp: plugins_ok_def map_get_plugins_of fst_plugins_of)
  with assms show ?thesis by simp
qed

lemma plugins_ok_apply:
  assumes "plugins_ok pinv held d"
  shows "plugins_ok pinv held (applyDesiredVfCounts ops k s d)"
proof -
  have fst_eq: "map fst (map (apply_vf_count ops k s) (managedDpus d)) = map fst (managedDpus d)"
    by (rule same_entries_fst [OF apply_vf_count_entries])
  have keep: "pinv (md_Plugin b)" if "apply_vf_count ops k s (i, a) = (j, b)" "pinv (md_Plugin a)"
    for i j and a b :: "('p, 'm) ManagedDpu"
    using that set_vfs_pinv by (auto simp: apply_vf_count_def split: if_splits prod.splits sum.splits option.splits)
  have "pinv (md_Plugin md)" if "(n, md) \<in> set (map (apply_vf_count ops k s) (managedDpus d))" for n md
  proof -
    from that obtain i a where "(i, a) \<in> set (managedDpus d)" "apply_vf_count ops k s (i, a) = (n, md)" by auto
    moreover from this assms have "pinv (md_Plugin a)" by (auto simp: plugins_ok_def intro: map_of_is_SomeI)
    ultimately show ?thesis using keep by blast
  qed
  then show ?thesis
    using assms fst_eq by (auto simp: plugins_ok_def applyDesiredVfCounts_def simp del: map_map dest: map_of_SomeD)
qed

lemma plugins_ok_tick:
  assumes "plugins_ok pinv held d" "\<And>ds x. detected = Inr ds \<Longrightarrow> x \<in> set ds \<Longrightarrow> pinv (snd x)"
  shows "plugins_ok pinv held (fst (snd (serve_tick ops env k now detected d s)))"
proof (cases detected)
  case (Inr ds)
  let ?d1 = "updateManagedDpus ops ds d"
  have d1: "plugins_ok pinv held ?d1" using assms Inr by (intro plugins_ok_update) auto
  obtain err mds ms where c: "create_managers env (managedDpus ?d1) = (err, mds, ms)" by (metis prod_cases3)
  let ?d2 = "?d1\<lparr>managedDpus := mds, dmn_managers := dmn_managers ?d1 @ ms\<rparr>"
  have d2: "plugins_ok pinv held ?d2"
    using d1 create_managers_plugins [OF c] plugins_ok_cong [of ?d2 ?d1] by simp
  have d3: "plugins_ok pinv held (?d2\<lparr>managedDpus := mds3\<rparr>)" if "set_conditions ops env now mds = Inr mds3" for mds3
    using d2 set_conditions_plugins [OF that] plugins_ok_cong [of "?d2\<lparr>managedDpus := mds3\<rparr>" ?d2] by simp
  show ?thesis
    using d2 d3 plugins_ok_apply
    by (auto simp: serve_tick_def Inr c Let_def split: option.splits sum.splits prod.splits)
qed (use assms in \<open>simp add: serve_tick_def\<close>)

end

text \<open>The plugin of the daemon: \<open>GrpcPlugin\<close>, with the environment its calls meet.\<close>

definition grpc_ops :: "'v vsp_env \<Rightarrow> ('s, 'v) gstate vsp_ops" where
  "grpc_ops env = \<lparr>p_IsInitialized = (\<lambda>p. IsInitialized (fst p)), p_SetNumVfs = GrpcPlugin_SetNumVfs env,
     p_Close = GrpcPlugin_Close\<rparr>"

interpretation grpc: daemon_plugin "grpc_ops env" "conn_ok {}" "\<lambda>p. open_conns (snd p) \<noteq> []" for env :: "'v vsp_env"
proof
  show "\<not> open_conns (snd (p_Close (grpc_ops env) p)) \<noteq> []" if "conn_ok {} p" for p :: "('s, 'v) gstate"
  proof -
    have "set (open_conns (snd (GrpcPlugin_Close p))) = {}" using conn_ok_Close [OF that] by (simp add: conn_ok_def)
    then show ?thesis by (simp add: grpc_ops_def)
  qed
  show "conn_ok {} p'" if "conn_ok {} p" "p_SetNumVfs (grpc_ops env) n p = (r, p')" for p p' :: "('s, 'v) gstate" and n r
    using conn_ok_gcall [OF that(1), of "(env, CallSetNumVfs n)"] that(2) by (simp add: grpc_ops_def)
qed

section \<open>Properties\<close>

text \<open>
  C9: After a detection that reports distinct names the daemon manages exactly the detected DPUs: a DPU it knew
  keeps its entry (side manager, plugin and applied count included), a new one starts without side manager, and
  for exactly the entries that are gone the side manager is cancelled and the plugin closed.
\<close>

theorem updateManagedDpus_correct:
  assumes "map_ok (managedDpus d)" "distinct (map (\<lambda>x. dpu_Name (fst x)) ds)"
  shows "(\<forall>n. map_get (managedDpus (updateManagedDpus ops ds d)) n =
      (case map_get (managedDpus d) n of
         Some md \<Rightarrow> if n \<in> (\<lambda>x. dpu_Name (fst x)) ` set ds then Some md else None
       | None \<Rightarrow> map_option fresh_managed (List.find (\<lambda>x. dpu_Name (fst x) = n) ds))) \<and>
    (\<exists>new. stopped (updateManagedDpus ops ds d) = stopped d @ new \<and>
       set new = {(md_Manager md, p_Close ops (md_Plugin md)) | n md.
                    map_get (managedDpus d) n = Some md \<and> n \<notin> (\<lambda>x. dpu_Name (fst x)) ` set ds})"
proof -
  have cur: "map_get (currentlyDetected ds) n = List.find (\<lambda>x. dpu_Name (fst x) = n) ds" for n
    using find_rev [OF assms(2)] by (simp add: map_get_currentlyDetected)
  have none: "List.find (\<lambda>x. dpu_Name (fst x) = n) ds = None \<longleftrightarrow> n \<notin> (\<lambda>x. dpu_Name (fst x)) ` set ds" for n
    by (auto simp: find_None_iff image_iff)
  have "map_get (managedDpus (updateManagedDpus ops ds d)) n =
      (case map_get (managedDpus d) n of
         Some md \<Rightarrow> if n \<in> (\<lambda>x. dpu_Name (fst x)) ` set ds then Some md else None
       | None \<Rightarrow> map_option fresh_managed (List.find (\<lambda>x. dpu_Name (fst x) = n) ds))" for n
    using none [of n] unfolding updateManagedDpus_get cur by (cases "List.find (\<lambda>x. dpu_Name (fst x) = n) ds") (auto split: option.splits)
  moreover note updateManagedDpus_stopped [OF assms(1), of ops ds, unfolded cur none]
  ultimately show ?thesis by blast
qed

definition sample_cr :: "string \<Rightarrow> string \<Rightarrow> DataProcessingUnit" where
  "sample_cr name node = \<lparr>dpu_Name = name, dpu_Labels = [(''dpu'', ''enabled'')], dpu_Annotations = [], dpu_Owner = None,
     dpu_Spec = \<lparr>DpuProductName = ''Marvell DPU'', IsDpuSide = False, NodeName = node\<rparr>,
     dpu_Conditions = [initializing 0]\<rparr>"

definition sample_md :: "string \<Rightarrow> 'p \<Rightarrow> ('p, nat) ManagedDpu" where
  "sample_md name p = \<lparr>md_CR = sample_cr name ''n1'', md_Plugin = p, md_Manager = Some 7, md_AppliedVfCount = Some 4\<rparr>"

definition sample_daemon :: "(string \<times> 'p) list \<Rightarrow> ('p, nat) Daemon" where
  "sample_daemon xs = (NewDaemon ''n1'')\<lparr>managedDpus := map (\<lambda>(n, p). (n, sample_md n p)) xs\<rparr>"

definition count_ops :: "nat vsp_ops" where
  "count_ops = \<lparr>p_IsInitialized = (\<lambda>p. 0 < p), p_SetNumVfs = (\<lambda>n p. (Inr n, Suc p)), p_Close = (\<lambda>p. 0)\<rparr>"

theorem updateManagedDpus_correct_witness:
  "let d = sample_daemon [(''a'', 5), (''b'', 2)];
       d' = updateManagedDpus count_ops [(sample_cr ''b'' ''n1'', 9), (sample_cr ''c'' ''n1'', 3)] d
   in map_get (managedDpus d') ''a'' = None \<and> map_get (managedDpus d') ''b'' = Some (sample_md ''b'' 2) \<and>
      map_option md_Plugin (map_get (managedDpus d') ''c'') = Some 3 \<and> (Some 7, 0) \<in> set (stopped d')"
proof -
  let ?d = "sample_daemon [(''a'', 5 :: nat), (''b'', 2)]" and ?ds = "[(sample_cr ''b'' ''n1'', 9 :: nat), (sample_cr ''c'' ''n1'', 3)]"
  have "map_ok (managedDpus ?d)" "distinct (map (\<lambda>x. dpu_Name (fst x)) ?ds)"
    by (simp_all add: sample_daemon_def sample_cr_def)
  note * = updateManagedDpus_correct [OF this, of count_ops]
  have get: "map_get (managedDpus (updateManagedDpus count_ops ?ds ?d)) n =
      (case map_get (managedDpus ?d) n of
         Some md \<Rightarrow> if n \<in> (\<lambda>x. dpu_Name (fst x)) ` set ?ds then Some md else None
       | None \<Rightarrow> map_option fresh_managed (List.find (\<lambda>x. dpu_Name (fst x) = n) ?ds))" for n
    using * by blast
  have "map_get (managedDpus ?d) ''a'' = Some (sample_md ''a'' 5)" by (simp add: sample_daemon_def)
  moreover have "''a'' \<notin> (\<lambda>x. dpu_Name (fst x)) ` set ?ds" by (simp add: sample_cr_def)
  ultimately have mem: "(md_Manager (sample_md ''a'' (5 :: nat)), p_Close count_ops (md_Plugin (sample_md ''a'' 5))) \<in>
      {(md_Manager md, p_Close count_ops (md_Plugin md)) | n md.
         map_get (managedDpus ?d) n = Some md \<and> n \<notin> (\<lambda>x. dpu_Name (fst x)) ` set ?ds}"
    by blast
  obtain new where "stopped (updateManagedDpus count_ops ?ds ?d) = stopped ?d @ new"
    "set new = {(md_Manager md, p_Close count_ops (md_Plugin md)) | n md.
         map_get (managedDpus ?d) n = Some md \<and> n \<notin> (\<lambda>x. dpu_Name (fst x)) ` set ?ds}"
    using * [THEN conjunct2] by (elim exE conjE) (rule that)
  with mem have "(md_Manager (sample_md ''a'' (5 :: nat)), p_Close count_ops (md_Plugin (sample_md ''a'' 5)))
      \<in> set (stopped (updateManagedDpus count_ops ?ds ?d))"
    by simp
  then have "(Some 7, 0) \<in> set (stopped (updateManagedDpus count_ops ?ds ?d))"
    by (simp add: sample_md_def count_ops_def)
  then show ?thesis by (simp add: Let_def get) (simp add: sample_daemon_def sample_cr_def)
qed

text \<open>The turns of the ticker, each with the environment it meets.\<close>

definition serve_ticks ::
    "('v vsp_env \<times> (('s, 'v) gstate, 'm) side_env \<times> 'k kube \<times> int \<times> (DataProcessingUnit \<times> ('s, 'v) gstate) list result) list \<Rightarrow>
     (('s, 'v) gstate, 'm) Daemon \<times> 'k \<Rightarrow> (('s, 'v) gstate, 'm) Daemon \<times> 'k" where
  "serve_ticks ticks =
     fold (\<lambda>(env, side, k, now, detected) (d, s). snd (serve_tick (grpc_ops env) side k now detected d s)) ticks"


definition idle_side :: "('p, nat) side_env" where
  "idle_side = \<lparr>NewDpuSideManager = (\<lambda>_. Inr 1), NewHostSideManager = (\<lambda>_. Inr 2), CheckPing = (\<lambda>m. m = 2)\<rparr>"

definition store0 :: store where
  "store0 = \<lparr>st_dpus = [(sample_cr ''old'' ''n1''), (sample_cr ''far'' ''n2'')], st_nodes = [(''n1'', [])], st_config = None\<rparr>"

definition connected_plugin :: "(unit, nat) gstate" where
  "connected_plugin = (NewGrpcPlugin False ''id'' ''sock'' (), vsp_world)"

text \<open>Two turns: a DPU is found and connected to apply a count, then it disappears.\<close>

definition found_kube :: "store kube" where
  "found_kube = store_kube\<lparr>k_GetDpu := \<lambda>n s. Inr ((sample_cr n ''n1'')\<lparr>dpu_Annotations :=
     [(DpuConfigVFCountAnnotationPrefix @ ''ns.c'', ''8'')]\<rparr>)\<rparr>"

definition sample_run :: "((unit, nat) gstate, nat) Daemon" where
  "sample_run = fst (serve_ticks
     [(sample_vsp_env Ready, idle_side, found_kube, 0, Inr [(sample_cr ''a'' ''n1'', connected_plugin)]),
      (sample_vsp_env Ready, idle_side, store_kube, 1, Inr [])] (NewDaemon ''n1'', store0))"


text \<open>The two phases of a pass, and the facts both properties below need.\<close>

definition orphans :: "('p, 'm) Daemon \<Rightarrow> DataProcessingUnit list \<Rightarrow> DataProcessingUnit list" where
  "orphans d items = filter (\<lambda>cr. map_get (managedDpus d) (dpu_Name cr) = None)
     (filter (\<lambda>cr. NodeName (dpu_Spec cr) = dmn_nodeName d) items)"

lemma SyncDpuCRs_phases:
  assumes "k_ListDpus k s = Inr items" "SyncDpuCRs k d s = (r, errs, s')"
  shows "\<exists>ch1 e1 s1 ch2 e2. sync_managed k (map (\<lambda>(_, md). md_CR md) (managedDpus d)) s = (ch1, e1, s1) \<and>
    delete_orphans k (orphans d items) s1 = (ch2, e2, s') \<and> r = Inr (ch1 \<or> ch2) \<and> errs = e1 @ e2"
  using assms by (auto simp: SyncDpuCRs_def orphans_def Let_def split: prod.splits)

lemma daemon_inv_crs:
  assumes "daemon_inv d"
  defines "crs \<equiv> map (\<lambda>(_, md). md_CR md) (managedDpus d)"
  shows "distinct (map dpu_Name crs)" "\<forall>cr \<in> set crs. map_ok (dpu_Labels cr)"
    "n \<in> dpu_Name ` set crs \<longleftrightarrow> map_get (managedDpus d) n \<noteq> None"
proof -
  have names: "map dpu_Name crs = map fst (managedDpus d)"
    unfolding crs_def by (rule daemon_inv_names [OF assms(1)])
  show "distinct (map dpu_Name crs)" unfolding names using assms(1) by (simp add: daemon_inv_def)
  show "\<forall>cr \<in> set crs. map_ok (dpu_Labels cr)"
    using daemon_inv_mem [OF assms(1)] by (auto simp: crs_def cr_ok_def)
  show "n \<in> dpu_Name ` set crs \<longleftrightarrow> map_get (managedDpus d) n \<noteq> None"
    using names by (metis list.set_map map_of_eq_None_iff)
qed

lemma SyncDpuCRs_gone:
  assumes "kube_ok k view" "daemon_inv d" "SyncDpuCRs k d s = (Inr changed, [], s')"
    and "view s' n = Some c" "NodeName (dpu_Spec c) = dmn_nodeName d"
  shows "map_get (managedDpus d) n \<noteq> None"
proof
  assume none: "map_get (managedDpus d) n = None"
  obtain items where items: "k_ListDpus k s = Inr items"
    using assms(3) by (auto simp: SyncDpuCRs_def split: sum.splits)
  obtain ch1 s1 ch2 where p: "sync_managed k (map (\<lambda>(_, md). md_CR md) (managedDpus d)) s = (ch1, [], s1)"
    "delete_orphans k (orphans d items) s1 = (ch2, [], s')"
    using SyncDpuCRs_phases [OF items assms(3)] by auto
  note sync = sync_managed_correct [OF assms(1) daemon_inv_crs(1,2) [OF assms(2)] p(1)]
    and del = delete_orphans_correct [OF assms(1) p(2)]
  have "n \<notin> dpu_Name ` set (orphans d items)" using del assms(4) by auto
  moreover from this have "view s n = Some c"
    using del sync none daemon_inv_crs(3) [OF assms(2), of n] assms(4) by simp
  then have "c \<in> set items" "dpu_Name c = n"
    using kube_list(1) [OF assms(1) items] kube_named [OF assms(1)] by auto
  ultimately show False using none assms(5) by (auto simp: orphans_def)
qed

text \<open>
  C6: A pass of \<open>SyncDpuCRs\<close> in which no call fails leaves the resources of the node exactly as the managed DPUs
  ask: every managed DPU has a resource with its specification and all its labels, with the right Ready condition
  if the resource was there before the pass; the node has no other resource; and \<open>false\<close> is returned only when
  all this was already so and nothing was written.
\<close>

theorem SyncDpuCRs_in_sync:
  assumes "kube_ok k view" "daemon_inv d" "SyncDpuCRs k d s = (Inr changed, [], s')"
  shows "(\<forall>n md. map_get (managedDpus d) n = Some md \<longrightarrow>
            (\<exists>c. view s' n = Some c \<and> shows_spec (md_CR md) c \<and> (view s n \<noteq> None \<longrightarrow> shows_ready (md_CR md) c))) \<and>
    (\<forall>n c. view s' n = Some c \<and> NodeName (dpu_Spec c) = dmn_nodeName d \<longrightarrow> map_get (managedDpus d) n \<noteq> None) \<and>
    (\<not> changed \<longrightarrow> s' = s \<and> (\<forall>n. map_get (managedDpus d) n \<noteq> None \<longrightarrow> view s n \<noteq> None))"
proof -
  let ?crs = "map (\<lambda>(_, md). md_CR md) (managedDpus d)"
  obtain items where items: "k_ListDpus k s = Inr items"
    using assms(3) by (auto simp: SyncDpuCRs_def split: sum.splits)
  obtain ch1 s1 ch2 where p: "sync_managed k ?crs s = (ch1, [], s1)"
    "delete_orphans k (orphans d items) s1 = (ch2, [], s')" "changed = (ch1 \<or> ch2)"
    using SyncDpuCRs_phases [OF items assms(3)] by auto
  note sync = sync_managed_correct [OF assms(1) daemon_inv_crs(1,2) [OF assms(2)] p(1)]
    and del = delete_orphans_correct [OF assms(1) p(2)]
  have keep: "view s' n = view s1 n" if "map_get (managedDpus d) n \<noteq> None" for n
  proof -
    have "n \<notin> dpu_Name ` set (orphans d items)" using that by (auto simp: orphans_def)
    with del show ?thesis by blast
  qed
  have "\<exists>c. view s' n = Some c \<and> shows_spec (md_CR md) c \<and> (view s n \<noteq> None \<longrightarrow> shows_ready (md_CR md) c)"
    if "map_get (managedDpus d) n = Some md" for n md
  proof -
    have "md_CR md \<in> set ?crs" "dpu_Name (md_CR md) = n"
      using that assms(2) map_of_SomeD [OF that] by (force simp: daemon_inv_def)+
    then show ?thesis using sync keep [of n] that by auto
  qed
  moreover have "s' = s \<and> (\<forall>n. map_get (managedDpus d) n \<noteq> None \<longrightarrow> view s n \<noteq> None)" if "\<not> changed"
  proof -
    have same: "s1 = s" "s' = s1" "\<forall>cr \<in> set ?crs. view s (dpu_Name cr) \<noteq> None" using that p(3) sync del by simp_all
    have "view s n \<noteq> None" if dom: "map_get (managedDpus d) n \<noteq> None" for n
    proof -
      obtain cr where "cr \<in> set ?crs" "n = dpu_Name cr" using dom daemon_inv_crs(3) [OF assms(2), of n] by blast
      with same(3) show ?thesis by blast
    qed
    with same show ?thesis by blast
  qed
  ultimately show ?thesis using SyncDpuCRs_gone [OF assms(1-3)] by blast
qed

theorem SyncDpuCRs_in_sync_witness:
  "\<exists>s'. SyncDpuCRs store_kube (sample_daemon [(''new'', 0 :: nat)]) store0 = (Inr True, [], s') \<and>
     (\<exists>c. store_view s' ''new'' = Some c \<and> shows_spec (sample_cr ''new'' ''n1'') c) \<and> store_view s' ''old'' = None"
proof -
  let ?d = "sample_daemon [(''new'', 0 :: nat)]"
  let ?r = "SyncDpuCRs store_kube ?d store0"
  have "case ?r of (Inr True, [], s') \<Rightarrow> map dpu_Name (st_dpus s') = [''far'', ''new''] | _ \<Rightarrow> False" by code_simp
  then obtain s' where r: "?r = (Inr True, [], s')" and "map dpu_Name (st_dpus s') = [''far'', ''new'']"
    by (auto split: prod.splits sum.splits bool.splits list.splits)
  then have "store_view s' ''old'' = None" by (auto simp: store_view_def find_None_iff map_eq_Cons_conv)
  moreover have inv: "daemon_inv ?d"
    by (auto simp: daemon_inv_def sample_daemon_def sample_md_def NewDaemon_def sample_cr_def cr_ok_def split: if_splits)
  moreover have "map_get (managedDpus ?d) ''new'' = Some (sample_md ''new'' 0)" by (simp add: sample_daemon_def)
  then have "\<exists>c. store_view s' ''new'' = Some c \<and> shows_spec (md_CR (sample_md ''new'' (0 :: nat))) c"
    using SyncDpuCRs_in_sync [OF store_kube_ok inv r, THEN conjunct1, rule_format] by blast
  ultimately show ?thesis using r by (simp add: sample_md_def)
qed



lemma sync_managed_rejected:
  assumes "kube_ok k view"
    and "\<forall>cr \<in> set crs. \<exists>e. k_GetDpu k (dpu_Name cr) s = Inl e \<and> k_IsNotFound k e"
    and "\<forall>cr \<in> set crs. \<forall>c. dpu_Name c = dpu_Name cr \<longrightarrow> (\<exists>e. k_CreateDpu k c s = (Inl e, s))"
  shows "\<exists>errs. sync_managed k crs s = (False, errs, s)"
  using assms(2,3)
proof (induction crs)
  case (Cons cr crs)
  obtain e where get: "k_GetDpu k (dpu_Name cr) s = Inl e" "k_IsNotFound k e" using Cons.prems(1) by auto
  have "\<exists>err. create_dpu_cr k cr s = (Inl err, s)"
  proof (cases "setOwnerReference k cr s")
    case (Inr owned)
    then have "dpu_Name owned = dpu_Name cr"
      by (auto simp: setOwnerReference_def split: sum.splits dest!: kube_owner [OF assms(1)])
    then obtain e' where "k_CreateDpu k owned s = (Inl e', s)" using Cons.prems(2) by auto
    with Inr show ?thesis by (simp add: create_dpu_cr_def)
  qed (simp add: create_dpu_cr_def)
  then have "\<exists>err. syncSingleDpuCR k cr s = (Inl err, s)" using get by (simp add: syncSingleDpuCR_def)
  with Cons show ?case by auto
qed simp

lemma managed_names:
  assumes "managedDpus d = []" "same_entries (managedDpus (updateManagedDpus ops ds d)) mds" "(i, md) \<in> set mds"
  shows "\<exists>x \<in> set ds. dpu_Name (md_CR md) = dpu_Name (fst x)"
proof -
  obtain a cs where a: "(i, a) \<in> set (managedDpus (updateManagedDpus ops ds d))"
    "md_CR md = (md_CR a)\<lparr>dpu_Conditions := cs\<rparr>"
    using assms(2,3) unfolding same_entries_def by (induction rule: list_all2_induct) auto
  have "map_ok (managedDpus (updateManagedDpus ops ds d))" using assms(1) by (intro updateManagedDpus_ok) simp
  then have "map_get (managedDpus (updateManagedDpus ops ds d)) i = Some a" using a(1) by simp
  then obtain x where "List.find (\<lambda>x. dpu_Name (fst x) = i) (rev ds) = Some x" "a = fresh_managed x"
    using assms(1) by (auto simp: updateManagedDpus_get map_get_currentlyDetected split: option.splits)
  with a(2) show ?thesis by (auto dest!: find_SomeD)
qed

text \<open>
  An API server that rejects the resources of the detected DPUs does not keep the daemon from reporting
  itself ready: the errors are logged, the pass counts as without changes, and a turn of the loop that ends
  normally marks the daemon ready although the server holds no resource of any of the DPUs.
\<close>

theorem ready_although_rejected:
  assumes k: "kube_ok k view" and d: "managedDpus d = []"
    and items: "k_ListDpus k s = Inr items" "\<forall>c \<in> set items. NodeName (dpu_Spec c) \<noteq> dmn_nodeName d"
    and absent: "\<forall>x \<in> set ds. \<exists>e. k_GetDpu k (dpu_Name (fst x)) s = Inl e \<and> k_IsNotFound k e"
    and rejected: "\<forall>x \<in> set ds. \<forall>c. dpu_Name c = dpu_Name (fst x) \<longrightarrow> (\<exists>e. k_CreateDpu k c s = (Inl e, s))"
    and run: "serve_tick ops env k now (Inr ds) d s = (None, d', s')"
  shows "isReady d' \<and> (\<forall>x \<in> set ds. view s' (dpu_Name (fst x)) = None)"
proof -
  let ?d1 = "updateManagedDpus ops ds d"
  obtain err mds ms where c: "create_managers env (managedDpus ?d1) = (err, mds, ms)" by (metis prod_cases3)
  have "err = None" using run by (auto simp: serve_tick_def c Let_def split: option.splits)
  note c = c [unfolded this]
  note mds = create_managers_entries [OF c]
  obtain mds3 where mds3: "set_conditions ops env now mds = Inr mds3" "same_entries mds mds3"
    using set_conditions_entries [of mds ops env now] mds by blast
  let ?d3 = "?d1\<lparr>dmn_managers := dmn_managers ?d1 @ ms, managedDpus := mds3\<rparr>"
  have "same_entries (managedDpus ?d1) mds3" using mds mds3(2) same_entries_trans by blast
  then have names: "\<exists>x \<in> set ds. dpu_Name cr = dpu_Name (fst x)" if "cr \<in> set (map (\<lambda>(_, md). md_CR md) mds3)" for cr
    using that managed_names [OF d] by fastforce
  then obtain errs where sync: "sync_managed k (map (\<lambda>(_, md). md_CR md) mds3) s = (False, errs, s)"
    using sync_managed_rejected [OF k, of "map (\<lambda>(_, md). md_CR md) mds3" s] absent rejected by metis
  have "filter (\<lambda>cr. NodeName (dpu_Spec cr) = dmn_nodeName d) items = []" using items(2) by (simp add: filter_empty_conv)
  then have "SyncDpuCRs k ?d3 s = (Inr False, errs, s)" by (simp add: SyncDpuCRs_def items(1) sync Let_def)
  then have "serve_tick ops env k now (Inr ds) d s =
      (case updateNodeLabels k ?d3 s of
         (Some e, s2) \<Rightarrow> (Some e, ?d3, s2)
       | (None, s2) \<Rightarrow> (None, markReady (applyDesiredVfCounts ops k s2 ?d3), s2))"
    by (cases "updateNodeLabels k ?d3 s"; cases "fst (updateNodeLabels k ?d3 s)")
      (simp_all add: serve_tick_def c mds3(1) Let_def)
  then obtain s2 where lab: "updateNodeLabels k ?d3 s = (None, s2)" and
    d': "d' = markReady (applyDesiredVfCounts ops k s2 ?d3)" "s' = s2"
    using run by (cases "updateNodeLabels k ?d3 s"; cases "fst (updateNodeLabels k ?d3 s)") simp_all
  have "view s' = view s" using updateNodeLabels_correct [OF k lab] d'(2) by simp
  moreover have "view s (dpu_Name (fst x)) = None" if "x \<in> set ds" for x
    using absent that kube_get(2) [OF k] by blast
  ultimately show ?thesis using d'(1) by (simp add: markReady_def)
qed

theorem ready_although_rejected_witness:
  "let bad = (sample_cr ''nvidia-bf-BlueField SoC-n1-dpu'' ''n1'', 0 :: nat);
       s = store0\<lparr>st_dpus := []\<rparr>;
       (err, d', s') = serve_tick count_ops idle_side store_kube 0 (Inr [bad]) (NewDaemon ''n1'') s
   in err = None \<and> isReady d' \<and> store_view s' ''nvidia-bf-BlueField SoC-n1-dpu'' = None"
proof -
  let ?n = "''nvidia-bf-BlueField SoC-n1-dpu''" and ?s = "store0\<lparr>st_dpus := []\<rparr>"
  let ?t = "serve_tick count_ops idle_side store_kube 0 (Inr [(sample_cr ?n ''n1'', 0 :: nat)]) (NewDaemon ''n1'') ?s"
  obtain err d' s' where t: "?t = (err, d', s')" by (metis prod_cases3)
  have "fst ?t = None" by code_simp
  with t have t': "?t = (None, d', s')" by simp
  have bad: "\<not> IsDNS1123Subdomain ?n" by code_simp
  have "isReady d' \<and> (\<forall>x \<in> set [(sample_cr ?n ''n1'', 0 :: nat)]. store_view s' (dpu_Name (fst x)) = None)"
  proof (rule ready_although_rejected [OF store_kube_ok _ _ _ _ _ t'])
    show "k_ListDpus store_kube ?s = Inr []" by (simp add: store_kube_def)
  qed (use bad in \<open>auto simp: NewDaemon_def store_kube_def store_view_def sample_cr_def valid_dpu_def\<close>)
  with t' show ?thesis by (simp add: Let_def sample_cr_def)
qed

lemma applyDesiredVfCounts_more [simp]:
  "dmn_nodeName (applyDesiredVfCounts ops k s d) = dmn_nodeName d"
  by (simp add: applyDesiredVfCounts_def)

lemma apply_vf_count_manager: "apply_vf_count ops k s (i, a) = (j, b) \<Longrightarrow> md_Manager b = md_Manager a"
  by (auto simp: apply_vf_count_def split: if_splits sum.splits option.splits prod.splits)

lemma markReady_more [simp]:
  "managedDpus (markReady d) = managedDpus d" "dmn_nodeName (markReady d) = dmn_nodeName d"
  by (simp_all add: markReady_def)

lemma daemon_inv_cong: "managedDpus d' = managedDpus d \<Longrightarrow> dmn_nodeName d' = dmn_nodeName d \<Longrightarrow> daemon_inv d' = daemon_inv d"
  by (simp add: daemon_inv_def)

text \<open>The state in which a turn that ends normally applies the counts.\<close>

lemma serve_tick_None:
  assumes "serve_tick ops env k now detected d s = (None, d', s')"
  shows "\<exists>ds mds ms mds3 c errs s1. detected = Inr ds \<and>
    create_managers env (managedDpus (updateManagedDpus ops ds d)) = (None, mds, ms) \<and>
    set_conditions ops env now mds = Inr mds3 \<and>
    (let d3 = (updateManagedDpus ops ds d)\<lparr>dmn_managers := dmn_managers (updateManagedDpus ops ds d) @ ms, managedDpus := mds3\<rparr>
     in SyncDpuCRs k d3 s = (Inr c, errs, s1) \<and> updateNodeLabels k d3 s1 = (None, s') \<and>
        d' = (if \<not> c then markReady (applyDesiredVfCounts ops k s' d3) else applyDesiredVfCounts ops k s' d3))"
proof -
  obtain ds where ds: "detected = Inr ds" using assms by (cases detected) (auto simp: serve_tick_def)
  let ?d1 = "updateManagedDpus ops ds d"
  obtain err mds ms where c: "create_managers env (managedDpus ?d1) = (err, mds, ms)" by (metis prod_cases3)
  have err: "err = None" using assms by (cases err) (auto simp: serve_tick_def ds c Let_def)
  obtain mds3 where m3: "set_conditions ops env now mds = Inr mds3"
    using assms by (cases "set_conditions ops env now mds") (auto simp: serve_tick_def ds c err Let_def)
  let ?d3 = "?d1\<lparr>dmn_managers := dmn_managers ?d1 @ ms, managedDpus := mds3\<rparr>"
  obtain r errs s1 where sy: "SyncDpuCRs k ?d3 s = (r, errs, s1)" by (metis prod_cases3)
  obtain ch where r: "r = Inr ch"
    using assms by (cases r) (auto simp: serve_tick_def ds c err m3 sy Let_def)
  obtain le s2 where lab: "updateNodeLabels k ?d3 s1 = (le, s2)" by fastforce
  have "le = None" "d' = (if \<not> ch then markReady (applyDesiredVfCounts ops k s2 ?d3) else applyDesiredVfCounts ops k s2 ?d3)"
    "s' = s2"
    using assms by (cases le; simp add: serve_tick_def ds c err m3 sy r lab Let_def)+
  with ds c err m3 sy r lab show ?thesis unfolding Let_def by blast
qed

text \<open>
  C8: A turn of the loop that ends normally leaves the daemon in order: it manages exactly the detected DPUs,
  each under the name of its resource and each with a side manager (so that the next ping meets no nil manager),
  and the label of the node says whether it is a DPU or a host, or is gone when there is no DPU.
\<close>

theorem serve_tick_correct:
  assumes k: "kube_ok k view" and inv: "daemon_inv d" and ds: "\<forall>x \<in> set ds. cr_ok (dmn_nodeName d) (fst x)"
    and run: "serve_tick ops env k now (Inr ds) d s = (None, d', s')"
  shows "daemon_inv d' \<and> fst ` set (managedDpus d') = (\<lambda>x. dpu_Name (fst x)) ` set ds \<and>
    (\<forall>(i, md) \<in> set (managedDpus d'). md_Manager md \<noteq> None) \<and>
    (\<exists>ls. k_GetNodeLabels k (dmn_nodeName d) s' = Inr ls \<and>
       map_get ls DpuSideLabelKey =
         (case managedDpus d' of [] \<Rightarrow> None
          | (_, md) # _ \<Rightarrow> Some (if IsDpuSide (dpu_Spec (md_CR md)) then ''dpu'' else ''dpu-host'')))"
proof -
  let ?d1 = "updateManagedDpus ops ds d"
  obtain mds ms mds3 c errs s1 where c: "create_managers env (managedDpus ?d1) = (None, mds, ms)"
    and m3: "set_conditions ops env now mds = Inr mds3"
    and lab: "updateNodeLabels k (?d1\<lparr>dmn_managers := dmn_managers ?d1 @ ms, managedDpus := mds3\<rparr>) s1 = (None, s')"
    and d': "d' = (if \<not> c then markReady (applyDesiredVfCounts ops k s' (?d1\<lparr>dmn_managers := dmn_managers ?d1 @ ms, managedDpus := mds3\<rparr>))
              else applyDesiredVfCounts ops k s' (?d1\<lparr>dmn_managers := dmn_managers ?d1 @ ms, managedDpus := mds3\<rparr>))"
    using serve_tick_None [OF run] by (auto simp: Let_def)
  note e1 = create_managers_entries [OF c]
  obtain mds3' where e2: "set_conditions ops env now mds = Inr mds3'" "same_entries mds mds3'"
    "\<forall>(i, md) \<in> set mds3'. md_Manager md \<noteq> None"
    using set_conditions_entries [of mds ops env now] e1 by fastforce
  have m3': "mds3' = mds3" using e2(1) m3 by simp
  have d'_mds: "managedDpus d' = map (apply_vf_count ops k s') mds3" "dmn_nodeName d' = dmn_nodeName d"
    by (simp_all add: d' applyDesiredVfCounts_def)
  have same: "same_entries (managedDpus ?d1) (managedDpus d')"
    using e1 e2(2) m3' apply_vf_count_entries [of mds3 ops k s'] same_entries_trans unfolding d'_mds by metis
  have "daemon_inv ?d1" using daemon_inv_update [OF inv ds] .
  then have inv': "daemon_inv d'"
    using same_entries_inv(2) [OF _ same] daemon_inv_cong [of d' "?d1\<lparr>managedDpus := managedDpus d'\<rparr>"] d'_mds by simp
  have "fst ` set (managedDpus d') = fst ` set (managedDpus ?d1)"
    using same_entries_fst [OF same] by (metis list.set_map)
  also have "\<dots> = dom (map_get (managedDpus ?d1))" by (simp add: dom_map_of_conv_image_fst)
  also have "\<dots> = (\<lambda>x. dpu_Name (fst x)) ` set ds"
  proof -
    have "map_get (managedDpus ?d1) n \<noteq> None \<longleftrightarrow> n \<in> (\<lambda>x. dpu_Name (fst x)) ` set ds" for n
      by (auto simp: updateManagedDpus_get map_get_currentlyDetected find_None_iff image_iff
          split: option.splits dest!: find_SomeD)
    then show ?thesis by auto
  qed
  finally have names: "fst ` set (managedDpus d') = (\<lambda>x. dpu_Name (fst x)) ` set ds" .
  have mgr: "\<forall>(i, md) \<in> set (managedDpus d'). md_Manager md \<noteq> None"
  proof -
    have "md_Manager md \<noteq> None" if md: "(i, md) \<in> set (managedDpus d')" for i md
    proof -
      obtain j a where "(j, a) \<in> set mds3" "apply_vf_count ops k s' (j, a) = (i, md)" using md unfolding d'_mds by auto
      moreover from this e2(3) m3' have "md_Manager a \<noteq> None" by blast
      ultimately show ?thesis using apply_vf_count_manager by metis
    qed
    then show ?thesis by blast
  qed
  have "(case managedDpus d' of [] \<Rightarrow> None | (_, md) # _ \<Rightarrow> Some (if IsDpuSide (dpu_Spec (md_CR md)) then ''dpu'' else ''dpu-host'')) =
      (case mds3 of [] \<Rightarrow> None | (_, md) # _ \<Rightarrow> Some (if IsDpuSide (dpu_Spec (md_CR md)) then ''dpu'' else ''dpu-host''))"
    using apply_vf_count_entries [of mds3 ops k s'] unfolding d'_mds
    by (cases mds3) (auto simp: same_entries_def split: prod.splits)
  with updateNodeLabels_correct [OF k lab] inv' names mgr show ?thesis by simp
qed

theorem serve_tick_correct_witness:
  "let (err, d', s') = serve_tick count_ops idle_side store_kube 0
         (Inr [(sample_cr ''new'' ''n1'', 0 :: nat)]) (sample_daemon [(''old'', 1)]) store0
   in err = None \<and> fst ` set (managedDpus d') = {''new''} \<and>
      (\<exists>ls. k_GetNodeLabels store_kube ''n1'' s' = Inr ls \<and> map_get ls DpuSideLabelKey = Some ''dpu-host'')"
proof -
  let ?ds = "[(sample_cr ''new'' ''n1'', 0 :: nat)]" and ?d = "sample_daemon [(''old'', 1 :: nat)]"
  let ?t = "serve_tick count_ops idle_side store_kube 0 (Inr ?ds) ?d store0"
  obtain err d' s' where t: "?t = (err, d', s')" by (metis prod_cases3)
  have ev: "fst ?t = None" "map (\<lambda>(_, md). IsDpuSide (dpu_Spec (md_CR md))) (managedDpus (fst (snd ?t))) = [False]"
    by code_simp+
  then have t': "?t = (None, d', s')" and one: "map (\<lambda>(_, md). IsDpuSide (dpu_Spec (md_CR md))) (managedDpus d') = [False]"
    using t by simp_all
  have "daemon_inv ?d" "\<forall>x \<in> set ?ds. cr_ok (dmn_nodeName ?d) (fst x)" "dmn_nodeName ?d = ''n1''"
    by (auto simp: daemon_inv_def sample_daemon_def sample_md_def NewDaemon_def sample_cr_def cr_ok_def split: if_splits)
  from serve_tick_correct [OF store_kube_ok this(1,2) t'] this(3) one t' show ?thesis
    by (cases "managedDpus d'") (auto simp: sample_cr_def)
qed

text \<open>
  C13: The number of virtual functions asked for does not depend on the order of the annotations: there is none
  exactly when no annotation has the prefix, and it is \<open>v\<close> exactly when every such annotation is a positive
  decimal number and all are \<open>v\<close> as 32-bit integers; everything else is an error, so that a conflict is never
  resolved silently. Values up to \<open>2147483647\<close> are taken exactly.
\<close>

theorem desiredVfCount_correct:
  "(desiredVfCountFromAnnotations ann = Inr None \<longleftrightarrow> vf_requests ann = []) \<and>
   (desiredVfCountFromAnnotations ann = Inr (Some v) \<longleftrightarrow>
      list_all (\<lambda>(_, value). vf_valid value) (vf_requests ann) \<and>
      (\<lambda>(_, value). vf_word value) ` set (vf_requests ann) = {v}) \<and>
   (\<forall>n. atoi value = Some n \<and> 0 < n \<and> n \<le> 2147483647 \<longrightarrow> 0 < sint (vf_word value) \<and> sint (vf_word value) = n)"
proof (intro conjI allI impI; (elim conjE)?)
  fix n assume n: "atoi value = Some n" "0 < n" "n \<le> 2147483647"
  then have "sint (word_of_int n :: 32 word) = n"
    unfolding sint_sbintrunc' by (intro signed_take_bit_int_eq_self) simp_all
  with n show "0 < sint (vf_word value)" "sint (vf_word value) = n" by (simp_all add: vf_word_def)
qed (simp_all add: desiredVf_None desiredVf_Some)

theorem desiredVfCount_correct_witness:
  "desiredVfCountFromAnnotations [(''other'', ''x''), (DpuConfigVFCountAnnotationPrefix @ ''a.b'', ''8''),
     (DpuConfigVFCountAnnotationPrefix @ ''c.d'', ''08'')] = Inr (Some 8) \<and> sint (vf_word ''8'') = 8"
proof -
  have atoi: "atoi ''8'' = Some 8" by code_simp
  have "sint (vf_word ''8'') = 8"
    using desiredVfCount_correct [of "[]" 0 "''8''", THEN conjunct2, THEN conjunct2, rule_format, of 8] atoi by simp
  moreover have "desiredVfCountFromAnnotations [(''other'', ''x''), (DpuConfigVFCountAnnotationPrefix @ ''a.b'', ''8''),
     (DpuConfigVFCountAnnotationPrefix @ ''c.d'', ''08'')] = Inr (Some 8)"
    by code_simp
  ultimately show ?thesis by blast
qed

text \<open>
  The check that a count is positive does not protect the plugin: the value is truncated to 32 bits after
  the check, so every 32-bit number, zero and negative ones included, is applied for some annotation that passes.
\<close>

theorem vf_count_truncated:
  "\<exists>value n. atoi value = Some n \<and> 0 < n \<and>
     desiredVfCountFromAnnotations [(DpuConfigVFCountAnnotationPrefix @ name, value)] = Inr (Some v)"
proof -
  let ?n = "uint v + 4294967296"
  have "int64_range ?n" using uint_lt2p [of v] by simp
  then have atoi: "atoi (itoa ?n) = Some ?n" by (rule atoi_itoa)
  have "0 < ?n" using uint_ge_0 [of v] by linarith
  moreover have "(word_of_int ?n :: 32 word) = v" by (simp add: word_of_int_eq_iff)
  ultimately show ?thesis
    using atoi by (intro exI [of _ "itoa ?n"] exI [of _ ?n])
      (auto simp: desiredVf_Some vf_requests_def vf_valid_def vf_word_def)
qed

end
