(* ===== verification/Dpu_Config.thy ===== *)
theory Dpu_Config
  imports Daemon_Props
begin

text \<open>
  The controller of \<open>DataProcessingUnitConfig\<close> (\<open>internal/controller/dataprocessingunitconfig_controller.go\<close>):
  it marks the DPUs that a configuration selects, and writes the number of virtual functions asked for as an
  annotation that the daemon of the node reads. The lemmas follow one configuration from the controller to the
  daemon.
\<close>

section \<open>Annotation keys\<close>

definition annotationKey :: "DataProcessingUnitConfig \<Rightarrow> string" where
  "annotationKey cfg = sprintf ''dpu.config.openshift.io/config-%s.%s'' [cfg_Namespace cfg, cfg_Name cfg]"

definition vfKey :: "DataProcessingUnitConfig \<Rightarrow> string" where
  "vfKey cfg = sprintf ''%s%s.%s'' [DpuConfigVFCountAnnotationPrefix, cfg_Namespace cfg, cfg_Name cfg]"

definition legacyAnnotationKey :: "DataProcessingUnitConfig \<Rightarrow> string" where
  "legacyAnnotationKey cfg = sprintf ''dpu.config.openshift.io/config-%s'' [cfg_Name cfg]"

definition legacyVfKey :: "DataProcessingUnitConfig \<Rightarrow> string" where
  "legacyVfKey cfg = DpuConfigVFCountAnnotationPrefix @ cfg_Name cfg"

section \<open>One DPU\<close>

text \<open>The state of the loop body: the annotations and whether they changed.\<close>

type_synonym ann_state = "(string, string) gomap \<times> bool"

definition ensure_ann :: "string \<Rightarrow> string \<Rightarrow> ann_state \<Rightarrow> ann_state" where
  "ensure_ann key v st = (if label_of (fst st) key \<noteq> v then (map_put key v (fst st), True) else st)"

definition drop_ann :: "string \<Rightarrow> ann_state \<Rightarrow> ann_state" where
  "drop_ann key st = (if map_get (fst st) key \<noteq> None then (map_del key (fst st), True) else st)"

definition annotate_matching :: "DataProcessingUnitConfig \<Rightarrow> ann_state \<Rightarrow> ann_state" where
  "annotate_matching cfg st =
     (let st1 = ensure_ann (annotationKey cfg) ''true'' st;
          st2 = drop_ann (legacyAnnotationKey cfg) st1
      in case cfg_VfCount cfg of
           Some n \<Rightarrow>
             let st3 = ensure_ann (vfKey cfg) (itoa (sint n)) st2
             in drop_ann (legacyVfKey cfg) st3
         | None \<Rightarrow>
             if map_get (fst st2) (vfKey cfg) \<noteq> None then drop_ann (vfKey cfg) st2
             else drop_ann (legacyVfKey cfg) st2)"

definition annotate_other :: "DataProcessingUnitConfig \<Rightarrow> ann_state \<Rightarrow> ann_state" where
  "annotate_other cfg st =
     drop_ann (legacyVfKey cfg) (drop_ann (vfKey cfg)
       (drop_ann (legacyAnnotationKey cfg) (drop_ann (annotationKey cfg) st)))"

definition annotate_dpu ::
    "DataProcessingUnitConfig \<Rightarrow> ((string, string) gomap \<Rightarrow> bool) \<Rightarrow> DataProcessingUnit \<Rightarrow> DataProcessingUnit \<times> bool" where
  "annotate_dpu cfg sel dpu =
     (let (ann, changed) = (if sel (dpu_Labels dpu) then annotate_matching cfg (dpu_Annotations dpu, False)
                            else annotate_other cfg (dpu_Annotations dpu, False))
      in (dpu\<lparr>dpu_Annotations := ann\<rparr>, changed))"

section \<open>Reconcile\<close>

text \<open>The loop over the DPUs: the names that matched, or the first error.\<close>

fun annotate_dpus ::
    "'s kube \<Rightarrow> DataProcessingUnitConfig \<Rightarrow> ((string, string) gomap \<Rightarrow> bool) \<Rightarrow> DataProcessingUnit list \<Rightarrow> 's \<Rightarrow>
     string list result \<times> 's" where
  "annotate_dpus k cfg sel [] s = (Inr [], s)"
| "annotate_dpus k cfg sel (dpu # rest) s =
     (let (dpu', changed) = annotate_dpu cfg sel dpu in
      case (if changed then k_UpdateDpu k dpu' s else (None, s)) of
        (Some err, s1) \<Rightarrow> (Inl err, s1)
      | (None, s1) \<Rightarrow>
          (case annotate_dpus k cfg sel rest s1 of
             (Inl err, s2) \<Rightarrow> (Inl err, s2)
           | (Inr names, s2) \<Rightarrow> (Inr (if sel (dpu_Labels dpu) then dpu_Name dpu # names else names), s2)))"

text \<open>\<open>matchedNames\<close> is made with \<open>make\<close>, so it is never nil; \<open>reflect.DeepEqual\<close> tells nil and empty apart.\<close>

definition config_Reconcile :: "'s kube \<Rightarrow> string \<times> string \<Rightarrow> 's \<Rightarrow> go_error option \<times> 's" where
  "config_Reconcile k req s =
     (case k_GetConfig k req s of
        Inl err \<Rightarrow> (if k_IsNotFound k err then None else Some err, s)
      | Inr cfg \<Rightarrow>
          (case (case cfg_DpuSelector cfg of None \<Rightarrow> Inr (\<lambda>_. True) | Some parsed \<Rightarrow> parsed) of
             Inl err \<Rightarrow> (Some err, s)
           | Inr selector \<Rightarrow>
               (case k_ListDpus k s of
                  Inl err \<Rightarrow> (Some err, s)
                | Inr items \<Rightarrow>
                    (case annotate_dpus k cfg selector items s of
                       (Inl err, s1) \<Rightarrow> (Some err, s1)
                     | (Inr matchedNames, s1) \<Rightarrow>
                         if cfg_ObservedGeneration cfg \<noteq> cfg_Generation cfg \<or> cfg_MatchedDPUs cfg \<noteq> Some matchedNames
                         then k_UpdateConfigStatus k
                                (cfg\<lparr>cfg_ObservedGeneration := cfg_Generation cfg, cfg_MatchedDPUs := Some matchedNames\<rparr>) s1
                         else (None, s1)))))"

section \<open>Lemmas\<close>

lemma drop_ann_get [simp]: "map_get (fst (drop_ann key st)) key' = (if key' = key then None else map_get (fst st) key')"
  by (auto simp: drop_ann_def)

lemma ensure_ann_get:
  "v \<noteq> [] \<Longrightarrow> map_get (fst (ensure_ann key v st)) key' = (if key' = key then Some v else map_get (fst st) key')"
  by (auto simp: ensure_ann_def label_of_def split: option.splits)

lemma itoa_not_Nil [simp]: "itoa i \<noteq> []"
  by (simp add: itoa_def)

lemma annotate_matching_get:
  "map_get (fst (annotate_matching cfg st)) key =
     (case cfg_VfCount cfg of
        Some n \<Rightarrow>
          if key = legacyVfKey cfg then None
          else if key = vfKey cfg then Some (itoa (sint n))
          else if key = legacyAnnotationKey cfg then None
          else if key = annotationKey cfg then Some ''true'' else map_get (fst st) key
      | None \<Rightarrow>
          let st2 = drop_ann (legacyAnnotationKey cfg) (ensure_ann (annotationKey cfg) ''true'' st)
          in if map_get (fst st2) (vfKey cfg) \<noteq> None
             then (if key = vfKey cfg then None else map_get (fst st2) key)
             else (if key = legacyVfKey cfg then None else map_get (fst st2) key))"
  by (auto simp: annotate_matching_def Let_def ensure_ann_get split: option.splits)

lemma annotate_other_get:
  "map_get (fst (annotate_other cfg st)) key =
     (if key \<in> {annotationKey cfg, vfKey cfg, legacyAnnotationKey cfg, legacyVfKey cfg} then None
      else map_get (fst st) key)"
  by (auto simp: annotate_other_def)

lemma ann_map_ok [intro]: "map_ok (fst st) \<Longrightarrow> map_ok (fst (ensure_ann key v st))" "map_ok (fst st) \<Longrightarrow> map_ok (fst (drop_ann key st))"
  by (auto simp: ensure_ann_def drop_ann_def)

text \<open>The keys of one configuration: in its own name and, before, in its bare name.\<close>

lemma vfKey_prefix: "vfKey cfg = DpuConfigVFCountAnnotationPrefix @ cfg_Namespace cfg @ ''.'' @ cfg_Name cfg"
  by (simp add: vfKey_def)

lemma annotationKey_eq: "annotationKey cfg = ''dpu.config.openshift.io/config-'' @ cfg_Namespace cfg @ ''.'' @ cfg_Name cfg"
  by (simp add: annotationKey_def)

lemma legacyAnnotationKey_eq: "legacyAnnotationKey cfg = ''dpu.config.openshift.io/config-'' @ cfg_Name cfg"
  by (simp add: legacyAnnotationKey_def)

lemma keys_kind:
  "vfKey cfg ! 24 = CHR ''v''" "legacyVfKey cfg ! 24 = CHR ''v''"
  "annotationKey cfg ! 24 = CHR ''c''" "legacyAnnotationKey cfg ! 24 = CHR ''c''"
  by (simp_all add: vfKey_prefix annotationKey_eq legacyAnnotationKey_eq legacyVfKey_def DpuConfigVFCountAnnotationPrefix_def)

lemma keys_length:
  "length (legacyVfKey cfg) < length (vfKey cfg)" "length (legacyAnnotationKey cfg) < length (annotationKey cfg)"
  by (simp_all add: vfKey_prefix annotationKey_eq legacyAnnotationKey_eq legacyVfKey_def)

lemma keys_distinct:
  "vfKey cfg \<noteq> annotationKey cfg'" "vfKey cfg \<noteq> legacyAnnotationKey cfg'" "legacyVfKey cfg \<noteq> annotationKey cfg'"
  "legacyVfKey cfg \<noteq> legacyAnnotationKey cfg'" "vfKey cfg \<noteq> legacyVfKey cfg" "annotationKey cfg \<noteq> legacyAnnotationKey cfg"
  using keys_kind [of cfg] keys_kind [of cfg'] keys_length [of cfg] 
  by (auto dest: arg_cong [where f = "\<lambda>key. key ! 24"])

text \<open>Annotating a second time changes nothing.\<close>

lemma annotate_matching_fixed:
  assumes "cfg_VfCount cfg = Some n" "label_of a (annotationKey cfg) = ''true''" "map_get a (legacyAnnotationKey cfg) = None"
    "label_of a (vfKey cfg) = itoa (sint n)" "map_get a (legacyVfKey cfg) = None"
  shows "annotate_matching cfg (a, False) = (a, False)"
  using assms by (simp add: annotate_matching_def ensure_ann_def drop_ann_def Let_def)

lemma annotate_matching_stable:
  assumes "cfg_VfCount cfg = Some n"
  shows "annotate_matching cfg (fst (annotate_matching cfg st), False) = (fst (annotate_matching cfg st), False)"
  by (rule annotate_matching_fixed [OF assms])
    (simp_all add: label_of_def annotate_matching_get assms keys_distinct keys_distinct [symmetric])

lemma annotate_other_fixed:
  assumes "\<And>key. key \<in> {annotationKey cfg, vfKey cfg, legacyAnnotationKey cfg, legacyVfKey cfg} \<Longrightarrow> map_get a key = None"
  shows "annotate_other cfg (a, False) = (a, False)"
  using assms by (simp add: annotate_other_def drop_ann_def)

lemma annotate_other_stable: "annotate_other cfg (fst (annotate_other cfg st), False) = (fst (annotate_other cfg st), False)"
  by (rule annotate_other_fixed) (simp add: annotate_other_get)

lemma annotate_dpu_name [simp]:
  "dpu_Name (fst (annotate_dpu cfg sel dpu)) = dpu_Name dpu" "dpu_Labels (fst (annotate_dpu cfg sel dpu)) = dpu_Labels dpu"
  "dpu_Conditions (fst (annotate_dpu cfg sel dpu)) = dpu_Conditions dpu"
  by (simp_all add: annotate_dpu_def split: prod.splits)

lemma annotate_unchanged:
  "\<not> snd (annotate_other cfg (a, False)) \<Longrightarrow> fst (annotate_other cfg (a, False)) = a"
  "\<not> snd (annotate_matching cfg (a, False)) \<Longrightarrow> fst (annotate_matching cfg (a, False)) = a"
proof -
  have drop: "\<not> snd (drop_ann key st) \<Longrightarrow> drop_ann key st = st \<and> \<not> snd st"
    and ensure: "\<not> snd (ensure_ann key v st) \<Longrightarrow> ensure_ann key v st = st \<and> \<not> snd st" for key v and st :: ann_state
    by (auto simp: drop_ann_def ensure_ann_def split: if_splits)
  show "\<not> snd (annotate_other cfg (a, False)) \<Longrightarrow> fst (annotate_other cfg (a, False)) = a"
    unfolding annotate_other_def by (metis drop fst_conv)
  show "\<not> snd (annotate_matching cfg (a, False)) \<Longrightarrow> fst (annotate_matching cfg (a, False)) = a"
    unfolding annotate_matching_def Let_def
    by (cases "cfg_VfCount cfg") (auto split: if_splits dest!: drop ensure)
qed

lemma annotate_dpu_unchanged: "\<not> snd (annotate_dpu cfg sel dpu) \<Longrightarrow> fst (annotate_dpu cfg sel dpu) = dpu"
  using annotate_unchanged [of cfg "dpu_Annotations dpu"] by (auto simp: annotate_dpu_def split: prod.splits if_splits)

lemma annotate_dpus_correct:
  assumes k: "kube_ok k view" and "distinct (map dpu_Name items)" "\<forall>dpu \<in> set items. view s (dpu_Name dpu) = Some dpu"
    and "annotate_dpus k cfg sel items s = (Inr names, s')"
  shows "names = map dpu_Name (filter (\<lambda>dpu. sel (dpu_Labels dpu)) items) \<and>
    (\<forall>dpu \<in> set items. view s' (dpu_Name dpu) = Some (fst (annotate_dpu cfg sel dpu))) \<and>
    (\<forall>n. n \<notin> dpu_Name ` set items \<longrightarrow> view s' n = view s n)"
  using assms(2-)
proof (induction items arbitrary: s names)
  case (Cons dpu items)
  obtain dpu' ch where a: "annotate_dpu cfg sel dpu = (dpu', ch)" by fastforce
  obtain s1 where up: "(if ch then k_UpdateDpu k dpu' s else (None, s)) = (None, s1)"
    using Cons.prems(3) a by (auto split: prod.splits option.splits)
  obtain names1 where rest: "annotate_dpus k cfg sel items s1 = (Inr names1, s')"
    and names: "names = (if sel (dpu_Labels dpu) then dpu_Name dpu # names1 else names1)"
    using Cons.prems(3) a up by (auto split: prod.splits sum.splits)
  have cur: "view s (dpu_Name dpu) = Some dpu" using Cons.prems(2) by simp
  have d': "dpu_Name dpu' = dpu_Name dpu" "dpu_Conditions dpu' = dpu_Conditions dpu"
    using annotate_dpu_name [of cfg sel dpu] a by simp_all
  have step: "only_at (dpu_Name dpu) (view s) (view s1) \<and> view s1 (dpu_Name dpu) = Some dpu'"
  proof (cases ch)
    case True
    with up have u: "k_UpdateDpu k dpu' s = (None, s1)" by simp
    from kube_update [OF k u] d' cur show ?thesis by auto
  next
    case False
    with up a cur annotate_dpu_unchanged [of cfg sel dpu] show ?thesis by auto
  qed
  have "\<forall>d \<in> set items. view s1 (dpu_Name d) = Some d"
    using step Cons.prems(1,2) by (auto simp: only_at_def image_iff)
  from Cons.IH [OF _ this rest] Cons.prems(1) have IH: "names1 = map dpu_Name (filter (\<lambda>dpu. sel (dpu_Labels dpu)) items)"
    "\<forall>dpu \<in> set items. view s' (dpu_Name dpu) = Some (fst (annotate_dpu cfg sel dpu))"
    "\<forall>n. n \<notin> dpu_Name ` set items \<longrightarrow> view s' n = view s1 n" by auto
  have "view s' (dpu_Name dpu) = Some dpu'" using IH(3) Cons.prems(1) step by auto
  moreover have "\<forall>n. n \<notin> dpu_Name ` set (dpu # items) \<longrightarrow> view s' n = view s n"
    using IH(3) step by (auto simp: only_at_def)
  ultimately show ?case using IH names a by auto
qed simp

text \<open>A successful pass of the controller, for a configuration with a valid selector.\<close>

lemma config_Reconcile_correct:
  assumes k: "kube_ok k view" and cfg: "k_GetConfig k req s = Inr cfg"
    and sel: "(case cfg_DpuSelector cfg of None \<Rightarrow> Inr (\<lambda>_. True) | Some parsed \<Rightarrow> parsed) = Inr sel"
    and run: "config_Reconcile k req s = (None, s')"
  shows "\<forall>n. view s' n = map_option (\<lambda>dpu. fst (annotate_dpu cfg sel dpu)) (view s n)"
proof -
  obtain items names s1 where items: "k_ListDpus k s = Inr items"
    and ann: "annotate_dpus k cfg sel items s = (Inr names, s1)" and fin: "view s' = view s1"
  proof -
    have "\<exists>items names s1. k_ListDpus k s = Inr items \<and> annotate_dpus k cfg sel items s = (Inr names, s1) \<and> view s' = view s1"
      using run kube_config [OF k]
      by (auto simp: config_Reconcile_def cfg sel split: sum.splits prod.splits if_splits)
    then show thesis using that by blast
  qed
  have mem: "dpu \<in> set items \<longleftrightarrow> view s (dpu_Name dpu) = Some dpu" for dpu using kube_list(1) [OF k items] .
  have "\<forall>dpu \<in> set items. view s (dpu_Name dpu) = Some dpu" using mem by blast
  note all = annotate_dpus_correct [OF k kube_list(2) [OF k items] this ann]
  have "view s' n = map_option (\<lambda>dpu. fst (annotate_dpu cfg sel dpu)) (view s n)" for n
  proof (cases "view s n")
    case None
    then have "n \<notin> dpu_Name ` set items" using mem by fastforce
    with all fin None show ?thesis by simp
  next
    case (Some dpu)
    then have "dpu_Name dpu = n" "dpu \<in> set items" using kube_named [OF k Some] mem by auto
    with all fin Some show ?thesis by auto
  qed
  then show ?thesis by blast
qed

section \<open>From the controller to the daemon\<close>

lemma annotate_map_ok:
  "map_ok (dpu_Annotations dpu) \<Longrightarrow> map_ok (dpu_Annotations (fst (annotate_dpu cfg sel dpu)))"
  unfolding annotate_dpu_def annotate_matching_def annotate_other_def Let_def
  by (auto split: prod.splits option.splits) (metis ann_map_ok fst_conv)+

lemma vf_requests_mem:
  "map_ok ann \<Longrightarrow> (key, v) \<in> set (vf_requests ann) \<longleftrightarrow> map_get ann key = Some v \<and> prefix DpuConfigVFCountAnnotationPrefix key"
  by (auto simp: vf_requests_def map_of_eq_Some_iff)

text \<open>The DPU carries no request but those of the configuration itself.\<close>

definition own_requests :: "DataProcessingUnitConfig \<Rightarrow> DataProcessingUnit \<Rightarrow> bool" where
  "own_requests cfg dpu \<longleftrightarrow> map_ok (dpu_Annotations dpu) \<and>
     (\<forall>(key, _) \<in> set (vf_requests (dpu_Annotations dpu)). key = vfKey cfg \<or> key = legacyVfKey cfg)"

lemma annotated_requests:
  assumes own: "own_requests cfg dpu" and sel: "sel (dpu_Labels dpu)" and n: "cfg_VfCount cfg = Some n"
  shows "set (vf_requests (dpu_Annotations (fst (annotate_dpu cfg sel dpu)))) = {(vfKey cfg, itoa (sint n))}"
proof -
  let ?a = "dpu_Annotations (fst (annotate_dpu cfg sel dpu))"
  have ok: "map_ok ?a" using own by (auto simp: own_requests_def intro: annotate_map_ok)
  have eq: "?a = fst (annotate_matching cfg (dpu_Annotations dpu, False))"
    using sel by (simp add: annotate_dpu_def split: prod.splits)
  have get: "map_get ?a key =
      (if key = legacyVfKey cfg then None else if key = vfKey cfg then Some (itoa (sint n))
       else if key = legacyAnnotationKey cfg then None
       else if key = annotationKey cfg then Some ''true'' else map_get (dpu_Annotations dpu) key)" for key
    unfolding eq by (simp add: annotate_matching_get n)
  have pre: "prefix DpuConfigVFCountAnnotationPrefix (vfKey cfg)" by (simp add: vfKey_prefix)
  have no: "\<not> prefix DpuConfigVFCountAnnotationPrefix (annotationKey cfg)"
    by (simp add: annotationKey_eq DpuConfigVFCountAnnotationPrefix_def)
  have "(key, v) \<in> set (vf_requests ?a) \<longleftrightarrow> key = vfKey cfg \<and> v = itoa (sint n)" for key v
  proof
    assume "(key, v) \<in> set (vf_requests ?a)"
    then have g: "map_get ?a key = Some v" "prefix DpuConfigVFCountAnnotationPrefix key"
      using vf_requests_mem [OF ok] by blast+
    show "key = vfKey cfg \<and> v = itoa (sint n)"
    proof (rule ccontr)
      assume "\<not> (key = vfKey cfg \<and> v = itoa (sint n))"
      with g no get [of key] have "key \<noteq> vfKey cfg" "key \<noteq> legacyVfKey cfg" "map_get (dpu_Annotations dpu) key = Some v"
        by (auto split: if_splits)
      with g(2) own show False by (auto simp: own_requests_def vf_requests_mem)
    qed
  next
    assume "key = vfKey cfg \<and> v = itoa (sint n)"
    with get [of key] pre keys_distinct(5) [of cfg] show "(key, v) \<in> set (vf_requests ?a)"
      by (simp add: vf_requests_mem [OF ok])
  qed
  then show ?thesis by (intro set_eqI) (auto simp del: set_filter)
qed

lemma atoi_itoa_word: "atoi (itoa (sint (n :: 32 word))) = Some (sint n)"
proof -
  have "- (2 ^ 31) \<le> sint n" "sint n < 2 ^ 31" using sint_ge [of n] sint_lt [of n] by simp_all
  then show ?thesis by (intro atoi_itoa) simp
qed

lemma desired_after_annotate:
  assumes "own_requests cfg dpu" "sel (dpu_Labels dpu)" "cfg_VfCount cfg = Some n" "0 < sint n"
  shows "desiredVfCountFromAnnotations (dpu_Annotations (fst (annotate_dpu cfg sel dpu))) = Inr (Some n)"
  unfolding desiredVf_Some list_all_iff annotated_requests [of cfg dpu sel n, OF assms(1-3)]
  using assms(4) by (simp add: vf_valid_def vf_word_def atoi_itoa_word)


text \<open>A server that does not check the keys of annotations.\<close>

definition lenient_kube :: "store kube" where
  "lenient_kube = store_kube\<lparr>k_UpdateDpu := \<lambda>c s.
     case store_view s (dpu_Name c) of
       None \<Rightarrow> (Some not_found, s)
     | Some old \<Rightarrow> (None, put_dpu (c\<lparr>dpu_Conditions := dpu_Conditions old\<rparr>) s)\<rparr>"

lemma lenient_kube_ok: "kube_ok lenient_kube store_view"
proof -
  have "kube_reads_ok lenient_kube store_view"
    using store_kube_ok by (simp add: kube_ok_def kube_reads_ok_def lenient_kube_def)
  moreover have "kube_writes_ok lenient_kube store_view"
    unfolding kube_writes_ok_def lenient_kube_def store_kube_def
    by (auto simp: only_at_def store_view_put store_view_del split: if_splits option.splits dest: store_view_name)
  ultimately show ?thesis by (simp add: kube_ok_def)
qed

definition sample_cfg :: DataProcessingUnitConfig where
  "sample_cfg = \<lparr>cfg_Namespace = ''ns'', cfg_Name = ''c'', cfg_Generation = 1, cfg_DpuSelector = None,
     cfg_VfCount = Some 8, cfg_ObservedGeneration = 0, cfg_MatchedDPUs = None\<rparr>"


text \<open>
  A pass of the controller is idempotent on the DPUs: annotating a DPU that has been annotated for a
  configuration with a count changes nothing, so the next pass writes no DPU; and a DPU that is no longer selected
  loses every annotation of the configuration, so that the daemon sees no request of it.
\<close>

theorem annotate_dpu_idempotent:
  "(cfg_VfCount cfg \<noteq> None \<or> \<not> sel (dpu_Labels dpu) \<longrightarrow>
      annotate_dpu cfg sel (fst (annotate_dpu cfg sel dpu)) = (fst (annotate_dpu cfg sel dpu), False)) \<and>
   (\<not> sel (dpu_Labels dpu) \<and> own_requests cfg dpu \<longrightarrow>
      desiredVfCountFromAnnotations (dpu_Annotations (fst (annotate_dpu cfg sel dpu))) = Inr None)"
proof (intro conjI impI; (elim conjE)?)
  assume c: "cfg_VfCount cfg \<noteq> None \<or> \<not> sel (dpu_Labels dpu)"
  have stable: "annotate_dpu cfg sel (fst (annotate_dpu cfg sel dpu)) =
      (case (if sel (dpu_Labels dpu) then annotate_matching cfg (dpu_Annotations (fst (annotate_dpu cfg sel dpu)), False)
             else annotate_other cfg (dpu_Annotations (fst (annotate_dpu cfg sel dpu)), False)) of
         (ann, changed) \<Rightarrow> ((fst (annotate_dpu cfg sel dpu))\<lparr>dpu_Annotations := ann\<rparr>, changed))"
    unfolding annotate_dpu_def [of cfg sel "fst (annotate_dpu cfg sel dpu)"] by (simp add: Let_def)
  have ann: "dpu_Annotations (fst (annotate_dpu cfg sel dpu)) =
      fst (if sel (dpu_Labels dpu) then annotate_matching cfg (dpu_Annotations dpu, False)
           else annotate_other cfg (dpu_Annotations dpu, False))"
    by (simp add: annotate_dpu_def split: prod.splits)
  show "annotate_dpu cfg sel (fst (annotate_dpu cfg sel dpu)) = (fst (annotate_dpu cfg sel dpu), False)"
    using c annotate_matching_stable [of cfg _ "(dpu_Annotations dpu, False)"] annotate_other_stable [of cfg "(dpu_Annotations dpu, False)"]
    unfolding stable by (auto simp: ann)
next
  assume "\<not> sel (dpu_Labels dpu)" and own: "own_requests cfg dpu"
  then have ann: "dpu_Annotations (fst (annotate_dpu cfg sel dpu)) = fst (annotate_other cfg (dpu_Annotations dpu, False))"
    by (simp add: annotate_dpu_def split: prod.splits)
  have ok: "map_ok (fst (annotate_other cfg (dpu_Annotations dpu, False)))"
    using own annotate_map_ok [of dpu cfg sel] ann by (simp add: own_requests_def)
  have "(key, v) \<notin> set (vf_requests (fst (annotate_other cfg (dpu_Annotations dpu, False))))" for key v
    using own by (auto simp: vf_requests_mem [OF ok] annotate_other_get own_requests_def vf_requests_mem)
  then show "desiredVfCountFromAnnotations (dpu_Annotations (fst (annotate_dpu cfg sel dpu))) = Inr None"
    unfolding desiredVf_None ann by (cases "vf_requests (fst (annotate_other cfg (dpu_Annotations dpu, False)))") auto
qed

theorem annotate_dpu_idempotent_witness:
  "annotate_dpu sample_cfg (\<lambda>_. True) (fst (annotate_dpu sample_cfg (\<lambda>_. True) (sample_cr ''a'' ''n''))) =
     (fst (annotate_dpu sample_cfg (\<lambda>_. True) (sample_cr ''a'' ''n'')), False) \<and>
   desiredVfCountFromAnnotations (dpu_Annotations (fst (annotate_dpu sample_cfg (\<lambda>_. False)
     ((sample_cr ''a'' ''n'')\<lparr>dpu_Annotations := [(vfKey sample_cfg, ''8'')]\<rparr>)))) = Inr None"
proof -
  have "cfg_VfCount sample_cfg \<noteq> None" by (simp add: sample_cfg_def)
  moreover have "own_requests sample_cfg ((sample_cr ''a'' ''n'')\<lparr>dpu_Annotations := [(vfKey sample_cfg, ''8'')]\<rparr>)"
    by (simp add: own_requests_def vf_requests_def)
  ultimately show ?thesis
    using annotate_dpu_idempotent [of sample_cfg "\<lambda>_. True" "sample_cr ''a'' ''n''"]
      annotate_dpu_idempotent [of sample_cfg "\<lambda>_. False" "(sample_cr ''a'' ''n'')\<lparr>dpu_Annotations := [(vfKey sample_cfg, ''8'')]\<rparr>"]
    by blast
qed

text \<open>The API server rejects an object with an annotation key that is not a qualified name.\<close>

definition checks_keys :: "'s kube \<Rightarrow> bool" where
  "checks_keys k \<longleftrightarrow> (\<forall>c s key v. map_get (dpu_Annotations c) key = Some v \<and> \<not> IsQualifiedName (to_lower key) \<longrightarrow>
     (\<exists>e s'. k_UpdateDpu k c s = (Some e, s')))"

lemma store_checks_keys: "checks_keys store_kube"
  by (auto simp: checks_keys_def store_kube_def valid_dpu_def list_all_iff dest: map_of_SomeD)

text \<open>The key holds two slashes, in any letter case.\<close>

lemma vfKey_not_qualified: "\<not> IsQualifiedName (to_lower (vfKey cfg))"
proof (rule two_slashes_not_qualified)
  have "to_lower DpuConfigVFCountAnnotationPrefix = DpuConfigVFCountAnnotationPrefix" by code_simp
  moreover have "count_list DpuConfigVFCountAnnotationPrefix (CHR ''/'') = 2" by code_simp
  ultimately show "2 \<le> count_list (to_lower (vfKey cfg)) (CHR ''/'')" by (simp add: vfKey_prefix)
qed

lemma annotate_dpus_rejected:
  assumes "checks_keys k"
    and "cfg_VfCount cfg = Some n"
    and "dpu \<in> set items" "sel (dpu_Labels dpu)" "map_get (dpu_Annotations dpu) (vfKey cfg) = None"
  shows "\<exists>err s'. annotate_dpus k cfg sel items s = (Inl err, s')"
  using assms(3)
proof (induction items arbitrary: s)
  case (Cons d items)
  obtain d' ch where a: "annotate_dpu cfg sel d = (d', ch)" by fastforce
  show ?case
  proof (cases "d = dpu")
    case True
    have get: "map_get (dpu_Annotations d') (vfKey cfg) = Some (itoa (sint n))"
      using a True assms(2,4) annotate_matching_get [of cfg "(dpu_Annotations dpu, False)" "vfKey cfg"] keys_distinct(5) [of cfg]
      by (auto simp: annotate_dpu_def split: prod.splits)
    then have "ch" using annotate_dpu_unchanged [of cfg sel d] a True assms(5) by fastforce
    moreover obtain e s' where "k_UpdateDpu k d' s = (Some e, s')" 
      using assms(1) get vfKey_not_qualified unfolding checks_keys_def by blast
    ultimately show ?thesis using a by simp
  next
    case False
    with Cons have "\<exists>err s'. annotate_dpus k cfg sel items s1 = (Inl err, s')" for s1 by simp
    then show ?thesis
      using a by (auto simp: Let_def split: prod.splits option.splits sum.splits) (metis Inl_Inr_False fst_conv)+
  qed
qed simp

text \<open>
  C15: On an API server that rejects annotation keys that are not qualified names, as Kubernetes does, a number of
  virtual functions never reaches a DPU: the key holds two slashes, the update is rejected, and the controller
  ends every pass with an error as soon as a configuration with a count selects a DPU.
\<close>

theorem config_count_always_rejected:
  assumes "checks_keys k"
    and "k_GetConfig k req s = Inr cfg" "cfg_VfCount cfg = Some n"
    and "(case cfg_DpuSelector cfg of None \<Rightarrow> Inr (\<lambda>_. True) | Some parsed \<Rightarrow> parsed) = Inr sel"
    and "k_ListDpus k s = Inr items" "dpu \<in> set items" "sel (dpu_Labels dpu)"
    and "map_get (dpu_Annotations dpu) (vfKey cfg) = None"
  shows "\<exists>err s'. config_Reconcile k req s = (Some err, s')"
proof -
  obtain err s' where "annotate_dpus k cfg sel items s = (Inl err, s')"
    using annotate_dpus_rejected [where sel = sel, OF assms(1,3,6,7,8)] by blast
  then show ?thesis using assms(2,4,5) by (simp add: config_Reconcile_def)
qed

theorem config_count_always_rejected_witness:
  "\<exists>err s'. config_Reconcile store_kube (''ns'', ''c'') (store0\<lparr>st_config := Some sample_cfg\<rparr>) = (Some err, s')"
proof (rule config_count_always_rejected [where dpu = "sample_cr ''old'' ''n1''" and items = "st_dpus store0" and sel = "\<lambda>_. True"
      and cfg = sample_cfg and n = 8])
  show "k_ListDpus store_kube (store0\<lparr>st_config := Some sample_cfg\<rparr>) = Inr (st_dpus store0)"
    by (simp add: store_kube_def store_view_def store0_def sample_cr_def)
qed (simp_all add: store_checks_keys, simp_all add: store_kube_def sample_cfg_def store0_def sample_cr_def)

end
