(* ===== verification/Cni_Types.thy ===== *)
theory Cni_Types
  imports Platform Mac_Address
begin

text \<open>
  The data of the CNI plugin (\<open>dpu-cni/pkgs/cnitypes/cnitypes.go\<close>) and the reading of its
  configuration (\<open>dpu-cni/pkgs/cnihelper/cnihelper.go\<close>). The embedded \<open>types.NetConf\<close> is kept with
  the fields the code uses. What \<open>json.Unmarshal\<close> makes of the bytes on standard input and the check
  of a previous result are parameters. The regular expressions are run by a matcher for sequences of
  character classes. The lemmas show that the normal form of a device identifier is a normal form.
\<close>

section \<open>Data\<close>

text \<open>\<open>DeviceIDType\<close> is a string type; \<open>''''\<close> is the value of a field that was never set.\<close>

definition DeviceIDTypeUnknown :: string where
  "DeviceIDTypeUnknown = ''unknown''"

definition DeviceIDTypePCI :: string where
  "DeviceIDTypePCI = ''pci''"

definition DeviceIDTypeNetdev :: string where
  "DeviceIDTypeNetdev = ''netdev''"

definition DeviceIDTypeAux :: string where
  "DeviceIDTypeAux = ''aux''"

definition Proto8021q :: string where
  "Proto8021q = ''802.1q''"

definition Proto8021ad :: string where
  "Proto8021ad = ''802.1ad''"

definition VlanProtoInt :: "(string, int) gomap" where
  "VlanProtoInt = [(Proto8021q, 33024), (Proto8021ad, 34984)]"

record VfState =
  vs_HostIFName :: string
  vs_SpoofChk :: bool
  vs_Trust :: bool
  vs_AdminMAC :: string
  vs_EffectiveMAC :: string
  vs_Vlan :: int
  vs_VlanQoS :: int
  vs_VlanProto :: int
  vs_MinTxRate :: int
  vs_MaxTxRate :: int
  vs_LinkState :: "32 word"

text \<open>\<open>netlink.VfInfo\<close>, the attributes the code reads.\<close>

record VfInfo =
  vi_ID :: int
  vi_Mac :: HardwareAddr
  vi_Vlan :: int
  vi_Qos :: int
  vi_VlanProto :: int
  vi_Spoofchk :: bool
  vi_Trust :: "32 word"
  vi_LinkState :: "32 word"
  vi_MaxTxRate :: "32 word"
  vi_MinTxRate :: "32 word"

definition FillFromVfInfo :: "VfInfo \<Rightarrow> VfState \<Rightarrow> VfState" where
  "FillFromVfInfo info vs =
     vs\<lparr>vs_AdminMAC := HardwareAddr_String (vi_Mac info),
        vs_LinkState := vi_LinkState info,
        vs_MaxTxRate := uint (vi_MaxTxRate info),
        vs_MinTxRate := uint (vi_MinTxRate info),
        vs_Vlan := vi_Vlan info,
        vs_VlanQoS := vi_Qos info,
        vs_VlanProto := vi_VlanProto info,
        vs_SpoofChk := vi_Spoofchk info,
        vs_Trust := (vi_Trust info \<noteq> 0)\<rparr>"

record NetConf =
  nc_CNIVersion :: string
  nc_Name :: string
  nc_IPAM_Type :: string
  nc_DNS :: string
  nc_RawPrevResult :: bool
  nc_OrigVfState :: VfState
  nc_DPDKMode :: bool
  nc_Master :: string
  nc_MAC :: string
  nc_Vlan :: "int option"
  nc_VlanQoS :: "int option"
  nc_VlanProto :: "string option"
  nc_DeviceID :: string
  nc_DeviceIDType :: string
  nc_VFID :: int
  nc_MinTxRate :: "int option"
  nc_MaxTxRate :: "int option"
  nc_SpoofChk :: string
  nc_Trust :: string
  nc_LinkState :: string
  nc_RuntimeMac :: string

record cni_Request =
  rq_Env :: "(string, string) gomap"
  rq_Config :: string

record PodRequest =
  pr_Command :: string
  pr_PodNamespace :: string
  pr_PodName :: string
  pr_PodUID :: string
  pr_ContainerId :: string
  pr_Netns :: string
  pr_IfName :: string
  pr_Path :: string
  pr_CNIConf :: NetConf
  pr_CNIReq :: cni_Request
  pr_NetName :: string

text \<open>\<open>current.Result\<close>: the interfaces and addresses; routes are carried along.\<close>

record cni_Interface =
  if_Name :: string
  if_Mac :: string
  if_Sandbox :: string

record IPConfig =
  ip_Interface :: "int option"
  ip_Address :: "8 word list"

record cni_Result =
  rs_CNIVersion :: string
  rs_Interfaces :: "cni_Interface list"
  rs_IPs :: "IPConfig list"
  rs_Routes :: "string list"
  rs_DNS :: string

section \<open>Regular expressions\<close>

text \<open>Anchored expressions over character classes: one character, or one and more.\<close>

datatype re_item = One "char \<Rightarrow> bool" | Plus "char \<Rightarrow> bool"

fun re_match :: "re_item list \<Rightarrow> string \<Rightarrow> bool" where
  "re_match [] s = (s = [])"
| "re_match (One P # r) s = (case s of [] \<Rightarrow> False | c # s' \<Rightarrow> P c \<and> re_match r s')"
| "re_match (Plus P # r) [] = False"
| "re_match (Plus P # r) (c # s) = (P c \<and> (re_match r s \<or> re_match (Plus P # r) s))"

definition is_hex_any :: "char \<Rightarrow> bool" where
  "is_hex_any c \<longleftrightarrow> is_lower_hex (lower_char c)"

definition is_octal :: "char \<Rightarrow> bool" where
  "is_octal c \<longleftrightarrow> CHR ''0'' \<le> c \<and> c \<le> CHR ''7''"

definition is_colon_sep :: "char \<Rightarrow> bool" where
  "is_colon_sep c \<longleftrightarrow> c = CHR '':'' \<or> c = CHR ''-''"

definition is_dot_sep :: "char \<Rightarrow> bool" where
  "is_dot_sep c \<longleftrightarrow> c = CHR ''.'' \<or> c = CHR ''-''"

definition shortPciAddressPattern :: "re_item list" where
  "shortPciAddressPattern =
     [One is_hex_any, One is_hex_any, One is_colon_sep, One is_hex_any, One is_hex_any,
      One is_dot_sep, One is_octal]"

definition pciAddressPattern :: "re_item list" where
  "pciAddressPattern =
     [One is_hex_any, One is_hex_any, One is_hex_any, One is_hex_any, One is_colon_sep,
      One is_hex_any, One is_hex_any, One is_colon_sep, One is_hex_any, One is_hex_any,
      One is_dot_sep, One is_octal]"

text \<open>The source writes two backslashes inside a raw string: the expression asks for a backslash and
  then any character but a newline, where a literal dot was meant.\<close>

definition auxDevicePattern :: "re_item list" where
  "auxDevicePattern =
     [Plus (\<lambda>c. c \<noteq> CHR ''.''), One (\<lambda>c. c = CHR 0x5C), One (\<lambda>c. c \<noteq> CHR 0x0A),
      Plus (\<lambda>c. c \<noteq> CHR ''.''), One (\<lambda>c. c = CHR 0x5C), One (\<lambda>c. c \<noteq> CHR 0x0A),
      Plus (\<lambda>c. c \<noteq> CHR ''.'')]"

text \<open>The groups of an address that matched, from its end: function, device, bus.\<close>

definition pci_text :: "string \<Rightarrow> string \<Rightarrow> string \<Rightarrow> string \<Rightarrow> string" where
  "pci_text domain bus dev fn =
     to_lower domain @ '':'' @ to_lower bus @ '':'' @ to_lower dev @ ''.'' @ to_lower fn"

definition NormalizeDeviceID :: "string \<Rightarrow> (string \<times> string) result" where
  "NormalizeDeviceID raw =
     (let trimmed = trim_space raw in
      if trimmed = [] then Inr ([], DeviceIDTypeUnknown)
      else if re_match pciAddressPattern trimmed
      then Inr (pci_text (take 4 trimmed) (take 2 (drop 5 trimmed)) (take 2 (drop 8 trimmed)) (drop 11 trimmed),
                DeviceIDTypePCI)
      else if re_match shortPciAddressPattern trimmed
      then Inr (pci_text ''0000'' (take 2 trimmed) (take 2 (drop 3 trimmed)) (drop 6 trimmed), DeviceIDTypePCI)
      else if contains trimmed '':''
      then Inl (Errorf ''unrecognized PCI address format: %s'' [FStr trimmed])
      else if re_match auxDevicePattern trimmed then Inr (trimmed, DeviceIDTypeAux)
      else Inr (trimmed, DeviceIDTypeNetdev))"

section \<open>Reading the configuration\<close>

text \<open>\<open>json.Unmarshal\<close> and \<open>version.ParsePrevResult\<close> as parameters. \<open>Inr None\<close> is the JSON text
  \<open>null\<close>, which leaves a nil pointer behind.\<close>

record conf_reader =
  cr_Unmarshal :: "string \<Rightarrow> NetConf option result"
  cr_ParsePrevResult :: "NetConf \<Rightarrow> go_error option"

definition nil_conf :: go_error where
  "nil_conf = Panic ''invalid memory address or nil pointer dereference''"

definition parseNetConf :: "conf_reader \<Rightarrow> string \<Rightarrow> NetConf option result" where
  "parseNetConf rd bytes = (case cr_Unmarshal rd bytes of Inl err \<Rightarrow> Inl err | Inr conf \<Rightarrow> Inr conf)"

definition ReadCNIConfig :: "conf_reader \<Rightarrow> string \<Rightarrow> NetConf result" where
  "ReadCNIConfig rd bytes =
     (case parseNetConf rd bytes of
        Inl err \<Rightarrow> Inl err
      | Inr None \<Rightarrow> Inl nil_conf
      | Inr (Some conf) \<Rightarrow>
          (case (if nc_RawPrevResult conf then cr_ParsePrevResult rd conf else None) of
             Some err \<Rightarrow> Inl err
           | None \<Rightarrow>
               if nc_DeviceID conf \<noteq> []
               then (case NormalizeDeviceID (nc_DeviceID conf) of
                       Inl err \<Rightarrow> Inl err
                     | Inr (normalized, deviceType) \<Rightarrow>
                         Inr (conf\<lparr>nc_DeviceID := normalized, nc_DeviceIDType := deviceType\<rparr>))
               else Inr conf))"

text \<open>One item of \<open>os.Environ()\<close>; an item whose equals sign is missing or comes first is dropped.\<close>

definition env_item :: "string \<Rightarrow> (string, string) gomap \<Rightarrow> (string, string) gomap" where
  "env_item item m =
     (case cut item ''='' of
        Some (k, v) \<Rightarrow> if k \<noteq> [] then map_put (trim_space k) v m else m
      | None \<Rightarrow> m)"

definition NewCNIRequest :: "string list \<Rightarrow> string \<Rightarrow> cni_Request" where
  "NewCNIRequest environ stdinData = \<lparr>rq_Env = fold env_item environ [], rq_Config = stdinData\<rparr>"

section \<open>Device identifiers\<close>

lemma dropWhile_idem [simp]: "dropWhile P (dropWhile P xs) = dropWhile P xs"
  by (induction xs) auto

lemma dropWhile_rev_stable:
  "dropWhile P (rev (dropWhile P (rev (dropWhile P s)))) = rev (dropWhile P (rev (dropWhile P s)))"
proof (cases "dropWhile P s")
  case (Cons c cs)
  then have "\<not> P c" by (metis hd_dropWhile list.distinct(1) list.sel(1))
  then have "dropWhile P (rev (c # cs)) = dropWhile P (rev cs) @ [c]" by (simp add: dropWhile_append)
  then show ?thesis using Cons \<open>\<not> P c\<close> by simp
next
  case Nil
  then show ?thesis by (metis dropWhile.simps(1) rev.simps(1))
qed

lemma trim_space_idem [simp]: "trim_space (trim_space s) = trim_space s"
  by (simp add: trim_space_def dropWhile_rev_stable)

lemma trim_space_ends:
  "\<not> is_space (hd s) \<Longrightarrow> \<not> is_space (last s) \<Longrightarrow> s \<noteq> [] \<Longrightarrow> trim_space s = s"
  using dropWhile_eq_self_iff [of is_space s] dropWhile_eq_self_iff [of is_space "rev s"]
  by (simp add: trim_space_def hd_rev)

text \<open>The normal form of a PCI address, in lower case.\<close>

definition canonicalPci :: "re_item list" where
  "canonicalPci =
     [One is_lower_hex, One is_lower_hex, One is_lower_hex, One is_lower_hex, One (\<lambda>c. c = CHR '':''),
      One is_lower_hex, One is_lower_hex, One (\<lambda>c. c = CHR '':''), One is_lower_hex, One is_lower_hex,
      One (\<lambda>c. c = CHR ''.''), One is_octal]"

lemma re_match_One: "re_match (One P # r) s \<longleftrightarrow> (\<exists>c s'. s = c # s' \<and> P c \<and> re_match r s')"
  by (cases s) auto

declare re_match.simps(2) [simp del]

lemmas pci_match = pciAddressPattern_def shortPciAddressPattern_def canonicalPci_def re_match_One

lemma lower_char_hex: "is_lower_hex c \<Longrightarrow> lower_char c = c"
  by (auto simp: is_lower_hex_def lower_char_def less_eq_char_def)

lemma lower_char_octal: "is_octal c \<Longrightarrow> lower_char c = c"
  by (auto simp: is_octal_def lower_char_def less_eq_char_def)

lemma is_hex_any_lower [simp]: "is_lower_hex (lower_char c) \<longleftrightarrow> is_hex_any c" "is_hex_any (lower_char c) \<longleftrightarrow> is_hex_any c"
  by (simp_all add: is_hex_any_def)

lemma lower_hex_any: "is_lower_hex c \<Longrightarrow> is_hex_any c"
  by (simp add: is_hex_any_def lower_char_hex)

lemma hex_not_space: "is_lower_hex c \<Longrightarrow> \<not> is_space c"
  by (auto simp: is_lower_hex_def is_space_def less_eq_char_def)

lemma octal_not_space: "is_octal c \<Longrightarrow> \<not> is_space c"
  by (auto simp: is_octal_def is_space_def less_eq_char_def)

lemma pci_text_canonical:
  "re_match pciAddressPattern s \<Longrightarrow>
   re_match canonicalPci (pci_text (take 4 s) (take 2 (drop 5 s)) (take 2 (drop 8 s)) (drop 11 s))"
  by (auto simp: pci_match pci_text_def to_lower_def lower_char_octal)

lemma pci_text_canonical_short:
  "re_match shortPciAddressPattern s \<Longrightarrow>
   re_match canonicalPci (pci_text ''0000'' (take 2 s) (take 2 (drop 3 s)) (drop 6 s))"
  by (auto simp: pci_match pci_text_def to_lower_def lower_char_octal is_hex_any_def [of "CHR ''0''"]
      is_lower_hex_def [of "CHR ''0''"] lower_char_def [of "CHR ''0''"] less_eq_char_def)

lemma canonical_fixed: "re_match canonicalPci s \<Longrightarrow> NormalizeDeviceID s = Inr (s, DeviceIDTypePCI)"
  by (auto simp: NormalizeDeviceID_def pci_match pci_text_def to_lower_def lower_char_octal lower_char_hex
      lower_hex_any is_colon_sep_def is_dot_sep_def trim_space_ends hex_not_space octal_not_space)

lemma NormalizeDeviceID_trim [simp]: "NormalizeDeviceID (trim_space raw) = NormalizeDeviceID raw"
  by (simp add: NormalizeDeviceID_def)

lemmas device_types = DeviceIDTypeUnknown_def DeviceIDTypePCI_def DeviceIDTypeNetdev_def DeviceIDTypeAux_def

text \<open>Either the result is a canonical address, or it is the trimmed input.\<close>

lemma NormalizeDeviceID_cases:
  assumes "NormalizeDeviceID raw = Inr (i, t)"
  shows "t = DeviceIDTypePCI \<and> re_match canonicalPci i \<or> t \<noteq> DeviceIDTypePCI \<and> i = trim_space raw"
  using assms pci_text_canonical [of "trim_space raw"] pci_text_canonical_short [of "trim_space raw"]
  by (auto simp: NormalizeDeviceID_def Let_def device_types split: if_splits)

text \<open>C34: Normalising a device identifier gives a normal form: normalising the result again changes
  neither the identifier nor its type, and a PCI result is always a full lower-case address, domain
  included, whichever of the accepted spellings it came from.\<close>

theorem NormalizeDeviceID_normal:
  assumes "NormalizeDeviceID raw = Inr (i, t)"
  shows "NormalizeDeviceID i = Inr (i, t) \<and> (t = DeviceIDTypePCI \<longrightarrow> re_match canonicalPci i)"
  using NormalizeDeviceID_cases [OF assms] assms by (auto simp: canonical_fixed)

theorem NormalizeDeviceID_normal_witness:
  "NormalizeDeviceID ''  3b-0A.1 '' = Inr (''0000:3b:0a.1'', DeviceIDTypePCI) \<and>
   NormalizeDeviceID ''0000:3b:0a.1'' = Inr (''0000:3b:0a.1'', DeviceIDTypePCI) \<and>
   re_match canonicalPci ''0000:3b:0a.1''"
proof -
  have "NormalizeDeviceID ''  3b-0A.1 '' = Inr (''0000:3b:0a.1'', DeviceIDTypePCI)" by code_simp
  from this NormalizeDeviceID_normal [OF this] show ?thesis by simp
qed

lemma trim_space_subset: "set (trim_space s) \<subseteq> set s"
proof
  fix c assume "c \<in> set (trim_space s)"
  then have "c \<in> set (dropWhile is_space (rev (dropWhile is_space s)))" by (simp add: trim_space_def)
  from set_dropWhileD [OF this] have "c \<in> set (dropWhile is_space s)" by simp
  from set_dropWhileD [OF this] show "c \<in> set s" .
qed

text \<open>The name of an auxiliary device has no backslash, so it is never recognised as one: it is taken
  for a network device.\<close>

lemma re_match_needs:
  "re_match (r1 @ One (\<lambda>c. c = x) # r2) s \<Longrightarrow> x \<in> set s"
  by (induction "r1 @ One (\<lambda>c. c = x) # r2" s arbitrary: r1 rule: re_match.induct)
    (auto simp: re_match_One Cons_eq_append_conv)

theorem aux_device_is_netdev:
  assumes "CHR 0x5C \<notin> set raw"
  shows "NormalizeDeviceID raw \<noteq> Inr (i, DeviceIDTypeAux)"
proof
  assume aux: "NormalizeDeviceID raw = Inr (i, DeviceIDTypeAux)"
  then have "re_match auxDevicePattern (trim_space raw)"
    by (auto simp: NormalizeDeviceID_def Let_def device_types split: if_splits)
  then have "CHR 0x5C \<in> set (trim_space raw)"
    using re_match_needs [of "[Plus (\<lambda>c. c \<noteq> CHR ''.'')]" "CHR 0x5C"] by (simp add: auxDevicePattern_def)
  then show False using assms trim_space_subset [of raw] by auto
qed

end
