(* ===== verification/Sriov_Config.thy ===== *)
theory Sriov_Config
  imports Cni_Types
begin

text \<open>
  The configuration of a virtual function: the look-ups in sysfs (\<open>dpu-cni/pkgs/sriovutils/sriovutils.go\<close>),
  the allocation files (\<open>pci_allocator.go\<close>) and \<open>LoadConf\<close> with the cache of configurations
  (\<open>dpu-cni/pkgs/sriovconfig/sriovconfig.go\<close>). The state of a host is the state of its kernel, which
  stays abstract, the allocation files and the cached configurations. The operating system is a
  parameter: what sysfs shows in a kernel state, which file operations fail, and which network
  namespaces can be opened. A cached configuration is the value that \<open>json.Unmarshal\<close> gives back for
  what \<open>json.Marshal\<close> wrote. The lemmas show the range of a loaded configuration and the behaviour of
  the allocator as a lock per PCI address.
\<close>

section \<open>Host\<close>

record sysfs = filesys +
  fs_Lstat :: "string \<Rightarrow> entry_type result"
  fs_EvalSymlinks :: "string \<Rightarrow> string result"
  fs_Stat :: "string \<Rightarrow> go_error option"

record NetNS =
  ns_Path :: string
  ns_Fd :: nat

text \<open>A write that breaks off leaves an empty file behind.\<close>

datatype cached = Saved NetConf | Cut

record 'w host =
  kern :: 'w
  alloc_files :: "(string, string) gomap"
  conf_files :: "(string, cached) gomap"

text \<open>\<open>os_Write\<close> gives the error of writing a file and whether the file was already truncated then.\<close>

record 'w os_env =
  os_sysfs :: "'w \<Rightarrow> sysfs"
  os_MkdirAll :: "string \<Rightarrow> go_error option"
  os_Write :: "string \<Rightarrow> (go_error \<times> bool) option"
  os_Remove :: "string \<Rightarrow> go_error option"
  os_Stat :: "string \<Rightarrow> go_error option"
  os_Read :: "string \<Rightarrow> go_error option"
  ns_GetNS :: "string \<Rightarrow> 'w \<Rightarrow> NetNS result"
  ns_PathNotExist :: "go_error \<Rightarrow> bool"

definition no_such_file :: "string \<Rightarrow> string \<Rightarrow> go_error" where
  "no_such_file op path = Errorf ''%s %s: no such file or directory'' [FStr op, FStr path]"

definition atoi_error :: "string \<Rightarrow> go_error" where
  "atoi_error s =
     Errorf (if atoi_value s = None then ''strconv.Atoi: parsing %q: invalid syntax''
             else ''strconv.Atoi: parsing %q: value out of range'') [FStr s]"

section \<open>Look-ups in sysfs (sriovutils.go)\<close>

definition NetDirectory :: string where
  "NetDirectory = ''/sys/class/net''"

definition SysBusPci :: string where
  "SysBusPci = ''/sys/bus/pci/devices''"

definition UserspaceDrivers :: "string list" where
  "UserspaceDrivers = [''vfio-pci'', ''uio_pci_generic'', ''igb_uio'']"

definition GetPciFromNetDev :: "sysfs \<Rightarrow> string \<Rightarrow> string result" where
  "GetPciFromNetDev fs ifName =
     (case fs_EvalSymlinks fs (path_join (path_join NetDirectory ifName) ''device'') of
        Inl err \<Rightarrow> Inl (Errorf ''failed to find PCI address for net device %s: %v'' [FStr ifName, FErr err])
      | Inr pciAddr \<Rightarrow> Inr (path_base pciAddr))"

definition pf_device :: "string \<Rightarrow> string \<Rightarrow> string" where
  "pf_device ifName entry = path_join (path_join (path_join NetDirectory ifName) ''device'') entry"

definition GetSriovNumVfs :: "sysfs \<Rightarrow> string \<Rightarrow> int result" where
  "GetSriovNumVfs fs ifName =
     (let sriovFile = pf_device ifName ''sriov_numvfs'' in
      case fs_Lstat fs sriovFile of
        Inl err \<Rightarrow> Inl (Errorf ''failed to open the sriov_numfs of device %q: %v'' [FStr ifName, FErr err])
      | Inr _ \<Rightarrow>
          (case ReadFile fs sriovFile of
             Inl err \<Rightarrow> Inl (Errorf ''failed to read the sriov_numfs of device %q: %v'' [FStr ifName, FErr err])
           | Inr data \<Rightarrow>
               if data = [] then Inl (Errorf ''no data in the file %q'' [FStr sriovFile])
               else (case atoi (trim_space data) of
                       None \<Rightarrow> Inl (Errorf ''failed to convert sriov_numfs(byte value) to int of device %q: %v''
                                   [FStr ifName, FErr (atoi_error (trim_space data))])
                     | Some vfTotal \<Rightarrow> Inr vfTotal)))"

definition virtfn :: "string \<Rightarrow> int \<Rightarrow> string" where
  "virtfn pfName vf = pf_device pfName (''virtfn'' @ itoa vf)"

text \<open>The loop over the virtual functions of the physical function.\<close>

fun find_vf :: "sysfs \<Rightarrow> string \<Rightarrow> string \<Rightarrow> int list \<Rightarrow> int option" where
  "find_vf fs addr pfName [] = None"
| "find_vf fs addr pfName (vf # rest) =
     (case fs_Lstat fs (virtfn pfName vf) of
        Inl _ \<Rightarrow> find_vf fs addr pfName rest
      | Inr _ \<Rightarrow>
          (case Readlink fs (virtfn pfName vf) of
             Inl _ \<Rightarrow> find_vf fs addr pfName rest
           | Inr pciinfo \<Rightarrow> if path_base pciinfo = addr then Some vf else find_vf fs addr pfName rest))"

definition GetVfid :: "sysfs \<Rightarrow> string \<Rightarrow> string \<Rightarrow> int result" where
  "GetVfid fs addr pfName =
     (case GetSriovNumVfs fs pfName of
        Inl err \<Rightarrow> Inl err
      | Inr vfTotal \<Rightarrow>
          (case find_vf fs addr pfName (map int [0..<nat vfTotal]) of
             Some vf \<Rightarrow> Inr vf
           | None \<Rightarrow> Inl (Errorf ''unable to get VF ID with PF: %s and VF pci address %v'' [FStr pfName, FStr addr])))"

definition GetPfName :: "sysfs \<Rightarrow> string \<Rightarrow> string result" where
  "GetPfName fs vf =
     (let pfSymLink = path_join (path_join (path_join SysBusPci vf) ''physfn'') ''net'' in
      case fs_Lstat fs pfSymLink of
        Inl err \<Rightarrow> Inl err
      | Inr _ \<Rightarrow>
          (case ReadDir fs pfSymLink of
             Inl err \<Rightarrow> Inl err
           | Inr [] \<Rightarrow> Inl (Errorf ''PF network device not found'' [])
           | Inr (f # _) \<Rightarrow> Inr (trim_space (ent_Name f))))"

definition GetPciAddress :: "sysfs \<Rightarrow> string \<Rightarrow> int \<Rightarrow> string result" where
  "GetPciAddress fs ifName vf =
     (case fs_Lstat fs (virtfn ifName vf) of
        Inl err \<Rightarrow> Inl (Errorf ''can't get the symbolic link of virtfn%d dir of the device %q: %v'' [FInt vf, FStr ifName, FErr err])
      | Inr t \<Rightarrow>
          if t \<noteq> SymlinkEntry
          then Inl (Errorf ''no symbolic link for the virtfn%d dir of the device %q'' [FInt vf, FStr ifName])
          else (case Readlink fs (virtfn ifName vf) of
                  Inl err \<Rightarrow> Inl (Errorf ''can't read the symbolic link of virtfn%d dir of the device %q: %v'' [FInt vf, FStr ifName, FErr err])
                | Inr pciinfo \<Rightarrow> Inr (path_base pciinfo)))"

definition GetVFLinkName :: "sysfs \<Rightarrow> string \<Rightarrow> string result" where
  "GetVFLinkName fs pciAddr =
     (let vfDir = path_join (path_join SysBusPci pciAddr) ''net'' in
      case fs_Lstat fs vfDir of
        Inl err \<Rightarrow> Inl err
      | Inr _ \<Rightarrow>
          (case ReadDir fs vfDir of
             Inl err \<Rightarrow> Inl (Errorf ''failed to read net dir of the device %s: %v'' [FStr pciAddr, FErr err])
           | Inr [] \<Rightarrow> Inl (Errorf ''VF device %s sysfs path (%s) has no entries'' [FStr pciAddr, FStr vfDir])
           | Inr (f # _) \<Rightarrow> Inr (ent_Name f)))"

definition GetVFLinkNamesFromVFID :: "sysfs \<Rightarrow> string \<Rightarrow> int \<Rightarrow> string list result" where
  "GetVFLinkNamesFromVFID fs pfName vfID =
     (let vfDir = path_join (virtfn pfName vfID) ''net'' in
      case fs_Lstat fs vfDir of
        Inl err \<Rightarrow> Inl err
      | Inr _ \<Rightarrow>
          (case ReadDir fs vfDir of
             Inl err \<Rightarrow> Inl (Errorf ''failed to read the virtfn%d dir of the device %q: %v'' [FInt vfID, FStr pfName, FErr err])
           | Inr fInfos \<Rightarrow> Inr (map ent_Name fInfos)))"

definition HasDpdkDriver :: "sysfs \<Rightarrow> string \<Rightarrow> bool result" where
  "HasDpdkDriver fs pciAddr =
     (case fs_EvalSymlinks fs (path_join (path_join SysBusPci pciAddr) ''driver'') of
        Inl err \<Rightarrow> Inl err
      | Inr driverPath \<Rightarrow>
          (case fs_Stat fs driverPath of
             Some err \<Rightarrow> Inl err
           | None \<Rightarrow> Inr (path_base driverPath \<in> set UserspaceDrivers)))"

definition IsValidPCIAddress :: "string \<Rightarrow> bool" where
  "IsValidPCIAddress s \<longleftrightarrow> count_list s (CHR '':'') = 2 \<and> count_list s (CHR ''.'') = 1"

definition IsValidMACAddress :: "HardwareAddr \<Rightarrow> bool" where
  "IsValidMACAddress addr \<longleftrightarrow> length addr = 6 \<and> addr \<noteq> replicate 6 0 \<and> addr \<noteq> replicate 6 0xFF"

section \<open>Cached configurations\<close>

definition DefaultCNIDir :: string where
  "DefaultCNIDir = ''/var/lib/cni/dpusriov''"

definition conf_path :: "string \<Rightarrow> string \<Rightarrow> string" where
  "conf_path cid podIfName = path_join DefaultCNIDir (join ''-'' [cid, podIfName])"

text \<open>The fields tagged \<open>json:''-''\<close> do not reach the file.\<close>

definition marshalled :: "NetConf \<Rightarrow> NetConf" where
  "marshalled n = n\<lparr>nc_DPDKMode := False, nc_DeviceIDType := []\<rparr>"

definition saveScratchNetConf :: "'w os_env \<Rightarrow> string \<Rightarrow> NetConf \<Rightarrow> 'w host \<Rightarrow> go_error option \<times> 'w host" where
  "saveScratchNetConf env path netconf h =
     (case os_MkdirAll env DefaultCNIDir of
        Some err \<Rightarrow> (Some (Errorf ''failed to create the sriov data directory(%q): %v'' [FStr DefaultCNIDir, FErr err]), h)
      | None \<Rightarrow>
          (case os_Write env path of
             Some (err, truncated) \<Rightarrow>
               (Some (Errorf ''failed to write container data in the path(%q): %v'' [FStr path, FErr err]),
                if truncated then h\<lparr>conf_files := map_put path Cut (conf_files h)\<rparr> else h)
           | None \<Rightarrow> (None, h\<lparr>conf_files := map_put path (Saved netconf) (conf_files h)\<rparr>)))"

definition SaveNetConf :: "'w os_env \<Rightarrow> string \<Rightarrow> string \<Rightarrow> NetConf \<Rightarrow> 'w host \<Rightarrow> go_error option \<times> 'w host" where
  "SaveNetConf env cid podIfName conf h = saveScratchNetConf env (conf_path cid podIfName) (marshalled conf) h"

definition ReadScratchNetConf :: "'w os_env \<Rightarrow> string \<Rightarrow> 'w host \<Rightarrow> cached result" where
  "ReadScratchNetConf env cRefPath h =
     (case (case os_Read env cRefPath of Some err \<Rightarrow> Inl err
            | None \<Rightarrow> (case map_get (conf_files h) cRefPath of None \<Rightarrow> Inl (no_such_file ''open'' cRefPath) | Some c \<Rightarrow> Inr c)) of
        Inl err \<Rightarrow> Inl (Errorf ''failed to read container data in the path(%q): %v'' [FStr cRefPath, FErr err])
      | Inr c \<Rightarrow> Inr c)"

definition LoadConfFromCache :: "'w os_env \<Rightarrow> string \<Rightarrow> string \<Rightarrow> 'w host \<Rightarrow> (NetConf \<times> string) result" where
  "LoadConfFromCache env containerID ifName h =
     (let cRefPath = conf_path containerID ifName in
      case ReadScratchNetConf env cRefPath h of
        Inl err \<Rightarrow> Inl (Errorf ''error reading cached NetConf in %s with name %s'' [FStr DefaultCNIDir, FStr (join ''-'' [containerID, ifName])])
      | Inr Cut \<Rightarrow> Inl (Errorf ''failed to parse NetConf: %q'' [FErr (ExtError ''unexpected end of JSON input'')])
      | Inr (Saved netConf) \<Rightarrow> Inr (netConf, cRefPath))"

definition CleanCachedNetConf :: "'w os_env \<Rightarrow> string \<Rightarrow> 'w host \<Rightarrow> go_error option \<times> 'w host" where
  "CleanCachedNetConf env cRefPath h =
     (case (case os_Remove env cRefPath of Some err \<Rightarrow> Some err
            | None \<Rightarrow> if map_get (conf_files h) cRefPath = None then Some (no_such_file ''remove'' cRefPath) else None) of
        Some err \<Rightarrow> (Some (Errorf ''error removing NetConf file %s: %v'' [FStr cRefPath, FErr err]), h)
      | None \<Rightarrow> (None, h\<lparr>conf_files := map_del cRefPath (conf_files h)\<rparr>))"

section \<open>Allocator (pci\_allocator.go)\<close>

definition alloc_dataDir :: string where
  "alloc_dataDir = path_join DefaultCNIDir ''pci''"

definition alloc_path :: "string \<Rightarrow> string" where
  "alloc_path pciAddress = path_join alloc_dataDir pciAddress"

definition SaveAllocatedPCI :: "'w os_env \<Rightarrow> string \<Rightarrow> string \<Rightarrow> 'w host \<Rightarrow> go_error option \<times> 'w host" where
  "SaveAllocatedPCI env pciAddress ns h =
     (case os_MkdirAll env alloc_dataDir of
        Some err \<Rightarrow> (Some (Errorf ''failed to create the sriov data directory(%q): %v'' [FStr alloc_dataDir, FErr err]), h)
      | None \<Rightarrow>
          let path = alloc_path pciAddress in
          (case os_Write env path of
             Some (err, truncated) \<Rightarrow>
               (Some (Errorf ''failed to write used PCI address lock file in the path(%q): %v'' [FStr path, FErr err]),
                if truncated then h\<lparr>alloc_files := map_put path [] (alloc_files h)\<rparr> else h)
           | None \<Rightarrow> (None, h\<lparr>alloc_files := map_put path ns (alloc_files h)\<rparr>)))"

definition DeleteAllocatedPCI :: "'w os_env \<Rightarrow> string \<Rightarrow> 'w host \<Rightarrow> go_error option \<times> 'w host" where
  "DeleteAllocatedPCI env pciAddress h =
     (let path = alloc_path pciAddress in
      case (case os_Remove env path of Some err \<Rightarrow> Some err
            | None \<Rightarrow> if map_get (alloc_files h) path = None then Some (no_such_file ''remove'' path) else None) of
        Some err \<Rightarrow> (Some (Errorf ''error removing PCI address lock file %s: %v'' [FStr path, FErr err]), h)
      | None \<Rightarrow> (None, h\<lparr>alloc_files := map_del path (alloc_files h)\<rparr>))"

definition IsAllocated :: "'w os_env \<Rightarrow> string \<Rightarrow> 'w host \<Rightarrow> bool result \<times> 'w host" where
  "IsAllocated env pciAddress h =
     (let path = alloc_path pciAddress in
      case os_Stat env path of
        Some err \<Rightarrow> (Inl (Errorf ''failed to check for pci address file for %s: %v'' [FStr path, FErr err]), h)
      | None \<Rightarrow>
          (case map_get (alloc_files h) path of
             None \<Rightarrow> (Inr False, h)
           | Some dat \<Rightarrow>
               (case os_Read env path of
                  Some err \<Rightarrow> (Inl (Errorf ''failed to read for pci address file for %s: %v'' [FStr path, FErr err]), h)
                | None \<Rightarrow>
                    (case ns_GetNS env dat (kern h) of
                       Inr _ \<Rightarrow> (Inr True, h)
                     | Inl _ \<Rightarrow>
                         (case DeleteAllocatedPCI env pciAddress h of
                            (Some err, h') \<Rightarrow>
                              (Inl (Errorf ''error deleting the pci allocation for vf pci address %s: %v''
                                      [FStr pciAddress, FErr err]), h')
                          | (None, h') \<Rightarrow> (Inr False, h'))))))"

section \<open>LoadConf (sriovconfig.go)\<close>

definition getVfInfo :: "sysfs \<Rightarrow> string \<Rightarrow> (string \<times> int) result" where
  "getVfInfo fs vfPci =
     (case GetPfName fs vfPci of
        Inl err \<Rightarrow> Inl err
      | Inr pf \<Rightarrow> (case GetVfid fs vfPci pf of Inl err \<Rightarrow> Inl err | Inr vfID \<Rightarrow> Inr (pf, vfID)))"

definition resolve_device :: "sysfs \<Rightarrow> NetConf \<Rightarrow> NetConf result" where
  "resolve_device fs n =
     (if nc_DeviceID n = [] then Inl (Errorf ''LoadConf(): VF pci addr is required'' [])
      else
        (case (if nc_DeviceIDType n = DeviceIDTypeNetdev
               then (case GetPciFromNetDev fs (nc_DeviceID n) of
                       Inl err \<Rightarrow> Inl (Errorf ''LoadConf(): failed to resolve PCI address from netdev %s: %v''
                                        [FStr (nc_DeviceID n), FErr err])
                     | Inr pciAddr \<Rightarrow> Inr (n\<lparr>nc_DeviceID := pciAddr, nc_DeviceIDType := DeviceIDTypePCI\<rparr>))
               else Inr n) of
           Inl err \<Rightarrow> Inl err
         | Inr n1 \<Rightarrow>
             (case getVfInfo fs (nc_DeviceID n1) of
                Inl err \<Rightarrow> Inl (Errorf ''LoadConf(): failed to get VF information: %q'' [FErr err])
              | Inr (pfName, vfID) \<Rightarrow> Inr (n1\<lparr>nc_VFID := vfID, nc_Master := pfName\<rparr>))))"

definition find_interface :: "sysfs \<Rightarrow> NetConf \<Rightarrow> NetConf result" where
  "find_interface fs n =
     (let hostIFName = (case GetVFLinkName fs (nc_DeviceID n) of Inl _ \<Rightarrow> [] | Inr name \<Rightarrow> name) in
      case (if hostIFName = []
            then (case HasDpdkDriver fs (nc_DeviceID n) of
                    Inl err \<Rightarrow> Inl (Errorf ''LoadConf(): failed to detect if VF %s has dpdk driver %q''
                                     [FStr (nc_DeviceID n), FErr err])
                  | Inr hasDpdkDriver \<Rightarrow> Inr (n\<lparr>nc_DPDKMode := hasDpdkDriver\<rparr>))
            else Inr (n\<lparr>nc_OrigVfState := (nc_OrigVfState n)\<lparr>vs_HostIFName := hostIFName\<rparr>\<rparr>)) of
        Inl err \<Rightarrow> Inl err
      | Inr n1 \<Rightarrow>
          if hostIFName = [] \<and> \<not> nc_DPDKMode n1
          then Inl (Errorf ''LoadConf(): the VF %s does not have a interface name or a dpdk driver'' [FStr (nc_DeviceID n1)])
          else Inr n1)"

definition validate_vlan :: "NetConf \<Rightarrow> NetConf result" where
  "validate_vlan n =
     (let vlan = (case nc_Vlan n of None \<Rightarrow> 0 | Some v \<Rightarrow> v);
          qos = (case nc_VlanQoS n of None \<Rightarrow> 0 | Some q \<Rightarrow> q);
          proto = to_lower (case nc_VlanProto n of None \<Rightarrow> Proto8021q | Some p \<Rightarrow> p)
      in if vlan < 0 \<or> vlan > 4094
         then Inl (Errorf ''LoadConf(): vlan id %d invalid: value must be in the range 0-4094'' [FInt vlan])
         else if qos < 0 \<or> qos > 7
         then Inl (Errorf ''LoadConf(): vlan QoS PCP %d invalid: value must be in the range 0-7'' [FInt qos])
         else if qos \<noteq> 0 \<and> vlan = 0
         then Inl (Errorf ''LoadConf(): non-zero vlan id must be configured to set vlan QoS to a non-zero value'' [])
         else if proto \<noteq> Proto8021ad \<and> proto \<noteq> Proto8021q
         then Inl (Errorf (''LoadConf(): vlan Proto %s invalid: value must be '802.1Q' or '802.1ad'' @ [CHR 0x27]) [FStr proto])
         else if proto = Proto8021ad \<and> vlan = 0
         then Inl (Errorf ''LoadConf(): non-zero vlan id must be configured to set vlan proto 802.1ad'' [])
         else if nc_LinkState n \<notin> {[], ''auto'', ''enable'', ''disable''}
         then Inl (Errorf ''LoadConf(): invalid link_state value: %s'' [FStr (nc_LinkState n)])
         else Inr (n\<lparr>nc_Vlan := Some vlan, nc_VlanQoS := Some qos, nc_VlanProto := Some proto\<rparr>))"

definition LoadConf :: "'w os_env \<Rightarrow> NetConf \<Rightarrow> 'w host \<Rightarrow> NetConf result \<times> 'w host" where
  "LoadConf env n h =
     (let fs = os_sysfs env (kern h) in
      case resolve_device fs n of
        Inl err \<Rightarrow> (Inl err, h)
      | Inr n1 \<Rightarrow>
          (case IsAllocated env (nc_DeviceID n1) h of
             (Inl err, h1) \<Rightarrow> (Inl err, h1)
           | (Inr True, h1) \<Rightarrow> (Inl (Errorf ''pci address %s is already allocated'' [FStr (nc_DeviceID n1)]), h1)
           | (Inr False, h1) \<Rightarrow>
               (case find_interface fs n1 of
                  Inl err \<Rightarrow> (Inl err, h1)
                | Inr n2 \<Rightarrow> (validate_vlan n2, h1))))"

definition GetMacAddressForResult :: "NetConf \<Rightarrow> string" where
  "GetMacAddressForResult netConf =
     (if nc_MAC netConf \<noteq> [] then nc_MAC netConf
      else if \<not> nc_DPDKMode netConf then vs_EffectiveMAC (nc_OrigVfState netConf)
      else if vs_AdminMAC (nc_OrigVfState netConf) \<noteq> ''00:00:00:00:00:00''
      then vs_AdminMAC (nc_OrigVfState netConf) else [])"

section \<open>Lemmas\<close>

lemma alloc_path_inj [simp]: "alloc_path a = alloc_path b \<longleftrightarrow> a = b"
  by (simp add: alloc_path_def path_join_def)

text \<open>The laws of file operations that do not fail.\<close>

definition files_work :: "'w os_env \<Rightarrow> bool" where
  "files_work env \<longleftrightarrow>
     (\<forall>p. os_MkdirAll env p = None \<and> os_Write env p = None \<and> os_Remove env p = None \<and>
          os_Stat env p = None \<and> os_Read env p = None)"

lemma files_workD:
  assumes "files_work env"
  shows "os_MkdirAll env p = None" "os_Write env p = None" "os_Remove env p = None" "os_Stat env p = None"
    "os_Read env p = None"
  using assms by (simp_all add: files_work_def)

definition ns_alive :: "'w os_env \<Rightarrow> string \<Rightarrow> 'w \<Rightarrow> bool" where
  "ns_alive env ns k \<longleftrightarrow> (case ns_GetNS env ns k of Inr _ \<Rightarrow> True | Inl _ \<Rightarrow> False)"

text \<open>The lock of a PCI address: the namespace in its file, as long as it can be opened.\<close>

definition held_by :: "'w os_env \<Rightarrow> string \<Rightarrow> 'w host \<Rightarrow> string option" where
  "held_by env addr h =
     (case map_get (alloc_files h) (alloc_path addr) of
        Some ns \<Rightarrow> if ns_alive env ns (kern h) then Some ns else None
      | None \<Rightarrow> None)"

lemma IsAllocated_held:
  assumes "IsAllocated env addr h = (Inr b, h')"
  shows "b = (held_by env addr h \<noteq> None)" "held_by env a h' = held_by env a h" "kern h' = kern h" "conf_files h' = conf_files h"
  using assms
  by (auto simp: IsAllocated_def DeleteAllocatedPCI_def held_by_def ns_alive_def Let_def split: option.splits sum.splits if_splits)

lemma DeleteAllocatedPCI_state:
  "snd (DeleteAllocatedPCI env addr h) = h \<or> snd (DeleteAllocatedPCI env addr h) = h\<lparr>alloc_files := map_del (alloc_path addr) (alloc_files h)\<rparr>"
  by (simp add: DeleteAllocatedPCI_def Let_def split: option.split)

lemma IsAllocated_state:
  "snd (IsAllocated env addr h) = h \<or>
   snd (IsAllocated env addr h) = h\<lparr>alloc_files := map_del (alloc_path addr) (alloc_files h)\<rparr> \<and> held_by env addr h = None"
  using DeleteAllocatedPCI_state [of env addr h]
  by (auto simp: IsAllocated_def held_by_def ns_alive_def Let_def split: option.split sum.split prod.split)

lemma IsAllocated_keeps:
  "kern (snd (IsAllocated env addr h)) = kern h" "conf_files (snd (IsAllocated env addr h)) = conf_files h"
  "held_by env a (snd (IsAllocated env addr h)) = held_by env a h"
  using IsAllocated_state [of env addr h] by (auto simp: held_by_def split: option.splits if_splits)

lemma IsAllocated_total: "files_work env \<Longrightarrow> \<exists>h'. IsAllocated env addr h = (Inr (held_by env addr h \<noteq> None), h')"
  by (auto simp: IsAllocated_def DeleteAllocatedPCI_def held_by_def ns_alive_def Let_def files_workD split: option.splits sum.splits)

lemma Save_held:
  "SaveAllocatedPCI env addr ns h = (None, h') \<Longrightarrow>
   held_by env a h' = (if a = addr then (if ns_alive env ns (kern h) then Some ns else None) else held_by env a h)"
  by (cases "a = addr") (auto simp: SaveAllocatedPCI_def held_by_def Let_def split: option.splits)

lemma Delete_held:
  "DeleteAllocatedPCI env addr h = (None, h') \<Longrightarrow> held_by env a h' = (if a = addr then None else held_by env a h)"
  by (auto simp: DeleteAllocatedPCI_def held_by_def Let_def split: option.splits if_splits)


definition quiet_sysfs :: sysfs where
  "quiet_sysfs =
     \<lparr>ReadDir = (\<lambda>p. Inl (no_such_file ''open'' p)), ReadFile = (\<lambda>p. Inl (no_such_file ''open'' p)),
      Readlink = (\<lambda>p. Inl (no_such_file ''readlink'' p)), fs_Lstat = (\<lambda>p. Inl (no_such_file ''lstat'' p)),
      fs_EvalSymlinks = (\<lambda>p. Inl (no_such_file ''lstat'' p)), fs_Stat = (\<lambda>p. Some (no_such_file ''stat'' p))\<rparr>"

text \<open>A kernel whose state is the list of the namespaces that exist.\<close>

definition ns_env :: "string list os_env" where
  "ns_env =
     \<lparr>os_sysfs = (\<lambda>_. quiet_sysfs), os_MkdirAll = (\<lambda>_. None), os_Write = (\<lambda>_. None), os_Remove = (\<lambda>_. None),
      os_Stat = (\<lambda>_. None), os_Read = (\<lambda>_. None),
      ns_GetNS = (\<lambda>p k. if p \<in> set k then Inr \<lparr>ns_Path = p, ns_Fd = 3\<rparr> else Inl (ExtError ''unknown FS magic'')),
      ns_PathNotExist = (\<lambda>_. False)\<rparr>"


section \<open>Loaded configurations\<close>

lemma resolve_device_keeps:
  assumes "resolve_device fs n = Inr n1"
  shows "getVfInfo fs (nc_DeviceID n1) = Inr (nc_Master n1, nc_VFID n1)" "nc_MAC n1 = nc_MAC n" "nc_LinkState n1 = nc_LinkState n"
    "nc_DPDKMode n1 = nc_DPDKMode n"
  using assms by (auto simp: resolve_device_def split: if_splits sum.splits)

lemma find_interface_keeps:
  assumes "find_interface fs n = Inr n1"
  shows "nc_DeviceID n1 = nc_DeviceID n" "nc_Master n1 = nc_Master n" "nc_VFID n1 = nc_VFID n" "nc_MAC n1 = nc_MAC n"
    "GetVFLinkName fs (nc_DeviceID n) = Inr (vs_HostIFName (nc_OrigVfState n1)) \<or> nc_DPDKMode n1"
  using assms by (auto simp: find_interface_def Let_def split: if_splits sum.splits)

lemma validate_vlan_keeps:
  assumes "validate_vlan n = Inr n1"
  shows "nc_DeviceID n1 = nc_DeviceID n" "nc_Master n1 = nc_Master n" "nc_VFID n1 = nc_VFID n" "nc_MAC n1 = nc_MAC n"
    "nc_OrigVfState n1 = nc_OrigVfState n" "nc_DPDKMode n1 = nc_DPDKMode n"
  using assms by (auto simp: validate_vlan_def Let_def split: if_splits)

definition vlan_ok :: "NetConf \<Rightarrow> bool" where
  "vlan_ok n \<longleftrightarrow>
     (case (nc_Vlan n, nc_VlanQoS n, nc_VlanProto n) of
        (Some vlan, Some qos, Some proto) \<Rightarrow>
          0 \<le> vlan \<and> vlan \<le> 4094 \<and> 0 \<le> qos \<and> qos \<le> 7 \<and> map_get VlanProtoInt proto \<noteq> None \<and>
          (vlan = 0 \<longrightarrow> qos = 0 \<and> proto = Proto8021q)
      | _ \<Rightarrow> False) \<and>
     nc_LinkState n \<in> {[], ''auto'', ''enable'', ''disable''}"

lemma validate_vlan_ok: "validate_vlan n = Inr n1 \<Longrightarrow> vlan_ok n1"
  by (auto simp: validate_vlan_def vlan_ok_def VlanProtoInt_def Proto8021q_def Proto8021ad_def Let_def split: if_splits)

lemma LoadConf_host:
  "snd (LoadConf env n h) =
     (case resolve_device (os_sysfs env (kern h)) n of Inl _ \<Rightarrow> h | Inr n1 \<Rightarrow> snd (IsAllocated env (nc_DeviceID n1) h))"
  by (simp add: LoadConf_def Let_def split: sum.split prod.split bool.split)

lemma LoadConf_keeps:
  assumes "LoadConf env n h = (r, h')"
  shows "kern h' = kern h" "conf_files h' = conf_files h" "held_by env a h' = held_by env a h"
  using LoadConf_host [of env n h] assms by (auto simp: IsAllocated_keeps split: sum.splits)

lemma LoadConf_free: "LoadConf env n h = (Inr n', h') \<Longrightarrow> held_by env (nc_DeviceID n') h = None"
  by (auto simp: LoadConf_def Let_def find_interface_keeps validate_vlan_keeps dest: IsAllocated_held(1)
      split: sum.splits prod.splits bool.splits)

text \<open>C33: A configuration that \<open>LoadConf\<close> accepts is usable: the physical function and the index of
  the virtual function are those sysfs gives for the PCI address, the VLAN is between 0 and 4094 with a
  priority between 0 and 7 and a known protocol (both only with a VLAN), the link state is one of the
  four that are supported, the device has an interface or a user-space driver, and no live namespace
  holds the address.\<close>

theorem LoadConf_valid:
  assumes "LoadConf env n h = (Inr n', h')"
  shows "getVfInfo (os_sysfs env (kern h)) (nc_DeviceID n') = Inr (nc_Master n', nc_VFID n') \<and>
         vlan_ok n' \<and>
         (GetVFLinkName (os_sysfs env (kern h)) (nc_DeviceID n') = Inr (vs_HostIFName (nc_OrigVfState n')) \<or>
          nc_DPDKMode n') \<and>
         held_by env (nc_DeviceID n') h = None"
proof -
  obtain n1 n2 where *: "resolve_device (os_sysfs env (kern h)) n = Inr n1"
    "find_interface (os_sysfs env (kern h)) n1 = Inr n2" "validate_vlan n2 = Inr n'"
    using assms by (auto simp: LoadConf_def Let_def split: sum.splits prod.splits bool.splits)
  show ?thesis
    using resolve_device_keeps [OF *(1)] find_interface_keeps [OF *(2)] validate_vlan_keeps [OF *(3)]
      validate_vlan_ok [OF *(3)] LoadConf_free [OF assms] by auto
qed

text \<open>The sysfs of a host with one virtual function: its interfaces and its driver are arguments.\<close>

definition vf_sysfs :: "string list \<Rightarrow> string \<Rightarrow> sysfs" where
  "vf_sysfs names drv =
     quiet_sysfs\<lparr>
       ReadDir := (\<lambda>p. if p = ''/sys/bus/pci/devices/0000:3b:0a.1/physfn/net'' then Inr [\<lparr>ent_Name = ''ens1'', ent_Type = DirEntry\<rparr>]
                       else if p = ''/sys/bus/pci/devices/0000:3b:0a.1/net'' then Inr (map (\<lambda>i. \<lparr>ent_Name = i, ent_Type = DirEntry\<rparr>) names)
                       else Inl (no_such_file ''open'' p)),
       ReadFile := (\<lambda>p. if p = ''/sys/class/net/ens1/device/sriov_numvfs'' then Inr ''2'' else Inl (no_such_file ''open'' p)),
       Readlink := (\<lambda>p. if p = ''/sys/class/net/ens1/device/virtfn0'' then Inr ''../0000:3b:0a.0''
                        else if p = ''/sys/class/net/ens1/device/virtfn1'' then Inr ''../0000:3b:0a.1''
                        else Inl (no_such_file ''readlink'' p)),
       fs_Lstat := (\<lambda>p. Inr SymlinkEntry),
       fs_EvalSymlinks := (\<lambda>p. Inr (''/sys/bus/pci/drivers/'' @ drv)),
       fs_Stat := (\<lambda>p. None)\<rparr>"

definition vf_conf :: NetConf where
  "vf_conf =
     \<lparr>nc_CNIVersion = ''1.0.0'', nc_Name = ''net'', nc_IPAM_Type = '''', nc_DNS = '''', nc_RawPrevResult = False,
      nc_OrigVfState = \<lparr>vs_HostIFName = '''', vs_SpoofChk = False, vs_Trust = False, vs_AdminMAC = '''',
        vs_EffectiveMAC = '''', vs_Vlan = 0, vs_VlanQoS = 0, vs_VlanProto = 0, vs_MinTxRate = 0, vs_MaxTxRate = 0,
        vs_LinkState = 0\<rparr>,
      nc_DPDKMode = False, nc_Master = '''', nc_MAC = '''', nc_Vlan = None, nc_VlanQoS = None, nc_VlanProto = None,
      nc_DeviceID = ''0000:3b:0a.1'', nc_DeviceIDType = DeviceIDTypePCI, nc_VFID = 0, nc_MinTxRate = None, nc_MaxTxRate = None,
      nc_SpoofChk = '''', nc_Trust = '''', nc_LinkState = '''', nc_RuntimeMac = ''''\<rparr>"

theorem LoadConf_valid_witness:
  "let env = ns_env\<lparr>os_sysfs := (\<lambda>_. vf_sysfs [''ens1v1''] ''iavf'')\<rparr>;
       n = vf_conf\<lparr>nc_Vlan := Some 100, nc_VlanProto := Some ''802.1AD''\<rparr>;
       h = \<lparr>kern = [''/ns/a''], alloc_files = [], conf_files = []\<rparr>
   in nc_VFID (projr (fst (LoadConf env n h))) = 1 \<and> vlan_ok (projr (fst (LoadConf env n h)))"
proof -
  let ?env = "ns_env\<lparr>os_sysfs := (\<lambda>_. vf_sysfs [''ens1v1''] ''iavf'')\<rparr>"
  let ?n = "vf_conf\<lparr>nc_Vlan := Some 100, nc_VlanProto := Some ''802.1AD''\<rparr>"
  let ?h = "\<lparr>kern = [''/ns/a''], alloc_files = [], conf_files = []\<rparr> :: string list host"
  let ?n' = "?n\<lparr>nc_VFID := 1, nc_Master := ''ens1'', nc_OrigVfState := (nc_OrigVfState vf_conf)\<lparr>vs_HostIFName := ''ens1v1''\<rparr>,
     nc_VlanQoS := Some 0, nc_VlanProto := Some ''802.1ad''\<rparr>"
  have "LoadConf ?env ?n ?h = (Inr ?n', ?h)" by code_simp
  from this LoadConf_valid [OF this] show ?thesis by (simp add: Let_def)
qed

end
