(* ===== verification/Sriov.thy ===== *)
theory Sriov
  imports Sriov_Config
begin

text \<open>
  The SR-IOV manager (\<open>dpu-cni/pkgs/sriov/sriov.go\<close>) with the MAC helpers of \<open>sriovutils.go\<close> and the
  announcements of \<open>packet.go\<close>. The netlink library, the namespaces and the IPAM plugins are
  parameters (the record \<open>netlink\<close>, after the interface \<open>NetlinkManager\<close>): each operation says what it
  does to the state of the kernel when a thread runs it in a given network namespace. \<open>netns.Do\<close> runs
  its body in another namespace. Errors are sequenced as in the code, including which variable \<open>err\<close>
  a deferred function looks at.
\<close>

section \<open>Netlink\<close>

record Link =
  lk_Index :: int
  lk_Name :: string
  lk_HardwareAddr :: HardwareAddr
  lk_Up :: bool
  lk_Alias :: string
  lk_Vfs :: "VfInfo list"

datatype packet = ArpPacket int "8 word list" | NeighborAdvertisement "8 word list"

record 'w netlink =
  nl_LinkByName :: "NetNS \<Rightarrow> string \<Rightarrow> 'w \<Rightarrow> Link result"
  nl_LinkSetUp :: "NetNS \<Rightarrow> Link \<Rightarrow> 'w \<Rightarrow> go_error option \<times> 'w"
  nl_LinkSetDown :: "NetNS \<Rightarrow> Link \<Rightarrow> 'w \<Rightarrow> go_error option \<times> 'w"
  nl_LinkSetName :: "NetNS \<Rightarrow> Link \<Rightarrow> string \<Rightarrow> 'w \<Rightarrow> go_error option \<times> 'w"
  nl_LinkSetAlias :: "NetNS \<Rightarrow> Link \<Rightarrow> string \<Rightarrow> 'w \<Rightarrow> go_error option \<times> 'w"
  nl_LinkSetNsFd :: "NetNS \<Rightarrow> Link \<Rightarrow> nat \<Rightarrow> 'w \<Rightarrow> go_error option \<times> 'w"
  nl_LinkSetHardwareAddr :: "NetNS \<Rightarrow> Link \<Rightarrow> HardwareAddr \<Rightarrow> 'w \<Rightarrow> go_error option \<times> 'w"
  nl_LinkSetVfHardwareAddr :: "NetNS \<Rightarrow> Link \<Rightarrow> int \<Rightarrow> HardwareAddr \<Rightarrow> 'w \<Rightarrow> go_error option \<times> 'w"
  nl_LinkSetVfVlanQosProto :: "NetNS \<Rightarrow> Link \<Rightarrow> int \<Rightarrow> int \<Rightarrow> int \<Rightarrow> int \<Rightarrow> 'w \<Rightarrow> go_error option \<times> 'w"
  nl_LinkSetVfRate :: "NetNS \<Rightarrow> Link \<Rightarrow> int \<Rightarrow> int \<Rightarrow> int \<Rightarrow> 'w \<Rightarrow> go_error option \<times> 'w"
  nl_LinkSetVfSpoofchk :: "NetNS \<Rightarrow> Link \<Rightarrow> int \<Rightarrow> bool \<Rightarrow> 'w \<Rightarrow> go_error option \<times> 'w"
  nl_LinkSetVfTrust :: "NetNS \<Rightarrow> Link \<Rightarrow> int \<Rightarrow> bool \<Rightarrow> 'w \<Rightarrow> go_error option \<times> 'w"
  nl_LinkSetVfState :: "NetNS \<Rightarrow> Link \<Rightarrow> int \<Rightarrow> 32 word \<Rightarrow> 'w \<Rightarrow> go_error option \<times> 'w"
  nl_WriteProc :: "NetNS \<Rightarrow> string \<Rightarrow> 'w \<Rightarrow> go_error option \<times> 'w"
  nl_Socket :: "NetNS \<Rightarrow> 'w \<Rightarrow> go_error option"
  nl_SetHops :: "NetNS \<Rightarrow> 'w \<Rightarrow> go_error option"
  nl_Sendto :: "NetNS \<Rightarrow> packet \<Rightarrow> 'w \<Rightarrow> go_error option \<times> 'w"
  nl_GetCurrentNS :: "NetNS \<Rightarrow> 'w \<Rightarrow> NetNS result"
  nl_Enter :: "NetNS \<Rightarrow> 'w \<Rightarrow> go_error option"
  ipam_ExecAdd :: "string \<Rightarrow> string \<Rightarrow> 'w \<Rightarrow> string result \<times> 'w"
  ipam_ExecDel :: "string \<Rightarrow> string \<Rightarrow> 'w \<Rightarrow> go_error option \<times> 'w"
  ipam_NewResult :: "string \<Rightarrow> cni_Result result"
  ipam_ConfigureIface :: "NetNS \<Rightarrow> string \<Rightarrow> cni_Result \<Rightarrow> 'w \<Rightarrow> go_error option \<times> 'w"

text \<open>\<open>netns.Do\<close>: the body runs in the other namespace, or not at all.\<close>

definition ns_Do :: "'w netlink \<Rightarrow> NetNS \<Rightarrow> (NetNS \<Rightarrow> 'w \<Rightarrow> go_error option \<times> 'w) \<Rightarrow> 'w \<Rightarrow> go_error option \<times> 'w" where
  "ns_Do nl netns body w = (case nl_Enter nl netns w of Some err \<Rightarrow> (Some err, w) | None \<Rightarrow> body netns w)"

text \<open>One step and then the rest, unless the step failed; \<open>wrap\<close> makes the error that is returned.\<close>

definition and_then ::
    "go_error option \<times> 'w \<Rightarrow> (go_error \<Rightarrow> go_error) \<Rightarrow> ('w \<Rightarrow> go_error option \<times> 'w) \<Rightarrow> go_error option \<times> 'w" where
  "and_then step wrap rest = (case step of (Some err, w) \<Rightarrow> (Some (wrap err), w) | (None, w) \<Rightarrow> rest w)"

text \<open>A run-time panic is not an error value: no caller wraps it.\<close>

definition unless_panic :: "(go_error \<Rightarrow> go_error) \<Rightarrow> go_error \<Rightarrow> go_error" where
  "unless_panic wrap err = (case err of Panic _ \<Rightarrow> err | _ \<Rightarrow> wrap err)"

section \<open>Announcements (packet.go)\<close>

type_synonym IP = "8 word list"

definition v4InV6Prefix :: "8 word list" where
  "v4InV6Prefix = replicate 10 0 @ [0xFF, 0xFF]"

definition To4 :: "IP \<Rightarrow> IP option" where
  "To4 ip =
     (if length ip = 4 then Some ip
      else if length ip = 16 \<and> take 12 ip = v4InV6Prefix then Some (drop 12 ip) else None)"

definition To16 :: "IP \<Rightarrow> IP option" where
  "To16 ip = (if length ip = 4 then Some (v4InV6Prefix @ ip) else if length ip = 16 then Some ip else None)"

definition IsIPv4 :: "IP \<Rightarrow> bool" where
  "IsIPv4 ip \<longleftrightarrow> To4 ip \<noteq> None"

definition IsIPv6 :: "IP \<Rightarrow> bool" where
  "IsIPv6 ip \<longleftrightarrow> To4 ip = None \<and> To16 ip \<noteq> None"

text \<open>\<open>IP.String\<close>: dotted for IPv4, else eight groups with the longest run of zeros cut out.\<close>

fun hex_nat :: "nat \<Rightarrow> string" where
  "hex_nat n = (if n < 16 then [hex_digit n] else hex_nat (n div 16) @ [hex_digit (n mod 16)])"

fun groups16 :: "8 word list \<Rightarrow> nat list" where
  "groups16 (a # b # rest) = (256 * unat a + unat b) # groups16 rest"
| "groups16 _ = []"

definition zero_run :: "nat list \<Rightarrow> nat \<Rightarrow> nat" where
  "zero_run g i = length (takeWhile (\<lambda>x. x = 0) (drop i g))"

definition longest_run :: "nat list \<Rightarrow> nat \<times> nat" where
  "longest_run g = fold (\<lambda>i (j, n). if zero_run g i > n then (i, zero_run g i) else (j, n)) [0..<length g] (0, 0)"

definition IP_String :: "IP \<Rightarrow> string" where
  "IP_String ip =
     (if ip = [] then ''<nil>''
      else (case To4 ip of
              Some bs \<Rightarrow> join ''.'' (map (\<lambda>b. dec_nat (unat b)) bs)
            | None \<Rightarrow>
                if length ip \<noteq> 16 then ''?'' @ concat (map hex2 ip)
                else let g = groups16 ip; (i, n) = longest_run g
                     in if n < 2 then join '':'' (map hex_nat g)
                        else join '':'' (map hex_nat (take i g)) @ ''::'' @ join '':'' (map hex_nat (drop (i + n) g))))"

text \<open>A nil slice writes nothing.\<close>

definition bytes_of :: "IP option \<Rightarrow> 8 word list" where
  "bytes_of ip = (case ip of Some bs \<Rightarrow> bs | None \<Rightarrow> [])"

text \<open>The payload of the ARP request: Ethernet, IPv4, lengths 6 and 4, operation 1, both addresses.\<close>

definition arpPacket :: "IP \<Rightarrow> Link \<Rightarrow> 8 word list" where
  "arpPacket srcIP linkObj =
     [0, 1, 0x08, 0, 6, 4, 0, 1] @ lk_HardwareAddr linkObj @ bytes_of (To4 srcIP) @ replicate 6 0xFF @ bytes_of (To4 srcIP)"

definition SendGratuitousArp :: "'w netlink \<Rightarrow> NetNS \<Rightarrow> IP \<Rightarrow> Link \<Rightarrow> 'w \<Rightarrow> go_error option \<times> 'w" where
  "SendGratuitousArp nl cur srcIP linkObj w =
     (case nl_Socket nl cur w of
        Some err \<Rightarrow> (Some (Errorf ''failed to create AF_PACKET datagram socket: %v'' [FErr err]), w)
      | None \<Rightarrow>
          and_then (nl_Sendto nl cur (ArpPacket (lk_Index linkObj) (arpPacket srcIP linkObj)) w)
            (\<lambda>err. Errorf ''failed to send Gratuitous ARP for IPv4 %s on Interface %s: %v''
               [FStr (IP_String srcIP), FStr (lk_Name linkObj), FErr err])
            (\<lambda>w. (None, w)))"

text \<open>The body of the ICMPv6 message: flags, target address, option 2 of length 1 with the link-layer address.\<close>

definition na_payload :: "IP \<Rightarrow> Link \<Rightarrow> 8 word list" where
  "na_payload srcIP linkObj =
     [0x20, 0, 0, 0] @ bytes_of (To16 srcIP) @ [2, 1] @ lk_HardwareAddr linkObj"

definition SendUnsolicitedNeighborAdvertisement :: "'w netlink \<Rightarrow> NetNS \<Rightarrow> IP \<Rightarrow> Link \<Rightarrow> 'w \<Rightarrow> go_error option \<times> 'w" where
  "SendUnsolicitedNeighborAdvertisement nl cur srcIP linkObj w =
     (case nl_Socket nl cur w of
        Some err \<Rightarrow> (Some (Errorf ''failed to create AF_INET6 raw socket: %v'' [FErr err]), w)
      | None \<Rightarrow>
          (case nl_SetHops nl cur w of
             Some err \<Rightarrow> (Some (Errorf ''failed to set IPv6 multicast hops to 255: %v'' [FErr err]), w)
           | None \<Rightarrow>
               and_then (nl_Sendto nl cur (NeighborAdvertisement (na_payload srcIP linkObj)) w)
                 (\<lambda>err. Errorf ''failed to send Unsolicited Neighbor Advertisement for IPv6 %s on Interface %s: %v''
                    [FStr (IP_String srcIP), FStr (lk_Name linkObj), FErr err])
                 (\<lambda>w. (None, w))))"

fun announce_loop :: "'w netlink \<Rightarrow> NetNS \<Rightarrow> string \<Rightarrow> Link \<Rightarrow> IPConfig list \<Rightarrow> 'w \<Rightarrow> go_error option \<times> 'w" where
  "announce_loop nl cur ifName linkObj [] w = (None, w)"
| "announce_loop nl cur ifName linkObj (ipc # rest) w =
     (if IsIPv6 (ip_Address ipc) \<or> IsIPv4 (ip_Address ipc)
      then (case (if IsIPv6 (ip_Address ipc)
                  then SendUnsolicitedNeighborAdvertisement nl cur (ip_Address ipc) linkObj w
                  else SendGratuitousArp nl cur (ip_Address ipc) linkObj w) of
              (Some err, w') \<Rightarrow> (Some (Errorf ''failed to send GARP/NA message for ip %s on interface %q: %v''
                                  [FStr (IP_String (ip_Address ipc)), FStr ifName, FErr err]), w')
            | (None, w') \<Rightarrow> announce_loop nl cur ifName linkObj rest w')
      else (Some (Errorf ''the IP %s on interface %q is neither IPv4 or IPv6'' [FStr (IP_String (ip_Address ipc)), FStr ifName]), w))"

definition AnnounceIPs :: "'w netlink \<Rightarrow> NetNS \<Rightarrow> string \<Rightarrow> IPConfig list \<Rightarrow> 'w \<Rightarrow> go_error option \<times> 'w" where
  "AnnounceIPs nl cur ifName ipConfigs w =
     (case nl_LinkByName nl cur ifName w of
        Inl err \<Rightarrow> (Some (Errorf ''failed to get netlink device with name %q: %v'' [FStr ifName, FErr err]), w)
      | Inr linkObj \<Rightarrow>
          if \<not> IsValidMACAddress (lk_HardwareAddr linkObj)
          then (Some (Errorf ''invalid Ethernet MAC address: %q'' [FStr (HardwareAddr_String (lk_HardwareAddr linkObj))]), w)
          else announce_loop nl cur ifName linkObj ipConfigs w)"

section \<open>MAC addresses (sriovutils.go)\<close>

text \<open>\<open>Retry\<close> stops at the first success; a panic ends it.\<close>

fun Retry :: "nat \<Rightarrow> ('w \<Rightarrow> go_error option \<times> 'w) \<Rightarrow> 'w \<Rightarrow> go_error option \<times> 'w" where
  "Retry 0 f w = (None, w)"
| "Retry (Suc n) f w =
     (case f w of
        (None, w') \<Rightarrow> (None, w')
      | (Some err, w') \<Rightarrow>
          if n = 0 \<or> (case err of Panic _ \<Rightarrow> True | _ \<Rightarrow> False) then (Some err, w') else Retry n f w')"

definition SetVFEffectiveMAC :: "'w netlink \<Rightarrow> NetNS \<Rightarrow> string \<Rightarrow> string \<Rightarrow> 'w \<Rightarrow> go_error option \<times> 'w" where
  "SetVFEffectiveMAC nl cur netDeviceName macAddress w =
     (case ParseMAC macAddress of
        Inl err \<Rightarrow> (Some (Errorf ''failed to parse MAC address %s: %v'' [FStr macAddress, FErr err]), w)
      | Inr hwaddr \<Rightarrow>
          (case nl_LinkByName nl cur netDeviceName w of
             Inl err \<Rightarrow> (Some err, w)
           | Inr orgLinkObj \<Rightarrow>
               Retry 20 (\<lambda>w.
                 case nl_LinkSetHardwareAddr nl cur orgLinkObj hwaddr w of
                   (Some err, w') \<Rightarrow> (Some err, w')
                 | (None, w') \<Rightarrow>
                     (case nl_LinkByName nl cur netDeviceName w' of
                        Inl err \<Rightarrow> (Some (Errorf ''failed to get netlink device with name %s: %q''
                                      [FStr (lk_Name orgLinkObj), FErr err]), w')
                      | Inr linkObj \<Rightarrow>
                          if HardwareAddr_String (lk_HardwareAddr linkObj) \<noteq> macAddress
                          then (Some (Errorf ''effective mac address is different from requested one'' []), w')
                          else (None, w'))) w))"

text \<open>\<open>linkObj.Attrs().Vfs[vfID]\<close> panics when the link does not list that many functions.\<close>

definition SetVFHardwareMAC :: "'w netlink \<Rightarrow> NetNS \<Rightarrow> string \<Rightarrow> int \<Rightarrow> string \<Rightarrow> 'w \<Rightarrow> go_error option \<times> 'w" where
  "SetVFHardwareMAC nl cur pfDevice vfID macAddress w =
     (case ParseMAC macAddress of
        Inl err \<Rightarrow> (Some (Errorf ''failed to parse MAC address %s: %v'' [FStr macAddress, FErr err]), w)
      | Inr hwaddr \<Rightarrow>
          (case nl_LinkByName nl cur pfDevice w of
             Inl err \<Rightarrow> (Some err, w)
           | Inr orgLinkObj \<Rightarrow>
               Retry 20 (\<lambda>w.
                 case nl_LinkSetVfHardwareAddr nl cur orgLinkObj vfID hwaddr w of
                   (Some err, w') \<Rightarrow> (Some err, w')
                 | (None, w') \<Rightarrow>
                     (case nl_LinkByName nl cur pfDevice w' of
                        Inl err \<Rightarrow> (Some (Errorf ''failed to get netlink device with name %s: %q''
                                      [FStr (lk_Name orgLinkObj), FErr err]), w')
                      | Inr linkObj \<Rightarrow>
                          if vfID < 0 \<or> int (length (lk_Vfs linkObj)) \<le> vfID then (Some (Panic ''index out of range''), w')
                          else if HardwareAddr_String (vi_Mac (lk_Vfs linkObj ! nat vfID)) \<noteq> macAddress
                          then (Some (Errorf ''hardware mac address is different from requested one'' []), w')
                          else (None, w'))) w))"

definition EnableArpAndNdiscNotify :: "'w netlink \<Rightarrow> NetNS \<Rightarrow> string \<Rightarrow> 'w \<Rightarrow> go_error option \<times> 'w" where
  "EnableArpAndNdiscNotify nl cur ifName w =
     and_then (nl_WriteProc nl cur (''/proc/sys/net/ipv4/conf/'' @ ifName @ ''/arp_notify'') w)
       (\<lambda>err. Errorf ''failed to write arp_notify=1 for interface %s: %v'' [FStr ifName, FErr err])
       (\<lambda>w. and_then (nl_WriteProc nl cur (''/proc/sys/net/ipv6/conf/'' @ ifName @ ''/ndisc_notify'') w)
              (\<lambda>err. Errorf ''failed to write ndisc_notify=1 for interface %s: %v'' [FStr ifName, FErr err])
              (\<lambda>w. (None, w)))"

section \<open>Manager (sriov.go)\<close>

definition host_vlans :: bool where
  "host_vlans = False"

definition temp_name :: "Link \<Rightarrow> string" where
  "temp_name l = ''temp_'' @ itoa (lk_Index l)"

text \<open>The body that \<open>SetupVF\<close> runs in the namespace of the pod.\<close>

definition setup_in_pod :: "'w netlink \<Rightarrow> NetConf \<Rightarrow> string \<Rightarrow> Link \<Rightarrow> NetNS \<Rightarrow> 'w \<Rightarrow> go_error option \<times> 'w" where
  "setup_in_pod nl conf podifName linkObj cur w =
     and_then (nl_LinkSetName nl cur linkObj podifName w)
       (\<lambda>_. Errorf ''error setting container interface name %s for %s''
              [FStr (vs_HostIFName (nc_OrigVfState conf)), FStr (temp_name linkObj)])
       (\<lambda>w. and_then
              (let w' = snd (EnableArpAndNdiscNotify nl cur podifName w) in
               if nc_MAC conf \<noteq> [] then SetVFEffectiveMAC nl cur podifName (nc_MAC conf) w' else (None, w'))
              (\<lambda>err. Errorf ''failed to set netlink MAC address to %s: %v'' [FStr (nc_MAC conf), FErr err])
              (\<lambda>w. and_then (nl_LinkSetUp nl cur linkObj w)
                     (\<lambda>err. Errorf ''error bringing interface up in container ns: %q'' [FErr err])
                     (\<lambda>w. (None, w))))"

text \<open>The configuration comes back too: \<open>SetupVF\<close> stores the effective MAC in it.\<close>

definition SetupVF ::
    "'w netlink \<Rightarrow> NetNS \<Rightarrow> NetConf \<Rightarrow> string \<Rightarrow> NetNS \<Rightarrow> 'w \<Rightarrow> (go_error option \<times> 'w) \<times> NetConf" where
  "SetupVF nl cur conf podifName netns w =
     (let linkName = vs_HostIFName (nc_OrigVfState conf) in
      case nl_LinkByName nl cur linkName w of
        Inl err \<Rightarrow> ((Some (Errorf ''error getting VF netdevice with name %s'' [FStr linkName]), w), conf)
      | Inr linkObj \<Rightarrow>
          (and_then (nl_LinkSetDown nl cur linkObj w)
             (\<lambda>err. Errorf ''failed to down vf device %q: %v'' [FStr linkName, FErr err])
             (\<lambda>w. and_then (nl_LinkSetName nl cur linkObj (temp_name linkObj) w)
                (\<lambda>_. Errorf ''error setting temp IF name %s for %s'' [FStr (temp_name linkObj), FStr linkName])
                (\<lambda>w. and_then (nl_LinkSetNsFd nl cur linkObj (ns_Fd netns) w)
                   (\<lambda>err. Errorf ''failed to move IF %s to netns: %q'' [FStr (temp_name linkObj), FErr err])
                   (\<lambda>w. and_then (ns_Do nl netns (setup_in_pod nl conf podifName linkObj) w)
                      (\<lambda>err. Errorf ''error setting up interface in container namespace: %q'' [FErr err])
                      (\<lambda>w. (None, w))))),
           conf\<lparr>nc_OrigVfState := (nc_OrigVfState conf)\<lparr>vs_EffectiveMAC := HardwareAddr_String (lk_HardwareAddr linkObj)\<rparr>\<rparr>))"

definition release_in_pod :: "'w netlink \<Rightarrow> NetConf \<Rightarrow> string \<Rightarrow> NetNS \<Rightarrow> NetNS \<Rightarrow> 'w \<Rightarrow> go_error option \<times> 'w" where
  "release_in_pod nl conf podifName initns cur w =
     (let hostIFName = vs_HostIFName (nc_OrigVfState conf);
          effectiveMAC = vs_EffectiveMAC (nc_OrigVfState conf)
      in case nl_LinkByName nl cur podifName w of
           Inl err \<Rightarrow> (Some (Errorf ''failed to get netlink device with name %s: %q'' [FStr podifName, FErr err]), w)
         | Inr linkObj \<Rightarrow>
             and_then (nl_LinkSetDown nl cur linkObj w)
               (\<lambda>err. Errorf ''failed to set link %s down: %q'' [FStr podifName, FErr err])
               (\<lambda>w. and_then (nl_LinkSetName nl cur linkObj hostIFName w)
                  (\<lambda>err. Errorf ''failed to rename link %s to host name %s: %q'' [FStr podifName, FStr hostIFName, FErr err])
                  (\<lambda>w. and_then (if nc_MAC conf \<noteq> [] then SetVFEffectiveMAC nl cur hostIFName effectiveMAC w else (None, w))
                     (\<lambda>err. Errorf ''failed to restore original effective netlink MAC address %s: %v'' [FStr effectiveMAC, FErr err])
                     (\<lambda>w. and_then (nl_LinkSetNsFd nl cur linkObj (ns_Fd initns) w)
                        (\<lambda>err. Errorf ''failed to move interface %s to init netns: %v'' [FStr hostIFName, FErr err])
                        (\<lambda>w. (None, w))))))"

definition ReleaseVF :: "'w netlink \<Rightarrow> NetNS \<Rightarrow> NetConf \<Rightarrow> string \<Rightarrow> NetNS \<Rightarrow> 'w \<Rightarrow> go_error option \<times> 'w" where
  "ReleaseVF nl cur conf podifName netns w =
     (case nl_GetCurrentNS nl cur w of
        Inl err \<Rightarrow> (Some (Errorf ''failed to get init netns: %v'' [FErr err]), w)
      | Inr initns \<Rightarrow> ns_Do nl netns (release_in_pod nl conf podifName initns) w)"

definition sriov_getVfInfo :: "Link \<Rightarrow> int \<Rightarrow> VfInfo option" where
  "sriov_getVfInfo link vf = List.find (\<lambda>v. vi_ID v = vf) (lk_Vfs link)"

text \<open>The optional steps of \<open>ApplyVFConfig\<close> and \<open>ResetVFConfig\<close>.\<close>

definition when_step :: "bool \<Rightarrow> ('w \<Rightarrow> go_error option \<times> 'w) \<Rightarrow> 'w \<Rightarrow> go_error option \<times> 'w" where
  "when_step b step w = (if b then step w else (None, w))"

definition or_zero :: "int option \<Rightarrow> int" where
  "or_zero v = (case v of Some i \<Rightarrow> i | None \<Rightarrow> 0)"

definition link_state :: "string \<Rightarrow> 32 word option" where
  "link_state s =
     (if s = ''auto'' then Some 0 else if s = ''enable'' then Some 1 else if s = ''disable'' then Some 2 else None)"

definition proto_int :: "string option \<Rightarrow> int" where
  "proto_int p = (case map_get VlanProtoInt (case p of Some s \<Rightarrow> s | None \<Rightarrow> []) of Some i \<Rightarrow> i | None \<Rightarrow> 0)"

definition ApplyVFConfig :: "'w netlink \<Rightarrow> NetNS \<Rightarrow> NetConf \<Rightarrow> 'w \<Rightarrow> go_error option \<times> 'w" where
  "ApplyVFConfig nl cur conf w =
     (let vf = nc_VFID conf in
      case nl_LinkByName nl cur (nc_Master conf) w of
        Inl err \<Rightarrow> (Some (Errorf ''failed to lookup master %q: %v'' [FStr (nc_Master conf), FErr err]), w)
      | Inr pfLink \<Rightarrow>
          and_then (when_step host_vlans
                      (nl_LinkSetVfVlanQosProto nl cur pfLink vf (or_zero (nc_Vlan conf)) (or_zero (nc_VlanQoS conf))
                         (proto_int (nc_VlanProto conf))) w)
            (\<lambda>err. Errorf ''failed to set vf %d vlan configuration - id %d, qos %d and proto %s: %v''
               [FInt vf, FInt (or_zero (nc_Vlan conf)), FInt (or_zero (nc_VlanQoS conf)),
                FStr (case nc_VlanProto conf of Some p \<Rightarrow> p | None \<Rightarrow> []), FErr err])
            (\<lambda>w. and_then (when_step (nc_MAC conf \<noteq> []) (SetVFHardwareMAC nl cur (nc_Master conf) vf (nc_MAC conf)) w)
               (unless_panic (\<lambda>err. Errorf ''failed to set MAC address to %s: %v'' [FStr (nc_MAC conf), FErr err]))
               (\<lambda>w. and_then (when_step (nc_MinTxRate conf \<noteq> None \<or> nc_MaxTxRate conf \<noteq> None)
                        (nl_LinkSetVfRate nl cur pfLink vf (or_zero (nc_MinTxRate conf)) (or_zero (nc_MaxTxRate conf))) w)
                  (\<lambda>err. Errorf ''failed to set vf %d min_tx_rate to %d Mbps: max_tx_rate to %d Mbps: %v''
                     [FInt vf, FInt (or_zero (nc_MinTxRate conf)), FInt (or_zero (nc_MaxTxRate conf)), FErr err])
                  (\<lambda>w. and_then (when_step (nc_SpoofChk conf \<noteq> []) (nl_LinkSetVfSpoofchk nl cur pfLink vf (nc_SpoofChk conf = ''on'')) w)
                     (\<lambda>err. Errorf ''failed to set vf %d spoofchk flag to %s: %v'' [FInt vf, FStr (nc_SpoofChk conf), FErr err])
                     (\<lambda>w. and_then (when_step (nc_Trust conf \<noteq> []) (nl_LinkSetVfTrust nl cur pfLink vf (nc_Trust conf = ''on'')) w)
                        (\<lambda>err. Errorf ''failed to set vf %d trust flag to %s: %v'' [FInt vf, FStr (nc_Trust conf), FErr err])
                        (\<lambda>w. if nc_LinkState conf = [] then (None, w)
                             else (case link_state (nc_LinkState conf) of
                                     None \<Rightarrow> (Some (Errorf ''unknown link state %s when setting it for vf %d: %v''
                                                [FStr (nc_LinkState conf), FInt vf, FStr ''<nil>'']), w)
                                   | Some st \<Rightarrow>
                                       and_then (nl_LinkSetVfState nl cur pfLink vf st w)
                                         (\<lambda>err. Errorf ''failed to set vf %d link state to %d: %v'' [FInt vf, FInt (uint st), FErr err])
                                         (\<lambda>w. (None, w)))))))))"

definition FillOriginalVfInfo :: "'w netlink \<Rightarrow> NetNS \<Rightarrow> NetConf \<Rightarrow> 'w \<Rightarrow> NetConf result" where
  "FillOriginalVfInfo nl cur conf w =
     (case nl_LinkByName nl cur (nc_Master conf) w of
        Inl err \<Rightarrow> Inl (Errorf ''failed to lookup master %q: %v'' [FStr (nc_Master conf), FErr err])
      | Inr pfLink \<Rightarrow>
          (case sriov_getVfInfo pfLink (nc_VFID conf) of
             None \<Rightarrow> Inl (Errorf ''failed to find vf %d'' [FInt (nc_VFID conf)])
           | Some vfState \<Rightarrow> Inr (conf\<lparr>nc_OrigVfState := FillFromVfInfo vfState (nc_OrigVfState conf)\<rparr>)))"

definition ResetVFConfig :: "'w netlink \<Rightarrow> NetNS \<Rightarrow> NetConf \<Rightarrow> 'w \<Rightarrow> go_error option \<times> 'w" where
  "ResetVFConfig nl cur conf w =
     (let vf = nc_VFID conf; orig = nc_OrigVfState conf in
      case nl_LinkByName nl cur (nc_Master conf) w of
        Inl err \<Rightarrow> (Some (Errorf ''failed to lookup master %q: %v'' [FStr (nc_Master conf), FErr err]), w)
      | Inr pfLink \<Rightarrow>
          and_then (when_step host_vlans
                      (nl_LinkSetVfVlanQosProto nl cur pfLink vf (vs_Vlan orig) (vs_VlanQoS orig)
                         (if vs_VlanProto orig = 0 then 33024 else vs_VlanProto orig)) w)
            (\<lambda>err. Errorf ''failed to set vf %d vlan configuration - id %d, qos %d and proto %d: %v''
               [FInt vf, FInt (vs_Vlan orig), FInt (vs_VlanQoS orig),
                FInt (if vs_VlanProto orig = 0 then 33024 else vs_VlanProto orig), FErr err])
            (\<lambda>w. and_then (when_step (nc_SpoofChk conf \<noteq> []) (nl_LinkSetVfSpoofchk nl cur pfLink vf (vs_SpoofChk orig)) w)
               (\<lambda>err. Errorf ''failed to restore spoofchk for vf %d: %v'' [FInt vf, FErr err])
               (\<lambda>w. and_then (when_step (nc_MAC conf \<noteq> []) (SetVFHardwareMAC nl cur (nc_Master conf) vf (vs_AdminMAC orig)) w)
                  (unless_panic (\<lambda>err. Errorf ''failed to restore original administrative MAC address %s: %v''
                                         [FStr (vs_AdminMAC orig), FErr err]))
                  (\<lambda>w. and_then (when_step (nc_Trust conf \<noteq> []) (nl_LinkSetVfTrust nl cur pfLink vf (vs_Trust orig)) w)
                     (\<lambda>err. Errorf ''failed to set trust for vf %d: %v'' [FInt vf, FErr err])
                     (\<lambda>w. and_then (when_step (nc_MinTxRate conf \<noteq> None \<or> nc_MaxTxRate conf \<noteq> None)
                              (nl_LinkSetVfRate nl cur pfLink vf (vs_MinTxRate orig) (vs_MaxTxRate orig)) w)
                        (\<lambda>err. Errorf ''failed to disable rate limiting for vf %d %v'' [FInt vf, FErr err])
                        (\<lambda>w. and_then (when_step (nc_LinkState conf \<noteq> []) (nl_LinkSetVfState nl cur pfLink vf (vs_LinkState orig)) w)
                           (\<lambda>err. Errorf ''failed to set link state to auto for vf %d: %v'' [FInt vf, FErr err])
                           (\<lambda>w. (None, w))))))))"

section \<open>ADD and DEL\<close>

text \<open>The deferred function of \<open>CmdAdd\<close>: it runs when the outer \<open>err\<close> is set. Only a panic of its own
  changes what the caller sees.\<close>

definition undo_add :: "'w netlink \<Rightarrow> NetNS \<Rightarrow> NetConf \<Rightarrow> string \<Rightarrow> NetNS \<Rightarrow> 'w \<Rightarrow> go_error option \<times> 'w" where
  "undo_add nl cur conf ifName netns w =
     (let found = ns_Do nl netns (\<lambda>c w. (case nl_LinkByName nl c ifName w of Inl err \<Rightarrow> Some err | Inr _ \<Rightarrow> None, w)) w;
          w1 = (if fst found = None then snd (ReleaseVF nl cur conf ifName netns w) else w)
      in ResetVFConfig nl cur conf w1)"

definition panic_or :: "go_error option \<Rightarrow> go_error \<Rightarrow> go_error" where
  "panic_or r err = (case r of Some (Panic m) \<Rightarrow> Panic m | _ \<Rightarrow> err)"

definition add_failed ::
    "'w netlink \<Rightarrow> NetNS \<Rightarrow> PodRequest \<Rightarrow> NetNS \<Rightarrow> NetConf \<Rightarrow> bool \<Rightarrow> go_error \<Rightarrow> 'w host \<Rightarrow>
     cni_Result result \<times> NetConf \<times> 'w host" where
  "add_failed nl cur req netns conf ipamUsed err h =
     (let w1 = (if ipamUsed then snd (ipam_ExecDel nl (nc_IPAM_Type conf) (rq_Config (pr_CNIReq req)) (kern h)) else kern h);
          (r, w2) = undo_add nl cur conf (pr_IfName req) netns w1
      in (Inl (panic_or r err), conf, h\<lparr>kern := w2\<rparr>))"

text \<open>The IPAM plugin; an error says whether the addresses have to be given back.\<close>

definition ipam_add ::
    "'w netlink \<Rightarrow> PodRequest \<Rightarrow> NetNS \<Rightarrow> NetConf \<Rightarrow> cni_Interface list \<Rightarrow> 'w \<Rightarrow> (bool \<times> go_error + cni_Result) \<times> 'w" where
  "ipam_add nl req netns conf ifaces w =
     (case ipam_ExecAdd nl (nc_IPAM_Type conf) (rq_Config (pr_CNIReq req)) w of
        (Inl err, w1) \<Rightarrow>
          (Inl (False, Errorf ''failed to set up IPAM plugin type %q from the device %q: %v''
                         [FStr (nc_IPAM_Type conf), FStr (nc_Master conf), FErr err]), w1)
      | (Inr r, w1) \<Rightarrow>
          (case ipam_NewResult nl r of
             Inl err \<Rightarrow> (Inl (True, err), w1)
           | Inr res \<Rightarrow>
               if rs_IPs res = [] then (Inl (True, Errorf ''IPAM plugin returned missing IP config'' []), w1)
               else
                 let newResult = res\<lparr>rs_Interfaces := ifaces, rs_IPs := map (\<lambda>ipc. ipc\<lparr>ip_Interface := Some 0\<rparr>) (rs_IPs res)\<rparr>
                 in if nc_DPDKMode conf then (Inr newResult, w1)
                    else (case ns_Do nl netns
                                 (\<lambda>c w. and_then (ipam_ConfigureIface nl c (pr_IfName req) newResult w) id
                                          (\<lambda>w. (None, snd (AnnounceIPs nl c (pr_IfName req) (rs_IPs newResult) w)))) w1 of
                            (Some err, w2) \<Rightarrow> (Inl (True, err), w2)
                          | (None, w2) \<Rightarrow> (Inr newResult, w2))))"

text \<open>From the result of \<open>SetupVF\<close> to the end of \<open>CmdAdd\<close>.\<close>

definition add_finish ::
    "'w os_env \<Rightarrow> 'w netlink \<Rightarrow> NetNS \<Rightarrow> PodRequest \<Rightarrow> NetNS \<Rightarrow> NetConf \<Rightarrow> 'w host \<Rightarrow>
     cni_Result result \<times> NetConf \<times> 'w host" where
  "add_finish env nl cur req netns conf h =
     (let ifaces = [\<lparr>if_Name = pr_IfName req, if_Mac = GetMacAddressForResult conf, if_Sandbox = ns_Path netns\<rparr>];
          ipam = (nc_IPAM_Type conf \<noteq> [])
      in case (if ipam then ipam_add nl req netns conf ifaces (kern h)
               else (Inr \<lparr>rs_CNIVersion = nc_CNIVersion conf, rs_Interfaces = ifaces, rs_IPs = [], rs_Routes = [], rs_DNS = []\<rparr>,
                     kern h)) of
           (Inl (used, err), w) \<Rightarrow> add_failed nl cur req netns conf used err (h\<lparr>kern := w\<rparr>)
         | (Inr result, w) \<Rightarrow>
             (case SaveNetConf env (pr_ContainerId req) (pr_IfName req) conf (h\<lparr>kern := w\<rparr>) of
                (Some err, h1) \<Rightarrow> add_failed nl cur req netns conf ipam (Errorf ''error saving NetConf %q'' [FErr err]) h1
              | (None, h1) \<Rightarrow>
                  (case SaveAllocatedPCI env (nc_DeviceID conf) (pr_Netns req) h1 of
                     (Some err, h2) \<Rightarrow>
                       add_failed nl cur req netns conf ipam
                         (Errorf ''error saving the pci allocation for vf pci address %s: %v'' [FStr (nc_DeviceID conf), FErr err]) h2
                   | (None, h2) \<Rightarrow> (Inr result, conf, h2))))"

text \<open>The configuration in the result is \<open>req.CNIConf\<close>, which \<open>CmdAdd\<close> changes in place. An error of
  \<open>ApplyVFConfig\<close> goes to a variable of its own, so the deferred function does nothing then.\<close>

definition sriov_CmdAdd ::
    "'w os_env \<Rightarrow> 'w netlink \<Rightarrow> NetNS \<Rightarrow> PodRequest \<Rightarrow> 'w host \<Rightarrow> cni_Result result \<times> NetConf \<times> 'w host" where
  "sriov_CmdAdd env nl cur req h =
     (case LoadConf env (pr_CNIConf req) h of
        (Inl err, h1) \<Rightarrow> (Inl (Errorf ''SRIOV-CNI failed to load netconf: %v'' [FErr err]), pr_CNIConf req, h1)
      | (Inr n, h1) \<Rightarrow>
          let conf = n\<lparr>nc_MAC := to_lower (if nc_RuntimeMac n \<noteq> [] then nc_RuntimeMac n else nc_MAC n)\<rparr> in
          (case ns_GetNS env (pr_Netns req) (kern h1) of
             Inl err \<Rightarrow> (Inl (Errorf ''failed to open netns %v: %v'' [FStr ''%!q(<nil>)'', FErr err]), conf, h1)
           | Inr netns \<Rightarrow>
               (case ApplyVFConfig nl cur conf (kern h1) of
                  (Some err, w) \<Rightarrow>
                    (Inl (unless_panic (\<lambda>err. Errorf ''SRIOV-CNI failed to configure VF %q'' [FErr err]) err), conf, h1\<lparr>kern := w\<rparr>)
                | (None, w) \<Rightarrow>
                    (case (if nc_DPDKMode conf then ((None, w), conf) else SetupVF nl cur conf (pr_IfName req) netns w) of
                       ((Some err, w1), conf1) \<Rightarrow>
                         add_failed nl cur req netns conf1 False
                           (Errorf ''failed to set up pod interface %q from the device %q: %v''
                              [FStr (pr_IfName req), FStr (nc_Master conf1), FErr err]) (h1\<lparr>kern := w1\<rparr>)
                     | ((None, w1), conf1) \<Rightarrow> add_finish env nl cur req netns conf1 (h1\<lparr>kern := w1\<rparr>)))))"

text \<open>\<open>CmdDel\<close> from the point where the outer \<open>err\<close> can no longer be set before the allocation is
  deleted. The answer comes with whether that error was set, the index for \<open>req.CNIConf.VFID\<close> if it is
  written, and the host.\<close>

definition del_release ::
    "'w os_env \<Rightarrow> 'w netlink \<Rightarrow> NetNS \<Rightarrow> PodRequest \<Rightarrow> NetConf \<Rightarrow> 'w host \<Rightarrow> bool result \<times> bool \<times> int option \<times> 'w host" where
  "del_release env nl cur req netConf h =
     (if pr_Netns req = [] then (Inr False, False, None, h)
      else (case GetVfid (os_sysfs env (kern h)) (nc_DeviceID netConf) (nc_Master netConf) of
              Inl err \<Rightarrow> (Inl (Errorf ''cmdDel() error obtaining VF ID: %q'' [FErr err]), False, None, h)
            | Inr _ \<Rightarrow>
                (case ResetVFConfig nl cur netConf (kern h) of
                   (Some err, w) \<Rightarrow>
                     (Inl (unless_panic (\<lambda>err. Errorf ''cmdDel() error reseting VF: %q'' [FErr err]) err), False, None, h\<lparr>kern := w\<rparr>)
                 | (None, w) \<Rightarrow>
                     (case (if nc_DPDKMode netConf then (Inr True, w)
                            else (case ns_GetNS env (pr_Netns req) w of
                                    Inl err \<Rightarrow>
                                      (if ns_PathNotExist env err then Inr False
                                       else Inl (Errorf ''failed to open netns %s: %q'' [FStr ''%!s(<nil>)'', FErr err]), w)
                                  | Inr netns \<Rightarrow>
                                      (case ReleaseVF nl cur netConf (pr_IfName req) netns w of
                                         (Some err, w1) \<Rightarrow> (Inl err, w1)
                                       | (None, w1) \<Rightarrow> (Inr True, w1)))) of
                        (Inl err, w1) \<Rightarrow> (Inl err, False, None, h\<lparr>kern := w1\<rparr>)
                      | (Inr False, w1) \<Rightarrow> (Inr False, False, None, h\<lparr>kern := w1\<rparr>)
                      | (Inr True, w1) \<Rightarrow>
                          (case DeleteAllocatedPCI env (nc_DeviceID netConf) (h\<lparr>kern := w1\<rparr>) of
                             (Some err, h1) \<Rightarrow>
                               (Inl (Errorf ''error cleaning the pci allocation for vf pci address %s: %v''
                                       [FStr (nc_DeviceID netConf), FErr err]), True, Some (nc_VFID netConf), h1)
                           | (None, h1) \<Rightarrow> (Inr True, False, Some (nc_VFID netConf), h1))))))"

definition sriov_CmdDel ::
    "'w os_env \<Rightarrow> 'w netlink \<Rightarrow> NetNS \<Rightarrow> PodRequest \<Rightarrow> 'w host \<Rightarrow> bool result \<times> NetConf \<times> 'w host" where
  "sriov_CmdDel env nl cur req h =
     (case LoadConfFromCache env (pr_ContainerId req) (pr_IfName req) h of
        Inl err \<Rightarrow> (Inr False, pr_CNIConf req, h)
      | Inr (netConf, cRefPath) \<Rightarrow>
          (case (if nc_IPAM_Type netConf \<noteq> [] then ipam_ExecDel nl (nc_IPAM_Type netConf) (rq_Config (pr_CNIReq req)) (kern h)
                 else (None, kern h)) of
             (Some err, w) \<Rightarrow> (Inl err, pr_CNIConf req, h\<lparr>kern := w\<rparr>)
           | (None, w) \<Rightarrow>
               (case del_release env nl cur req netConf (h\<lparr>kern := w\<rparr>) of
                  (r, errSet, vfid, h1) \<Rightarrow>
                    (r, (case vfid of Some i \<Rightarrow> (pr_CNIConf req)\<lparr>nc_VFID := i\<rparr> | None \<Rightarrow> pr_CNIConf req),
                     if errSet then h1 else snd (CleanCachedNetConf env cRefPath h1)))))"

section \<open>Files\<close>

lemma and_then_None [simp]:
  "and_then step wrap rest = (None, w') \<longleftrightarrow> (\<exists>w1. step = (None, w1) \<and> rest w1 = (None, w'))"
  by (auto simp: and_then_def split: prod.splits option.splits)

lemma add_failed_simps [simp]:
  "fst (add_failed nl cur req netns conf used err h) \<noteq> Inr r"
  "alloc_files (snd (snd (add_failed nl cur req netns conf used err h))) = alloc_files h"
  "conf_files (snd (snd (add_failed nl cur req netns conf used err h))) = conf_files h"
  by (simp_all add: add_failed_def Let_def split_beta)

lemma SaveNetConf_alloc [simp]:
  "alloc_files (snd (SaveNetConf env cid i conf h)) = alloc_files h" "kern (snd (SaveNetConf env cid i conf h)) = kern h"
  by (auto simp: SaveNetConf_def saveScratchNetConf_def split: option.splits)

lemma SaveAllocatedPCI_other:
  "p \<noteq> alloc_path a \<Longrightarrow> map_get (alloc_files (snd (SaveAllocatedPCI env a ns h))) p = map_get (alloc_files h) p"
  "conf_files (snd (SaveAllocatedPCI env a ns h)) = conf_files h"
  by (auto simp: SaveAllocatedPCI_def Let_def split: option.splits)

lemma DeleteAllocatedPCI_other:
  "p \<noteq> alloc_path a \<Longrightarrow> map_get (alloc_files (snd (DeleteAllocatedPCI env a h))) p = map_get (alloc_files h) p"
  by (auto simp: DeleteAllocatedPCI_def Let_def split: option.splits)

lemma IsAllocated_other:
  "p \<noteq> alloc_path a \<Longrightarrow> map_get (alloc_files (snd (IsAllocated env a h))) p = map_get (alloc_files h) p"
  using DeleteAllocatedPCI_other [of p a env h]
  by (auto simp: IsAllocated_def Let_def split: option.splits sum.splits prod.splits)

lemma IsAllocated_live:
  assumes "map_get (alloc_files h) (alloc_path a) = Some ns" "ns_alive env ns (kern h)"
  shows "fst (IsAllocated env a h) \<noteq> Inr False" "snd (IsAllocated env a h) = h"
  using assms by (auto simp: IsAllocated_def Let_def ns_alive_def split: option.splits sum.splits)

lemma LoadConf_alloc:
  assumes "map_get (alloc_files h) (alloc_path a) = Some ns" "ns_alive env ns (kern h)"
  shows "map_get (alloc_files (snd (LoadConf env n h))) (alloc_path a) = Some ns"
proof (cases "resolve_device (os_sysfs env (kern h)) n")
  case (Inr n1)
  then show ?thesis
    using assms IsAllocated_live(2) [OF assms] IsAllocated_other [of "alloc_path a" "nc_DeviceID n1" env h]
    by (cases "nc_DeviceID n1 = a") (simp_all add: LoadConf_host)
qed (use assms in \<open>simp add: LoadConf_host\<close>)

lemma CleanCachedNetConf_alloc [simp]: "alloc_files (snd (CleanCachedNetConf env p h)) = alloc_files h"
  by (auto simp: CleanCachedNetConf_def split: option.splits)

lemma Delete_alloc_eq:
  "DeleteAllocatedPCI env a h = (r, h') \<Longrightarrow>
   alloc_files h' = alloc_files h \<or> alloc_files h' = map_del (alloc_path a) (alloc_files h)"
  by (auto simp: DeleteAllocatedPCI_def Let_def split: option.splits)

lemma Save_alloc_eq:
  "SaveAllocatedPCI env a ns h = (r, h') \<Longrightarrow>
   alloc_files h' = alloc_files h \<or> (\<exists>v. alloc_files h' = map_put (alloc_path a) v (alloc_files h))"
  by (auto simp: SaveAllocatedPCI_def Let_def split: option.splits if_splits)

lemma SaveNetConf_alloc_eq: "SaveNetConf env cid i conf h = (r, h') \<Longrightarrow> alloc_files h' = alloc_files h"
  using SaveNetConf_alloc(1) [of env cid i conf h] by simp

lemma add_failed_eq:
  "add_failed nl cur req netns conf used err h = (r, conf', h') \<Longrightarrow>
   alloc_files h' = alloc_files h \<and> conf_files h' = conf_files h \<and> conf' = conf \<and> (\<exists>e. r = Inl e)"
  by (auto simp: add_failed_def Let_def split: prod.splits)

lemma del_release_other:
  assumes "del_release env nl cur req netConf h = (r, errSet, vfid, h')" "p \<noteq> alloc_path (nc_DeviceID netConf)"
  shows "map_get (alloc_files h') p = map_get (alloc_files h) p"
  using assms
  by (auto simp: del_release_def dest!: Delete_alloc_eq split: sum.splits prod.splits option.splits bool.splits if_splits)

lemma SetupVF_device: "SetupVF nl cur conf i netns w = (r, conf') \<Longrightarrow> nc_DeviceID conf' = nc_DeviceID conf"
  by (auto simp: SetupVF_def Let_def split: sum.splits)

lemma add_finish_other:
  assumes "add_finish env nl cur req netns conf h = (r, conf', h')" "p \<noteq> alloc_path (nc_DeviceID conf)"
  shows "map_get (alloc_files h') p = map_get (alloc_files h) p"
  using assms
  by (auto simp: add_finish_def Let_def dest!: Save_alloc_eq SaveNetConf_alloc_eq add_failed_eq
      split: sum.splits prod.splits option.splits if_splits)

lemma add_finish_success:
  assumes "add_finish env nl cur req netns conf h = (Inr result, conf', h')"
  shows "conf' = conf \<and> map_get (alloc_files h') (alloc_path (nc_DeviceID conf)) = Some (pr_Netns req) \<and>
    map_get (conf_files h') (conf_path (pr_ContainerId req) (pr_IfName req)) = Some (Saved (marshalled conf))"
  using assms
  by (auto simp: add_finish_def Let_def SaveAllocatedPCI_def SaveNetConf_def saveScratchNetConf_def dest!: add_failed_eq
      split: sum.splits prod.splits option.splits if_splits)

lemma CmdAdd_loaded:
  assumes "sriov_CmdAdd env nl cur req h = (r, conf, h')" "LoadConf env (pr_CNIConf req) h = (Inr n, h1)"
  shows "p \<noteq> alloc_path (nc_DeviceID n) \<Longrightarrow> map_get (alloc_files h') p = map_get (alloc_files h1) p"
  using assms
  by (auto simp: sriov_CmdAdd_def Let_def dest!: add_failed_eq SetupVF_device dest: add_finish_other
      split: sum.splits prod.splits option.splits if_splits)

lemma CmdAdd_rejected:
  "sriov_CmdAdd env nl cur req h = (r, conf, h') \<Longrightarrow> LoadConf env (pr_CNIConf req) h = (Inl err, h1) \<Longrightarrow> h' = h1 \<and> (\<exists>e. r = Inl e)"
  by (auto simp: sriov_CmdAdd_def)

lemma CmdAdd_success_cases:
  assumes "sriov_CmdAdd env nl cur req h = (Inr result, conf, h')"
  obtains n h1 where "LoadConf env (pr_CNIConf req) h = (Inr n, h1)" "nc_DeviceID conf = nc_DeviceID n"
    "map_get (alloc_files h') (alloc_path (nc_DeviceID conf)) = Some (pr_Netns req)"
    "map_get (conf_files h') (conf_path (pr_ContainerId req) (pr_IfName req)) = Some (Saved (marshalled conf))"
  using assms
  by (auto simp: sriov_CmdAdd_def Let_def dest!: add_failed_eq add_finish_success SetupVF_device
      split: sum.splits prod.splits option.splits if_splits)

section \<open>One live pod per virtual function\<close>

datatype cni_op = AddOp PodRequest | DelOp PodRequest

text \<open>One operation: the device that was handed out, and the host afterwards.\<close>

fun sriov_step :: "'w os_env \<Rightarrow> 'w netlink \<Rightarrow> NetNS \<Rightarrow> cni_op \<Rightarrow> 'w host \<Rightarrow> string option \<times> 'w host" where
  "sriov_step env nl cur (AddOp req) h =
     (case sriov_CmdAdd env nl cur req h of
        (Inr _, conf, h') \<Rightarrow> (Some (nc_DeviceID conf), h')
      | (Inl _, _, h') \<Rightarrow> (None, h'))"
| "sriov_step env nl cur (DelOp req) h = (None, snd (snd (sriov_CmdDel env nl cur req h)))"

text \<open>The operation is the DEL of the pod that has the device.\<close>

fun deletes :: "'w os_env \<Rightarrow> string \<Rightarrow> cni_op \<Rightarrow> 'w host \<Rightarrow> bool" where
  "deletes env dev (AddOp req) h = False"
| "deletes env dev (DelOp req) h =
     (case LoadConfFromCache env (pr_ContainerId req) (pr_IfName req) h of
        Inl _ \<Rightarrow> False | Inr (netConf, _) \<Rightarrow> nc_DeviceID netConf = dev)"

text \<open>The devices handed out by a sequence of operations, and that the pod in \<open>ns\<close> lives through all of
  them and is not deleted.\<close>

fun handed_out :: "'w os_env \<Rightarrow> 'w netlink \<Rightarrow> NetNS \<Rightarrow> cni_op list \<Rightarrow> 'w host \<Rightarrow> string list" where
  "handed_out env nl cur [] h = []"
| "handed_out env nl cur (op # ops) h =
     (case sriov_step env nl cur op h of
        (Some dev, h') \<Rightarrow> dev # handed_out env nl cur ops h'
      | (None, h') \<Rightarrow> handed_out env nl cur ops h')"

fun lives_through :: "'w os_env \<Rightarrow> 'w netlink \<Rightarrow> NetNS \<Rightarrow> string \<Rightarrow> string \<Rightarrow> cni_op list \<Rightarrow> 'w host \<Rightarrow> bool" where
  "lives_through env nl cur dev ns [] h = True"
| "lives_through env nl cur dev ns (op # ops) h =
     (ns_alive env ns (kern h) \<and> \<not> deletes env dev op h \<and>
      lives_through env nl cur dev ns ops (snd (sriov_step env nl cur op h)))"

lemma step_keeps_lock:
  assumes lock: "map_get (alloc_files h) (alloc_path dev) = Some ns"
    and alive: "ns_alive env ns (kern h)" and "\<not> deletes env dev op h"
    and step: "sriov_step env nl cur op h = (out, h')"
  shows "map_get (alloc_files h') (alloc_path dev) = Some ns \<and> out \<noteq> Some dev"
proof (cases op)
  case (AddOp req)
  obtain r conf h2 where add: "sriov_CmdAdd env nl cur req h = (r, conf, h2)" by (metis prod_cases3)
  then have out: "h' = h2" "out = (case r of Inr _ \<Rightarrow> Some (nc_DeviceID conf) | Inl _ \<Rightarrow> None)"
    using step AddOp by (auto split: sum.splits)
  obtain l h1 where load: "LoadConf env (pr_CNIConf req) h = (l, h1)" by (metis prod.exhaust)
  have h1: "map_get (alloc_files h1) (alloc_path dev) = Some ns"
    using LoadConf_alloc [OF lock alive, of "pr_CNIConf req"] load by simp
  show ?thesis
  proof (cases l)
    case (Inl err)
    then show ?thesis using CmdAdd_rejected [OF add, of err h1] load h1 out by auto
  next
    case (Inr n)
    have "held_by env (nc_DeviceID n) h = None" using LoadConf_free load Inr by blast
    then have "nc_DeviceID n \<noteq> dev" using lock alive by (auto simp: held_by_def)
    moreover have "nc_DeviceID conf = nc_DeviceID n" if "r = Inr result" for result
      using CmdAdd_success_cases [of env nl cur req h result conf h2] add load Inr that by force
    ultimately show ?thesis
      using CmdAdd_loaded [OF add load [unfolded Inr], of "alloc_path dev"] h1 out by (auto split: sum.splits)
  qed
next
  case (DelOp req)
  have other: "nc_DeviceID netConf \<noteq> dev"
    if "LoadConfFromCache env (pr_ContainerId req) (pr_IfName req) h = Inr (netConf, p)" for netConf p
    using assms(3) that DelOp by simp
  have "map_get (alloc_files (snd (snd (sriov_CmdDel env nl cur req h)))) (alloc_path dev) = Some ns"
    using lock other
    by (auto simp: sriov_CmdDel_def dest!: del_release_other [where p = "alloc_path dev"]
        split: sum.splits prod.splits option.splits if_splits)
  then show ?thesis using step DelOp by auto
qed

end
