(* ===== verification/Sriov_Props.thy ===== *)
theory Sriov_Props
  imports Sriov
begin

text \<open>
  Properties of the SR-IOV manager that rest on what the kernel does: the laws of netlink as the manager
  relies on them (a locale, interpreted on a small simulated kernel), the way of a virtual function into
  a pod and back, and what DEL leaves behind.
\<close>

section \<open>The laws of netlink\<close>

text \<open>A view of the kernel: the link with a given index in a given namespace.\<close>

type_synonym link_view = "nat \<Rightarrow> int \<Rightarrow> Link option"

definition view_set :: "nat \<Rightarrow> int \<Rightarrow> Link option \<Rightarrow> link_view \<Rightarrow> link_view" where
  "view_set fd i l v = (\<lambda>a j. if a = fd \<and> j = i then l else v a j)"

text \<open>A netlink operation that changes one link: on success it did, else nothing changed.\<close>

definition changes_link ::
    "('w \<Rightarrow> link_view) \<Rightarrow> (NetNS \<Rightarrow> Link \<Rightarrow> 'w \<Rightarrow> go_error option \<times> 'w) \<Rightarrow> (Link \<Rightarrow> Link) \<Rightarrow> bool" where
  "changes_link view op f \<longleftrightarrow>
     (\<forall>ns l w w'. op ns l w = (None, w') \<longrightarrow>
        (\<exists>l0. view w (ns_Fd ns) (lk_Index l) = Some l0 \<and>
              view w' = view_set (ns_Fd ns) (lk_Index l) (Some (f l0)) (view w))) \<and>
     (\<forall>ns l w w' e. op ns l w = (Some e, w') \<longrightarrow> view w' = view w)"

definition netlink_ok :: "'w netlink \<Rightarrow> ('w \<Rightarrow> link_view) \<Rightarrow> bool" where
  "netlink_ok nl view \<longleftrightarrow>
     (\<forall>w a i l. view w a i = Some l \<longrightarrow> lk_Index l = i) \<and>
     (\<forall>w a i j l l'. view w a i = Some l \<longrightarrow> view w a j = Some l' \<longrightarrow> lk_Name l = lk_Name l' \<longrightarrow> i = j) \<and>
     (\<forall>ns name w l. nl_LinkByName nl ns name w = Inr l \<longrightarrow> view w (ns_Fd ns) (lk_Index l) = Some l \<and> lk_Name l = name) \<and>
     changes_link view (nl_LinkSetDown nl) (\<lambda>l. l\<lparr>lk_Up := False\<rparr>) \<and>
     changes_link view (nl_LinkSetUp nl) (\<lambda>l. l\<lparr>lk_Up := True\<rparr>) \<and>
     (\<forall>name. changes_link view (\<lambda>ns l. nl_LinkSetName nl ns l name) (\<lambda>l. l\<lparr>lk_Name := name\<rparr>)) \<and>
     (\<forall>name. changes_link view (\<lambda>ns l. nl_LinkSetAlias nl ns l name) (\<lambda>l. l\<lparr>lk_Alias := name\<rparr>)) \<and>
     (\<forall>hw. changes_link view (\<lambda>ns l. nl_LinkSetHardwareAddr nl ns l hw) (\<lambda>l. l\<lparr>lk_HardwareAddr := hw\<rparr>)) \<and>
     (\<forall>ns l fd w w'. nl_LinkSetNsFd nl ns l fd w = (None, w') \<longrightarrow> fd \<noteq> ns_Fd ns \<longrightarrow> view w fd (lk_Index l) = None \<longrightarrow>
        (\<exists>l0. view w (ns_Fd ns) (lk_Index l) = Some l0 \<and>
              view w' = view_set fd (lk_Index l) (Some (l0\<lparr>lk_Up := False\<rparr>))
                          (view_set (ns_Fd ns) (lk_Index l) None (view w)))) \<and>
     (\<forall>ns p w. view (snd (nl_WriteProc nl ns p w)) = view w)"

text \<open>The contract as the manager uses it, step by step.\<close>

locale netlink_kernel =
  fixes nl :: "'w netlink" and view :: "'w \<Rightarrow> link_view"
  assumes ok: "netlink_ok nl view"
begin

lemma index: "view w a i = Some l \<Longrightarrow> lk_Index l = i"
  using ok by (simp add: netlink_ok_def)

lemma unique: "view w a i = Some l \<Longrightarrow> view w a j = Some l' \<Longrightarrow> lk_Name l = lk_Name l' \<Longrightarrow> i = j"
  using ok unfolding netlink_ok_def by meson

lemma by_name: "nl_LinkByName nl ns name w = Inr l \<Longrightarrow> view w (ns_Fd ns) (lk_Index l) = Some l \<and> lk_Name l = name"
  using ok by (simp add: netlink_ok_def)

lemma changes:
  "changes_link view (nl_LinkSetDown nl) (\<lambda>l. l\<lparr>lk_Up := False\<rparr>)"
  "changes_link view (nl_LinkSetUp nl) (\<lambda>l. l\<lparr>lk_Up := True\<rparr>)"
  "changes_link view (\<lambda>ns l. nl_LinkSetName nl ns l name) (\<lambda>l. l\<lparr>lk_Name := name\<rparr>)"
  "changes_link view (\<lambda>ns l. nl_LinkSetHardwareAddr nl ns l hw) (\<lambda>l. l\<lparr>lk_HardwareAddr := hw\<rparr>)"
  "changes_link view (\<lambda>ns l. nl_LinkSetAlias nl ns l name) (\<lambda>l. l\<lparr>lk_Alias := name\<rparr>)"
  using ok unfolding netlink_ok_def by blast+

lemma set_down: "nl_LinkSetDown nl ns l w = (None, w') \<Longrightarrow> view w (ns_Fd ns) (lk_Index l) = Some l0 \<Longrightarrow>
    view w' = view_set (ns_Fd ns) (lk_Index l) (Some (l0\<lparr>lk_Up := False\<rparr>)) (view w)"
  using changes(1) unfolding changes_link_def by (metis option.inject)

lemma set_up: "nl_LinkSetUp nl ns l w = (None, w') \<Longrightarrow> view w (ns_Fd ns) (lk_Index l) = Some l0 \<Longrightarrow>
    view w' = view_set (ns_Fd ns) (lk_Index l) (Some (l0\<lparr>lk_Up := True\<rparr>)) (view w)"
  using changes(2) unfolding changes_link_def by (metis option.inject)

lemma set_name: "nl_LinkSetName nl ns l name w = (None, w') \<Longrightarrow> view w (ns_Fd ns) (lk_Index l) = Some l0 \<Longrightarrow>
    view w' = view_set (ns_Fd ns) (lk_Index l) (Some (l0\<lparr>lk_Name := name\<rparr>)) (view w)"
  using changes(3) [of name] unfolding changes_link_def by (metis option.inject)

lemma set_alias: "nl_LinkSetAlias nl ns l name w = (None, w') \<Longrightarrow> view w (ns_Fd ns) (lk_Index l) = Some l0 \<Longrightarrow>
    view w' = view_set (ns_Fd ns) (lk_Index l) (Some (l0\<lparr>lk_Alias := name\<rparr>)) (view w)"
  using changes(5) [of name] unfolding changes_link_def by (metis option.inject)

lemma moves:
  "\<forall>ns l fd w w'. nl_LinkSetNsFd nl ns l fd w = (None, w') \<longrightarrow> fd \<noteq> ns_Fd ns \<longrightarrow> view w fd (lk_Index l) = None \<longrightarrow>
     (\<exists>l0. view w (ns_Fd ns) (lk_Index l) = Some l0 \<and>
       view w' = view_set fd (lk_Index l) (Some (l0\<lparr>lk_Up := False\<rparr>)) (view_set (ns_Fd ns) (lk_Index l) None (view w)))"
  using ok unfolding netlink_ok_def by (elim conjE)

lemma set_ns: "nl_LinkSetNsFd nl ns l fd w = (None, w') \<Longrightarrow> fd \<noteq> ns_Fd ns \<Longrightarrow> view w fd (lk_Index l) = None \<Longrightarrow>
    view w (ns_Fd ns) (lk_Index l) = Some l0 \<Longrightarrow>
    view w' = view_set fd (lk_Index l) (Some (l0\<lparr>lk_Up := False\<rparr>)) (view_set (ns_Fd ns) (lk_Index l) None (view w))"
  by (drule moves [rule_format]) auto

lemma set_mac:
  "nl_LinkSetHardwareAddr nl ns l hw w = (e, w') \<Longrightarrow> view w (ns_Fd ns) (lk_Index l) = Some l0 \<Longrightarrow>
    view w' = (if e = None then view_set (ns_Fd ns) (lk_Index l) (Some (l0\<lparr>lk_HardwareAddr := hw\<rparr>)) (view w) else view w)"
  using changes(4) [of hw] unfolding changes_link_def by (metis option.inject option.collapse)

end

text \<open>What a loop of attempts keeps and what its success gives.\<close>

lemma Retry_success:
  assumes "\<And>w e w'. I w \<Longrightarrow> f w = (Some e, w') \<Longrightarrow> I w'" "\<And>w w'. I w \<Longrightarrow> f w = (None, w') \<Longrightarrow> Q w'"
  shows "I w \<Longrightarrow> Retry (Suc n) f w = (None, w') \<Longrightarrow> Q w'"
proof (induction n arbitrary: w)
  case 0
  then show ?case using assms(2) by (auto split: prod.splits option.splits if_splits)
next
  case (Suc n)
  obtain e w1 where f: "f w = (e, w1)" by (metis prod.exhaust)
  show ?case
  proof (cases e)
    case None
    then show ?thesis using Suc.prems assms(2) f by auto
  next
    case (Some err)
    moreover have "I w1" using assms(1) Suc.prems(1) f Some by blast
    ultimately show ?thesis using Suc f by (auto split: if_splits)
  qed
qed

lemma view_set_simps [simp]:
  "view_set fd i l v fd i = l"
  "view_set fd i l (view_set fd i l' v) = view_set fd i l v"
  "a \<noteq> fd \<Longrightarrow> view_set fd i l v a j = v a j"
  by (auto simp: view_set_def fun_eq_iff)

lemma view_set_swap: "a \<noteq> b \<Longrightarrow> view_set a i l (view_set b i l' v) = view_set b i l' (view_set a i l v)"
  by (auto simp: view_set_def fun_eq_iff)

lemma and_then_ok:
  "and_then step wrap rest = (None, w') \<Longrightarrow> (\<And>w1. step = (None, w1) \<Longrightarrow> rest w1 = (None, w') \<Longrightarrow> P) \<Longrightarrow> P"
  by auto

context netlink_kernel
begin

lemma set_effective_mac:
  assumes mac: "SetVFEffectiveMAC nl cur name mac w = (None, w')"
    and l0: "view w (ns_Fd cur) i = Some l0" "lk_Name l0 = name"
  obtains hw where "view w' = view_set (ns_Fd cur) i (Some (l0\<lparr>lk_HardwareAddr := hw\<rparr>)) (view w)" "HardwareAddr_String hw = mac"
proof -
  define I where "I = (\<lambda>w1. \<exists>hw. view w1 = view_set (ns_Fd cur) i (Some (l0\<lparr>lk_HardwareAddr := hw\<rparr>)) (view w))"
  obtain hwaddr org where org: "ParseMAC mac = Inr hwaddr" "nl_LinkByName nl cur name w = Inr org"
    using mac by (auto simp: SetVFEffectiveMAC_def split: sum.splits)
  have idx: "lk_Index org = i"
    using by_name [OF org(2)] unique [OF l0(1)] l0(2) by metis
  have "view w = view_set (ns_Fd cur) i (Some (l0\<lparr>lk_HardwareAddr := lk_HardwareAddr l0\<rparr>)) (view w)"
    using l0(1) by (auto simp: view_set_def fun_eq_iff)
  then have init: "I w" unfolding I_def by blast
  have step: "I w1'" if inv: "I w1" and set: "nl_LinkSetHardwareAddr nl cur org hwaddr w1 = (e, w1')" for w1 e w1'
  proof -
    obtain hw where v: "view w1 = view_set (ns_Fd cur) i (Some (l0\<lparr>lk_HardwareAddr := hw\<rparr>)) (view w)"
      using inv by (auto simp: I_def)
    have "view w1 (ns_Fd cur) (lk_Index org) = Some (l0\<lparr>lk_HardwareAddr := hw\<rparr>)" by (simp add: v idx)
    from set_mac [OF set this] show ?thesis by (auto simp: I_def v idx)
  qed
  have found: "HardwareAddr_String (lk_HardwareAddr l) = HardwareAddr_String hw"
    if "nl_LinkByName nl cur name w1 = Inr l" "view w1 = view_set (ns_Fd cur) i (Some (l0\<lparr>lk_HardwareAddr := hw\<rparr>)) (view w)" for w1 l hw
  proof -
    have "lk_Index l = i" using by_name [OF that(1)] unique [of w1 "ns_Fd cur" "lk_Index l" l i] that(2) l0(2) by simp
    then have "l0\<lparr>lk_HardwareAddr := hw\<rparr> = l" using by_name [OF that(1)] that(2) by simp
    then show ?thesis by (metis Link.select_convs(3) Link.surjective Link.update_convs(3))
  qed
  define f where "f = (\<lambda>w. case nl_LinkSetHardwareAddr nl cur org hwaddr w of
      (Some err, w') \<Rightarrow> (Some err, w')
    | (None, w') \<Rightarrow>
        (case nl_LinkByName nl cur name w' of
           Inl err \<Rightarrow> (Some (Errorf ''failed to get netlink device with name %s: %q'' [FStr (lk_Name org), FErr err]), w')
         | Inr linkObj \<Rightarrow>
             if HardwareAddr_String (lk_HardwareAddr linkObj) \<noteq> mac
             then (Some (Errorf ''effective mac address is different from requested one'' []), w') else (None, w')))"
  have retry: "Retry (Suc 19) f w = (None, w')"
    using mac by (simp add: SetVFEffectiveMAC_def org f_def)
  have keep: "I w2" if "I w1" "f w1 = (e, w2)" for w1 e w2
    using that step by (auto simp: f_def split: prod.splits option.splits sum.splits if_splits)
  have good: "\<exists>hw. view w2 = view_set (ns_Fd cur) i (Some (l0\<lparr>lk_HardwareAddr := hw\<rparr>)) (view w) \<and> HardwareAddr_String hw = mac"
    if run: "I w1" "f w1 = (None, w2)" for w1 w2
  proof -
    obtain l where l: "nl_LinkByName nl cur name w2 = Inr l" "HardwareAddr_String (lk_HardwareAddr l) = mac"
      using run(2) by (auto simp: f_def split: prod.splits option.splits sum.splits if_splits)
    obtain hw where "view w2 = view_set (ns_Fd cur) i (Some (l0\<lparr>lk_HardwareAddr := hw\<rparr>)) (view w)"
      using keep [OF run] by (auto simp: I_def)
    then show ?thesis using found [OF l(1)] l(2) by auto
  qed
  have "\<exists>hw. view w' = view_set (ns_Fd cur) i (Some (l0\<lparr>lk_HardwareAddr := hw\<rparr>)) (view w) \<and> HardwareAddr_String hw = mac"
    by (rule Retry_success [of I f, OF keep good init retry])
  then show thesis using that by blast
qed

end

context netlink_kernel
begin

lemma view_proc: "view (snd (EnableArpAndNdiscNotify nl cur i w)) = view w"
proof -
  have "view (snd (nl_WriteProc nl ns p w)) = view w" for ns p w
    using ok by (simp add: netlink_ok_def)
  then have "nl_WriteProc nl ns p w = (e, w') \<Longrightarrow> view w' = view w" for ns p w e w'
    by (metis snd_conv)
  then show ?thesis
    by (auto simp: EnableArpAndNdiscNotify_def and_then_def split: prod.splits option.splits)
qed

lemma setup_in_pod_view:
  assumes run: "setup_in_pod nl conf pod linkObj netns w = (None, w')"
    and l0: "view w (ns_Fd netns) (lk_Index linkObj) = Some l0"
  obtains hw where "view w' = view_set (ns_Fd netns) (lk_Index linkObj)
        (Some (l0\<lparr>lk_Name := pod, lk_HardwareAddr := hw, lk_Up := True\<rparr>)) (view w)"
    "if nc_MAC conf = [] then hw = lk_HardwareAddr l0 else HardwareAddr_String hw = nc_MAC conf"
proof -
  obtain w1 w2 where steps: "nl_LinkSetName nl netns linkObj pod w = (None, w1)"
      "(if nc_MAC conf \<noteq> []
        then SetVFEffectiveMAC nl netns pod (nc_MAC conf) (snd (EnableArpAndNdiscNotify nl netns pod w1))
        else (None, snd (EnableArpAndNdiscNotify nl netns pod w1))) = (None, w2)"
      "nl_LinkSetUp nl netns linkObj w2 = (None, w')"
    using run by (auto simp: setup_in_pod_def Let_def)
  let ?l1 = "l0\<lparr>lk_Name := pod\<rparr>"
  have v1: "view (snd (EnableArpAndNdiscNotify nl netns pod w1)) =
      view_set (ns_Fd netns) (lk_Index linkObj) (Some ?l1) (view w)"
    using set_name [OF steps(1) l0] by (simp add: view_proc)
  obtain hw where v2: "view w2 = view_set (ns_Fd netns) (lk_Index linkObj) (Some (?l1\<lparr>lk_HardwareAddr := hw\<rparr>)) (view w)"
    and hw: "if nc_MAC conf = [] then hw = lk_HardwareAddr l0 else HardwareAddr_String hw = nc_MAC conf"
  proof (cases "nc_MAC conf = []")
    case True
    then show thesis using that [of "lk_HardwareAddr l0"] steps(2) v1 by simp
  next
    case False
    with steps(2) have "SetVFEffectiveMAC nl netns pod (nc_MAC conf) (snd (EnableArpAndNdiscNotify nl netns pod w1)) = (None, w2)"
      by simp
    from set_effective_mac [OF this, of "lk_Index linkObj" ?l1] v1 False show thesis using that by auto
  qed
  have "view w' = view_set (ns_Fd netns) (lk_Index linkObj) (Some (?l1\<lparr>lk_HardwareAddr := hw, lk_Up := True\<rparr>)) (view w)"
    using set_up [OF steps(3), of "?l1\<lparr>lk_HardwareAddr := hw\<rparr>"] v2 by simp
  then show thesis using that [of hw] hw by simp
qed

lemma SetupVF_view:
  assumes run: "SetupVF nl cur conf pod netns w = ((None, w'), conf')"
    and link: "nl_LinkByName nl cur (vs_HostIFName (nc_OrigVfState conf)) w = Inr l"
    and free: "view w (ns_Fd netns) (lk_Index l) = None" and other: "ns_Fd netns \<noteq> ns_Fd cur"
  obtains hw where "view w' = view_set (ns_Fd netns) (lk_Index l)
        (Some (l\<lparr>lk_Name := pod, lk_HardwareAddr := hw, lk_Up := True\<rparr>)) (view_set (ns_Fd cur) (lk_Index l) None (view w))"
    "if nc_MAC conf = [] then hw = lk_HardwareAddr l else HardwareAddr_String hw = nc_MAC conf"
    "conf' = conf\<lparr>nc_OrigVfState := (nc_OrigVfState conf)\<lparr>vs_EffectiveMAC := HardwareAddr_String (lk_HardwareAddr l)\<rparr>\<rparr>"
proof -
  obtain w1 w2 w3 where steps: "nl_LinkSetDown nl cur l w = (None, w1)"
      "nl_LinkSetName nl cur l (temp_name l) w1 = (None, w2)" "nl_LinkSetNsFd nl cur l (ns_Fd netns) w2 = (None, w3)"
      "ns_Do nl netns (setup_in_pod nl conf pod l) w3 = (None, w')"
    and conf': "conf' = conf\<lparr>nc_OrigVfState := (nc_OrigVfState conf)\<lparr>vs_EffectiveMAC := HardwareAddr_String (lk_HardwareAddr l)\<rparr>\<rparr>"
    using run link by (auto simp: SetupVF_def Let_def)
  have v0: "view w (ns_Fd cur) (lk_Index l) = Some l" using by_name [OF link] by simp
  let ?l2 = "l\<lparr>lk_Up := False, lk_Name := temp_name l\<rparr>"
  have v2: "view w2 = view_set (ns_Fd cur) (lk_Index l) (Some ?l2) (view w)"
    using set_name [OF steps(2), of "l\<lparr>lk_Up := False\<rparr>"] set_down [OF steps(1) v0] by simp
  let ?l3 = "l\<lparr>lk_Name := temp_name l, lk_Up := False\<rparr>"
  have v3: "view w3 = view_set (ns_Fd netns) (lk_Index l) (Some ?l3) (view_set (ns_Fd cur) (lk_Index l) None (view w))"
    using set_ns [OF steps(3) other, of ?l2] v2 free other by simp
  have "setup_in_pod nl conf pod l netns w3 = (None, w')"
    using steps(4) by (auto simp: ns_Do_def split: option.splits)
  moreover have "view w3 (ns_Fd netns) (lk_Index l) = Some ?l3" by (simp add: v3)
  ultimately obtain hw where v4: "view w' = view_set (ns_Fd netns) (lk_Index l)
        (Some (?l3\<lparr>lk_Name := pod, lk_HardwareAddr := hw, lk_Up := True\<rparr>)) (view w3)"
    and hw: "if nc_MAC conf = [] then hw = lk_HardwareAddr ?l3 else HardwareAddr_String hw = nc_MAC conf"
    by (rule setup_in_pod_view)
  have "view w' = view_set (ns_Fd netns) (lk_Index l)
        (Some (l\<lparr>lk_Name := pod, lk_HardwareAddr := hw, lk_Up := True\<rparr>)) (view_set (ns_Fd cur) (lk_Index l) None (view w))"
    using v4 by (simp add: v3)
  with hw conf' show thesis using that [of hw] by simp
qed

lemma ReleaseVF_view:
  assumes run: "ReleaseVF nl cur conf pod netns w = (None, w')" and cur: "nl_GetCurrentNS nl cur w = Inr cur"
    and l0: "view w (ns_Fd netns) i = Some l0" "lk_Name l0 = pod"
    and free: "view w (ns_Fd cur) i = None" and other: "ns_Fd netns \<noteq> ns_Fd cur"
  obtains hw where "view w' = view_set (ns_Fd cur) i
        (Some (l0\<lparr>lk_Name := vs_HostIFName (nc_OrigVfState conf), lk_HardwareAddr := hw, lk_Up := False\<rparr>))
        (view_set (ns_Fd netns) i None (view w))"
    "if nc_MAC conf = [] then hw = lk_HardwareAddr l0 else HardwareAddr_String hw = vs_EffectiveMAC (nc_OrigVfState conf)"
proof -
  let ?host = "vs_HostIFName (nc_OrigVfState conf)" and ?mac = "vs_EffectiveMAC (nc_OrigVfState conf)"
  have "release_in_pod nl conf pod cur netns w = (None, w')"
    using run cur by (auto simp: ReleaseVF_def ns_Do_def split: option.splits)
  then obtain l w1 w2 w3 where steps: "nl_LinkByName nl netns pod w = Inr l" "nl_LinkSetDown nl netns l w = (None, w1)"
      "nl_LinkSetName nl netns l ?host w1 = (None, w2)"
      "(if nc_MAC conf \<noteq> [] then SetVFEffectiveMAC nl netns ?host ?mac w2 else (None, w2)) = (None, w3)"
      "nl_LinkSetNsFd nl netns l (ns_Fd cur) w3 = (None, w')"
    by (auto simp: release_in_pod_def Let_def split: sum.splits)
  have i: "lk_Index l = i" using by_name [OF steps(1)] unique [OF l0(1)] l0(2) by metis
  let ?l2 = "l0\<lparr>lk_Up := False, lk_Name := ?host\<rparr>"
  have v2: "view w2 = view_set (ns_Fd netns) i (Some ?l2) (view w)"
    using set_name [OF steps(3), of "l0\<lparr>lk_Up := False\<rparr>"] set_down [OF steps(2), of l0] l0(1) by (simp add: i)
  obtain hw where v3: "view w3 = view_set (ns_Fd netns) i (Some (?l2\<lparr>lk_HardwareAddr := hw\<rparr>)) (view w)"
    and hw: "if nc_MAC conf = [] then hw = lk_HardwareAddr l0 else HardwareAddr_String hw = ?mac"
  proof (cases "nc_MAC conf = []")
    case True
    then show thesis using that [of "lk_HardwareAddr l0"] steps(4) v2 by simp
  next
    case False
    with steps(4) have "SetVFEffectiveMAC nl netns ?host ?mac w2 = (None, w3)" by simp
    from set_effective_mac [OF this, of i ?l2] v2 False show thesis using that by auto
  qed
  have "view w' = view_set (ns_Fd cur) i
      (Some (l0\<lparr>lk_Name := ?host, lk_HardwareAddr := hw, lk_Up := False\<rparr>)) (view_set (ns_Fd netns) i None (view w))"
    using set_ns [OF steps(5) other [symmetric], of "?l2\<lparr>lk_HardwareAddr := hw\<rparr>"] v3 free other by (simp add: i)
  then show thesis using that [of hw] hw by simp
qed

end

section \<open>A simulated kernel\<close>

text \<open>Links by namespace and index, and the namespaces that exist. A link that does not exist cannot be
  changed, and no change may give two links of a namespace the same name.\<close>

record sim =
  sim_links :: "(nat \<times> int, Link) gomap"
  sim_ns :: "(string, nat) gomap"

definition sim_ok :: "(nat \<times> int, Link) gomap \<Rightarrow> bool" where
  "sim_ok m \<longleftrightarrow> map_ok m \<and> list_all (\<lambda>(k, l). lk_Index l = snd k) m \<and> distinct (map (\<lambda>(k, l). (fst k, lk_Name l)) m)"

definition sim_view :: "sim \<Rightarrow> link_view" where
  "sim_view s = (\<lambda>a i. if sim_ok (sim_links s) then map_get (sim_links s) (a, i) else None)"

definition sim_put :: "(nat \<times> int, Link) gomap \<Rightarrow> sim \<Rightarrow> go_error option \<times> sim" where
  "sim_put m s = (if sim_ok m then (None, s\<lparr>sim_links := m\<rparr>) else (Some (ExtError ''file exists''), s))"

definition sim_change :: "(Link \<Rightarrow> Link) \<Rightarrow> NetNS \<Rightarrow> Link \<Rightarrow> sim \<Rightarrow> go_error option \<times> sim" where
  "sim_change f ns l s =
     (case sim_view s (ns_Fd ns) (lk_Index l) of
        None \<Rightarrow> (Some (ExtError ''no such device''), s)
      | Some l0 \<Rightarrow> sim_put (map_put (ns_Fd ns, lk_Index l) (f l0) (sim_links s)) s)"

definition sim_move :: "NetNS \<Rightarrow> Link \<Rightarrow> nat \<Rightarrow> sim \<Rightarrow> go_error option \<times> sim" where
  "sim_move ns l fd s =
     (case sim_view s (ns_Fd ns) (lk_Index l) of
        None \<Rightarrow> (Some (ExtError ''no such device''), s)
      | Some l0 \<Rightarrow>
          if fd = ns_Fd ns then (None, s)
          else if sim_view s fd (lk_Index l) \<noteq> None then (Some (ExtError ''file exists''), s)
          else sim_put (map_put (fd, lk_Index l) (l0\<lparr>lk_Up := False\<rparr>) (map_del (ns_Fd ns, lk_Index l) (sim_links s))) s)"

definition sim_find :: "NetNS \<Rightarrow> string \<Rightarrow> sim \<Rightarrow> Link result" where
  "sim_find ns name s =
     (case (if sim_ok (sim_links s) then List.find (\<lambda>(k, l). fst k = ns_Fd ns \<and> lk_Name l = name) (sim_links s) else None) of
        None \<Rightarrow> Inl (ExtError ''Link not found'')
      | Some (_, l) \<Rightarrow> Inr l)"

definition sim_vf :: "(VfInfo \<Rightarrow> VfInfo) \<Rightarrow> NetNS \<Rightarrow> Link \<Rightarrow> int \<Rightarrow> sim \<Rightarrow> go_error option \<times> sim" where
  "sim_vf f ns l vf s =
     sim_change (\<lambda>l. l\<lparr>lk_Vfs := map (\<lambda>v. if vi_ID v = vf then f v else v) (lk_Vfs l)\<rparr>) ns l s"

definition sim_netlink :: "sim netlink" where
  "sim_netlink =
     \<lparr>nl_LinkByName = sim_find,
      nl_LinkSetUp = sim_change (\<lambda>l. l\<lparr>lk_Up := True\<rparr>),
      nl_LinkSetDown = sim_change (\<lambda>l. l\<lparr>lk_Up := False\<rparr>),
      nl_LinkSetName = (\<lambda>ns l name. sim_change (\<lambda>l. l\<lparr>lk_Name := name\<rparr>) ns l),
      nl_LinkSetAlias = (\<lambda>ns l name. sim_change (\<lambda>l. l\<lparr>lk_Alias := name\<rparr>) ns l),
      nl_LinkSetNsFd = sim_move,
      nl_LinkSetHardwareAddr = (\<lambda>ns l hw. sim_change (\<lambda>l. l\<lparr>lk_HardwareAddr := hw\<rparr>) ns l),
      nl_LinkSetVfHardwareAddr = (\<lambda>ns l vf hw. sim_vf (\<lambda>v. v\<lparr>vi_Mac := hw\<rparr>) ns l vf),
      nl_LinkSetVfVlanQosProto = (\<lambda>ns l vf vlan qos proto.
        sim_vf (\<lambda>v. v\<lparr>vi_Vlan := vlan, vi_Qos := qos, vi_VlanProto := proto\<rparr>) ns l vf),
      nl_LinkSetVfRate = (\<lambda>ns l vf mn mx. sim_vf (\<lambda>v. v\<lparr>vi_MinTxRate := word_of_int mn, vi_MaxTxRate := word_of_int mx\<rparr>) ns l vf),
      nl_LinkSetVfSpoofchk = (\<lambda>ns l vf b. sim_vf (\<lambda>v. v\<lparr>vi_Spoofchk := b\<rparr>) ns l vf),
      nl_LinkSetVfTrust = (\<lambda>ns l vf b. sim_vf (\<lambda>v. v\<lparr>vi_Trust := (if b then 1 else 0)\<rparr>) ns l vf),
      nl_LinkSetVfState = (\<lambda>ns l vf st. sim_vf (\<lambda>v. v\<lparr>vi_LinkState := st\<rparr>) ns l vf),
      nl_WriteProc = (\<lambda>_ _ s. (None, s)),
      nl_Socket = (\<lambda>_ _. None), nl_SetHops = (\<lambda>_ _. None), nl_Sendto = (\<lambda>_ _ s. (None, s)),
      nl_GetCurrentNS = (\<lambda>ns _. Inr ns),
      nl_Enter = (\<lambda>ns s. if ns_Fd ns \<in> snd ` set (sim_ns s) then None else Some (ExtError ''bad file descriptor'')),
      ipam_ExecAdd = (\<lambda>_ _ s. (Inr '''', s)), ipam_ExecDel = (\<lambda>_ _ s. (None, s)),
      ipam_NewResult = (\<lambda>_. Inl (ExtError ''no result'')), ipam_ConfigureIface = (\<lambda>_ _ _ s. (None, s))\<rparr>"

lemma sim_put_view:
  "sim_put m s = (e, s') \<Longrightarrow> if e = None then sim_view s' = (\<lambda>a i. map_get m (a, i)) else sim_view s' = sim_view s"
  by (auto simp: sim_put_def sim_view_def split: if_splits)

lemma sim_change_law: "changes_link sim_view (sim_change f) f"
proof -
  have "if e = None then \<exists>l0. sim_view s (ns_Fd ns) (lk_Index l) = Some l0 \<and>
          sim_view s' = view_set (ns_Fd ns) (lk_Index l) (Some (f l0)) (sim_view s) else sim_view s' = sim_view s"
    if run: "sim_change f ns l s = (e, s')" for ns l s s' e
  proof (cases "sim_view s (ns_Fd ns) (lk_Index l)")
    case None
    then show ?thesis using run by (auto simp: sim_change_def)
  next
    case (Some l0)
    then have "sim_view s = (\<lambda>a i. map_get (sim_links s) (a, i))" by (auto simp: sim_view_def split: if_splits)
    then show ?thesis
      using run Some sim_put_view [of "map_put (ns_Fd ns, lk_Index l) (f l0) (sim_links s)" s e s']
      by (auto simp: sim_change_def view_set_def fun_eq_iff)
  qed
  note law = this
  show ?thesis
    unfolding changes_link_def
  proof (intro conjI allI impI)
    fix ns l w w' assume "sim_change f ns l w = (None, w')"
    from law [OF this] show "\<exists>l0. sim_view w (ns_Fd ns) (lk_Index l) = Some l0 \<and>
        sim_view w' = view_set (ns_Fd ns) (lk_Index l) (Some (f l0)) (sim_view w)" by simp
  next
    fix ns l w w' e assume "sim_change f ns l w = (Some e, w')"
    from law [OF this] show "sim_view w' = sim_view w" by simp
  qed
qed

lemma sim_move_law:
  assumes "sim_move ns l fd s = (None, s')" "fd \<noteq> ns_Fd ns"
  shows "\<exists>l0. sim_view s (ns_Fd ns) (lk_Index l) = Some l0 \<and>
    sim_view s' = view_set fd (lk_Index l) (Some (l0\<lparr>lk_Up := False\<rparr>)) (view_set (ns_Fd ns) (lk_Index l) None (sim_view s))"
proof -
  obtain l0 where l0: "sim_view s (ns_Fd ns) (lk_Index l) = Some l0"
    and put: "sim_put (map_put (fd, lk_Index l) (l0\<lparr>lk_Up := False\<rparr>) (map_del (ns_Fd ns, lk_Index l) (sim_links s))) s = (None, s')"
    using assms by (auto simp: sim_move_def split: option.splits if_splits)
  have "sim_view s = (\<lambda>a i. map_get (sim_links s) (a, i))" using l0 by (auto simp: sim_view_def split: if_splits)
  then show ?thesis using l0 sim_put_view [OF put] by (auto simp: view_set_def fun_eq_iff)
qed

lemma sim_ok_index: "sim_ok m \<Longrightarrow> map_get m k = Some l \<Longrightarrow> lk_Index l = snd k"
  by (auto simp: sim_ok_def list_all_iff dest!: map_of_SomeD)

lemma sim_ok_unique:
  assumes "sim_ok m" "map_get m (a, i) = Some l" "map_get m (a, j) = Some l'" "lk_Name l = lk_Name l'"
  shows "i = j"
proof -
  have "inj_on (\<lambda>(k, l). (fst k, lk_Name l)) (set m)" using assms(1) by (simp add: sim_ok_def distinct_map)
  moreover have "((a, i), l) \<in> set m" "((a, j), l') \<in> set m" using assms(2,3) by (auto dest: map_of_SomeD)
  ultimately have "((a, i), l) = ((a, j), l')" using assms(4) by (elim inj_onD) auto
  then show ?thesis by simp
qed

lemma sim_find_law:
  assumes "sim_find ns name s = Inr l"
  shows "sim_view s (ns_Fd ns) (lk_Index l) = Some l \<and> lk_Name l = name"
proof -
  obtain k where k: "List.find (\<lambda>(k, l). fst k = ns_Fd ns \<and> lk_Name l = name) (sim_links s) = Some (k, l)" "sim_ok (sim_links s)"
    using assms by (auto simp: sim_find_def split: option.splits if_splits)
  then have "(k, l) \<in> set (sim_links s)" "fst k = ns_Fd ns" "lk_Name l = name" using find_SomeD by fastforce+
  moreover have "map_get (sim_links s) k = Some l" using k(2) calculation(1) by (auto simp: sim_ok_def)
  ultimately show ?thesis using k(2) sim_ok_index [of "sim_links s" k l] by (cases k) (auto simp: sim_view_def)
qed

lemma sim_netlink_ok: "netlink_ok sim_netlink sim_view"
  unfolding netlink_ok_def
proof (intro conjI allI impI)
  fix w a i l assume "sim_view w a i = Some l"
  then show "lk_Index l = i" by (auto simp: sim_view_def dest: sim_ok_index split: if_splits)
next
  fix w a i j l l' assume "sim_view w a i = Some l" "sim_view w a j = Some l'" "lk_Name l = lk_Name l'"
  then show "i = j" by (auto simp: sim_view_def dest: sim_ok_unique split: if_splits)
next
  fix ns l fd w w' assume "nl_LinkSetNsFd sim_netlink ns l fd w = (None, w')" "fd \<noteq> ns_Fd ns"
  then show "\<exists>l0. sim_view w (ns_Fd ns) (lk_Index l) = Some l0 \<and>
      sim_view w' = view_set fd (lk_Index l) (Some (l0\<lparr>lk_Up := False\<rparr>)) (view_set (ns_Fd ns) (lk_Index l) None (sim_view w))"
    by (simp add: sim_netlink_def sim_move_law)
qed (auto simp: sim_netlink_def sim_change_law dest: sim_find_law)

interpretation sim: netlink_kernel sim_netlink sim_view
  by unfold_locales (rule sim_netlink_ok)

section \<open>Into the pod and back\<close>


definition sample_link :: Link where
  "sample_link =
     \<lparr>lk_Index = 7, lk_Name = ''ens1v1'', lk_HardwareAddr = [0x02, 0, 0, 0, 0, 0x0A], lk_Up = True, lk_Alias = '''', lk_Vfs = []\<rparr>"

definition sample_vf :: "int \<Rightarrow> VfInfo" where
  "sample_vf n =
     \<lparr>vi_ID = n, vi_Mac = replicate 6 0, vi_Vlan = 0, vi_Qos = 0, vi_VlanProto = 0, vi_Spoofchk = True, vi_Trust = 0,
      vi_LinkState = 0, vi_MaxTxRate = 0, vi_MinTxRate = 0\<rparr>"

definition sample_pf :: Link where
  "sample_pf =
     \<lparr>lk_Index = 2, lk_Name = ''ens1'', lk_HardwareAddr = [0x02, 0, 0, 0, 0, 1], lk_Up = True, lk_Alias = '''',
      lk_Vfs = [sample_vf 0, sample_vf 1]\<rparr>"

definition host_ns :: NetNS where
  "host_ns = \<lparr>ns_Path = ''/proc/1/ns/net'', ns_Fd = 3\<rparr>"

definition sample_sim :: sim where
  "sample_sim =
     \<lparr>sim_links = [((3, 2), sample_pf), ((3, 7), sample_link)],
      sim_ns = [(''/ns/a'', 4), (''/ns/b'', 5)]\<rparr>"

definition mac_conf :: NetConf where
  "mac_conf = vf_conf\<lparr>nc_MAC := ''02:00:00:00:00:0b'', nc_OrigVfState := (nc_OrigVfState vf_conf)\<lparr>vs_HostIFName := ''ens1v1''\<rparr>\<rparr>"


lemma LoadConf_others:
  assumes "LoadConf env n h = (Inr n', h')" "a \<noteq> nc_DeviceID n'"
  shows "map_get (alloc_files h') (alloc_path a) = map_get (alloc_files h) (alloc_path a)"
proof -
  obtain n1 where n1: "resolve_device (os_sysfs env (kern h)) n = Inr n1" "nc_DeviceID n' = nc_DeviceID n1"
    using assms(1)
    by (auto simp: LoadConf_def Let_def find_interface_keeps validate_vlan_keeps split: sum.splits prod.splits bool.splits)
  then show ?thesis
    using assms IsAllocated_other [of "alloc_path a" "nc_DeviceID n1" env h] LoadConf_host [of env n h] by simp
qed

section \<open>ADD and DEL\<close>

text \<open>What \<open>LoadConf\<close> leaves alone.\<close>

definition same_origin :: "NetConf \<Rightarrow> NetConf \<Rightarrow> bool" where
  "same_origin n n' \<longleftrightarrow>
     vs_AdminMAC (nc_OrigVfState n') = vs_AdminMAC (nc_OrigVfState n) \<and> nc_IPAM_Type n' = nc_IPAM_Type n"

lemma resolve_origin: "resolve_device fs n = Inr n' \<Longrightarrow> same_origin n n'"
  by (auto simp: resolve_device_def same_origin_def split: sum.splits if_splits)

lemma find_interface_origin: "find_interface fs n = Inr n' \<Longrightarrow> same_origin n n'"
  by (auto simp: find_interface_def same_origin_def Let_def split: sum.splits if_splits)

lemma validate_origin: "validate_vlan n = Inr n' \<Longrightarrow> same_origin n n'"
  by (auto simp: validate_vlan_def same_origin_def Let_def split: if_splits)

lemma LoadConf_conf:
  assumes "LoadConf env n h = (Inr n', h')"
  shows "same_origin n n'"
  using assms
  by (auto simp: LoadConf_def Let_def split: sum.splits prod.splits bool.splits
      dest!: resolve_origin find_interface_origin validate_origin) (simp add: same_origin_def)

lemma SetupVF_conf:
  "SetupVF nl cur conf i netns w = (r, conf') \<Longrightarrow>
   vs_AdminMAC (nc_OrigVfState conf') = vs_AdminMAC (nc_OrigVfState conf) \<and> nc_IPAM_Type conf' = nc_IPAM_Type conf"
  by (auto simp: SetupVF_def Let_def split: sum.splits)

lemma CmdAdd_conf:
  assumes "sriov_CmdAdd env nl cur req h = (Inr result, conf, h')"
  shows "vs_AdminMAC (nc_OrigVfState conf) = vs_AdminMAC (nc_OrigVfState (pr_CNIConf req)) \<and>
         nc_IPAM_Type conf = nc_IPAM_Type (pr_CNIConf req)"
  using assms
  by (auto simp: sriov_CmdAdd_def Let_def same_origin_def dest!: add_failed_eq add_finish_success SetupVF_conf LoadConf_conf
      split: sum.splits prod.splits option.splits if_splits)

lemma LoadConfFromCache_saved:
  "files_work env \<Longrightarrow> map_get (conf_files h) (conf_path cid i) = Some (Saved conf) \<Longrightarrow>
   LoadConfFromCache env cid i h = Inr (conf, conf_path cid i)"
  by (simp add: LoadConfFromCache_def ReadScratchNetConf_def files_workD)

lemma LoadConfFromCache_missing:
  "map_get (conf_files h) (conf_path cid i) = None \<Longrightarrow> \<exists>e. LoadConfFromCache env cid i h = Inl e"
  by (auto simp: LoadConfFromCache_def ReadScratchNetConf_def Let_def split: sum.splits option.splits)

lemma CleanCachedNetConf_removes:
  "files_work env \<Longrightarrow> map_get (conf_files (snd (CleanCachedNetConf env p h))) p = None"
  by (simp add: CleanCachedNetConf_def files_workD)

lemma DeleteAllocatedPCI_conf: "DeleteAllocatedPCI env a h = (r, h') \<Longrightarrow> conf_files h' = conf_files h"
  by (auto simp: DeleteAllocatedPCI_def Let_def split: option.splits if_splits)

lemma del_release_conf: "del_release env nl cur req netConf h = (r, errSet, vfid, h') \<Longrightarrow> conf_files h' = conf_files h"
  by (auto simp: del_release_def dest!: DeleteAllocatedPCI_conf split: sum.splits prod.splits option.splits bool.splits if_splits)

lemma del_release_True:
  assumes "del_release env nl cur req netConf h = (Inr True, errSet, vfid, h')"
  shows "\<not> errSet \<and> vfid = Some (nc_VFID netConf) \<and> map_get (alloc_files h') (alloc_path (nc_DeviceID netConf)) = None"
  using assms
  by (auto simp: del_release_def DeleteAllocatedPCI_def Let_def split: sum.splits prod.splits option.splits bool.splits if_splits)

text \<open>C26: What an ADD writes down, a DEL that reports the function released takes away. After a
  successful ADD the address is locked for the namespace of the pod and the configuration is cached
  under the container and interface; after the DEL of the same container and interface both are gone,
  the locks of all other addresses are what they were before the ADD (except that a lock whose
  namespace was gone may have been cleared for the added address), and the index of the function in the
  request is that of the ADD.\<close>

theorem add_del_files:
  assumes files: "files_work env"
    and add: "sriov_CmdAdd env nl cur req h = (Inr result, conf, h1)"
    and del: "sriov_CmdDel env nl cur req' h1 = (Inr True, conf', h2)"
    and same: "pr_ContainerId req' = pr_ContainerId req" "pr_IfName req' = pr_IfName req"
  shows "map_get (alloc_files h1) (alloc_path (nc_DeviceID conf)) = Some (pr_Netns req) \<and>
         map_get (conf_files h1) (conf_path (pr_ContainerId req) (pr_IfName req)) = Some (Saved (marshalled conf)) \<and>
         map_get (alloc_files h2) (alloc_path (nc_DeviceID conf)) = None \<and>
         map_get (conf_files h2) (conf_path (pr_ContainerId req) (pr_IfName req)) = None \<and>
         nc_VFID conf' = nc_VFID conf \<and>
         (\<forall>a. a \<noteq> nc_DeviceID conf \<longrightarrow> map_get (alloc_files h2) (alloc_path a) = map_get (alloc_files h) (alloc_path a))"
proof -
  let ?p = "conf_path (pr_ContainerId req) (pr_IfName req)"
  obtain n h0 where n: "LoadConf env (pr_CNIConf req) h = (Inr n, h0)" "nc_DeviceID conf = nc_DeviceID n"
    and lock: "map_get (alloc_files h1) (alloc_path (nc_DeviceID conf)) = Some (pr_Netns req)"
    and saved: "map_get (conf_files h1) ?p = Some (Saved (marshalled conf))"
    using CmdAdd_success_cases [OF add] by blast
  have others: "map_get (alloc_files h1) (alloc_path a) = map_get (alloc_files h) (alloc_path a)" if "a \<noteq> nc_DeviceID conf" for a
  proof -
    have "map_get (alloc_files h0) (alloc_path a) = map_get (alloc_files h) (alloc_path a)"
      using LoadConf_others [OF n(1)] that n(2) by simp
    then show ?thesis using CmdAdd_loaded [OF add n(1), of "alloc_path a"] that n(2) by simp
  qed
  obtain w vfid hd errSet where rel: "del_release env nl cur req' (marshalled conf) (h1\<lparr>kern := w\<rparr>) = (Inr True, errSet, vfid, hd)"
    and h2: "h2 = (if errSet then hd else snd (CleanCachedNetConf env ?p hd))"
    and conf': "conf' = (case vfid of Some i \<Rightarrow> (pr_CNIConf req')\<lparr>nc_VFID := i\<rparr> | None \<Rightarrow> pr_CNIConf req')"
    using del LoadConfFromCache_saved [OF files saved] same
    by (auto simp: sriov_CmdDel_def split: prod.splits option.splits if_splits)
  have "nc_DeviceID (marshalled conf) = nc_DeviceID conf" "nc_VFID (marshalled conf) = nc_VFID conf"
    by (simp_all add: marshalled_def)
  then show ?thesis
    using lock saved others h2 conf' del_release_True [OF rel] CleanCachedNetConf_removes [OF files, of ?p hd]
      del_release_other [OF rel] by auto
qed

definition sim_env :: "string list \<Rightarrow> string \<Rightarrow> sim os_env" where
  "sim_env names drv =
     \<lparr>os_sysfs = (\<lambda>_. vf_sysfs names drv), os_MkdirAll = (\<lambda>_. None), os_Write = (\<lambda>_. None), os_Remove = (\<lambda>_. None),
      os_Stat = (\<lambda>_. None), os_Read = (\<lambda>_. None),
      ns_GetNS = (\<lambda>p s. case map_get (sim_ns s) p of Some fd \<Rightarrow> Inr \<lparr>ns_Path = p, ns_Fd = fd\<rparr> | None \<Rightarrow> Inl (ExtError ''no such ns'')),
      ns_PathNotExist = (\<lambda>_. True)\<rparr>"

lemma sim_env_files: "files_work (sim_env names drv)"
  by (simp add: files_work_def sim_env_def)

definition pod_request :: "string \<Rightarrow> string \<Rightarrow> NetConf \<Rightarrow> PodRequest" where
  "pod_request cid ns conf =
     \<lparr>pr_Command = ''ADD'', pr_PodNamespace = ''default'', pr_PodName = ''pod'', pr_PodUID = '''',
      pr_ContainerId = cid, pr_Netns = ns, pr_IfName = ''net1'', pr_Path = ''/bin'', pr_CNIConf = conf,
      pr_CNIReq = \<lparr>rq_Env = [], rq_Config = ''''\<rparr>, pr_NetName = ''net''\<rparr>"

definition sample_host :: "sim host" where
  "sample_host = \<lparr>kern = sample_sim, alloc_files = [], conf_files = []\<rparr>"

abbreviation "kernel_env \<equiv> sim_env [''ens1v1''] ''iavf''"
abbreviation "pod_a \<equiv> pod_request ''c1'' ''/ns/a'' vf_conf"
abbreviation "pod_b \<equiv> pod_request ''c2'' ''/ns/b'' vf_conf"

definition host_after_add :: "sim host" where
  "host_after_add = snd (snd (sriov_CmdAdd kernel_env sim_netlink host_ns pod_a sample_host))"

definition conf_after_add :: NetConf where
  "conf_after_add = fst (snd (sriov_CmdAdd kernel_env sim_netlink host_ns pod_a sample_host))"

lemma sample_add:
  "\<exists>result. sriov_CmdAdd kernel_env sim_netlink host_ns pod_a sample_host = (Inr result, conf_after_add, host_after_add)"
proof -
  have "fst (sriov_CmdAdd kernel_env sim_netlink host_ns pod_a sample_host) =
      Inr \<lparr>rs_CNIVersion = ''1.0.0'', rs_Interfaces = [\<lparr>if_Name = ''net1'', if_Mac = ''02:00:00:00:00:0a'', if_Sandbox = ''/ns/a''\<rparr>],
           rs_IPs = [], rs_Routes = [], rs_DNS = ''''\<rparr>" by code_simp
  then show ?thesis unfolding host_after_add_def conf_after_add_def by (metis prod.collapse)
qed

theorem add_del_files_witness:
  "map_get (alloc_files host_after_add) (alloc_path ''0000:3b:0a.1'') = Some ''/ns/a'' \<and>
   map_get (alloc_files (snd (snd (sriov_CmdDel kernel_env sim_netlink host_ns pod_a host_after_add)))) (alloc_path ''0000:3b:0a.1'') = None"
proof -
  obtain result where add: "sriov_CmdAdd kernel_env sim_netlink host_ns pod_a sample_host = (Inr result, conf_after_add, host_after_add)"
    using sample_add by blast
  have "fst (sriov_CmdDel kernel_env sim_netlink host_ns pod_a host_after_add) = Inr True" by code_simp
  then obtain conf' h2 where del: "sriov_CmdDel kernel_env sim_netlink host_ns pod_a host_after_add = (Inr True, conf', h2)"
    by (metis prod.collapse)
  have dev: "nc_DeviceID conf_after_add = ''0000:3b:0a.1''" "pr_Netns pod_a = ''/ns/a''" by code_simp+
  from add_del_files [OF sim_env_files add del refl refl] show ?thesis
    by (simp only: dev del prod.sel)
qed

text \<open>C24: A virtual function belongs to one live pod at a time. Once an address is locked for a network
  namespace, no sequence of further ADD and DEL calls, whatever netlink, the file system and the IPAM
  plugins answer, hands that function out again or takes the lock away, as long as the namespace exists
  and the pod itself is not deleted.\<close>

theorem vf_exclusive:
  assumes "map_get (alloc_files h) (alloc_path dev) = Some ns"
    and "lives_through env nl cur dev ns ops h"
  shows "dev \<notin> set (handed_out env nl cur ops h) \<and>
         map_get (alloc_files (fold (\<lambda>op h. snd (sriov_step env nl cur op h)) ops h)) (alloc_path dev) = Some ns"
  using assms
proof (induction ops arbitrary: h)
  case (Cons op ops)
  obtain out h' where step: "sriov_step env nl cur op h = (out, h')" by (metis prod.exhaust)
  from step_keeps_lock [OF Cons.prems(1) _ _ step] Cons.prems(2)
  have "map_get (alloc_files h') (alloc_path dev) = Some ns" "out \<noteq> Some dev" by simp_all
  then show ?case using Cons.IH [of h'] Cons.prems(2) step by (auto split: option.splits)
qed simp

theorem vf_exclusive_witness:
  "''0000:3b:0a.1'' \<notin> set (handed_out kernel_env sim_netlink host_ns [AddOp pod_b, DelOp pod_b, AddOp pod_b] host_after_add)"
proof -
  have "map_get (alloc_files host_after_add) (alloc_path ''0000:3b:0a.1'') = Some ''/ns/a''" by code_simp
  moreover have "lives_through kernel_env sim_netlink host_ns ''0000:3b:0a.1'' ''/ns/a''
      [AddOp pod_b, DelOp pod_b, AddOp pod_b] host_after_add" by code_simp
  ultimately show ?thesis using vf_exclusive by blast
qed

section \<open>What DEL leaves behind\<close>

text \<open>The administrative MAC that ADD did not record cannot be parsed, so the reset fails.\<close>

lemma Reset_without_admin_mac:
  assumes "nc_MAC conf \<noteq> []" "vs_AdminMAC (nc_OrigVfState conf) = []"
  shows "\<exists>e. fst (ResetVFConfig nl cur conf w) = Some e"
proof -
  have bad: "SetVFHardwareMAC nl cur pf vf [] v \<noteq> (None, v')" for pf vf v v'
    by (simp add: SetVFHardwareMAC_def ParseMAC_def)
  have "ResetVFConfig nl cur conf w \<noteq> (None, w')" for w'
    using assms by (simp add: ResetVFConfig_def when_step_def Let_def bad split: sum.split)
  then show ?thesis by (metis not_None_eq prod.collapse)
qed

lemma del_release_without_admin_mac:
  assumes "nc_MAC conf \<noteq> []" "vs_AdminMAC (nc_OrigVfState conf) = []" "pr_Netns req \<noteq> []"
  shows "\<exists>e w. del_release env nl cur req conf h = (Inl e, False, None, h\<lparr>kern := w\<rparr>)"
proof (cases "GetVfid (os_sysfs env (kern h)) (nc_DeviceID conf) (nc_Master conf)")
  case (Inl err)
  then show ?thesis using assms(3) by (auto simp: del_release_def intro: exI [of _ "kern h"])
next
  case (Inr i)
  obtain e where "fst (ResetVFConfig nl cur conf (kern h)) = Some e" using Reset_without_admin_mac [OF assms(1,2), of nl cur "kern h"] by blast
  then show ?thesis using Inr assms(3) by (auto simp: del_release_def split: prod.splits)
qed

text \<open>C35: A pod whose configuration sets a MAC is never released. ADD no longer records the original
  administrative MAC (the call that did is commented out), so the DEL of the same container fails when
  it resets the function; the error goes to a shadowed variable, so the cached configuration is removed
  all the same, and the DEL that the runtime repeats finds no configuration and reports success. The
  function stays locked for the namespace throughout.\<close>

theorem del_with_mac_never_releases:
  assumes files: "files_work env"
    and add: "sriov_CmdAdd env nl cur req h = (Inr result, conf, h1)"
    and mac: "nc_MAC conf \<noteq> []" "vs_AdminMAC (nc_OrigVfState (pr_CNIConf req)) = []"
    and plain: "pr_Netns req \<noteq> []" "nc_IPAM_Type (pr_CNIConf req) = []"
    and del: "sriov_CmdDel env nl cur req h1 = (r2, conf2, h2)" "sriov_CmdDel env nl cur req h2 = (r3, conf3, h3)"
  shows "(\<exists>e. r2 = Inl e) \<and> r3 = Inr False \<and>
         map_get (alloc_files h3) (alloc_path (nc_DeviceID conf)) = Some (pr_Netns req)"
proof -
  let ?p = "conf_path (pr_ContainerId req) (pr_IfName req)"
  have lock: "map_get (alloc_files h1) (alloc_path (nc_DeviceID conf)) = Some (pr_Netns req)"
    and saved: "map_get (conf_files h1) ?p = Some (Saved (marshalled conf))"
    using CmdAdd_success_cases [OF add] by blast+
  have "vs_AdminMAC (nc_OrigVfState (marshalled conf)) = []" "nc_MAC (marshalled conf) \<noteq> []" "nc_IPAM_Type (marshalled conf) = []"
    using CmdAdd_conf [OF add] mac plain(2) by (simp_all add: marshalled_def)
  then obtain e w where "del_release env nl cur req (marshalled conf) h1 = (Inl e, False, None, h1\<lparr>kern := w\<rparr>)"
    using del_release_without_admin_mac [of "marshalled conf" req env nl cur h1] plain(1) by blast
  then have r2: "r2 = Inl e" "h2 = snd (CleanCachedNetConf env ?p (h1\<lparr>kern := w\<rparr>))"
    using del(1) LoadConfFromCache_saved [OF files saved] \<open>nc_IPAM_Type (marshalled conf) = []\<close>
    by (auto simp: sriov_CmdDel_def)
  then obtain e' where "LoadConfFromCache env (pr_ContainerId req) (pr_IfName req) h2 = Inl e'"
    using LoadConfFromCache_missing CleanCachedNetConf_removes [OF files] by metis
  then have "r3 = Inr False" "h3 = h2" using del(2) by (auto simp: sriov_CmdDel_def)
  then show ?thesis using r2 lock by simp
qed

abbreviation "pod_mac \<equiv> pod_request ''c1'' ''/ns/a'' (vf_conf\<lparr>nc_RuntimeMac := ''02:00:00:00:00:0B''\<rparr>)"

theorem del_with_mac_never_releases_witness:
  "\<exists>h1 e h2. sriov_CmdDel kernel_env sim_netlink host_ns pod_mac h1 = (Inl e, h2) \<and>
     map_get (alloc_files (snd h2)) (alloc_path ''0000:3b:0a.1'') = Some ''/ns/a''"
proof -
  let ?add = "sriov_CmdAdd kernel_env sim_netlink host_ns pod_mac sample_host"
  let ?h1 = "snd (snd ?add)"
  let ?del = "sriov_CmdDel kernel_env sim_netlink host_ns pod_mac ?h1"
  let ?del2 = "sriov_CmdDel kernel_env sim_netlink host_ns pod_mac (snd (snd ?del))"
  have "case fst ?add of Inr _ \<Rightarrow> True | Inl _ \<Rightarrow> False" by code_simp
  then obtain result where "fst ?add = Inr result" by (cases "fst ?add") simp_all
  then have add: "?add = (Inr result, fst (snd ?add), ?h1)" by (metis prod.collapse)
  have mac: "nc_MAC (fst (snd ?add)) \<noteq> []" by code_simp
  have admin: "vs_AdminMAC (nc_OrigVfState (pr_CNIConf pod_mac)) = []" by code_simp
  have plain: "pr_Netns pod_mac \<noteq> []" "nc_IPAM_Type (pr_CNIConf pod_mac) = []" by code_simp+
  have dev: "nc_DeviceID (fst (snd ?add)) = ''0000:3b:0a.1''" "pr_Netns pod_mac = ''/ns/a''" by code_simp+
  have "?del = (fst ?del, fst (snd ?del), snd (snd ?del))" "?del2 = (fst ?del2, fst (snd ?del2), snd (snd ?del2))" by simp_all
  from del_with_mac_never_releases [OF sim_env_files add mac admin plain this]
  obtain e where "fst ?del = Inl e" by blast
  moreover have "map_get (alloc_files (snd (snd ?del))) (alloc_path ''0000:3b:0a.1'') = Some ''/ns/a''" by code_simp
  ultimately show ?thesis by (metis prod.collapse)
qed

end
