(* ===== verification/Network_Fn.thy ===== *)
theory Network_Fn
  imports Sriov_Props
begin

text \<open>
  The CNI of network functions on the DPU (\<open>dpu-cni/pkgs/networkfn/networkfn.go\<close>): a network device is
  moved into the namespace of a pod and back. The deferred functions that undo a move that failed are
  modelled with the values their variables have when they run; \<open>hostDev\<close> is an option because the code
  sets it to nil on some paths. The lemmas show the way in and back under the laws of netlink.
\<close>

section \<open>Moving a link\<close>

definition setDevTempName :: "'w netlink \<Rightarrow> NetNS \<Rightarrow> Link \<Rightarrow> 'w \<Rightarrow> Link result \<times> 'w" where
  "setDevTempName nl cur dev w =
     (case nl_LinkSetName nl cur dev (temp_name dev) w of
        (Some err, w1) \<Rightarrow>
          (Inl (Errorf ''failed to rename device %q to %q: %v'' [FStr (lk_Name dev), FStr (temp_name dev), FErr err]), w1)
      | (None, w1) \<Rightarrow>
          (case nl_LinkByName nl cur (temp_name dev) w1 of
             Inl err \<Rightarrow> (Inl (Errorf ''failed to find %q after rename to %q: %v''
                              [FStr (lk_Name dev), FStr (temp_name dev), FErr err]), w1)
           | Inr tempDev \<Rightarrow> (Inr tempDev, w1)))"

text \<open>The deferred function that moves the device back to the host: it also looks the device up there,
  and forgets it when it is not found.\<close>

definition move_back :: "'w netlink \<Rightarrow> NetNS \<Rightarrow> NetNS \<Rightarrow> Link \<Rightarrow> string \<Rightarrow> Link option \<Rightarrow> 'w \<Rightarrow> Link option \<times> 'w" where
  "move_back nl host cur contDev tempDevName hostDev w =
     (let w1 = snd (nl_LinkSetNsFd nl cur contDev (ns_Fd host) w)
      in (case nl_Enter nl host w1 of
            Some _ \<Rightarrow> hostDev
          | None \<Rightarrow> (case nl_LinkByName nl host tempDevName w1 of Inl _ \<Rightarrow> None | Inr l \<Rightarrow> Some l), w1))"

text \<open>The body that runs in the namespace of the container. When the last look-up fails \<open>contDev\<close> is nil,
  and the deferred functions dereference it.\<close>

definition move_in_container ::
    "'w netlink \<Rightarrow> NetNS \<Rightarrow> string \<Rightarrow> string \<Rightarrow> Link \<Rightarrow> NetNS \<Rightarrow> 'w \<Rightarrow> Link result \<times> Link option \<times> 'w" where
  "move_in_container nl host origHostDevName ifName hostDev cur w =
     (let temp = lk_Name hostDev in
      case nl_LinkByName nl cur temp w of
        Inl err \<Rightarrow> (Inl (Errorf ''failed to find %q: %v'' [FStr temp, FErr err]), Some hostDev, w)
      | Inr contDev \<Rightarrow>
          (case nl_LinkSetAlias nl cur contDev origHostDevName w of
             (Some err, w1) \<Rightarrow>
               (Inl (Errorf ''failed to set alias to %q: %v'' [FStr temp, FErr err]),
                move_back nl host cur contDev temp (Some hostDev) w1)
           | (None, w1) \<Rightarrow>
               (case nl_LinkSetName nl cur contDev ifName w1 of
                  (Some err, w2) \<Rightarrow>
                    (Inl (Errorf ''failed to rename device %q to %q: %v'' [FStr temp, FStr ifName, FErr err]),
                     move_back nl host cur contDev temp (Some hostDev) w2)
                | (None, w2) \<Rightarrow>
                    (case nl_LinkSetUp nl cur contDev w2 of
                       (Some err, w3) \<Rightarrow>
                         (Inl (Errorf ''failed to set %q up: %v'' [FStr ifName, FErr err]),
                          move_back nl host cur contDev temp (Some hostDev) (snd (nl_LinkSetName nl cur contDev temp w3)))
                     | (None, w3) \<Rightarrow>
                         (case nl_LinkByName nl cur ifName w3 of
                            Inl err \<Rightarrow> (Inl (Panic ''invalid memory address or nil pointer dereference''), Some hostDev, w3)
                          | Inr dev \<Rightarrow> (Inr dev, Some hostDev, w3))))))"

text \<open>The two deferred functions of the host side, in the order they run.\<close>

definition restore_host :: "'w netlink \<Rightarrow> NetNS \<Rightarrow> bool \<Rightarrow> string \<Rightarrow> Link option \<Rightarrow> 'w \<Rightarrow> 'w" where
  "restore_host nl cur wasUp origHostDevName hostDev w =
     (case hostDev of
        None \<Rightarrow> w
      | Some dev \<Rightarrow>
          let w1 = snd (nl_LinkSetName nl cur dev origHostDevName w)
          in if wasUp then snd (nl_LinkSetUp nl cur dev w1) else w1)"

definition moveLinkInNetNamespace ::
    "'w netlink \<Rightarrow> NetNS \<Rightarrow> Link \<Rightarrow> NetNS \<Rightarrow> string \<Rightarrow> 'w \<Rightarrow> Link result \<times> 'w" where
  "moveLinkInNetNamespace nl cur hostDev containerNs ifName w =
     (let orig = lk_Name hostDev; wasUp = lk_Up hostDev in
      case nl_GetCurrentNS nl cur w of
        Inl err \<Rightarrow> (Inl (Errorf ''failed to get host namespace: %v'' [FErr err]), w)
      | Inr host \<Rightarrow>
          (case nl_LinkSetDown nl cur hostDev w of
             (Some err, w1) \<Rightarrow> (Inl (Errorf ''failed to set %q down: %v'' [FStr orig, FErr err]), w1)
           | (None, w1) \<Rightarrow>
               (case setDevTempName nl cur hostDev w1 of
                  (Inl err, w2) \<Rightarrow>
                    (Inl (Errorf ''failed to rename device %q to temporary name: %v'' [FStr orig, FErr err]), w2)
                | (Inr tempDev, w2) \<Rightarrow>
                    (case nl_LinkSetNsFd nl cur tempDev (ns_Fd containerNs) w2 of
                       (Some err, w3) \<Rightarrow>
                         (Inl (Errorf ''failed to move %q to container ns: %v'' [FStr (lk_Name tempDev), FErr err]),
                          restore_host nl cur wasUp orig (Some tempDev) w3)
                     | (None, w3) \<Rightarrow>
                         (case nl_Enter nl containerNs w3 of
                            Some err \<Rightarrow> (Inl err, restore_host nl cur wasUp orig (Some tempDev) w3)
                          | None \<Rightarrow>
                              (case move_in_container nl host orig ifName tempDev containerNs w3 of
                                 (Inr contDev, _, w4) \<Rightarrow> (Inr contDev, w4)
                               | (Inl (Panic m), _, w4) \<Rightarrow> (Inl (Panic m), w4)
                               | (Inl err, dev, w4) \<Rightarrow> (Inl err, restore_host nl cur wasUp orig dev w4)))))))"

text \<open>The way out: the body in the container, with the name the device has on the host for a moment and
  the device as it was.\<close>

definition move_out_container ::
    "'w netlink \<Rightarrow> NetNS \<Rightarrow> string \<Rightarrow> NetNS \<Rightarrow> 'w \<Rightarrow> (string \<times> Link) result \<times> 'w" where
  "move_out_container nl host ifName cur w =
     (case nl_LinkByName nl cur ifName w of
        Inl err \<Rightarrow> (Inl (Errorf ''failed to find %q: %v'' [FStr ifName, FErr err]), w)
      | Inr dev \<Rightarrow>
          (case nl_LinkSetDown nl cur dev w of
             (Some err, w1) \<Rightarrow> (Inl (Errorf ''failed to set %q down: %v'' [FStr ifName, FErr err]), w1)
           | (None, w1) \<Rightarrow>
               (case setDevTempName nl cur dev w1 of
                  (Inl err, w2) \<Rightarrow>
                    (Inl (Errorf ''failed to rename device %q to temporary name: %v'' [FStr ifName, FErr err]),
                     restore_host nl cur (lk_Up dev) ifName (Some dev) w2)
                | (Inr newLink, w2) \<Rightarrow>
                    (case nl_LinkSetNsFd nl cur newLink (ns_Fd host) w2 of
                       (Some err, w3) \<Rightarrow>
                         (Inl (Errorf ''failed to move %q to host netns: %v'' [FStr (lk_Name newLink), FErr err]),
                          restore_host nl cur (lk_Up newLink) ifName (Some newLink) w3)
                     | (None, w3) \<Rightarrow> (Inr (lk_Name newLink, dev), w3)))))"

definition moveLinkOutToHost :: "'w netlink \<Rightarrow> NetNS \<Rightarrow> NetNS \<Rightarrow> string \<Rightarrow> 'w \<Rightarrow> go_error option \<times> 'w" where
  "moveLinkOutToHost nl cur containerNs ifName w =
     (case nl_GetCurrentNS nl cur w of
        Inl err \<Rightarrow> (Some err, w)
      | Inr host \<Rightarrow>
          (case nl_Enter nl containerNs w of
             Some err \<Rightarrow> (Some err, w)
           | None \<Rightarrow>
               (case move_out_container nl host ifName containerNs w of
                  (Inl err, w1) \<Rightarrow> (Some err, w1)
                | (Inr (tempName, origDev), w1) \<Rightarrow>
                    (case nl_LinkByName nl cur tempName w1 of
                       Inl err \<Rightarrow> (Some (Errorf ''failed to find %q in host namespace: %v'' [FStr tempName, FErr err]), w1)
                     | Inr tempDev \<Rightarrow>
                         (case nl_LinkSetName nl cur tempDev (lk_Alias tempDev) w1 of
                            (None, w2) \<Rightarrow> (None, w2)
                          | (Some err, w2) \<Rightarrow>
                              let w3 = snd (nl_LinkSetNsFd nl cur tempDev (ns_Fd containerNs) w2);
                                  w4 = snd (ns_Do nl containerNs
                                         (\<lambda>c w. case nl_LinkByName nl c tempName w of
                                                  Inl err \<Rightarrow> (Some err, w)
                                                | Inr lnk \<Rightarrow> (None, restore_host nl c (lk_Up origDev) ifName (Some lnk) w)) w3)
                              in (Some (Errorf ''failed to restore %q to original name %q: %v''
                                          [FStr tempName, FStr (lk_Alias tempDev), FErr err]), w4))))))"

section \<open>ADD and DEL\<close>

definition nf_device :: "sysfs \<Rightarrow> NetConf \<Rightarrow> string result" where
  "nf_device fs conf =
     (if nc_DeviceIDType conf = DeviceIDTypePCI
      then (case GetVFLinkName fs (nc_DeviceID conf) of
              Inl err \<Rightarrow> Inl (Errorf ''failed to resolve netdev from PCI address %s: %v'' [FStr (nc_DeviceID conf), FErr err])
            | Inr name \<Rightarrow> Inr name)
      else if nc_DeviceIDType conf = DeviceIDTypeNetdev then Inr (nc_DeviceID conf)
      else if nc_DeviceIDType conf = DeviceIDTypeAux
      then Inl (Errorf ''auxiliary device IDs are not supported for networkfn CNI: %s'' [FStr (nc_DeviceID conf)])
      else Inl (Errorf ''unsupported device ID format for networkfn CNI: %s'' [FStr (nc_DeviceID conf)]))"

text \<open>The IPAM part. An address list that is empty is reported by an error of its own, which the
  deferred release of the addresses does not see.\<close>

definition nf_ipam ::
    "'w netlink \<Rightarrow> PodRequest \<Rightarrow> NetNS \<Rightarrow> cni_Interface list \<Rightarrow> 'w \<Rightarrow> cni_Result result \<times> 'w" where
  "nf_ipam nl req containerNs ifaces w =
     (let conf = pr_CNIConf req; stdin = rq_Config (pr_CNIReq req);
          release = (\<lambda>w. snd (ipam_ExecDel nl (nc_IPAM_Type conf) stdin w))
      in case ipam_ExecAdd nl (nc_IPAM_Type conf) stdin w of
           (Inl err, w1) \<Rightarrow> (Inl err, w1)
         | (Inr r, w1) \<Rightarrow>
             (case ipam_NewResult nl r of
                Inl err \<Rightarrow> (Inl err, release w1)
              | Inr res \<Rightarrow>
                  if rs_IPs res = [] then (Inl (Errorf ''IPAM plugin returned missing IP config'' []), w1)
                  else
                    let newResult = res\<lparr>rs_Interfaces := ifaces, rs_IPs := map (\<lambda>ipc. ipc\<lparr>ip_Interface := Some 0\<rparr>) (rs_IPs res)\<rparr>
                    in (case ns_Do nl containerNs (\<lambda>c. ipam_ConfigureIface nl c (pr_IfName req) newResult) w1 of
                          (Some err, w2) \<Rightarrow> (Inl err, release w2)
                        | (None, w2) \<Rightarrow> (Inr (newResult\<lparr>rs_DNS := nc_DNS conf\<rparr>), w2))))"

definition nf_CmdAdd ::
    "'w os_env \<Rightarrow> 'w netlink \<Rightarrow> NetNS \<Rightarrow> PodRequest \<Rightarrow> 'w \<Rightarrow> cni_Result result \<times> NetConf \<times> 'w" where
  "nf_CmdAdd env nl cur req w =
     (let conf = pr_CNIConf req in
      case ns_GetNS env (pr_Netns req) w of
        Inl err \<Rightarrow> (Inl (Errorf ''failed to open netns %v: %v'' [FStr ''<nil>'', FErr err]), conf, w)
      | Inr containerNs \<Rightarrow>
          (case nf_device (os_sysfs env w) conf of
             Inl err \<Rightarrow> (Inl err, conf, w)
           | Inr deviceID \<Rightarrow>
               (case nl_LinkByName nl cur deviceID w of
                  Inl err \<Rightarrow> (Inl (Errorf ''failed to find host device: %v'' [FErr err]), conf, w)
                | Inr hostDev \<Rightarrow>
                    (case moveLinkInNetNamespace nl cur hostDev containerNs (pr_IfName req) w of
                       (Inl err, w1) \<Rightarrow> (Inl (unless_panic (\<lambda>err. Errorf ''failed to move link %v'' [FErr err]) err), conf, w1)
                     | (Inr contDev, w1) \<Rightarrow>
                         let mac = HardwareAddr_String (lk_HardwareAddr contDev);
                             ifaces = [\<lparr>if_Name = lk_Name contDev, if_Mac = mac, if_Sandbox = ns_Path containerNs\<rparr>];
                             conf1 = conf\<lparr>nc_MAC := mac\<rparr>
                         in if nc_IPAM_Type conf = []
                            then (Inr \<lparr>rs_CNIVersion = [], rs_Interfaces = ifaces, rs_IPs = [], rs_Routes = [], rs_DNS = []\<rparr>, conf1, w1)
                            else (case nf_ipam nl req containerNs ifaces w1 of (r, w2) \<Rightarrow> (r, conf1, w2))))))"

definition nf_CmdDel :: "'w os_env \<Rightarrow> 'w netlink \<Rightarrow> NetNS \<Rightarrow> PodRequest \<Rightarrow> 'w \<Rightarrow> go_error option \<times> 'w" where
  "nf_CmdDel env nl cur req w =
     (if pr_Netns req = [] then (None, w)
      else (case ns_GetNS env (pr_Netns req) w of
              Inl err \<Rightarrow> (Some (Errorf ''failed to open netns %q: %v'' [FStr (pr_Netns req), FErr err]), w)
            | Inr containerNs \<Rightarrow>
                and_then (when_step (nc_IPAM_Type (pr_CNIConf req) \<noteq> [])
                            (ipam_ExecDel nl (nc_IPAM_Type (pr_CNIConf req)) (rq_Config (pr_CNIReq req))) w) id
                  (moveLinkOutToHost nl cur containerNs (pr_IfName req))))"

section \<open>In and back\<close>

context netlink_kernel
begin

lemma named_link:
  assumes "nl_LinkByName nl ns name w = Inr l" "view w (ns_Fd ns) i = Some l0" "lk_Name l0 = name"
  shows "l = l0"
proof -
  have "lk_Index l = i" using by_name [OF assms(1)] unique [OF assms(2)] assms(3) by metis
  then show ?thesis using by_name [OF assms(1)] assms(2) by simp
qed

lemma setDevTempName_view:
  assumes "setDevTempName nl ns dev w = (Inr t, w')" "view w (ns_Fd ns) (lk_Index dev) = Some l0"
  shows "t = l0\<lparr>lk_Name := temp_name dev\<rparr> \<and>
         view w' = view_set (ns_Fd ns) (lk_Index dev) (Some (l0\<lparr>lk_Name := temp_name dev\<rparr>)) (view w)"
proof -
  have steps: "nl_LinkSetName nl ns dev (temp_name dev) w = (None, w')" "nl_LinkByName nl ns (temp_name dev) w' = Inr t"
    using assms(1) by (auto simp: setDevTempName_def split: prod.splits option.splits sum.splits)
  note v = set_name [OF steps(1) assms(2)]
  have "view w' (ns_Fd ns) (lk_Index dev) = Some (l0\<lparr>lk_Name := temp_name dev\<rparr>)" by (simp add: v)
  from named_link [OF steps(2) this] v show ?thesis by simp
qed

lemma moveLinkIn_view:
  assumes run: "moveLinkInNetNamespace nl cur hostDev netns ifName w = (Inr contDev, w')"
    and l: "view w (ns_Fd cur) (lk_Index hostDev) = Some hostDev"
    and other: "ns_Fd netns \<noteq> ns_Fd cur" and free: "view w (ns_Fd netns) (lk_Index hostDev) = None"
  shows "contDev = hostDev\<lparr>lk_Alias := lk_Name hostDev, lk_Name := ifName, lk_Up := True\<rparr> \<and>
         view w' = view_set (ns_Fd netns) (lk_Index hostDev) (Some contDev) (view_set (ns_Fd cur) (lk_Index hostDev) None (view w))"
proof -
  let ?i = "lk_Index hostDev"
  obtain host dev w1 t w2 w3 where steps: "nl_LinkSetDown nl cur hostDev w = (None, w1)"
      "setDevTempName nl cur hostDev w1 = (Inr t, w2)" "nl_LinkSetNsFd nl cur t (ns_Fd netns) w2 = (None, w3)"
      "move_in_container nl host (lk_Name hostDev) ifName t netns w3 = (Inr contDev, dev, w')"
    using run by (auto simp: moveLinkInNetNamespace_def Let_def split: prod.splits option.splits sum.splits go_error.splits)
  let ?l2 = "hostDev\<lparr>lk_Name := temp_name hostDev, lk_Up := False\<rparr>"
  have v1: "view w1 (ns_Fd cur) ?i = Some (hostDev\<lparr>lk_Up := False\<rparr>)" by (simp add: set_down [OF steps(1) l])
  have t: "t = (hostDev\<lparr>lk_Up := False\<rparr>)\<lparr>lk_Name := temp_name hostDev\<rparr>"
    and v2: "view w2 = view_set (ns_Fd cur) ?i (Some t) (view w)"
    using setDevTempName_view [OF steps(2) v1] set_down [OF steps(1) l] by simp_all
  have i: "lk_Index t = ?i" by (simp add: t)
  have v3: "view w3 = view_set (ns_Fd netns) ?i (Some ?l2) (view_set (ns_Fd cur) ?i None (view w))"
    using set_ns [OF steps(3) other, of t] v2 free other by (simp add: i) (simp add: t)
  have l3: "view w3 (ns_Fd netns) ?i = Some ?l2" by (simp add: v3)
  have temp: "lk_Name t = temp_name hostDev" by (simp add: t)
  obtain c w4 w5 where inner: "nl_LinkByName nl netns (temp_name hostDev) w3 = Inr c"
      "nl_LinkSetAlias nl netns c (lk_Name hostDev) w3 = (None, w4)" "nl_LinkSetName nl netns c ifName w4 = (None, w5)"
      "nl_LinkSetUp nl netns c w5 = (None, w')" "nl_LinkByName nl netns ifName w' = Inr contDev"
    using steps(4) temp
    by (auto simp: move_in_container_def move_back_def Let_def split: prod.splits option.splits sum.splits)
  have c: "c = ?l2" using named_link [OF inner(1) l3] by simp
  have v4: "view w4 = view_set (ns_Fd netns) ?i (Some (?l2\<lparr>lk_Alias := lk_Name hostDev\<rparr>)) (view w3)"
    using set_alias [OF inner(2), of ?l2] l3 by (simp add: c)
  have v5: "view w5 = view_set (ns_Fd netns) ?i (Some (?l2\<lparr>lk_Alias := lk_Name hostDev, lk_Name := ifName\<rparr>)) (view w3)"
    using set_name [OF inner(3), of "?l2\<lparr>lk_Alias := lk_Name hostDev\<rparr>"] v4 by (simp add: c)
  let ?l6 = "hostDev\<lparr>lk_Alias := lk_Name hostDev, lk_Name := ifName, lk_Up := True\<rparr>"
  have v6: "view w' = view_set (ns_Fd netns) ?i (Some ?l6) (view w3)"
    using set_up [OF inner(4), of "?l2\<lparr>lk_Alias := lk_Name hostDev, lk_Name := ifName\<rparr>"] v5 by (simp add: c)
  have "contDev = ?l6" using named_link [OF inner(5), of ?i ?l6] v6 by simp
  then show ?thesis using v6 v3 by simp
qed

lemma moveLinkOut_view:
  assumes run: "moveLinkOutToHost nl cur netns ifName w = (None, w')" and cur: "nl_GetCurrentNS nl cur w = Inr cur"
    and l: "view w (ns_Fd netns) i = Some l0" "lk_Name l0 = ifName"
    and other: "ns_Fd netns \<noteq> ns_Fd cur" and free: "view w (ns_Fd cur) i = None"
  shows "view w' = view_set (ns_Fd cur) i (Some (l0\<lparr>lk_Up := False, lk_Name := lk_Alias l0\<rparr>)) (view_set (ns_Fd netns) i None (view w))"
proof -
  obtain temp orig w3 tempDev where steps: "move_out_container nl cur ifName netns w = (Inr (temp, orig), w3)"
      "nl_LinkByName nl cur temp w3 = Inr tempDev" "nl_LinkSetName nl cur tempDev (lk_Alias tempDev) w3 = (None, w')"
    using run cur by (auto simp: moveLinkOutToHost_def Let_def split: prod.splits option.splits sum.splits)
  then obtain w1 w2 t where inner: "nl_LinkByName nl netns ifName w = Inr orig" "nl_LinkSetDown nl netns orig w = (None, w1)"
      "setDevTempName nl netns orig w1 = (Inr t, w2)" "nl_LinkSetNsFd nl netns t (ns_Fd cur) w2 = (None, w3)" "temp = lk_Name t"
    by (auto simp: move_out_container_def split: prod.splits option.splits sum.splits)
  have orig: "orig = l0" using named_link [OF inner(1) l] .
  have i: "lk_Index orig = i" using index [OF l(1)] orig by simp
  have v1: "view w1 = view_set (ns_Fd netns) i (Some (l0\<lparr>lk_Up := False\<rparr>)) (view w)"
    using set_down [OF inner(2), of l0] l(1) i by simp
  have t: "t = (l0\<lparr>lk_Up := False\<rparr>)\<lparr>lk_Name := temp_name orig\<rparr>" and v2: "view w2 = view_set (ns_Fd netns) i (Some t) (view w)"
    using setDevTempName_view [OF inner(3), of "l0\<lparr>lk_Up := False\<rparr>"] v1 i by simp_all
  have it: "lk_Index t = i" using i orig by (simp add: t)
  let ?l3 = "t\<lparr>lk_Up := False\<rparr>"
  have v3: "view w3 = view_set (ns_Fd cur) i (Some ?l3) (view_set (ns_Fd netns) i None (view w))"
    using set_ns [OF inner(4) other [symmetric], of t] v2 free other by (simp add: it)
  have td: "tempDev = ?l3" using named_link [OF steps(2), of i ?l3] v3 inner(5) by simp
  show ?thesis
    using set_name [OF steps(3), of ?l3] v3 it by (simp add: td) (simp add: t)
qed

end

text \<open>A network device goes into the pod of a network function and comes back under its own name.
  Under the laws of netlink, a move that succeeds takes the device out of the host and leaves it in the
  namespace of the pod, up, under the requested name, unchanged but for its alias, which keeps the old
  name; a move back that succeeds takes it out of the pod and gives the host the device with its old
  name and its MAC.\<close>

theorem nf_round_trip:
  assumes laws: "netlink_ok nl view"
    and link: "nl_LinkByName nl cur name w = Inr hostDev"
    and other: "ns_Fd netns \<noteq> ns_Fd cur" and free: "view w (ns_Fd netns) (lk_Index hostDev) = None"
    and into: "moveLinkInNetNamespace nl cur hostDev netns ifName w = (Inr contDev, w1)"
    and home: "moveLinkOutToHost nl cur netns ifName w1 = (None, w2)" "nl_GetCurrentNS nl cur w1 = Inr cur"
  shows "contDev = hostDev\<lparr>lk_Alias := name, lk_Name := ifName, lk_Up := True\<rparr> \<and>
         view w1 (ns_Fd netns) (lk_Index hostDev) = Some contDev \<and> view w1 (ns_Fd cur) (lk_Index hostDev) = None \<and>
         view w2 (ns_Fd cur) (lk_Index hostDev) = Some (hostDev\<lparr>lk_Up := False, lk_Alias := name\<rparr>) \<and>
         view w2 (ns_Fd netns) (lk_Index hostDev) = None"
proof -
  have kernel: "netlink_kernel nl view" using laws by unfold_locales
  have l: "view w (ns_Fd cur) (lk_Index hostDev) = Some hostDev" "lk_Name hostDev = name"
    using netlink_kernel.by_name [OF kernel link] by simp_all
  from netlink_kernel.moveLinkIn_view [OF kernel into l(1) other free]
  have c: "contDev = hostDev\<lparr>lk_Alias := lk_Name hostDev, lk_Name := ifName, lk_Up := True\<rparr>"
    and v1: "view w1 = view_set (ns_Fd netns) (lk_Index hostDev) (Some contDev)
                (view_set (ns_Fd cur) (lk_Index hostDev) None (view w))" by simp_all
  have "view w1 (ns_Fd netns) (lk_Index hostDev) = Some contDev" "lk_Name contDev = ifName"
      "view w1 (ns_Fd cur) (lk_Index hostDev) = None"
    using other by (simp_all add: v1) (simp add: c)
  note v1' = this
  from netlink_kernel.moveLinkOut_view [OF kernel home v1'(1,2) other v1'(3)]
  have v2: "view w2 = view_set (ns_Fd cur) (lk_Index hostDev) (Some (contDev\<lparr>lk_Up := False, lk_Name := lk_Alias contDev\<rparr>))
      (view_set (ns_Fd netns) (lk_Index hostDev) None (view w1))" .
  have "contDev\<lparr>lk_Up := False, lk_Name := lk_Alias contDev\<rparr> = hostDev\<lparr>lk_Up := False, lk_Alias := name\<rparr>"
    using l(2) by (simp add: c)
  then show ?thesis using c v1' v2 other l(2) by simp
qed

theorem nf_round_trip_witness:
  "\<exists>w1 c w2. moveLinkInNetNamespace sim_netlink host_ns sample_link \<lparr>ns_Path = ''/ns/a'', ns_Fd = 4\<rparr> ''net1'' sample_sim = (Inr c, w1) \<and>
     moveLinkOutToHost sim_netlink host_ns \<lparr>ns_Path = ''/ns/a'', ns_Fd = 4\<rparr> ''net1'' w1 = (None, w2) \<and>
     sim_view w2 3 7 = Some (sample_link\<lparr>lk_Up := False, lk_Alias := ''ens1v1''\<rparr>)"
proof -
  let ?ns = "\<lparr>ns_Path = ''/ns/a'', ns_Fd = 4\<rparr>"
  let ?c = "sample_link\<lparr>lk_Alias := ''ens1v1'', lk_Name := ''net1''\<rparr>"
  let ?w1 = "sample_sim\<lparr>sim_links := [((3, 2), sample_pf), ((4, 7), ?c)]\<rparr>"
  let ?w2 = "sample_sim\<lparr>sim_links := [((3, 2), sample_pf), ((3, 7), sample_link\<lparr>lk_Up := False, lk_Alias := ''ens1v1''\<rparr>)]\<rparr>"
  have link: "nl_LinkByName sim_netlink host_ns ''ens1v1'' sample_sim = Inr sample_link" by code_simp
  have free: "sim_view sample_sim (ns_Fd ?ns) (lk_Index sample_link) = None" by code_simp
  have other: "ns_Fd ?ns \<noteq> ns_Fd host_ns" by code_simp
  have into: "moveLinkInNetNamespace sim_netlink host_ns sample_link ?ns ''net1'' sample_sim = (Inr ?c, ?w1)" by code_simp
  have home: "moveLinkOutToHost sim_netlink host_ns ?ns ''net1'' ?w1 = (None, ?w2)" by code_simp
  have cur: "nl_GetCurrentNS sim_netlink host_ns ?w1 = Inr host_ns" by code_simp
  have idx: "lk_Index sample_link = 7" "ns_Fd host_ns = 3" by (simp_all add: sample_link_def host_ns_def)
  from nf_round_trip [OF sim_netlink_ok link other free into home cur] into home
  show ?thesis by (simp only: idx) blast
qed

text \<open>A device that cannot be renamed stays down: the code forgets it before the deferred function that
  would bring it up again.\<close>

theorem rename_failure_leaves_down:
  assumes "netlink_ok nl view" "nl_LinkByName nl cur name w = Inr hostDev" "nl_GetCurrentNS nl cur w = Inr host"
    and "nl_LinkSetDown nl cur hostDev w = (None, w1)"
    and "nl_LinkSetName nl cur hostDev (temp_name hostDev) w1 = (Some err, w2)"
  shows "\<exists>e. moveLinkInNetNamespace nl cur hostDev netns ifName w = (Inl e, w2) \<and>
    view w2 (ns_Fd cur) (lk_Index hostDev) = Some (hostDev\<lparr>lk_Up := False\<rparr>)"
proof -
  have kernel: "netlink_kernel nl view" using assms(1) by unfold_locales
  have l: "view w (ns_Fd cur) (lk_Index hostDev) = Some hostDev" using netlink_kernel.by_name [OF kernel assms(2)] by simp
  have "view w2 = view w1"
    using netlink_kernel.changes(3) [OF kernel, of "temp_name hostDev"] assms(5) unfolding changes_link_def by metis
  then show ?thesis
    using assms(3-5) netlink_kernel.set_down [OF kernel assms(4) l]
    by (simp add: moveLinkInNetNamespace_def setDevTempName_def)
qed

end
