(* ===== verification/Device_Plugin.thy ===== *)
theory Device_Plugin
  imports Sriov_Config Grpc_Plugin
begin

text \<open>
  The device plugin of the kubelet (\<open>internal/daemon/device-plugin/deviceplugin.go\<close>), the device handler
  behind it (\<open>internal/daemon/device-handler/dpu-device-handler/dpudevicehandler.go\<close> and \<open>utils.go\<close>) and
  the interface \<open>VendorPlugin\<close> through which the daemon's parts reach the vendor plugin, with its
  implementation by \<open>GrpcPlugin\<close>. \<open>ListAndWatch\<close> never ends by itself, so it runs over a list of
  rounds; each round has the plugin as it is then and the outcome of the send. The lemmas show that the
  kubelet's list and the cache of the plugin stay equal and what an allocation returns.
\<close>

section \<open>Vendor plugin interface\<close>

record 'p vendor_plugin =
  vp_Close :: "'p \<Rightarrow> 'p"
  vp_CreateBridgePort :: "CreateBridgePortRequest \<Rightarrow> 'p \<Rightarrow> opi_BridgePort result \<times> 'p"
  vp_DeleteBridgePort :: "string \<Rightarrow> 'p \<Rightarrow> go_error option \<times> 'p"
  vp_CreateNetworkFunction :: "string \<Rightarrow> string \<Rightarrow> 'p \<Rightarrow> go_error option \<times> 'p"
  vp_DeleteNetworkFunction :: "string \<Rightarrow> string \<Rightarrow> 'p \<Rightarrow> go_error option \<times> 'p"
  vp_GetDevices :: "'p \<Rightarrow> DeviceListResponse result \<times> 'p"
  vp_SetNumVfs :: "32 word \<Rightarrow> 'p \<Rightarrow> 32 word result \<times> 'p"

definition grpc_vendor_plugin :: "'v vsp_env \<Rightarrow> ('s, 'v) gstate vendor_plugin" where
  "grpc_vendor_plugin env =
     \<lparr>vp_Close = GrpcPlugin_Close,
      vp_CreateBridgePort = (\<lambda>req. GrpcPlugin_CreateBridgePort env (Some req)),
      vp_DeleteBridgePort = (\<lambda>name. GrpcPlugin_DeleteBridgePort env (Some name)),
      vp_CreateNetworkFunction = GrpcPlugin_CreateNetworkFunction env,
      vp_DeleteNetworkFunction = GrpcPlugin_DeleteNetworkFunction env,
      vp_GetDevices = GrpcPlugin_GetDevices env,
      vp_SetNumVfs = GrpcPlugin_SetNumVfs env\<rparr>"

section \<open>Device handler (dpudevicehandler.go)\<close>

record kubelet_device =
  kd_ID :: string
  kd_Health :: string

type_synonym DeviceList = "(string, kubelet_device) gomap"

definition Healthy :: string where
  "Healthy = ''Healthy''"

text \<open>\<open>dh_setupDone\<close> is the channel: \<open>None\<close> when it was never made, else whether it is closed.\<close>

record dpuDeviceHandler =
  dh_dpuMode :: bool
  dh_setupDone :: "bool option"

definition NewDpuDeviceHandler :: "bool \<Rightarrow> dpuDeviceHandler" where
  "NewDpuDeviceHandler mode = \<lparr>dh_dpuMode = mode, dh_setupDone = None\<rparr>"

definition validatePciDevice :: "string \<Rightarrow> string result" where
  "validatePciDevice device =
     (if IsValidPCIAddress device then Inr device else Inl (Errorf ''netdev %s is not a valid PCI device'' [FStr device]))"

fun list_devices :: "bool \<Rightarrow> DeviceListResponse \<Rightarrow> DeviceList \<Rightarrow> DeviceList result" where
  "list_devices mode [] devs = Inr devs"
| "list_devices mode ((_, device) # rest) devs =
     (if mode
      then list_devices mode rest (map_put (lcd_ID device) \<lparr>kd_ID = lcd_ID device, kd_Health = Healthy\<rparr> devs)
      else (case validatePciDevice (lcd_ID device) of
              Inl err \<Rightarrow> Inl (Errorf ''Error in deviceHandler: device %s from GetDevice request: %v'' [FStr (lcd_ID device), FErr err])
            | Inr devPciId \<Rightarrow>
                list_devices mode rest (map_put devPciId \<lparr>kd_ID = devPciId, kd_Health = Healthy\<rparr> devs)))"

text \<open>\<open>None\<close>: the call waits for \<open>SetupDevices\<close>, for ever when nobody runs it.\<close>

definition dh_GetDevices ::
    "'p vendor_plugin \<Rightarrow> dpuDeviceHandler \<Rightarrow> 'p \<Rightarrow> (DeviceList result \<times> 'p) option" where
  "dh_GetDevices vp d p =
     (if dh_setupDone d \<noteq> Some True then None
      else Some (case vp_GetDevices vp p of
             (Inl err, p') \<Rightarrow> (Inl (Errorf ''failed to handle GetDevices request: %v'' [FErr err]), p')
           | (Inr ds, p') \<Rightarrow> (list_devices (dh_dpuMode d) ds [], p')))"

text \<open>The channel is closed on every way out.\<close>

definition dh_SetupDevices ::
    "'p vendor_plugin \<Rightarrow> dpuDeviceHandler \<Rightarrow> 'p \<Rightarrow> go_error option \<times> dpuDeviceHandler \<times> 'p" where
  "dh_SetupDevices vp d p =
     (let d' = d\<lparr>dh_setupDone := Some True\<rparr> in
      case vp_SetNumVfs vp 8 p of
        (Inl err, p') \<Rightarrow>
          (if dh_dpuMode d then None else Some (Errorf ''failed to set sriov numVfs: %v'' [FErr err]), d', p')
      | (Inr numVfs, p') \<Rightarrow>
          (if numVfs = 0 then Some (Errorf ''SetNumVfs ran, but numVfs == %d'' [FInt 0]) else None, d', p'))"

definition dh_GetDriverName :: "filesys \<Rightarrow> string \<Rightarrow> string result" where
  "dh_GetDriverName fs pciAddr =
     (case Readlink fs (path_join (path_join ''/sys/bus/pci/devices'' pciAddr) ''driver'') of
        Inl err \<Rightarrow> Inl (Errorf ''error getting driver info for device %s %v'' [FStr pciAddr, FErr err])
      | Inr driverInfo \<Rightarrow> Inr (path_base driverInfo))"

definition dh_GetNumaNode :: "filesys \<Rightarrow> string \<Rightarrow> int" where
  "dh_GetNumaNode fs pciAddr =
     (case ReadFile fs (path_join (path_join ''/sys/bus/pci/devices'' pciAddr) ''numa_node'') of
        Inl err \<Rightarrow> -1
      | Inr node \<Rightarrow> (case atoi (trim_space node) of None \<Rightarrow> -1 | Some n \<Rightarrow> n))"

section \<open>Device plugin (deviceplugin.go)\<close>

text \<open>\<open>dp_sent\<close> records the lists sent to the kubelet; \<open>dp_grpcServer\<close> says that the
  gRPC server is not nil, \<open>dp_serving\<close> that it has not been stopped.\<close>

record dpServer =
  dp_devices :: DeviceList
  dp_grpcServer :: bool
  dp_serving :: bool
  dp_handler :: dpuDeviceHandler
  dp_sent :: "DeviceList list"

definition NewDevicePlugin :: "bool \<Rightarrow> dpServer" where
  "NewDevicePlugin mode = \<lparr>dp_devices = [], dp_grpcServer = True, dp_serving = True, dp_handler = NewDpuDeviceHandler mode, dp_sent = []\<rparr>"

definition dp_SetupDevices :: "'p vendor_plugin \<Rightarrow> dpServer \<Rightarrow> 'p \<Rightarrow> go_error option \<times> dpServer \<times> 'p" where
  "dp_SetupDevices vp dp p =
     (case dh_SetupDevices vp (dp_handler dp) p of
        (err, d, p') \<Rightarrow> (map_option (\<lambda>err. Errorf ''failed to setup devices: %v'' [FErr err]) err, dp\<lparr>dp_handler := d\<rparr>, p'))"

definition sendDevices :: "go_error option \<Rightarrow> DeviceList \<Rightarrow> dpServer \<Rightarrow> go_error option \<times> dpServer" where
  "sendDevices sendErr devs dp =
     (case sendErr of
        Some err \<Rightarrow> (Some err, dp\<lparr>dp_serving := False\<rparr>)
      | None \<Rightarrow> (None, dp\<lparr>dp_sent := dp_sent dp @ [devs]\<rparr>))"

definition devicesEqual :: "DeviceList \<Rightarrow> DeviceList \<Rightarrow> bool" where
  "devicesEqual d1 d2 \<longleftrightarrow> length d1 = length d2 \<and> list_all (\<lambda>(k, v). map_get d2 k = Some v) d1"

definition setDeviceCache :: "DeviceList \<Rightarrow> dpServer \<Rightarrow> dpServer" where
  "setDeviceCache devs dp = dp\<lparr>dp_devices := devs\<rparr>"

definition checkCachedDeviceHealth :: "dpServer \<Rightarrow> string \<Rightarrow> bool result" where
  "checkCachedDeviceHealth dp dev =
     (case map_get (dp_devices dp) dev of
        None \<Rightarrow> Inl (Errorf ''invalid allocation request with non-existing device: %s'' [FStr dev])
      | Some d \<Rightarrow> Inr (kd_Health d = Healthy))"

text \<open>One round of \<open>ListAndWatch\<close> and the loop. The result is the error that ended it, or \<open>None\<close> while it runs.\<close>

record 'p lw_round =
  lw_plugin :: "'p vendor_plugin"
  lw_sendErr :: "go_error option"

fun ListAndWatch ::
    "'p lw_round list \<Rightarrow> DeviceList \<Rightarrow> dpServer \<Rightarrow> 'p \<Rightarrow> go_error option \<times> DeviceList \<times> dpServer \<times> 'p" where
  "ListAndWatch [] oldDevices dp p = (None, oldDevices, dp, p)"
| "ListAndWatch (r # rs) oldDevices dp p =
     (case dh_GetDevices (lw_plugin r) (dp_handler dp) p of
        None \<Rightarrow> (None, oldDevices, dp, p)
      | Some (Inl err, p') \<Rightarrow> (Some err, oldDevices, dp, p')
      | Some (Inr newDevices, p') \<Rightarrow>
          if devicesEqual oldDevices newDevices then ListAndWatch rs oldDevices dp p'
          else (case sendDevices (lw_sendErr r) newDevices dp of
                  (Some err, dp') \<Rightarrow> (Some err, oldDevices, dp', p')
                | (None, dp') \<Rightarrow> ListAndWatch rs newDevices (setDeviceCache newDevices dp') p'))"

text \<open>The devices of one container, and all containers; the name list goes on from one container to the next.\<close>

fun allocate_ids :: "dpServer \<Rightarrow> string list \<Rightarrow> string \<Rightarrow> string result" where
  "allocate_ids dp [] devName = Inr devName"
| "allocate_ids dp (dev # rest) devName =
     (case checkCachedDeviceHealth dp dev of
        Inl err \<Rightarrow> Inl err
      | Inr isHealthy \<Rightarrow>
          if \<not> isHealthy then Inl (Errorf ''invalid allocation request with unhealthy device: %s'' [FStr dev])
          else allocate_ids dp rest (devName @ dev @ '',''))"

fun allocate_containers :: "dpServer \<Rightarrow> string list list \<Rightarrow> string \<Rightarrow> (string, string) gomap list result" where
  "allocate_containers dp [] devName = Inr []"
| "allocate_containers dp (ids # rest) devName =
     (case allocate_ids dp ids devName of
        Inl err \<Rightarrow> Inl err
      | Inr devName' \<Rightarrow>
          (case allocate_containers dp rest devName' of
             Inl err \<Rightarrow> Inl err
           | Inr resps \<Rightarrow> Inr ([(''NF-DEV'', devName')] # resps)))"

definition Allocate :: "dpServer \<Rightarrow> string list list \<Rightarrow> (string, string) gomap list result" where
  "Allocate dp containerRequests = allocate_containers dp containerRequests []"

text \<open>\<open>os.Remove\<close> of the socket: \<open>None\<close> when it worked, else the error and whether it is \<open>os.IsNotExist\<close>.\<close>

definition dp_cleanup :: "(go_error \<times> bool) option \<Rightarrow> go_error option" where
  "dp_cleanup removed = (case removed of Some (err, notExist) \<Rightarrow> if notExist then None else Some err | None \<Rightarrow> None)"

definition dp_Listen :: "(go_error \<times> bool) option \<Rightarrow> go_error option \<Rightarrow> string \<Rightarrow> go_error option" where
  "dp_Listen removed listenErr resourceName =
     (case dp_cleanup removed of
        Some err \<Rightarrow> Some (Errorf ''failed to cleanup Device Plugin server endpoint: %v'' [FErr err])
      | None \<Rightarrow>
          map_option (\<lambda>err. Errorf ''resource %s failed to listen to Device Plugin server: %v'' [FStr resourceName, FErr err]) listenErr)"

definition dp_Stop :: "(go_error \<times> bool) option \<Rightarrow> dpServer \<Rightarrow> go_error option \<times> dpServer" where
  "dp_Stop removed dp = (if \<not> dp_grpcServer dp then (None, dp)
      else (dp_cleanup removed, dp\<lparr>dp_serving := False, dp_grpcServer := False\<rparr>))"

section \<open>Lemmas\<close>

lemma devicesEqual_iff:
  assumes "map_ok d1" "map_ok d2"
  shows "devicesEqual d1 d2 \<longleftrightarrow> map_get d1 = map_get d2"
proof
  assume eq: "devicesEqual d1 d2"
  then have sub: "map_get d1 k = Some v \<Longrightarrow> map_get d2 k = Some v" for k v
    by (auto simp: devicesEqual_def list_all_iff dest!: map_of_SomeD)
  then have "dom (map_get d1) \<subseteq> dom (map_get d2)" by auto
  moreover have "card (dom (map_get d1)) = card (dom (map_get d2))"
    using eq assms by (simp add: devicesEqual_def dom_map_of_conv_image_fst card_image distinct_map distinct_card flip: set_map)
  ultimately have "dom (map_get d1) = dom (map_get d2)" by (simp add: card_subset_eq finite_dom_map_of)
  then show "map_get d1 = map_get d2" using sub by (metis domIff ext not_None_eq)
next
  assume eq: "map_get d1 = map_get d2"
  then have "set (map fst d1) = set (map fst d2)" by (metis dom_map_of_conv_image_fst set_map)
  then have "length d1 = length d2" using assms by (metis distinct_card length_map)
  then show "devicesEqual d1 d2"
    using eq assms(1) by (auto simp: devicesEqual_def list_all_iff simp flip: eq)
qed

lemma list_devices_ok: "list_devices mode ds devs = Inr r \<Longrightarrow> map_ok devs \<Longrightarrow> map_ok r"
  by (induction mode ds devs rule: list_devices.induct) (auto simp: validatePciDevice_def split: if_splits sum.splits)

lemma list_devices_get:
  "list_devices mode ds devs = Inr r \<Longrightarrow>
   map_get r k = (if k \<in> set (map (\<lambda>(_, d). lcd_ID d) ds) then Some \<lparr>kd_ID = k, kd_Health = Healthy\<rparr> else map_get devs k)"
  by (induction mode ds devs rule: list_devices.induct) (auto simp: validatePciDevice_def split: if_splits sum.splits)

definition healthy_map :: "DeviceList \<Rightarrow> bool" where
  "healthy_map m \<longleftrightarrow> map_ok m \<and> (\<forall>k d. map_get m k = Some d \<longrightarrow> d = \<lparr>kd_ID = k, kd_Health = Healthy\<rparr>)"

lemma healthy_mapD: "healthy_map m \<Longrightarrow> map_ok m" "healthy_map m \<Longrightarrow> map_get m k = Some d \<Longrightarrow> kd_Health d = Healthy"
  by (simp_all add: healthy_map_def) (metis kubelet_device.select_convs(2))

lemma healthy_map_Nil [simp]: "healthy_map []"
  by (simp add: healthy_map_def)

lemma dh_GetDevices_shape:
  assumes "dh_GetDevices vp d p = Some (Inr new, q)"
  shows "healthy_map new"
proof -
  obtain ds where "list_devices (dh_dpuMode d) ds [] = Inr new"
    using assms by (auto simp: dh_GetDevices_def split: if_splits prod.splits sum.splits)
  then show ?thesis using list_devices_ok list_devices_get unfolding healthy_map_def by (force split: if_splits)
qed

text \<open>What the loop keeps: the devices of the last turn are a proper map of healthy devices, the cache holds them, and they
  are what was sent last.\<close>

definition lw_inv :: "DeviceList \<Rightarrow> dpServer \<Rightarrow> bool" where
  "lw_inv old dp \<longleftrightarrow>
     healthy_map old \<and> dp_devices dp = old \<and> (if dp_sent dp = [] then old = [] else last (dp_sent dp) = old)"

lemma ListAndWatch_inv:
  "ListAndWatch rs old dp p = (err, old', dp', p') \<Longrightarrow> lw_inv old dp \<Longrightarrow> lw_inv old' dp'"
proof (induction rs old dp p rule: ListAndWatch.induct)
  case (2 r rs old dp p)
  have "healthy_map new"
    if "dh_GetDevices (lw_plugin r) (dp_handler dp) p = Some (Inr new, q)" for new q
    using that by (rule dh_GetDevices_shape)
  then show ?case
    using 2 by (auto simp: sendDevices_def setDeviceCache_def lw_inv_def split: option.splits prod.splits sum.splits if_splits)
qed simp

text \<open>The lists sent are never repeated.\<close>

fun no_repeats :: "DeviceList list \<Rightarrow> bool" where
  "no_repeats (a # b # rest) = (map_get a \<noteq> map_get b \<and> no_repeats (b # rest))"
| "no_repeats _ = True"

lemma no_repeats_snoc: "no_repeats (xs @ [x]) \<longleftrightarrow> no_repeats xs \<and> (xs = [] \<or> map_get (last xs) \<noteq> map_get x)"
  by (induction xs rule: no_repeats.induct) auto

lemma ListAndWatch_no_repeats:
  "ListAndWatch rs old dp p = (err, old', dp', p') \<Longrightarrow> lw_inv old dp \<Longrightarrow> no_repeats (dp_sent dp) \<Longrightarrow> no_repeats (dp_sent dp')"
proof (induction rs old dp p rule: ListAndWatch.induct)
  case (2 r rs old dp p)
  have new: "healthy_map new"
    if "dh_GetDevices (lw_plugin r) (dp_handler dp) p = Some (Inr new, q)" for new q
    using that by (rule dh_GetDevices_shape)
  show ?case
  proof (cases "dh_GetDevices (lw_plugin r) (dp_handler dp) p")
    case (Some a)
    obtain ans q where a: "a = (ans, q)" by (metis prod.exhaust)
    show ?thesis
    proof (cases ans)
      case (Inr devs)
      show ?thesis
      proof (cases "devicesEqual old devs \<or> lw_sendErr r \<noteq> None")
        case True
        then show ?thesis using 2 Some a Inr by (auto simp: sendDevices_def split: if_splits)
      next
        case False
        have "map_get old \<noteq> map_get devs"
          using False devicesEqual_iff [of old devs] new Some a Inr 2(4) by (auto simp: lw_inv_def dest: healthy_mapD(1))
        then have "no_repeats (dp_sent dp @ [devs])" "lw_inv devs (setDeviceCache devs (dp\<lparr>dp_sent := dp_sent dp @ [devs]\<rparr>))"
          using 2(4,5) new Some a Inr by (auto simp: no_repeats_snoc lw_inv_def setDeviceCache_def)
        then show ?thesis using 2 Some a Inr False by (auto simp: sendDevices_def setDeviceCache_def)
      qed
    qed (use 2 Some a in auto)
  qed (use 2 in auto)
qed simp

text \<open>C28: The kubelet and the device plugin agree on the devices. However many rounds \<open>ListAndWatch\<close> has
  run, from the start of the plugin on, the list cached for allocations is the list sent last (empty as
  long as none was sent), no list is sent twice in a row, and an allocation of a device succeeds exactly
  when the device is on that list.\<close>

theorem ListAndWatch_in_step:
  assumes "ListAndWatch rs [] (dp\<lparr>dp_devices := [], dp_sent := []\<rparr>) p = (err, old, dp', p')"
  shows "dp_devices dp' = (if dp_sent dp' = [] then [] else last (dp_sent dp')) \<and> no_repeats (dp_sent dp') \<and>
         ((\<exists>resp. Allocate dp' [[dev]] = Inr resp) \<longleftrightarrow> (dp_sent dp' \<noteq> [] \<and> dev \<in> fst ` set (last (dp_sent dp'))))"
proof -
  have "lw_inv [] (dp\<lparr>dp_devices := [], dp_sent := []\<rparr>)" by (simp add: lw_inv_def)
  from ListAndWatch_inv [OF assms this] ListAndWatch_no_repeats [OF assms this]
  have inv: "lw_inv old dp'" "no_repeats (dp_sent dp')" by simp_all
  have "kd_Health d = Healthy" if "map_get (dp_devices dp') dev = Some d" for d
    using inv(1) that healthy_mapD(2) by (metis lw_inv_def)
  then have "(\<exists>resp. Allocate dp' [[dev]] = Inr resp) \<longleftrightarrow> (\<exists>d. map_get (dp_devices dp') dev = Some d)"
    by (auto simp: Allocate_def checkCachedDeviceHealth_def split: option.splits)
  also have "\<dots> \<longleftrightarrow> dev \<in> fst ` set (dp_devices dp')"
    by (metis dom_map_of_conv_image_fst domIff not_None_eq)
  finally show ?thesis using inv by (auto simp: lw_inv_def split: if_splits)
qed

definition vsp_with :: "DeviceListResponse \<Rightarrow> unit vendor_plugin" where
  "vsp_with ds =
     \<lparr>vp_Close = (\<lambda>p. p), vp_CreateBridgePort = (\<lambda>_ p. (Inl ErrNotImplemented, p)), vp_DeleteBridgePort = (\<lambda>_ p. (None, p)),
      vp_CreateNetworkFunction = (\<lambda>_ _ p. (None, p)), vp_DeleteNetworkFunction = (\<lambda>_ _ p. (None, p)),
      vp_GetDevices = (\<lambda>p. (Inr ds, p)), vp_SetNumVfs = (\<lambda>n p. (Inr n, p))\<rparr>"

definition one_device :: DeviceListResponse where
  "one_device = [(''a'', \<lparr>lcd_ID = ''0000:3b:0a.1'', lcd_Health = '''', lcd_Node = ''''\<rparr>)]"

definition ready_plugin :: dpServer where
  "ready_plugin = (NewDevicePlugin False)\<lparr>dp_handler := \<lparr>dh_dpuMode = False, dh_setupDone = Some True\<rparr>\<rparr>"

theorem ListAndWatch_in_step_witness:
  "let r = ListAndWatch [\<lparr>lw_plugin = vsp_with one_device, lw_sendErr = None\<rparr>, \<lparr>lw_plugin = vsp_with one_device, lw_sendErr = None\<rparr>] []
             (ready_plugin\<lparr>dp_devices := [], dp_sent := []\<rparr>) ()
   in length (dp_sent (fst (snd (snd r)))) = 1 \<and> (\<exists>resp. Allocate (fst (snd (snd r))) [[''0000:3b:0a.1'']] = Inr resp)"
proof -
  let ?rs = "[\<lparr>lw_plugin = vsp_with one_device, lw_sendErr = None\<rparr>, \<lparr>lw_plugin = vsp_with one_device, lw_sendErr = None\<rparr>]"
  let ?devs = "[(''0000:3b:0a.1'', \<lparr>kd_ID = ''0000:3b:0a.1'', kd_Health = Healthy\<rparr>)]"
  let ?dp = "ready_plugin\<lparr>dp_devices := ?devs, dp_sent := [?devs]\<rparr>"
  have run: "ListAndWatch ?rs [] (ready_plugin\<lparr>dp_devices := [], dp_sent := []\<rparr>) () = (None, ?devs, ?dp, ())" by code_simp
  from ListAndWatch_in_step [OF run, of "''0000:3b:0a.1''"] show ?thesis
    by (simp only: run Let_def prod.sel) auto
qed

lemma allocate_ids_iff:
  "allocate_ids dp ids devName = Inr r \<longleftrightarrow>
   (\<forall>dev \<in> set ids. checkCachedDeviceHealth dp dev = Inr True) \<and> r = devName @ concat (map (\<lambda>dev. dev @ '','') ids)"
  by (induction dp ids devName rule: allocate_ids.induct) (auto split: sum.splits if_splits)

lemma allocate_containers_iff:
  "allocate_containers dp reqs devName = Inr resps \<longleftrightarrow>
   (\<forall>ids \<in> set reqs. \<forall>dev \<in> set ids. checkCachedDeviceHealth dp dev = Inr True) \<and>
   resps = map (\<lambda>n. [(''NF-DEV'', devName @ concat (map (\<lambda>dev. dev @ '','') (concat (take (Suc n) reqs))))]) [0..<length reqs]"
proof (induction reqs arbitrary: devName resps)
  case (Cons ids rest)
  have upt: "[0..<length (ids # rest)] = 0 # map Suc [0..<length rest]"
    by (simp add: map_Suc_upt upt_conv_Cons del: upt_Suc)
  have "allocate_containers dp (ids # rest) devName = Inr resps \<longleftrightarrow>
      (\<exists>d rs. allocate_ids dp ids devName = Inr d \<and> allocate_containers dp rest d = Inr rs \<and> resps = [(''NF-DEV'', d)] # rs)"
    by (auto split: sum.splits)
  then show ?case unfolding upt allocate_ids_iff Cons.IH by auto
qed auto

text \<open>An allocation is granted exactly when every device of every container is known and healthy. The
  list a container gets names its own devices after those of all containers before it in the request.\<close>

theorem Allocate_exact:
  "Allocate dp reqs = Inr resps \<longleftrightarrow>
   (\<forall>ids \<in> set reqs. \<forall>dev \<in> set ids. \<exists>d. map_get (dp_devices dp) dev = Some d \<and> kd_Health d = Healthy) \<and>
   resps = map (\<lambda>n. [(''NF-DEV'', concat (map (\<lambda>dev. dev @ '','') (concat (take (Suc n) reqs))))]) [0..<length reqs]"
proof -
  have "checkCachedDeviceHealth dp dev = Inr True \<longleftrightarrow> (\<exists>d. map_get (dp_devices dp) dev = Some d \<and> kd_Health d = Healthy)" for dev
    by (auto simp: checkCachedDeviceHealth_def split: option.splits)
  then show ?thesis by (simp add: Allocate_def allocate_containers_iff)
qed

end
