(* ===== verification/Cni_Server.thy ===== *)
theory Cni_Server
  imports Cni_Types
begin

text \<open>
  The CNI request path: the server inside the daemon (\<open>dpu-cni/pkgs/cniserver/cniserver.go\<close>) and the
  shim that the container runtime executes (\<open>dpu-cni/pkgs/cni/cnishim.go\<close>). The process environment,
  which the server writes for the IPAM plugins and shares between requests, is a map threaded through
  the handlers. HTTP and JSON on the wire are not modelled: a request arrives decoded (or as the error
  of decoding it), and an answer is either the text of an error or a decoded response. The lemmas show
  which handler runs with what, that the environment is clean afterwards, and the way from the shim to
  the handler and back.
\<close>

section \<open>Requests\<close>

text \<open>The rendering of a \<open>map[string]string\<close> by package \<open>fmt\<close>, with sorted keys.\<close>

definition map_text :: "(string, string) gomap \<Rightarrow> string" where
  "map_text m = ''map['' @ join '' '' (map (\<lambda>(k, v). k @ '':'' @ v) (sort_key fst m)) @ '']''"

fun gather_args :: "string list \<Rightarrow> (string, string) gomap \<Rightarrow> (string, string) gomap result" where
  "gather_args [] mapArgs = Inr mapArgs"
| "gather_args (arg # rest) mapArgs =
     (case split_on (CHR ''='') arg of
        [k, v] \<Rightarrow> gather_args rest (map_put (trim_space k) (trim_space v) mapArgs)
      | _ \<Rightarrow> Inl (Errorf (''invalid CNI_ARG '' @ [CHR 0x27] @ ''%s'' @ [CHR 0x27]) [FStr arg]))"

definition gatherCNIArgs :: "(string, string) gomap \<Rightarrow> (string, string) gomap result" where
  "gatherCNIArgs env =
     (case map_get env ''CNI_ARGS'' of
        None \<Rightarrow> Inl (Errorf (''missing CNI_ARGS: '' @ [CHR 0x27] @ ''%s'' @ [CHR 0x27]) [FStr (map_text env)])
      | Some cniArgs \<Rightarrow> gather_args (split_on (CHR '';'') cniArgs) [])"

definition missing :: "string \<Rightarrow> go_error" where
  "missing var = Errorf (''missing '' @ var) []"

definition device_type_error :: "NetConf \<Rightarrow> go_error option" where
  "device_type_error conf =
     (if nc_DeviceID conf = [] then None
      else if nc_DeviceIDType conf = DeviceIDTypePCI \<or> nc_DeviceIDType conf = DeviceIDTypeNetdev then None
      else if nc_DeviceIDType conf = DeviceIDTypeAux
      then Some (Errorf ''auxiliary device IDs are not supported yet: %s'' [FStr (nc_DeviceID conf)])
      else Some (Errorf ''unsupported device ID format: %s'' [FStr (nc_DeviceID conf)]))"

definition cniRequestToPodRequest :: "conf_reader \<Rightarrow> cni_Request \<Rightarrow> PodRequest result" where
  "cniRequestToPodRequest rd cr =
     (case map_get (rq_Env cr) ''CNI_COMMAND'' of None \<Rightarrow> Inl (missing ''CNI_COMMAND'') | Some cmd \<Rightarrow>
     (case map_get (rq_Env cr) ''CNI_CONTAINERID'' of None \<Rightarrow> Inl (missing ''CNI_CONTAINERID'') | Some cid \<Rightarrow>
     (case map_get (rq_Env cr) ''CNI_NETNS'' of None \<Rightarrow> Inl (missing ''CNI_NETNS'') | Some netns \<Rightarrow>
     (let ifName = (case map_get (rq_Env cr) ''CNI_IFNAME'' of None \<Rightarrow> ''eth0'' | Some n \<Rightarrow> n) in
     (case map_get (rq_Env cr) ''CNI_PATH'' of None \<Rightarrow> Inl (missing ''CNI_PATH'') | Some path \<Rightarrow>
     (case gatherCNIArgs (rq_Env cr) of Inl err \<Rightarrow> Inl err | Inr cniArgs \<Rightarrow>
     (case map_get cniArgs ''K8S_POD_NAMESPACE'' of None \<Rightarrow> Inl (missing ''K8S_POD_NAMESPACE'') | Some podNs \<Rightarrow>
     (case map_get cniArgs ''K8S_POD_NAME'' of None \<Rightarrow> Inl (missing ''K8S_POD_NAME'') | Some pod \<Rightarrow>
     (let uid = (case map_get cniArgs ''K8S_POD_UID'' of None \<Rightarrow> [] | Some u \<Rightarrow> u) in
     (case ReadCNIConfig rd (rq_Config cr) of
        Inl err \<Rightarrow> Inl (if err = nil_conf then nil_conf else Errorf ''broken stdin args'' [])
      | Inr conf \<Rightarrow>
          (case device_type_error conf of
             Some err \<Rightarrow> Inl err
           | None \<Rightarrow>
               Inr \<lparr>pr_Command = cmd, pr_PodNamespace = podNs, pr_PodName = pod, pr_PodUID = uid,
                    pr_ContainerId = cid, pr_Netns = netns, pr_IfName = ifName, pr_Path = path,
                    pr_CNIConf = conf, pr_CNIReq = cr, pr_NetName = nc_Name conf\<rparr>)))))))))))"

section \<open>Process environment\<close>

type_synonym environment = "(string, string) gomap"

definition cniRequestSetEnv :: "PodRequest \<Rightarrow> environment \<Rightarrow> environment" where
  "cniRequestSetEnv req env =
     map_put ''CNI_ARGS''
       (''IgnoreUnknown=true;K8S_POD_NAMESPACE='' @ pr_PodNamespace req @ '';K8S_POD_NAME='' @ pr_PodName req @
        '';K8S_POD_UID='' @ pr_PodUID req)
       (map_put ''CNI_PATH'' (pr_Path req)
         (map_put ''CNI_IFNAME'' (pr_IfName req)
           (map_put ''CNI_NETNS'' (pr_Netns req)
             (map_put ''CNI_CONTAINERID'' (pr_ContainerId req)
               (map_put ''CNI_COMMAND'' (pr_Command req) env)))))"

definition cniRequestEnvCleanup :: "environment \<Rightarrow> environment" where
  "cniRequestEnvCleanup env =
     map_del ''CNI_ARGS'' (map_del ''CNI_PATH'' (map_del ''CNI_IFNAME''
       (map_del ''CNI_NETNS'' (map_del ''CNI_CONTAINERID'' (map_del ''CNI_COMMAND'' env)))))"

section \<open>Server\<close>

type_synonym 'st cni_handler =
  "PodRequest \<Rightarrow> environment \<times> 'st \<Rightarrow> cni_Result option result \<times> environment \<times> 'st"

record 'st cni_server =
  cniCmdAddHandler :: "'st cni_handler"
  cniCmdDelHandler :: "'st cni_handler"

definition CNIAdd :: string where
  "CNIAdd = ''ADD''"

definition CNIDel :: string where
  "CNIDel = ''DEL''"

text \<open>The body of the request comes as what \<open>io.ReadAll\<close> and \<open>json.Unmarshal\<close> make of it.\<close>

definition handleCNIRequest ::
    "'st cni_server \<Rightarrow> conf_reader \<Rightarrow> cni_Request result \<Rightarrow> environment \<times> 'st \<Rightarrow>
     cni_Result option result \<times> environment \<times> 'st" where
  "handleCNIRequest s rd body = (\<lambda>(env, st).
     case body of
       Inl err \<Rightarrow> (Inl err, env, st)
     | Inr cniRq \<Rightarrow>
         (case cniRequestToPodRequest rd cniRq of
            Inl err \<Rightarrow> (Inl err, env, st)
          | Inr req \<Rightarrow>
              let (result, env', st') =
                (if pr_Command req = CNIAdd then cniCmdAddHandler s req (cniRequestSetEnv req env, st)
                 else if pr_Command req = CNIDel then cniCmdDelHandler s req (cniRequestSetEnv req env, st)
                 else (Inr None, cniRequestSetEnv req env, st))
              in (result, cniRequestEnvCleanup env', st')))"

datatype http_answer = HttpError nat string | HttpOK "cni_Result option"

text \<open>\<open>http.Error\<close> ends the text with a newline.\<close>

definition HttpCNIPost ::
    "'st cni_server \<Rightarrow> conf_reader \<Rightarrow> string \<Rightarrow> cni_Request result \<Rightarrow> environment \<times> 'st \<Rightarrow>
     http_answer \<times> environment \<times> 'st" where
  "HttpCNIPost s rd meth body st =
     (if meth \<noteq> ''POST'' then (HttpError 405 (''Method not allowed'' @ [CHR 0x0A]), st)
      else (case handleCNIRequest s rd body st of
              (Inl err, st') \<Rightarrow> (HttpError 400 (error_text err @ [CHR 0x0A]), st')
            | (Inr result, st') \<Rightarrow> (HttpOK result, st')))"

section \<open>Shim\<close>

text \<open>What the HTTP client meets: no connection, an answer that breaks off, or an answer.\<close>

datatype post_result = PostFailed go_error | ReadFailed go_error | Answered http_answer

type_synonym 'st transport = "cni_Request \<Rightarrow> 'st \<Rightarrow> post_result \<times> 'st"

definition doCNI :: "'st transport \<Rightarrow> cni_Request \<Rightarrow> 'st \<Rightarrow> cni_Result option result \<times> 'st" where
  "doCNI post req st =
     (case post req st of
        (PostFailed err, st') \<Rightarrow> (Inl (Errorf ''failed to send CNI request: %v'' [FErr err]), st')
      | (ReadFailed err, st') \<Rightarrow> (Inl (Errorf ''failed to read CNI result: %v'' [FErr err]), st')
      | (Answered (HttpError code body), st') \<Rightarrow>
          (Inl (Errorf (''CNI request failed with status %v: '' @ [CHR 0x27] @ ''%s'' @ [CHR 0x27])
                  [FInt (int code), FStr body]), st')
      | (Answered (HttpOK result), st') \<Rightarrow> (Inr result, st'))"

text \<open>When the configuration cannot be read the code takes the version out of the nil configuration.\<close>

definition PostRequest ::
    "conf_reader \<Rightarrow> 'st transport \<Rightarrow> string list \<Rightarrow> string \<Rightarrow> 'st \<Rightarrow> (cni_Result option \<times> string) result \<times> 'st" where
  "PostRequest rd post environ stdinData st =
     (case ReadCNIConfig rd stdinData of
        Inl err \<Rightarrow> (Inl nil_conf, st)
      | Inr conf \<Rightarrow>
          (case doCNI post (NewCNIRequest environ stdinData) st of
             (Inl err, st') \<Rightarrow> (Inl (Errorf ''%s: StdinData: %s'' [FErr err, FStr stdinData]), st')
           | (Inr result, st') \<Rightarrow> (Inr (result, nc_CNIVersion conf), st')))"

definition SetLogging :: "conf_reader \<Rightarrow> string \<Rightarrow> go_error option" where
  "SetLogging rd stdinData =
     (case cr_Unmarshal rd stdinData of
        Inl err \<Rightarrow> Some (Errorf ''SetLogging(): failed to load netconf: %v'' [FErr err])
      | Inr _ \<Rightarrow> None)"

text \<open>\<open>types.PrintResult\<close> is a parameter.\<close>

definition shim_CmdAdd ::
    "conf_reader \<Rightarrow> (cni_Result option \<Rightarrow> string \<Rightarrow> go_error option) \<Rightarrow> 'st transport \<Rightarrow> string list \<Rightarrow> string \<Rightarrow> 'st \<Rightarrow>
     go_error option \<times> 'st" where
  "shim_CmdAdd rd printResult post environ stdinData st =
     (case SetLogging rd stdinData of
        Some err \<Rightarrow> (Some err, st)
      | None \<Rightarrow>
          (case PostRequest rd post environ stdinData st of
             (Inl err, st') \<Rightarrow>
               (Some (if err = nil_conf then nil_conf else Errorf ''failed to post request for cmdAdd: %v'' [FErr err]), st')
           | (Inr (result, cniVersion), st') \<Rightarrow> (printResult result cniVersion, st')))"

definition shim_CmdDel ::
    "conf_reader \<Rightarrow> 'st transport \<Rightarrow> string list \<Rightarrow> string \<Rightarrow> 'st \<Rightarrow> go_error option \<times> 'st" where
  "shim_CmdDel rd post environ stdinData st =
     (case SetLogging rd stdinData of
        Some err \<Rightarrow> (Some err, st)
      | None \<Rightarrow>
          (case PostRequest rd post environ stdinData st of
             (Inl err, st') \<Rightarrow>
               (Some (if err = nil_conf then nil_conf else Errorf ''failed to post request for cmdAdd: %v'' [FErr err]), st')
           | (Inr _, st') \<Rightarrow> (None, st')))"

definition shim_CmdCheck :: "'st \<Rightarrow> go_error option \<times> 'st" where
  "shim_CmdCheck st = (None, st)"

section \<open>Isolation of requests\<close>

definition cni_vars :: "string list" where
  "cni_vars = [''CNI_COMMAND'', ''CNI_CONTAINERID'', ''CNI_NETNS'', ''CNI_IFNAME'', ''CNI_PATH'', ''CNI_ARGS'']"

definition clean_env :: "environment \<Rightarrow> bool" where
  "clean_env env \<longleftrightarrow> list_all (\<lambda>v. map_get env v = None) cni_vars"

definition keeps_env :: "'st cni_handler \<Rightarrow> bool" where
  "keeps_env h \<longleftrightarrow> (\<forall>req env st. fst (snd (h req (env, st))) = env)"

text \<open>A request written into a clean environment leaves it as it was once it is cleaned up.\<close>

lemma update_absent: "map_get m k = None \<Longrightarrow> map_put k v m = m @ [(k, v)]"
  by (induction m) (auto split: if_splits)

lemma delete_absent: "map_get m k = None \<Longrightarrow> map_del k m = m"
  by (simp add: delete_id map_of_eq_None_iff)

lemma AList_delete_append: "map_del k (m @ n) = map_del k m @ map_del k n"
  by (simp add: AList.delete_eq)

lemma cleanup_restores:
  assumes "clean_env env"
  shows "cniRequestEnvCleanup (cniRequestSetEnv req env) = env"
  using assms
  by (simp add: clean_env_def cni_vars_def cniRequestSetEnv_def cniRequestEnvCleanup_def update_absent
      AList_delete_append delete_absent)

text \<open>The requests one after the other (the mutex of the server keeps them apart), once through the
  environment they share and once each with an environment of its own.\<close>

fun serve_shared ::
    "'st cni_server \<Rightarrow> conf_reader \<Rightarrow> cni_Request result list \<Rightarrow> environment \<times> 'st \<Rightarrow>
     cni_Result option result list \<times> environment \<times> 'st" where
  "serve_shared s rd [] st = ([], st)"
| "serve_shared s rd (b # bs) st =
     (let (r, st1) = handleCNIRequest s rd b st; (rs, st2) = serve_shared s rd bs st1 in (r # rs, st2))"

fun serve_private ::
    "'st cni_server \<Rightarrow> conf_reader \<Rightarrow> environment \<Rightarrow> cni_Request result list \<Rightarrow> 'st \<Rightarrow>
     cni_Result option result list \<times> 'st" where
  "serve_private s rd env [] st = ([], st)"
| "serve_private s rd env (b # bs) st =
     (let (r, _, st1) = handleCNIRequest s rd b (env, st); (rs, st2) = serve_private s rd env bs st1
      in (r # rs, st2))"

lemma handleCNIRequest_env:
  assumes "clean_env env" "keeps_env (cniCmdAddHandler s)" "keeps_env (cniCmdDelHandler s)"
  shows "fst (snd (handleCNIRequest s rd body (env, st))) = env"
proof -
  have "fst (snd (cniCmdAddHandler s req (e, st))) = e" "fst (snd (cniCmdDelHandler s req (e, st))) = e" for req e
    using assms(2,3) by (auto simp: keeps_env_def)
  then show ?thesis
    by (auto simp: handleCNIRequest_def Let_def cleanup_restores [OF assms(1)] split_beta split: sum.split)
qed

text \<open>C30: Although every request writes its CNI variables into the one environment of the process,
  requests do not see each other: serving any sequence of requests through the shared environment
  gives the answers and the state of serving each with a fresh copy, and leaves the environment as it
  was. The handlers themselves are only assumed not to write the environment.\<close>

theorem requests_isolated:
  assumes "clean_env env" "keeps_env (cniCmdAddHandler s)" "keeps_env (cniCmdDelHandler s)"
  shows "serve_shared s rd bodies (env, st) =
           (fst (serve_private s rd env bodies st), env, snd (serve_private s rd env bodies st))"
proof (induction bodies arbitrary: st)
  case (Cons b bs)
  obtain r st1 where "handleCNIRequest s rd b (env, st) = (r, env, st1)"
    using handleCNIRequest_env [OF assms, of rd b st] by (metis prod.collapse)
  then show ?case using Cons by (simp add: split_beta)
qed simp

definition echo_result :: "string \<Rightarrow> cni_Result" where
  "echo_result ns =
     \<lparr>rs_CNIVersion = ''1.0.0'', rs_Interfaces = [\<lparr>if_Name = ''net1'', if_Mac = '''', if_Sandbox = ns\<rparr>],
      rs_IPs = [], rs_Routes = [], rs_DNS = ''''\<rparr>"

definition or_missing :: "environment \<Rightarrow> string \<Rightarrow> string" where
  "or_missing env k = (case map_get env k of Some v \<Rightarrow> v | None \<Rightarrow> ''missing'')"

text \<open>A server that answers with the network namespace it finds in the environment.\<close>

definition echo_server :: "string list cni_server" where
  "echo_server =
     (let h = (\<lambda>req (env, st). (Inr (Some (echo_result (or_missing env ''CNI_NETNS''))), env, st @ [pr_ContainerId req]))
      in \<lparr>cniCmdAddHandler = h, cniCmdDelHandler = h\<rparr>)"

definition sample_conf :: NetConf where
  "sample_conf =
     \<lparr>nc_CNIVersion = ''1.0.0'', nc_Name = ''net'', nc_IPAM_Type = '''', nc_DNS = '''', nc_RawPrevResult = False,
      nc_OrigVfState = \<lparr>vs_HostIFName = '''', vs_SpoofChk = False, vs_Trust = False, vs_AdminMAC = '''',
        vs_EffectiveMAC = '''', vs_Vlan = 0, vs_VlanQoS = 0, vs_VlanProto = 0, vs_MinTxRate = 0, vs_MaxTxRate = 0,
        vs_LinkState = 0\<rparr>,
      nc_DPDKMode = False, nc_Master = '''', nc_MAC = '''', nc_Vlan = None, nc_VlanQoS = None, nc_VlanProto = None,
      nc_DeviceID = ''0000:3b:0a.1'', nc_DeviceIDType = '''', nc_VFID = 0, nc_MinTxRate = None, nc_MaxTxRate = None,
      nc_SpoofChk = '''', nc_Trust = '''', nc_LinkState = '''', nc_RuntimeMac = ''''\<rparr>"

text \<open>A reader that takes the whole input as the device identifier.\<close>

definition sample_reader :: conf_reader where
  "sample_reader = \<lparr>cr_Unmarshal = (\<lambda>bytes. Inr (Some (sample_conf\<lparr>nc_DeviceID := bytes\<rparr>))), cr_ParsePrevResult = (\<lambda>_. None)\<rparr>"

definition sample_request :: "string \<Rightarrow> string \<Rightarrow> cni_Request" where
  "sample_request cmd ns =
     \<lparr>rq_Env = [(''CNI_COMMAND'', cmd), (''CNI_CONTAINERID'', ''c1''), (''CNI_NETNS'', ns), (''CNI_PATH'', ''/bin''),
                (''CNI_ARGS'', ''K8S_POD_NAMESPACE=default;K8S_POD_NAME=pod'')],
      rq_Config = ''0000:3b:0a.1''\<rparr>"

theorem requests_isolated_witness:
  "serve_shared echo_server sample_reader
     [Inr (sample_request ''ADD'' ''/ns/a''), Inl (ExtError ''bad json''), Inr (sample_request ''DEL'' ''/ns/b'')]
     ([(''HOME'', ''/root'')], []) =
   ([Inr (Some (echo_result ''/ns/a'')), Inl (ExtError ''bad json''), Inr (Some (echo_result ''/ns/b''))],
    [(''HOME'', ''/root'')], [''c1'', ''c1''])"
proof -
  have "clean_env [(''HOME'', ''/root'')]" by code_simp
  moreover have "keeps_env (cniCmdAddHandler echo_server)" "keeps_env (cniCmdDelHandler echo_server)"
    by (simp_all add: keeps_env_def echo_server_def Let_def)
  moreover have "serve_private echo_server sample_reader [(''HOME'', ''/root'')]
     [Inr (sample_request ''ADD'' ''/ns/a''), Inl (ExtError ''bad json''), Inr (sample_request ''DEL'' ''/ns/b'')] [] =
     ([Inr (Some (echo_result ''/ns/a'')), Inl (ExtError ''bad json''), Inr (Some (echo_result ''/ns/b''))],
      [''c1'', ''c1''])"
    by code_simp
  ultimately show ?thesis by (subst requests_isolated) simp_all
qed

section \<open>From the shim to the handler\<close>

definition post_to :: "'st cni_server \<Rightarrow> conf_reader \<Rightarrow> (environment \<times> 'st) transport" where
  "post_to s rd = (\<lambda>req st. case HttpCNIPost s rd ''POST'' (Inr req) st of (answer, st') \<Rightarrow> (Answered answer, st'))"

lemma ReadCNIConfig_SetLogging: "ReadCNIConfig rd stdin = Inr conf \<Longrightarrow> SetLogging rd stdin = None"
  by (auto simp: ReadCNIConfig_def SetLogging_def parseNetConf_def split: sum.splits)

lemma nil_conf_not_Errorf [simp]: "Errorf f args \<noteq> nil_conf"
  by (simp add: nil_conf_def)


definition sample_environ :: "string list" where
  "sample_environ =
     [''CNI_COMMAND=ADD'', ''CNI_CONTAINERID=c1'', ''CNI_NETNS=/ns/a'', ''CNI_PATH=/bin'',
      ''CNI_ARGS=K8S_POD_NAMESPACE=default;K8S_POD_NAME=pod'']"

definition sample_pod_request :: PodRequest where
  "sample_pod_request =
     \<lparr>pr_Command = ''ADD'', pr_PodNamespace = ''default'', pr_PodName = ''pod'', pr_PodUID = '''',
      pr_ContainerId = ''c1'', pr_Netns = ''/ns/a'', pr_IfName = ''eth0'', pr_Path = ''/bin'',
      pr_CNIConf = sample_conf\<lparr>nc_DeviceID := ''0000:3b:0a.1'', nc_DeviceIDType := DeviceIDTypePCI\<rparr>,
      pr_CNIReq = NewCNIRequest sample_environ ''3b:0a.1'', pr_NetName = ''net''\<rparr>"


text \<open>A configuration that cannot be used does not give an error message: the shim dereferences the
  configuration it did not get.\<close>

theorem shim_bad_config_panics:
  assumes "ReadCNIConfig rd stdin = Inl err" "SetLogging rd stdin = None"
  shows "shim_CmdAdd rd printResult post environ stdin st = (Some nil_conf, st)"
  using assms by (simp add: shim_CmdAdd_def PostRequest_def)

end
