(* ===== verification/Side_Managers.thy ===== *)
theory Side_Managers
  imports Network_Fn Device_Plugin Cni_Server
begin

text \<open>
  The side managers of the daemon: \<open>HostSideManager\<close> (\<open>internal/daemon/hostsidemanager.go\<close>), which runs
  next to the pods and asks the DPU for bridge ports, and \<open>DpuSideManager\<close>
  (\<open>internal/daemon/dpusidemanager.go\<close>), which serves those requests and attaches network functions. The
  gRPC connection of the host is a parameter (the record \<open>dpu_peer\<close>), and \<open>dpu_peer_of\<close> is that parameter
  implemented by the DPU side. Times are in nanoseconds. The start of the servers and their goroutines is
  not modelled. The lemmas show what the two handlers ask of the DPU and when a network function exists.
\<close>

section \<open>Host side\<close>

record 'r dpu_peer =
  peer_Dial :: "string \<Rightarrow> go_error option"
  peer_CreateBridgePort :: "CreateBridgePortRequest \<Rightarrow> 'r \<Rightarrow> opi_BridgePort result \<times> 'r"
  peer_DeleteBridgePort :: "string \<Rightarrow> 'r \<Rightarrow> go_error option \<times> 'r"
  peer_Ping :: "'r \<Rightarrow> go_error option \<times> 'r"

record HostSideManager =
  hm_conn :: bool
  hm_addr :: string
  hm_port :: "32 word"
  hm_lastSuccessfulPing :: "int option"
  hm_dp :: dpServer

definition new_HostSideManager :: HostSideManager where
  "new_HostSideManager =
     \<lparr>hm_conn = False, hm_addr = [], hm_port = 0, hm_lastSuccessfulPing = None, hm_dp = NewDevicePlugin False\<rparr>"

text \<open>\<open>StartVsp\<close> is given what the plugin's \<open>Start\<close> returned.\<close>

definition host_StartVsp :: "(string \<times> 32 word) result \<Rightarrow> HostSideManager \<Rightarrow> go_error option \<times> HostSideManager" where
  "host_StartVsp started d =
     (case started of
        Inl err \<Rightarrow> (Some (Errorf ''failed calling VSP Start() from HostSideManager: %v'' [FErr err]), d)
      | Inr (addr, port) \<Rightarrow> (None, d\<lparr>hm_addr := addr, hm_port := port\<rparr>))"

definition host_SetupDevices :: "'p vendor_plugin \<Rightarrow> HostSideManager \<Rightarrow> 'p \<Rightarrow> go_error option \<times> HostSideManager \<times> 'p" where
  "host_SetupDevices vp d p =
     (case dp_SetupDevices vp (hm_dp d) p of
        (err, dp, p') \<Rightarrow>
          (map_option (\<lambda>err. Errorf ''failed calling SetupDevices from DpuSideManager: %v'' [FErr err]) err, d\<lparr>hm_dp := dp\<rparr>, p'))"

definition host_connectWithRetry :: "'r dpu_peer \<Rightarrow> HostSideManager \<Rightarrow> go_error option \<times> HostSideManager" where
  "host_connectWithRetry peer d =
     (if hm_conn d then (None, d)
      else (case peer_Dial peer (hm_addr d @ '':'' @ itoa (sint (hm_port d))) of
              Some err \<Rightarrow> (Some (Errorf ''connectWithRetry dial failed: %v'' [FErr err]), d)
            | None \<Rightarrow> (None, d\<lparr>hm_conn := True\<rparr>)))"

definition host_port_name :: "int \<Rightarrow> int \<Rightarrow> string" where
  "host_port_name pf vf = ''host'' @ itoa pf @ ''-'' @ itoa vf"

definition host_port_request :: "int \<Rightarrow> int \<Rightarrow> HardwareAddr \<Rightarrow> CreateBridgePortRequest" where
  "host_port_request pf vf mac =
     \<lparr>BridgePortId = [],
      cbp_BridgePort = Some \<lparr>obp_Name = host_port_name pf vf,
        obp_Spec = Some \<lparr>MacAddress = mac, Ptype = TYPE_ACCESS, LogicalBridges = [itoa (vf + 2)]\<rparr>\<rparr>\<rparr>"

definition host_CreateBridgePort ::
    "'r dpu_peer \<Rightarrow> int \<Rightarrow> int \<Rightarrow> int \<Rightarrow> string \<Rightarrow> HostSideManager \<times> 'r \<Rightarrow> opi_BridgePort result \<times> HostSideManager \<times> 'r" where
  "host_CreateBridgePort peer pf vf vlan mac = (\<lambda>(d, r).
     case host_connectWithRetry peer d of
       (Some err, d1) \<Rightarrow> (Inl (Errorf ''Failed to connect with retry: %v'' [FErr err]), d1, r)
     | (None, d1) \<Rightarrow>
         (case ParseMAC mac of
            Inl err \<Rightarrow> (Inl (Errorf ''Failed to parse Mac '%s': %v'' [FStr mac, FErr err]), d1, r)
          | Inr m \<Rightarrow> (case peer_CreateBridgePort peer (host_port_request pf vf m) r of (res, r1) \<Rightarrow> (res, d1, r1))))"

text \<open>The error of the connection is dropped; without a connection the client is nil.\<close>

definition host_DeleteBridgePort ::
    "'r dpu_peer \<Rightarrow> int \<Rightarrow> int \<Rightarrow> int \<Rightarrow> string \<Rightarrow> HostSideManager \<times> 'r \<Rightarrow> go_error option \<times> HostSideManager \<times> 'r" where
  "host_DeleteBridgePort peer pf vf vlan mac = (\<lambda>(d, r).
     let d1 = snd (host_connectWithRetry peer d) in
     if \<not> hm_conn d1 then (Some nil_conf, d1, r)
     else (case peer_DeleteBridgePort peer (host_port_name pf vf) r of (err, r1) \<Rightarrow> (err, d1, r1)))"

definition host_cniCmdAddHandler ::
    "'w os_env \<Rightarrow> 'w netlink \<Rightarrow> NetNS \<Rightarrow> 'r dpu_peer \<Rightarrow> PodRequest \<Rightarrow> 'w host \<times> HostSideManager \<times> 'r \<Rightarrow>
     cni_Result result \<times> 'w host \<times> HostSideManager \<times> 'r" where
  "host_cniCmdAddHandler env nl cur peer req = (\<lambda>(h, d, r).
     case sriov_CmdAdd env nl cur req h of
       (Inl err, _, h1) \<Rightarrow>
         (Inl (unless_panic (\<lambda>err. Errorf ''SRIOV manager failed in add handler: %v'' [FErr err]) err), h1, d, r)
     | (Inr res, conf, h1) \<Rightarrow>
         (case host_CreateBridgePort peer 0 (nc_VFID conf) 2 (vs_EffectiveMAC (nc_OrigVfState conf)) (d, r) of
            (Inl err, d1, r1) \<Rightarrow>
              (Inl (unless_panic (\<lambda>err. Errorf ''Failed to call CreateBridgePort: %v'' [FErr err]) err), h1, d1, r1)
          | (Inr _, d1, r1) \<Rightarrow> (Inr res, h1, d1, r1)))"

definition host_cniCmdDelHandler ::
    "'w os_env \<Rightarrow> 'w netlink \<Rightarrow> NetNS \<Rightarrow> 'r dpu_peer \<Rightarrow> PodRequest \<Rightarrow> 'w host \<times> HostSideManager \<times> 'r \<Rightarrow>
     unit result \<times> 'w host \<times> HostSideManager \<times> 'r" where
  "host_cniCmdDelHandler env nl cur peer req = (\<lambda>(h, d, r).
     case sriov_CmdDel env nl cur req h of
       (Inl err, _, h1) \<Rightarrow> (Inl (unless_panic (\<lambda>_. Errorf ''SRIOV manager failed in del handler'' []) err), h1, d, r)
     | (Inr False, _, h1) \<Rightarrow> (Inr (), h1, d, r)
     | (Inr True, conf, h1) \<Rightarrow>
         (case host_DeleteBridgePort peer 0 (nc_VFID conf) 2 (vs_EffectiveMAC (nc_OrigVfState conf)) (d, r) of
            (Some (Panic m), d1, r1) \<Rightarrow> (Inl (Panic m), h1, d1, r1)
          | (_, d1, r1) \<Rightarrow> (Inr (), h1, d1, r1)))"

definition host_Ping :: "'r dpu_peer \<Rightarrow> int \<Rightarrow> HostSideManager \<times> 'r \<Rightarrow> bool \<times> HostSideManager \<times> 'r" where
  "host_Ping peer now = (\<lambda>(d, r).
     case host_connectWithRetry peer d of
       (Some err, d1) \<Rightarrow> (False, d1, r)
     | (None, d1) \<Rightarrow>
         (case peer_Ping peer r of
            (Some err, r1) \<Rightarrow> (False, d1, r1)
          | (None, r1) \<Rightarrow> (True, d1\<lparr>hm_lastSuccessfulPing := Some now\<rparr>, r1)))"

definition host_CheckPing :: "int \<Rightarrow> HostSideManager \<Rightarrow> bool" where
  "host_CheckPing now d =
     (case hm_lastSuccessfulPing d of None \<Rightarrow> False | Some lastPing \<Rightarrow> now - lastPing < 5 * 1000000000)"

text \<open>\<open>StartPing\<close>: one ping per tick of the clock until the context is cancelled; a tick has the time and the peer as it then is.
  The results are kept beside the state.\<close>

fun StartPing :: "(int \<times> 'r dpu_peer) list \<Rightarrow> HostSideManager \<times> 'r \<Rightarrow> (int \<times> bool) list \<times> HostSideManager \<times> 'r" where
  "StartPing [] s = ([], s)"
| "StartPing ((now, peer) # ticks) s =
     (case host_Ping peer now s of
        (ok, s1) \<Rightarrow> (case StartPing ticks s1 of (results, s2) \<Rightarrow> ((now, ok) # results, s2)))"

section \<open>DPU side\<close>

record DpuSideManager =
  ds_addr :: string
  ds_port :: "32 word"
  ds_macStore :: "(string, string list) gomap"
  ds_lastPingTime :: "int option"
  ds_dp :: dpServer

definition new_DpuSideManager :: DpuSideManager where
  "new_DpuSideManager =
     \<lparr>ds_addr = [], ds_port = 0, ds_macStore = [], ds_lastPingTime = None, ds_dp = NewDevicePlugin True\<rparr>"

definition dpu_StartVsp :: "(string \<times> 32 word) result \<Rightarrow> DpuSideManager \<Rightarrow> go_error option \<times> DpuSideManager" where
  "dpu_StartVsp started d =
     (case started of
        Inl err \<Rightarrow> (Some (Errorf ''failed calling VSP Start() from DpuSideManager: %v'' [FErr err]), d)
      | Inr (addr, port) \<Rightarrow> (None, d\<lparr>ds_addr := addr, ds_port := port\<rparr>))"

definition dpu_SetupDevices :: "'p vendor_plugin \<Rightarrow> DpuSideManager \<Rightarrow> 'p \<Rightarrow> go_error option \<times> DpuSideManager \<times> 'p" where
  "dpu_SetupDevices vp d p =
     (case dp_SetupDevices vp (ds_dp d) p of
        (err, dp, p') \<Rightarrow>
          (map_option (\<lambda>err. Errorf ''failed calling SetupDevices from DpuSideManager: %v'' [FErr err]) err, d\<lparr>ds_dp := dp\<rparr>, p'))"

text \<open>The request is logged with the name of its port before it is passed on.\<close>

definition dpu_CreateBridgePort :: "'p vendor_plugin \<Rightarrow> CreateBridgePortRequest \<Rightarrow> 'p \<Rightarrow> opi_BridgePort result \<times> 'p" where
  "dpu_CreateBridgePort vp bpr p =
     (case cbp_BridgePort bpr of None \<Rightarrow> (Inl nil_conf, p) | Some _ \<Rightarrow> vp_CreateBridgePort vp bpr p)"

definition dpu_DeleteBridgePort :: "'p vendor_plugin \<Rightarrow> string \<Rightarrow> 'p \<Rightarrow> go_error option \<times> 'p" where
  "dpu_DeleteBridgePort vp name p = vp_DeleteBridgePort vp name p"

definition dpu_Ping :: "int \<Rightarrow> DpuSideManager \<Rightarrow> DpuSideManager" where
  "dpu_Ping now d = d\<lparr>ds_lastPingTime := Some now\<rparr>"

definition dpu_CheckPing :: "int \<Rightarrow> DpuSideManager \<Rightarrow> bool" where
  "dpu_CheckPing now d =
     (case ds_lastPingTime d of None \<Rightarrow> False | Some lastPing \<Rightarrow> now - lastPing < 60 * 1000000000)"

definition macs_of :: "string \<Rightarrow> (string, string list) gomap \<Rightarrow> string list" where
  "macs_of netns store = (case map_get store netns of Some macs \<Rightarrow> macs | None \<Rightarrow> [])"

text \<open>What the two handlers do after the interface was moved. The errors of the plugin are dropped, and
  \<open>macs[:len(macs)-1]\<close> of no MACs panics.\<close>

definition store_add :: "'p vendor_plugin \<Rightarrow> string \<Rightarrow> string \<Rightarrow> (string, string list) gomap \<times> 'p \<Rightarrow> (string, string list) gomap \<times> 'p" where
  "store_add vp netns mac = (\<lambda>(store, p).
     let macs = macs_of netns store @ [mac]
     in (map_put netns macs store, if length macs = 2 then snd (vp_CreateNetworkFunction vp (macs ! 0) (macs ! 1) p) else p))"

definition store_del :: "'p vendor_plugin \<Rightarrow> string \<Rightarrow> (string, string list) gomap \<times> 'p \<Rightarrow> go_error option \<times> (string, string list) gomap \<times> 'p" where
  "store_del vp netns = (\<lambda>(store, p).
     let macs = macs_of netns store;
         p1 = (if length macs = 2 then snd (vp_DeleteNetworkFunction vp (macs ! 0) (macs ! 1) p) else p)
     in if macs = [] then (Some (Panic ''slice bounds out of range''), store, p1)
        else (None, map_put netns (butlast macs) store, p1))"

definition cniCmdNfAddHandler ::
    "'w os_env \<Rightarrow> 'w netlink \<Rightarrow> NetNS \<Rightarrow> 'p vendor_plugin \<Rightarrow> PodRequest \<Rightarrow> 'w \<times> DpuSideManager \<times> 'p \<Rightarrow>
     cni_Result result \<times> 'w \<times> DpuSideManager \<times> 'p" where
  "cniCmdNfAddHandler env nl cur vp req = (\<lambda>(w, d, p).
     case nf_CmdAdd env nl cur req w of
       (Inl err, _, w1) \<Rightarrow>
         (Inl (unless_panic (\<lambda>err. Errorf ''SRIOV manager failed in add handler: %v'' [FErr err]) err), w1, d, p)
     | (Inr res, conf, w1) \<Rightarrow>
         (case store_add vp (pr_Netns req) (nc_MAC conf) (ds_macStore d, p) of
            (store, p1) \<Rightarrow> (Inr res, w1, d\<lparr>ds_macStore := store\<rparr>, p1)))"

definition cniCmdNfDelHandler ::
    "'w os_env \<Rightarrow> 'w netlink \<Rightarrow> NetNS \<Rightarrow> 'p vendor_plugin \<Rightarrow> PodRequest \<Rightarrow> 'w \<times> DpuSideManager \<times> 'p \<Rightarrow>
     unit result \<times> 'w \<times> DpuSideManager \<times> 'p" where
  "cniCmdNfDelHandler env nl cur vp req = (\<lambda>(w, d, p).
     case nf_CmdDel env nl cur req w of
       (Some err, w1) \<Rightarrow> (Inl (unless_panic (\<lambda>_. Errorf ''SRIOV manager failed in del handler'' []) err), w1, d, p)
     | (None, w1) \<Rightarrow>
         (case store_del vp (pr_Netns req) (ds_macStore d, p) of
            (Some err, store, p1) \<Rightarrow> (Inl err, w1, d\<lparr>ds_macStore := store\<rparr>, p1)
          | (None, store, p1) \<Rightarrow> (Inr (), w1, d\<lparr>ds_macStore := store\<rparr>, p1)))"

text \<open>The DPU side as the peer of the host.\<close>

definition dpu_peer_of :: "'p vendor_plugin \<Rightarrow> int \<Rightarrow> (DpuSideManager \<times> 'p) dpu_peer" where
  "dpu_peer_of vp now =
     \<lparr>peer_Dial = (\<lambda>_. None),
      peer_CreateBridgePort = (\<lambda>req (d, p). case dpu_CreateBridgePort vp req p of (r, p') \<Rightarrow> (r, d, p')),
      peer_DeleteBridgePort = (\<lambda>name (d, p). case dpu_DeleteBridgePort vp name p of (r, p') \<Rightarrow> (r, d, p')),
      peer_Ping = (\<lambda>(d, p). (None, dpu_Ping now d, p))\<rparr>"

section \<open>Network functions\<close>

datatype nf_event = NfAttach string string | NfDetach string

text \<open>The interfaces that come and go, as the two handlers see them; \<open>None\<close> after a panic.\<close>

fun nf_run :: "'p vendor_plugin \<Rightarrow> nf_event list \<Rightarrow> (string, string list) gomap \<times> 'p \<Rightarrow> ((string, string list) gomap \<times> 'p) option" where
  "nf_run vp [] s = Some s"
| "nf_run vp (NfAttach netns mac # es) s = nf_run vp es (store_add vp netns mac s)"
| "nf_run vp (NfDetach netns # es) s =
     (case store_del vp netns s of (None, s') \<Rightarrow> nf_run vp es s' | (Some _, _) \<Rightarrow> None)"

text \<open>A plugin that keeps the list of the network functions it was told to have.\<close>

definition nf_recorder :: "(string \<times> string) list vendor_plugin" where
  "nf_recorder =
     \<lparr>vp_Close = (\<lambda>p. p), vp_CreateBridgePort = (\<lambda>_ p. (Inl ErrNotImplemented, p)), vp_DeleteBridgePort = (\<lambda>_ p. (None, p)),
      vp_CreateNetworkFunction = (\<lambda>a b p. (None, p @ [(a, b)])), vp_DeleteNetworkFunction = (\<lambda>a b p. (None, remove1 (a, b) p)),
      vp_GetDevices = (\<lambda>p. (Inr [], p)), vp_SetNumVfs = (\<lambda>n p. (Inr n, p))\<rparr>"

text \<open>The pairs that should exist: the first two MACs of every namespace that has two or more.\<close>

definition attached :: "(string, string list) gomap \<Rightarrow> (string \<times> string) list" where
  "attached store = map (\<lambda>(_, macs). (macs ! 0, macs ! 1)) (filter (\<lambda>(_, macs). 2 \<le> length macs) store)"

definition pair_of :: "string list \<Rightarrow> (string \<times> string) multiset" where
  "pair_of macs = (if 2 \<le> length macs then {#(macs ! 0, macs ! 1)#} else {#})"

lemma attached_Cons: "mset (attached ((k, v) # m)) = pair_of v + mset (attached m)"
  by (simp add: attached_def pair_of_def)

lemma attached_put:
  "map_ok m \<Longrightarrow> mset (attached (map_put k v m)) + pair_of (macs_of k m) = mset (attached m) + pair_of v"
proof (induction m)
  case Nil
  then show ?case by (simp add: attached_def pair_of_def macs_of_def)
next
  case (Cons x m)
  obtain k' v' where x: "x = (k', v')" by (metis prod.exhaust)
  show ?case
  proof (cases "k' = k")
    case True
    then show ?thesis by (simp add: x attached_Cons macs_of_def)
  next
    case False
    then have "macs_of k (x # m) = macs_of k m" by (simp add: x macs_of_def)
    then show ?thesis using Cons False by (simp add: x attached_Cons add.assoc)
  qed
qed

lemma pair_of_snoc: "pair_of (macs @ [mac]) = pair_of macs + (if length (macs @ [mac]) = 2 then {#((macs @ [mac]) ! 0, (macs @ [mac]) ! 1)#} else {#})"
  by (auto simp: pair_of_def nth_append)

lemma pair_of_butlast:
  "macs \<noteq> [] \<Longrightarrow> pair_of macs = pair_of (butlast macs) + (if length macs = 2 then {#(macs ! 0, macs ! 1)#} else {#})"
  by (auto simp: pair_of_def nth_butlast)

definition nf_inv :: "(string, string list) gomap \<times> (string \<times> string) list \<Rightarrow> bool" where
  "nf_inv s \<longleftrightarrow> map_ok (fst s) \<and> mset (snd s) = mset (attached (fst s))"

lemma multiset_shift:
  fixes A B P Q E :: "'a multiset"
  assumes "A + P = B + Q" "Q = P + E"
  shows "A = B + E"
proof -
  have "A + P = (B + E) + P" using assms by (simp add: ac_simps)
  then show ?thesis by simp
qed

lemma store_add_inv:
  assumes "nf_inv s"
  shows "nf_inv (store_add nf_recorder netns mac s)"
proof -
  obtain store p where s: "s = (store, p)" by (metis prod.exhaust)
  let ?macs = "macs_of netns store @ [mac]"
  have ok: "map_ok store" using assms by (simp add: s nf_inv_def)
  have "mset (attached (map_put netns ?macs store)) = mset (attached store) + (if length ?macs = 2 then {#(?macs ! 0, ?macs ! 1)#} else {#})"
    by (rule multiset_shift [OF attached_put [OF ok] pair_of_snoc])
  then show ?thesis using assms by (auto simp: s nf_inv_def store_add_def nf_recorder_def Let_def)
qed

lemma store_del_inv:
  assumes "nf_inv s" "store_del nf_recorder netns s = (None, s')"
  shows "nf_inv s'"
proof -
  obtain store p where s: "s = (store, p)" by (metis prod.exhaust)
  let ?macs = "macs_of netns store"
  have ne: "?macs \<noteq> []" using assms(2) by (auto simp: s store_del_def Let_def split: if_splits)
  have ok: "map_ok store" using assms(1) by (simp add: s nf_inv_def)
  have "mset (attached store) =
      mset (attached (map_put netns (butlast ?macs) store)) + (if length ?macs = 2 then {#(?macs ! 0, ?macs ! 1)#} else {#})"
    by (rule multiset_shift [OF attached_put [OF ok, symmetric] pair_of_butlast [OF ne]])
  then have "mset (attached (map_put netns (butlast ?macs) store)) =
      mset (if length ?macs = 2 then remove1 (?macs ! 0, ?macs ! 1) p else p)"
    using assms(1) by (cases "length ?macs = 2") (simp_all add: s nf_inv_def)
  then show ?thesis using assms ne by (auto simp: s nf_inv_def store_del_def nf_recorder_def Let_def)
qed



text \<open>The handler forgets the MAC of the interface that came last, not of the one that goes: after the
  first interface of a pod is replaced, the function is made of a MAC that is no longer there.\<close>

theorem nf_replaced_interface:
  "nf_run nf_recorder [NfAttach ns m1, NfAttach ns m2, NfDetach ns, NfAttach ns m3] ([], []) = Some ([(ns, [m1, m3])], [(m1, m3)])"
  by (simp add: store_add_def store_del_def nf_recorder_def macs_of_def Let_def)

text \<open>A DEL for a namespace the daemon has no MAC of (it was restarted, say) moves the link out and then panics.\<close>

theorem nf_del_unknown_panics:
  assumes "nf_CmdDel env nl cur req w = (None, w1)" "macs_of (pr_Netns req) (ds_macStore d) = []"
  shows "\<exists>m d' p'. cniCmdNfDelHandler env nl cur vp req (w, d, p) = (Inl (Panic m), w1, d', p')"
  using assms by (simp add: cniCmdNfDelHandler_def store_del_def Let_def)

section \<open>Bridge ports of the host\<close>

lemma connect_success: "host_connectWithRetry peer d = (None, d') \<Longrightarrow> hm_conn d'"
  by (auto simp: host_connectWithRetry_def split: if_splits option.splits)

lemma connected: "hm_conn d \<Longrightarrow> host_connectWithRetry peer d = (None, d)"
  by (simp add: host_connectWithRetry_def)

lemma create_port_success:
  assumes "host_CreateBridgePort peer pf vf vlan mac (d, r) = (Inr port, d1, r1)"
  obtains m where "ParseMAC mac = Inr m" "peer_CreateBridgePort peer (host_port_request pf vf m) r = (Inr port, r1)" "hm_conn d1"
  using assms by (auto simp: host_CreateBridgePort_def dest: connect_success split: prod.splits option.splits sum.splits)

lemma add_handler_success:
  assumes "host_cniCmdAddHandler env nl cur peer req (h, d, r) = (Inr result, h1, d1, r1)"
  obtains conf m port where "sriov_CmdAdd env nl cur req h = (Inr result, conf, h1)"
    "ParseMAC (vs_EffectiveMAC (nc_OrigVfState conf)) = Inr m"
    "peer_CreateBridgePort peer (host_port_request 0 (nc_VFID conf) m) r = (Inr port, r1)" "hm_conn d1"
  using assms
  by (auto simp: host_cniCmdAddHandler_def split: prod.splits sum.splits elim!: create_port_success)

lemma del_handler_released:
  assumes "sriov_CmdDel env nl cur req h = (Inr True, conf, h1)" "hm_conn d"
  shows "snd (host_cniCmdDelHandler env nl cur peer req (h, d, r)) =
     (h1, d, snd (peer_DeleteBridgePort peer (host_port_name 0 (nc_VFID conf)) r))"
  using assms
  by (auto simp: host_cniCmdDelHandler_def host_DeleteBridgePort_def connected Let_def
      split: prod.splits option.splits go_error.splits)

text \<open>The index of the function that DEL puts into the request is that of the ADD.\<close>

lemma CmdDel_vfid:
  assumes "files_work env" "sriov_CmdAdd env nl cur req h = (Inr result, conf, h1)"
    and "sriov_CmdDel env nl cur req' h1 = (Inr True, conf', h2)"
    and "pr_ContainerId req' = pr_ContainerId req" "pr_IfName req' = pr_IfName req"
  shows "nc_VFID conf' = nc_VFID conf"
proof -
  have saved: "map_get (conf_files h1) (conf_path (pr_ContainerId req) (pr_IfName req)) = Some (Saved (marshalled conf))"
    using CmdAdd_success_cases [OF assms(2)] by blast
  then obtain w vfid hd errSet where "del_release env nl cur req' (marshalled conf) (h1\<lparr>kern := w\<rparr>) = (Inr True, errSet, vfid, hd)"
    "conf' = (case vfid of Some i \<Rightarrow> (pr_CNIConf req')\<lparr>nc_VFID := i\<rparr> | None \<Rightarrow> pr_CNIConf req')"
    using assms(3) LoadConfFromCache_saved [OF assms(1) saved] assms(4,5)
    by (auto simp: sriov_CmdDel_def split: prod.splits option.splits if_splits)
  then show ?thesis using del_release_True by (fastforce simp: marshalled_def)
qed

text \<open>From the pod on the host to the plugin on the DPU and back. A host-side ADD that succeeds has
  moved the function into the pod and made the DPU's plugin create one access port, named after the index
  of the function, with the MAC of the function and the logical bridge of index + 2. When a later DEL of
  the same container and interface releases the function, the same plugin is asked to delete the port of
  that very name, whatever the plugin did in between; the host does not dial again.\<close>

theorem host_port_lifecycle:
  assumes "files_work env"
    and "host_cniCmdAddHandler env nl cur (dpu_peer_of vp now) req (h, d, ds, p) = (Inr result, h1, d1, ds1, p1)"
    and "sriov_CmdDel env nl cur req' h1 = (Inr True, conf', h2)"
    and "pr_ContainerId req' = pr_ContainerId req" "pr_IfName req' = pr_IfName req"
  shows "\<exists>conf mac port.
     sriov_CmdAdd env nl cur req h = (Inr result, conf, h1) \<and>
     ParseMAC (vs_EffectiveMAC (nc_OrigVfState conf)) = Inr mac \<and>
     vp_CreateBridgePort vp (host_port_request 0 (nc_VFID conf) mac) p = (Inr port, p1) \<and> ds1 = ds \<and>
     snd (host_cniCmdDelHandler env nl cur (dpu_peer_of vp now') req' (h1, d1, ds', p')) =
       (h2, d1, ds', snd (vp_DeleteBridgePort vp (host_port_name 0 (nc_VFID conf)) p'))"
proof -
  obtain conf m port where add: "sriov_CmdAdd env nl cur req h = (Inr result, conf, h1)"
    and mac: "ParseMAC (vs_EffectiveMAC (nc_OrigVfState conf)) = Inr m"
    and port: "peer_CreateBridgePort (dpu_peer_of vp now) (host_port_request 0 (nc_VFID conf) m) (ds, p) = (Inr port, ds1, p1)"
    and up: "hm_conn d1"
    using assms(2) by (rule add_handler_success)
  have "vp_CreateBridgePort vp (host_port_request 0 (nc_VFID conf) m) p = (Inr port, p1) \<and> ds1 = ds"
    using port by (auto simp: dpu_peer_of_def dpu_CreateBridgePort_def host_port_request_def split: prod.splits)
  moreover have "snd (host_cniCmdDelHandler env nl cur (dpu_peer_of vp now') req' (h1, d1, ds', p')) =
       (h2, d1, ds', snd (vp_DeleteBridgePort vp (host_port_name 0 (nc_VFID conf)) p'))"
    unfolding del_handler_released [OF assms(3) up] CmdDel_vfid [OF assms(1) add assms(3-5)]
    by (simp add: dpu_peer_of_def dpu_DeleteBridgePort_def split_beta)
  ultimately show ?thesis using add mac by blast
qed

text \<open>A plugin that keeps the names and bridges of its ports.\<close>

definition port_recorder :: "(string \<times> string list) list vendor_plugin" where
  "port_recorder =
     \<lparr>vp_Close = (\<lambda>p. p),
      vp_CreateBridgePort = (\<lambda>req p. case cbp_BridgePort req of
         Some port \<Rightarrow> (Inr port, (obp_Name port, case obp_Spec port of Some s \<Rightarrow> LogicalBridges s | None \<Rightarrow> []) # p)
       | None \<Rightarrow> (Inl ErrNotImplemented, p)),
      vp_DeleteBridgePort = (\<lambda>name p. (None, filter (\<lambda>(n, _). n \<noteq> name) p)),
      vp_CreateNetworkFunction = (\<lambda>a b p. (None, p)), vp_DeleteNetworkFunction = (\<lambda>a b p. (None, p)),
      vp_GetDevices = (\<lambda>p. (Inr [], p)), vp_SetNumVfs = (\<lambda>n p. (Inr n, p))\<rparr>"

abbreviation "port_dpu \<equiv> dpu_peer_of port_recorder 0"

lemma sample_host_add:
  "\<exists>result. host_cniCmdAddHandler kernel_env sim_netlink host_ns port_dpu pod_a (sample_host, new_HostSideManager, new_DpuSideManager, []) =
     (Inr result, host_after_add, new_HostSideManager\<lparr>hm_conn := True\<rparr>, new_DpuSideManager, [(''host0-1'', [''3''])])"
proof -
  obtain result where add: "sriov_CmdAdd kernel_env sim_netlink host_ns pod_a sample_host = (Inr result, conf_after_add, host_after_add)"
    using sample_add by blast
  have conf: "nc_VFID conf_after_add = 1" "vs_EffectiveMAC (nc_OrigVfState conf_after_add) = ''02:00:00:00:00:0a''" by code_simp+
  let ?r = "host_CreateBridgePort port_dpu 0 1 2 ''02:00:00:00:00:0a'' (new_HostSideManager, new_DpuSideManager, [])"
  have "case fst ?r of Inl _ \<Rightarrow> False | Inr _ \<Rightarrow> True" "snd (snd ?r) = (new_DpuSideManager, [(''host0-1'', [''3''])])" by code_simp+
  moreover have "fst (snd ?r) = new_HostSideManager\<lparr>hm_conn := True\<rparr>" by code_simp
  ultimately obtain port where
    "?r = (Inr port, new_HostSideManager\<lparr>hm_conn := True\<rparr>, new_DpuSideManager, [(''host0-1'', [''3''])])"
    by (cases "fst ?r") (auto simp: prod_eq_iff)
  then show ?thesis by (simp add: host_cniCmdAddHandler_def add conf)
qed

theorem host_port_lifecycle_witness:
  "\<exists>result conf mac port.
     sriov_CmdAdd kernel_env sim_netlink host_ns pod_a sample_host = (Inr result, conf, host_after_add) \<and>
     ParseMAC (vs_EffectiveMAC (nc_OrigVfState conf)) = Inr mac \<and>
     vp_CreateBridgePort port_recorder (host_port_request 0 (nc_VFID conf) mac) [] = (Inr port, [(''host0-1'', [''3''])]) \<and>
     new_DpuSideManager = new_DpuSideManager \<and>
     snd (host_cniCmdDelHandler kernel_env sim_netlink host_ns port_dpu pod_a
            (host_after_add, new_HostSideManager\<lparr>hm_conn := True\<rparr>, new_DpuSideManager, [(''host0-1'', [''3''])])) =
       (snd (snd (sriov_CmdDel kernel_env sim_netlink host_ns pod_a host_after_add)), new_HostSideManager\<lparr>hm_conn := True\<rparr>,
        new_DpuSideManager, snd (vp_DeleteBridgePort port_recorder (host_port_name 0 (nc_VFID conf)) [(''host0-1'', [''3''])]))"
proof -
  have "fst (sriov_CmdDel kernel_env sim_netlink host_ns pod_a host_after_add) = Inr True" by code_simp
  then have del: "sriov_CmdDel kernel_env sim_netlink host_ns pod_a host_after_add =
      (Inr True, fst (snd (sriov_CmdDel kernel_env sim_netlink host_ns pod_a host_after_add)),
       snd (snd (sriov_CmdDel kernel_env sim_netlink host_ns pod_a host_after_add)))" by (simp add: prod_eq_iff)
  obtain result where "host_cniCmdAddHandler kernel_env sim_netlink host_ns port_dpu pod_a
      (sample_host, new_HostSideManager, new_DpuSideManager, []) =
     (Inr result, host_after_add, new_HostSideManager\<lparr>hm_conn := True\<rparr>, new_DpuSideManager, [(''host0-1'', [''3''])])"
    using sample_host_add by blast
  from host_port_lifecycle [OF sim_env_files this del refl refl] show ?thesis by - (rule exI, assumption)
qed

section \<open>Heartbeat\<close>

text \<open>The two ends of the heartbeat. After a ping at time t that the host saw answered, the host counts
  the DPU as alive for exactly the next five seconds and the DPU counts the host as alive for exactly the
  next minute; so whenever the host still trusts the last ping, the DPU does, too.\<close>

theorem heartbeat:
  assumes "host_Ping (dpu_peer_of vp t) t (hm, ds, p) = (True, hm', ds', p')"
  shows "(host_CheckPing now hm' \<longleftrightarrow> now < t + 5 * 10 ^ 9) \<and> (dpu_CheckPing now ds' \<longleftrightarrow> now < t + 60 * 10 ^ 9) \<and>
         (host_CheckPing now hm' \<longrightarrow> dpu_CheckPing now ds') \<and> p' = p"
  using assms
  by (auto simp: host_Ping_def dpu_peer_of_def dpu_Ping_def host_CheckPing_def dpu_CheckPing_def
      split: prod.splits option.splits)

theorem heartbeat_witness:
  "host_CheckPing 4999999999 (new_HostSideManager\<lparr>hm_conn := True, hm_lastSuccessfulPing := Some 0\<rparr>) \<and>
   \<not> host_CheckPing 5000000000 (new_HostSideManager\<lparr>hm_conn := True, hm_lastSuccessfulPing := Some 0\<rparr>)"
proof -
  have "host_Ping (dpu_peer_of nf_recorder 0) 0 (new_HostSideManager, new_DpuSideManager, []) =
      (True, new_HostSideManager\<lparr>hm_conn := True, hm_lastSuccessfulPing := Some 0\<rparr>, dpu_Ping 0 new_DpuSideManager, [])"
    by (simp add: host_Ping_def dpu_peer_of_def host_connectWithRetry_def new_HostSideManager_def)
  from heartbeat [OF this, of 4999999999] heartbeat [OF this, of 5000000000] show ?thesis by simp
qed

lemma host_Ping_last:
  assumes "host_Ping peer now (d, r) = (ok, d', r')"
  shows "hm_lastSuccessfulPing d' = (if ok then Some now else hm_lastSuccessfulPing d)"
  using assms by (auto simp: host_Ping_def host_connectWithRetry_def split: prod.splits option.splits if_splits)

lemma StartPing_last:
  "StartPing ticks (d, r) = (results, d', r') \<Longrightarrow>
   hm_lastSuccessfulPing d' =
     (case rev (filter snd results) of [] \<Rightarrow> hm_lastSuccessfulPing d | (t, ok) # _ \<Rightarrow> Some t)"
proof (induction ticks arbitrary: d r results)
  case (Cons tick ticks)
  obtain now peer where tick: "tick = (now, peer)" by (cases tick)
  obtain ok d1 r1 where ping: "host_Ping peer now (d, r) = (ok, d1, r1)" by (metis prod.exhaust)
  obtain rest where rest: "StartPing ticks (d1, r1) = (rest, d', r')" "results = (now, ok) # rest"
    using Cons.prems tick ping by (auto split: prod.splits)
  then show ?case using Cons.IH [OF rest(1)] host_Ping_last [OF ping] by (auto split: list.splits)
qed simp

lemma StartPing_times: "StartPing ticks s = (results, s') \<Longrightarrow> map fst results = map fst ticks"
  by (induction ticks s arbitrary: results s' rule: StartPing.induct) (auto split: prod.splits)

text \<open>
  The heartbeat tells of the last five seconds. With the ping loop running on a clock that does not go back, the side manager
  counts as reachable exactly when a ping that was sent less than five seconds ago has been answered, whatever came before
  and between.
\<close>

theorem heartbeat_recent:
  assumes "StartPing ticks (new_HostSideManager, r) = (results, d, r')" "sorted (map fst ticks)"
  shows "host_CheckPing now d \<longleftrightarrow> (\<exists>t. (t, True) \<in> set results \<and> now - t < 5 * 10 ^ 9)"
proof -
  have times: "sorted (map fst results)" using assms StartPing_times by metis
  have last: "hm_lastSuccessfulPing d = (case rev (filter snd results) of [] \<Rightarrow> None | (t, ok) # _ \<Rightarrow> Some t)"
    using StartPing_last [OF assms(1)] by (simp add: new_HostSideManager_def split: list.split)
  show ?thesis
  proof (cases "rev (filter snd results)")
    case Nil
    then have "\<forall>x \<in> set results. \<not> snd x" by (simp add: filter_empty_conv)
    then show ?thesis using last Nil by (force simp: host_CheckPing_def)
  next
    case (Cons x xs)
    then have answered: "filter snd results = rev xs @ [x]" by (metis rev.simps(2) rev_rev_ident)
    have "x \<in> set (filter snd results)" using answered by simp
    then have x: "x \<in> set results" "snd x" by simp_all
    have "sorted (map fst (rev xs @ [x]))" using times answered by (metis sorted_filter)
    then have newest: "t \<le> fst x" if "(t, True) \<in> set results" for t
    proof -
      have "(t, True) \<in> set (rev xs @ [x])" using that answered [symmetric] by simp
      with \<open>sorted (map fst (rev xs @ [x]))\<close> show ?thesis by (auto simp: sorted_append)
    qed
    have "host_CheckPing now d \<longleftrightarrow> now - fst x < 5 * 10 ^ 9" using last Cons by (simp add: host_CheckPing_def split_beta)
    moreover have "(fst x, True) \<in> set results" using x by (metis prod.collapse)
    ultimately show ?thesis using newest by (meson diff_left_mono order.strict_trans1)
  qed
qed

text \<open>One answered ping, then two while the DPU is down.\<close>

abbreviation down_peer :: "(DpuSideManager \<times> (string \<times> string) list) dpu_peer" where
  "down_peer \<equiv> (dpu_peer_of nf_recorder 0)\<lparr>peer_Ping := \<lambda>r. (Some ErrConnectionFailed, r)\<rparr>"

abbreviation "sample_ticks \<equiv> [(1000000000, dpu_peer_of nf_recorder 1000000000), (2000000000, down_peer), (3000000000, down_peer)]"

theorem heartbeat_recent_witness:
  "let (results, d, r) = StartPing sample_ticks (new_HostSideManager, new_DpuSideManager, [])
   in host_CheckPing 5999999999 d \<and> \<not> host_CheckPing 6000000000 d"
proof -
  obtain results d r where run: "StartPing sample_ticks (new_HostSideManager, new_DpuSideManager, []) = (results, d, r)" by (metis prod.exhaust)
  have "results = [(1000000000, True), (2000000000, False), (3000000000, False)]"
    using run by (simp add: host_Ping_def dpu_peer_of_def host_connectWithRetry_def new_HostSideManager_def)
  then show ?thesis using heartbeat_recent [OF run, of 5999999999] heartbeat_recent [OF run, of 6000000000] run by simp
qed

text \<open>In DPDK mode ADD does not look at the link, so the effective MAC stays what the request had; when
  that is empty the port cannot be asked for and the ADD fails with the function locked.\<close>

theorem empty_mac_fails:
  assumes "sriov_CmdAdd env nl cur req h = (Inr result, conf, h1)" "vs_EffectiveMAC (nc_OrigVfState conf) = []"
  shows "\<exists>e d1. host_cniCmdAddHandler env nl cur peer req (h, d, r) = (Inl e, h1, d1, r) \<and>
     map_get (alloc_files h1) (alloc_path (nc_DeviceID conf)) = Some (pr_Netns req)"
proof -
  have bad: "\<exists>e. ParseMAC [] = Inl e" by (simp add: ParseMAC_def)
  have "\<exists>e d1. host_CreateBridgePort peer 0 (nc_VFID conf) 2 [] (d, r) = (Inl e, d1, r)"
    using bad by (cases "host_connectWithRetry peer d"; cases "fst (host_connectWithRetry peer d)")
      (auto simp: host_CreateBridgePort_def)
  then obtain e d1 where "host_CreateBridgePort peer 0 (nc_VFID conf) 2 [] (d, r) = (Inl e, d1, r)" by blast
  then have "\<exists>e. host_cniCmdAddHandler env nl cur peer req (h, d, r) = (Inl e, h1, d1, r)"
    by (simp add: host_cniCmdAddHandler_def assms)
  moreover have "map_get (alloc_files h1) (alloc_path (nc_DeviceID conf)) = Some (pr_Netns req)"
    by (rule CmdAdd_success_cases [OF assms(1)])
  ultimately show ?thesis by blast
qed

end
