(* ===== verification/Service_Chain.thy ===== *)
theory Service_Chain
  imports Daemon
begin

text \<open>
  Service function chains: the controller of the operator
  (\<open>internal/controller/servicefunctionchain_controller.go\<close>), which keeps one pod per network function of a
  chain, and the reconciler of the daemons (\<open>internal/daemon/sfc-reconciler/sfc.go\<close>), which creates pods of
  its own for the chains of its node. The API server is a parameter: the record \<open>pod_api\<close> over a state
  \<open>'s\<close>; \<open>fingerprint\<close> stands for the hexadecimal SHA-256 of the JSON text of a pod specification and its
  networks. Go ranges over the map of desired pods in any order: the order is an argument of a pass. The
  lemmas show that passes converge, what they may touch, and what each of the two reconcilers does with a
  pod that already exists.
\<close>

section \<open>Resources\<close>

record Container =
  ct_Name :: string
  ct_Image :: string
  ct_Ports :: "(string \<times> int) list"
  ct_Requests :: "(string, int) gomap"
  ct_Limits :: "(string, int) gomap"
  ct_Privileged :: bool
  ct_Drop :: "string list"
  ct_Add :: "string list"

record PodSpec =
  ps_NodeSelector :: "(string, string) gomap"
  ps_Containers :: "Container list"

record Pod =
  pod_Namespace :: string
  pod_Name :: string
  pod_Labels :: "(string, string) gomap"
  pod_Annotations :: "(string, string) gomap"
  pod_Owner :: "string option"
  pod_Spec :: PodSpec

record DpuResourceRequirements =
  dr_Requests :: "32 word"
  dr_Limits :: "32 word"

record NetworkFunction =
  fn_Name :: string
  fn_Image :: string
  fn_Networks :: "string list"
  fn_DpuResources :: "DpuResourceRequirements option"

record ServiceFunctionChain =
  sfc_Namespace :: string
  sfc_Name :: string
  sfc_UID :: string
  sfc_NodeSelector :: "(string, string) gomap"
  sfc_NetworkFunctions :: "NetworkFunction list"

datatype ctrl_Result = NoRequeue | Requeue | RequeueAfter int

text \<open>A pod is found by its namespace and name. \<open>pa_GetResourceName\<close> reads \<open>Spec.ResourceName\<close> of the operator's
  configuration.\<close>

record 's pod_api =
  pa_GetSfc :: "string \<times> string \<Rightarrow> 's \<Rightarrow> ServiceFunctionChain result"
  pa_GetResourceName :: "'s \<Rightarrow> string result"
  pa_GetNodeLabels :: "string \<Rightarrow> 's \<Rightarrow> (string, string) gomap result"
  pa_IsNotFound :: "go_error \<Rightarrow> bool"
  pa_SetControllerReference :: "string \<Rightarrow> Pod \<Rightarrow> Pod result"
  pa_ListPods :: "string \<Rightarrow> string \<times> string \<Rightarrow> 's \<Rightarrow> Pod list result"
  pa_GetPod :: "string \<times> string \<Rightarrow> 's \<Rightarrow> Pod result"
  pa_CreatePod :: "Pod \<Rightarrow> 's \<Rightarrow> go_error option \<times> 's"
  pa_UpdatePod :: "Pod \<Rightarrow> 's \<Rightarrow> go_error option \<times> 's"
  pa_DeletePod :: "Pod \<Rightarrow> 's \<Rightarrow> go_error option \<times> 's"
  pa_fingerprint :: "PodSpec \<Rightarrow> string \<Rightarrow> string result"

abbreviation pod_key :: "Pod \<Rightarrow> string \<times> string" where
  "pod_key p \<equiv> (pod_Namespace p, pod_Name p)"

section \<open>The controller of the operator\<close>

definition sfcLabelKey :: string where
  "sfcLabelKey = ''dpu.config.openshift.io/sfc''"

definition sfcFunctionLabel :: string where
  "sfcFunctionLabel = ''dpu.config.openshift.io/network-function''"

definition sfcSpecHashKey :: string where
  "sfcSpecHashKey = ''dpu.config.openshift.io/pod-spec-hash''"

definition sfcNetworksAnnoKey :: string where
  "sfcNetworksAnnoKey = ''k8s.v1.cni.cncf.io/networks''"

definition nodeSideLabelKey :: string where
  "nodeSideLabelKey = ''dpu.config.openshift.io/dpuside''"

definition defaultDpuNAD :: string where
  "defaultDpuNAD = ''dpunfcni-conf''"

definition defaultHostNAD :: string where
  "defaultHostNAD = ''default-sriov-net''"

definition defaultDpuResource :: string where
  "defaultDpuResource = ''openshift.io/dpu''"

definition defaultNetworksForNodeSelector :: "(string, string) gomap \<Rightarrow> string list" where
  "defaultNetworksForNodeSelector nodeSelector =
     (let fallback = (case map_get nodeSelector ''dpu'' of
                        Some v \<Rightarrow> if to_lower v = ''true'' then [defaultDpuNAD] else [defaultHostNAD]
                      | None \<Rightarrow> [defaultHostNAD])
      in case map_get nodeSelector nodeSideLabelKey of
           Some side \<Rightarrow> if to_lower side = ''dpu'' then [defaultDpuNAD]
                        else if to_lower side = ''dpu-host'' \<or> to_lower side = ''host'' then [defaultHostNAD]
                        else fallback
         | None \<Rightarrow> fallback)"

definition dpu_count :: "(DpuResourceRequirements \<Rightarrow> 32 word) \<Rightarrow> DpuResourceRequirements option \<Rightarrow> int" where
  "dpu_count field req =
     (case req of Some r \<Rightarrow> if 0 < sint (field r) then sint (field r) else 2 | None \<Rightarrow> 2)"

definition networkFunctionPod :: "ServiceFunctionChain \<Rightarrow> NetworkFunction \<Rightarrow> string \<Rightarrow> Pod" where
  "networkFunctionPod sfc nf resourceName =
     (let podName = sfc_Name sfc @ ''-'' @ fn_Name nf;
          networks = (if fn_Networks nf = [] then defaultNetworksForNodeSelector (sfc_NodeSelector sfc) else fn_Networks nf)
      in \<lparr>pod_Namespace = sfc_Namespace sfc, pod_Name = podName,
          pod_Labels = [(sfcLabelKey, sfc_Name sfc), (sfcFunctionLabel, fn_Name nf)],
          pod_Annotations = [(sfcNetworksAnnoKey, join '', '' networks)],
          pod_Owner = None,
          pod_Spec = \<lparr>ps_NodeSelector = sfc_NodeSelector sfc,
            ps_Containers = [\<lparr>ct_Name = podName, ct_Image = fn_Image nf, ct_Ports = [(''web'', 8080)],
              ct_Requests = [(resourceName, dpu_count dr_Requests (fn_DpuResources nf))],
              ct_Limits = [(resourceName, dpu_count dr_Limits (fn_DpuResources nf))],
              ct_Privileged = True, ct_Drop = [''ALL''], ct_Add = [''NET_RAW'', ''NET_ADMIN'']\<rparr>]\<rparr>\<rparr>)"

definition resourceNameForSFC :: "'s pod_api \<Rightarrow> 's \<Rightarrow> string" where
  "resourceNameForSFC api s =
     (case pa_GetResourceName api s of
        Inl err \<Rightarrow> defaultDpuResource
      | Inr name \<Rightarrow> if name = [] then defaultDpuResource else name)"

definition setPodSpecHash :: "'s pod_api \<Rightarrow> Pod \<Rightarrow> Pod result" where
  "setPodSpecHash api pod =
     (case pa_fingerprint api (pod_Spec pod) (label_of (pod_Annotations pod) sfcNetworksAnnoKey) of
        Inl err \<Rightarrow> Inl err
      | Inr digest \<Rightarrow> Inr (pod\<lparr>pod_Annotations := map_put sfcSpecHashKey digest (pod_Annotations pod)\<rparr>))"

text \<open>The map of desired pods by name.\<close>

fun desired_pods ::
    "'s pod_api \<Rightarrow> ServiceFunctionChain \<Rightarrow> string \<Rightarrow> NetworkFunction list \<Rightarrow> (string, Pod) gomap \<Rightarrow> (string, Pod) gomap result" where
  "desired_pods api sfc resourceName [] acc = Inr acc"
| "desired_pods api sfc resourceName (nf # nfs) acc =
     (case pa_SetControllerReference api (sfc_UID sfc) (networkFunctionPod sfc nf resourceName) of
        Inl err \<Rightarrow> Inl err
      | Inr pod \<Rightarrow>
          (case setPodSpecHash api pod of
             Inl err \<Rightarrow> Inl err
           | Inr pod' \<Rightarrow> desired_pods api sfc resourceName nfs (map_put (pod_Name pod') pod' acc)))"

fun delete_stale :: "'s pod_api \<Rightarrow> (string, Pod) gomap \<Rightarrow> Pod list \<Rightarrow> 's \<Rightarrow> go_error option \<times> 's" where
  "delete_stale api desired [] s = (None, s)"
| "delete_stale api desired (existing # rest) s =
     (if map_get desired (pod_Name existing) = None
      then (case pa_DeletePod api existing s of
              (Some err, s1) \<Rightarrow> if pa_IsNotFound api err then delete_stale api desired rest s1 else (Some err, s1)
            | (None, s1) \<Rightarrow> delete_stale api desired rest s1)
      else delete_stale api desired rest s)"

definition reconcilePod :: "'s pod_api \<Rightarrow> Pod \<Rightarrow> 's \<Rightarrow> bool \<times> go_error option \<times> 's" where
  "reconcilePod api desired s =
     (case pa_GetPod api (pod_key desired) s of
        Inl err \<Rightarrow> if pa_IsNotFound api err then (False, pa_CreatePod api desired s) else (False, Some err, s)
      | Inr existing \<Rightarrow>
          let desiredHash = label_of (pod_Annotations desired) sfcSpecHashKey
          in if desiredHash = [] then (False, Some (Errorf ''missing desired pod spec hash for %s'' [FStr (pod_Name desired)]), s)
             else if label_of (pod_Annotations existing) sfcSpecHashKey \<noteq> desiredHash then (True, pa_DeletePod api existing s)
             else (case merge_labels (pod_Labels desired) (pod_Labels existing) of
                     (updated1, labels) \<Rightarrow>
                       (case merge_labels (pod_Annotations desired) (pod_Annotations existing) of
                          (updated2, annotations) \<Rightarrow>
                            if updated1 \<or> updated2
                            then (False, pa_UpdatePod api (existing\<lparr>pod_Labels := labels, pod_Annotations := annotations\<rparr>) s)
                            else (False, None, s))))"

fun reconcile_pods :: "'s pod_api \<Rightarrow> Pod list \<Rightarrow> 's \<Rightarrow> ctrl_Result \<times> go_error option \<times> 's" where
  "reconcile_pods api [] s = (NoRequeue, None, s)"
| "reconcile_pods api (pod # pods) s =
     (case reconcilePod api pod s of
        (_, Some err, s1) \<Rightarrow> (NoRequeue, Some err, s1)
      | (True, None, s1) \<Rightarrow> (RequeueAfter 2, None, s1)
      | (False, None, s1) \<Rightarrow> reconcile_pods api pods s1)"

definition sfc_Reconcile ::
    "'s pod_api \<Rightarrow> (Pod list \<Rightarrow> Pod list) \<Rightarrow> string \<times> string \<Rightarrow> 's \<Rightarrow> ctrl_Result \<times> go_error option \<times> 's" where
  "sfc_Reconcile api order req s =
     (case pa_GetSfc api req s of
        Inl err \<Rightarrow> (NoRequeue, if pa_IsNotFound api err then None else Some err, s)
      | Inr sfc \<Rightarrow>
          (case desired_pods api sfc (resourceNameForSFC api s) (sfc_NetworkFunctions sfc) [] of
             Inl err \<Rightarrow> (NoRequeue, Some err, s)
           | Inr desired \<Rightarrow>
               (case pa_ListPods api (sfc_Namespace sfc) (sfcLabelKey, sfc_Name sfc) s of
                  Inl err \<Rightarrow> (NoRequeue, Some err, s)
                | Inr items \<Rightarrow>
                    (case delete_stale api desired items s of
                       (Some err, s1) \<Rightarrow> (NoRequeue, Some err, s1)
                     | (None, s1) \<Rightarrow> reconcile_pods api (order (map snd desired)) s1))))"

section \<open>The reconciler of the daemons\<close>

definition daemon_networkFunctionPod :: "string \<Rightarrow> string \<Rightarrow> string \<Rightarrow> string \<Rightarrow> (string, string) gomap \<Rightarrow> Pod" where
  "daemon_networkFunctionPod namespace resourceName name img nodeSelector =
     \<lparr>pod_Namespace = namespace, pod_Name = name, pod_Labels = [],
      pod_Annotations = [(''k8s.v1.cni.cncf.io/networks'', ''dpunfcni-conf, dpunfcni-conf'')], pod_Owner = None,
      pod_Spec = \<lparr>ps_NodeSelector = nodeSelector,
        ps_Containers = [\<lparr>ct_Name = name, ct_Image = img, ct_Ports = [(''web'', 8080)],
          ct_Requests = [(resourceName, 2)], ct_Limits = [(resourceName, 2)],
          ct_Privileged = True, ct_Drop = [''ALL''], ct_Add = [''NET_RAW'', ''NET_ADMIN'']\<rparr>]\<rparr>\<rparr>"

text \<open>\<open>Get\<close> writes what it finds over the pod it was given, so the update sends back what was there.\<close>

definition createOrUpdatePod :: "'s pod_api \<Rightarrow> Pod \<Rightarrow> 's \<Rightarrow> go_error option \<times> 's" where
  "createOrUpdatePod api pod s =
     (case pa_GetPod api (pod_key pod) s of
        Inl err \<Rightarrow> if pa_IsNotFound api err then pa_CreatePod api pod s else (Some err, s)
      | Inr existing \<Rightarrow> pa_UpdatePod api existing s)"

text \<open>The environment: the namespace of the operator, the resource name of the device plugin and the node.\<close>

record SfcReconciler =
  sr_Namespace :: string
  sr_DpuResourceName :: string
  sr_nodeName :: string

definition NewSfcReconciler :: "string \<Rightarrow> string \<Rightarrow> string \<Rightarrow> string result \<Rightarrow> SfcReconciler" where
  "NewSfcReconciler namespace resourceName k8sNode hostname =
     \<lparr>sr_Namespace = namespace, sr_DpuResourceName = resourceName,
      sr_nodeName = (if k8sNode = [] then (case hostname of Inl _ \<Rightarrow> ''unknown'' | Inr h \<Rightarrow> h) else k8sNode)\<rparr>"

definition ensureNetworkFunctionExists ::
    "'s pod_api \<Rightarrow> SfcReconciler \<Rightarrow> ServiceFunctionChain \<Rightarrow> NetworkFunction \<Rightarrow> 's \<Rightarrow> go_error option \<times> 's" where
  "ensureNetworkFunctionExists api r sfc nf s =
     (case pa_SetControllerReference api (sfc_UID sfc)
             (daemon_networkFunctionPod (sr_Namespace r) (sr_DpuResourceName r) (fn_Name nf) (fn_Image nf) (sfc_NodeSelector sfc)) of
        Inl err \<Rightarrow> (Some err, s)
      | Inr pod \<Rightarrow> createOrUpdatePod api pod s)"

definition matchesNodeSelector :: "'s pod_api \<Rightarrow> SfcReconciler \<Rightarrow> (string, string) gomap \<Rightarrow> 's \<Rightarrow> bool result" where
  "matchesNodeSelector api r nodeSelector s =
     (if nodeSelector = [] then Inr True
      else (case pa_GetNodeLabels api (sr_nodeName r) s of
              Inl err \<Rightarrow> Inl err
            | Inr labels \<Rightarrow> Inr (list_all (\<lambda>(key, v). map_get labels key = Some v) nodeSelector)))"

fun ensure_functions ::
    "'s pod_api \<Rightarrow> SfcReconciler \<Rightarrow> ServiceFunctionChain \<Rightarrow> NetworkFunction list \<Rightarrow> 's \<Rightarrow> go_error option \<times> 's" where
  "ensure_functions api r sfc [] s = (None, s)"
| "ensure_functions api r sfc (nf # nfs) s =
     (case ensureNetworkFunctionExists api r sfc nf s of
        (Some err, s1) \<Rightarrow> (Some err, s1)
      | (None, s1) \<Rightarrow> ensure_functions api r sfc nfs s1)"

definition daemon_sfc_Reconcile ::
    "'s pod_api \<Rightarrow> SfcReconciler \<Rightarrow> string \<times> string \<Rightarrow> 's \<Rightarrow> ctrl_Result \<times> go_error option \<times> 's" where
  "daemon_sfc_Reconcile api r req s =
     (case pa_GetSfc api req s of
        Inl err \<Rightarrow> (Requeue, None, s)
      | Inr sfc \<Rightarrow>
          (case matchesNodeSelector api r (sfc_NodeSelector sfc) s of
             Inl err \<Rightarrow> (RequeueAfter 60, None, s)
           | Inr False \<Rightarrow> (NoRequeue, None, s)
           | Inr True \<Rightarrow>
               (case ensure_functions api r sfc (sfc_NetworkFunctions sfc) s of
                  (Some err, s1) \<Rightarrow> (RequeueAfter 60, Some err, s1)
                | (None, s1) \<Rightarrow> (NoRequeue, None, s1))))"

definition sfc_uniqueName :: "64 word \<Rightarrow> string \<times> 64 word" where
  "sfc_uniqueName counter = (let val = counter + 1 in (''servicefunctionchain'' @ itoa (sint val), val))"

section \<open>A reliable API server\<close>

text \<open>\<open>view\<close> is the set of pods of the server by namespace and name. Calls succeed when the API server
  documents that they do: \<open>Create\<close> of a name that is free, \<open>Update\<close> and \<open>Delete\<close> of a pod that exists.
  \<open>dflt\<close> is what the server adds to the specification of a new pod. A deleted pod is gone when the next
  call is made.\<close>

definition same_rest :: "'s pod_api \<Rightarrow> 's \<Rightarrow> 's \<Rightarrow> bool" where
  "same_rest api s s' \<longleftrightarrow> (\<forall>req. pa_GetSfc api req s' = pa_GetSfc api req s) \<and> pa_GetResourceName api s' = pa_GetResourceName api s"

definition pods_read_ok :: "'s pod_api \<Rightarrow> ('s \<Rightarrow> string \<times> string \<rightharpoonup> Pod) \<Rightarrow> bool" where
  "pods_read_ok api view \<longleftrightarrow>
     (\<forall>s k p. view s k = Some p \<longrightarrow> pod_key p = k) \<and>
     (\<forall>s k p. view s k = Some p \<longrightarrow> pa_GetPod api k s = Inr p) \<and>
     (\<forall>s k. view s k = None \<longrightarrow> (\<exists>e. pa_GetPod api k s = Inl e \<and> pa_IsNotFound api e)) \<and>
     (\<forall>s ns l v. \<exists>ps. pa_ListPods api ns (l, v) s = Inr ps \<and> distinct (map pod_key ps) \<and>
        (\<forall>p. p \<in> set ps \<longleftrightarrow> view s (ns, pod_Name p) = Some p \<and> map_get (pod_Labels p) l = Some v)) \<and>
     (\<forall>u p. pod_Owner p = None \<longrightarrow> pa_SetControllerReference api u p = Inr (p\<lparr>pod_Owner := Some u\<rparr>)) \<and>
     (\<forall>spec nets. \<exists>d. pa_fingerprint api spec nets = Inr d \<and> d \<noteq> [])"

definition pods_write_ok :: "'s pod_api \<Rightarrow> ('s \<Rightarrow> string \<times> string \<rightharpoonup> Pod) \<Rightarrow> (PodSpec \<Rightarrow> PodSpec) \<Rightarrow> bool" where
  "pods_write_ok api view dflt \<longleftrightarrow>
     (\<forall>s p. view s (pod_key p) = None \<longrightarrow> (\<exists>s'. pa_CreatePod api p s = (None, s') \<and> same_rest api s s' \<and>
        view s' = (view s)(pod_key p \<mapsto> p\<lparr>pod_Spec := dflt (pod_Spec p)\<rparr>))) \<and>
     (\<forall>s p. view s (pod_key p) \<noteq> None \<longrightarrow> (\<exists>s'. pa_UpdatePod api p s = (None, s') \<and> same_rest api s s' \<and>
        view s' = (view s)(pod_key p \<mapsto> p))) \<and>
     (\<forall>s p. view s (pod_key p) \<noteq> None \<longrightarrow> (\<exists>s'. pa_DeletePod api p s = (None, s') \<and> same_rest api s s' \<and>
        view s' = (view s)(pod_key p := None)))"

definition pods_ok :: "'s pod_api \<Rightarrow> ('s \<Rightarrow> string \<times> string \<rightharpoonup> Pod) \<Rightarrow> (PodSpec \<Rightarrow> PodSpec) \<Rightarrow> bool" where
  "pods_ok api view dflt \<longleftrightarrow> pods_read_ok api view \<and> pods_write_ok api view dflt"

text \<open>The pod \<open>p\<close> shows the metadata of the desired pod \<open>d\<close>; it is out of date when its hash is another.\<close>

definition carries :: "Pod \<Rightarrow> Pod \<Rightarrow> bool" where
  "carries d p \<longleftrightarrow> (\<forall>(key, v) \<in> set (pod_Labels d). label_of (pod_Labels p) key = v) \<and>
     (\<forall>(key, v) \<in> set (pod_Annotations d). label_of (pod_Annotations p) key = v)"

definition pod_hash :: "Pod \<Rightarrow> string" where
  "pod_hash p = label_of (pod_Annotations p) sfcSpecHashKey"

definition desired_ok :: "Pod \<Rightarrow> bool" where
  "desired_ok d \<longleftrightarrow> map_ok (pod_Labels d) \<and> map_ok (pod_Annotations d) \<and> pod_hash d \<noteq> []"

definition outdated :: "(string \<times> string \<rightharpoonup> Pod) \<Rightarrow> Pod \<Rightarrow> bool" where
  "outdated v d \<longleftrightarrow> (\<exists>p. v (pod_key d) = Some p \<and> pod_hash p \<noteq> pod_hash d)"

text \<open>Where the pod now found for \<open>d\<close> comes from: it was made for \<open>d\<close>, or it was there with the hash of \<open>d\<close>.\<close>

definition made_for :: "(PodSpec \<Rightarrow> PodSpec) \<Rightarrow> (string \<times> string \<rightharpoonup> Pod) \<Rightarrow> Pod \<Rightarrow> Pod \<Rightarrow> bool" where
  "made_for dflt v d p \<longleftrightarrow> pod_Spec p = dflt (pod_Spec d) \<or>
     (\<exists>p0. v (pod_key d) = Some p0 \<and> pod_hash p0 = pod_hash d \<and> pod_Spec p = pod_Spec p0)"

locale pod_server =
  fixes api :: "'s pod_api" and view :: "'s \<Rightarrow> string \<times> string \<rightharpoonup> Pod" and dflt :: "PodSpec \<Rightarrow> PodSpec"
  assumes ok: "pods_ok api view dflt"
begin

lemma key: "view s k = Some p \<Longrightarrow> pod_key p = k"
  using ok unfolding pods_ok_def pods_read_ok_def by meson

lemma get: "view s k = Some p \<Longrightarrow> pa_GetPod api k s = Inr p"
  using ok unfolding pods_ok_def pods_read_ok_def by meson

lemma get_none: "view s k = None \<Longrightarrow> \<exists>e. pa_GetPod api k s = Inl e \<and> pa_IsNotFound api e"
  using ok unfolding pods_ok_def pods_read_ok_def by meson

lemma listed: "\<exists>ps. pa_ListPods api ns (l, v) s = Inr ps \<and> distinct (map pod_key ps) \<and>
    (\<forall>p. p \<in> set ps \<longleftrightarrow> view s (ns, pod_Name p) = Some p \<and> map_get (pod_Labels p) l = Some v)"
  using ok unfolding pods_ok_def pods_read_ok_def by (elim conjE) (simp only: simp_thms)

lemma own: "pod_Owner p = None \<Longrightarrow> pa_SetControllerReference api u p = Inr (p\<lparr>pod_Owner := Some u\<rparr>)"
  using ok unfolding pods_ok_def pods_read_ok_def by meson

lemma hashed: "\<exists>d. pa_fingerprint api spec nets = Inr d \<and> d \<noteq> []"
  using ok unfolding pods_ok_def pods_read_ok_def by (elim conjE) (simp only: simp_thms)

lemma create: "view s (pod_key p) = None \<Longrightarrow> \<exists>s'. pa_CreatePod api p s = (None, s') \<and> same_rest api s s' \<and>
    view s' = (view s)(pod_key p \<mapsto> p\<lparr>pod_Spec := dflt (pod_Spec p)\<rparr>)"
  using ok unfolding pods_ok_def pods_write_ok_def by meson

lemma update: "view s (pod_key p) \<noteq> None \<Longrightarrow> \<exists>s'. pa_UpdatePod api p s = (None, s') \<and> same_rest api s s' \<and>
    view s' = (view s)(pod_key p \<mapsto> p)"
  using ok unfolding pods_ok_def pods_write_ok_def by meson

lemma delete: "view s (pod_key p) \<noteq> None \<Longrightarrow> \<exists>s'. pa_DeletePod api p s = (None, s') \<and> same_rest api s s' \<and>
    view s' = (view s)(pod_key p := None)"
  using ok unfolding pods_ok_def pods_write_ok_def by meson

end

lemma same_rest_refl [simp]: "same_rest api s s"
  by (simp add: same_rest_def)

lemma same_rest_trans: "same_rest api s s1 \<Longrightarrow> same_rest api s1 s2 \<Longrightarrow> same_rest api s s2"
  by (simp add: same_rest_def)

lemma label_of_set: "map_ok m \<Longrightarrow> (k, v) \<in> set m \<Longrightarrow> label_of m k = v"
  by (simp add: label_of_def map_of_is_SomeI)

lemma pod_hash_merge:
  assumes "map_ok (pod_Annotations d)" "pod_hash d \<noteq> []"
  shows "label_of (snd (merge_labels (pod_Annotations d) as)) sfcSpecHashKey = pod_hash d"
proof -
  have "(sfcSpecHashKey, pod_hash d) \<in> set (pod_Annotations d)"
    using assms(2) by (auto simp: pod_hash_def label_of_def split: option.splits intro: map_of_SomeD)
  then show ?thesis using merge_labels_correct [OF assms(1)] by fastforce
qed

lemma carries_hash:
  assumes "carries d p" "pod_hash d \<noteq> []"
  shows "pod_hash p = pod_hash d"
proof -
  have "(sfcSpecHashKey, pod_hash d) \<in> set (pod_Annotations d)"
    using assms(2) by (auto simp: pod_hash_def label_of_def split: option.splits intro: map_of_SomeD)
  then show ?thesis using assms(1) by (auto simp: carries_def pod_hash_def)
qed

lemma merge_labels_same:
  assumes "\<forall>(key, v) \<in> set ls. label_of m key = v"
  shows "merge_labels ls m = (False, m)"
  using assms by (induction ls m rule: merge_labels.induct) auto

context pod_server
begin

text \<open>The three cases of \<open>reconcilePod\<close>.\<close>

lemma reconcile_missing:
  assumes "view s (pod_key d) = None"
  shows "\<exists>s'. reconcilePod api d s = (False, None, s') \<and> same_rest api s s' \<and>
     view s' = (view s)(pod_key d \<mapsto> d\<lparr>pod_Spec := dflt (pod_Spec d)\<rparr>)"
  using get_none [OF assms] create [OF assms] by (auto simp: reconcilePod_def)

lemma reconcile_outdated:
  assumes "outdated (view s) d" "pod_hash d \<noteq> []"
  shows "\<exists>s'. reconcilePod api d s = (True, None, s') \<and> same_rest api s s' \<and> view s' = (view s)(pod_key d := None)"
proof -
  obtain p where p: "view s (pod_key d) = Some p" "pod_hash p \<noteq> pod_hash d" using assms(1) by (auto simp: outdated_def)
  then show ?thesis using assms(2) delete [of s p] get [OF p(1)] key [OF p(1)]
    by (auto simp: reconcilePod_def pod_hash_def Let_def)
qed

lemma reconcile_current:
  assumes "view s (pod_key d) = Some p" "pod_hash p = pod_hash d" "desired_ok d"
  shows "\<exists>s' p'. reconcilePod api d s = (False, None, s') \<and> same_rest api s s' \<and> view s' = (view s)(pod_key d \<mapsto> p') \<and>
     carries d p' \<and> pod_Spec p' = pod_Spec p \<and> (carries d p \<longrightarrow> s' = s)"
proof -
  obtain u1 ls u2 as where m: "merge_labels (pod_Labels d) (pod_Labels p) = (u1, ls)"
    "merge_labels (pod_Annotations d) (pod_Annotations p) = (u2, as)" by (metis prod.exhaust)
  let ?p = "p\<lparr>pod_Labels := ls, pod_Annotations := as\<rparr>"
  have sh: "carries d ?p" "\<not> u1 \<and> \<not> u2 \<Longrightarrow> ?p = p"
    using merge_labels_correct [of "pod_Labels d" "pod_Labels p"] merge_labels_correct [of "pod_Annotations d" "pod_Annotations p"]
      assms(3) m by (auto simp: carries_def desired_ok_def)
  have "carries d p \<Longrightarrow> \<not> u1 \<and> \<not> u2"
    using m merge_labels_same [of "pod_Labels d" "pod_Labels p"] merge_labels_same [of "pod_Annotations d" "pod_Annotations p"]
    by (auto simp: carries_def)
  moreover have k: "pod_key ?p = pod_key d" using key [OF assms(1)] by simp
  moreover obtain s' where up: "pa_UpdatePod api ?p s = (None, s')" "same_rest api s s'" "view s' = (view s)(pod_key d \<mapsto> ?p)"
    using update [of s ?p] assms(1) k by auto
  moreover have "reconcilePod api d s = (False, if u1 \<or> u2 then pa_UpdatePod api ?p s else (None, s))"
    using assms m get [OF assms(1)] by (simp add: reconcilePod_def desired_ok_def pod_hash_def)
  ultimately show ?thesis
    using assms(1) sh by (intro exI [of _ "if u1 \<or> u2 then s' else s"] exI [of _ ?p]) (auto simp: fun_upd_idem)
qed

end

context pod_server
begin

definition pass_ok :: "Pod list \<Rightarrow> 's \<Rightarrow> 's \<Rightarrow> bool" where
  "pass_ok ds s s' \<longleftrightarrow> same_rest api s s' \<and> (\<forall>k. k \<notin> pod_key ` set ds \<longrightarrow> view s' k = view s k) \<and>
     (\<forall>d\<in>set ds. outdated (view s') d \<longrightarrow> outdated (view s) d) \<and>
     (\<forall>d\<in>set ds. \<forall>p. view s' (pod_key d) = Some p \<longrightarrow> made_for dflt (view s) d p \<or> view s (pod_key d) = Some p)"

lemma pass_ok_Cons:
  assumes "same_rest api s s1" "view s1 = (view s)(pod_key d := x)" "pass_ok ds s1 s2" "pod_key d \<notin> pod_key ` set ds"
    and "\<And>p. x = Some p \<Longrightarrow> pod_hash p = pod_hash d \<and> made_for dflt (view s) d p"
  shows "pass_ok (d # ds) s s2"
proof -
  have "view s2 (pod_key d) = x" using assms(2-4) by (simp add: pass_ok_def)
  moreover have other: "view s1 (pod_key e) = view s (pod_key e)" if "e \<in> set ds" for e
    using that assms(2,4) by (auto simp: image_iff)
  ultimately show ?thesis
    using assms same_rest_trans [OF assms(1)]
    by (auto simp: pass_ok_def outdated_def made_for_def)
qed

lemma carries_self: "desired_ok d \<Longrightarrow> carries d (d\<lparr>pod_Spec := x\<rparr>)"
  by (auto simp: carries_def desired_ok_def label_of_set)

lemma reconcile_pods_ok:
  assumes "distinct (map pod_key ds)" "\<forall>d\<in>set ds. desired_ok d"
  shows "\<exists>s'. pass_ok ds s s' \<and>
     (reconcile_pods api ds s = (NoRequeue, None, s') \<and> (\<forall>d\<in>set ds. \<exists>p. view s' (pod_key d) = Some p \<and> carries d p) \<or>
      reconcile_pods api ds s = (RequeueAfter 2, None, s') \<and> (\<exists>d\<in>set ds. outdated (view s) d \<and> view s' (pod_key d) = None))"
  using assms
proof (induction ds arbitrary: s)
  case Nil
  then show ?case by (simp add: pass_ok_def)
next
  case (Cons d ds)
  have d: "desired_ok d" "pod_hash d \<noteq> []" "pod_key d \<notin> pod_key ` set ds" using Cons.prems by (auto simp: desired_ok_def)
  have tail: "\<exists>s'. pass_ok (d # ds) s s' \<and>
     (reconcile_pods api (d # ds) s = (NoRequeue, None, s') \<and> (\<forall>d\<in>set (d # ds). \<exists>p. view s' (pod_key d) = Some p \<and> carries d p) \<or>
      reconcile_pods api (d # ds) s = (RequeueAfter 2, None, s') \<and> (\<exists>d\<in>set (d # ds). outdated (view s) d \<and> view s' (pod_key d) = None))"
    if step: "reconcilePod api d s = (False, None, s1)" "same_rest api s s1" "view s1 = (view s)(pod_key d \<mapsto> p)"
      and p: "carries d p" "made_for dflt (view s) d p" for s1 p
  proof -
    obtain s2 where s2: "pass_ok ds s1 s2"
      "reconcile_pods api ds s1 = (NoRequeue, None, s2) \<and> (\<forall>d\<in>set ds. \<exists>p. view s2 (pod_key d) = Some p \<and> carries d p) \<or>
       reconcile_pods api ds s1 = (RequeueAfter 2, None, s2) \<and> (\<exists>d\<in>set ds. outdated (view s1) d \<and> view s2 (pod_key d) = None)"
      using Cons.IH [of s1] Cons.prems by auto
    have "pass_ok (d # ds) s s2"
      using pass_ok_Cons [OF step(2,3) s2(1) d(3)] carries_hash [OF p(1) d(2)] p(2) by simp
    moreover have "view s2 (pod_key d) = Some p" using s2(1) step(3) d(3) by (simp add: pass_ok_def)
    moreover have "outdated (view s) e" if "outdated (view s1) e" "e \<in> set ds" for e
      using that step(3) d(3) by (auto simp: outdated_def image_iff)
    ultimately show ?thesis using s2(2) step(1) p(1) by auto
  qed
  consider (missing) "view s (pod_key d) = None" | (outdated) "outdated (view s) d"
    | (current) p where "view s (pod_key d) = Some p" "pod_hash p = pod_hash d"
    by (cases "view s (pod_key d)") (auto simp: outdated_def)
  then show ?case
  proof cases
    case missing
    then show ?thesis using reconcile_missing [OF missing] tail carries_self [OF d(1)]
      by (fastforce simp: made_for_def)
  next
    case outdated
    obtain s' where s': "reconcilePod api d s = (True, None, s')" "same_rest api s s'" "view s' = (view s)(pod_key d := None)"
      using reconcile_outdated [OF outdated d(2)] by blast
    then have "pass_ok (d # ds) s s'" using d(3)
      by (auto simp: pass_ok_def outdated_def)
    with s' outdated show ?thesis by auto
  next
    case current
    then show ?thesis using reconcile_current [OF current d(1)] tail
      by (auto simp: made_for_def)
  qed
qed

end

section \<open>Passes of the controller\<close>

definition chain_in_sync :: "(string \<times> string \<rightharpoonup> Pod) \<Rightarrow> ServiceFunctionChain \<Rightarrow> (string, Pod) gomap \<Rightarrow> bool" where
  "chain_in_sync v sfc desired \<longleftrightarrow>
     (\<forall>d \<in> snd ` set desired. \<exists>p. v (pod_key d) = Some p \<and> carries d p) \<and>
     (\<forall>n p. v (sfc_Namespace sfc, n) = Some p \<and> map_get (pod_Labels p) sfcLabelKey = Some (sfc_Name sfc) \<longrightarrow>
        n \<in> fst ` set desired)"

definition any_order :: "('a list \<Rightarrow> 'a list) \<Rightarrow> bool" where
  "any_order order \<longleftrightarrow> (\<forall>xs. mset (order xs) = mset xs)"

text \<open>The controller runs again as long as a pass asks for it; there is one order for each pass.\<close>

fun sfc_passes ::
    "'s pod_api \<Rightarrow> (Pod list \<Rightarrow> Pod list) list \<Rightarrow> string \<times> string \<Rightarrow> 's \<Rightarrow> ctrl_Result \<times> go_error option \<times> 's" where
  "sfc_passes api [] req s = (RequeueAfter 2, None, s)"
| "sfc_passes api (order # orders) req s =
     (case sfc_Reconcile api order req s of
        (RequeueAfter _, None, s') \<Rightarrow> sfc_passes api orders req s'
      | r \<Rightarrow> r)"

definition desired_for :: "ServiceFunctionChain \<Rightarrow> (string, Pod) gomap \<Rightarrow> bool" where
  "desired_for sfc desired \<longleftrightarrow> map_ok desired \<and>
     (\<forall>(n, d) \<in> set desired. pod_key d = (sfc_Namespace sfc, n) \<and> desired_ok d)"

lemma desired_key: "desired_for sfc desired \<Longrightarrow> d \<in> snd ` set desired \<Longrightarrow> pod_Name d \<in> fst ` set desired"
  by (force simp: desired_for_def)

lemma map_put_length: "length (map_put k v m) \<le> Suc (length m)"
  by (induction m) auto

lemma map_put_set: "set (map_put k v m) \<subseteq> insert (k, v) (set m)"
  by (induction m) auto

lemma made_trans:
  assumes "\<forall>p. v1 (pod_key d) = Some p \<longrightarrow> made_for dflt v d p \<or> v (pod_key d) = Some p"
    and "\<forall>p. v2 (pod_key d) = Some p \<longrightarrow> made_for dflt v1 d p \<or> v1 (pod_key d) = Some p"
  shows "\<forall>p. v2 (pod_key d) = Some p \<longrightarrow> made_for dflt v d p \<or> v (pod_key d) = Some p"
proof (intro allI impI)
  fix p assume "v2 (pod_key d) = Some p"
  then consider "pod_Spec p = dflt (pod_Spec d)" | p0 where "v1 (pod_key d) = Some p0" "pod_hash p0 = pod_hash d" "pod_Spec p = pod_Spec p0"
    | "v1 (pod_key d) = Some p" using assms(2) by (auto simp: made_for_def)
  then show "made_for dflt v d p \<or> v (pod_key d) = Some p"
  proof cases
    case 2
    then have "made_for dflt v d p0 \<or> v (pod_key d) = Some p0" using assms(1) by blast
    with 2 show ?thesis by (auto simp: made_for_def)
  qed (use assms(1) in \<open>auto simp: made_for_def\<close>)
qed

lemma same_rest_sfc: "same_rest api s s' \<Longrightarrow> pa_GetSfc api req s' = pa_GetSfc api req s"
  by (simp add: same_rest_def del: split_paired_All)

lemma same_rest_name: "same_rest api s s' \<Longrightarrow> resourceNameForSFC api s' = resourceNameForSFC api s"
  by (simp add: same_rest_def resourceNameForSFC_def)

context pod_server
begin

lemma hash_pod:
  obtains d where "setPodSpecHash api ((networkFunctionPod sfc nf res)\<lparr>pod_Owner := Some u\<rparr>) = Inr d"
    "pod_key d = (sfc_Namespace sfc, sfc_Name sfc @ ''-'' @ fn_Name nf)" "desired_ok d"
    "pod_Labels d = [(sfcLabelKey, sfc_Name sfc), (sfcFunctionLabel, fn_Name nf)]"
proof -
  let ?p = "(networkFunctionPod sfc nf res)\<lparr>pod_Owner := Some u\<rparr>"
  obtain h where h: "pa_fingerprint api (pod_Spec ?p) (label_of (pod_Annotations ?p) sfcNetworksAnnoKey) = Inr h" "h \<noteq> []"
    using hashed by blast
  have keys: "sfcLabelKey \<noteq> sfcFunctionLabel" "sfcNetworksAnnoKey \<noteq> sfcSpecHashKey"
    by (simp_all add: sfcLabelKey_def sfcFunctionLabel_def sfcNetworksAnnoKey_def sfcSpecHashKey_def)
  have d: "setPodSpecHash api ?p = Inr (?p\<lparr>pod_Annotations := map_put sfcSpecHashKey h (pod_Annotations ?p)\<rparr>)"
    unfolding setPodSpecHash_def h(1) by simp
  show thesis
    by (rule that [OF d]) (use keys h(2) in \<open>simp_all add: networkFunctionPod_def Let_def desired_ok_def pod_hash_def label_of_def\<close>)
qed

lemma desired_pods_ok:
  assumes "desired_for sfc acc"
  shows "\<exists>desired. desired_pods api sfc res nfs acc = Inr desired \<and> desired_for sfc desired \<and> length desired \<le> length acc + length nfs"
  using assms
proof (induction nfs arbitrary: acc)
  case (Cons nf nfs)
  obtain d where d: "setPodSpecHash api ((networkFunctionPod sfc nf res)\<lparr>pod_Owner := Some (sfc_UID sfc)\<rparr>) = Inr d"
    "pod_key d = (sfc_Namespace sfc, sfc_Name sfc @ ''-'' @ fn_Name nf)" "desired_ok d" by (rule hash_pod)
  have "pod_Owner (networkFunctionPod sfc nf res) = None" by (simp add: networkFunctionPod_def Let_def)
  note own [OF this, of "sfc_UID sfc"]
  moreover have "desired_for sfc (map_put (pod_Name d) d acc)"
    using Cons.prems d map_put_set [of "pod_Name d" d acc] by (auto simp: desired_for_def)
  moreover have "length (map_put (pod_Name d) d acc) \<le> Suc (length acc)" by (rule map_put_length)
  ultimately show ?case using Cons.IH [of "map_put (pod_Name d) d acc"] d(1) by auto
qed simp

lemma delete_stale_ok:
  assumes "distinct (map pod_key ps)" "\<forall>p\<in>set ps. view s (pod_key p) = Some p"
  shows "\<exists>s'. delete_stale api desired ps s = (None, s') \<and> same_rest api s s' \<and>
     view s' = (\<lambda>k. if k \<in> pod_key ` {p \<in> set ps. map_get desired (pod_Name p) = None} then None else view s k) \<and>
     ((\<forall>p\<in>set ps. map_get desired (pod_Name p) \<noteq> None) \<longrightarrow> s' = s)"
  using assms
proof (induction ps arbitrary: s)
  case (Cons p ps)
  show ?case
  proof (cases "map_get desired (pod_Name p) = None")
    case False
    then have "{q \<in> set (p # ps). map_get desired (pod_Name q) = None} = {q \<in> set ps. map_get desired (pod_Name q) = None}" by auto
    with False show ?thesis using Cons.IH [of s] Cons.prems by auto
  next
    case True
    obtain s1 where s1: "pa_DeletePod api p s = (None, s1)" "same_rest api s s1" "view s1 = (view s)(pod_key p := None)"
      using delete [of s p] Cons.prems(2) by auto
    then have "\<forall>q\<in>set ps. view s1 (pod_key q) = Some q" using Cons.prems by (auto simp: image_iff)
    then obtain s2 where s2: "delete_stale api desired ps s1 = (None, s2)" "same_rest api s1 s2"
      "view s2 = (\<lambda>k. if k \<in> pod_key ` {p \<in> set ps. map_get desired (pod_Name p) = None} then None else view s1 k)"
      using Cons.IH [of s1] Cons.prems(1) by auto
    have "view s2 = (\<lambda>k. if k \<in> pod_key ` {q \<in> set (p # ps). map_get desired (pod_Name q) = None} then None else view s k)"
      using s1(3) s2(3) True by (auto simp: fun_eq_iff)
    then show ?thesis using s1 s2(1,2) True same_rest_trans [OF s1(2) s2(2)] by auto
  qed
qed simp

lemma stale_pods_gone:
  assumes "pa_ListPods api (sfc_Namespace sfc) (sfcLabelKey, sfc_Name sfc) s = Inr ps" "desired_for sfc desired"
  obtains s1 where "delete_stale api desired ps s = (None, s1)" "same_rest api s s1"
    "\<forall>d \<in> snd ` set desired. view s1 (pod_key d) = view s (pod_key d)"
    "\<forall>n p. view s1 (sfc_Namespace sfc, n) = Some p \<and> map_get (pod_Labels p) sfcLabelKey = Some (sfc_Name sfc) \<longrightarrow> n \<in> fst ` set desired"
    "chain_in_sync (view s) sfc desired \<Longrightarrow> s1 = s"
proof -
  have ps: "distinct (map pod_key ps)"
    "\<And>p. p \<in> set ps \<longleftrightarrow> view s (sfc_Namespace sfc, pod_Name p) = Some p \<and> map_get (pod_Labels p) sfcLabelKey = Some (sfc_Name sfc)"
    using listed [of "sfc_Namespace sfc" sfcLabelKey "sfc_Name sfc" s] assms(1) by auto
  have keys: "\<forall>p\<in>set ps. pod_key p = (sfc_Namespace sfc, pod_Name p) \<and> view s (pod_key p) = Some p" 
  proof
    fix p assume "p \<in> set ps"
    then have v: "view s (sfc_Namespace sfc, pod_Name p) = Some p" using ps(2) by blast
    from key [OF v] v show "pod_key p = (sfc_Namespace sfc, pod_Name p) \<and> view s (pod_key p) = Some p" by simp
  qed
  have dom: "map_get desired n = None \<longleftrightarrow> n \<notin> fst ` set desired" for n by (simp add: map_of_eq_None_iff)
  obtain s1 where s1: "delete_stale api desired ps s = (None, s1)" "same_rest api s s1"
    "view s1 = (\<lambda>k. if k \<in> pod_key ` {p \<in> set ps. map_get desired (pod_Name p) = None} then None else view s k)"
    "(\<forall>p\<in>set ps. map_get desired (pod_Name p) \<noteq> None) \<longrightarrow> s1 = s"
    using delete_stale_ok [OF ps(1)] keys by blast
  show thesis
  proof (rule that [OF s1(1,2)])
    show "\<forall>d \<in> snd ` set desired. view s1 (pod_key d) = view s (pod_key d)"
    proof
      fix d assume "d \<in> snd ` set desired"
      then have "pod_Name d \<in> fst ` set desired" by (rule desired_key [OF assms(2)])
      then have "pod_key d \<noteq> pod_key x" if "map_get desired (pod_Name x) = None" for x
        using that dom by (metis prod.inject)
      then have "pod_key d \<notin> pod_key ` {p \<in> set ps. map_get desired (pod_Name p) = None}" by blast
      then show "view s1 (pod_key d) = view s (pod_key d)" by (simp only: s1(3) if_False)
    qed
    show "\<forall>n p. view s1 (sfc_Namespace sfc, n) = Some p \<and> map_get (pod_Labels p) sfcLabelKey = Some (sfc_Name sfc) \<longrightarrow> n \<in> fst ` set desired"
    proof (intro allI impI, elim conjE)
      fix n p assume p: "view s1 (sfc_Namespace sfc, n) = Some p" "map_get (pod_Labels p) sfcLabelKey = Some (sfc_Name sfc)"
      then have v: "view s (sfc_Namespace sfc, n) = Some p" and
        n: "(sfc_Namespace sfc, n) \<notin> pod_key ` {p \<in> set ps. map_get desired (pod_Name p) = None}"
        using s1(3) by (auto split: if_splits)
      then have mem: "p \<in> set ps" and pk: "pod_key p = (sfc_Namespace sfc, n)" using ps(2) [of p] p(2) key [OF v] by auto
      show "n \<in> fst ` set desired"
      proof (rule ccontr)
        assume "n \<notin> fst ` set desired"
        then have "map_get desired (pod_Name p) = None" using dom pk by simp
        then have "pod_key p \<in> pod_key ` {p \<in> set ps. map_get desired (pod_Name p) = None}" using mem by blast
        then show False using n pk by simp
      qed
    qed
    assume "chain_in_sync (view s) sfc desired"
    then have "\<forall>p\<in>set ps. map_get desired (pod_Name p) \<noteq> None" using ps(2) dom by (simp add: chain_in_sync_def)
    then show "s1 = s" using s1(4) by blast
  qed
qed

lemma desired_list:
  assumes "desired_for sfc desired" "any_order order"
  shows "distinct (map pod_key (order (map snd desired)))" "\<forall>d\<in>set (order (map snd desired)). desired_ok d"
    "set (order (map snd desired)) = snd ` set desired"
proof -
  have perm: "mset (order (map snd desired)) = mset (map snd desired)" using assms(2) by (simp add: any_order_def)
  have "map pod_key (map snd desired) = map (Pair (sfc_Namespace sfc)) (map fst desired)"
    using assms(1) by (auto simp: desired_for_def)
  then have "distinct (map pod_key (map snd desired))"
    using assms(1) by (simp add: desired_for_def distinct_map inj_on_def)
  then show "distinct (map pod_key (order (map snd desired)))"
    using perm by (metis mset_eq_imp_distinct_iff mset_map)
  show "set (order (map snd desired)) = snd ` set desired" using mset_eq_setD [OF perm] by simp
  then show "\<forall>d\<in>set (order (map snd desired)). desired_ok d" using assms(1) by (auto simp: desired_for_def)
qed

lemma pass:
  assumes "pa_GetSfc api req s = Inr sfc" "desired_pods api sfc (resourceNameForSFC api s) (sfc_NetworkFunctions sfc) [] = Inr desired"
    and d: "desired_for sfc desired" "any_order order"
  obtains s' where "same_rest api s s'"
    "\<forall>d \<in> snd ` set desired. outdated (view s') d \<longrightarrow> outdated (view s) d"
    "\<forall>d \<in> snd ` set desired. \<forall>p. view s' (pod_key d) = Some p \<longrightarrow> made_for dflt (view s) d p \<or> view s (pod_key d) = Some p"
    "sfc_Reconcile api order req s = (NoRequeue, None, s') \<and> chain_in_sync (view s') sfc desired \<or>
     sfc_Reconcile api order req s = (RequeueAfter 2, None, s') \<and> (\<exists>d \<in> snd ` set desired. outdated (view s) d \<and> \<not> outdated (view s') d)"
proof -
  obtain ps where ps: "pa_ListPods api (sfc_Namespace sfc) (sfcLabelKey, sfc_Name sfc) s = Inr ps"
    using listed by blast
  obtain s1 where s1: "delete_stale api desired ps s = (None, s1)" "same_rest api s s1"
    "\<forall>d \<in> snd ` set desired. view s1 (pod_key d) = view s (pod_key d)"
    "\<forall>n p. view s1 (sfc_Namespace sfc, n) = Some p \<and> map_get (pod_Labels p) sfcLabelKey = Some (sfc_Name sfc) \<longrightarrow> n \<in> fst ` set desired"
    by (rule stale_pods_gone [OF ps d(1)])
  let ?ds = "order (map snd desired)"
  have run: "sfc_Reconcile api order req s = reconcile_pods api ?ds s1"
    by (simp add: sfc_Reconcile_def assms(1,2) ps s1(1))
  note ds = desired_list [OF d]
  obtain s' where s': "pass_ok ?ds s1 s'"
    "reconcile_pods api ?ds s1 = (NoRequeue, None, s') \<and> (\<forall>d\<in>set ?ds. \<exists>p. view s' (pod_key d) = Some p \<and> carries d p) \<or>
     reconcile_pods api ?ds s1 = (RequeueAfter 2, None, s') \<and> (\<exists>d\<in>set ?ds. outdated (view s1) d \<and> view s' (pod_key d) = None)"
    using reconcile_pods_ok [OF ds(1,2)] by blast
  have old: "outdated (view s1) d = outdated (view s) d" "made_for dflt (view s1) d p = made_for dflt (view s) d p"
    if "d \<in> snd ` set desired" for d p
  proof -
    have "view s1 (pod_key d) = view s (pod_key d)" using s1(3) that by blast
    then show "outdated (view s1) d = outdated (view s) d" "made_for dflt (view s1) d p = made_for dflt (view s) d p"
      by (simp_all add: outdated_def made_for_def)
  qed
  have outside: "view s' (sfc_Namespace sfc, n) = view s1 (sfc_Namespace sfc, n)" if "n \<notin> fst ` set desired" for n
  proof -
    have "(sfc_Namespace sfc, n) \<notin> pod_key ` set ?ds" using ds(3) desired_key [OF d(1)] that by auto
    then show ?thesis using s'(1) unfolding pass_ok_def by blast
  qed
  show thesis
  proof (rule that)
    show "same_rest api s s'" using s1(2) s'(1) same_rest_trans by (auto simp: pass_ok_def)
    show "\<forall>d \<in> snd ` set desired. outdated (view s') d \<longrightarrow> outdated (view s) d" using s'(1) ds(3) old(1) by (simp add: pass_ok_def)
    show "\<forall>d \<in> snd ` set desired. \<forall>p. view s' (pod_key d) = Some p \<longrightarrow> made_for dflt (view s) d p \<or> view s (pod_key d) = Some p"
      using s'(1) ds(3) old(2) s1(3) by (simp add: pass_ok_def)
    show "sfc_Reconcile api order req s = (NoRequeue, None, s') \<and> chain_in_sync (view s') sfc desired \<or>
     sfc_Reconcile api order req s = (RequeueAfter 2, None, s') \<and> (\<exists>d \<in> snd ` set desired. outdated (view s) d \<and> \<not> outdated (view s') d)"
      using s'(2)
    proof
      assume "reconcile_pods api ?ds s1 = (NoRequeue, None, s') \<and> (\<forall>d\<in>set ?ds. \<exists>p. view s' (pod_key d) = Some p \<and> carries d p)"
      then show ?thesis using s1(4) outside ds(3) unfolding run chain_in_sync_def by metis
    next
      assume "reconcile_pods api ?ds s1 = (RequeueAfter 2, None, s') \<and> (\<exists>d\<in>set ?ds. outdated (view s1) d \<and> view s' (pod_key d) = None)"
      then show ?thesis unfolding run using ds(3) old(1) by (auto simp: outdated_def)
    qed
  qed
qed

lemma reconcile_pods_idle:
  assumes "\<forall>d\<in>set ds. desired_ok d \<and> (\<exists>p. view s (pod_key d) = Some p \<and> carries d p)"
  shows "reconcile_pods api ds s = (NoRequeue, None, s)"
  using assms
proof (induction ds)
  case (Cons d ds)
  then obtain p where p: "view s (pod_key d) = Some p" "carries d p" "desired_ok d" by auto
  then have "reconcilePod api d s = (False, None, s)"
    using reconcile_current [OF p(1) _ p(3)] carries_hash [OF p(2)] by (auto simp: desired_ok_def)
  then show ?case using Cons by simp
qed simp

lemma idle:
  assumes "pa_GetSfc api req s = Inr sfc" "desired_pods api sfc (resourceNameForSFC api s) (sfc_NetworkFunctions sfc) [] = Inr desired"
    and d: "desired_for sfc desired" "any_order order" and sync: "chain_in_sync (view s) sfc desired"
  shows "sfc_Reconcile api order req s = (NoRequeue, None, s)"
proof -
  obtain ps where ps: "pa_ListPods api (sfc_Namespace sfc) (sfcLabelKey, sfc_Name sfc) s = Inr ps" using listed by blast
  have "delete_stale api desired ps s = (None, s)" using stale_pods_gone [OF ps d(1)] sync by metis
  moreover have "reconcile_pods api (order (map snd desired)) s = (NoRequeue, None, s)"
    by (rule reconcile_pods_idle) (use desired_list [OF d] sync in \<open>auto simp: chain_in_sync_def\<close>)
  ultimately show ?thesis by (simp add: sfc_Reconcile_def assms(1,2) ps)
qed

lemma converges:
  assumes "pa_GetSfc api req s = Inr sfc" "desired_pods api sfc (resourceNameForSFC api s) (sfc_NetworkFunctions sfc) [] = Inr desired"
    and "desired_for sfc desired" "\<forall>order \<in> set orders. any_order order"
    and "card {d \<in> snd ` set desired. outdated (view s) d} < length orders"
  shows "\<exists>s'. sfc_passes api orders req s = (NoRequeue, None, s') \<and> same_rest api s s' \<and> chain_in_sync (view s') sfc desired \<and>
     (\<forall>d \<in> snd ` set desired. \<forall>p. view s' (pod_key d) = Some p \<longrightarrow> made_for dflt (view s) d p \<or> view s (pod_key d) = Some p)"
  using assms
proof (induction orders arbitrary: s)
  case (Cons order orders)
  obtain s1 where s1: "same_rest api s s1"
    "\<forall>d \<in> snd ` set desired. outdated (view s1) d \<longrightarrow> outdated (view s) d"
    "\<forall>d \<in> snd ` set desired. \<forall>p. view s1 (pod_key d) = Some p \<longrightarrow> made_for dflt (view s) d p \<or> view s (pod_key d) = Some p"
    "sfc_Reconcile api order req s = (NoRequeue, None, s1) \<and> chain_in_sync (view s1) sfc desired \<or>
     sfc_Reconcile api order req s = (RequeueAfter 2, None, s1) \<and> (\<exists>d \<in> snd ` set desired. outdated (view s) d \<and> \<not> outdated (view s1) d)"
    using pass [OF Cons.prems(1-3), of order] Cons.prems(4) by auto
  show ?case using s1(4)
  proof
    assume "sfc_Reconcile api order req s = (NoRequeue, None, s1) \<and> chain_in_sync (view s1) sfc desired"
    with s1 show ?thesis by auto
  next
    assume r: "sfc_Reconcile api order req s = (RequeueAfter 2, None, s1) \<and> (\<exists>d \<in> snd ` set desired. outdated (view s) d \<and> \<not> outdated (view s1) d)"
    then have "{d \<in> snd ` set desired. outdated (view s1) d} \<subset> {d \<in> snd ` set desired. outdated (view s) d}" using s1(2) by blast
    then have "card {d \<in> snd ` set desired. outdated (view s1) d} < card {d \<in> snd ` set desired. outdated (view s) d}"
      by (intro psubset_card_mono) simp_all
    then have "card {d \<in> snd ` set desired. outdated (view s1) d} < length orders" using Cons.prems(5) by simp
    moreover have "pa_GetSfc api req s1 = Inr sfc" "resourceNameForSFC api s1 = resourceNameForSFC api s"
      using same_rest_sfc [OF s1(1)] same_rest_name [OF s1(1)] Cons.prems(1) by simp_all
    ultimately obtain s2 where s2: "sfc_passes api orders req s1 = (NoRequeue, None, s2)" "same_rest api s1 s2"
      "chain_in_sync (view s2) sfc desired"
      "\<forall>d \<in> snd ` set desired. \<forall>p. view s2 (pod_key d) = Some p \<longrightarrow> made_for dflt (view s1) d p \<or> view s1 (pod_key d) = Some p"
      using Cons.IH [of s1] Cons.prems(2-4) by auto
    have "\<forall>d \<in> snd ` set desired. \<forall>p. view s2 (pod_key d) = Some p \<longrightarrow> made_for dflt (view s) d p \<or> view s (pod_key d) = Some p"
      using made_trans [of "view s1" _ dflt "view s" "view s2"] s1(3) s2(4) by blast
    then show ?thesis using r s2 same_rest_trans [OF s1(1) s2(2)] by auto
  qed
qed simp

end

section \<open>A pod server\<close>

record pod_store =
  pst_pods :: "(string \<times> string, Pod) gomap"
  pst_sfcs :: "(string \<times> string, ServiceFunctionChain) gomap"
  pst_name :: string

definition pst_view :: "pod_store \<Rightarrow> string \<times> string \<rightharpoonup> Pod" where
  "pst_view s k = (case map_get (pst_pods s) k of Some p \<Rightarrow> if pod_key p = k then Some p else None | None \<Rightarrow> None)"

definition pst_put :: "Pod \<Rightarrow> pod_store \<Rightarrow> pod_store" where
  "pst_put p s = s\<lparr>pst_pods := map_put (pod_key p) p (pst_pods s)\<rparr>"

definition store_pods :: "(PodSpec \<Rightarrow> string \<Rightarrow> string) \<Rightarrow> pod_store pod_api" where
  "store_pods hash =
     \<lparr>pa_GetSfc = (\<lambda>req s. case map_get (pst_sfcs s) req of Some c \<Rightarrow> Inr c | None \<Rightarrow> Inl ErrResourceNotFound),
      pa_GetResourceName = (\<lambda>s. Inr (pst_name s)),
      pa_GetNodeLabels = (\<lambda>_ _. Inr []),
      pa_IsNotFound = (\<lambda>e. e = ErrResourceNotFound),
      pa_SetControllerReference = (\<lambda>u p. Inr (p\<lparr>pod_Owner := Some u\<rparr>)),
      pa_ListPods = (\<lambda>ns (l, v) s. Inr (remdups (filter (\<lambda>p. pst_view s (pod_key p) = Some p \<and> pod_Namespace p = ns \<and>
         map_get (pod_Labels p) l = Some v) (map snd (pst_pods s))))),
      pa_GetPod = (\<lambda>k s. case pst_view s k of Some p \<Rightarrow> Inr p | None \<Rightarrow> Inl ErrResourceNotFound),
      pa_CreatePod = (\<lambda>p s. if pst_view s (pod_key p) = None then (None, pst_put p s) else (Some ErrNotImplemented, s)),
      pa_UpdatePod = (\<lambda>p s. if pst_view s (pod_key p) \<noteq> None then (None, pst_put p s) else (Some ErrResourceNotFound, s)),
      pa_DeletePod = (\<lambda>p s. if pst_view s (pod_key p) \<noteq> None then (None, s\<lparr>pst_pods := map_del (pod_key p) (pst_pods s)\<rparr>)
         else (Some ErrResourceNotFound, s)),
      pa_fingerprint = (\<lambda>spec nets. Inr (''#'' @ hash spec nets))\<rparr>"

lemma pst_view_put: "pst_view (pst_put p s) = (pst_view s)(pod_key p \<mapsto> p)"
  by (rule ext) (simp add: pst_view_def pst_put_def)

lemma pst_view_del: "pst_view (s\<lparr>pst_pods := map_del k (pst_pods s)\<rparr>) = (pst_view s)(k := None)"
  by (rule ext) (simp add: pst_view_def)

lemma pst_view_key: "pst_view s k = Some p \<Longrightarrow> pod_key p = k"
  by (simp add: pst_view_def split: option.splits if_splits)

lemma pst_listed:
  "\<exists>ps. pa_ListPods (store_pods hash) ns (l, v) s = Inr ps \<and> distinct (map pod_key ps) \<and>
     (\<forall>p. p \<in> set ps \<longleftrightarrow> pst_view s (ns, pod_Name p) = Some p \<and> map_get (pod_Labels p) l = Some v)"
proof -
  let ?ps = "remdups (filter (\<lambda>p. pst_view s (pod_key p) = Some p \<and> pod_Namespace p = ns \<and> map_get (pod_Labels p) l = Some v)
     (map snd (pst_pods s)))"
  have "inj_on pod_key {p. pst_view s (pod_key p) = Some p}" by (rule inj_onI) simp
  then have "inj_on pod_key (set ?ps)" by (rule inj_on_subset) auto
  then have "distinct (map pod_key ?ps)" by (simp add: distinct_map)
  moreover have "p \<in> set ?ps \<longleftrightarrow> pst_view s (ns, pod_Name p) = Some p \<and> map_get (pod_Labels p) l = Some v" for p
  proof
    assume r: "pst_view s (ns, pod_Name p) = Some p \<and> map_get (pod_Labels p) l = Some v"
    then have "map_get (pst_pods s) (ns, pod_Name p) = Some p" by (simp add: pst_view_def split: option.splits if_splits)
    then have "(snd ((ns, pod_Name p), p)) \<in> snd ` set (pst_pods s)" by (intro imageI map_of_SomeD)
    moreover have "pod_key p = (ns, pod_Name p)" using r pst_view_key by blast
    ultimately show "p \<in> set ?ps" using r by simp
  qed auto
  ultimately show ?thesis by (intro exI [of _ ?ps]) (simp add: store_pods_def)
qed

lemma store_pods_ok: "pods_ok (store_pods hash) pst_view (\<lambda>spec. spec)"
proof -
  have "pods_read_ok (store_pods hash) pst_view"
    unfolding pods_read_ok_def
    by (intro conjI pst_listed allI; (simp add: store_pods_def pst_view_key; fail)?; (intro impI)?; (drule pst_view_key)?; (simp add: store_pods_def)?)
  moreover have "pods_write_ok (store_pods hash) pst_view (\<lambda>spec. spec)"
    unfolding pods_write_ok_def
    by (simp add: store_pods_def pst_view_put pst_view_del same_rest_def pst_put_def [symmetric]) (simp add: pst_put_def)
  ultimately show ?thesis by (simp add: pods_ok_def)
qed

interpretation store_pods: pod_server "store_pods hash" pst_view "\<lambda>spec. spec"
  by unfold_locales (rule store_pods_ok)

section \<open>Convergence\<close>


definition sample_sfc :: ServiceFunctionChain where
  "sample_sfc = \<lparr>sfc_Namespace = ''ns'', sfc_Name = ''fw'', sfc_UID = ''u1'', sfc_NodeSelector = [(''dpu'', ''true'')],
     sfc_NetworkFunctions = [\<lparr>fn_Name = ''a'', fn_Image = ''img:2'', fn_Networks = [], fn_DpuResources = None\<rparr>]\<rparr>"

definition image_hash :: "PodSpec \<Rightarrow> string \<Rightarrow> string" where
  "image_hash spec nets = concat (map ct_Image (ps_Containers spec)) @ nets"

definition sample_pods :: pod_store where
  "sample_pods = \<lparr>pst_pods = [((''ns'', ''fw-a''), (networkFunctionPod sample_sfc (hd (sfc_NetworkFunctions sample_sfc)) ''openshift.io/dpu'')
       \<lparr>pod_Annotations := [(sfcSpecHashKey, ''#old'')]\<rparr>)],
     pst_sfcs = [((''ns'', ''fw''), sample_sfc)], pst_name = ''''\<rparr>"


section \<open>What a pass may touch\<close>

text \<open>What holds of every call, also of one that fails: it acts on the pod it names, and a list has only
  what was asked for.\<close>

definition pods_scope :: "'s pod_api \<Rightarrow> ('s \<Rightarrow> string \<times> string \<rightharpoonup> Pod) \<Rightarrow> bool" where
  "pods_scope api view \<longleftrightarrow>
     (\<forall>p s k. k \<noteq> pod_key p \<longrightarrow> view (snd (pa_CreatePod api p s)) k = view s k) \<and>
     (\<forall>p s k. k \<noteq> pod_key p \<longrightarrow> view (snd (pa_UpdatePod api p s)) k = view s k) \<and>
     (\<forall>p s k. k \<noteq> pod_key p \<longrightarrow> view (snd (pa_DeletePod api p s)) k = view s k) \<and>
     (\<forall>k s p. pa_GetPod api k s = Inr p \<longrightarrow> pod_key p = k) \<and>
     (\<forall>u p p'. pa_SetControllerReference api u p = Inr p' \<longrightarrow> pod_key p' = pod_key p) \<and>
     (\<forall>ns l v s ps p. pa_ListPods api ns (l, v) s = Inr ps \<longrightarrow> p \<in> set ps \<longrightarrow>
        pod_Namespace p = ns \<and> map_get (pod_Labels p) l = Some v \<and> view s (pod_key p) = Some p)"

lemma scope_writes:
  assumes "pods_scope api view" "k \<noteq> pod_key p"
  shows "view (snd (pa_CreatePod api p s)) k = view s k" "view (snd (pa_UpdatePod api p s)) k = view s k"
    "view (snd (pa_DeletePod api p s)) k = view s k"
  using assms unfolding pods_scope_def by (simp_all del: split_paired_All)

lemma scope_reads:
  assumes "pods_scope api view"
  shows "pa_GetPod api k s = Inr p \<Longrightarrow> pod_key p = k"
    "pa_SetControllerReference api u q = Inr q' \<Longrightarrow> pod_key q' = pod_key q"
    "pa_ListPods api ns (l, v) s = Inr ps \<Longrightarrow> p \<in> set ps \<Longrightarrow>
       pod_Namespace p = ns \<and> map_get (pod_Labels p) l = Some v \<and> view s (pod_key p) = Some p"
  using assms unfolding pods_scope_def by blast+

lemma reconcilePod_scope:
  assumes "pods_scope api view" "reconcilePod api d s = (r, e, s')" "k \<noteq> pod_key d"
  shows "view s' k = view s k"
proof (cases "pa_GetPod api (pod_key d) s")
  case (Inl err)
  then show ?thesis
    using assms scope_writes(1) [OF assms(1,3), of s] by (auto simp: reconcilePod_def split: if_splits)
next
  case (Inr p)
  then have "pod_key p = pod_key d" by (rule scope_reads(1) [OF assms(1)])
  moreover then have "pod_key (p\<lparr>pod_Labels := ls, pod_Annotations := as\<rparr>) = pod_key d" for ls as by simp
  ultimately show ?thesis
    using assms(2) Inr scope_writes(2) [OF assms(1), of k "p\<lparr>pod_Labels := _, pod_Annotations := _\<rparr>" s]
      scope_writes(3) [OF assms(1), of k p s] assms(3)
    by (auto simp: reconcilePod_def Let_def split: if_splits prod.splits) (metis snd_conv)+
qed

lemma reconcile_pods_scope:
  "pods_scope api view \<Longrightarrow> reconcile_pods api ds s = (r, e, s') \<Longrightarrow> k \<notin> pod_key ` set ds \<Longrightarrow> view s' k = view s k"
proof (induction ds arbitrary: s)
  case (Cons d ds)
  obtain b e1 s1 where step: "reconcilePod api d s = (b, e1, s1)" by (metis prod.exhaust)
  then have "view s1 k = view s k" using reconcilePod_scope [OF Cons.prems(1) step] Cons.prems(3) by simp
  then show ?case using Cons step by (auto split: option.splits bool.splits)
qed simp

lemma delete_stale_scope:
  "pods_scope api view \<Longrightarrow> delete_stale api desired ps s = (e, s') \<Longrightarrow> k \<notin> pod_key ` set ps \<Longrightarrow> view s' k = view s k"
proof (induction ps arbitrary: s)
  case (Cons p ps)
  obtain e1 s1 where step: "pa_DeletePod api p s = (e1, s1)" by (metis prod.exhaust)
  then have "view s1 k = view s k" using scope_writes(3) [OF Cons.prems(1), of k p s] Cons.prems(3) by simp
  then show ?case using Cons step by (auto split: option.splits if_splits)
qed simp

definition own_keys :: "ServiceFunctionChain \<Rightarrow> NetworkFunction list \<Rightarrow> (string \<times> string) set" where
  "own_keys sfc nfs = (\<lambda>nf. (sfc_Namespace sfc, sfc_Name sfc @ ''-'' @ fn_Name nf)) ` set nfs"

lemma desired_pods_names:
  assumes "pods_scope api view" "desired_pods api sfc res nfs acc = Inr desired"
  shows "pod_key ` snd ` set desired \<subseteq> pod_key ` snd ` set acc \<union> own_keys sfc nfs"
  using assms(2)
proof (induction nfs arbitrary: acc)
  case (Cons nf nfs)
  obtain p d where p: "pa_SetControllerReference api (sfc_UID sfc) (networkFunctionPod sfc nf res) = Inr p"
    and d: "setPodSpecHash api p = Inr d" "desired_pods api sfc res nfs (map_put (pod_Name d) d acc) = Inr desired"
    using Cons.prems(1) by (auto split: sum.splits)
  have "pod_key d = pod_key p" using d(1) by (auto simp: setPodSpecHash_def split: sum.splits)
  also have "\<dots> = (sfc_Namespace sfc, sfc_Name sfc @ ''-'' @ fn_Name nf)"
    using scope_reads(2) [OF assms(1) p] by (simp add: networkFunctionPod_def Let_def)
  finally have "pod_key d \<in> own_keys sfc (nf # nfs)" by (simp add: own_keys_def)
  then have "insert (pod_key d) K \<union> own_keys sfc nfs \<subseteq> K \<union> own_keys sfc (nf # nfs)" for K by (auto simp: own_keys_def)
  moreover have "snd ` set (map_put (pod_Name d) d acc) \<subseteq> insert d (snd ` set acc)"
    using map_put_set [of "pod_Name d" d acc] by force
  from image_mono [OF this, of pod_key]
  have "pod_key ` snd ` set (map_put (pod_Name d) d acc) \<subseteq> insert (pod_key d) (pod_key ` snd ` set acc)"
    by (simp only: image_insert)
  ultimately show ?case using Cons.IH [OF d(2)] by (meson Un_mono order_refl order_trans)
qed simp

text \<open>C17: A pass over a chain touches nothing but the chain's own pods, whatever calls of the API server
  fail: a pod that is created, changed or deleted lies in the namespace of the chain, and either its name is
  that of a function of the chain or it carried the label of the chain.\<close>

theorem sfc_Reconcile_scope:
  assumes "pods_scope api view" "pa_GetSfc api req s = Inr sfc" "any_order order"
    and "sfc_Reconcile api order req s = (r, e, s')" "view s' k \<noteq> view s k"
  shows "fst k = sfc_Namespace sfc \<and>
     ((\<exists>nf \<in> set (sfc_NetworkFunctions sfc). snd k = sfc_Name sfc @ ''-'' @ fn_Name nf) \<or>
      (\<exists>p. view s k = Some p \<and> map_get (pod_Labels p) sfcLabelKey = Some (sfc_Name sfc)))"
proof -
  have "s' \<noteq> s" using assms(5) by auto
  then obtain desired items s1 e1 where d: "desired_pods api sfc (resourceNameForSFC api s) (sfc_NetworkFunctions sfc) [] = Inr desired"
    and items: "pa_ListPods api (sfc_Namespace sfc) (sfcLabelKey, sfc_Name sfc) s = Inr items"
    and stale: "delete_stale api desired items s = (e1, s1)"
    and run: "s' = s1 \<or> reconcile_pods api (order (map snd desired)) s1 = (r, e, s')"
    using assms(2,4) by (auto simp: sfc_Reconcile_def split: sum.splits prod.splits option.splits if_splits)
  have own: "pod_key ` snd ` set desired \<subseteq> own_keys sfc (sfc_NetworkFunctions sfc)"
    using desired_pods_names [OF assms(1) d] by simp
  have "set (order (map snd desired)) = snd ` set desired"
    using assms(3) by (metis any_order_def mset_eq_setD set_map)
  then have "pod_key ` set (order (map snd desired)) \<subseteq> own_keys sfc (sfc_NetworkFunctions sfc)"
    using own by (simp only:)
  then have "k \<in> own_keys sfc (sfc_NetworkFunctions sfc) \<or> view s' k = view s1 k"
    using run reconcile_pods_scope [OF assms(1), of "order (map snd desired)" s1 r e s' k] by (meson subsetD)
  moreover have "k \<in> pod_key ` set items \<or> view s1 k = view s k"
    using delete_stale_scope [OF assms(1) stale] by blast
  ultimately consider "k \<in> own_keys sfc (sfc_NetworkFunctions sfc)" | p where "p \<in> set items" "k = pod_key p"
    using assms(5) by auto
  then show ?thesis
  proof cases
    case 1
    then show ?thesis by (auto simp: own_keys_def)
  next
    case 2
    then show ?thesis using scope_reads(3) [OF assms(1) items 2(1)] by auto
  qed
qed

lemma store_pods_scope: "pods_scope (store_pods hash) pst_view"
proof -
  have "pa_ListPods (store_pods hash) ns (l, v) s = Inr ps \<Longrightarrow> p \<in> set ps \<Longrightarrow>
      pod_Namespace p = ns \<and> map_get (pod_Labels p) l = Some v \<and> pst_view s (pod_key p) = Some p" for ns l v s ps p
    by (auto simp: store_pods_def)
  moreover have "pa_GetPod (store_pods hash) k s = Inr p \<Longrightarrow> pod_key p = k" for k s p
    by (simp add: store_pods_def pst_view_key split: option.splits)
  moreover have "pa_SetControllerReference (store_pods hash) u p = Inr p' \<Longrightarrow> pod_key p' = pod_key p" for u p p'
    by (auto simp: store_pods_def)
  moreover have "k \<noteq> pod_key p \<Longrightarrow> pst_view (snd (pa_CreatePod (store_pods hash) p s)) k = pst_view s k \<and>
      pst_view (snd (pa_UpdatePod (store_pods hash) p s)) k = pst_view s k \<and> pst_view (snd (pa_DeletePod (store_pods hash) p s)) k = pst_view s k"
    for k p s by (simp add: store_pods_def pst_view_put pst_view_del)
  ultimately show ?thesis unfolding pods_scope_def by (intro conjI allI impI) blast+
qed

theorem sfc_Reconcile_scope_witness:
  "fst (''ns'', ''fw-a'') = sfc_Namespace sample_sfc \<and>
     ((\<exists>nf \<in> set (sfc_NetworkFunctions sample_sfc). snd (''ns'', ''fw-a'') = sfc_Name sample_sfc @ ''-'' @ fn_Name nf) \<or>
      (\<exists>p. pst_view sample_pods (''ns'', ''fw-a'') = Some p \<and> map_get (pod_Labels p) sfcLabelKey = Some (sfc_Name sample_sfc)))"
proof -
  let ?r = "sfc_Reconcile (store_pods image_hash) rev (''ns'', ''fw'') sample_pods"
  have sfc: "pa_GetSfc (store_pods image_hash) (''ns'', ''fw'') sample_pods = Inr sample_sfc"
    by (simp add: store_pods_def sample_pods_def)
  have r: "?r = (fst ?r, fst (snd ?r), snd (snd ?r))" by simp
  have order: "any_order rev" by (simp add: any_order_def)
  have gone: "pst_view (snd (snd ?r)) (''ns'', ''fw-a'') = None" by code_simp
  have "pst_view sample_pods (''ns'', ''fw-a'') \<noteq> None" by code_simp
  then have "pst_view (snd (snd ?r)) (''ns'', ''fw-a'') \<noteq> pst_view sample_pods (''ns'', ''fw-a'')"
    unfolding gone by (rule not_sym)
  from sfc_Reconcile_scope [OF store_pods_scope [of image_hash], of "(''ns'', ''fw'')" sample_pods sample_sfc rev
      "fst ?r" "fst (snd ?r)" "snd (snd ?r)" "(''ns'', ''fw-a'')", OF sfc order r this]
  show ?thesis .
qed

text \<open>The name of a pod joins the names of the chain and the function with a dash, which both may contain. Two
  chains whose pods collide are never both in order: each pass of one deletes the pod of the other.\<close>

theorem sfc_collision:
  assumes "d1 \<in> snd ` set desired1" "d2 \<in> snd ` set desired2" "desired_ok d1" "desired_ok d2"
    and "pod_key d1 = pod_key d2" "pod_hash d1 \<noteq> pod_hash d2"
  shows "\<not> (chain_in_sync v sfc1 desired1 \<and> chain_in_sync v sfc2 desired2)"
proof
  assume sync: "chain_in_sync v sfc1 desired1 \<and> chain_in_sync v sfc2 desired2"
  obtain p1 where p1: "v (pod_key d1) = Some p1" "carries d1 p1" using sync assms(1) unfolding chain_in_sync_def by blast
  obtain p2 where p2: "v (pod_key d2) = Some p2" "carries d2 p2" using sync assms(2) unfolding chain_in_sync_def by blast
  have "p1 = p2" using p1(1) p2(1) assms(5) by simp
  then show False using carries_hash [OF p1(2)] carries_hash [OF p2(2)] assms(3,4,6) by (simp add: desired_ok_def)
qed

theorem sfc_names_collide:
  assumes "sfc_Name sfc1 = ''a''" "fn_Name nf1 = ''b-c''" "sfc_Name sfc2 = ''a-b''" "fn_Name nf2 = ''c''"
  shows "pod_Name (networkFunctionPod sfc1 nf1 r) = pod_Name (networkFunctionPod sfc2 nf2 r)"
  using assms by (simp add: networkFunctionPod_def Let_def)

section \<open>The reconciler of the daemons\<close>

context pod_server
begin

lemma daemon_ensure:
  fixes r sfc nf
  defines "d \<equiv> (daemon_networkFunctionPod (sr_Namespace r) (sr_DpuResourceName r) (fn_Name nf) (fn_Image nf) (sfc_NodeSelector sfc))\<lparr>pod_Owner := Some (sfc_UID sfc)\<rparr>"
  shows "\<exists>s'. ensureNetworkFunctionExists api r sfc nf s = (None, s') \<and>
     view s' = (case view s (sr_Namespace r, fn_Name nf) of Some p \<Rightarrow> view s
       | None \<Rightarrow> (view s)((sr_Namespace r, fn_Name nf) \<mapsto> d\<lparr>pod_Spec := dflt (pod_Spec d)\<rparr>))"
proof -
  have k: "pod_key d = (sr_Namespace r, fn_Name nf)" by (simp add: d_def daemon_networkFunctionPod_def)
  have "ensureNetworkFunctionExists api r sfc nf s = createOrUpdatePod api d s"
    using own [of "daemon_networkFunctionPod (sr_Namespace r) (sr_DpuResourceName r) (fn_Name nf) (fn_Image nf) (sfc_NodeSelector sfc)"]
    by (simp add: ensureNetworkFunctionExists_def d_def daemon_networkFunctionPod_def)
  moreover have "\<exists>s'. createOrUpdatePod api d s = (None, s') \<and>
     view s' = (case view s (sr_Namespace r, fn_Name nf) of Some p \<Rightarrow> view s
       | None \<Rightarrow> (view s)((sr_Namespace r, fn_Name nf) \<mapsto> d\<lparr>pod_Spec := dflt (pod_Spec d)\<rparr>))"
  proof (cases "view s (sr_Namespace r, fn_Name nf)")
    case None
    then show ?thesis using get_none [OF None] create [of s d] k by (auto simp: createOrUpdatePod_def)
  next
    case (Some p)
    obtain s' where "pa_UpdatePod api p s = (None, s')" "view s' = (view s)(pod_key p \<mapsto> p)"
      using update [of s p] Some key [OF Some] by auto
    then show ?thesis using Some get [OF Some] key [OF Some] k by (auto simp: createOrUpdatePod_def)
  qed
  ultimately show ?thesis by simp
qed

lemma daemon_ensure_all:
  "\<exists>s'. ensure_functions api r sfc nfs s = (None, s') \<and>
     (\<forall>nf \<in> set nfs. view s' (sr_Namespace r, fn_Name nf) \<noteq> None) \<and> (\<forall>k p. view s k = Some p \<longrightarrow> view s' k = Some p) \<and>
     (\<forall>k. view s k = None \<and> view s' k \<noteq> None \<longrightarrow> (\<exists>nf \<in> set nfs. k = (sr_Namespace r, fn_Name nf)))"
proof (induction nfs arbitrary: s)
  case (Cons nf nfs)
  obtain s1 d where s1: "ensureNetworkFunctionExists api r sfc nf s = (None, s1)"
    "view s1 = (case view s (sr_Namespace r, fn_Name nf) of Some p \<Rightarrow> view s | None \<Rightarrow> (view s)((sr_Namespace r, fn_Name nf) \<mapsto> d))"
    using daemon_ensure by blast
  then have k: "view s1 (sr_Namespace r, fn_Name nf) \<noteq> None" "\<forall>k p. view s k = Some p \<longrightarrow> view s1 k = Some p"
    "\<forall>k. view s k = None \<and> view s1 k \<noteq> None \<longrightarrow> k = (sr_Namespace r, fn_Name nf)"
    by (auto split: option.splits if_splits)
  obtain s2 where s2: "ensure_functions api r sfc nfs s1 = (None, s2)"
    "\<forall>nf \<in> set nfs. view s2 (sr_Namespace r, fn_Name nf) \<noteq> None" "\<forall>k p. view s1 k = Some p \<longrightarrow> view s2 k = Some p"
    "\<forall>k. view s1 k = None \<and> view s2 k \<noteq> None \<longrightarrow> (\<exists>nf \<in> set nfs. k = (sr_Namespace r, fn_Name nf))"
    using Cons.IH [of s1] by blast
  have "\<forall>k. view s k = None \<and> view s2 k \<noteq> None \<longrightarrow> (\<exists>nf \<in> set (nf # nfs). k = (sr_Namespace r, fn_Name nf))"
    using k(3) s2(4) by (metis list.set_intros)
  moreover have "\<forall>nf \<in> set (nf # nfs). view s2 (sr_Namespace r, fn_Name nf) \<noteq> None" using k(1) s2(2,3) by auto
  moreover have "\<forall>k p. view s k = Some p \<longrightarrow> view s2 k = Some p" using k(2) s2(3) by blast
  ultimately show ?case using s1(1) s2(1) by (intro exI [of _ s2]) simp
qed (simp del: split_paired_All not_None_eq)

end

text \<open>The reconciler of the daemons creates what is missing and updates nothing. On a node that the chain
  selects a pass succeeds, and then every function has a pod under its own name in the namespace of the
  operator; but a pod that existed before is exactly what it was, whatever image, networks or selector the
  chain now asks for.\<close>

theorem daemon_sfc_creates_only:
  assumes "pods_ok api view dflt" "pa_GetSfc api req s = Inr sfc" "matchesNodeSelector api r (sfc_NodeSelector sfc) s = Inr True"
  shows "\<exists>s'. daemon_sfc_Reconcile api r req s = (NoRequeue, None, s') \<and>
     (\<forall>nf \<in> set (sfc_NetworkFunctions sfc). view s' (sr_Namespace r, fn_Name nf) \<noteq> None) \<and>
     (\<forall>k p. view s k = Some p \<longrightarrow> view s' k = Some p)"
  using pod_server.daemon_ensure_all [OF pod_server.intro [OF assms(1)], of r sfc "sfc_NetworkFunctions sfc" s]
  by (auto simp: daemon_sfc_Reconcile_def assms(2,3))

end
