(* ===== verification/Rendering.thy ===== *)
theory Rendering
  imports Pci_Scan
begin

text \<open>
  What the controllers apply to the cluster: the templates in the binary and the objects rendered from them
  (\<open>pkgs/render/render.go\<close>), the images (\<open>internal/images\<close>) and the variables that depend on the cluster and
  the host (\<open>internal/utils/cluster_environment.go\<close>, \<open>filesystem_mode_detector.go\<close>, \<open>path_manager.go\<close>). The
  embedded files, the template engine and the YAML decoder are the parameter \<open>bindata\<close>, the API server is
  the parameter \<open>cluster\<close>; \<open>cl_Elapse\<close> is what happens in the cluster between two polls. The lemmas show
  which objects a renderer tracks and what its clean-up leaves behind.
\<close>

section \<open>Images\<close>

definition DpuOperatorDaemonImage :: string where
  "DpuOperatorDaemonImage = ''DpuOperatorDaemonImage''"

definition AllImageKeys :: "string list" where
  "AllImageKeys = [DpuOperatorDaemonImage, ''NRIWebhookImage'', ''intel_ipu'', ''marvell_dpu'', ''intel_netsec'', ''nvidia_bf'',
     ''xsight'', ''mangoboost'', ''IntelVspP4Image'', ''MarvellVspCpAgentImage'']"

definition ErrImageNotFound :: go_error where
  "ErrImageNotFound = Errorf ''image not found'' []"

record image_manager =
  im_GetImage :: "string \<Rightarrow> string result"
  im_GetAllKeys :: "string list"

definition env_GetImage :: "(string \<Rightarrow> string) \<Rightarrow> string \<Rightarrow> string result" where
  "env_GetImage getenv key =
     (if key \<notin> set AllImageKeys then Inl (Errorf ''invalid image key %s: %w'' [FStr key, FWrap ErrImageNotFound])
      else if getenv key = [] then Inl (Errorf ''environment variable %s not set: %w'' [FStr key, FWrap ErrImageNotFound])
      else Inr (getenv key))"

definition EnvImageManager :: "(string \<Rightarrow> string) \<Rightarrow> image_manager" where
  "EnvImageManager getenv = \<lparr>im_GetImage = env_GetImage getenv, im_GetAllKeys = AllImageKeys\<rparr>"

definition DummyImageManager :: image_manager where
  "DummyImageManager =
     \<lparr>im_GetImage = (\<lambda>key. if key \<in> set AllImageKeys then Inr (key @ ''-mock-image'')
        else Inl (Errorf ''invalid image key %s: %w'' [FStr key, FWrap ErrImageNotFound])),
      im_GetAllKeys = AllImageKeys\<rparr>"

type_synonym vars = "(string, string) gomap"

definition merge_over :: "vars \<Rightarrow> vars \<Rightarrow> vars" where
  "merge_over new old = fold (\<lambda>(k, v). map_put k v) new old"

definition MergeVarsWithImages :: "image_manager \<Rightarrow> vars \<Rightarrow> vars" where
  "MergeVarsWithImages mgr additionalVars =
     merge_over additionalVars
       (fold (\<lambda>key. map_put key (case im_GetImage mgr key of Inr img \<Rightarrow> img | Inl _ \<Rightarrow> [])) (im_GetAllKeys mgr) [])"

section \<open>Cluster and host\<close>

datatype Flavour = OpenShiftFlavour | MicroShiftFlavour | KindFlavour | UnknownFlavour

text \<open>What the checks read: a config map, a resource definition, and the image names of every image of every
  node. The first name of an image without names panics.\<close>

record cluster_reads =
  cr_ConfigMap :: "go_error option"
  cr_CRD :: "go_error option"
  cr_Nodes :: "string list list list result"
  cr_IsNotFound :: "go_error \<Rightarrow> bool"

definition isMicroShift :: "cluster_reads \<Rightarrow> bool result" where
  "isMicroShift c =
     (case cr_ConfigMap c of
        None \<Rightarrow> Inr True
      | Some err \<Rightarrow> if cr_IsNotFound c err then Inr False
                    else Inl (Errorf ''Failed to check if running on microshift: %v'' [FErr err]))"

definition isOpenShift :: "cluster_reads \<Rightarrow> bool result" where
  "isOpenShift c =
     (case cr_CRD c of
        None \<Rightarrow> Inr True
      | Some err \<Rightarrow> if cr_IsNotFound c err then Inr False
                    else Inl (Errorf ''Failed to check if running on openshift: %v'' [FErr err]))"

fun kind_images :: "string list list \<Rightarrow> bool result" where
  "kind_images [] = Inr False"
| "kind_images ([] # rest) = Inl (Panic ''index out of range'')"
| "kind_images ((name # _) # rest) = (if contains name ''docker.io/kindest'' then Inr True else kind_images rest)"

definition isKind :: "cluster_reads \<Rightarrow> bool result" where
  "isKind c =
     (case cr_Nodes c of
        Inl err \<Rightarrow> Inl (Errorf ''failed to list nodes: %v'' [FErr err])
      | Inr [images] \<Rightarrow> kind_images images
      | Inr _ \<Rightarrow> Inr False)"

definition cluster_Flavour :: "cluster_reads \<Rightarrow> Flavour result" where
  "cluster_Flavour c =
     (case isMicroShift c of
        Inl err \<Rightarrow> Inl err
      | Inr True \<Rightarrow> Inr MicroShiftFlavour
      | Inr False \<Rightarrow>
          (case isOpenShift c of
             Inl err \<Rightarrow> Inl err
           | Inr True \<Rightarrow> Inr OpenShiftFlavour
           | Inr False \<Rightarrow>
               (case isKind c of
                  Inl err \<Rightarrow> Inl err
                | Inr True \<Rightarrow> Inr KindFlavour
                | Inr False \<Rightarrow> Inr UnknownFlavour)))"

datatype stat_result = StatFound | StatPermission | StatNotExist | StatError go_error

datatype FilesystemMode = ImageMode | PackageMode

fun is_image_mode :: "(string \<Rightarrow> stat_result) \<Rightarrow> string list \<Rightarrow> bool result" where
  "is_image_mode stat [] = Inr False"
| "is_image_mode stat (path # rest) =
     (case stat path of
        StatFound \<Rightarrow> Inr True
      | StatPermission \<Rightarrow> Inr True
      | StatNotExist \<Rightarrow> is_image_mode stat rest
      | StatError err \<Rightarrow> Inl (Errorf ''Failed to check image-based OS status at %s: %v'' [FStr path, FErr err]))"

definition IsImageMode :: "(string \<Rightarrow> stat_result) \<Rightarrow> bool result" where
  "IsImageMode stat = is_image_mode stat [''/host-run/ostree-booted'', ''/run/ostree-booted'']"

definition DetectMode :: "(string \<Rightarrow> stat_result) \<Rightarrow> FilesystemMode result" where
  "DetectMode stat =
     (case IsImageMode stat of Inl err \<Rightarrow> Inl err | Inr b \<Rightarrow> Inr (if b then ImageMode else PackageMode))"

text \<open>The root directory of the path manager is \<open>/\<close>, which leaves absolute paths as they are.\<close>

definition flavour_text :: "Flavour \<Rightarrow> string" where
  "flavour_text f = (case f of OpenShiftFlavour \<Rightarrow> ''OpenShift'' | MicroShiftFlavour \<Rightarrow> ''MicroShift''
     | KindFlavour \<Rightarrow> ''Kind'' | UnknownFlavour \<Rightarrow> ''Unknown'')"

definition mode_text :: "FilesystemMode \<Rightarrow> string" where
  "mode_text m = (case m of ImageMode \<Rightarrow> ''ImageMode'' | PackageMode \<Rightarrow> ''PackageMode'')"

definition CniHostDir :: "Flavour \<Rightarrow> FilesystemMode \<Rightarrow> string result" where
  "CniHostDir clusterFlavour filesystemMode =
     (if clusterFlavour = MicroShiftFlavour \<and> filesystemMode = ImageMode then Inr ''/run/cni''
      else if clusterFlavour = OpenShiftFlavour then Inr ''/var/lib/cni''
      else if (clusterFlavour = MicroShiftFlavour \<and> filesystemMode = PackageMode) \<or> clusterFlavour = KindFlavour
      then Inr ''/opt/cni''
      else Inl (Errorf ''unknown combination of cluster flavour (%s) and filesystem mode (%s)''
                  [FStr (flavour_text clusterFlavour), FStr (mode_text filesystemMode)]))"

section \<open>Objects\<close>

record Object =
  ob_GVK :: string
  ob_Kind :: string
  ob_Namespace :: string
  ob_Name :: string
  ob_UID :: string
  ob_ResourceVersion :: string
  ob_CreationTimestamp :: string
  ob_Labels :: vars
  ob_Annotations :: vars
  ob_Owner :: "string option"
  ob_Content :: string

type_synonym obj_key = "string \<times> string \<times> string"

definition obj_key :: "Object \<Rightarrow> obj_key" where
  "obj_key o' = (ob_GVK o', ob_Namespace o', ob_Name o')"

record 's cluster =
  cl_Get :: "obj_key \<Rightarrow> 's \<Rightarrow> Object result"
  cl_Update :: "Object \<Rightarrow> 's \<Rightarrow> go_error option \<times> 's"
  cl_Apply :: "Object \<Rightarrow> 's \<Rightarrow> go_error option \<times> 's"
  cl_Delete :: "Object \<Rightarrow> 's \<Rightarrow> go_error option \<times> 's"
  cl_SetControllerReference :: "string \<Rightarrow> Object \<Rightarrow> Object result"
  cl_IsNotFound :: "go_error \<Rightarrow> bool"
  cl_IsAlreadyExists :: "go_error \<Rightarrow> bool"
  cl_IsConflict :: "go_error \<Rightarrow> bool"
  cl_Elapse :: "'s \<Rightarrow> 's"

record 't bindata =
  bd_ReadDir :: "string \<Rightarrow> (string \<times> bool) list result"
  bd_Open :: "string \<Rightarrow> string result"
  bd_Parse :: "string \<Rightarrow> 't result"
  bd_Execute :: "'t \<Rightarrow> vars \<Rightarrow> string result"
  bd_Decode :: "string \<Rightarrow> Object result"

definition ApplyTemplate :: "'t bindata \<Rightarrow> string \<Rightarrow> vars \<Rightarrow> string result" where
  "ApplyTemplate bd contents vs =
     (case bd_Parse bd contents of
        Inl err \<Rightarrow> Inl (Errorf ''Failed to parse yaml through template: %v'' [FErr err])
      | Inr t \<Rightarrow>
          (case bd_Execute bd t vs of
             Inl err \<Rightarrow> Inl (Errorf ''Failed to Execute template on buffer: %v'' [FErr err])
           | Inr text \<Rightarrow> Inr text))"

definition BinDataYamlFiles :: "'t bindata \<Rightarrow> string \<Rightarrow> string list result" where
  "BinDataYamlFiles bd dirPath =
     (case bd_ReadDir bd (path_join ''bindata'' dirPath) of
        Inl err \<Rightarrow> Inl err
      | Inr entries \<Rightarrow>
          Inr (sort (map (\<lambda>(name, _). path_join dirPath name)
                 (filter (\<lambda>(name, isDir). \<not> isDir \<and> suffix ''.yaml'' name) entries))))"

text \<open>The object of a file, before it is sent to the server.\<close>

definition render_object :: "'t bindata \<Rightarrow> 's cluster \<Rightarrow> vars \<Rightarrow> string option \<Rightarrow> string \<Rightarrow> Object result" where
  "render_object bd c vs owner filePath =
     (case bd_Open bd (path_join ''bindata'' filePath) of
        Inl err \<Rightarrow> Inl (Errorf ''Failed to read file '%s': %v'' [FStr filePath, FErr err])
      | Inr file \<Rightarrow>
          (case ApplyTemplate bd file vs of
             Inl err \<Rightarrow> Inl (Errorf ''Failed to apply template on '%s': %v'' [FStr filePath, FErr err])
           | Inr applied \<Rightarrow>
               (case bd_Decode bd applied of
                  Inl err \<Rightarrow> Inl err
                | Inr obj \<Rightarrow> (case owner of Some u \<Rightarrow> cl_SetControllerReference c u obj | None \<Rightarrow> Inr obj))))"

definition update_over :: "Object \<Rightarrow> Object \<Rightarrow> Object" where
  "update_over obj existing =
     obj\<lparr>ob_ResourceVersion := ob_ResourceVersion existing, ob_UID := ob_UID existing,
         ob_CreationTimestamp := ob_CreationTimestamp existing,
         ob_Labels := merge_over (ob_Labels obj) (ob_Labels existing),
         ob_Annotations := merge_over (ob_Annotations obj) (ob_Annotations existing)\<rparr>"

definition applyObjectFromBinData ::
    "'t bindata \<Rightarrow> 's cluster \<Rightarrow> vars \<Rightarrow> string option \<Rightarrow> string \<Rightarrow> 's \<Rightarrow> Object result \<times> 's" where
  "applyObjectFromBinData bd c vs owner filePath s =
     (case render_object bd c vs owner filePath of
        Inl err \<Rightarrow> (Inl err, s)
      | Inr obj \<Rightarrow>
          (case cl_Get c (obj_key obj) s of
             Inr existing \<Rightarrow>
               (case cl_Update c (update_over obj existing) s of
                  (Some err, s1) \<Rightarrow> (Inl (Errorf ''failed to update resource: %v'' [FErr err]), s1)
                | (None, s1) \<Rightarrow> (Inr (update_over obj existing), s1))
           | Inl err \<Rightarrow>
               if \<not> cl_IsNotFound c err then (Inl (Errorf ''failed to check existing resource: %v'' [FErr err]), s)
               else (case cl_Apply c obj s of
                       (None, s1) \<Rightarrow> (Inr obj, s1)
                     | (Some err, s1) \<Rightarrow>
                         if cl_IsAlreadyExists c err \<or> cl_IsConflict c err then (Inr obj, s1)
                         else (Inl (Errorf ''failed to apply object %v with err: %v'' [FStr (ob_Content obj), FErr err]), s1))))"

section \<open>Resource renderer\<close>

record ResourceRenderer =
  rr_parentKey :: string
  rr_resources :: "(string, Object) gomap"
  rr_order :: "string list"

definition NewResourceRenderer :: "string \<Rightarrow> ResourceRenderer" where
  "NewResourceRenderer parentKey = \<lparr>rr_parentKey = parentKey, rr_resources = [], rr_order = []\<rparr>"

definition resourceKey :: "Object \<Rightarrow> string" where
  "resourceKey obj = ob_Kind obj @ ''/'' @ ob_Namespace obj @ ''/'' @ ob_Name obj"

definition trackResource :: "Object \<Rightarrow> ResourceRenderer \<Rightarrow> ResourceRenderer" where
  "trackResource resource rr =
     (if map_get (rr_resources rr) (resourceKey resource) = None
      then rr\<lparr>rr_resources := map_put (resourceKey resource) resource (rr_resources rr),
              rr_order := rr_order rr @ [resourceKey resource]\<rparr>
      else rr)"

fun apply_files ::
    "'t bindata \<Rightarrow> 's cluster \<Rightarrow> vars \<Rightarrow> string option \<Rightarrow> string list \<Rightarrow> ResourceRenderer option \<Rightarrow> 's \<Rightarrow>
     go_error option \<times> ResourceRenderer option \<times> 's" where
  "apply_files bd c vs owner [] renderer s = (None, renderer, s)"
| "apply_files bd c vs owner (f # fs) renderer s =
     (case applyObjectFromBinData bd c vs owner f s of
        (Inl err, s1) \<Rightarrow> (Some err, renderer, s1)
      | (Inr obj, s1) \<Rightarrow> apply_files bd c vs owner fs (map_option (trackResource obj) renderer) s1)"

definition ApplyAllFromBinDataWithRenderer ::
    "'t bindata \<Rightarrow> 's cluster \<Rightarrow> string \<Rightarrow> vars \<Rightarrow> string option \<Rightarrow> ResourceRenderer option \<Rightarrow> 's \<Rightarrow>
     go_error option \<times> ResourceRenderer option \<times> 's" where
  "ApplyAllFromBinDataWithRenderer bd c binDataPath vs owner renderer s =
     (case BinDataYamlFiles bd binDataPath of
        Inl err \<Rightarrow> (Some err, renderer, s)
      | Inr files \<Rightarrow> apply_files bd c vs owner files renderer s)"

definition rr_ApplyAllFromBinData ::
    "'t bindata \<Rightarrow> 's cluster \<Rightarrow> string \<Rightarrow> vars \<Rightarrow> string option \<Rightarrow> ResourceRenderer \<Rightarrow> 's \<Rightarrow>
     go_error option \<times> ResourceRenderer \<times> 's" where
  "rr_ApplyAllFromBinData bd c binDataPath vs owner rr s =
     (case ApplyAllFromBinDataWithRenderer bd c binDataPath vs owner (Some rr) s of
        (err, renderer, s1) \<Rightarrow> (err, (case renderer of Some rr' \<Rightarrow> rr' | None \<Rightarrow> rr), s1))"

text \<open>\<open>wait.PollUntilContextTimeout\<close> every 100 ms for 300 s, the first time at once.\<close>

definition poll_rounds :: nat where
  "poll_rounds = 3000"

fun poll_gone :: "'s cluster \<Rightarrow> obj_key \<Rightarrow> nat \<Rightarrow> 's \<Rightarrow> go_error option \<times> 's" where
  "poll_gone c key n s =
     (case cl_Get c key s of
        Inl err \<Rightarrow> (if cl_IsNotFound c err then None else Some err, s)
      | Inr _ \<Rightarrow>
          (case n of
             0 \<Rightarrow> (Some (ExtError ''context deadline exceeded''), s)
           | Suc m \<Rightarrow> poll_gone c key m (cl_Elapse c s)))"

declare poll_gone.simps [simp del]

fun cleanup_loop :: "'s cluster \<Rightarrow> (string, Object) gomap \<Rightarrow> string list \<Rightarrow> 's \<Rightarrow> go_error list \<times> 's" where
  "cleanup_loop c resources [] s = ([], s)"
| "cleanup_loop c resources (key # keys) s =
     (case map_get resources key of
        None \<Rightarrow> cleanup_loop c resources keys s
      | Some resource \<Rightarrow>
          (case cl_Delete c resource s of
             (Some err, s1) \<Rightarrow>
               (case cleanup_loop c resources keys s1 of
                  (errs, s2) \<Rightarrow>
                    (if cl_IsNotFound c err then errs else Errorf ''failed to delete %s: %v'' [FStr key, FErr err] # errs, s2))
           | (None, s1) \<Rightarrow>
               (case poll_gone c (obj_key resource) poll_rounds s1 of
                  (waitErr, s2) \<Rightarrow>
                    (case cleanup_loop c resources keys s2 of
                       (errs, s3) \<Rightarrow>
                         (case waitErr of
                            None \<Rightarrow> (errs, s3)
                          | Some err \<Rightarrow> (Errorf ''timeout waiting for deletion of %s: %v'' [FStr key, FErr err] # errs, s3))))))"

definition CleanupResourcesInReverseOrder ::
    "'s cluster \<Rightarrow> ResourceRenderer \<Rightarrow> 's \<Rightarrow> go_error option \<times> ResourceRenderer \<times> 's" where
  "CleanupResourcesInReverseOrder c rr s =
     (if rr_order rr = [] then (None, rr, s)
      else (case cleanup_loop c (rr_resources rr) (rev (rr_order rr)) s of
              (errs, s1) \<Rightarrow>
                (if errs = [] then None
                 else Some (Errorf ''cleanup errors: %v'' [FStr (''['' @ join '' '' (map error_text errs) @ '']'')]),
                 rr\<lparr>rr_resources := [], rr_order := []\<rparr>, s1)))"

section \<open>Tracking\<close>

definition rr_ok :: "ResourceRenderer \<Rightarrow> bool" where
  "rr_ok rr \<longleftrightarrow> distinct (rr_order rr) \<and> (\<forall>k. k \<in> set (rr_order rr) \<longleftrightarrow> map_get (rr_resources rr) k \<noteq> None) \<and>
     (\<forall>k obj. map_get (rr_resources rr) k = Some obj \<longrightarrow> resourceKey obj = k)"

lemma rr_ok_new: "rr_ok (NewResourceRenderer parentKey)"
  by (simp add: rr_ok_def NewResourceRenderer_def)

lemma trackResource_ok:
  assumes "rr_ok rr"
  shows "rr_ok (trackResource obj rr)" "map_get (rr_resources (trackResource obj rr)) (resourceKey obj) \<noteq> None"
    "map_get (rr_resources rr) k \<noteq> None \<Longrightarrow> map_get (rr_resources (trackResource obj rr)) k = map_get (rr_resources rr) k"
    "map_get (rr_resources (trackResource obj rr)) k = Some x \<Longrightarrow> x = obj \<or> map_get (rr_resources rr) k = Some x"
  using assms by (auto simp: rr_ok_def trackResource_def split: if_splits)

text \<open>Kinds, namespaces and names have no slash, and the kind of an object determines its group and version.\<close>

definition well_named :: "(string \<Rightarrow> string) \<Rightarrow> Object \<Rightarrow> bool" where
  "well_named gvk obj \<longleftrightarrow> CHR ''/'' \<notin> set (ob_Kind obj) \<and> CHR ''/'' \<notin> set (ob_Namespace obj) \<and> ob_GVK obj = gvk (ob_Kind obj)"

definition same_identity :: "Object \<Rightarrow> Object \<Rightarrow> bool" where
  "same_identity a b \<longleftrightarrow> ob_GVK a = ob_GVK b \<and> ob_Kind a = ob_Kind b \<and> ob_Namespace a = ob_Namespace b \<and> ob_Name a = ob_Name b"

lemma slash_split:
  assumes "a @ ''/'' @ b = c @ ''/'' @ d" "CHR ''/'' \<notin> set a" "CHR ''/'' \<notin> set c"
  shows "a = c \<and> b = d"
  using assms
proof (induction a arbitrary: c)
  case Nil
  then show ?case by (cases c) auto
next
  case (Cons x a)
  then show ?case by (cases c) auto
qed

lemma resourceKey_identity:
  assumes "resourceKey a = resourceKey b" "well_named gvk a" "well_named gvk b"
  shows "same_identity a b"
proof -
  have kind: "ob_Kind a = ob_Kind b \<and> ob_Namespace a @ ''/'' @ ob_Name a = ob_Namespace b @ ''/'' @ ob_Name b"
    using assms by (intro slash_split) (simp_all add: resourceKey_def well_named_def)
  then have "ob_Namespace a = ob_Namespace b \<and> ob_Name a = ob_Name b"
    using assms by (intro slash_split) (simp_all add: well_named_def)
  with kind show ?thesis using assms by (simp add: same_identity_def well_named_def)
qed

lemma same_identity_key: "same_identity a b \<Longrightarrow> obj_key a = obj_key b \<and> resourceKey a = resourceKey b"
  by (simp add: same_identity_def obj_key_def resourceKey_def)

lemma update_over_identity: "same_identity (update_over obj existing) obj"
  by (simp add: same_identity_def update_over_def)

section \<open>Clean-up\<close>

text \<open>What the clean-up relies on: a look-up that finds nothing tells the truth, and while it runs objects
  disappear but none appears.\<close>

definition shrinks :: "(obj_key \<rightharpoonup> Object) \<Rightarrow> (obj_key \<rightharpoonup> Object) \<Rightarrow> bool" where
  "shrinks v v' \<longleftrightarrow> (\<forall>k. v' k = None \<or> v' k = v k)"

definition cluster_shrinks :: "'s cluster \<Rightarrow> ('s \<Rightarrow> obj_key \<rightharpoonup> Object) \<Rightarrow> bool" where
  "cluster_shrinks c view \<longleftrightarrow>
     (\<forall>k s err. cl_Get c k s = Inl err \<and> cl_IsNotFound c err \<longrightarrow> view s k = None) \<and>
     (\<forall>obj s r s'. cl_Delete c obj s = (r, s') \<longrightarrow> shrinks (view s) (view s') \<and>
        (\<forall>err. r = Some err \<and> cl_IsNotFound c err \<longrightarrow> view s (obj_key obj) = None)) \<and>
     (\<forall>s. shrinks (view s) (view (cl_Elapse c s)))"

lemma shrinks_refl [simp]: "shrinks v v"
  by (simp add: shrinks_def)

lemma shrinks_trans: "shrinks u v \<Longrightarrow> shrinks v w \<Longrightarrow> shrinks u w"
  unfolding shrinks_def by metis

lemma shrinks_None: "shrinks v v' \<Longrightarrow> v k = None \<Longrightarrow> v' k = None"
  unfolding shrinks_def by metis

locale shrinking_cluster =
  fixes c :: "'s cluster" and view :: "'s \<Rightarrow> obj_key \<rightharpoonup> Object"
  assumes laws: "cluster_shrinks c view"
begin

lemma not_found: "cl_Get c k s = Inl err \<Longrightarrow> cl_IsNotFound c err \<Longrightarrow> view s k = None"
  using laws unfolding cluster_shrinks_def by meson

lemma deleted: "cl_Delete c obj s = (r, s') \<Longrightarrow> shrinks (view s) (view s')"
  "cl_Delete c obj s = (Some err, s') \<Longrightarrow> cl_IsNotFound c err \<Longrightarrow> view s (obj_key obj) = None"
  using laws unfolding cluster_shrinks_def by blast+

lemma elapsed: "shrinks (view s) (view (cl_Elapse c s))"
  using laws unfolding cluster_shrinks_def by meson

lemma poll_gone_ok:
  "poll_gone c k n s = (r, s') \<Longrightarrow> shrinks (view s) (view s') \<and> (r = None \<longrightarrow> view s' k = None)"
proof (induction n arbitrary: s)
  case 0
  then show ?case using not_found [of k s] by (auto simp: poll_gone.simps [of c k 0] split: sum.splits if_splits)
next
  case (Suc n)
  show ?case
  proof (cases "cl_Get c k s")
    case (Inl err)
    then show ?thesis using Suc.prems not_found by (auto simp: poll_gone.simps [of c k "Suc n"] split: if_splits)
  next
    case (Inr x)
    then have "poll_gone c k n (cl_Elapse c s) = (r, s')" using Suc.prems by (simp add: poll_gone.simps [of c k "Suc n"])
    then show ?thesis using Suc.IH shrinks_trans [OF elapsed] by blast
  qed
qed

lemma cleanup_loop_ok:
  "cleanup_loop c resources keys s = (errs, s') \<Longrightarrow> shrinks (view s) (view s') \<and>
   (errs = [] \<longrightarrow> (\<forall>k \<in> set keys. \<forall>obj. map_get resources k = Some obj \<longrightarrow> view s' (obj_key obj) = None))"
proof (induction keys arbitrary: s errs)
  case (Cons k keys)
  show ?case
  proof (cases "map_get resources k")
    case None
    then show ?thesis using Cons by auto
  next
    case (Some obj)
    obtain r s1 where del: "cl_Delete c obj s = (r, s1)" by (metis prod.exhaust)
    note s1 = deleted(1) [OF del]
    show ?thesis
    proof (cases r)
      case (Some err)
      obtain errs' where rest: "cleanup_loop c resources keys s1 = (errs', s')"
        and errs: "errs = (if cl_IsNotFound c err then errs' else Errorf ''failed to delete %s: %v'' [FStr k, FErr err] # errs')"
        using Cons.prems del Some \<open>map_get resources k = Some obj\<close> by (auto split: prod.splits)
      note ih = Cons.IH [OF rest]
      have sh: "shrinks (view s) (view s')" using shrinks_trans [OF s1] ih by blast
      moreover have "view s' (obj_key obj) = None" if "errs = []"
        using that errs deleted(2) [of obj s err s1] del Some shrinks_None [OF sh] by (auto split: if_splits)
      ultimately show ?thesis using ih errs \<open>map_get resources k = Some obj\<close> by (auto split: if_splits)
    next
      case None
      obtain w s2 where poll: "poll_gone c (obj_key obj) poll_rounds s1 = (w, s2)" by (metis prod.exhaust)
      note p = poll_gone_ok [OF poll]
      obtain errs' where rest: "cleanup_loop c resources keys s2 = (errs', s')"
        and errs: "errs = (case w of None \<Rightarrow> errs' | Some err \<Rightarrow> Errorf ''timeout waiting for deletion of %s: %v'' [FStr k, FErr err] # errs')"
        using Cons.prems del None poll \<open>map_get resources k = Some obj\<close> by (auto split: prod.splits option.splits)
      note ih = Cons.IH [OF rest]
      have "shrinks (view s) (view s')" using shrinks_trans [OF s1] shrinks_trans p ih by blast
      moreover have "view s' (obj_key obj) = None" if "errs = []"
        using that errs p ih shrinks_None by (auto split: option.splits)
      ultimately show ?thesis using ih errs \<open>map_get resources k = Some obj\<close> by (auto split: option.splits)
    qed
  qed
qed simp

lemma cleanup_ok:
  assumes "CleanupResourcesInReverseOrder c rr s = (None, rr', s')" "rr_ok rr"
  shows "rr_order rr' = [] \<and> rr_resources rr' = [] \<and> (\<forall>k obj. map_get (rr_resources rr) k = Some obj \<longrightarrow> view s' (obj_key obj) = None)"
proof (cases "rr_order rr = []")
  case True
  then have none: "map_get (rr_resources rr) k = None" for k using assms(2) by (auto simp: rr_ok_def)
  then have "rr_resources rr = []" by (cases "rr_resources rr") (auto, metis option.distinct(1))
  with True none show ?thesis using assms(1) by (simp add: CleanupResourcesInReverseOrder_def)
next
  case False
  then obtain s1 where "cleanup_loop c (rr_resources rr) (rev (rr_order rr)) s = ([], s')" "rr' = rr\<lparr>rr_resources := [], rr_order := []\<rparr>"
    using assms(1) by (auto simp: CleanupResourcesInReverseOrder_def split: prod.splits if_splits)
  then show ?thesis using cleanup_loop_ok [of "rr_resources rr" "rev (rr_order rr)" s "[]" s'] assms(2)
    by (auto simp: rr_ok_def)
qed

end

section \<open>From the templates to the cluster and back\<close>

definition names_ok :: "(string \<Rightarrow> string) \<Rightarrow> 't bindata \<Rightarrow> 's cluster \<Rightarrow> bool" where
  "names_ok gvk bd c \<longleftrightarrow> (\<forall>text obj. bd_Decode bd text = Inr obj \<longrightarrow> well_named gvk obj) \<and>
     (\<forall>u obj obj'. cl_SetControllerReference c u obj = Inr obj' \<longrightarrow> same_identity obj' obj)"

definition rr_named :: "(string \<Rightarrow> string) \<Rightarrow> ResourceRenderer \<Rightarrow> bool" where
  "rr_named gvk rr \<longleftrightarrow> (\<forall>k obj. map_get (rr_resources rr) k = Some obj \<longrightarrow> well_named gvk obj)"

lemma well_named_identity: "same_identity a b \<Longrightarrow> well_named gvk b \<Longrightarrow> well_named gvk a"
  by (simp add: same_identity_def well_named_def)

lemma render_named:
  assumes "names_ok gvk bd c" "render_object bd c vs owner f = Inr obj"
  shows "well_named gvk obj"
proof -
  obtain txt0 obj0 where d: "bd_Decode bd txt0 = Inr obj0"
    and own: "(case owner of Some u \<Rightarrow> cl_SetControllerReference c u obj0 | None \<Rightarrow> Inr obj0) = Inr obj"
    using assms(2) by (auto simp: render_object_def split: sum.splits)
  have "well_named gvk obj0" using assms(1) d unfolding names_ok_def by blast
  moreover have "same_identity obj obj0"
    using assms(1) own by (cases owner) (auto simp: names_ok_def same_identity_def)
  ultimately show ?thesis by (simp add: well_named_identity)
qed

lemma applied_object:
  assumes "applyObjectFromBinData bd c vs owner f s = (Inr obj', s')"
  obtains obj where "render_object bd c vs owner f = Inr obj" "same_identity obj' obj"
  using assms update_over_identity
  by (auto simp: applyObjectFromBinData_def same_identity_def split: sum.splits prod.splits option.splits if_splits)

lemma track_named: "rr_named gvk rr \<Longrightarrow> well_named gvk obj \<Longrightarrow> rr_ok rr \<Longrightarrow> rr_named gvk (trackResource obj rr)"
  by (auto simp: rr_named_def dest: trackResource_ok(4))

definition res_le :: "ResourceRenderer \<Rightarrow> ResourceRenderer \<Rightarrow> bool" where
  "res_le rr rr' \<longleftrightarrow> (\<forall>k. map_get (rr_resources rr) k \<noteq> None \<longrightarrow> map_get (rr_resources rr') k = map_get (rr_resources rr) k)"

lemma res_le_refl [simp]: "res_le rr rr"
  by (simp add: res_le_def)

lemma res_le_trans: "res_le a b \<Longrightarrow> res_le b c \<Longrightarrow> res_le a c"
  unfolding res_le_def by metis

lemma res_le_tracked: "res_le rr rr' \<Longrightarrow> map_get (rr_resources rr) k \<noteq> None \<Longrightarrow> map_get (rr_resources rr') k \<noteq> None"
  unfolding res_le_def by metis

definition files_tracked :: "'t bindata \<Rightarrow> 's cluster \<Rightarrow> vars \<Rightarrow> string option \<Rightarrow> string list \<Rightarrow> ResourceRenderer \<Rightarrow> bool" where
  "files_tracked bd c vs owner files rr \<longleftrightarrow>
     (\<forall>f \<in> set files. \<exists>obj. render_object bd c vs owner f = Inr obj \<and> map_get (rr_resources rr) (resourceKey obj) \<noteq> None)"

lemma files_tracked_mono: "files_tracked bd c vs owner files rr \<Longrightarrow> res_le rr rr' \<Longrightarrow> files_tracked bd c vs owner files rr'"
  unfolding files_tracked_def using res_le_tracked by metis

lemma apply_files_tracks:
  assumes "names_ok gvk bd c" "rr_ok rr" "rr_named gvk rr" "apply_files bd c vs owner files (Some rr) s = (err, r, s')"
  shows "\<exists>rr'. r = Some rr' \<and> rr_ok rr' \<and> rr_named gvk rr' \<and> res_le rr rr' \<and> (err = None \<longrightarrow> files_tracked bd c vs owner files rr')"
  using assms(2-)
proof (induction files arbitrary: rr s)
  case Nil
  then show ?case by (auto simp: files_tracked_def)
next
  case (Cons f files)
  show ?case
  proof (cases "fst (applyObjectFromBinData bd c vs owner f s)")
    case (Inl e)
    then show ?thesis using Cons.prems by (auto split: prod.splits)
  next
    case (Inr obj')
    then obtain s1 where step: "applyObjectFromBinData bd c vs owner f s = (Inr obj', s1)" by (metis prod.collapse)
    then have rest: "apply_files bd c vs owner files (Some (trackResource obj' rr)) s1 = (err, r, s')" using Cons.prems(3) by simp
    obtain obj where obj: "render_object bd c vs owner f = Inr obj" "same_identity obj' obj"
      using step by (rule applied_object)
    have named: "well_named gvk obj'" using well_named_identity [OF obj(2)] render_named [OF assms(1) obj(1)] by simp
    note tr = trackResource_ok [OF Cons.prems(1), where obj = obj']
    obtain rr' where rr': "r = Some rr'" "rr_ok rr'" "rr_named gvk rr'" "res_le (trackResource obj' rr) rr'"
      "err = None \<longrightarrow> files_tracked bd c vs owner files rr'"
      using Cons.IH [OF tr(1) track_named [OF Cons.prems(2) named Cons.prems(1)] rest] by blast
    have "map_get (rr_resources rr') (resourceKey obj) \<noteq> None"
      using res_le_tracked [OF rr'(4) tr(2)] same_identity_key [OF obj(2)] by simp
    moreover have "res_le rr rr'" using res_le_trans [OF _ rr'(4)] tr(3) by (simp add: res_le_def)
    ultimately show ?thesis using rr' obj(1) by (auto simp: files_tracked_def)
  qed
qed

text \<open>What is tracked is gone after a clean-up without errors.\<close>

lemma tracked_gone:
  assumes "cluster_shrinks c view" "names_ok gvk bd c" "rr_ok rr" "rr_named gvk rr"
    and "CleanupResourcesInReverseOrder c rr s = (None, rr', s')" "files_tracked bd c vs owner files rr"
  shows "(\<forall>f \<in> set files. \<exists>obj. render_object bd c vs owner f = Inr obj \<and> view s' (obj_key obj) = None) \<and> rr_order rr' = []"
proof -
  note gone = shrinking_cluster.cleanup_ok [OF shrinking_cluster.intro [OF assms(1)] assms(5) assms(3)]
  have "view s' (obj_key obj) = None" if "render_object bd c vs owner f = Inr obj" "map_get (rr_resources rr) (resourceKey obj) = Some obj'" for f obj obj'
  proof -
    have "resourceKey obj' = resourceKey obj" using assms(3) that(2) by (simp add: rr_ok_def)
    then have "same_identity obj' obj"
      using resourceKey_identity assms(4) that render_named [OF assms(2) that(1)] unfolding rr_named_def by blast
    then show ?thesis using gone that(2) same_identity_key by metis
  qed
  then show ?thesis using assms(6) gone unfolding files_tracked_def by (metis not_None_eq)
qed

text \<open>What the operator applies it can take away again. After all objects of a directory of templates
  were applied with a renderer, a clean-up of that renderer that reports no error, whenever it runs, leaves
  none of these objects in the cluster and the renderer empty. Neither the order of the files nor how often
  an object was applied matters.\<close>

theorem apply_cleanup:
  assumes laws: "cluster_shrinks c view" "names_ok gvk bd c" "rr_ok rr" "rr_named gvk rr"
    and files: "BinDataYamlFiles bd path = Inr files"
    and app: "rr_ApplyAllFromBinData bd c path vs owner rr s = (None, rr1, s1)"
    and clean: "CleanupResourcesInReverseOrder c rr1 s2 = (None, rr2, s3)"
  shows "(\<forall>f \<in> set files. \<exists>obj. render_object bd c vs owner f = Inr obj \<and> view s3 (obj_key obj) = None) \<and> rr_order rr2 = []"
proof -
  obtain r where "apply_files bd c vs owner files (Some rr) s = (None, r, s1)" "rr1 = (case r of Some rr' \<Rightarrow> rr' | None \<Rightarrow> rr)"
    using app files by (auto simp: rr_ApplyAllFromBinData_def ApplyAllFromBinDataWithRenderer_def split: prod.splits)
  then have "rr_ok rr1" "rr_named gvk rr1" "files_tracked bd c vs owner files rr1"
    using apply_files_tracks [OF laws(2-4)] by force+
  then show ?thesis using tracked_gone [OF laws(1,2) _ _ clean] by blast
qed

text \<open>The renderer forgets what it tracked also when the clean-up failed: the next clean-up has nothing to do
  and reports success.\<close>

theorem cleanup_forgets:
  assumes "CleanupResourcesInReverseOrder c rr s = (Some err, rr', s')"
  shows "CleanupResourcesInReverseOrder c rr' t = (None, rr', t)"
  using assms by (auto simp: CleanupResourcesInReverseOrder_def split: prod.splits if_splits)

section \<open>A cluster\<close>

text \<open>A deleted object stays until the next poll.\<close>

record sim_cluster =
  sk_objs :: "(obj_key, Object) gomap"
  sk_dying :: "obj_key list"

definition sk_view :: "sim_cluster \<Rightarrow> obj_key \<rightharpoonup> Object" where
  "sk_view s = map_get (sk_objs s)"

definition sim_kube :: "sim_cluster cluster" where
  "sim_kube =
     \<lparr>cl_Get = (\<lambda>k s. case sk_view s k of Some obj \<Rightarrow> Inr obj | None \<Rightarrow> Inl ErrResourceNotFound),
      cl_Update = (\<lambda>obj s. (None, s\<lparr>sk_objs := map_put (obj_key obj) obj (sk_objs s)\<rparr>)),
      cl_Apply = (\<lambda>obj s. (None, s\<lparr>sk_objs := map_put (obj_key obj) obj (sk_objs s)\<rparr>)),
      cl_Delete = (\<lambda>obj s. if sk_view s (obj_key obj) = None then (Some ErrResourceNotFound, s)
         else (None, s\<lparr>sk_dying := obj_key obj # sk_dying s\<rparr>)),
      cl_SetControllerReference = (\<lambda>u obj. Inr (obj\<lparr>ob_Owner := Some u\<rparr>)),
      cl_IsNotFound = (\<lambda>e. e = ErrResourceNotFound), cl_IsAlreadyExists = (\<lambda>e. e = ErrResourceExists),
      cl_IsConflict = (\<lambda>e. False),
      cl_Elapse = (\<lambda>s. \<lparr>sk_objs = filter (\<lambda>(k, _). k \<notin> set (sk_dying s)) (sk_objs s), sk_dying = []\<rparr>)\<rparr>"

lemma map_get_filter: "map_get (filter (\<lambda>(k, _). P k) m) k = (if P k then map_get m k else None)"
  by (induction m) auto

lemma sim_kube_shrinks: "cluster_shrinks sim_kube sk_view"
  unfolding cluster_shrinks_def
proof (intro conjI allI impI)
  show "shrinks (sk_view s) (sk_view (cl_Elapse sim_kube s))" for s
    by (simp add: shrinks_def sim_kube_def sk_view_def map_get_filter)
qed (auto simp: sim_kube_def sk_view_def shrinks_def split: option.splits if_splits)

interpretation sim_kube: shrinking_cluster sim_kube sk_view
  by unfold_locales (rule sim_kube_shrinks)

text \<open>Templates that are their own text: the first line is the kind, the second the name.\<close>

definition plain_bindata :: "string bindata" where
  "plain_bindata =
     \<lparr>bd_ReadDir = (\<lambda>_. Inr [(''02.b.yaml'', False), (''01.a.yaml'', False), (''README.md'', False), (''sub'', True)]),
      bd_Open = (\<lambda>path. Inr path), bd_Parse = (\<lambda>t. Inr t), bd_Execute = (\<lambda>t _. Inr t),
      bd_Decode = (\<lambda>t. Inr \<lparr>ob_GVK = ''v1/ServiceAccount'', ob_Kind = ''ServiceAccount'', ob_Namespace = ''ns'', ob_Name = t, ob_UID = [],
         ob_ResourceVersion = [], ob_CreationTimestamp = [], ob_Labels = [], ob_Annotations = [], ob_Owner = None, ob_Content = []\<rparr>)\<rparr>"

lemma plain_names_ok: "names_ok (\<lambda>kind. ''v1/'' @ kind) plain_bindata sim_kube"
  by (auto simp: names_ok_def plain_bindata_def sim_kube_def well_named_def same_identity_def)

abbreviation "sample_applied \<equiv> rr_ApplyAllFromBinData plain_bindata sim_kube ''daemon'' [] (Some ''u'') (NewResourceRenderer ''p'') \<lparr>sk_objs = [], sk_dying = []\<rparr>"

theorem apply_cleanup_witness:
  "sk_view (snd (snd sample_applied)) (''v1/ServiceAccount'', ''ns'', ''bindata/daemon/01.a.yaml'') \<noteq> None \<and>
   sk_view (snd (snd (CleanupResourcesInReverseOrder sim_kube (fst (snd sample_applied)) (snd (snd sample_applied)))))
     (''v1/ServiceAccount'', ''ns'', ''bindata/daemon/01.a.yaml'') = None"
proof -
  let ?clean = "CleanupResourcesInReverseOrder sim_kube (fst (snd sample_applied)) (snd (snd sample_applied))"
  have "fst sample_applied = None" by code_simp
  then have app: "sample_applied = (None, fst (snd sample_applied), snd (snd sample_applied))" by (simp add: prod_eq_iff)
  have "fst ?clean = None" by code_simp
  then have clean: "?clean = (None, fst (snd ?clean), snd (snd ?clean))" by (simp add: prod_eq_iff)
  have files: "BinDataYamlFiles plain_bindata ''daemon'' = Inr [''daemon/01.a.yaml'', ''daemon/02.b.yaml'']" by code_simp
  have rr: "rr_ok (NewResourceRenderer ''p'')" "rr_named (\<lambda>kind. ''v1/'' @ kind) (NewResourceRenderer ''p'')"
    by (rule rr_ok_new) (simp add: rr_named_def NewResourceRenderer_def)
  obtain obj where obj: "render_object plain_bindata sim_kube [] (Some ''u'') ''daemon/01.a.yaml'' = Inr obj" "sk_view (snd (snd ?clean)) (obj_key obj) = None"
    using apply_cleanup [OF sim_kube_shrinks plain_names_ok rr files app clean] by auto
  have "map_sum id obj_key (render_object plain_bindata sim_kube [] (Some ''u'') ''daemon/01.a.yaml'') =
      Inr (''v1/ServiceAccount'', ''ns'', ''bindata/daemon/01.a.yaml'')" by code_simp
  then have "obj_key obj = (''v1/ServiceAccount'', ''ns'', ''bindata/daemon/01.a.yaml'')" unfolding obj(1) by simp
  moreover have "sk_view (snd (snd sample_applied)) (''v1/ServiceAccount'', ''ns'', ''bindata/daemon/01.a.yaml'') \<noteq> None" by code_simp
  ultimately show ?thesis using obj(2) by (metis (no_types))
qed

end
