(* ===== verification/Operator_Config.thy ===== *)
theory Operator_Config
  imports Service_Chain Rendering
begin

text \<open>
  The controllers of the operator that deploy things: \<open>DpuOperatorConfigReconciler\<close>
  (\<open>internal/controller/dpuoperatorconfig_controller.go\<close>), which installs the daemons, the network attachment
  definitions, the resource injector and the shared resources of the vendor plugins, and
  \<open>DataProcessingUnitReconciler\<close> (\<open>dataprocessingunit_controller.go\<close>), which installs the vendor plugin of a
  DPU; and the admission webhook of \<open>DpuOperatorConfig\<close> (\<open>api/v1/dpuoperatorconfig_webhook.go\<close>). Metrics and
  log output are left out. The lemmas show when the configuration is reported as ready, that deletion leaves
  nothing behind, and what happens when a clean-up fails.
\<close>

section \<open>DpuOperatorConfig\<close>

record DpuOperatorConfig =
  opc_Name :: string
  opc_UID :: string
  opc_LogLevel :: int
  opc_ResourceName :: string
  opc_Finalizers :: "string list"
  opc_Deleting :: bool
  opc_Conditions :: "Condition list"

definition DpuOperatorConfigName :: string where
  "DpuOperatorConfigName = ''dpu-operator-config''"

definition dpuOperatorConfigFinalizer :: string where
  "dpuOperatorConfigFinalizer = ''config.openshift.io/dpuoperatorconfig-finalizer''"

definition validateDpuOperatorConfig :: "DpuOperatorConfig \<Rightarrow> go_error option" where
  "validateDpuOperatorConfig r =
     (if opc_Name r \<noteq> DpuOperatorConfigName
      then Some (Errorf ''DpuOperatorConfig must have standard name \"%s\"'' [FStr DpuOperatorConfigName]) else None)"

definition ValidateCreate :: "DpuOperatorConfig \<Rightarrow> go_error option" where
  "ValidateCreate obj = validateDpuOperatorConfig obj"

definition ValidateUpdate :: "DpuOperatorConfig \<Rightarrow> DpuOperatorConfig \<Rightarrow> go_error option" where
  "ValidateUpdate oldObj newObj = validateDpuOperatorConfig newObj"

definition ValidateDelete :: "DpuOperatorConfig \<Rightarrow> go_error option" where
  "ValidateDelete obj = None"

text \<open>The API server, and what the reconciler reads of the cluster and its host.\<close>

record ('s, 't) op_env =
  oe_cluster :: "'s cluster"
  oe_bindata :: "'t bindata"
  oe_GetConfig :: "'s \<Rightarrow> DpuOperatorConfig result"
  oe_UpdateConfig :: "DpuOperatorConfig \<Rightarrow> 's \<Rightarrow> go_error option \<times> 's"
  oe_UpdateConfigStatus :: "DpuOperatorConfig \<Rightarrow> 's \<Rightarrow> go_error option \<times> 's"
  oe_reads :: "'s \<Rightarrow> cluster_reads"
  oe_stat :: "string \<Rightarrow> stat_result"
  oe_getenv :: "string \<Rightarrow> string"
  oe_Namespace :: string
  oe_now :: int

record DpuOperatorConfigReconciler =
  or_imageManager :: image_manager
  or_imagePullPolicy :: string
  or_resourceRenderer :: ResourceRenderer

definition NewDpuOperatorConfigReconciler :: "string \<Rightarrow> image_manager \<Rightarrow> DpuOperatorConfigReconciler" where
  "NewDpuOperatorConfigReconciler namespace mgr =
     \<lparr>or_imageManager = mgr, or_imagePullPolicy = ''IfNotPresent'',
      or_resourceRenderer = NewResourceRenderer (namespace @ ''/'' @ DpuOperatorConfigName)\<rparr>"

definition setReadyCondition :: "int \<Rightarrow> string \<Rightarrow> string \<Rightarrow> string \<Rightarrow> DpuOperatorConfig \<Rightarrow> DpuOperatorConfig" where
  "setReadyCondition now status reason message cfg =
     cfg\<lparr>opc_Conditions := SetStatusCondition
       \<lparr>c_Type = ''Ready'', c_Status = status, c_Reason = reason, c_Message = message, c_ObservedGeneration = 0,
        c_LastTransitionTime = now\<rparr> (opc_Conditions cfg)\<rparr>"

definition initializeStatus ::
    "('s, 't) op_env \<Rightarrow> DpuOperatorConfig \<Rightarrow> 's \<Rightarrow> go_error option \<times> DpuOperatorConfig \<times> 's" where
  "initializeStatus env cfg s =
     (if opc_Conditions cfg = []
      then let cfg' = setReadyCondition (oe_now env) ''False'' ''WaitingForReconcile'' ''Waiting for reconcile to start DPU Daemons'' cfg
           in case oe_UpdateConfigStatus env cfg' s of (err, s1) \<Rightarrow> (err, cfg', s1)
      else (None, cfg, s))"

definition updateStatus ::
    "('s, 't) op_env \<Rightarrow> DpuOperatorConfig \<Rightarrow> (string \<times> go_error) list \<Rightarrow> 's \<Rightarrow> go_error option \<times> 's" where
  "updateStatus env cfg reconcileErrors s =
     (case reconcileErrors of
        (component, err) # _ \<Rightarrow>
          (case oe_UpdateConfigStatus env (setReadyCondition (oe_now env) ''False'' (component @ ''Error'') (error_text err) cfg) s of
             (Some updateErr, s1) \<Rightarrow> (Some updateErr, s1)
           | (None, s1) \<Rightarrow> (Some err, s1))
      | [] \<Rightarrow>
          oe_UpdateConfigStatus env (setReadyCondition (oe_now env) ''True'' ''ComponentsReady''
            ''All DPU operator components deployed successfully'' cfg) s)"

definition plugin_env_vars :: "(string \<times> string) list" where
  "plugin_env_vars =
     [(''PluginOPIEndpoint'', ''DPU_PLUGIN_OPI_ENDPOINT''),
      (''PluginOPINetworkEndpoint'', ''DPU_PLUGIN_OPI_NETWORK_ENDPOINT''),
      (''PluginOPIEndpointNvidia'', ''DPU_PLUGIN_OPI_ENDPOINT_NVIDIA''),
      (''PluginOPIEndpointIntel'', ''DPU_PLUGIN_OPI_ENDPOINT_INTEL''),
      (''PluginOPIEndpointMarvell'', ''DPU_PLUGIN_OPI_ENDPOINT_MARVELL''),
      (''PluginOPIEndpointXSight'', ''DPU_PLUGIN_OPI_ENDPOINT_XSIGHT''),
      (''PluginOPIEndpointMangoBoost'', ''DPU_PLUGIN_OPI_ENDPOINT_MANGOBOOST''),
      (''PluginOPINetworkEndpointNvidia'', ''DPU_PLUGIN_OPI_NETWORK_ENDPOINT_NVIDIA''),
      (''PluginOPINetworkEndpointIntel'', ''DPU_PLUGIN_OPI_NETWORK_ENDPOINT_INTEL''),
      (''PluginOPINetworkEndpointMarvell'', ''DPU_PLUGIN_OPI_NETWORK_ENDPOINT_MARVELL''),
      (''PluginOPINetworkEndpointXSight'', ''DPU_PLUGIN_OPI_NETWORK_ENDPOINT_XSIGHT''),
      (''PluginOPINetworkEndpointMangoBoost'', ''DPU_PLUGIN_OPI_NETWORK_ENDPOINT_MANGOBOOST'')]"

text \<open>A nil map is the empty one.\<close>

definition yamlVars :: "('s, 't) op_env \<Rightarrow> DpuOperatorConfigReconciler \<Rightarrow> DpuOperatorConfig \<Rightarrow> 's \<Rightarrow> vars" where
  "yamlVars env r cfg s =
     (case cluster_Flavour (oe_reads env s) of
        Inl _ \<Rightarrow> []
      | Inr flavour \<Rightarrow>
          (case DetectMode (oe_stat env) of
             Inl _ \<Rightarrow> []
           | Inr filesystemMode \<Rightarrow>
               (case CniHostDir flavour filesystemMode of
                  Inl _ \<Rightarrow> []
                | Inr p \<Rightarrow>
                    [(''Namespace'', oe_Namespace env), (''ImagePullPolicy'', or_imagePullPolicy r),
                     (''ResourceName'', if opc_ResourceName cfg \<noteq> [] then opc_ResourceName cfg else ''openshift.io/dpu''),
                     (''CniDir'', p), (''PluginLogLevel'', itoa (opc_LogLevel cfg)), (''DaemonLogLevel'', itoa (opc_LogLevel cfg))] @
                    map (\<lambda>(key, var). (key, oe_getenv env var)) plugin_env_vars)))"

definition createAndApplyAllFromBinData ::
    "('s, 't) op_env \<Rightarrow> string \<Rightarrow> DpuOperatorConfig \<Rightarrow> DpuOperatorConfigReconciler \<times> 's \<Rightarrow>
     go_error option \<times> DpuOperatorConfigReconciler \<times> 's" where
  "createAndApplyAllFromBinData env binDataPath cfg = (\<lambda>(r, s).
     case rr_ApplyAllFromBinData (oe_bindata env) (oe_cluster env) binDataPath
            (MergeVarsWithImages (or_imageManager r) (yamlVars env r cfg s)) (Some (opc_UID cfg)) (or_resourceRenderer r) s of
       (err, rr, s1) \<Rightarrow> (err, r\<lparr>or_resourceRenderer := rr\<rparr>, s1))"

type_synonym ('s, 't) component =
  "('s, 't) op_env \<Rightarrow> DpuOperatorConfig \<Rightarrow> DpuOperatorConfigReconciler \<times> 's \<Rightarrow> go_error option \<times> DpuOperatorConfigReconciler \<times> 's"

definition ensureDpuDeamonSet :: "('s, 't) component" where
  "ensureDpuDeamonSet env cfg = (\<lambda>(r, s).
     case im_GetImage (or_imageManager r) DpuOperatorDaemonImage of
       Inl err \<Rightarrow> (Some err, r, s)
     | Inr _ \<Rightarrow> createAndApplyAllFromBinData env ''daemon'' cfg (r, s))"

definition ensureNetworkFunctioNAD :: "('s, 't) component" where
  "ensureNetworkFunctioNAD env cfg rs =
     (case createAndApplyAllFromBinData env ''networkfn-nad-dpu'' cfg rs of
        (Some err, rs1) \<Rightarrow> (Some err, rs1)
      | (None, rs1) \<Rightarrow> createAndApplyAllFromBinData env ''networkfn-nad-host'' cfg rs1)"

definition ensureNetworkResourcesInjector :: "('s, 't) component" where
  "ensureNetworkResourcesInjector env cfg = createAndApplyAllFromBinData env ''network-resources-injector'' cfg"

definition ensureSharedVSPResources :: "('s, 't) component" where
  "ensureSharedVSPResources env cfg = createAndApplyAllFromBinData env ''vsp/shared'' cfg"

text \<open>Every component is tried; the errors are collected.\<close>

fun ensure_components ::
    "(string \<times> ('s, 't) component) list \<Rightarrow> ('s, 't) op_env \<Rightarrow> DpuOperatorConfig \<Rightarrow> DpuOperatorConfigReconciler \<times> 's \<Rightarrow>
     (string \<times> go_error) list \<times> DpuOperatorConfigReconciler \<times> 's" where
  "ensure_components [] env cfg rs = ([], rs)"
| "ensure_components ((name, ensure) # rest) env cfg rs =
     (case ensure env cfg rs of
        (err, rs1) \<Rightarrow>
          (case ensure_components rest env cfg rs1 of
             (errs, rs2) \<Rightarrow> (case err of Some e \<Rightarrow> ((name, e) # errs, rs2) | None \<Rightarrow> (errs, rs2))))"

definition components :: "(string \<times> ('s, 't) component) list" where
  "components = [(''DpuDaemonSet'', ensureDpuDeamonSet), (''NetworkFunctionNAD'', ensureNetworkFunctioNAD),
     (''NetworkResourcesInjector'', ensureNetworkResourcesInjector), (''SharedVSPResources'', ensureSharedVSPResources)]"

definition op_handleDeletion ::
    "('s, 't) op_env \<Rightarrow> DpuOperatorConfig \<Rightarrow> DpuOperatorConfigReconciler \<times> 's \<Rightarrow>
     ctrl_Result \<times> go_error option \<times> DpuOperatorConfigReconciler \<times> 's" where
  "op_handleDeletion env cfg = (\<lambda>(r, s).
     if dpuOperatorConfigFinalizer \<in> set (opc_Finalizers cfg)
     then (case CleanupResourcesInReverseOrder (oe_cluster env) (or_resourceRenderer r) s of
             (Some err, rr, s1) \<Rightarrow> (NoRequeue, Some err, r\<lparr>or_resourceRenderer := rr\<rparr>, s1)
           | (None, rr, s1) \<Rightarrow>
               (case oe_UpdateConfig env (cfg\<lparr>opc_Finalizers := removeAll dpuOperatorConfigFinalizer (opc_Finalizers cfg)\<rparr>) s1 of
                  (err, s2) \<Rightarrow> (NoRequeue, err, r\<lparr>or_resourceRenderer := rr\<rparr>, s2)))
     else (NoRequeue, None, r, s))"

definition op_deploy ::
    "('s, 't) op_env \<Rightarrow> DpuOperatorConfig \<Rightarrow> DpuOperatorConfigReconciler \<times> 's \<Rightarrow>
     ctrl_Result \<times> go_error option \<times> DpuOperatorConfigReconciler \<times> 's" where
  "op_deploy env cfg = (\<lambda>(r, s).
     case (if FindStatusCondition (opc_Conditions cfg) ''Ready'' = None
           then let cfg' = setReadyCondition (oe_now env) ''False'' ''FinalizerAdded''
                       ''Finalizer has been added, beginning component reconciliation'' cfg
                in case oe_UpdateConfigStatus env cfg' s of (err, s1) \<Rightarrow> (err, cfg', s1)
           else (None, cfg, s)) of
       (Some err, cfg1, s1) \<Rightarrow> (NoRequeue, Some err, r, s1)
     | (None, cfg1, s1) \<Rightarrow>
         (case initializeStatus env cfg1 s1 of
            (Some err, cfg2, s2) \<Rightarrow> (NoRequeue, Some err, r, s2)
          | (None, cfg2, s2) \<Rightarrow>
              (case ensure_components components env cfg2 (r, s2) of
                 (reconcileErrors, r3, s3) \<Rightarrow>
                   (case updateStatus env cfg2 reconcileErrors s3 of (err, s4) \<Rightarrow> (NoRequeue, err, r3, s4)))))"

definition op_Reconcile ::
    "('s, 't) op_env \<Rightarrow> DpuOperatorConfigReconciler \<times> 's \<Rightarrow> ctrl_Result \<times> go_error option \<times> DpuOperatorConfigReconciler \<times> 's" where
  "op_Reconcile env = (\<lambda>(r, s).
     case oe_GetConfig env s of
       Inl err \<Rightarrow> (NoRequeue, if cl_IsNotFound (oe_cluster env) err then None else Some err, r, s)
     | Inr cfg \<Rightarrow>
         if opc_Deleting cfg then op_handleDeletion env cfg (r, s)
         else if dpuOperatorConfigFinalizer \<notin> set (opc_Finalizers cfg)
         then (case oe_UpdateConfig env (cfg\<lparr>opc_Finalizers := opc_Finalizers cfg @ [dpuOperatorConfigFinalizer]\<rparr>) s of
                 (Some err, s1) \<Rightarrow> (NoRequeue, Some err, r, s1)
               | (None, s1) \<Rightarrow> (Requeue, None, r, s1))
         else op_deploy env cfg (r, s))"

section \<open>DataProcessingUnit\<close>

record DataProcessingUnitReconciler =
  dr_imageManager :: image_manager
  dr_imagePullPolicy :: string
  dr_registry :: registry
  dr_vspResourceRenderers :: "(string, ResourceRenderer) gomap"

record ('s, 't) dpu_env =
  de_cluster :: "'s cluster"
  de_bindata :: "'t bindata"
  de_GetDpu :: "string \<Rightarrow> 's \<Rightarrow> (DataProcessingUnit \<times> bool) result"
  de_platform :: platform
  de_Namespace :: string

definition getPluginForDPU :: "DataProcessingUnitReconciler \<Rightarrow> platform \<Rightarrow> DataProcessingUnit \<Rightarrow> plugin option" where
  "getPluginForDPU r pf dpu =
     (let plugins = Registry_List (dr_registry r);
          productName = DpuProductName (dpu_Spec dpu);
          byVendor = (case GetVendorNameByProductName (NewDpuDetectorManager (dr_registry r) pf) productName of
                        Inl _ \<Rightarrow> None
                      | Inr vendorName \<Rightarrow>
                          List.find (\<lambda>p. to_lower (Vendor (Info p)) = to_lower vendorName \<or> to_lower (Name (Info p)) = to_lower vendorName) plugins)
      in case byVendor of
           Some p \<Rightarrow> Some p
         | None \<Rightarrow> List.find (\<lambda>p. to_lower productName = to_lower (Vendor (Info p))) plugins)"

definition getVSPName :: "DataProcessingUnit \<Rightarrow> string" where
  "getVSPName dpu = ''vsp-'' @ dpu_Name dpu"

definition getVendorDirectory :: "DataProcessingUnitReconciler \<Rightarrow> platform \<Rightarrow> DataProcessingUnit \<Rightarrow> string result" where
  "getVendorDirectory r pf dpu =
     (case GetVendorDirectory (NewDpuDetectorManager (dr_registry r) pf) (DpuProductName (dpu_Spec dpu)) of
        Inl err \<Rightarrow> Inl err
      | Inr vendorDir \<Rightarrow> Inr (''vsp/'' @ vendorDir))"

definition getVSPImageForDPU :: "DataProcessingUnitReconciler \<Rightarrow> platform \<Rightarrow> DataProcessingUnit \<Rightarrow> string result" where
  "getVSPImageForDPU r pf dpu =
     (case List.find (\<lambda>det. d_Name det = DpuProductName (dpu_Spec dpu)) (detectors (NewDpuDetectorManager (dr_registry r) pf)) of
        Some det \<Rightarrow> im_GetImage (dr_imageManager r) (SanitizeForTemplate (d_PlatformName det))
      | None \<Rightarrow> Inl (Errorf ''unknown DPU product name: %s'' [FStr (DpuProductName (dpu_Spec dpu))]))"

definition applyVSPResourcesWithTracking ::
    "('s, 't) dpu_env \<Rightarrow> string \<Rightarrow> vars \<Rightarrow> string option \<Rightarrow> string \<Rightarrow> DataProcessingUnitReconciler \<times> 's \<Rightarrow>
     go_error option \<times> DataProcessingUnitReconciler \<times> 's" where
  "applyVSPResourcesWithTracking env binDataPath vs owner dpuName = (\<lambda>(r, s).
     let renderer = (case map_get (dr_vspResourceRenderers r) dpuName of Some rr \<Rightarrow> rr | None \<Rightarrow> NewResourceRenderer dpuName)
     in case rr_ApplyAllFromBinData (de_bindata env) (de_cluster env) binDataPath vs owner renderer s of
          (err, rr, s1) \<Rightarrow> (err, r\<lparr>dr_vspResourceRenderers := map_put dpuName rr (dr_vspResourceRenderers r)\<rparr>, s1))"

definition ensureVSPResources ::
    "('s, 't) dpu_env \<Rightarrow> DataProcessingUnit \<Rightarrow> DataProcessingUnitReconciler \<times> 's \<Rightarrow> go_error option \<times> DataProcessingUnitReconciler \<times> 's" where
  "ensureVSPResources env dpu = (\<lambda>(r, s).
     case getVSPImageForDPU r (de_platform env) dpu of
       Inl err \<Rightarrow> (Some (Errorf ''failed to get VSP image for DPU type %s: %v'' [FStr (DpuProductName (dpu_Spec dpu)), FErr err]), r, s)
     | Inr vspImage \<Rightarrow>
         let templateVars = MergeVarsWithImages (dr_imageManager r)
               [(''Namespace'', de_Namespace env), (''VspName'', getVSPName dpu), (''DpuName'', dpu_Name dpu),
                (''NodeName'', NodeName (dpu_Spec dpu)), (''VendorSpecificPluginImage'', vspImage),
                (''ImagePullPolicy'', dr_imagePullPolicy r), (''Command'', ''[]''), (''Args'', ''[]'')]
         in case getVendorDirectory r (de_platform env) dpu of
              Inl err \<Rightarrow> (Some (Errorf ''failed to get vendor directory for DPU type %s: %v'' [FStr (DpuProductName (dpu_Spec dpu)), FErr err]), r, s)
            | Inr vendorDir \<Rightarrow>
                (case applyVSPResourcesWithTracking env vendorDir templateVars (Some (dpu_Name dpu)) (dpu_Name dpu) (r, s) of
                   (Some err, rs) \<Rightarrow> (Some (Errorf ''failed to apply vendor-specific VSP resources: %v'' [FErr err]), rs)
                 | (None, rs) \<Rightarrow> (None, rs)))"

definition cleanupVSPResources ::
    "('s, 't) dpu_env \<Rightarrow> DataProcessingUnit \<Rightarrow> DataProcessingUnitReconciler \<times> 's \<Rightarrow> go_error option \<times> DataProcessingUnitReconciler \<times> 's" where
  "cleanupVSPResources env dpu = (\<lambda>(r, s).
     case map_get (dr_vspResourceRenderers r) (dpu_Name dpu) of
       None \<Rightarrow> (None, r, s)
     | Some renderer \<Rightarrow>
         (case CleanupResourcesInReverseOrder (de_cluster env) renderer s of
            (err, rr, s1) \<Rightarrow> (err, r\<lparr>dr_vspResourceRenderers := map_put (dpu_Name dpu) rr (dr_vspResourceRenderers r)\<rparr>, s1)))"

definition dpu_Reconcile ::
    "('s, 't) dpu_env \<Rightarrow> string \<Rightarrow> DataProcessingUnitReconciler \<times> 's \<Rightarrow> go_error option \<times> DataProcessingUnitReconciler \<times> 's" where
  "dpu_Reconcile env req = (\<lambda>(r, s).
     case de_GetDpu env req s of
       Inl err \<Rightarrow> (if cl_IsNotFound (de_cluster env) err then None else Some err, r, s)
     | Inr (dpu, deleting) \<Rightarrow> if deleting then cleanupVSPResources env dpu (r, s) else ensureVSPResources env dpu (r, s))"

section \<open>Readiness\<close>

text \<open>The API server stores the conditions it is sent.\<close>

definition status_ok :: "('s, 't) op_env \<Rightarrow> ('s \<Rightarrow> Condition list) \<Rightarrow> bool" where
  "status_ok env stored \<longleftrightarrow> (\<forall>cfg s. \<exists>s'. oe_UpdateConfigStatus env cfg s = (None, s') \<and> stored s' = opc_Conditions cfg)"

lemma status_update:
  assumes "status_ok env stored"
  obtains s' where "oe_UpdateConfigStatus env cfg s = (None, s')" "stored s' = opc_Conditions cfg"
  using assms unfolding status_ok_def by meson

lemma ready_condition:
  "\<exists>c. FindStatusCondition (opc_Conditions (setReadyCondition now status reason message cfg)) ''Ready'' = Some c \<and>
     c_Status c = status \<and> c_Reason c = reason \<and> c_Message c = message"
proof -
  let ?new = "\<lparr>c_Type = ''Ready'', c_Status = status, c_Reason = reason, c_Message = message, c_ObservedGeneration = 0,
        c_LastTransitionTime = now\<rparr>"
  show ?thesis
    using FindStatusCondition_Set [of ?new "opc_Conditions cfg"]
    by (auto simp: setReadyCondition_def merge_condition_def split: option.splits)
qed

text \<open>The outcome of the four components decides on the answer and the condition.\<close>

definition reports :: "(string \<times> go_error) list \<Rightarrow> go_error option \<Rightarrow> Condition \<Rightarrow> bool" where
  "reports errs err c \<longleftrightarrow>
     (case errs of
        [] \<Rightarrow> err = None \<and> c_Status c = ''True'' \<and> c_Reason c = ''ComponentsReady''
      | (name, e) # _ \<Rightarrow> err = Some e \<and> c_Status c = ''False'' \<and> c_Reason c = name @ ''Error'' \<and> c_Message c = error_text e)"

lemma initializeStatus_ok:
  assumes "status_ok env stored"
  obtains conds s' where "initializeStatus env (cfg\<lparr>opc_Conditions := conds1\<rparr>) s = (None, cfg\<lparr>opc_Conditions := conds\<rparr>, s')"
proof (cases "conds1 = []")
  case True
  let ?cfg = "setReadyCondition (oe_now env) ''False'' ''WaitingForReconcile'' ''Waiting for reconcile to start DPU Daemons''
    (cfg\<lparr>opc_Conditions := conds1\<rparr>)"
  obtain t where "oe_UpdateConfigStatus env ?cfg s = (None, t)" using assms by (rule status_update)
  then show ?thesis using that [of "opc_Conditions ?cfg" t] True by (simp add: initializeStatus_def setReadyCondition_def)
next
  case False
  then show ?thesis using that [of conds1 s] by (simp add: initializeStatus_def)
qed


section \<open>Deployment and deletion\<close>

text \<open>The variables of the templates.\<close>

definition operator_vars :: "('s, 't) op_env \<Rightarrow> DpuOperatorConfigReconciler \<Rightarrow> DpuOperatorConfig \<Rightarrow> 's \<Rightarrow> vars" where
  "operator_vars env r cfg s = MergeVarsWithImages (or_imageManager r) (yamlVars env r cfg s)"

lemma operator_vars_settings [simp]:
  "operator_vars env (r\<lparr>or_resourceRenderer := rr\<rparr>) cfg = operator_vars env r cfg"
  "operator_vars env r (cfg\<lparr>opc_Conditions := conds\<rparr>) = operator_vars env r cfg"
  by (simp_all add: operator_vars_def yamlVars_def fun_eq_iff cong: sum.case_cong)

definition dir_tracked :: "('s, 't) op_env \<Rightarrow> DpuOperatorConfigReconciler \<Rightarrow> DpuOperatorConfig \<Rightarrow> ResourceRenderer \<Rightarrow> string \<Rightarrow> bool" where
  "dir_tracked env r cfg rr dir \<longleftrightarrow> (\<exists>files st. BinDataYamlFiles (oe_bindata env) dir = Inr files \<and>
     files_tracked (oe_bindata env) (oe_cluster env) (operator_vars env r cfg st) (Some (opc_UID cfg)) files rr)"

lemma dir_tracked_settings [simp]:
  "dir_tracked env (r\<lparr>or_resourceRenderer := rr\<rparr>) cfg = dir_tracked env r cfg"
  "dir_tracked env r (cfg\<lparr>opc_Conditions := conds\<rparr>) = dir_tracked env r cfg"
  by (simp_all add: dir_tracked_def fun_eq_iff)

lemma same_settings_refl [simp]: "\<exists>rr. r = r\<lparr>or_resourceRenderer := rr\<rparr>"
  by (rule exI [of _ "or_resourceRenderer r"]) simp

definition tr_ok :: "(string \<Rightarrow> string) \<Rightarrow> DpuOperatorConfigReconciler \<Rightarrow> bool" where
  "tr_ok gvk r \<longleftrightarrow> rr_ok (or_resourceRenderer r) \<and> rr_named gvk (or_resourceRenderer r)"

lemma dir_tracked_mono: "dir_tracked env r cfg rr dir \<Longrightarrow> res_le rr rr' \<Longrightarrow> dir_tracked env r cfg rr' dir"
  unfolding dir_tracked_def using files_tracked_mono by metis

definition tracks :: "(string \<Rightarrow> string) \<Rightarrow> ('s, 't) op_env \<Rightarrow> ('s, 't) component \<Rightarrow> string list \<Rightarrow> bool" where
  "tracks gvk env ensure dirs \<longleftrightarrow> (\<forall>cfg r s err r1 s1. tr_ok gvk r \<longrightarrow> ensure env cfg (r, s) = (err, r1, s1) \<longrightarrow>
     tr_ok gvk r1 \<and> (\<exists>rr. r1 = r\<lparr>or_resourceRenderer := rr\<rparr>) \<and> res_le (or_resourceRenderer r) (or_resourceRenderer r1) \<and>
     (err = None \<longrightarrow> list_all (dir_tracked env r cfg (or_resourceRenderer r1)) dirs))"

lemma tracksD:
  assumes "tracks gvk env ensure dirs" "tr_ok gvk r" "ensure env cfg (r, s) = (err, r1, s1)"
  shows "tr_ok gvk r1 \<and> (\<exists>rr. r1 = r\<lparr>or_resourceRenderer := rr\<rparr>) \<and> res_le (or_resourceRenderer r) (or_resourceRenderer r1) \<and>
     (err = None \<longrightarrow> list_all (dir_tracked env r cfg (or_resourceRenderer r1)) dirs)"
  using assms unfolding tracks_def by blast

lemma create_tracks:
  assumes "names_ok gvk (oe_bindata env) (oe_cluster env)"
  shows "tracks gvk env (\<lambda>env. createAndApplyAllFromBinData env dir) [dir]"
  unfolding tracks_def
proof (intro allI impI)
  fix cfg r s err r1 s1
  assume r: "tr_ok gvk r" and run: "createAndApplyAllFromBinData env dir cfg (r, s) = (err, r1, s1)"
  show "tr_ok gvk r1 \<and> (\<exists>rr. r1 = r\<lparr>or_resourceRenderer := rr\<rparr>) \<and> res_le (or_resourceRenderer r) (or_resourceRenderer r1) \<and>
     (err = None \<longrightarrow> list_all (dir_tracked env r cfg (or_resourceRenderer r1)) [dir])"
  proof (cases "BinDataYamlFiles (oe_bindata env) dir")
    case (Inl e)
    then show ?thesis using run r
      by (auto simp: createAndApplyAllFromBinData_def rr_ApplyAllFromBinData_def ApplyAllFromBinDataWithRenderer_def tr_ok_def
        intro: exI [of _ "or_resourceRenderer r"])
  next
    case (Inr files)
    let ?vs = "operator_vars env r cfg s"
    obtain rr where app: "apply_files (oe_bindata env) (oe_cluster env) ?vs (Some (opc_UID cfg)) files (Some (or_resourceRenderer r)) s = (err, rr, s1)"
      and r1: "r1 = r\<lparr>or_resourceRenderer := (case rr of Some rr' \<Rightarrow> rr' | None \<Rightarrow> or_resourceRenderer r)\<rparr>"
      using run Inr by (auto simp: createAndApplyAllFromBinData_def rr_ApplyAllFromBinData_def ApplyAllFromBinDataWithRenderer_def operator_vars_def split: prod.splits)
    have ok: "rr_ok (or_resourceRenderer r)" "rr_named gvk (or_resourceRenderer r)" using r by (simp_all add: tr_ok_def)
    show ?thesis using apply_files_tracks [OF assms ok app] r1 Inr by (auto simp: tr_ok_def dir_tracked_def)
  qed
qed

definition component_dirs :: "string \<Rightarrow> string list" where
  "component_dirs name =
     (if name = ''DpuDaemonSet'' then [''daemon'']
      else if name = ''NetworkFunctionNAD'' then [''networkfn-nad-dpu'', ''networkfn-nad-host'']
      else if name = ''NetworkResourcesInjector'' then [''network-resources-injector''] else [''vsp/shared''])"

lemma components_track:
  assumes "names_ok gvk (oe_bindata env) (oe_cluster env)" "(name, ensure) \<in> set components"
  shows "tracks gvk env ensure (component_dirs name)"
proof -
  note create = tracksD [OF create_tracks [OF assms(1)]]
  have daemon: "tracks gvk env ensureDpuDeamonSet [''daemon'']"
    using create [of _ "''daemon''"] unfolding tracks_def ensureDpuDeamonSet_def by (auto split: sum.splits)
  have nad: "tracks gvk env ensureNetworkFunctioNAD [''networkfn-nad-dpu'', ''networkfn-nad-host'']"
    unfolding tracks_def
  proof (intro allI impI)
    fix cfg r s err r1 s1
    assume r: "tr_ok gvk r" and run: "ensureNetworkFunctioNAD env cfg (r, s) = (err, r1, s1)"
    obtain e rx sx where first: "createAndApplyAllFromBinData env ''networkfn-nad-dpu'' cfg (r, s) = (e, rx, sx)" by (metis prod.exhaust)
    note a = create [OF r first]
    show "tr_ok gvk r1 \<and> (\<exists>rr. r1 = r\<lparr>or_resourceRenderer := rr\<rparr>) \<and> res_le (or_resourceRenderer r) (or_resourceRenderer r1) \<and>
      (err = None \<longrightarrow> list_all (dir_tracked env r cfg (or_resourceRenderer r1)) [''networkfn-nad-dpu'', ''networkfn-nad-host''])"
    proof (cases e)
      case None
      then have second: "createAndApplyAllFromBinData env ''networkfn-nad-host'' cfg (rx, sx) = (err, r1, s1)"
        using run first by (simp add: ensureNetworkFunctioNAD_def)
      have "tr_ok gvk rx" using a by blast
      note b = create [OF this second]
      obtain rr where rx: "rx = r\<lparr>or_resourceRenderer := rr\<rparr>" using a by blast
      have "res_le (or_resourceRenderer r) (or_resourceRenderer r1)" using a b res_le_trans by metis
      moreover have "\<exists>rr. r1 = r\<lparr>or_resourceRenderer := rr\<rparr>" using b rx by auto
      moreover have "dir_tracked env r cfg (or_resourceRenderer r1) ''networkfn-nad-dpu''"
        using a b None rx dir_tracked_mono [of env r cfg "or_resourceRenderer rx" "''networkfn-nad-dpu''" "or_resourceRenderer r1"] by simp
      ultimately show ?thesis using b rx by simp
    next
      case (Some x)
      then show ?thesis using a run first by (auto simp: ensureNetworkFunctioNAD_def)
    qed
  qed
  have eqs: "ensureNetworkResourcesInjector = (\<lambda>env. createAndApplyAllFromBinData env ''network-resources-injector'')"
    "ensureSharedVSPResources = (\<lambda>env. createAndApplyAllFromBinData env ''vsp/shared'')"
    by (intro ext, simp add: ensureNetworkResourcesInjector_def ensureSharedVSPResources_def)+
  have rest: "tracks gvk env ensureNetworkResourcesInjector [''network-resources-injector'']"
    "tracks gvk env ensureSharedVSPResources [''vsp/shared'']"
    unfolding eqs by (rule create_tracks [OF assms(1)])+
  have "name = ''DpuDaemonSet'' \<and> ensure = ensureDpuDeamonSet \<or> name = ''NetworkFunctionNAD'' \<and> ensure = ensureNetworkFunctioNAD \<or>
      name = ''NetworkResourcesInjector'' \<and> ensure = ensureNetworkResourcesInjector \<or> name = ''SharedVSPResources'' \<and> ensure = ensureSharedVSPResources"
    using assms(2) unfolding components_def by (simp only: list.set insert_iff empty_iff prod.inject simp_thms)
  moreover have "component_dirs ''DpuDaemonSet'' = [''daemon'']" "component_dirs ''NetworkFunctionNAD'' = [''networkfn-nad-dpu'', ''networkfn-nad-host'']"
    "component_dirs ''NetworkResourcesInjector'' = [''network-resources-injector'']" "component_dirs ''SharedVSPResources'' = [''vsp/shared'']"
    by code_simp+
  ultimately show ?thesis using daemon nad rest by (elim disjE conjE) (simp_all only:)
qed

lemma ensure_components_track:
  assumes "\<forall>(name, ensure) \<in> set cs. tracks gvk env ensure (component_dirs name)" "tr_ok gvk r"
    and "ensure_components cs env cfg (r, s) = (errs, r1, s1)"
  shows "tr_ok gvk r1 \<and> (\<exists>rr. r1 = r\<lparr>or_resourceRenderer := rr\<rparr>) \<and> res_le (or_resourceRenderer r) (or_resourceRenderer r1) \<and>
     (errs = [] \<longrightarrow> (\<forall>(name, ensure) \<in> set cs. list_all (dir_tracked env r cfg (or_resourceRenderer r1)) (component_dirs name)))"
  using assms
proof (induction cs arbitrary: r s errs)
  case (Cons c cs)
  obtain name ensure where c: "c = (name, ensure)" by (metis prod.exhaust)
  obtain e rx sx where first: "ensure env cfg (r, s) = (e, rx, sx)" by (metis prod.exhaust)
  have "tracks gvk env ensure (component_dirs name)" using Cons.prems(1) c by simp
  note a = tracksD [OF this Cons.prems(2) first]
  obtain errs' where rest: "ensure_components cs env cfg (rx, sx) = (errs', r1, s1)" and errs: "errs = [] \<longrightarrow> e = None \<and> errs' = []"
    using Cons.prems(3) c first by (auto split: prod.splits option.splits)
  obtain rr where rx: "rx = r\<lparr>or_resourceRenderer := rr\<rparr>" using a by blast
  have b: "tr_ok gvk r1 \<and> (\<exists>rr. r1 = r\<lparr>or_resourceRenderer := rr\<rparr>) \<and> res_le (or_resourceRenderer rx) (or_resourceRenderer r1) \<and>
     (errs' = [] \<longrightarrow> (\<forall>(name, ensure) \<in> set cs. list_all (dir_tracked env r cfg (or_resourceRenderer r1)) (component_dirs name)))"
    using Cons.IH [OF _ _ rest] Cons.prems(1) a rx by auto
  then have "list_all (dir_tracked env r cfg (or_resourceRenderer r1)) (component_dirs name)" if "errs = []"
    using that a errs by (auto simp: list_all_iff intro: dir_tracked_mono)
  moreover have "res_le (or_resourceRenderer r) (or_resourceRenderer r1)" using a b res_le_trans by metis
  ultimately show ?case using b errs c by simp
qed simp

text \<open>Status updates change nothing but the conditions.\<close>

lemma config_kept:
  assumes "fst (snd x) = cfg\<lparr>opc_Conditions := opc_Conditions (fst (snd x))\<rparr>"
  obtains err conds t where "x = (err, cfg\<lparr>opc_Conditions := conds\<rparr>, t)"
  using assms by (metis prod.collapse)

text \<open>A pass over a configuration with its finalizer that reports success has deployed all four components.\<close>

lemma deploy_success:
  assumes "oe_GetConfig env s = Inr cfg" "\<not> opc_Deleting cfg" "dpuOperatorConfigFinalizer \<in> set (opc_Finalizers cfg)"
    and "op_Reconcile env (r, s) = (res, None, r1, s1)"
  obtains conds s2 s3 where "ensure_components components env (cfg\<lparr>opc_Conditions := conds\<rparr>) (r, s2) = ([], r1, s3)"
proof -
  have dep: "op_deploy env cfg (r, s) = (res, None, r1, s1)" using assms by (simp add: op_Reconcile_def)
  define start where "start = (if FindStatusCondition (opc_Conditions cfg) ''Ready'' = None
           then let cfg' = setReadyCondition (oe_now env) ''False'' ''FinalizerAdded''
                       ''Finalizer has been added, beginning component reconciliation'' cfg
                in case oe_UpdateConfigStatus env cfg' s of (err, s1) \<Rightarrow> (err, cfg', s1)
           else (None, cfg, s))"
  obtain e conds1 t1 where st: "start = (e, cfg\<lparr>opc_Conditions := conds1\<rparr>, t1)"
    by (rule config_kept [where cfg = cfg and x = start]) (auto simp: start_def Let_def setReadyCondition_def split: prod.splits)
  obtain e2 conds t2 where ini: "initializeStatus env (cfg\<lparr>opc_Conditions := conds1\<rparr>) t1 = (e2, cfg\<lparr>opc_Conditions := conds\<rparr>, t2)"
    by (rule config_kept [where cfg = cfg]) (auto simp: initializeStatus_def Let_def setReadyCondition_def split: prod.splits)
  obtain errs r3 s3 where comps: "ensure_components components env (cfg\<lparr>opc_Conditions := conds\<rparr>) (r, t2) = (errs, r3, s3)" by (metis prod.exhaust)
  have ok: "e = None" "e2 = None" "r3 = r1" "fst (updateStatus env (cfg\<lparr>opc_Conditions := conds\<rparr>) errs s3) = None"
    using dep unfolding op_deploy_def by (auto simp: start_def [symmetric] st ini comps split: prod.splits option.splits)
  have "errs = []" using ok(4) by (auto simp: updateStatus_def split: list.splits prod.splits option.splits)
  then show ?thesis using that comps ok(3) by blast
qed

definition operator_dirs :: "string list" where
  "operator_dirs = [''daemon'', ''networkfn-nad-dpu'', ''networkfn-nad-host'', ''network-resources-injector'', ''vsp/shared'']"

lemma operator_dirs_covered:
  "(\<forall>(name, ensure) \<in> set components. list_all P (component_dirs name)) \<Longrightarrow> list_all P operator_dirs"
proof -
  have dirs: "component_dirs ''DpuDaemonSet'' = [''daemon'']" "component_dirs ''NetworkFunctionNAD'' = [''networkfn-nad-dpu'', ''networkfn-nad-host'']"
    "component_dirs ''NetworkResourcesInjector'' = [''network-resources-injector'']" "component_dirs ''SharedVSPResources'' = [''vsp/shared'']"
    by code_simp+
  assume "\<forall>(name, ensure) \<in> set components. list_all P (component_dirs name)"
  then show "list_all P operator_dirs" by (simp add: components_def operator_dirs_def dirs)
qed

text \<open>C19: Deleting the configuration leaves nothing behind. After a pass that deployed everything, and any number
  of changes elsewhere in the cluster, a pass over the configuration marked for deletion that reports
  success has removed every object that the templates of the five directories give, and the renderer tracks
  nothing any more.\<close>

theorem operator_leaves_nothing:
  assumes laws: "cluster_shrinks (oe_cluster env) view" "names_ok gvk (oe_bindata env) (oe_cluster env)"
      "\<And>cfg s. view (snd (oe_UpdateConfig env cfg s)) = view s"
    and r: "tr_ok gvk r"
    and cfg: "oe_GetConfig env s = Inr cfg" "\<not> opc_Deleting cfg" "dpuOperatorConfigFinalizer \<in> set (opc_Finalizers cfg)"
    and deploy: "op_Reconcile env (r, s) = (res, None, r1, s1)"
    and cfg': "oe_GetConfig env s2 = Inr cfg'" "opc_Deleting cfg'" "dpuOperatorConfigFinalizer \<in> set (opc_Finalizers cfg')"
    and delete: "op_Reconcile env (r1, s2) = (res', None, r2, s3)"
    and dir: "dir \<in> set operator_dirs"
  shows "(\<exists>files st. BinDataYamlFiles (oe_bindata env) dir = Inr files \<and>
     (\<forall>f \<in> set files. \<exists>obj. render_object (oe_bindata env) (oe_cluster env) (operator_vars env r cfg st) (Some (opc_UID cfg)) f = Inr obj \<and>
        view s3 (obj_key obj) = None)) \<and> rr_order (or_resourceRenderer r2) = []"
proof -
  obtain conds t2 t3 where comps: "ensure_components components env (cfg\<lparr>opc_Conditions := conds\<rparr>) (r, t2) = ([], r1, t3)"
    using cfg deploy by (rule deploy_success)
  have tr: "\<forall>(name, ensure) \<in> set components. tracks gvk env ensure (component_dirs name)" using components_track [OF laws(2)] by blast
  note tracked = ensure_components_track [OF tr r comps]
  have "list_all (dir_tracked env r cfg (or_resourceRenderer r1)) operator_dirs"
    using operator_dirs_covered [OF tracked [THEN conjunct2, THEN conjunct2, THEN conjunct2, THEN mp, OF refl]] by simp
  then obtain files st where files: "BinDataYamlFiles (oe_bindata env) dir = Inr files"
      "files_tracked (oe_bindata env) (oe_cluster env) (operator_vars env r cfg st) (Some (opc_UID cfg)) files (or_resourceRenderer r1)"
    using dir by (auto simp: list_all_iff dir_tracked_def)
  have ok: "rr_ok (or_resourceRenderer r1)" "rr_named gvk (or_resourceRenderer r1)" using tracked by (simp_all add: tr_ok_def)
  obtain rr t where clean: "CleanupResourcesInReverseOrder (oe_cluster env) (or_resourceRenderer r1) s2 = (None, rr, t)"
      and r2: "or_resourceRenderer r2 = rr" "s3 = snd (oe_UpdateConfig env (cfg'\<lparr>opc_Finalizers := removeAll dpuOperatorConfigFinalizer (opc_Finalizers cfg')\<rparr>) t)"
    using delete cfg' by (auto simp: op_Reconcile_def op_handleDeletion_def split: prod.splits option.splits)
  show ?thesis using tracked_gone [OF laws(1,2) ok clean files(2)] files(1) r2 laws(3) by auto
qed

text \<open>A pass over a configuration marked for deletion whose clean-up fails keeps the finalizer, but the renderer
  has forgotten its objects: the next pass finds nothing to clean up, whatever is left in the cluster, and
  removes the finalizer.\<close>

theorem deletion_retry_leaks:
  assumes "oe_GetConfig env s = Inr cfg" "opc_Deleting cfg" "dpuOperatorConfigFinalizer \<in> set (opc_Finalizers cfg)"
    and "CleanupResourcesInReverseOrder (oe_cluster env) (or_resourceRenderer r) s = (Some err, rr, s1)"
    and "oe_GetConfig env s1 = Inr cfg'" "opc_Deleting cfg'" "dpuOperatorConfigFinalizer \<in> set (opc_Finalizers cfg')"
  shows "op_Reconcile env (r, s) = (NoRequeue, Some err, r\<lparr>or_resourceRenderer := rr\<rparr>, s1) \<and>
    op_Reconcile env (r\<lparr>or_resourceRenderer := rr\<rparr>, s1) =
      (case oe_UpdateConfig env (cfg'\<lparr>opc_Finalizers := removeAll dpuOperatorConfigFinalizer (opc_Finalizers cfg')\<rparr>) s1 of
         (err', s2) \<Rightarrow> (NoRequeue, err', r\<lparr>or_resourceRenderer := rr\<rparr>, s2))"
  using assms cleanup_forgets [OF assms(4)] by (simp add: op_Reconcile_def op_handleDeletion_def)

section \<open>A cluster with its configuration\<close>

record op_world =
  ow_cfg :: "DpuOperatorConfig option"
  ow_k :: sim_cluster

definition world_cluster :: "op_world cluster" where
  "world_cluster =
     \<lparr>cl_Get = (\<lambda>k w. cl_Get sim_kube k (ow_k w)),
      cl_Update = (\<lambda>obj w. map_prod id (\<lambda>k. w\<lparr>ow_k := k\<rparr>) (cl_Update sim_kube obj (ow_k w))),
      cl_Apply = (\<lambda>obj w. map_prod id (\<lambda>k. w\<lparr>ow_k := k\<rparr>) (cl_Apply sim_kube obj (ow_k w))),
      cl_Delete = (\<lambda>obj w. map_prod id (\<lambda>k. w\<lparr>ow_k := k\<rparr>) (cl_Delete sim_kube obj (ow_k w))),
      cl_SetControllerReference = cl_SetControllerReference sim_kube,
      cl_IsNotFound = cl_IsNotFound sim_kube, cl_IsAlreadyExists = cl_IsAlreadyExists sim_kube,
      cl_IsConflict = cl_IsConflict sim_kube,
      cl_Elapse = (\<lambda>w. w\<lparr>ow_k := cl_Elapse sim_kube (ow_k w)\<rparr>)\<rparr>"

definition world_view :: "op_world \<Rightarrow> obj_key \<rightharpoonup> Object" where
  "world_view w = sk_view (ow_k w)"

definition world_conditions :: "op_world \<Rightarrow> Condition list" where
  "world_conditions w = (case ow_cfg w of Some cfg \<Rightarrow> opc_Conditions cfg | None \<Rightarrow> [])"

definition world_env :: "(op_world, string) op_env" where
  "world_env =
     \<lparr>oe_cluster = world_cluster, oe_bindata = plain_bindata,
      oe_GetConfig = (\<lambda>w. case ow_cfg w of Some cfg \<Rightarrow> Inr cfg | None \<Rightarrow> Inl ErrResourceNotFound),
      oe_UpdateConfig = (\<lambda>cfg w. (None, w\<lparr>ow_cfg := Some cfg\<rparr>)),
      oe_UpdateConfigStatus = (\<lambda>cfg w. (None, w\<lparr>ow_cfg := Some cfg\<rparr>)),
      oe_reads = (\<lambda>_. \<lparr>cr_ConfigMap = None, cr_CRD = None, cr_Nodes = Inr [], cr_IsNotFound = (\<lambda>e. e = ErrResourceNotFound)\<rparr>),
      oe_stat = (\<lambda>_. StatNotExist), oe_getenv = (\<lambda>_. []), oe_Namespace = ''ns'', oe_now = 1\<rparr>"

lemma world_shrinks: "cluster_shrinks world_cluster world_view"
  using sim_kube_shrinks unfolding cluster_shrinks_def world_cluster_def world_view_def
  by (auto simp: map_prod_def split: prod.splits)

interpretation world: shrinking_cluster world_cluster world_view
  by unfold_locales (rule world_shrinks)

lemma world_names_ok: "names_ok (\<lambda>kind. ''v1/'' @ kind) plain_bindata world_cluster"
  using plain_names_ok by (simp add: names_ok_def world_cluster_def)

lemma world_status_ok: "status_ok world_env world_conditions"
  by (simp add: status_ok_def world_env_def world_conditions_def)

text \<open>In this cluster every clean-up succeeds.\<close>

lemma world_ops:
  "cl_Get world_cluster k w = (case sk_view (ow_k w) k of Some obj \<Rightarrow> Inr obj | None \<Rightarrow> Inl ErrResourceNotFound)"
  "cl_IsNotFound world_cluster e = (e = ErrResourceNotFound)"
  "cl_Elapse world_cluster w = w\<lparr>ow_k := cl_Elapse sim_kube (ow_k w)\<rparr>"
  by (simp_all add: world_cluster_def sim_kube_def)

lemma world_poll_gone:
  assumes "obj_key obj \<in> set (sk_dying (ow_k w))"
  shows "fst (poll_gone world_cluster (obj_key obj) poll_rounds w) = None"
proof -
  have "sk_view (cl_Elapse sim_kube (ow_k w)) (obj_key obj) = None"
    using assms by (simp add: sim_kube_def sk_view_def map_get_filter)
  then have gone: "poll_gone world_cluster (obj_key obj) n (w\<lparr>ow_k := cl_Elapse sim_kube (ow_k w)\<rparr>) = (None, w\<lparr>ow_k := cl_Elapse sim_kube (ow_k w)\<rparr>)" for n
    by (subst poll_gone.simps) (simp add: world_ops)
  obtain n where n: "poll_rounds = Suc n" using not0_implies_Suc [of poll_rounds] by (auto simp: poll_rounds_def)
  show ?thesis
    unfolding n using gone by (subst poll_gone.simps) (auto simp: world_ops split: option.splits)
qed

lemma world_cleanup_loop: "fst (cleanup_loop world_cluster resources keys w) = []"
proof (induction keys arbitrary: w)
  case (Cons key keys)
  show ?case
  proof (cases "map_get resources key")
    case (Some obj)
    show ?thesis
    proof (cases "sk_view (ow_k w) (obj_key obj) = None")
      case True
      then have "cl_Delete world_cluster obj w = (Some ErrResourceNotFound, w)" "cl_IsNotFound world_cluster ErrResourceNotFound"
        by (simp_all add: world_cluster_def sim_kube_def)
      then show ?thesis using Some Cons.IH [of w] by (simp add: split_beta)
    next
      case False
      let ?w = "w\<lparr>ow_k := (ow_k w)\<lparr>sk_dying := obj_key obj # sk_dying (ow_k w)\<rparr>\<rparr>"
      have "cl_Delete world_cluster obj w = (None, ?w)" using False by (simp add: world_cluster_def sim_kube_def)
      moreover have "fst (poll_gone world_cluster (obj_key obj) poll_rounds ?w) = None" by (rule world_poll_gone) simp
      ultimately show ?thesis using Some Cons.IH by (simp add: split_beta)
    qed
  qed (simp add: Cons.IH)
qed simp

lemma world_cleanup: "fst (CleanupResourcesInReverseOrder world_cluster rr w) = None"
  by (simp add: CleanupResourcesInReverseOrder_def split_beta world_cleanup_loop)

lemma world_GetConfig:
  "ow_cfg w = Some cfg \<Longrightarrow> oe_GetConfig world_env w = Inr cfg" "oe_GetConfig world_env (w\<lparr>ow_cfg := Some cfg\<rparr>) = Inr cfg"
  by (simp_all add: world_env_def)

lemma world_deletion:
  assumes "opc_Deleting cfg"
  shows "fst (op_Reconcile world_env (r, w\<lparr>ow_cfg := Some cfg\<rparr>)) = NoRequeue"
    and "fst (snd (op_Reconcile world_env (r, w\<lparr>ow_cfg := Some cfg\<rparr>))) = None"
proof -
  have "oe_cluster world_env = world_cluster" "\<And>c w. oe_UpdateConfig world_env c w = (None, w\<lparr>ow_cfg := Some c\<rparr>)" by (simp_all add: world_env_def)
  then show "fst (op_Reconcile world_env (r, w\<lparr>ow_cfg := Some cfg\<rparr>)) = NoRequeue"
    "fst (snd (op_Reconcile world_env (r, w\<lparr>ow_cfg := Some cfg\<rparr>))) = None"
    using assms world_cleanup [of "or_resourceRenderer r" "w\<lparr>ow_cfg := Some cfg\<rparr>"]
    by (auto simp: op_Reconcile_def op_handleDeletion_def world_GetConfig split: prod.splits option.splits)
qed

abbreviation "sample_config \<equiv>
  \<lparr>opc_Name = DpuOperatorConfigName, opc_UID = ''u'', opc_LogLevel = 0, opc_ResourceName = [],
   opc_Finalizers = [dpuOperatorConfigFinalizer], opc_Deleting = False, opc_Conditions = []\<rparr>"

abbreviation "sample_operator \<equiv> NewDpuOperatorConfigReconciler ''ns'' DummyImageManager"

abbreviation "op_sample \<equiv> \<lparr>ow_cfg = Some sample_config, ow_k = \<lparr>sk_objs = [], sk_dying = []\<rparr>\<rparr>"

abbreviation "sample_deployed \<equiv> op_Reconcile world_env (sample_operator, op_sample)"

lemma sample_deployed_eval:
  "fst sample_deployed = NoRequeue \<and> fst (snd sample_deployed) = None \<and> length (sk_objs (ow_k (snd (snd (snd sample_deployed))))) = 10"
proof -
  have "(case sample_deployed of (res, err, r, w) \<Rightarrow> (res, err, length (sk_objs (ow_k w)))) = (NoRequeue, None, 10)" by code_simp
  then show ?thesis by (simp add: split_beta)
qed

lemma sample_deployed_ok: "sample_deployed = (NoRequeue, None, fst (snd (snd sample_deployed)), snd (snd (snd sample_deployed)))"
  using sample_deployed_eval by (metis prod.collapse)


abbreviation "deleting_world \<equiv> (snd (snd (snd sample_deployed)))\<lparr>ow_cfg := Some (sample_config\<lparr>opc_Deleting := True\<rparr>)\<rparr>"

abbreviation "sample_deleted \<equiv> op_Reconcile world_env (fst (snd (snd sample_deployed)), deleting_world)"

theorem operator_leaves_nothing_witness:
  "length (sk_objs (ow_k (snd (snd (snd sample_deployed))))) = 10 \<and> rr_order (or_resourceRenderer (fst (snd (snd sample_deleted)))) = []"
proof -
  have cfg: "oe_GetConfig world_env op_sample = Inr sample_config" "\<not> opc_Deleting sample_config"
    "dpuOperatorConfigFinalizer \<in> set (opc_Finalizers sample_config)"
    by (simp_all add: world_GetConfig)
  have cfg': "oe_GetConfig world_env deleting_world = Inr (sample_config\<lparr>opc_Deleting := True\<rparr>)"
    "opc_Deleting (sample_config\<lparr>opc_Deleting := True\<rparr>)"
    "dpuOperatorConfigFinalizer \<in> set (opc_Finalizers (sample_config\<lparr>opc_Deleting := True\<rparr>))"
    by (rule world_GetConfig) simp_all
  have "fst sample_deleted = NoRequeue" "fst (snd sample_deleted) = None" 
    by (rule world_deletion, simp)+
  then have del: "sample_deleted = (NoRequeue, None, fst (snd (snd sample_deleted)), snd (snd (snd sample_deleted)))" by (simp add: prod_eq_iff)
  have laws: "cluster_shrinks (oe_cluster world_env) world_view" "names_ok (\<lambda>kind. ''v1/'' @ kind) (oe_bindata world_env) (oe_cluster world_env)"
    using world_shrinks world_names_ok by (simp_all add: world_env_def)
  have keep: "world_view (snd (oe_UpdateConfig world_env c w)) = world_view w" for c w by (simp add: world_env_def world_view_def)
  have tr: "tr_ok (\<lambda>kind. ''v1/'' @ kind) sample_operator"
    by (simp add: tr_ok_def NewDpuOperatorConfigReconciler_def rr_ok_new rr_named_def) (simp add: NewResourceRenderer_def)
  have dir: "''daemon'' \<in> set operator_dirs" by (simp add: operator_dirs_def)
  have "length (sk_objs (ow_k (snd (snd (snd sample_deployed))))) = 10" using sample_deployed_eval by blast
  then show ?thesis using operator_leaves_nothing [OF laws keep tr cfg sample_deployed_ok cfg' del dir] by blast
qed

section \<open>Vendor plugins\<close>

definition vsp_dirs :: "string list" where
  "vsp_dirs = [''vsp/intel-ipu'', ''vsp/marvell-dpu'', ''vsp/intel-netsec'', ''vsp/nvidia-bf'', ''vsp/xsight'', ''vsp/mangoboost'']"

lemma detector_names:
  "map d_Name (detectors (NewDpuDetectorManager reg pf)) =
     [''Intel IPU E2100'', ''Marvell DPU'', ''Intel Netsec Accelerator'', ''NVIDIA BlueField'', ''xSight DPU'', ''MangoBoost DPU'']"
  "map d_PlatformName (detectors (NewDpuDetectorManager reg pf)) =
     [''intel-ipu'', ''marvell-dpu'', ''intel-netsec'', ''nvidia-bf'', ''xsight'', ''mangoboost'']"
  by (simp_all add: NewDpuDetectorManager_def IntelDetector_def MarvellDetector_def NetsecAcceleratorDetector_def NvidiaDetector_def
      XSightDetector_def MangoBoostDetector_def)

lemma find_by_key: "distinct (map f xs) \<Longrightarrow> x \<in> set xs \<Longrightarrow> List.find (\<lambda>y. f y = f x) xs = Some x"
  by (induction xs) auto

text \<open>Every product that a detector can report has its vendor plugin: its image key is one the image manager
  knows, so that with all images set the image is found, and its templates are in one of the six directories
  of vendor plugins.\<close>

theorem vsp_resolves:
  assumes det: "det \<in> set (detectors (NewDpuDetectorManager (dr_registry r) pf))" "DpuProductName (dpu_Spec dpu) = d_Name det"
    and images: "dr_imageManager r = EnvImageManager getenv" "\<forall>key \<in> set AllImageKeys. getenv key \<noteq> []"
  shows "getVSPImageForDPU r pf dpu = Inr (getenv (SanitizeForTemplate (d_PlatformName det))) \<and>
     getVendorDirectory r pf dpu = Inr (''vsp/'' @ d_PlatformName det) \<and> ''vsp/'' @ d_PlatformName det \<in> set vsp_dirs"
proof -
  let ?ds = "detectors (NewDpuDetectorManager (dr_registry r) pf)"
  have "distinct (map d_Name ?ds)" by (simp add: detector_names)
  then have found: "List.find (\<lambda>d. d_Name d = d_Name det) ?ds = Some det" using det(1) by (rule find_by_key)
  have "d_PlatformName det \<in> set (map d_PlatformName ?ds)" using det(1) by simp
  moreover have "\<forall>p \<in> set [''intel-ipu'', ''marvell-dpu'', ''intel-netsec'', ''nvidia-bf'', ''xsight'', ''mangoboost''].
      SanitizeForTemplate p \<in> set AllImageKeys \<and> ''vsp/'' @ p \<in> set vsp_dirs" by code_simp
  ultimately have keys: "SanitizeForTemplate (d_PlatformName det) \<in> set AllImageKeys" "''vsp/'' @ d_PlatformName det \<in> set vsp_dirs"
    unfolding detector_names by blast+
  show ?thesis using keys images found det(2)
    by (simp add: getVSPImageForDPU_def getVendorDirectory_def GetVendorDirectory_def EnvImageManager_def env_GetImage_def)
qed

end
