(* ===== verification/Vsp_Net.thy ===== *)
theory Vsp_Net
  imports Sriov Grpc_Plugin
begin

text \<open>
  What the vendor-specific processes share: the network helpers
  (\<open>internal/daemon/vendor-specific-plugins/common/vspnetutils.go\<close>), the utilities and the Open vSwitch data plane
  of the Marvell process (\<open>marvell/mrvl-utils/mrvlutils.go\<close>, \<open>marvell/ovs-dp/ovsdp.go\<close>, \<open>debug-dp\<close>), and the mock
  process (\<open>mock-vsp/mockvsp.go\<close>). Commands, sysfs and netlink are the parameter \<open>vnet\<close>, whose state \<open>'w\<close> is
  the kernel and the switch. The waiting loops count the sleeps between two attempts; the time of the
  attempts themselves is taken as zero, so that a timeout of forty seconds in steps of half a second is 82
  attempts.
\<close>

section \<open>The host\<close>

record vlink =
  vl_Name :: string
  vl_HardwareAddr :: HardwareAddr
  vl_Up :: bool

record 'w vnet =
  vn_Run :: "string list \<Rightarrow> 'w \<Rightarrow> go_error option \<times> 'w"
  vn_Output :: "string list \<Rightarrow> 'w \<Rightarrow> string result"
  vn_WriteFile :: "string \<Rightarrow> string \<Rightarrow> 'w \<Rightarrow> go_error option \<times> 'w"
  vn_Readlink :: "string \<Rightarrow> 'w \<Rightarrow> string \<times> go_error option"
  vn_ReadDir :: "string \<Rightarrow> 'w \<Rightarrow> string list result"
  vn_platform :: "'w \<Rightarrow> platform"
  vn_LinkByName :: "string \<Rightarrow> 'w \<Rightarrow> vlink result"
  vn_LinkAdd :: "string \<Rightarrow> string \<Rightarrow> 'w \<Rightarrow> go_error option \<times> 'w"
  vn_LinkDel :: "vlink \<Rightarrow> 'w \<Rightarrow> go_error option \<times> 'w"
  vn_LinkSetUp :: "vlink \<Rightarrow> 'w \<Rightarrow> go_error option \<times> 'w"
  vn_LinkSetDown :: "vlink \<Rightarrow> 'w \<Rightarrow> go_error option \<times> 'w"
  vn_LinkSetVfVlan :: "vlink \<Rightarrow> int \<Rightarrow> int \<Rightarrow> 'w \<Rightarrow> go_error option \<times> 'w"
  vn_LinkSetVfSpoofchk :: "vlink \<Rightarrow> int \<Rightarrow> bool \<Rightarrow> 'w \<Rightarrow> go_error option \<times> 'w"
  vn_LinkSetVfTrust :: "vlink \<Rightarrow> int \<Rightarrow> bool \<Rightarrow> 'w \<Rightarrow> go_error option \<times> 'w"
  vn_Sleep :: "'w \<Rightarrow> 'w"

definition GetNetDevNameFromPCIeAddr :: "platform \<Rightarrow> string \<Rightarrow> string result" where
  "GetNetDevNameFromPCIeAddr pf addr =
     (case GetNetDevNamesFromPCIeAddr pf addr of
        Inl err \<Rightarrow> Inl err
      | Inr [n] \<Rightarrow> Inr n
      | Inr ns \<Rightarrow> Inl (Errorf ''expected exactly 1 interface for PCIe address %s, got %v''
                        [FStr addr, FStr (''['' @ join '' '' ns @ '']'')]))"

lemma GetNetDevName_hardware:
  "GetNetDevNameFromPCIeAddr (HardwarePlatform fs stat g) addr = hp_GetNetDevNameFromPCIeAddr g addr"
  by (simp add: GetNetDevNameFromPCIeAddr_def hp_GetNetDevNameFromPCIeAddr_def HardwarePlatform_def)

section \<open>Network helpers (vspnetutils.go)\<close>

record VEthPairDeviceInfo =
  veth_IfMac :: string
  veth_IfName :: string
  veth_PeerName :: string
  veth_PeerIfMAC :: string

type_synonym VfDeviceKey = "string \<times> int"

record VfDeviceInfo =
  vfd_VfKey :: VfDeviceKey
  vfd_PciAddress :: string
  vfd_Vlan :: int
  vfd_Allocated :: bool

definition numvfs_path :: "string \<Rightarrow> string" where
  "numvfs_path pciAddr = path_join (path_join ''/sys/bus/pci/devices'' pciAddr) ''sriov_numvfs''"

definition SetSriovNumVfs :: "'w vnet \<Rightarrow> string \<Rightarrow> int \<Rightarrow> 'w \<Rightarrow> go_error option \<times> 'w" where
  "SetSriovNumVfs env pciAddr numVfs w =
     and_then (vn_WriteFile env (numvfs_path pciAddr) ''0'' w) (\<lambda>e. e)
       (\<lambda>w. if numVfs = 0 then (None, w) else vn_WriteFile env (numvfs_path pciAddr) (itoa numVfs) w)"

definition linkHasAddrgenmodeEui64 :: "'w vnet \<Rightarrow> string \<Rightarrow> 'w \<Rightarrow> bool" where
  "linkHasAddrgenmodeEui64 env interfaceName w =
     (case vn_Output env [''ip'', ''-d'', ''link'', ''show'', ''dev'', interfaceName] w of
        Inr out \<Rightarrow> contains out ''addrgenmode eui64'' | Inl _ \<Rightarrow> False)"

definition enableOptomisticDuplicateAddressDetection :: "'w vnet \<Rightarrow> string \<Rightarrow> 'w \<Rightarrow> go_error option \<times> 'w" where
  "enableOptomisticDuplicateAddressDetection env interfaceName =
     vn_WriteFile env (''/proc/sys/net/ipv6/conf/'' @ interfaceName @ ''/optimistic_dad'') ''1''"

definition EnableIPV6LinkLocal :: "'w vnet \<Rightarrow> string \<Rightarrow> string \<Rightarrow> 'w \<Rightarrow> go_error option \<times> 'w" where
  "EnableIPV6LinkLocal env interfaceName ipv6Addr w =
     (let w1 = snd (vn_Run env [''nsenter'', ''-t'', ''1'', ''-m'', ''-u'', ''-n'', ''-i'', ''--'', ''nmcli'', ''device'', ''set'',
                                interfaceName, ''managed'', ''no''] w);
          w2 = snd (enableOptomisticDuplicateAddressDetection env interfaceName w1)
      in and_then
           (if linkHasAddrgenmodeEui64 env interfaceName w2 then (None, w2)
            else and_then (vn_Run env [''ip'', ''link'', ''set'', interfaceName, ''addrgenmode'', ''eui64''] w2)
                   (\<lambda>e. Errorf ''error setting link %s addrgenmode: %v'' [FStr interfaceName, FErr e])
                   (\<lambda>w. and_then (vn_Run env [''ip'', ''link'', ''set'', interfaceName, ''down''] w)
                          (\<lambda>e. Errorf ''error setting link %s down after setting addrgenmode: %v'' [FStr interfaceName, FErr e])
                          (\<lambda>w. (None, w)))) (\<lambda>e. e)
           (\<lambda>w. and_then (vn_Run env [''ip'', ''link'', ''set'', interfaceName, ''up''] w)
                  (\<lambda>e. Errorf ''error setting link %s up: %v'' [FStr interfaceName, FErr e])
                  (\<lambda>w. and_then (vn_Run env [''ip'', ''addr'', ''replace'', ipv6Addr @ ''/64'', ''dev'', interfaceName, ''optimistic''] w)
                         (\<lambda>e. Errorf ''error configuring IPv6 address %s/64 on link %s: %v'' [FStr ipv6Addr, FStr interfaceName, FErr e])
                         (\<lambda>w. (None, w)))))"

definition LinkSetUpDown :: "'w vnet \<Rightarrow> string \<Rightarrow> bool \<Rightarrow> 'w \<Rightarrow> go_error option \<times> 'w" where
  "LinkSetUpDown env ifName up w =
     (case vn_LinkByName env ifName w of
        Inl err \<Rightarrow> (Some err, w)
      | Inr link \<Rightarrow> if up then vn_LinkSetUp env link w else vn_LinkSetDown env link w)"

definition DestroyVethPair :: "'w vnet \<Rightarrow> string \<Rightarrow> 'w \<Rightarrow> go_error option \<times> 'w" where
  "DestroyVethPair env ifName w =
     (case vn_LinkByName env ifName w of Inl err \<Rightarrow> (Some err, w) | Inr nfLink \<Rightarrow> vn_LinkDel env nfLink w)"

text \<open>\<open>errors.Join\<close> of two errors: their texts on two lines.\<close>

definition errors_Join :: "go_error \<Rightarrow> go_error \<Rightarrow> go_error" where
  "errors_Join a b = Errorf ''%w\<newline>%w'' [FWrap a, FWrap b]"

definition veth_failed :: "'w vnet \<Rightarrow> string \<Rightarrow> go_error \<Rightarrow> 'w \<Rightarrow> VEthPairDeviceInfo result \<times> 'w" where
  "veth_failed env ifname err w =
     (case DestroyVethPair env ifname w of
        (Some errOnDestroy, w1) \<Rightarrow> (Inl (errors_Join errOnDestroy err), w1)
      | (None, w1) \<Rightarrow> (Inl err, w1))"

definition CreateVethPair :: "'w vnet \<Rightarrow> string \<Rightarrow> string \<Rightarrow> 'w \<Rightarrow> VEthPairDeviceInfo result \<times> 'w" where
  "CreateVethPair env ifname peername w =
     (let w0 = snd (DestroyVethPair env ifname w)
      in case vn_LinkAdd env ifname peername w0 of
           (Some err, w1) \<Rightarrow> (Inl err, w1)
         | (None, w1) \<Rightarrow>
             (case vn_LinkByName env ifname w1 of
                Inl err \<Rightarrow> (Inl err, w1)
              | Inr ifLink \<Rightarrow>
                  (case vn_LinkByName env peername w1 of
                     Inl err \<Rightarrow> (Inl err, w1)
                   | Inr peerLink \<Rightarrow>
                       (case vn_LinkSetUp env ifLink w1 of
                          (Some err, w2) \<Rightarrow> veth_failed env ifname err w2
                        | (None, w2) \<Rightarrow>
                            (case vn_LinkSetUp env peerLink w2 of
                               (Some err, w3) \<Rightarrow> veth_failed env ifname err w3
                             | (None, w3) \<Rightarrow>
                                 (Inr \<lparr>veth_IfMac = HardwareAddr_String (vl_HardwareAddr ifLink), veth_IfName = ifname,
                                       veth_PeerName = peername, veth_PeerIfMAC = HardwareAddr_String (vl_HardwareAddr peerLink)\<rparr>, w3))))))"

definition CreateNfVethPair :: "'w vnet \<Rightarrow> int \<Rightarrow> 'w \<Rightarrow> VEthPairDeviceInfo result \<times> 'w" where
  "CreateNfVethPair env idx = CreateVethPair env (''nf_if'' @ itoa idx) (''dp_if'' @ itoa idx)"

text \<open>The first three characters of the target are \<open>../\<close>.\<close>

definition readPCIsymbolicLink :: "'w vnet \<Rightarrow> string \<Rightarrow> 'w \<Rightarrow> string result" where
  "readPCIsymbolicLink env symbolicLink w =
     (case vn_Readlink env symbolicLink w of
        (pciDevDir, err) \<Rightarrow>
          if length pciDevDir \<le> 3 then Inl (Errorf ''could not find PCI Address'' [])
          else (case err of Some e \<Rightarrow> Inl e | None \<Rightarrow> Inr (drop 3 pciDevDir)))"

definition vf_link_path :: "string \<Rightarrow> int \<Rightarrow> string" where
  "vf_link_path pfName vfId =
     path_join (path_join (path_join ''/sys/class/net'' pfName) ''device'') (''virtfn'' @ itoa vfId)"

definition VfPCIAddressFromVfIndex :: "'w vnet \<Rightarrow> string \<Rightarrow> int \<Rightarrow> 'w \<Rightarrow> string result" where
  "VfPCIAddressFromVfIndex env pfName vfId w =
     (case readPCIsymbolicLink env (vf_link_path pfName vfId) w of
        Inl err \<Rightarrow> Inl (Errorf ''%v for VF %s%v of PF %s'' [FErr err, FStr ''virtfn'', FInt vfId, FStr pfName])
      | Inr pciAddress \<Rightarrow> Inr pciAddress)"

definition SetPfHwModeVepa :: "'w vnet \<Rightarrow> string \<Rightarrow> 'w \<Rightarrow> go_error option \<times> 'w" where
  "SetPfHwModeVepa env pfName = vn_Run env [''bridge'', ''link'', ''set'', ''dev'', pfName, ''hwmode'', ''vepa'']"

abbreviation ovs_vsctl :: "string list \<Rightarrow> string list" where
  "ovs_vsctl args \<equiv> [''chroot'', ''/host'', ''ovs-vsctl''] @ args"

definition CreateOvSBridge :: "'w vnet \<Rightarrow> string \<Rightarrow> 'w \<Rightarrow> go_error option \<times> 'w" where
  "CreateOvSBridge env bridgeName = vn_Run env (ovs_vsctl [''--may-exist'', ''add-br'', bridgeName])"

definition DeleteOvSBridge :: "'w vnet \<Rightarrow> string \<Rightarrow> 'w \<Rightarrow> go_error option \<times> 'w" where
  "DeleteOvSBridge env bridgeName = vn_Run env (ovs_vsctl [''del-br'', bridgeName])"

definition AddInterfaceToOvSBridge :: "'w vnet \<Rightarrow> string \<Rightarrow> string \<Rightarrow> 'w \<Rightarrow> go_error option \<times> 'w" where
  "AddInterfaceToOvSBridge env bridgeName ifname = vn_Run env (ovs_vsctl [''--may-exist'', ''add-port'', bridgeName, ifname])"

definition DeleteInterfaceFromOvSBridge :: "'w vnet \<Rightarrow> string \<Rightarrow> string \<Rightarrow> 'w \<Rightarrow> go_error option \<times> 'w" where
  "DeleteInterfaceFromOvSBridge env bridgeName ifname = vn_Run env (ovs_vsctl [''del-port'', bridgeName, ifname])"

text \<open>A waiting loop with \<open>n\<close> sleeps at most: attempts, with a sleep after each failed one.\<close>

fun wait_loop :: "('w \<Rightarrow> 'w) \<Rightarrow> ('w \<Rightarrow> 'a result) \<Rightarrow> nat \<Rightarrow> 'w \<Rightarrow> 'a result \<times> 'w" where
  "wait_loop sleep attempt n w =
     (case attempt w of
        Inr x \<Rightarrow> (Inr x, w)
      | Inl err \<Rightarrow> (case n of 0 \<Rightarrow> (Inl err, w) | Suc m \<Rightarrow> wait_loop sleep attempt m (sleep w)))"

declare wait_loop.simps [simp del]

definition wait_rounds :: nat where
  "wait_rounds = 81"

definition map_error :: "(go_error \<Rightarrow> go_error) \<Rightarrow> 'a result \<times> 'w \<Rightarrow> 'a result \<times> 'w" where
  "map_error f r = (case r of (Inl err, w) \<Rightarrow> (Inl (f err), w) | (Inr x, w) \<Rightarrow> (Inr x, w))"

definition WaitForNetDevReady :: "'w vnet \<Rightarrow> string \<Rightarrow> 'w \<Rightarrow> string result \<times> 'w" where
  "WaitForNetDevReady env pcieAddr w =
     map_error (\<lambda>lastErr. Errorf ''timeout waiting for VF netdev to appear for PCIe address %s after %ss: %w''
         [FStr pcieAddr, FStr ''40.50'', FWrap lastErr])
       (wait_loop (vn_Sleep env) (\<lambda>w. GetNetDevNameFromPCIeAddr (vn_platform env w) pcieAddr) wait_rounds w)"

definition WaitForVfPciAddressReady :: "'w vnet \<Rightarrow> string \<Rightarrow> int \<Rightarrow> 'w \<Rightarrow> string result \<times> 'w" where
  "WaitForVfPciAddressReady env pfName vfId w =
     map_error (\<lambda>lastErr. Errorf ''timeout waiting for VF PCI address for PF %s VF %d after %ss: %w''
         [FStr pfName, FInt vfId, FStr ''40.50'', FWrap lastErr])
       (wait_loop (vn_Sleep env) (VfPCIAddressFromVfIndex env pfName vfId) wait_rounds w)"

text \<open>The error of \<open>LinkByName\<close> is a variable of the inner block, so that the last error is nil when only the
  link is missing.\<close>

definition link_ready :: "'w vnet \<Rightarrow> string \<Rightarrow> 'w \<Rightarrow> (string \<times> vlink) result" where
  "link_ready env pcieAddr w =
     (case GetNetDevNameFromPCIeAddr (vn_platform env w) pcieAddr of
        Inl err \<Rightarrow> Inl (Errorf ''ifName:  after %ss: %w'' [FStr ''40.50'', FWrap err])
      | Inr ifName \<Rightarrow>
          (case vn_LinkByName env ifName w of
             Inr vfLink \<Rightarrow> Inr (ifName, vfLink)
           | Inl _ \<Rightarrow> Inl (Errorf ''ifName: %s after %ss: %s'' [FStr ifName, FStr ''40.50'', FStr ''%!w(<nil>)''])))"

definition WaitForLinkReady :: "'w vnet \<Rightarrow> string \<Rightarrow> 'w \<Rightarrow> (string \<times> vlink) result \<times> 'w" where
  "WaitForLinkReady env pcieAddr w =
     map_error (\<lambda>lastErr. Errorf ''timeout waiting for VF netdev link to be ready pcie: %s %w'' [FStr pcieAddr, FWrap lastErr])
       (wait_loop (vn_Sleep env) (link_ready env pcieAddr) wait_rounds w)"

section \<open>Marvell utilities (mrvlutils.go)\<close>

text \<open>\<open>ghw.PCI()\<close> is what the platform returns as its devices.\<close>

definition MrvlVendorID :: string where
  "MrvlVendorID = ''177d''"

definition MrvlDPUSDPPFId :: string where
  "MrvlDPUSDPPFId = ''a0f7''"

definition ErrNoSuchDevice :: go_error where
  "ErrNoSuchDevice = Errorf ''no such device'' []"

definition mrvl_devices :: "string \<Rightarrow> PCIDevice list \<Rightarrow> string list" where
  "mrvl_devices deviceID devs =
     map pci_Address (filter (\<lambda>dev. pci_VendorID dev = MrvlVendorID \<and> pci_ProductID dev = deviceID) devs)"

definition GetAllVfsByDeviceID :: "platform \<Rightarrow> string \<Rightarrow> string list result" where
  "GetAllVfsByDeviceID pf deviceID =
     (case PciDevices pf of
        Inl err \<Rightarrow> Inl err
      | Inr devs \<Rightarrow>
          if mrvl_devices deviceID devs = []
          then Inl (Errorf ''No devices for PCI ID [%s:%s] found: %w'' [FStr MrvlVendorID, FStr deviceID, FWrap ErrNoSuchDevice])
          else Inr (mrvl_devices deviceID devs))"

text \<open>The index into the list is a 64-bit integer.\<close>

definition wrap64 :: "int \<Rightarrow> int" where
  "wrap64 i = (i + 2 ^ 63) mod 2 ^ 64 - 2 ^ 63"

definition Mapped_VF :: "platform \<Rightarrow> int \<Rightarrow> int \<Rightarrow> int \<Rightarrow> string result" where
  "Mapped_VF pf pf_count pfid vfid =
     (case PciDevices pf of
        Inl err \<Rightarrow> Inl err
      | Inr devs \<Rightarrow>
          let list = mrvl_devices MrvlDPUSDPPFId devs;
              dpu_vfid = wrap64 (pf_count * vfid + pfid)
          in if dpu_vfid > int (length list) - 1 then Inl (Errorf ''mapped VF out of bounds'' [])
             else if dpu_vfid < 0 then Inl (Panic ''index out of range'')
             else Inr (hd (split_on (CHR '' '') (list ! nat dpu_vfid))))"

definition GetPCIByDeviceID :: "platform \<Rightarrow> string \<Rightarrow> string result" where
  "GetPCIByDeviceID pf deviceID =
     (case PciDevices pf of
        Inl err \<Rightarrow> Inl err
      | Inr devs \<Rightarrow>
          (case mrvl_devices deviceID devs of
             pciAddress # _ \<Rightarrow>
               if pciAddress = [] then Inl (Errorf ''device not found with Vendor ID: %s and Device ID: %s'' [FStr MrvlVendorID, FStr deviceID])
               else Inr pciAddress
           | [] \<Rightarrow> Inl (Errorf ''device not found with Vendor ID: %s and Device ID: %s'' [FStr MrvlVendorID, FStr deviceID])))"

text \<open>A directory that cannot be read and one that is not there give the error of the first call on it.\<close>

definition GetNameByPCI :: "'w vnet \<Rightarrow> string \<Rightarrow> 'w \<Rightarrow> string result" where
  "GetNameByPCI env pciAddress w =
     (case vn_ReadDir env (path_join (path_join ''/sys/bus/pci/devices'' pciAddress) ''net'') w of
        Inl err \<Rightarrow> Inl err
      | Inr [] \<Rightarrow> Inl (Errorf ''PF network device not found'' [])
      | Inr (file # _) \<Rightarrow> Inr (trim_space file))"

definition GetNameByDeviceID :: "'w vnet \<Rightarrow> string \<Rightarrow> 'w \<Rightarrow> string result" where
  "GetNameByDeviceID env deviceID w =
     (case GetPCIByDeviceID (vn_platform env w) deviceID of
        Inl err \<Rightarrow> Inl err
      | Inr pciAddress \<Rightarrow> GetNameByPCI env pciAddress w)"

definition DetectPlatformMode :: "platform \<Rightarrow> string result" where
  "DetectPlatformMode pf =
     (case PciDevices pf of
        Inl err \<Rightarrow> Inl err
      | Inr devs \<Rightarrow> Inr (if mrvl_devices MrvlDPUSDPPFId devs \<noteq> [] then ''dpu'' else ''host''))"

text \<open>\<open>SetupHostInterface\<close>: nine attempts, between which the drivers are unloaded and loaded again. Failed
  commands are ignored.\<close>

definition bash_run :: "'w vnet \<Rightarrow> string \<Rightarrow> 'w \<Rightarrow> go_error option \<times> 'w" where
  "bash_run env cmd = vn_Run env [''bash'', ''-c'', cmd]"

definition loadHostDriver :: "'w vnet \<Rightarrow> 'w \<Rightarrow> 'w" where
  "loadHostDriver env w =
     snd (bash_run env ''chroot /host modprobe octeon_ep_vf'' (snd (bash_run env ''chroot /host modprobe octeon_ep'' w)))"

definition unloadHostDriver :: "'w vnet \<Rightarrow> 'w \<Rightarrow> 'w" where
  "unloadHostDriver env w =
     snd (bash_run env ''chroot /host rmmod octeon_ep'' (snd (bash_run env ''chroot /host rmmod octeon_ep_vf'' w)))"

fun setup_host_attempts :: "'w vnet \<Rightarrow> nat \<Rightarrow> 'w \<Rightarrow> go_error option \<times> 'w" where
  "setup_host_attempts env 0 w = (Some (Errorf ''Failed to set up Host Interface'' []), w)"
| "setup_host_attempts env (Suc n) w =
     (case GetNameByDeviceID env ''b900'' w of
        Inr (c # cs) \<Rightarrow> (None, w)
      | _ \<Rightarrow> setup_host_attempts env n (vn_Sleep env (loadHostDriver env (vn_Sleep env (unloadHostDriver env w)))))"

definition SetupHostInterface :: "'w vnet \<Rightarrow> 'w \<Rightarrow> go_error option \<times> 'w" where
  "SetupHostInterface env = setup_host_attempts env 9"

section \<open>Data planes of the Marvell process\<close>

record 'w mrvldp =
  dp_AddPort :: "string \<Rightarrow> string \<Rightarrow> 'w \<Rightarrow> go_error option \<times> 'w"
  dp_DeletePort :: "string \<Rightarrow> string \<Rightarrow> 'w \<Rightarrow> go_error option \<times> 'w"
  dp_Init :: "string \<Rightarrow> bool \<Rightarrow> 'w \<Rightarrow> go_error option \<times> 'w"
  dp_ReadAllPorts :: "string \<Rightarrow> 'w \<Rightarrow> string result"
  dp_Delete :: "string \<Rightarrow> 'w \<Rightarrow> go_error option \<times> 'w"
  dp_AddFlow :: "string \<Rightarrow> string \<Rightarrow> string \<Rightarrow> string \<Rightarrow> 'w \<Rightarrow> go_error option \<times> 'w"
  dp_DeleteFlow :: "string \<Rightarrow> string \<Rightarrow> string \<Rightarrow> string \<Rightarrow> 'w \<Rightarrow> go_error option \<times> 'w"

abbreviation ovs_ofctl :: "string list \<Rightarrow> string list" where
  "ovs_ofctl args \<equiv> [''chroot'', ''/host'', ''ovs-ofctl''] @ args"

text \<open>\<open>isDPDK\<close> is the constant false of the Marvell process.\<close>

definition ovs_AddPortToDataPlane :: "'w vnet \<Rightarrow> string \<Rightarrow> string \<Rightarrow> 'w \<Rightarrow> go_error option \<times> 'w" where
  "ovs_AddPortToDataPlane env bridgeName portName w =
     vn_Run env (ovs_vsctl [''--may-exist'', ''add-port'', bridgeName, portName]) (snd (LinkSetUpDown env portName True w))"

definition ovs_DeletePortFromDataPlane :: "'w vnet \<Rightarrow> string \<Rightarrow> string \<Rightarrow> 'w \<Rightarrow> go_error option \<times> 'w" where
  "ovs_DeletePortFromDataPlane env bridgeName portName w =
     (case vn_Run env (ovs_vsctl [''del-port'', bridgeName, portName]) w of
        (err, w1) \<Rightarrow> (err, snd (LinkSetUpDown env portName False w1)))"

definition ovs_DeleteDataplane :: "'w vnet \<Rightarrow> string \<Rightarrow> 'w \<Rightarrow> go_error option \<times> 'w" where
  "ovs_DeleteDataplane env bridgeName = vn_Run env (ovs_vsctl [''del-br'', bridgeName])"

definition createBridge :: "'w vnet \<Rightarrow> string \<Rightarrow> 'w \<Rightarrow> go_error option \<times> 'w" where
  "createBridge env bridgeName =
     vn_Run env (ovs_vsctl [''--may-exist'', ''add-br'', bridgeName, ''--'', ''set'', ''bridge'', bridgeName, ''datapath_type=netdev''])"

definition ovs_InitDataPlane :: "'w vnet \<Rightarrow> string \<Rightarrow> bool \<Rightarrow> 'w \<Rightarrow> go_error option \<times> 'w" where
  "ovs_InitDataPlane env bridgeName isMacLearning w =
     and_then (createBridge env bridgeName w) (\<lambda>e. e)
       (\<lambda>w. and_then
          (if isMacLearning
           then and_then (vn_Run env (ovs_ofctl [''del-flows'', bridgeName]) w) (\<lambda>e. e)
                  (vn_Run env (ovs_ofctl [''add-flow'', bridgeName, ''priority=65535,actions=NORMAL'']))
           else (None, w)) (\<lambda>e. e)
          (\<lambda>w. let portName = (case GetNameByDeviceID env ''a063'' w of Inr name \<Rightarrow> name | Inl _ \<Rightarrow> [])
               in (None, snd (ovs_AddPortToDataPlane env bridgeName portName w))))"

definition ovs_ReadAllPortFromDataPlane :: "'w vnet \<Rightarrow> string \<Rightarrow> 'w \<Rightarrow> string result" where
  "ovs_ReadAllPortFromDataPlane env bridgeName = vn_Output env (ovs_vsctl [''--may-exist'', ''list-ports'', bridgeName])"

definition add_flow_text :: "string \<Rightarrow> string \<Rightarrow> string \<Rightarrow> string" where
  "add_flow_text srcInterface dstInterface dstMac =
     (if dstMac \<noteq> []
      then if srcInterface = dstInterface
           then ''priority=100,in_port='' @ srcInterface @ '',dl_dst='' @ dstMac @ '',actions=in_port''
           else ''in_port='' @ srcInterface @ '',dl_dst='' @ dstMac @ '',actions=output:'' @ dstInterface
      else ''priority=10,in_port='' @ srcInterface @ '',actions=output:'' @ dstInterface)"

definition ovs_AddFlowRuleToDataPlane :: "'w vnet \<Rightarrow> string \<Rightarrow> string \<Rightarrow> string \<Rightarrow> string \<Rightarrow> 'w \<Rightarrow> go_error option \<times> 'w" where
  "ovs_AddFlowRuleToDataPlane env bridgeName srcInterface dstInterface dstMac =
     vn_Run env (ovs_ofctl [''add-flow'', bridgeName, add_flow_text srcInterface dstInterface dstMac])"

definition del_flow_text :: "string \<Rightarrow> string \<Rightarrow> string" where
  "del_flow_text srcInterface dstMac =
     (if dstMac \<noteq> [] then ''in_port='' @ srcInterface @ '',dl_dst='' @ dstMac else ''in_port='' @ srcInterface)"

definition ovs_DeleteFlowRuleFromDataPlane :: "'w vnet \<Rightarrow> string \<Rightarrow> string \<Rightarrow> string \<Rightarrow> string \<Rightarrow> 'w \<Rightarrow> go_error option \<times> 'w" where
  "ovs_DeleteFlowRuleFromDataPlane env bridgeName srcInterface dstinterface dstMac =
     vn_Run env (ovs_ofctl [''del-flows'', bridgeName, del_flow_text srcInterface dstMac])"

definition OvsDP :: "'w vnet \<Rightarrow> 'w mrvldp" where
  "OvsDP env =
     \<lparr>dp_AddPort = ovs_AddPortToDataPlane env, dp_DeletePort = ovs_DeletePortFromDataPlane env,
      dp_Init = ovs_InitDataPlane env, dp_ReadAllPorts = ovs_ReadAllPortFromDataPlane env, dp_Delete = ovs_DeleteDataplane env,
      dp_AddFlow = ovs_AddFlowRuleToDataPlane env, dp_DeleteFlow = ovs_DeleteFlowRuleFromDataPlane env\<rparr>"

definition DebugDP :: "'w mrvldp" where
  "DebugDP =
     \<lparr>dp_AddPort = (\<lambda>_ _ w. (None, w)), dp_DeletePort = (\<lambda>_ _ w. (None, w)), dp_Init = (\<lambda>_ _ w. (None, w)),
      dp_ReadAllPorts = (\<lambda>_ _. Inr []), dp_Delete = (\<lambda>_ w. (None, w)),
      dp_AddFlow = (\<lambda>_ _ _ _ w. (None, w)), dp_DeleteFlow = (\<lambda>_ _ _ _ w. (None, w))\<rparr>"

section \<open>Names of bridge ports\<close>

text \<open>The match of \<open>host(\d+)-(\d+)\<close> at the start of a text, with what is left of it.\<close>

definition host_match :: "string \<Rightarrow> (string \<times> string \<times> string) option" where
  "host_match s =
     (let r = drop 4 s; a = takeWhile is_digit r; r2 = dropWhile is_digit r; b = takeWhile is_digit (tl r2)
      in if take 4 s = ''host'' \<and> a \<noteq> [] \<and> take 1 r2 = ''-'' \<and> b \<noteq> [] then Some (a, b, dropWhile is_digit (tl r2)) else None)"

fun find_host_match :: "string \<Rightarrow> (string \<times> string) option" where
  "find_host_match s =
     (case host_match s of
        Some (a, b, _) \<Rightarrow> Some (a, b)
      | None \<Rightarrow> (case s of [] \<Rightarrow> None | _ # cs \<Rightarrow> find_host_match cs))"

declare find_host_match.simps [simp del]

lemma digits_span: "list_all is_digit ds \<Longrightarrow> (\<And>c cs. rest = c # cs \<Longrightarrow> \<not> is_digit c) \<Longrightarrow>
    takeWhile is_digit (ds @ rest) = ds \<and> dropWhile is_digit (ds @ rest) = rest"
  by (induction ds) (auto, (cases rest, auto)+)

lemma host_match_port:
  "host_match (''host'' @ dec_nat pf @ ''-'' @ dec_nat vf) = Some (dec_nat pf, dec_nat vf, [])"
proof -
  have a: "takeWhile is_digit (dec_nat pf @ ''-'' @ dec_nat vf) = dec_nat pf" "dropWhile is_digit (dec_nat pf @ ''-'' @ dec_nat vf) = ''-'' @ dec_nat vf"
    using digits_span [OF dec_nat_digits, of "''-'' @ dec_nat vf" pf] by (auto simp: less_eq_char_def)
  have b: "takeWhile is_digit (dec_nat vf) = dec_nat vf" "dropWhile is_digit (dec_nat vf) = []"
    using digits_span [OF dec_nat_digits, of "[]" vf] by auto
  have "drop 4 (''host'' @ dec_nat pf @ ''-'' @ dec_nat vf) = dec_nat pf @ ''-'' @ dec_nat vf"
    "take 4 (''host'' @ dec_nat pf @ ''-'' @ dec_nat vf) = ''host''" "tl (''-'' @ dec_nat vf) = dec_nat vf" "take 1 (''-'' @ dec_nat vf) = ''-''"
    by simp_all
  then show ?thesis unfolding host_match_def Let_def by (simp only: a b) simp
qed

section \<open>The mock process (mockvsp.go)\<close>

definition mock_devices :: DeviceListResponse where
  "mock_devices = map (\<lambda>d. (d, \<lparr>lcd_ID = d, lcd_Health = ''Healthy'', lcd_Node = []\<rparr>)) [''ens5f0'', ''ens5f1'', ''ens5f2'', ''ens5f3'']"

definition vspServer :: "unit vsp_service" where
  "vspServer =
     \<lparr>vsp_Init = (\<lambda>_ w. (Inr (''127.0.0.1'', 50051), w)),
      vsp_CreateBridgePort = (\<lambda>_ w. (Inr \<lparr>obp_Name = [], obp_Spec = None\<rparr>, w)),
      vsp_DeleteBridgePort = (\<lambda>_ w. (None, w)), vsp_CreateNetworkFunction = (\<lambda>_ w. (None, w)),
      vsp_DeleteNetworkFunction = (\<lambda>_ w. (None, w)), vsp_GetDevices = (\<lambda>w. (Inr mock_devices, w)),
      vsp_SetNumVfs = (\<lambda>_ w. (Inl (StatusError Unimplemented ''method SetNumVfs not implemented''), w))\<rparr>"

end
