(* ===== verification/Marvell_Vsp.thy ===== *)
theory Marvell_Vsp
  imports Vsp_Net
begin

text \<open>
  The vendor-specific process of Marvell (\<open>internal/daemon/vendor-specific-plugins/marvell/main.go\<close>): it pairs
  the virtual functions of the host with network functions on the DPU by flow rules of a data plane
  (\<open>Vsp_Net\<close>). State is the server and the state \<open>'w\<close> of the host. Maps that the code iterates over are
  visited in the order of their entries. The lemmas show that the flow rules follow the bridge ports and
  the network function, in whatever order they were requested.
\<close>

section \<open>State\<close>

record mrvlDeviceInfo =
  mdi_secInterfaceName :: string
  mdi_dpInterfaceName :: string
  mdi_dpMAC :: string
  mdi_portType :: string
  mdi_health :: string
  mdi_pciAddress :: string

record vfInfo =
  vfi_vfName :: string
  vfi_mac :: string

record mrvlNfPortMap =
  nfp_vfPort :: "vfInfo list"
  nfp_inpPort :: string
  nfp_outPort :: string

record mrvlVspServer =
  mv_isDPUMode :: bool
  mv_deviceStore :: "(string, mrvlDeviceInfo) gomap option"
  mv_noOfPortPairs :: nat
  mv_portType :: string
  mv_bridgeName :: string
  mv_networkStore :: "(string, mrvlNfPortMap) gomap"
  mv_isNF :: bool

definition NewMarvellVspServer :: mrvlVspServer where
  "NewMarvellVspServer =
     \<lparr>mv_isDPUMode = False, mv_deviceStore = Some [], mv_noOfPortPairs = 0, mv_portType = [], mv_bridgeName = [],
      mv_networkStore = [], mv_isNF = False\<rparr>"

definition NfName :: string where
  "NfName = ''mrvl-nf1''"

definition HostDeviceID :: string where
  "HostDeviceID = ''b900''"

definition HostVFDeviceID :: string where
  "HostVFDeviceID = ''b903''"

definition DpuRpmDeviceID :: string where
  "DpuRpmDeviceID = ''a063''"

text \<open>Reading a missing entry of a map gives the zero value; reading a nil map too.\<close>

definition nf_entry :: "mrvlVspServer \<Rightarrow> string \<Rightarrow> mrvlNfPortMap" where
  "nf_entry s name = (case map_get (mv_networkStore s) name of Some n \<Rightarrow> n
     | None \<Rightarrow> \<lparr>nfp_vfPort = [], nfp_inpPort = [], nfp_outPort = []\<rparr>)"

definition dp_interface :: "mrvlVspServer \<Rightarrow> string \<Rightarrow> string" where
  "dp_interface s mac = (case mv_deviceStore s of None \<Rightarrow> []
     | Some store \<Rightarrow> (case map_get store mac of Some d \<Rightarrow> mdi_dpInterfaceName d | None \<Rightarrow> []))"

section \<open>Devices\<close>

definition GetDeviceHealth :: "'w vnet \<Rightarrow> mrvlVspServer \<Rightarrow> string \<Rightarrow> 'w \<Rightarrow> string" where
  "GetDeviceHealth env s secInterfaceName w =
     (if mv_portType s \<in> {''veth'', ''sriov''}
      then (case vn_LinkByName env secInterfaceName w of
              Inl _ \<Rightarrow> ''Unhealthy''
            | Inr nfLink \<Rightarrow> if vl_Up nfLink then ''Healthy'' else ''Unhealthy'')
      else if mv_portType s = ''hwlbk'' then ''Healthy''
      else ''Unhealthy'')"

definition ethtool_disable_offload :: "'w vnet \<Rightarrow> string \<Rightarrow> 'w \<Rightarrow> 'w" where
  "ethtool_disable_offload env ifname w = snd (vn_Run env [''ethtool'', ''-K'', ifname, ''tx'', ''off'', ''rx'', ''off''] w)"

definition veth_links :: "'w vnet \<Rightarrow> string \<Rightarrow> string \<Rightarrow> 'w \<Rightarrow> (vlink \<times> vlink) result \<times> 'w" where
  "veth_links env sec dp w =
     (case (vn_LinkByName env sec w, vn_LinkByName env dp w) of
        (Inr nfLink, Inr peerLink) \<Rightarrow> (Inr (nfLink, peerLink), w)
      | _ \<Rightarrow>
          (case vn_LinkAdd env sec dp w of
             (Some err, w1) \<Rightarrow> (Inl err, w1)
           | (None, w1) \<Rightarrow>
               (case (vn_LinkByName env sec w1, vn_LinkByName env dp w1) of
                  (Inr nfLink, Inr peerLink) \<Rightarrow>
                    (Inr (nfLink, peerLink), ethtool_disable_offload env dp (ethtool_disable_offload env sec w1))
                | (Inl err, _) \<Rightarrow> (Inl err, w1)
                | (_, Inl err) \<Rightarrow> (Inl err, w1))))"

text \<open>Writing into a nil map panics.\<close>

definition createVethPair :: "'w vnet \<Rightarrow> nat \<Rightarrow> mrvlVspServer \<times> 'w \<Rightarrow> go_error option \<times> mrvlVspServer \<times> 'w" where
  "createVethPair env index = (\<lambda>(s, w).
     let sec = ''nf_interface'' @ dec_nat index; dp = ''dp_interface'' @ dec_nat index
     in case veth_links env sec dp w of
          (Inl err, w1) \<Rightarrow> (Some err, s, w1)
        | (Inr (nfLink, peerLink), w1) \<Rightarrow>
            (case vn_LinkSetUp env nfLink w1 of
               (Some err, w2) \<Rightarrow> (Some err, s, w2)
             | (None, w2) \<Rightarrow>
                 (case vn_LinkSetUp env peerLink w2 of
                    (Some err, w3) \<Rightarrow> (Some err, s, w3)
                  | (None, w3) \<Rightarrow>
                      (case mv_deviceStore s of
                         None \<Rightarrow> (Some (Panic ''assignment to entry in nil map''), s, w3)
                       | Some store \<Rightarrow>
                           (None, s\<lparr>mv_deviceStore := Some (map_put (HardwareAddr_String (vl_HardwareAddr nfLink))
                              \<lparr>mdi_secInterfaceName = sec, mdi_dpInterfaceName = dp,
                               mdi_dpMAC = HardwareAddr_String (vl_HardwareAddr peerLink), mdi_portType = ''veth'',
                               mdi_health = GetDeviceHealth env s sec w3, mdi_pciAddress = []\<rparr> store)\<rparr>, w3)))))"

fun clean_loop :: "'w vnet \<Rightarrow> (string, mrvlDeviceInfo) gomap \<Rightarrow> 'w \<Rightarrow> 'w" where
  "clean_loop env [] w = w"
| "clean_loop env ((_, d) # rest) w = clean_loop env rest (snd (DestroyVethPair env (mdi_secInterfaceName d) w))"

text \<open>The errors of \<open>CleanVethPairs\<close> are only logged.\<close>

definition CleanVethPairs :: "'w vnet \<Rightarrow> mrvlVspServer \<times> 'w \<Rightarrow> mrvlVspServer \<times> 'w" where
  "CleanVethPairs env = (\<lambda>(s, w).
     case mv_deviceStore s of
       None \<Rightarrow> (s, w)
     | Some store \<Rightarrow> (s\<lparr>mv_deviceStore := None\<rparr>, clean_loop env store w))"

fun create_pairs :: "'w vnet \<Rightarrow> nat list \<Rightarrow> mrvlVspServer \<times> 'w \<Rightarrow> go_error option \<times> mrvlVspServer \<times> 'w" where
  "create_pairs env [] sw = (None, sw)"
| "create_pairs env (i # is) sw =
     (case createVethPair env i sw of
        (Some err, sw1) \<Rightarrow> (Some err, CleanVethPairs env sw1)
      | (None, sw1) \<Rightarrow> create_pairs env is sw1)"

text \<open>The port type is the constant \<open>veth\<close>, the number of pairs the constant two.\<close>

definition ConfigureNetworkInterface :: "'w vnet \<Rightarrow> mrvlVspServer \<times> 'w \<Rightarrow> go_error option \<times> mrvlVspServer \<times> 'w" where
  "ConfigureNetworkInterface env = (\<lambda>(s, w).
     create_pairs env [0..<2] (s\<lparr>mv_portType := ''veth'', mv_noOfPortPairs := 2\<rparr>, w))"

definition reloadVFs :: "'w vnet \<Rightarrow> mrvlVspServer \<times> 'w \<Rightarrow> go_error option \<times> mrvlVspServer" where
  "reloadVFs env = (\<lambda>(s, w).
     let put = \<lambda>vfpci. map_put vfpci
           \<lparr>mdi_secInterfaceName = [], mdi_dpInterfaceName = [], mdi_dpMAC = [], mdi_portType = ''sriov'',
            mdi_health = GetDeviceHealth env s vfpci w, mdi_pciAddress = vfpci\<rparr>
     in case GetAllVfsByDeviceID (vn_platform env w) HostVFDeviceID of
          Inr vfsPci \<Rightarrow> (None, s\<lparr>mv_deviceStore := Some (fold put vfsPci [])\<rparr>)
        | Inl err \<Rightarrow> if errors_is err ErrNoSuchDevice then (None, s\<lparr>mv_deviceStore := Some []\<rparr>) else (Some err, s))"

definition mrvl_Stop :: "'w vnet \<Rightarrow> 'w mrvldp \<Rightarrow> mrvlVspServer \<times> 'w \<Rightarrow> mrvlVspServer \<times> 'w" where
  "mrvl_Stop env dp = (\<lambda>(s, w). CleanVethPairs env (s, snd (dp_Delete dp (mv_bridgeName s) w)))"

section \<open>Start-up\<close>

definition comm_channel :: "bool \<Rightarrow> string \<Rightarrow> string" where
  "comm_channel dpu_mode ifName = ''['' @ ''fe80::1'' @ (if dpu_mode then ''%'' else ''%25'') @ ifName @ '']''"

definition configureIP :: "'w vnet \<Rightarrow> bool \<Rightarrow> 'w \<Rightarrow> (string \<times> 32 word) result \<times> 'w" where
  "configureIP env dpu_mode w =
     (case GetNameByDeviceID env (if dpu_mode then ''a0f7'' else HostDeviceID) w of
        Inl err \<Rightarrow> (Inl err, w)
      | Inr ifName \<Rightarrow>
          (case EnableIPV6LinkLocal env ifName (if dpu_mode then ''fe80::1'' else ''fe80::2'') w of
             (Some err, w1) \<Rightarrow> (Inl err, w1)
           | (None, w1) \<Rightarrow> (Inr (comm_channel dpu_mode ifName, 8085), w1)))"

definition doInit ::
    "'w vnet \<Rightarrow> 'w mrvldp \<Rightarrow> bool \<Rightarrow> mrvlVspServer \<times> 'w \<Rightarrow> (string \<times> 32 word) result \<times> mrvlVspServer \<times> 'w" where
  "doInit env dp dpu_mode = (\<lambda>(s, w).
     let s0 = s\<lparr>mv_isDPUMode := dpu_mode, mv_deviceStore := Some []\<rparr>
     in case configureIP env dpu_mode w of
          (Inl err, w1) \<Rightarrow> (Inl err, s0, w1)
        | (Inr ipPort, w1) \<Rightarrow>
            if dpu_mode
            then (case ConfigureNetworkInterface env (s0, w1) of
                    (Some err, sw) \<Rightarrow> (Inl err, mrvl_Stop env dp sw)
                  | (None, s2, w2) \<Rightarrow>
                      let s3 = s2\<lparr>mv_bridgeName := ''br-mrv0''\<rparr>
                      in case dp_Init dp ''br-mrv0'' True w2 of
                           (Some err, w3) \<Rightarrow> (Inl err, mrvl_Stop env dp (s3, w3))
                         | (None, w3) \<Rightarrow> (Inr ipPort, s3, w3))
            else (case GetAllVfsByDeviceID (vn_platform env w1) HostDeviceID of
                    Inl err \<Rightarrow> (Inl err, s0, w1)
                  | Inr _ \<Rightarrow>
                      (case reloadVFs env (s0, w1) of
                         (Some err, s2) \<Rightarrow> (Inl err, s2, w1)
                       | (None, s2) \<Rightarrow> (Inr ipPort, s2\<lparr>mv_portType := ''sriov''\<rparr>, w1))))"

definition mrvl_GetDevices :: "mrvlVspServer \<Rightarrow> DeviceListResponse result" where
  "mrvl_GetDevices s =
     (case mv_deviceStore s of
        None \<Rightarrow> Inl (Errorf ''device Store is empty'' [])
      | Some store \<Rightarrow>
          Inr (fold (\<lambda>(_, d). let i = (if mv_isDPUMode s then mdi_secInterfaceName d else mdi_pciAddress d)
                 in map_put i \<lparr>lcd_ID = i, lcd_Health = mdi_health d, lcd_Node = []\<rparr>) store []))"

definition store_text :: "(string, mrvlDeviceInfo) gomap \<Rightarrow> string" where
  "store_text store = ''map['' @ join '' '' (map (\<lambda>(k, d). k @ '':{'' @ join '' '' [mdi_secInterfaceName d, mdi_dpInterfaceName d,
     mdi_dpMAC d, mdi_portType d, mdi_health d, mdi_pciAddress d] @ ''}'') (sort_key fst store)) @ '']''"

definition mrvl_SetNumVfs :: "'w vnet \<Rightarrow> 32 word \<Rightarrow> mrvlVspServer \<times> 'w \<Rightarrow> 32 word result \<times> mrvlVspServer \<times> 'w" where
  "mrvl_SetNumVfs env vfcnt = (\<lambda>(s, w).
     if mv_isDPUMode s then (Inl (Errorf ''SetNumVfs is not supported in DPU Mode'' []), s, w)
     else case GetPCIByDeviceID (vn_platform env w) HostDeviceID of
       Inl _ \<Rightarrow> (Inl (Errorf ''PCI Address not found'' []), s, w)
     | Inr pciAddress \<Rightarrow>
         if sint vfcnt < 0 then (Inl (Errorf ''invalid VF Count'' []), s, w)
         else
           let echo = \<lambda>n. vn_Run env [''sh'', ''-c'', ''echo '' @ n @ '' > /sys/bus/pci/devices/'' @ pciAddress @ ''/sriov_numvfs'']
           in case echo ''0'' w of
                (Some err, w1) \<Rightarrow> (Inl (Errorf ''failed to reset sriov_numvfs to 0: %v'' [FErr err]), s, w1)
              | (None, w1) \<Rightarrow>
                  (case echo (itoa (sint vfcnt)) w1 of
                     (Some err, w2) \<Rightarrow> (Inl (Errorf ''failed to set sriov_numvfs to %v: %v'' [FInt (sint vfcnt), FErr err]), s, w2)
                   | (None, w2) \<Rightarrow>
                       (case reloadVFs env (s, w2) of
                          (Some err, s2) \<Rightarrow> (Inl (Errorf ''failed to load VFs after creating them: %v'' [FErr err]), s2, w2)
                        | (None, s2) \<Rightarrow>
                            let store = (case mv_deviceStore s2 of Some m \<Rightarrow> m | None \<Rightarrow> [])
                            in if int (length store) \<noteq> sint vfcnt
                               then (Inl (Errorf ''failed to load expected number %v of VFs but got %v'' [FInt (sint vfcnt), FStr (store_text store)]), s2, w2)
                               else (Inr vfcnt, s2, w2))))"

section \<open>Bridge ports and network functions\<close>

definition getVFDetails :: "'w vnet \<Rightarrow> string \<Rightarrow> 'w \<Rightarrow> (string \<times> string) result" where
  "getVFDetails env portName w =
     (case find_host_match portName of
        None \<Rightarrow> Inl (Errorf ''no VFId Match Found'' [])
      | Some (a, b) \<Rightarrow>
          (case atoi a of
             None \<Rightarrow> Inl (atoi_error a)
           | Some pfid \<Rightarrow>
               (case atoi b of
                  None \<Rightarrow> Inl (atoi_error b)
                | Some vfId \<Rightarrow>
                    (case Mapped_VF (vn_platform env w) 1 0 (wrap64 (vfId + 1)) of
                       Inl err \<Rightarrow> Inl err
                     | Inr vfPciAddress \<Rightarrow>
                         if vfPciAddress = [] then Inl (Errorf ''mapped VF not found'' [])
                         else (case GetNameByPCI env vfPciAddress w of
                                 Inl err \<Rightarrow> Inl err
                               | Inr vfName \<Rightarrow> Inr (vfName, vfPciAddress))))))"

text \<open>The three rules of a virtual function.\<close>

definition add_vf_flows :: "'w mrvldp \<Rightarrow> string \<Rightarrow> string \<Rightarrow> string \<Rightarrow> vfInfo \<Rightarrow> 'w \<Rightarrow> go_error option \<times> 'w" where
  "add_vf_flows dp br inp out vf w =
     and_then (dp_AddFlow dp br (vfi_vfName vf) inp [] w) (\<lambda>e. e)
       (\<lambda>w. and_then (dp_AddFlow dp br inp (vfi_vfName vf) (vfi_mac vf) w) (\<lambda>e. e)
          (dp_AddFlow dp br out out (vfi_mac vf)))"

definition store_port :: "vfInfo \<Rightarrow> mrvlVspServer \<Rightarrow> mrvlVspServer" where
  "store_port vf s =
     s\<lparr>mv_networkStore := map_put NfName ((nf_entry s NfName)\<lparr>nfp_vfPort := nfp_vfPort (nf_entry s NfName) @ [vf]\<rparr>) (mv_networkStore s)\<rparr>"

definition mrvl_CreateBridgePort ::
    "'w vnet \<Rightarrow> 'w mrvldp \<Rightarrow> CreateBridgePortRequest \<Rightarrow> mrvlVspServer \<times> 'w \<Rightarrow> opi_BridgePort result \<times> mrvlVspServer \<times> 'w" where
  "mrvl_CreateBridgePort env dp req = (\<lambda>(s, w).
     case cbp_BridgePort req of
       None \<Rightarrow> (Inl (Panic ''nil pointer dereference''), s, w)
     | Some port \<Rightarrow>
         (case getVFDetails env (obp_Name port) w of
            Inl err \<Rightarrow> (Inl err, s, w)
          | Inr (vfName, _) \<Rightarrow>
              (case dp_AddPort dp (mv_bridgeName s) vfName w of
                 (Some err, w1) \<Rightarrow> (Inl err, s, w1)
               | (None, w1) \<Rightarrow>
                   (case obp_Spec port of
                      None \<Rightarrow> (Inl (Panic ''nil pointer dereference''), s, w1)
                    | Some spec \<Rightarrow>
                        let vf = \<lparr>vfi_vfName = vfName, vfi_mac = HardwareAddr_String (MacAddress spec)\<rparr>;
                            s1 = store_port vf s; nf = nf_entry s1 NfName;
                            answer = \<lparr>obp_Name = ''bridge_port/'' @ obp_Name port, obp_Spec = Some spec\<rparr>
                        in if mv_isNF s
                           then (case add_vf_flows dp (mv_bridgeName s) (nfp_inpPort nf) (nfp_outPort nf) vf w1 of
                                   (Some err, w2) \<Rightarrow> (Inl err, s1, w2)
                                 | (None, w2) \<Rightarrow> (Inr answer, s1, w2))
                           else (Inr answer, s1, w1)))))"

fun remove_vf :: "string \<Rightarrow> vfInfo list \<Rightarrow> vfInfo list" where
  "remove_vf name [] = []"
| "remove_vf name (vf # vfs) = (if vfi_vfName vf = name then vfs else vf # remove_vf name vfs)"

definition drop_port :: "string \<Rightarrow> mrvlVspServer \<Rightarrow> mrvlVspServer" where
  "drop_port vfName s =
     (case map_get (mv_networkStore s) NfName of
        None \<Rightarrow> s
      | Some nf \<Rightarrow> s\<lparr>mv_networkStore := map_put NfName (nf\<lparr>nfp_vfPort := remove_vf vfName (nfp_vfPort nf)\<rparr>) (mv_networkStore s)\<rparr>)"

definition vf_mac :: "string \<Rightarrow> vfInfo list \<Rightarrow> string" where
  "vf_mac name vfs = (case List.find (\<lambda>vf. vfi_vfName vf = name) vfs of Some vf \<Rightarrow> vfi_mac vf | None \<Rightarrow> [])"

text \<open>When the second or third rule cannot be deleted, the code returns no error and keeps the port.\<close>

definition mrvl_DeleteBridgePort ::
    "'w vnet \<Rightarrow> 'w mrvldp \<Rightarrow> string \<Rightarrow> mrvlVspServer \<times> 'w \<Rightarrow> go_error option \<times> mrvlVspServer \<times> 'w" where
  "mrvl_DeleteBridgePort env dp name = (\<lambda>(s, w).
     case getVFDetails env name w of
       Inl err \<Rightarrow> (Some err, s, w)
     | Inr (vfName, _) \<Rightarrow>
         let br = mv_bridgeName s; nf = nf_entry s NfName; mac = vf_mac vfName (nfp_vfPort nf);
             finish = (\<lambda>w. case dp_DeletePort dp br vfName w of
                (Some err, w1) \<Rightarrow> (Some err, s, w1) | (None, w1) \<Rightarrow> (None, drop_port vfName s, w1))
         in if \<not> mv_isNF s then finish w
            else (case dp_DeleteFlow dp br vfName [] [] w of
                    (Some err, w1) \<Rightarrow> (Some err, s, w1)
                  | (None, w1) \<Rightarrow>
                      (case dp_DeleteFlow dp br (nfp_outPort nf) (nfp_outPort nf) mac w1 of
                         (Some _, w2) \<Rightarrow> (None, s, w2)
                       | (None, w2) \<Rightarrow>
                           (case dp_DeleteFlow dp br (nfp_inpPort nf) vfName mac w2 of
                              (Some _, w3) \<Rightarrow> (None, s, w3)
                            | (None, w3) \<Rightarrow> finish w3))))"

fun add_all_flows :: "'w mrvldp \<Rightarrow> string \<Rightarrow> string \<Rightarrow> string \<Rightarrow> vfInfo list \<Rightarrow> 'w \<Rightarrow> go_error option \<times> 'w" where
  "add_all_flows dp br inp out [] w = (None, w)"
| "add_all_flows dp br inp out (vf # vfs) w = and_then (add_vf_flows dp br inp out vf w) (\<lambda>e. e) (add_all_flows dp br inp out vfs)"

definition set_nf :: "string \<Rightarrow> string \<Rightarrow> mrvlVspServer \<Rightarrow> mrvlVspServer" where
  "set_nf inp out s =
     s\<lparr>mv_networkStore := map_put NfName ((nf_entry s NfName)\<lparr>nfp_inpPort := inp, nfp_outPort := out\<rparr>) (mv_networkStore s)\<rparr>"

definition AddNetworkFunction ::
    "'w vnet \<Rightarrow> 'w mrvldp \<Rightarrow> string \<Rightarrow> string \<Rightarrow> mrvlVspServer \<times> 'w \<Rightarrow> go_error option \<times> mrvlVspServer \<times> 'w" where
  "AddNetworkFunction env dp inp out = (\<lambda>(s, w).
     let br = mv_bridgeName s
     in case dp_AddPort dp br inp w of
          (Some err, w1) \<Rightarrow> (Some err, s, w1)
        | (None, w1) \<Rightarrow>
            (case dp_AddPort dp br out w1 of
               (Some err, w2) \<Rightarrow> (Some err, s, w2)
             | (None, w2) \<Rightarrow>
                 let s1 = set_nf inp out s
                 in case add_all_flows dp br inp out (nfp_vfPort (nf_entry s NfName)) w2 of
                      (Some err, w3) \<Rightarrow> (Some err, s1, w3)
                    | (None, w3) \<Rightarrow>
                        (case GetNameByDeviceID env DpuRpmDeviceID w3 of
                           Inl err \<Rightarrow> (Some err, s1, w3)
                         | Inr rpm \<Rightarrow>
                             (case and_then (dp_AddFlow dp br out rpm [] w3) (\<lambda>e. e) (dp_AddFlow dp br rpm out []) of
                                (err, w4) \<Rightarrow> (err, s1, w4)))))"

definition mrvl_CreateNetworkFunction ::
    "'w vnet \<Rightarrow> 'w mrvldp \<Rightarrow> string \<times> string \<Rightarrow> mrvlVspServer \<times> 'w \<Rightarrow> go_error option \<times> mrvlVspServer \<times> 'w" where
  "mrvl_CreateNetworkFunction env dp = (\<lambda>(input, output) (s, w).
     AddNetworkFunction env dp (dp_interface s input) (dp_interface s output) (s\<lparr>mv_isNF := True\<rparr>, w))"

fun delete_vf_flows :: "'w mrvldp \<Rightarrow> string \<Rightarrow> string \<Rightarrow> vfInfo list \<Rightarrow> 'w \<Rightarrow> go_error option \<times> 'w" where
  "delete_vf_flows dp br inp [] w = (None, w)"
| "delete_vf_flows dp br inp (vf # vfs) w =
     and_then (dp_DeleteFlow dp br (vfi_vfName vf) inp [] w) (\<lambda>e. e) (delete_vf_flows dp br inp vfs)"

definition DeleteNetworkFunctionPort ::
    "'w vnet \<Rightarrow> 'w mrvldp \<Rightarrow> string \<Rightarrow> string \<Rightarrow> mrvlVspServer \<Rightarrow> 'w \<Rightarrow> go_error option \<times> 'w" where
  "DeleteNetworkFunctionPort env dp inp out s w =
     (let br = mv_bridgeName s
      in and_then (delete_vf_flows dp br inp (nfp_vfPort (nf_entry s NfName)) w) (\<lambda>e. e)
        (\<lambda>w. and_then (dp_DeleteFlow dp br inp [] [] w) (\<lambda>e. e)
        (\<lambda>w. and_then (dp_DeleteFlow dp br out [] [] w) (\<lambda>e. e)
        (\<lambda>w. case GetNameByDeviceID env DpuRpmDeviceID w of
               Inl err \<Rightarrow> (Some err, w)
             | Inr rpm \<Rightarrow>
                 and_then (dp_DeleteFlow dp br rpm [] [] w) (\<lambda>e. e)
                 (\<lambda>w. and_then (dp_DeletePort dp br inp w) (\<lambda>e. e) (dp_DeletePort dp br out))))))"

definition mrvl_DeleteNetworkFunction ::
    "'w vnet \<Rightarrow> 'w mrvldp \<Rightarrow> string \<times> string \<Rightarrow> mrvlVspServer \<times> 'w \<Rightarrow> go_error option \<times> mrvlVspServer \<times> 'w" where
  "mrvl_DeleteNetworkFunction env dp = (\<lambda>(input, output) (s, w).
     let s1 = s\<lparr>mv_isNF := False\<rparr>
     in case DeleteNetworkFunctionPort env dp (dp_interface s input) (dp_interface s output) s1 w of (err, w1) \<Rightarrow> (err, s1, w1))"

text \<open>The process as the daemon calls it.\<close>

definition marvell_service :: "'w vnet \<Rightarrow> 'w mrvldp \<Rightarrow> (mrvlVspServer \<times> 'w) vsp_service" where
  "marvell_service env dp =
     \<lparr>vsp_Init = (\<lambda>(dpu_mode, _). doInit env dp dpu_mode),
      vsp_CreateBridgePort = mrvl_CreateBridgePort env dp, vsp_DeleteBridgePort = mrvl_DeleteBridgePort env dp,
      vsp_CreateNetworkFunction = mrvl_CreateNetworkFunction env dp,
      vsp_DeleteNetworkFunction = mrvl_DeleteNetworkFunction env dp,
      vsp_GetDevices = (\<lambda>(s, w). (mrvl_GetDevices s, s, w)), vsp_SetNumVfs = mrvl_SetNumVfs env\<rparr>"

section \<open>Flow tables\<close>

text \<open>A table maps priority, input port and destination address (empty for none) to an action. A rule with a
  destination address has the default priority, unless it sends packets back to where they came from.\<close>

type_synonym flow_key = "int \<times> string \<times> string"

type_synonym flow_table = "flow_key \<rightharpoonup> string"

definition rule_key :: "string \<Rightarrow> string \<Rightarrow> string \<Rightarrow> flow_key" where
  "rule_key src dst mac = (if mac = [] then 10 else if src = dst then 100 else 32768, src, mac)"

definition rule_action :: "string \<Rightarrow> string \<Rightarrow> string \<Rightarrow> string" where
  "rule_action src dst mac = (if mac \<noteq> [] \<and> src = dst then ''in_port'' else ''output:'' @ dst)"

definition del_flows :: "string \<Rightarrow> string \<Rightarrow> flow_table \<Rightarrow> flow_table" where
  "del_flows src mac t = (\<lambda>(p, i, d). if i = src \<and> (mac = [] \<or> d = mac) then None else t (p, i, d))"

text \<open>What the data plane promises for a bridge whose ports have names without commas: its operations succeed
  and change nothing else that the process reads.\<close>

definition nice :: "string \<Rightarrow> bool" where
  "nice name \<longleftrightarrow> name \<noteq> [] \<and> CHR '','' \<notin> set name"

definition same_host :: "'w vnet \<Rightarrow> 'w \<Rightarrow> 'w \<Rightarrow> bool" where
  "same_host env w w' \<longleftrightarrow> vn_platform env w' = vn_platform env w \<and> (\<forall>p. vn_ReadDir env p w' = vn_ReadDir env p w)"

definition plane_ok :: "'w vnet \<Rightarrow> 'w mrvldp \<Rightarrow> string \<Rightarrow> ('w \<Rightarrow> flow_table) \<Rightarrow> bool" where
  "plane_ok env dp br tab \<longleftrightarrow>
     (\<forall>src dst mac w. nice src \<longrightarrow> nice dst \<longrightarrow> (mac = [] \<or> nice mac) \<longrightarrow>
        (\<exists>w'. dp_AddFlow dp br src dst mac w = (None, w') \<and> same_host env w w' \<and>
           tab w' = (tab w)(rule_key src dst mac \<mapsto> rule_action src dst mac))) \<and>
     (\<forall>src dst mac w. nice src \<longrightarrow> (mac = [] \<or> nice mac) \<longrightarrow>
        (\<exists>w'. dp_DeleteFlow dp br src dst mac w = (None, w') \<and> same_host env w w' \<and> tab w' = del_flows src mac (tab w))) \<and>
     (\<forall>port w. nice port \<longrightarrow>
        (\<exists>w'. dp_AddPort dp br port w = (None, w') \<and> same_host env w w' \<and> tab w' = tab w) \<and>
        (\<exists>w'. dp_DeletePort dp br port w = (None, w') \<and> same_host env w w' \<and> tab w' = tab w))"

lemma same_host_refl [simp]: "same_host env w w"
  by (simp add: same_host_def)

lemma same_host_trans: "same_host env u v \<Longrightarrow> same_host env v w \<Longrightarrow> same_host env u w"
  by (simp add: same_host_def)

lemma same_host_reads:
  assumes "same_host env w w'"
  shows "GetNameByDeviceID env i w' = GetNameByDeviceID env i w" "getVFDetails env name w' = getVFDetails env name w"
proof -
  have eq: "vn_platform env w' = vn_platform env w" "\<And>a. GetNameByPCI env a w' = GetNameByPCI env a w"
    using assms by (simp_all add: same_host_def GetNameByPCI_def)
  show "GetNameByDeviceID env i w' = GetNameByDeviceID env i w" by (simp add: GetNameByDeviceID_def eq split: sum.split)
  show "getVFDetails env name w' = getVFDetails env name w" by (simp add: getVFDetails_def eq split: sum.split option.split)
qed

locale working_dataplane =
  fixes env :: "'w vnet" and dp :: "'w mrvldp" and br :: string and tab :: "'w \<Rightarrow> flow_table"
  assumes works: "plane_ok env dp br tab"
begin

lemma add_flow:
  assumes "nice src" "nice dst" "mac = [] \<or> nice mac"
  obtains w' where "dp_AddFlow dp br src dst mac w = (None, w')" "same_host env w w'"
    "tab w' = (tab w)(rule_key src dst mac \<mapsto> rule_action src dst mac)"
  using works [unfolded plane_ok_def, THEN conjunct1, rule_format, OF assms] that by blast

lemma del_flow:
  assumes "nice src" "mac = [] \<or> nice mac"
  obtains w' where "dp_DeleteFlow dp br src dst mac w = (None, w')" "same_host env w w'" "tab w' = del_flows src mac (tab w)"
  using works [unfolded plane_ok_def, THEN conjunct2, THEN conjunct1, rule_format, OF assms] that by blast

lemma add_port:
  assumes "nice port"
  obtains w' where "dp_AddPort dp br port w = (None, w')" "same_host env w w'" "tab w' = tab w"
  using works [unfolded plane_ok_def, THEN conjunct2, THEN conjunct2, THEN spec, THEN spec, THEN mp, THEN conjunct1, OF assms] that by blast

lemma del_port:
  assumes "nice port"
  obtains w' where "dp_DeletePort dp br port w = (None, w')" "same_host env w w'" "tab w' = tab w"
  using works [unfolded plane_ok_def, THEN conjunct2, THEN conjunct2, THEN spec, THEN spec, THEN mp, THEN conjunct2, OF assms] that by blast

end

section \<open>The rules that should be there\<close>

definition vf_ok :: "vfInfo \<Rightarrow> bool" where
  "vf_ok vf \<longleftrightarrow> nice (vfi_vfName vf) \<and> nice (vfi_mac vf)"

definition expected :: "string \<Rightarrow> string \<Rightarrow> string \<Rightarrow> vfInfo list \<Rightarrow> flow_table" where
  "expected rpm inp out vfs = (\<lambda>(p, i, d).
     if p = 10 \<and> d = []
     then (if i = out then Some (''output:'' @ rpm) else if i = rpm then Some (''output:'' @ out)
           else if i \<in> set (map vfi_vfName vfs) then Some (''output:'' @ inp) else None)
     else if p = 32768 \<and> i = inp
     then (case List.find (\<lambda>vf. vfi_mac vf = d) vfs of Some vf \<Rightarrow> Some (''output:'' @ vfi_vfName vf) | None \<Rightarrow> None)
     else if p = 100 \<and> i = out \<and> d \<in> set (map vfi_mac vfs) then Some ''in_port''
     else None)"

definition wanted :: "string \<Rightarrow> mrvlVspServer \<Rightarrow> flow_table" where
  "wanted rpm s =
     (if mv_isNF s then expected rpm (nfp_inpPort (nf_entry s NfName)) (nfp_outPort (nf_entry s NfName)) (nfp_vfPort (nf_entry s NfName))
      else Map.empty)"

text \<open>Rules without an input port, such as the one for normal switching, are left alone.\<close>

definition same_rules :: "flow_table \<Rightarrow> flow_table \<Rightarrow> bool" where
  "same_rules t u \<longleftrightarrow> (\<forall>p i d. i \<noteq> [] \<longrightarrow> t (p, i, d) = u (p, i, d))"

text \<open>Ports and addresses that do not clash.\<close>

definition ports_ok :: "string \<Rightarrow> vfInfo list \<Rightarrow> bool" where
  "ports_ok rpm vfs \<longleftrightarrow> nice rpm \<and> list_all vf_ok vfs \<and> distinct (map vfi_vfName vfs) \<and> distinct (map vfi_mac vfs) \<and>
     rpm \<notin> set (map vfi_vfName vfs)"

definition nf_ok :: "string \<Rightarrow> vfInfo list \<Rightarrow> string \<Rightarrow> string \<Rightarrow> bool" where
  "nf_ok rpm vfs inp out \<longleftrightarrow> nice inp \<and> nice out \<and> inp \<noteq> out \<and> rpm \<notin> {inp, out} \<and>
     inp \<notin> set (map vfi_vfName vfs) \<and> out \<notin> set (map vfi_vfName vfs)"

definition vsp_inv :: "string \<Rightarrow> mrvlVspServer \<Rightarrow> bool" where
  "vsp_inv rpm s \<longleftrightarrow> ports_ok rpm (nfp_vfPort (nf_entry s NfName)) \<and>
     (mv_isNF s \<longrightarrow> nf_ok rpm (nfp_vfPort (nf_entry s NfName)) (nfp_inpPort (nf_entry s NfName)) (nfp_outPort (nf_entry s NfName)))"

lemma nice_not_Nil: "nice a \<Longrightarrow> a \<noteq> []"
  by (simp add: nice_def)

text \<open>The table with the three rules of one more virtual function.\<close>

definition vf_rules :: "string \<Rightarrow> string \<Rightarrow> vfInfo \<Rightarrow> flow_table \<Rightarrow> flow_table" where
  "vf_rules inp out vf t =
     ((t(rule_key (vfi_vfName vf) inp [] \<mapsto> rule_action (vfi_vfName vf) inp []))
       (rule_key inp (vfi_vfName vf) (vfi_mac vf) \<mapsto> rule_action inp (vfi_vfName vf) (vfi_mac vf)))
       (rule_key out out (vfi_mac vf) \<mapsto> rule_action out out (vfi_mac vf))"

lemma vf_rules_same:
  assumes "same_rules t u"
  shows "same_rules (vf_rules inp out vf t) (vf_rules inp out vf u)"
  using assms by (auto simp: same_rules_def vf_rules_def)

lemma expected_snoc:
  assumes "ports_ok rpm (vfs @ [vf])" "nf_ok rpm (vfs @ [vf]) inp out"
  shows "vf_rules inp out vf (expected rpm inp out vfs) = expected rpm inp out (vfs @ [vf])"
proof (rule ext)
  fix k :: flow_key
  obtain p i d where k: "k = (p, i, d)" by (metis prod.exhaust)
  have mac: "vfi_mac vf \<noteq> []" "vfi_mac vf \<notin> set (map vfi_mac vfs)" and name: "vfi_vfName vf \<notin> {inp, out, rpm}"
    using assms by (auto simp: ports_ok_def nf_ok_def vf_ok_def nice_def)
  have "List.find (\<lambda>v. vfi_mac v = vfi_mac vf) vfs = None" using mac(2) by (auto simp: find_None_iff image_iff)
  then show "vf_rules inp out vf (expected rpm inp out vfs) k = expected rpm inp out (vfs @ [vf]) k"
    using assms(2) mac name unfolding k
    by (auto simp: vf_rules_def expected_def rule_key_def rule_action_def nf_ok_def find_append split: option.splits)
qed

lemma remove_vf_filter: "distinct (map vfi_vfName vfs) \<Longrightarrow> remove_vf name vfs = filter (\<lambda>v. vfi_vfName v \<noteq> name) vfs"
proof (induction vfs)
  case (Cons v vfs)
  then show ?case by (auto intro!: filter_True [symmetric] simp: image_iff)
qed simp

lemma same_mac_same_name:
  assumes "distinct (map vfi_vfName vfs)" "distinct (map vfi_mac vfs)" "v \<in> set vfs" "u \<in> set vfs"
  shows "vfi_mac v = vfi_mac u \<longleftrightarrow> vfi_vfName v = vfi_vfName u"
  using assms unfolding distinct_map by (metis inj_onD)

lemma find_filter_None: "(\<And>v. v \<in> set vfs \<Longrightarrow> P v \<Longrightarrow> \<not> Q v) \<Longrightarrow> List.find P (filter Q vfs) = None"
  by (auto simp: find_None_iff)

lemma find_filter_same: "(\<And>v. v \<in> set vfs \<Longrightarrow> P v \<Longrightarrow> Q v) \<Longrightarrow> List.find P (filter Q vfs) = List.find P vfs"
  by (induction vfs) auto

lemma expected_remove:
  assumes ok: "ports_ok rpm vfs" "nf_ok rpm vfs inp out" and vf: "vf \<in> set vfs"
  shows "del_flows inp (vfi_mac vf) (del_flows out (vfi_mac vf) (del_flows (vfi_vfName vf) [] (expected rpm inp out vfs))) =
    expected rpm inp out (remove_vf (vfi_vfName vf) vfs)"
proof (rule ext)
  fix k :: flow_key
  obtain p i d where k: "k = (p, i, d)" by (metis prod.exhaust)
  have dist: "distinct (map vfi_vfName vfs)" "distinct (map vfi_mac vfs)" using ok(1) by (simp_all add: ports_ok_def)
  have mac: "vfi_mac vf \<noteq> []" using ok(1) vf by (auto simp: ports_ok_def list_all_iff vf_ok_def nice_def)
  have names: "vfi_vfName vf \<noteq> inp" "vfi_vfName vf \<noteq> out" "vfi_vfName vf \<noteq> rpm" "inp \<noteq> out" "rpm \<noteq> inp" "rpm \<noteq> out"
    using ok vf by (auto simp: ports_ok_def nf_ok_def)
  let ?rest = "filter (\<lambda>v. vfi_vfName v \<noteq> vfi_vfName vf) vfs"
  have find: "List.find (\<lambda>v. vfi_mac v = d) ?rest = (if d = vfi_mac vf then None else List.find (\<lambda>v. vfi_mac v = d) vfs)"
    using same_mac_same_name [OF dist _ vf] by (auto intro!: find_filter_None find_filter_same)
  have macs: "d \<in> set (map vfi_mac ?rest) \<longleftrightarrow> d \<noteq> vfi_mac vf \<and> d \<in> set (map vfi_mac vfs)"
    using same_mac_same_name [OF dist _ vf] by auto
  have nm: "\<And>j. j \<in> set (map vfi_vfName ?rest) \<longleftrightarrow> j \<noteq> vfi_vfName vf \<and> j \<in> set (map vfi_vfName vfs)" by auto
  show "del_flows inp (vfi_mac vf) (del_flows out (vfi_mac vf) (del_flows (vfi_vfName vf) [] (expected rpm inp out vfs))) k =
    expected rpm inp out (remove_vf (vfi_vfName vf) vfs) k"
    unfolding k remove_vf_filter [OF dist(1)] expected_def del_flows_def prod.case nm macs find
    using mac names by (simp del: set_map)
qed

text \<open>The rules of the network function itself.\<close>

definition nf_rules :: "string \<Rightarrow> string \<Rightarrow> flow_table \<Rightarrow> flow_table" where
  "nf_rules rpm out t = (t(rule_key out rpm [] \<mapsto> rule_action out rpm []))(rule_key rpm out [] \<mapsto> rule_action rpm out [])"

lemma nf_rules_vf_rules:
  assumes "ports_ok rpm [vf]" "nf_ok rpm [vf] inp out"
  shows "nf_rules rpm out (vf_rules inp out vf t) = vf_rules inp out vf (nf_rules rpm out t)"
  using assms by (auto simp: nf_rules_def vf_rules_def rule_key_def ports_ok_def nf_ok_def vf_ok_def nice_def fun_eq_iff)

lemma expected_build:
  assumes "ports_ok rpm vfs" "nf_ok rpm vfs inp out"
  shows "nf_rules rpm out (fold (vf_rules inp out) vfs Map.empty) = expected rpm inp out vfs"
  using assms
proof (induction vfs rule: rev_induct)
  case Nil
  then show ?case by (auto simp: nf_rules_def expected_def rule_key_def rule_action_def fun_eq_iff nf_ok_def)
next
  case (snoc vf vfs)
  have "ports_ok rpm vfs" "nf_ok rpm vfs inp out" "ports_ok rpm [vf]" "nf_ok rpm [vf] inp out"
    using snoc.prems by (auto simp: ports_ok_def nf_ok_def)
  then show ?case using snoc expected_snoc [OF snoc.prems] by (simp add: nf_rules_vf_rules)
qed

lemma expected_dom: "i \<notin> {inp, out, rpm} \<union> set (map vfi_vfName vfs) \<Longrightarrow> expected rpm inp out vfs (p, i, d) = None"
  by (auto simp: expected_def)

lemma fold_del_flows:
  "fold (\<lambda>vf. del_flows (vfi_vfName vf) []) vfs t (p, i, d) = (if i \<in> set (map vfi_vfName vfs) then None else t (p, i, d))"
  by (induction vfs arbitrary: t) (auto simp: del_flows_def)

lemma expected_clear:
  "del_flows rpm [] (del_flows out [] (del_flows inp [] (fold (\<lambda>vf. del_flows (vfi_vfName vf) []) vfs (expected rpm inp out vfs)))) = Map.empty"
proof (rule ext)
  fix k :: flow_key
  obtain p i d where k: "k = (p, i, d)" by (metis prod.exhaust)
  show "del_flows rpm [] (del_flows out [] (del_flows inp [] (fold (\<lambda>vf. del_flows (vfi_vfName vf) []) vfs (expected rpm inp out vfs)))) k = None"
    using expected_dom [of i inp out rpm vfs p d] unfolding k by (auto simp: del_flows_def fold_del_flows)
qed

lemma same_rules_ops:
  assumes "same_rules t u"
  shows "same_rules (del_flows src mac t) (del_flows src mac u)" "same_rules (nf_rules rpm out t) (nf_rules rpm out u)"
  using assms by (auto simp: same_rules_def del_flows_def nf_rules_def)

lemma same_rules_fold:
  assumes "\<And>x t u. same_rules t u \<Longrightarrow> same_rules (f x t) (f x u)" "same_rules t u"
  shows "same_rules (fold f xs t) (fold f xs u)"
  using assms(2) by (induction xs arbitrary: t u) (auto intro: assms(1))

lemma same_rules_folds:
  assumes "same_rules t u"
  shows "same_rules (fold (vf_rules inp out) vfs t) (fold (vf_rules inp out) vfs u)"
    "same_rules (fold (\<lambda>vf. del_flows (vfi_vfName vf) []) vfs t) (fold (\<lambda>vf. del_flows (vfi_vfName vf) []) vfs u)"
  using assms by (auto intro!: same_rules_fold vf_rules_same same_rules_ops)

section \<open>Requests\<close>

datatype mrvl_req = PortAdd CreateBridgePortRequest | PortDel string | NfAdd "string \<times> string" | NfDel "string \<times> string"

fun mrvl_handle :: "'w vnet \<Rightarrow> 'w mrvldp \<Rightarrow> mrvl_req \<Rightarrow> mrvlVspServer \<times> 'w \<Rightarrow> go_error option \<times> mrvlVspServer \<times> 'w" where
  "mrvl_handle env dp (PortAdd req) sw =
     (case mrvl_CreateBridgePort env dp req sw of (Inl err, sw1) \<Rightarrow> (Some err, sw1) | (Inr _, sw1) \<Rightarrow> (None, sw1))"
| "mrvl_handle env dp (PortDel name) sw = mrvl_DeleteBridgePort env dp name sw"
| "mrvl_handle env dp (NfAdd nf) sw = mrvl_CreateNetworkFunction env dp nf sw"
| "mrvl_handle env dp (NfDel nf) sw = mrvl_DeleteNetworkFunction env dp nf sw"

text \<open>Requests that make sense: a port that is not there yet and whose name and address clash with none, a port
  that is there, a network function when there is none, between two known devices, and the end of the one
  that is there.\<close>

definition nf_vfs :: "mrvlVspServer \<Rightarrow> vfInfo list" where
  "nf_vfs s = nfp_vfPort (nf_entry s NfName)"

definition nf_inp :: "mrvlVspServer \<Rightarrow> string" where
  "nf_inp s = nfp_inpPort (nf_entry s NfName)"

definition nf_out :: "mrvlVspServer \<Rightarrow> string" where
  "nf_out s = nfp_outPort (nf_entry s NfName)"

fun proper :: "'w vnet \<Rightarrow> string \<Rightarrow> mrvl_req \<Rightarrow> mrvlVspServer \<Rightarrow> 'w \<Rightarrow> bool" where
  "proper env rpm (PortAdd req) s w =
     (case cbp_BridgePort req of
        None \<Rightarrow> False
      | Some port \<Rightarrow>
          (case (obp_Spec port, getVFDetails env (obp_Name port) w) of
             (Some spec, Inr (vfName, _)) \<Rightarrow>
               let vfs = nf_vfs s @ [\<lparr>vfi_vfName = vfName, vfi_mac = HardwareAddr_String (MacAddress spec)\<rparr>]
               in ports_ok rpm vfs \<and> (mv_isNF s \<longrightarrow> nf_ok rpm vfs (nf_inp s) (nf_out s))
           | _ \<Rightarrow> False))"
| "proper env rpm (PortDel name) s w =
     (case getVFDetails env name w of Inr (vfName, _) \<Rightarrow> vfName \<in> set (map vfi_vfName (nf_vfs s)) | Inl _ \<Rightarrow> False)"
| "proper env rpm (NfAdd (i, o')) s w = (\<not> mv_isNF s \<and> nf_ok rpm (nf_vfs s) (dp_interface s i) (dp_interface s o'))"
| "proper env rpm (NfDel (i, o')) s w = (mv_isNF s \<and> dp_interface s i = nf_inp s \<and> dp_interface s o' = nf_out s)"

fun mrvl_run :: "'w vnet \<Rightarrow> 'w mrvldp \<Rightarrow> mrvl_req list \<Rightarrow> mrvlVspServer \<times> 'w \<Rightarrow> go_error option list \<times> mrvlVspServer \<times> 'w" where
  "mrvl_run env dp [] sw = ([], sw)"
| "mrvl_run env dp (req # reqs) sw =
     (case mrvl_handle env dp req sw of (err, sw1) \<Rightarrow> (case mrvl_run env dp reqs sw1 of (errs, sw2) \<Rightarrow> (err # errs, sw2)))"

fun proper_run :: "'w vnet \<Rightarrow> 'w mrvldp \<Rightarrow> string \<Rightarrow> mrvl_req list \<Rightarrow> mrvlVspServer \<times> 'w \<Rightarrow> bool" where
  "proper_run env dp rpm [] sw = True"
| "proper_run env dp rpm (req # reqs) sw =
     (proper env rpm req (fst sw) (snd sw) \<and> proper_run env dp rpm reqs (snd (mrvl_handle env dp req sw)))"

text \<open>What holds between two requests.\<close>

definition vsp_good :: "'w vnet \<Rightarrow> string \<Rightarrow> ('w \<Rightarrow> flow_table) \<Rightarrow> string \<Rightarrow> mrvlVspServer \<times> 'w \<Rightarrow> bool" where
  "vsp_good env br tab rpm = (\<lambda>(s, w). mv_bridgeName s = br \<and> vsp_inv rpm s \<and> GetNameByDeviceID env DpuRpmDeviceID w = Inr rpm \<and>
     same_rules (tab w) (wanted rpm s))"

lemma nf_entry_put [simp]:
  "nf_entry (s\<lparr>mv_networkStore := map_put NfName nf (mv_networkStore s)\<rparr>) NfName = nf" "nf_entry (s\<lparr>mv_isNF := b\<rparr>) name = nf_entry s name"
  by (simp_all add: nf_entry_def)

lemma drop_port_entry: "nf_vfs (drop_port name s) = remove_vf name (nf_vfs s)" "nf_inp (drop_port name s) = nf_inp s"
  "nf_out (drop_port name s) = nf_out s" "mv_isNF (drop_port name s) = mv_isNF s" "mv_bridgeName (drop_port name s) = mv_bridgeName s"
  by (auto simp: drop_port_def nf_vfs_def nf_inp_def nf_out_def nf_entry_def split: option.splits)

lemma remove_vf_subset: "set (remove_vf name vfs) \<subseteq> set vfs"
  by (induction vfs) auto

lemma ports_ok_remove: "ports_ok rpm vfs \<Longrightarrow> ports_ok rpm (remove_vf name vfs)"
  "nf_ok rpm vfs inp out \<Longrightarrow> ports_ok rpm vfs \<Longrightarrow> nf_ok rpm (remove_vf name vfs) inp out"
  using remove_vf_filter [of vfs name]
  by (auto simp: ports_ok_def nf_ok_def list_all_iff distinct_map_filter)

context working_dataplane
begin

lemma add_vf:
  assumes "vf_ok vf" "nice inp" "nice out"
  obtains w' where "add_vf_flows dp br inp out vf w = (None, w')" "same_host env w w'" "tab w' = vf_rules inp out vf (tab w)"
proof -
  have n: "nice (vfi_vfName vf)" "nice (vfi_mac vf)" using assms(1) by (simp_all add: vf_ok_def)
  obtain w1 where 1: "dp_AddFlow dp br (vfi_vfName vf) inp [] w = (None, w1)" "same_host env w w1"
    "tab w1 = (tab w)(rule_key (vfi_vfName vf) inp [] \<mapsto> rule_action (vfi_vfName vf) inp [])"
    using add_flow [OF n(1) assms(2), of "[]" w] by auto
  obtain w2 where 2: "dp_AddFlow dp br inp (vfi_vfName vf) (vfi_mac vf) w1 = (None, w2)" "same_host env w1 w2"
    "tab w2 = (tab w1)(rule_key inp (vfi_vfName vf) (vfi_mac vf) \<mapsto> rule_action inp (vfi_vfName vf) (vfi_mac vf))"
    using add_flow [OF assms(2) n(1), of "vfi_mac vf" w1] n(2) by auto
  obtain w3 where 3: "dp_AddFlow dp br out out (vfi_mac vf) w2 = (None, w3)" "same_host env w2 w3"
    "tab w3 = (tab w2)(rule_key out out (vfi_mac vf) \<mapsto> rule_action out out (vfi_mac vf))"
    using add_flow [OF assms(3) assms(3), of "vfi_mac vf" w2] n(2) by auto
  have "same_host env w w3" using 1(2) 2(2) 3(2) same_host_trans by metis
  then show ?thesis using that 1 2 3 by (auto simp: add_vf_flows_def and_then_def vf_rules_def)
qed

lemma add_all:
  assumes "list_all vf_ok vfs" "nice inp" "nice out"
  shows "\<exists>w'. add_all_flows dp br inp out vfs w = (None, w') \<and> same_host env w w' \<and> tab w' = fold (vf_rules inp out) vfs (tab w)"
  using assms(1)
proof (induction vfs arbitrary: w)
  case (Cons vf vfs)
  then have ok: "vf_ok vf" "list_all vf_ok vfs" by simp_all
  obtain w1 where 1: "add_vf_flows dp br inp out vf w = (None, w1)" "same_host env w w1" "tab w1 = vf_rules inp out vf (tab w)"
    using ok(1) assms(2,3) by (rule add_vf)
  obtain w2 where 2: "add_all_flows dp br inp out vfs w1 = (None, w2)" "same_host env w1 w2" "tab w2 = fold (vf_rules inp out) vfs (tab w1)"
    using Cons.IH [OF ok(2), of w1] by blast
  then show ?case using 1 same_host_trans [OF 1(2) 2(2)] by (simp add: and_then_def)
qed simp

lemma delete_vfs:
  assumes "list_all vf_ok vfs"
  shows "\<exists>w'. delete_vf_flows dp br inp vfs w = (None, w') \<and> same_host env w w' \<and>
    tab w' = fold (\<lambda>vf. del_flows (vfi_vfName vf) []) vfs (tab w)"
  using assms
proof (induction vfs arbitrary: w)
  case (Cons vf vfs)
  have "vf_ok vf" and rest: "list_all vf_ok vfs" using Cons.prems by simp_all
  then have n: "nice (vfi_vfName vf)" by (simp add: vf_ok_def)
  obtain w1 where 1: "dp_DeleteFlow dp br (vfi_vfName vf) inp [] w = (None, w1)" "same_host env w w1" "tab w1 = del_flows (vfi_vfName vf) [] (tab w)"
    using del_flow [OF n, of "[]" inp w] by auto
  obtain w2 where 2: "delete_vf_flows dp br inp vfs w1 = (None, w2)" "same_host env w1 w2"
    "tab w2 = fold (\<lambda>vf. del_flows (vfi_vfName vf) []) vfs (tab w1)"
    using Cons.IH [OF rest, of w1] by blast
  then show ?case using 1 same_host_trans [OF 1(2) 2(2)] by (simp add: and_then_def)
qed simp

end

lemma vsp_inv_vfs:
  "vsp_inv rpm s \<longleftrightarrow> ports_ok rpm (nf_vfs s) \<and> (mv_isNF s \<longrightarrow> nf_ok rpm (nf_vfs s) (nf_inp s) (nf_out s))"
  by (simp add: vsp_inv_def nf_vfs_def nf_inp_def nf_out_def)

lemma wanted_vfs: "wanted rpm s = (if mv_isNF s then expected rpm (nf_inp s) (nf_out s) (nf_vfs s) else Map.empty)"
  by (simp add: wanted_def nf_vfs_def nf_inp_def nf_out_def)

lemma store_port_entry: "nf_vfs (store_port vf s) = nf_vfs s @ [vf]" "nf_inp (store_port vf s) = nf_inp s"
  "nf_out (store_port vf s) = nf_out s" "mv_isNF (store_port vf s) = mv_isNF s" "mv_bridgeName (store_port vf s) = mv_bridgeName s"
  by (simp_all add: store_port_def nf_vfs_def nf_inp_def nf_out_def)

lemma set_nf_entry: "nf_vfs (set_nf inp out s) = nf_vfs s" "nf_inp (set_nf inp out s) = inp"
  "nf_out (set_nf inp out s) = out" "mv_isNF (set_nf inp out s) = mv_isNF s" "mv_bridgeName (set_nf inp out s) = mv_bridgeName s"
  by (simp_all add: set_nf_def nf_vfs_def nf_inp_def nf_out_def)

lemma isNF_entry: "nf_vfs (s\<lparr>mv_isNF := b\<rparr>) = nf_vfs s" "nf_inp (s\<lparr>mv_isNF := b\<rparr>) = nf_inp s" "nf_out (s\<lparr>mv_isNF := b\<rparr>) = nf_out s"
  by (simp_all add: nf_vfs_def nf_inp_def nf_out_def)

lemma same_rules_eq: "same_rules t u \<Longrightarrow> u = v \<Longrightarrow> same_rules t v"
  by simp

context working_dataplane
begin

lemma good_same_host:
  assumes "vsp_good env br tab rpm (s, w)" "same_host env w w'" "mv_bridgeName s' = br" "vsp_inv rpm s'" "same_rules (tab w') (wanted rpm s')"
  shows "vsp_good env br tab rpm (s', w')"
  using assms same_host_reads(1) [OF assms(2)] by (simp add: vsp_good_def)

lemma port_add_good:
  assumes good: "vsp_good env br tab rpm (s, w)" and proper: "proper env rpm (PortAdd req) s w"
  obtains sw where "mrvl_handle env dp (PortAdd req) (s, w) = (None, sw)" "vsp_good env br tab rpm sw" "same_host env w (snd sw)"
proof -
  obtain port spec vfName pci where req: "cbp_BridgePort req = Some port" "obp_Spec port = Some spec"
      "getVFDetails env (obp_Name port) w = Inr (vfName, pci)"
    using proper by (auto split: option.splits sum.splits)
  let ?vf = "\<lparr>vfi_vfName = vfName, vfi_mac = HardwareAddr_String (MacAddress spec)\<rparr>"
  have ok: "ports_ok rpm (nf_vfs s @ [?vf])" "mv_isNF s \<Longrightarrow> nf_ok rpm (nf_vfs s @ [?vf]) (nf_inp s) (nf_out s)"
    using proper by (simp_all add: req Let_def)
  have vf: "vf_ok ?vf" "nice vfName" using ok(1) by (auto simp: ports_ok_def vf_ok_def)
  have br: "mv_bridgeName s = br" and rules: "same_rules (tab w) (wanted rpm s)" using good by (simp_all add: vsp_good_def)
  obtain w1 where 1: "dp_AddPort dp br vfName w = (None, w1)" "same_host env w w1" "tab w1 = tab w" using vf(2) by (rule add_port)
  have inv: "vsp_inv rpm (store_port ?vf s)" using ok by (simp add: vsp_inv_vfs store_port_entry)
  show ?thesis
  proof (cases "mv_isNF s")
    case False
    have "vsp_good env br tab rpm (store_port ?vf s, w1)"
      using False rules by (intro good_same_host [OF good 1(2) _ inv]) (simp_all add: store_port_entry br wanted_vfs 1(3))
    then show ?thesis using that False req 1(1,2) br by (simp add: mrvl_CreateBridgePort_def Let_def)
  next
    case True
    have nice: "nice (nf_inp s)" "nice (nf_out s)" using ok(2) [OF True] by (simp_all add: nf_ok_def)
    obtain w2 where 2: "add_vf_flows dp br (nf_inp s) (nf_out s) ?vf w1 = (None, w2)" "same_host env w1 w2"
      "tab w2 = vf_rules (nf_inp s) (nf_out s) ?vf (tab w1)" using vf(1) nice by (rule add_vf)
    have "same_rules (tab w2) (wanted rpm (store_port ?vf s))"
      using vf_rules_same [OF rules, of "nf_inp s" "nf_out s" ?vf] expected_snoc [OF ok(1) ok(2) [OF True]] True
      by (simp add: wanted_vfs store_port_entry 2(3) 1(3))
    then have "vsp_good env br tab rpm (store_port ?vf s, w2)"
      by (intro good_same_host [OF good same_host_trans [OF 1(2) 2(2)] _ inv]) (simp_all add: store_port_entry br)
    moreover have "nfp_inpPort (nf_entry (store_port ?vf s) NfName) = nf_inp s" "nfp_outPort (nf_entry (store_port ?vf s) NfName) = nf_out s"
      by (simp_all add: store_port_def nf_inp_def nf_out_def)
    ultimately show ?thesis using that True req 1(1) 2(1) br same_host_trans [OF 1(2) 2(2)] by (simp add: mrvl_CreateBridgePort_def Let_def)
  qed
qed

lemma port_del_good:
  assumes good: "vsp_good env br tab rpm (s, w)" and proper: "proper env rpm (PortDel name) s w"
  obtains sw vfName pci where "mrvl_handle env dp (PortDel name) (s, w) = (None, sw)" "vsp_good env br tab rpm sw"
    "getVFDetails env name w = Inr (vfName, pci)" "fst sw = drop_port vfName s"
proof -
  obtain vfName pci where vf: "getVFDetails env name w = Inr (vfName, pci)" and mem: "vfName \<in> set (map vfi_vfName (nf_vfs s))"
    using proper by (auto split: sum.splits)
  obtain v where v: "List.find (\<lambda>vf. vfi_vfName vf = vfName) (nf_vfs s) = Some v" "v \<in> set (nf_vfs s)" "vfi_vfName v = vfName"
    using mem by (cases "List.find (\<lambda>vf. vfi_vfName vf = vfName) (nf_vfs s)") (auto simp: find_None_iff dest: find_SomeD)
  have inv: "ports_ok rpm (nf_vfs s)" "mv_isNF s \<Longrightarrow> nf_ok rpm (nf_vfs s) (nf_inp s) (nf_out s)" and br: "mv_bridgeName s = br"
    and rules: "same_rules (tab w) (wanted rpm s)" using good by (simp_all add: vsp_good_def vsp_inv_vfs)
  have n: "nice vfName" "nice (vfi_mac v)" using inv(1) v by (auto simp: ports_ok_def list_all_iff vf_ok_def)
  have inv': "vsp_inv rpm (drop_port vfName s)"
    using inv ports_ok_remove by (simp add: vsp_inv_vfs drop_port_entry)
  show ?thesis
  proof (cases "mv_isNF s")
    case False
    obtain w1 where 1: "dp_DeletePort dp br vfName w = (None, w1)" "same_host env w w1" "tab w1 = tab w" using n(1) by (rule del_port)
    have "vsp_good env br tab rpm (drop_port vfName s, w1)"
      using False rules by (intro good_same_host [OF good 1(2) _ inv']) (simp_all add: drop_port_entry br wanted_vfs 1(3))
    then show ?thesis using that False vf 1(1) br by (simp add: mrvl_DeleteBridgePort_def Let_def)
  next
    case True
    have nice: "nice (nf_inp s)" "nice (nf_out s)" using inv(2) [OF True] by (simp_all add: nf_ok_def)
    obtain w1 where 1: "dp_DeleteFlow dp br vfName [] [] w = (None, w1)" "same_host env w w1" "tab w1 = del_flows vfName [] (tab w)"
      using del_flow [OF n(1), of "[]" "[]" w] by auto
    obtain w2 where 2: "dp_DeleteFlow dp br (nf_out s) (nf_out s) (vfi_mac v) w1 = (None, w2)" "same_host env w1 w2"
      "tab w2 = del_flows (nf_out s) (vfi_mac v) (tab w1)"
      using del_flow [OF nice(2), of "vfi_mac v" "nf_out s" w1] n(2) by auto
    obtain w3 where 3: "dp_DeleteFlow dp br (nf_inp s) vfName (vfi_mac v) w2 = (None, w3)" "same_host env w2 w3"
      "tab w3 = del_flows (nf_inp s) (vfi_mac v) (tab w2)"
      using del_flow [OF nice(1), of "vfi_mac v" vfName w2] n(2) by auto
    obtain w4 where 4: "dp_DeletePort dp br vfName w3 = (None, w4)" "same_host env w3 w4" "tab w4 = tab w3" using n(1) by (rule del_port)
    have "same_rules (tab w4) (wanted rpm (drop_port vfName s))"
      using same_rules_ops(1) [OF same_rules_ops(1) [OF same_rules_ops(1) [OF rules]], of "nf_inp s" "vfi_mac v" "nf_out s" "vfi_mac v" vfName "[]"]
        expected_remove [OF inv(1) inv(2) [OF True] v(2)] True
      by (simp add: wanted_vfs drop_port_entry v(3) 1(3) 2(3) 3(3) 4(3))
    moreover have "same_host env w w4" using 1(2) 2(2) 3(2) 4(2) same_host_trans by metis
    ultimately have "vsp_good env br tab rpm (drop_port vfName s, w4)"
      by (intro good_same_host [OF good _ _ inv']) (simp_all add: drop_port_entry br)
    moreover have "vf_mac vfName (nfp_vfPort (nf_entry s NfName)) = vfi_mac v" using v(1) by (simp add: vf_mac_def nf_vfs_def)
    ultimately show ?thesis
      using that True vf 1(1) 2(1) 3(1) 4(1) br by (simp add: mrvl_DeleteBridgePort_def Let_def nf_inp_def [symmetric] nf_out_def [symmetric])
  qed
qed

lemma nf_add_good:
  assumes good: "vsp_good env br tab rpm (s, w)" and proper: "proper env rpm (NfAdd (i, j)) s w"
  obtains sw where "mrvl_handle env dp (NfAdd (i, j)) (s, w) = (None, sw)" "vsp_good env br tab rpm sw"
proof -
  let ?inp = "dp_interface s i" and ?out = "dp_interface s j" and ?s = "set_nf (dp_interface s i) (dp_interface s j) (s\<lparr>mv_isNF := True\<rparr>)"
  have nf: "nf_ok rpm (nf_vfs s) ?inp ?out" "\<not> mv_isNF s" and inv: "ports_ok rpm (nf_vfs s)" and br: "mv_bridgeName s = br"
    and rules: "same_rules (tab w) Map.empty" and rpm: "GetNameByDeviceID env DpuRpmDeviceID w = Inr rpm"
    using proper good by (simp_all add: vsp_good_def vsp_inv_vfs wanted_vfs)
  have n: "nice ?inp" "nice ?out" "nice rpm" "list_all vf_ok (nf_vfs s)" using nf(1) inv by (simp_all add: nf_ok_def ports_ok_def)
  obtain w1 where 1: "dp_AddPort dp br ?inp w = (None, w1)" "same_host env w w1" "tab w1 = tab w" using n(1) by (rule add_port)
  obtain w2 where 2: "dp_AddPort dp br ?out w1 = (None, w2)" "same_host env w1 w2" "tab w2 = tab w1" using n(2) by (rule add_port)
  obtain w3 where 3: "add_all_flows dp br ?inp ?out (nf_vfs s) w2 = (None, w3)" "same_host env w2 w3"
    "tab w3 = fold (vf_rules ?inp ?out) (nf_vfs s) (tab w2)" using add_all [OF n(4,1,2), of w2] by blast
  obtain w4 where 4: "dp_AddFlow dp br ?out rpm [] w3 = (None, w4)" "same_host env w3 w4"
    "tab w4 = (tab w3)(rule_key ?out rpm [] \<mapsto> rule_action ?out rpm [])" using add_flow [OF n(2,3), of "[]" w3] by auto
  obtain w5 where 5: "dp_AddFlow dp br rpm ?out [] w4 = (None, w5)" "same_host env w4 w5"
    "tab w5 = (tab w4)(rule_key rpm ?out [] \<mapsto> rule_action rpm ?out [])" using add_flow [OF n(3,2), of "[]" w4] by auto
  have host: "same_host env w w3" "same_host env w w5" using 1(2) 2(2) 3(2) 4(2) 5(2) same_host_trans by metis+
  have "same_rules (nf_rules rpm ?out (fold (vf_rules ?inp ?out) (nf_vfs s) (tab w))) (expected rpm ?inp ?out (nf_vfs s))"
    using same_rules_ops(2) [OF same_rules_folds(1) [OF rules, of ?inp ?out "nf_vfs s"], of rpm ?out] expected_build [OF inv nf(1)] by simp
  then have "same_rules (tab w5) (wanted rpm ?s)"
    by (simp add: wanted_vfs set_nf_entry isNF_entry nf_rules_def 1(3) 2(3) 3(3) 4(3) 5(3))
  then have "vsp_good env br tab rpm (?s, w5)"
    using inv nf(1) by (intro good_same_host [OF good host(2)]) (simp_all add: set_nf_entry isNF_entry br vsp_inv_vfs)
  moreover have "GetNameByDeviceID env DpuRpmDeviceID w3 = Inr rpm" using same_host_reads(1) [OF host(1)] rpm by simp
  ultimately show ?thesis
    using that 1(1) 2(1) 3(1) 4(1) 5(1) br
    by (simp add: mrvl_CreateNetworkFunction_def AddNetworkFunction_def Let_def and_then_def nf_vfs_def [symmetric] isNF_entry)
qed

lemma nf_del_good:
  assumes good: "vsp_good env br tab rpm (s, w)" and proper: "proper env rpm (NfDel (i, j)) s w"
  obtains sw where "mrvl_handle env dp (NfDel (i, j)) (s, w) = (None, sw)" "vsp_good env br tab rpm sw"
proof -
  let ?inp = "nf_inp s" and ?out = "nf_out s" and ?vfs = "nf_vfs s"
  have isnf: "mv_isNF s" and ij: "dp_interface s i = ?inp" "dp_interface s j = ?out" using proper by simp_all
  have inv: "ports_ok rpm ?vfs" "nf_ok rpm ?vfs ?inp ?out" and br: "mv_bridgeName s = br"
    and rules: "same_rules (tab w) (expected rpm ?inp ?out ?vfs)" and rpm: "GetNameByDeviceID env DpuRpmDeviceID w = Inr rpm"
    using isnf good by (simp_all add: vsp_good_def vsp_inv_vfs wanted_vfs)
  have n: "nice ?inp" "nice ?out" "nice rpm" "list_all vf_ok ?vfs" using inv by (simp_all add: nf_ok_def ports_ok_def)
  obtain w1 where 1: "delete_vf_flows dp br ?inp ?vfs w = (None, w1)" "same_host env w w1"
    "tab w1 = fold (\<lambda>vf. del_flows (vfi_vfName vf) []) ?vfs (tab w)" using delete_vfs [OF n(4), of ?inp w] by blast
  obtain w2 where 2: "dp_DeleteFlow dp br ?inp [] [] w1 = (None, w2)" "same_host env w1 w2" "tab w2 = del_flows ?inp [] (tab w1)"
    using del_flow [OF n(1), of "[]" "[]" w1] by auto
  obtain w3 where 3: "dp_DeleteFlow dp br ?out [] [] w2 = (None, w3)" "same_host env w2 w3" "tab w3 = del_flows ?out [] (tab w2)"
    using del_flow [OF n(2), of "[]" "[]" w2] by auto
  obtain w4 where 4: "dp_DeleteFlow dp br rpm [] [] w3 = (None, w4)" "same_host env w3 w4" "tab w4 = del_flows rpm [] (tab w3)"
    using del_flow [OF n(3), of "[]" "[]" w3] by auto
  obtain w5 where 5: "dp_DeletePort dp br ?inp w4 = (None, w5)" "same_host env w4 w5" "tab w5 = tab w4" using n(1) by (rule del_port)
  obtain w6 where 6: "dp_DeletePort dp br ?out w5 = (None, w6)" "same_host env w5 w6" "tab w6 = tab w5" using n(2) by (rule del_port)
  have host: "same_host env w w3" "same_host env w w6" using 1(2) 2(2) 3(2) 4(2) 5(2) 6(2) same_host_trans by metis+
  have "same_rules (tab w6) Map.empty"
    using same_rules_ops(1) [OF same_rules_ops(1) [OF same_rules_ops(1) [OF same_rules_folds(2) [OF rules, of ?vfs], of ?inp "[]"], of ?out "[]"], of rpm "[]"]
      expected_clear [of rpm ?out ?inp ?vfs]
    by (simp add: 1(3) 2(3) 3(3) 4(3) 5(3) 6(3))
  then have "vsp_good env br tab rpm (s\<lparr>mv_isNF := False\<rparr>, w6)"
    using inv by (intro good_same_host [OF good host(2)]) (simp_all add: isNF_entry br vsp_inv_vfs wanted_vfs)
  moreover have "GetNameByDeviceID env DpuRpmDeviceID w3 = Inr rpm" using same_host_reads(1) [OF host(1)] rpm by simp
  ultimately show ?thesis
    using that 1(1) 2(1) 3(1) 4(1) 5(1) 6(1) br ij
    by (simp add: mrvl_DeleteNetworkFunction_def DeleteNetworkFunctionPort_def Let_def and_then_def nf_vfs_def [symmetric] isNF_entry)
qed

lemma request_good:
  assumes "vsp_good env br tab rpm (s, w)" "proper env rpm req s w"
  obtains sw where "mrvl_handle env dp req (s, w) = (None, sw)" "vsp_good env br tab rpm sw"
proof (cases req)
  case (PortAdd x)
  then show ?thesis using assms port_add_good that by blast
next
  case (PortDel x)
  then show ?thesis using assms port_del_good that by blast
next
  case (NfAdd x)
  obtain i j where "x = (i, j)" by (metis prod.exhaust)
  then show ?thesis using assms nf_add_good that NfAdd by blast
next
  case (NfDel x)
  obtain i j where "x = (i, j)" by (metis prod.exhaust)
  then show ?thesis using assms nf_del_good that NfDel by blast
qed

lemma run_good:
  assumes "vsp_good env br tab rpm sw" "proper_run env dp rpm reqs sw" "mrvl_run env dp reqs sw = (errs, sw')"
  shows "list_all (\<lambda>e. e = None) errs \<and> vsp_good env br tab rpm sw'"
  using assms
proof (induction reqs arbitrary: sw errs)
  case (Cons req reqs)
  obtain s w where sw: "sw = (s, w)" by (metis prod.exhaust)
  obtain sw1 where 1: "mrvl_handle env dp req (s, w) = (None, sw1)" "vsp_good env br tab rpm sw1"
    using Cons.prems(1,2) unfolding sw by (auto elim: request_good)
  obtain errs' where 2: "mrvl_run env dp reqs sw1 = (errs', sw')" "errs = None # errs'"
    using Cons.prems(3) 1(1) unfolding sw by (auto split: prod.splits)
  show ?case using Cons.IH [OF 1(2) _ 2(1)] Cons.prems(2) 1(1) 2(2) unfolding sw by simp
qed simp

end

section \<open>Properties\<close>

text \<open>C20: The flow rules of the Marvell data plane follow the requests. From a state in which the rules are the
  wanted ones, every sequence of sensible requests, in whatever order ports and network functions are
  created and deleted, is answered without an error and ends with exactly the rules of the stored ports
  and the network function: each virtual function to the input port, back from it by address, the hairpin
  on the output port, and the output port to the uplink and back; no rule is left when there is no
  network function.\<close>

theorem marvell_flows_exact:
  assumes plane: "plane_ok env dp (mv_bridgeName s) tab"
    and start: "vsp_inv rpm s" "GetNameByDeviceID env DpuRpmDeviceID w = Inr rpm" "same_rules (tab w) (wanted rpm s)"
    and reqs: "proper_run env dp rpm reqs (s, w)" "mrvl_run env dp reqs (s, w) = (errs, s', w')"
  shows "list_all (\<lambda>e. e = None) errs \<and> same_rules (tab w') (wanted rpm s')"
proof -
  have "vsp_good env (mv_bridgeName s) tab rpm (s, w)" using start by (simp add: vsp_good_def)
  from working_dataplane.run_good [OF working_dataplane.intro [OF plane] this reqs] show ?thesis by (simp add: vsp_good_def)
qed

text \<open>Deleting a port that was never created, as a repeated DEL does, cuts the network function off: the address of
  the unknown port is empty, so that all rules of the output and of the input port are deleted.\<close>

theorem delete_unknown_port_cuts:
  assumes plane: "plane_ok env dp (mv_bridgeName s) tab" and isnf: "mv_isNF s" "nice (nf_inp s)" "nice (nf_out s)"
    and port: "getVFDetails env name w = Inr (vfName, pci)" "nice vfName" "vfName \<notin> set (map vfi_vfName (nf_vfs s))"
  shows "\<exists>s' w'. mrvl_DeleteBridgePort env dp name (s, w) = (None, s', w') \<and> mv_isNF s' \<and>
    (\<forall>p d. tab w' (p, nf_out s, d) = None \<and> tab w' (p, nf_inp s, d) = None)"
proof -
  note wd = working_dataplane.intro [OF plane]
  have mac: "vf_mac vfName (nfp_vfPort (nf_entry s NfName)) = []"
    using port(3) by (auto simp: vf_mac_def nf_vfs_def find_None_iff image_iff split: option.splits dest: find_SomeD)
  obtain w1 where 1: "dp_DeleteFlow dp (mv_bridgeName s) vfName [] [] w = (None, w1)"
    using working_dataplane.del_flow [OF wd port(2), of "[]" "[]" w] by auto
  obtain w2 where 2: "dp_DeleteFlow dp (mv_bridgeName s) (nf_out s) (nf_out s) [] w1 = (None, w2)" "tab w2 = del_flows (nf_out s) [] (tab w1)"
    using working_dataplane.del_flow [OF wd isnf(3), of "[]" "nf_out s" w1] by auto
  obtain w3 where 3: "dp_DeleteFlow dp (mv_bridgeName s) (nf_inp s) vfName [] w2 = (None, w3)" "tab w3 = del_flows (nf_inp s) [] (tab w2)"
    using working_dataplane.del_flow [OF wd isnf(2), of "[]" vfName w2] by auto
  obtain w4 where 4: "dp_DeletePort dp (mv_bridgeName s) vfName w3 = (None, w4)" "tab w4 = tab w3"
    using working_dataplane.del_port [OF wd port(2), of w3] by auto
  have "mrvl_DeleteBridgePort env dp name (s, w) = (None, drop_port vfName s, w4)"
    using port(1) isnf(1) mac 1 2(1) 3(1) 4(1)
    by (simp add: mrvl_DeleteBridgePort_def Let_def nf_inp_def [symmetric] nf_out_def [symmetric])
  then show ?thesis using isnf(1) by (auto simp: drop_port_entry 2(2) 3(2) 4(2) del_flows_def)
qed

lemma put_entries: "\<forall>(k, d) \<in> set m. P d \<Longrightarrow> P e \<Longrightarrow> \<forall>(k, d) \<in> set (map_put i e m). P d"
  by (induction m) auto

lemma fold_put_entries:
  "\<forall>x \<in> set xs. P (g x) \<Longrightarrow> \<forall>(k, d) \<in> set m. P d \<Longrightarrow> \<forall>(k, d) \<in> set (fold (\<lambda>x. map_put (h x) (g x)) xs m). P d"
proof (induction xs arbitrary: m)
  case (Cons x xs)
  then show ?case using put_entries [OF Cons.prems(2), of "g x" "h x"] by simp
qed simp

text \<open>On the host every virtual function is reported as unhealthy after the first initialisation, because the
  port type is set only after the functions were loaded.\<close>

theorem host_devices_unhealthy:
  assumes "doInit env dp False (s, w) = (Inr ipPort, s', w')" "mv_portType s = []"
  shows "\<forall>(i, d) \<in> set (case mrvl_GetDevices s' of Inr m \<Rightarrow> m | Inl _ \<Rightarrow> []). lcd_Health d = ''Unhealthy''"
proof -
  let ?s0 = "s\<lparr>mv_isDPUMode := False, mv_deviceStore := Some []\<rparr>"
  have bad: "GetDeviceHealth env ?s0 name w1 = ''Unhealthy''" for name w1 using assms(2) by (simp add: GetDeviceHealth_def)
  obtain w1 s2 where s2: "reloadVFs env (?s0, w1) = (None, s2)" "s' = s2\<lparr>mv_portType := ''sriov''\<rparr>"
    using assms(1) by (auto simp: doInit_def Let_def split: prod.splits sum.splits option.splits)
  obtain store where store: "mv_deviceStore s' = Some store" "\<forall>(k, d) \<in> set store. mdi_health d = ''Unhealthy''"
    using s2 fold_put_entries [where P = "\<lambda>d. mdi_health d = ''Unhealthy''" and m = "[]" and h = "\<lambda>x. x" and
        g = "\<lambda>vfpci. \<lparr>mdi_secInterfaceName = [], mdi_dpInterfaceName = [], mdi_dpMAC = [], mdi_portType = ''sriov'',
            mdi_health = ''Unhealthy'', mdi_pciAddress = vfpci\<rparr>"]
    by (auto simp: reloadVFs_def Let_def bad split: sum.splits if_splits)
  have "mrvl_GetDevices s' = Inr (fold (\<lambda>x. map_put (if mv_isDPUMode s' then mdi_secInterfaceName (snd x) else mdi_pciAddress (snd x))
      \<lparr>lcd_ID = if mv_isDPUMode s' then mdi_secInterfaceName (snd x) else mdi_pciAddress (snd x), lcd_Health = mdi_health (snd x), lcd_Node = []\<rparr>) store [])"
    using store(1) by (simp add: mrvl_GetDevices_def Let_def case_prod_unfold)
  moreover have "\<forall>x \<in> set store. mdi_health (snd x) = ''Unhealthy''" using store(2) by auto
  ultimately show ?thesis
    using fold_put_entries [where P = "\<lambda>d. lcd_Health d = ''Unhealthy''" and m = "[]" and xs = store and
        h = "\<lambda>x. if mv_isDPUMode s' then mdi_secInterfaceName (snd x) else mdi_pciAddress (snd x)" and
        g = "\<lambda>x. \<lparr>lcd_ID = if mv_isDPUMode s' then mdi_secInterfaceName (snd x) else mdi_pciAddress (snd x), lcd_Health = mdi_health (snd x), lcd_Node = []\<rparr>"]
    by simp
qed

section \<open>A switch\<close>

text \<open>Open vSwitch as far as the flow rules go: fields of a rule are separated by commas, the priority is 32768
  unless given, and deletion takes every rule with the given input port and address.\<close>

record switch =
  sw_flows :: flow_table

definition spec_field :: "string \<Rightarrow> string \<Rightarrow> string" where
  "spec_field name spec =
     (case List.find (prefix (name @ ''='')) (split_on (CHR '','') spec) of Some f \<Rightarrow> drop (length name + 1) f | None \<Rightarrow> [])"

definition spec_key :: "string \<Rightarrow> flow_key" where
  "spec_key spec = (case spec_field ''priority'' spec of [] \<Rightarrow> 32768 | p \<Rightarrow> int (undec p), spec_field ''in_port'' spec, spec_field ''dl_dst'' spec)"

definition ovs_exec :: "string list \<Rightarrow> switch \<Rightarrow> go_error option \<times> switch" where
  "ovs_exec cmd w =
     (case cmd of
        [_, _, tool, verb, _, spec] \<Rightarrow>
          if tool \<noteq> ''ovs-ofctl'' then (None, w)
          else if verb = ''add-flow'' then (None, w\<lparr>sw_flows := (sw_flows w)(spec_key spec \<mapsto> spec_field ''actions'' spec)\<rparr>)
          else if verb = ''del-flows'' then (None, w\<lparr>sw_flows := del_flows (spec_field ''in_port'' spec) (spec_field ''dl_dst'' spec) (sw_flows w)\<rparr>)
          else (None, w)
      | _ \<Rightarrow> (None, w))"

definition mrvl_dev :: "string \<Rightarrow> string \<Rightarrow> PCIDevice" where
  "mrvl_dev addr product = \<lparr>pci_Address = addr, pci_VendorID = MrvlVendorID, pci_VendorName = [], pci_ProductID = product,
     pci_ProductName = [], pci_ClassName = []\<rparr>"

definition sim_dpu :: "switch vnet" where
  "sim_dpu =
     \<lparr>vn_Run = ovs_exec, vn_Output = (\<lambda>_ _. Inr []), vn_WriteFile = (\<lambda>_ _ w. (None, w)), vn_Readlink = (\<lambda>_ _. ([], None)),
      vn_ReadDir = (\<lambda>path _. if path = ''/sys/bus/pci/devices/r0/net'' then Inr [''rpm'']
         else if path = ''/sys/bus/pci/devices/p1/net'' then Inr [''sdp1''] else Inr [''sdp2'']),
      vn_platform = (\<lambda>_. \<lparr>PciDevices = Inr [mrvl_dev ''r0'' ''a063'', mrvl_dev ''p0'' ''a0f7'', mrvl_dev ''p1'' ''a0f7'', mrvl_dev ''p2'' ''a0f7''],
         Product = Inr [], ReadDeviceSerialNumber = (\<lambda>_. Inr []), GetNetDevNamesFromPCIeAddr = (\<lambda>_. Inr []),
         GetNetDevMACAddressFromPCIeAddr = (\<lambda>_. Inr []), stat_physfn = (\<lambda>_. StatOk)\<rparr>),
      vn_LinkByName = (\<lambda>n _. Inr \<lparr>vl_Name = n, vl_HardwareAddr = [], vl_Up = True\<rparr>), vn_LinkAdd = (\<lambda>_ _ w. (None, w)),
      vn_LinkDel = (\<lambda>_ w. (None, w)), vn_LinkSetUp = (\<lambda>_ w. (None, w)), vn_LinkSetDown = (\<lambda>_ w. (None, w)),
      vn_LinkSetVfVlan = (\<lambda>_ _ _ w. (None, w)), vn_LinkSetVfSpoofchk = (\<lambda>_ _ _ w. (None, w)),
      vn_LinkSetVfTrust = (\<lambda>_ _ _ w. (None, w)), vn_Sleep = (\<lambda>w. w)\<rparr>"

lemma split_on_piece: "c \<notin> set a \<Longrightarrow> split_on c (a @ c # b) = a # split_on c b" "c \<notin> set a \<Longrightarrow> split_on c a = [a]"
  by (induction a) auto

lemma add_flow_fields:
  assumes "nice src" "nice dst" "mac = [] \<or> nice mac"
  shows "split_on (CHR '','') (add_flow_text src dst mac) =
    (if mac = [] then [''priority=10'', ''in_port='' @ src, ''actions=output:'' @ dst]
     else if src = dst then [''priority=100'', ''in_port='' @ src, ''dl_dst='' @ mac, ''actions=in_port'']
     else [''in_port='' @ src, ''dl_dst='' @ mac, ''actions=output:'' @ dst])"
proof -
  have c: "CHR '','' \<notin> set src" "CHR '','' \<notin> set dst" "mac \<noteq> [] \<Longrightarrow> CHR '','' \<notin> set mac" using assms by (auto simp: nice_def)
  show ?thesis
    using c by (cases "mac = []") (simp_all add: add_flow_text_def split_on_piece)
qed

lemma add_flow_parse:
  assumes "nice src" "nice dst" "mac = [] \<or> nice mac"
  shows "spec_key (add_flow_text src dst mac) = rule_key src dst mac" "spec_field ''actions'' (add_flow_text src dst mac) = rule_action src dst mac"
proof -
  have ten: "undec ''10'' = 10" "undec ''100'' = 100" by code_simp+
  show "spec_key (add_flow_text src dst mac) = rule_key src dst mac" "spec_field ''actions'' (add_flow_text src dst mac) = rule_action src dst mac"
    by (simp_all add: spec_key_def spec_field_def add_flow_fields [OF assms] rule_key_def rule_action_def ten)
qed

lemma del_flow_parse:
  assumes "nice src" "mac = [] \<or> nice mac"
  shows "spec_field ''in_port'' (del_flow_text src mac) = src" "spec_field ''dl_dst'' (del_flow_text src mac) = mac"
proof -
  have c: "CHR '','' \<notin> set src" "mac \<noteq> [] \<Longrightarrow> CHR '','' \<notin> set mac" using assms by (auto simp: nice_def)
  have "split_on (CHR '','') (del_flow_text src mac) = (if mac = [] then [''in_port='' @ src] else [''in_port='' @ src, ''dl_dst='' @ mac])"
    using c by (cases "mac = []") (simp_all add: del_flow_text_def split_on_piece)
  then show "spec_field ''in_port'' (del_flow_text src mac) = src" "spec_field ''dl_dst'' (del_flow_text src mac) = mac"
    by (simp_all add: spec_field_def)
qed

lemma sim_dpu_run: "vn_Run sim_dpu = ovs_exec"
  by (simp add: sim_dpu_def)

lemma sim_dpu_ports: "snd (LinkSetUpDown sim_dpu port up w) = w"
  by (simp add: LinkSetUpDown_def sim_dpu_def)

lemma sim_dpu_works: "plane_ok sim_dpu (OvsDP sim_dpu) br sw_flows"
proof -
  have host: "same_host sim_dpu w w'" for w w' by (simp add: same_host_def sim_dpu_def)
  show ?thesis
    unfolding plane_ok_def
    by (auto simp: OvsDP_def ovs_AddFlowRuleToDataPlane_def ovs_DeleteFlowRuleFromDataPlane_def ovs_AddPortToDataPlane_def
        ovs_DeletePortFromDataPlane_def sim_dpu_run sim_dpu_ports ovs_exec_def add_flow_parse del_flow_parse host)
qed

interpretation ovs: working_dataplane sim_dpu "OvsDP sim_dpu" br sw_flows for br
  by unfold_locales (rule sim_dpu_works)

definition sample_device :: "string \<Rightarrow> mrvlDeviceInfo" where
  "sample_device dp = \<lparr>mdi_secInterfaceName = [], mdi_dpInterfaceName = dp, mdi_dpMAC = [], mdi_portType = ''veth'', mdi_health = ''Healthy'', mdi_pciAddress = []\<rparr>"

definition sample_vsp_server :: mrvlVspServer where
  "sample_vsp_server = NewMarvellVspServer\<lparr>mv_isDPUMode := True, mv_bridgeName := ''br-mrv0'',
     mv_deviceStore := Some [(''m0'', sample_device ''dp0''), (''m1'', sample_device ''dp1'')]\<rparr>"

definition sample_port :: "string \<Rightarrow> 8 word \<Rightarrow> mrvl_req" where
  "sample_port name b = PortAdd \<lparr>BridgePortId = [], cbp_BridgePort = Some \<lparr>obp_Name = name,
     obp_Spec = Some \<lparr>MacAddress = [b], Ptype = TYPE_ACCESS, LogicalBridges = []\<rparr>\<rparr>\<rparr>"

definition sample_reqs :: "mrvl_req list" where
  "sample_reqs = [sample_port ''host0-0'' 1, NfAdd (''m0'', ''m1''), sample_port ''host0-1'' 2, PortDel ''host0-0'']"

abbreviation "sample_start \<equiv> (sample_vsp_server, \<lparr>sw_flows = Map.empty\<rparr>)"

abbreviation "sample_end \<equiv> mrvl_run sim_dpu (OvsDP sim_dpu) sample_reqs sample_start"

text \<open>A port, a network function, another port, and the end of the first one.\<close>

theorem marvell_flows_exact_witness:
  "fst sample_end = [None, None, None, None] \<and>
   same_rules (sw_flows (snd (snd sample_end))) (wanted ''rpm'' (fst (snd sample_end))) \<and>
   wanted ''rpm'' (fst (snd sample_end)) (10, ''sdp2'', []) = Some ''output:dp0''"
proof -
  have plane: "plane_ok sim_dpu (OvsDP sim_dpu) (mv_bridgeName sample_vsp_server) sw_flows" by (rule sim_dpu_works)
  have start: "vsp_inv ''rpm'' sample_vsp_server" by code_simp
  have rpm: "GetNameByDeviceID sim_dpu DpuRpmDeviceID \<lparr>sw_flows = Map.empty\<rparr> = Inr ''rpm''" by code_simp
  have empty: "wanted ''rpm'' sample_vsp_server = Map.empty" by (simp add: wanted_def sample_vsp_server_def NewMarvellVspServer_def)
  have rules: "same_rules (sw_flows \<lparr>sw_flows = Map.empty\<rparr>) (wanted ''rpm'' sample_vsp_server)" by (simp add: same_rules_def empty)
  have proper: "proper_run sim_dpu (OvsDP sim_dpu) ''rpm'' sample_reqs sample_start" by code_simp
  have run: "sample_end = (fst sample_end, fst (snd sample_end), snd (snd sample_end))" by simp
  have "length (fst sample_end) = 4" by code_simp
  moreover have "fst sample_end = [None, None, None, None]" by code_simp
  moreover have "wanted ''rpm'' (fst (snd sample_end)) (10, ''sdp2'', []) = Some ''output:dp0''" by code_simp
  ultimately show ?thesis using marvell_flows_exact [OF plane start rpm rules proper run] by blast
qed

text \<open>The number of the last virtual function wraps around, and the look-up panics.\<close>

theorem huge_port_number_panics:
  "mrvl_DeleteBridgePort sim_dpu (OvsDP sim_dpu) ''host0-9223372036854775807'' sample_start = (Some (Panic ''index out of range''), sample_start)"
proof -
  have "find_host_match ''host0-9223372036854775807'' = Some (''0'', ''9223372036854775807'')" by code_simp
  moreover have "atoi ''0'' = Some 0" by code_simp
  moreover have "atoi ''9223372036854775807'' = Some 9223372036854775807"
    by (simp add: atoi_def atoi_value_def parse_digits_def undec_def digit_val_def less_eq_char_def)
  moreover have "Mapped_VF (vn_platform sim_dpu \<lparr>sw_flows = Map.empty\<rparr>) 1 0 (wrap64 (9223372036854775807 + 1)) = Inl (Panic ''index out of range'')"
    by (simp add: Mapped_VF_def sim_dpu_def wrap64_def)
  ultimately have "getVFDetails sim_dpu ''host0-9223372036854775807'' \<lparr>sw_flows = Map.empty\<rparr> = Inl (Panic ''index out of range'')"
    by (simp add: getVFDetails_def)
  then show ?thesis by (simp add: mrvl_DeleteBridgePort_def)
qed

end
