(* ===== verification/Netsec_Vsp.thy ===== *)
theory Netsec_Vsp
  imports Vsp_Net
begin

text \<open>
  The vendor-specific process of the Intel NetSec accelerator
  (\<open>internal/daemon/vendor-specific-plugins/intel-netsec/main.go\<close>): virtual functions of the host and the DPU with
  the same number share a VLAN, and bridge ports add those of the DPU to a bridge with the network
  functions. \<open>vfDevs\<close> and the service function chain point to the same \<open>VfDeviceInfo\<close>, which is kept in a
  store (\<open>ns_store\<close>); a pointer is its position. Only chain 0 is used. The parser of PCI addresses is code of
  package \<open>ghw\<close>, a parameter that gives bus and function. The lemmas show that the records of virtual
  functions stay consistent under all requests, and what \<open>SetNumVfs\<close> configures.
\<close>

section \<open>State\<close>

record intelNetSecVfRepDev =
  rep_vfRepDev :: nat
  rep_hostSideMac :: string

record intelNetSecServiceFunctionChain =
  chain_vfRepDevs :: "(VfDeviceKey, intelNetSecVfRepDev) gomap"
  chain_sfpVfDevs :: VfDeviceInfo

record intelNetSecVspServer =
  ns_isDPUMode :: bool
  ns_dpuIdentifier :: string
  ns_dpuPcieAddress :: string
  ns_vfCnt :: int
  ns_vethTunnelPairDevs :: "(string, VEthPairDeviceInfo) gomap"
  ns_store :: "VfDeviceInfo list"
  ns_vfDevs :: "(VfDeviceKey, nat) gomap"
  ns_numNfs :: int
  ns_chain :: "intelNetSecServiceFunctionChain option"

definition NewIntelNetSecVspServer :: intelNetSecVspServer where
  "NewIntelNetSecVspServer =
     \<lparr>ns_isDPUMode = False, ns_dpuIdentifier = [], ns_dpuPcieAddress = [], ns_vfCnt = 0, ns_vethTunnelPairDevs = [], ns_store = [],
      ns_vfDevs = [], ns_numNfs = 0, ns_chain = None\<rparr>"

definition SFPf1PCIeAddress :: string where
  "SFPf1PCIeAddress = ''0000:f4:00.1''"

definition Backplanef2PCIeAddress :: string where
  "Backplanef2PCIeAddress = ''0000:f4:00.2''"

definition OvSBridgeName :: string where
  "OvSBridgeName = ''br-secondary''"

type_synonym pci_parse = "string \<Rightarrow> (string \<times> string) option"

abbreviation nil_panic :: go_error where
  "nil_panic \<equiv> Panic ''nil pointer dereference''"

abbreviation netdev_name :: "'w vnet \<Rightarrow> string \<Rightarrow> 'w \<Rightarrow> string result" where
  "netdev_name env addr w \<equiv> GetNetDevNameFromPCIeAddr (vn_platform env w) addr"

section \<open>PCI devices\<close>

fun vfs_on_bus :: "pci_parse \<Rightarrow> string \<Rightarrow> PCIDevice list \<Rightarrow> string list result" where
  "vfs_on_bus parse bus [] = Inr []"
| "vfs_on_bus parse bus (pci # rest) =
     (case parse (pci_Address pci) of
        None \<Rightarrow> Inl nil_panic
      | Some (b, _) \<Rightarrow>
          (case vfs_on_bus parse bus rest of
             Inl err \<Rightarrow> Inl err
           | Inr vfs \<Rightarrow> Inr (if b = bus \<and> pci_VendorID pci = ''8086'' \<and> pci_ProductID pci = ''1889'' then pci_Address pci # vfs else vfs)))"

definition getVFs :: "pci_parse \<Rightarrow> platform \<Rightarrow> string \<Rightarrow> string list result" where
  "getVFs parse pf pfPCIeAddress =
     (case PciDevices pf of
        Inl err \<Rightarrow> Inl (Errorf ''failed to get PCI devices: %v'' [FErr err])
      | Inr devs \<Rightarrow> (case parse pfPCIeAddress of None \<Rightarrow> Inl nil_panic | Some (bus, _) \<Rightarrow> vfs_on_bus parse bus devs))"

fun find_dpu :: "pci_parse \<Rightarrow> platform \<Rightarrow> string \<Rightarrow> PCIDevice list \<Rightarrow> string result" where
  "find_dpu parse pf i [] = Inl (Errorf ''DPU PCIe address not found for identifier: %s'' [FStr i])"
| "find_dpu parse pf i (pci # rest) =
     (if pci_VendorID pci = ''8086'' \<and> pci_ProductID pci = ''1599''
      then (case ReadDeviceSerialNumber pf pci of
              Inl err \<Rightarrow> Inl (Errorf ''error reading device serial number for %s: %v'' [FStr (pci_Address pci), FErr err])
            | Inr serial \<Rightarrow>
                if serial = i
                then (case parse (pci_Address pci) of
                        None \<Rightarrow> Inl nil_panic
                      | Some (_, fn) \<Rightarrow> if fn = ''0'' then Inr (pci_Address pci) else find_dpu parse pf i rest)
                else find_dpu parse pf i rest)
      else find_dpu parse pf i rest)"

definition GetDpuPcieAddress :: "pci_parse \<Rightarrow> platform \<Rightarrow> bool \<Rightarrow> string \<Rightarrow> string result" where
  "GetDpuPcieAddress parse pf isDPUMode i =
     (if isDPUMode then Inr []
      else (case PciDevices pf of Inl err \<Rightarrow> Inl (Errorf ''Error getting devices: %v'' [FErr err]) | Inr devs \<Rightarrow> find_dpu parse pf i devs))"

section \<open>The bridge and the virtual functions\<close>

definition configureCommChannelIPs :: "'w vnet \<Rightarrow> intelNetSecVspServer \<Rightarrow> bool \<Rightarrow> 'w \<Rightarrow> (string \<times> 32 word) result \<times> 'w" where
  "configureCommChannelIPs env s dpu_mode w =
     (case netdev_name env (if dpu_mode then Backplanef2PCIeAddress else ns_dpuPcieAddress s) w of
        Inl err \<Rightarrow> (Inl err, w)
      | Inr ifName \<Rightarrow>
          (case EnableIPV6LinkLocal env ifName (if dpu_mode then ''fe80::1'' else ''fe80::2'') w of
             (Some err, w1) \<Rightarrow> (Inl err, w1)
           | (None, w1) \<Rightarrow> (Inr (''['' @ ''fe80::1'' @ (if dpu_mode then ''%'' else ''%25'') @ ifName @ '']'', 8085), w1)))"

definition ifUpAndAddToBridge :: "'w vnet \<Rightarrow> string \<Rightarrow> 'w \<Rightarrow> go_error option \<times> 'w" where
  "ifUpAndAddToBridge env ifName w =
     (case vn_LinkByName env ifName w of
        Inl err \<Rightarrow> (Some err, w)
      | Inr link \<Rightarrow> and_then (vn_LinkSetUp env link w) (\<lambda>e. e) (AddInterfaceToOvSBridge env OvSBridgeName ifName))"

definition ifDownAndDelFromBridge :: "'w vnet \<Rightarrow> string \<Rightarrow> 'w \<Rightarrow> go_error option \<times> 'w" where
  "ifDownAndDelFromBridge env ifName w =
     (case vn_LinkByName env ifName w of
        Inl err \<Rightarrow> (Some err, w)
      | Inr link \<Rightarrow> and_then (vn_LinkSetDown env link w) (\<lambda>e. e) (DeleteInterfaceFromOvSBridge env OvSBridgeName ifName))"

definition finishVfSetup :: "'w vnet \<Rightarrow> string \<Rightarrow> int \<Rightarrow> 'w \<Rightarrow> (string \<times> string) result \<times> 'w" where
  "finishVfSetup env ifName vfID w =
     (case WaitForVfPciAddressReady env ifName vfID w of
        (Inl err, w1) \<Rightarrow> (Inl err, w1)
      | (Inr pcieAddr, w1) \<Rightarrow>
          (case WaitForLinkReady env pcieAddr w1 of
             (Inl err, w2) \<Rightarrow> (Inl err, w2)
           | (Inr (vfIfName, vfLink), w2) \<Rightarrow>
               (case vn_LinkSetDown env vfLink w2 of
                  (Some err, w3) \<Rightarrow> (Inl err, w3)
                | (None, w3) \<Rightarrow> (Inr (pcieAddr, vfIfName), w3))))"

text \<open>A new record is stored and \<open>vfDevs\<close> points to it; an old record stays where other pointers lead to it.\<close>

definition new_vf :: "VfDeviceKey \<Rightarrow> string \<Rightarrow> int \<Rightarrow> intelNetSecVspServer \<Rightarrow> intelNetSecVspServer" where
  "new_vf key pcieAddr vlan s =
     s\<lparr>ns_store := ns_store s @ [\<lparr>vfd_VfKey = key, vfd_PciAddress = pcieAddr, vfd_Vlan = vlan, vfd_Allocated = False\<rparr>],
       ns_vfDevs := map_put key (length (ns_store s)) (ns_vfDevs s)\<rparr>"

fun setup_internal :: "'w vnet \<Rightarrow> string \<Rightarrow> int list \<Rightarrow> intelNetSecVspServer \<times> 'w \<Rightarrow> go_error option \<times> intelNetSecVspServer \<times> 'w" where
  "setup_internal env ifName [] sw = (None, sw)"
| "setup_internal env ifName (vfID # rest) (s, w) =
     (case vn_LinkByName env ifName w of
        Inl err \<Rightarrow> (Some err, s, w)
      | Inr link \<Rightarrow>
          (case and_then (vn_LinkSetVfVlan env link vfID (vfID + 2) w) (\<lambda>e. e)
                  (\<lambda>w. and_then (vn_LinkSetVfSpoofchk env link vfID False w) (\<lambda>e. e) (vn_LinkSetVfTrust env link vfID True)) of
             (Some err, w1) \<Rightarrow> (Some err, s, w1)
           | (None, w1) \<Rightarrow>
               (case finishVfSetup env ifName vfID w1 of
                  (Inl err, w2) \<Rightarrow> (Some err, s, w2)
                | (Inr (pcieAddr, _), w2) \<Rightarrow>
                    setup_internal env ifName rest (new_vf (ifName, vfID) pcieAddr (vfID + 2) s, w2))))"

definition vf_ids :: "int \<Rightarrow> int list" where
  "vf_ids numVfs = map int [0..<nat numVfs]"

definition setVlanIdsSpoofChkInternalPorts ::
    "'w vnet \<Rightarrow> string \<Rightarrow> int \<Rightarrow> intelNetSecVspServer \<times> 'w \<Rightarrow> go_error option \<times> intelNetSecVspServer \<times> 'w" where
  "setVlanIdsSpoofChkInternalPorts env pfPcieAddr numVfs = (\<lambda>(s, w).
     case netdev_name env pfPcieAddr w of
       Inl err \<Rightarrow> (Some err, s, w)
     | Inr ifName \<Rightarrow>
         (case SetPfHwModeVepa env ifName w of
            (Some err, w1) \<Rightarrow> (Some err, s, w1)
          | (None, w1) \<Rightarrow> setup_internal env ifName (vf_ids numVfs) (s, w1)))"

fun setup_external :: "'w vnet \<Rightarrow> string \<Rightarrow> int list \<Rightarrow> 'w \<Rightarrow> go_error option \<times> 'w" where
  "setup_external env ifName [] w = (None, w)"
| "setup_external env ifName (vfID # rest) w =
     (case vn_LinkByName env ifName w of
        Inl err \<Rightarrow> (Some err, w)
      | Inr link \<Rightarrow>
          and_then (vn_LinkSetVfSpoofchk env link vfID False w) (\<lambda>e. e)
            (\<lambda>w. case finishVfSetup env ifName vfID w of
                   (Inl err, w1) \<Rightarrow> (Some err, w1) | (Inr _, w1) \<Rightarrow> setup_external env ifName rest w1))"

definition setSpoofChkExternalPorts :: "'w vnet \<Rightarrow> string \<Rightarrow> int \<Rightarrow> 'w \<Rightarrow> go_error option \<times> 'w" where
  "setSpoofChkExternalPorts env pfPcieAddr numVfs w =
     (case netdev_name env pfPcieAddr w of
        Inl err \<Rightarrow> (Some err, w) | Inr ifName \<Rightarrow> setup_external env ifName (vf_ids numVfs) w)"

definition setExternalPortNumVfs :: "'w vnet \<Rightarrow> int \<Rightarrow> 'w \<Rightarrow> go_error option \<times> 'w" where
  "setExternalPortNumVfs env numVfs w =
     and_then (SetSriovNumVfs env SFPf1PCIeAddress numVfs w) (\<lambda>e. e) (setSpoofChkExternalPorts env SFPf1PCIeAddress numVfs)"

definition initOvSDataPlane :: "'w vnet \<Rightarrow> intelNetSecVspServer \<times> 'w \<Rightarrow> go_error option \<times> intelNetSecVspServer \<times> 'w" where
  "initOvSDataPlane env = (\<lambda>(s, w).
     case CreateOvSBridge env OvSBridgeName w of
       (Some err, w1) \<Rightarrow> (Some err, s, w1)
     | (None, w1) \<Rightarrow>
         (case netdev_name env SFPf1PCIeAddress w1 of
            Inl err \<Rightarrow> (Some err, s, w1)
          | Inr sfpPortIfName \<Rightarrow>
              (case WaitForVfPciAddressReady env sfpPortIfName 0 w1 of
                 (Inl err, w2) \<Rightarrow> (Some err, s, w2)
               | (Inr vfPcieAddr, w2) \<Rightarrow>
                   (case WaitForNetDevReady env vfPcieAddr w2 of
                      (Inl err, w3) \<Rightarrow> (Some err, s, w3)
                    | (Inr vfIfName, w3) \<Rightarrow>
                        (case vn_LinkByName env sfpPortIfName w3 of
                           Inl err \<Rightarrow> (Some err, s, w3)
                         | Inr sfpPortlink \<Rightarrow>
                             (case and_then (vn_LinkSetVfSpoofchk env sfpPortlink 0 False w3) (\<lambda>e. e) (vn_LinkSetVfTrust env sfpPortlink 0 True) of
                                (Some err, w4) \<Rightarrow> (Some err, s, w4)
                              | (None, w4) \<Rightarrow>
                                  (case ifUpAndAddToBridge env vfIfName w4 of
                                     (err, w5) \<Rightarrow>
                                       (err, s\<lparr>ns_chain := Some \<lparr>chain_vfRepDevs = [],
                                          chain_sfpVfDevs = \<lparr>vfd_VfKey = (sfpPortIfName, 0), vfd_PciAddress = vfPcieAddr, vfd_Vlan = 0,
                                            vfd_Allocated = True\<rparr>\<rparr>\<rparr>, w5))))))))"

fun createVethPairs :: "'w vnet \<Rightarrow> nat list \<Rightarrow> intelNetSecVspServer \<times> 'w \<Rightarrow> go_error option \<times> intelNetSecVspServer \<times> 'w" where
  "createVethPairs env [] sw = (None, sw)"
| "createVethPairs env (idx # rest) (s, w) =
     (case CreateNfVethPair env (int idx) w of
        (Inl err, w1) \<Rightarrow> (Some err, s, w1)
      | (Inr pair, w1) \<Rightarrow>
          createVethPairs env rest (s\<lparr>ns_vethTunnelPairDevs := map_put (veth_IfMac pair) pair (ns_vethTunnelPairDevs s)\<rparr>, w1))"

section \<open>Requests\<close>

definition netsec_Init ::
    "pci_parse \<Rightarrow> 'w vnet \<Rightarrow> bool \<times> string \<Rightarrow> intelNetSecVspServer \<times> 'w \<Rightarrow> (string \<times> 32 word) result \<times> intelNetSecVspServer \<times> 'w" where
  "netsec_Init parse env = (\<lambda>(dpu_mode, i) (s, w).
     let s0 = s\<lparr>ns_isDPUMode := dpu_mode, ns_dpuIdentifier := i\<rparr>
     in case GetDpuPcieAddress parse (vn_platform env w) dpu_mode i of
          Inl err \<Rightarrow> (Inl err, s0\<lparr>ns_dpuPcieAddress := []\<rparr>, w)
        | Inr addr \<Rightarrow>
            let s1 = s0\<lparr>ns_dpuPcieAddress := addr\<rparr>
            in case configureCommChannelIPs env s1 dpu_mode w of
                 (Inl err, w1) \<Rightarrow> (Inl err, s1, w1)
               | (Inr ipPort, w1) \<Rightarrow>
                   if \<not> dpu_mode then (Inr ipPort, s1, w1)
                   else (case createVethPairs env [0..<2] (s1, w1) of
                           (Some err, sw) \<Rightarrow> (Inl err, sw)
                         | (None, s2, w2) \<Rightarrow>
                             (case setExternalPortNumVfs env 1 w2 of
                                (Some err, w3) \<Rightarrow> (Inl err, s2, w3)
                              | (None, w3) \<Rightarrow>
                                  (case initOvSDataPlane env (s2, w3) of
                                     (Some err, sw) \<Rightarrow> (Inl err, sw) | (None, sw) \<Rightarrow> (Inr ipPort, sw)))))"

definition healthy :: "string \<Rightarrow> lc_Device" where
  "healthy i = \<lparr>lcd_ID = i, lcd_Health = ''Healthy'', lcd_Node = []\<rparr>"

definition netsec_GetDevices :: "pci_parse \<Rightarrow> 'w vnet \<Rightarrow> intelNetSecVspServer \<times> 'w \<Rightarrow> DeviceListResponse result" where
  "netsec_GetDevices parse env = (\<lambda>(s, w).
     if ns_isDPUMode s
     then Inr (fold (\<lambda>(_, dev). map_put (veth_IfName dev) (healthy (veth_IfName dev))) (ns_vethTunnelPairDevs s) [])
     else (case getVFs parse (vn_platform env w) (ns_dpuPcieAddress s) of
             Inl err \<Rightarrow> Inl err
           | Inr vfs \<Rightarrow> Inr (fold (\<lambda>vf. map_put vf (healthy vf)) vfs [])))"

definition getConnectedVf :: "'w vnet \<Rightarrow> string \<Rightarrow> intelNetSecVspServer \<times> 'w \<Rightarrow> nat result" where
  "getConnectedVf env portName = (\<lambda>(s, w).
     case host_match portName of
       Some (a, b, []) \<Rightarrow>
         (case atoi a of
            None \<Rightarrow> Inl (atoi_error a)
          | Some pfid \<Rightarrow>
              (case atoi b of
                 None \<Rightarrow> Inl (atoi_error b)
               | Some vfId \<Rightarrow>
                   if pfid \<noteq> 0 then Inl (Errorf ''PFID %d is not supported'' [FInt pfid])
                   else (case netdev_name env Backplanef2PCIeAddress w of
                           Inl err \<Rightarrow> Inl err
                         | Inr pfIfName \<Rightarrow>
                             (case map_get (ns_vfDevs s) (pfIfName, vfId) of
                                Some p \<Rightarrow> Inr p
                              | None \<Rightarrow> Inl (Errorf ''VF Device not found PFInterfaceName: %s, VFId: %d'' [FStr pfIfName, FInt vfId])))))
     | _ \<Rightarrow> Inl (Errorf ''OPI BridgePortName does not match expected format'' []))"

definition vf_error :: "string \<Rightarrow> VfDeviceInfo \<Rightarrow> go_error" where
  "vf_error what vf = Errorf (what @ '' PFInterfaceName: %s, VFId: %d'') [FStr (fst (vfd_VfKey vf)), FInt (snd (vfd_VfKey vf))]"

definition set_allocated :: "nat \<Rightarrow> bool \<Rightarrow> VfDeviceInfo list \<Rightarrow> VfDeviceInfo list" where
  "set_allocated p b store = store[p := (store ! p)\<lparr>vfd_Allocated := b\<rparr>]"

definition netsec_CreateBridgePort ::
    "'w vnet \<Rightarrow> CreateBridgePortRequest \<Rightarrow> intelNetSecVspServer \<times> 'w \<Rightarrow> opi_BridgePort result \<times> intelNetSecVspServer \<times> 'w" where
  "netsec_CreateBridgePort env req = (\<lambda>(s, w).
     case cbp_BridgePort req of
       None \<Rightarrow> (Inl nil_panic, s, w)
     | Some port \<Rightarrow>
         (case getConnectedVf env (obp_Name port) (s, w) of
            Inl err \<Rightarrow> (Inl err, s, w)
          | Inr p \<Rightarrow>
              let vf = ns_store s ! p
              in if vfd_Allocated vf then (Inl (vf_error ''VF Device is already allocated'' vf), s, w)
                 else (case WaitForNetDevReady env (vfd_PciAddress vf) w of
                         (Inl err, w1) \<Rightarrow> (Inl err, s, w1)
                       | (Inr vfIfName, w1) \<Rightarrow>
                           (case ifUpAndAddToBridge env vfIfName w1 of
                              (Some err, w2) \<Rightarrow> (Inl err, s, w2)
                            | (None, w2) \<Rightarrow>
                                (case (obp_Spec port, ns_chain s) of
                                   (Some spec, Some chain) \<Rightarrow>
                                     if map_get (chain_vfRepDevs chain) (vfd_VfKey vf) \<noteq> None
                                     then (Inl (vf_error ''VF Device is already exists'' vf), s, w2)
                                     else (Inr \<lparr>obp_Name = [], obp_Spec = None\<rparr>,
                                           s\<lparr>ns_chain := Some (chain\<lparr>chain_vfRepDevs := map_put (vfd_VfKey vf)
                                               \<lparr>rep_vfRepDev = p, rep_hostSideMac = HardwareAddr_String (MacAddress spec)\<rparr> (chain_vfRepDevs chain)\<rparr>),
                                             ns_store := set_allocated p True (ns_store s)\<rparr>, w2)
                                 | _ \<Rightarrow> (Inl nil_panic, s, w2))))))"

definition netsec_DeleteBridgePort ::
    "'w vnet \<Rightarrow> string \<Rightarrow> intelNetSecVspServer \<times> 'w \<Rightarrow> go_error option \<times> intelNetSecVspServer \<times> 'w" where
  "netsec_DeleteBridgePort env name = (\<lambda>(s, w).
     case getConnectedVf env name (s, w) of
       Inl err \<Rightarrow> (Some err, s, w)
     | Inr p \<Rightarrow>
         let vf = ns_store s ! p
         in case WaitForNetDevReady env (vfd_PciAddress vf) w of
              (Inl err, w1) \<Rightarrow> (Some err, s, w1)
            | (Inr vfIfName, w1) \<Rightarrow>
                (case ifDownAndDelFromBridge env vfIfName w1 of
                   (Some err, w2) \<Rightarrow> (Some err, s, w2)
                 | (None, w2) \<Rightarrow>
                     (case ns_chain s of
                        None \<Rightarrow> (Some nil_panic, s, w2)
                      | Some chain \<Rightarrow>
                          (case map_get (chain_vfRepDevs chain) (vfd_VfKey vf) of
                             None \<Rightarrow> (Some (vf_error ''VF Device not found'' vf), s, w2)
                           | Some rep \<Rightarrow>
                               if \<not> vfd_Allocated (ns_store s ! rep_vfRepDev rep)
                               then (Some (vf_error ''VF Device is not allocated'' vf), s, w2)
                               else (None, s\<lparr>ns_chain := Some (chain\<lparr>chain_vfRepDevs := map_del (vfd_VfKey vf) (chain_vfRepDevs chain)\<rparr>),
                                             ns_store := set_allocated (rep_vfRepDev rep) False (ns_store s)\<rparr>, w2)))))"

definition veth_of :: "intelNetSecVspServer \<Rightarrow> string \<Rightarrow> string \<Rightarrow> VEthPairDeviceInfo result" where
  "veth_of s what mac =
     (case map_get (ns_vethTunnelPairDevs s) mac of
        Some veth \<Rightarrow> Inr veth | None \<Rightarrow> Inl (Errorf (''veth pair not found for '' @ what @ '': %s'') [FStr mac]))"

definition netsec_CreateNetworkFunction ::
    "'w vnet \<Rightarrow> string \<times> string \<Rightarrow> intelNetSecVspServer \<times> 'w \<Rightarrow> go_error option \<times> intelNetSecVspServer \<times> 'w" where
  "netsec_CreateNetworkFunction env = (\<lambda>(input, output) (s, w).
     case veth_of s ''input'' input of
       Inl err \<Rightarrow> (Some err, s, w)
     | Inr inport \<Rightarrow>
         (case veth_of s ''output'' output of
            Inl err \<Rightarrow> (Some err, s, w)
          | Inr outport \<Rightarrow>
              (case and_then (ifUpAndAddToBridge env (veth_PeerName inport) w) (\<lambda>e. e) (ifUpAndAddToBridge env (veth_PeerName outport)) of
                 (Some err, w1) \<Rightarrow> (Some err, s, w1)
               | (None, w1) \<Rightarrow> (None, s\<lparr>ns_numNfs := ns_numNfs s + 1\<rparr>, w1))))"

definition netsec_DeleteNetworkFunction ::
    "'w vnet \<Rightarrow> string \<times> string \<Rightarrow> intelNetSecVspServer \<times> 'w \<Rightarrow> go_error option \<times> intelNetSecVspServer \<times> 'w" where
  "netsec_DeleteNetworkFunction env = (\<lambda>(input, output) (s, w).
     let s1 = s\<lparr>ns_numNfs := ns_numNfs s - 1\<rparr>
     in case veth_of s ''input'' input of
          Inl err \<Rightarrow> (Some err, s1, w)
        | Inr inport \<Rightarrow>
            (case veth_of s ''output'' output of
               Inl err \<Rightarrow> (Some err, s1, w)
             | Inr outport \<Rightarrow>
                 (case and_then (ifDownAndDelFromBridge env (veth_PeerName inport) w) (\<lambda>e. e) (ifDownAndDelFromBridge env (veth_PeerName outport)) of
                    (err, w1) \<Rightarrow> (err, s1, w1))))"

definition netsec_SetNumVfs :: "'w vnet \<Rightarrow> 32 word \<Rightarrow> intelNetSecVspServer \<times> 'w \<Rightarrow> 32 word result \<times> intelNetSecVspServer \<times> 'w" where
  "netsec_SetNumVfs env vfCnt = (\<lambda>(s, w).
     let addr = (if ns_isDPUMode s then Backplanef2PCIeAddress else ns_dpuPcieAddress s)
     in case SetSriovNumVfs env addr (sint vfCnt) w of
          (Some err, w1) \<Rightarrow> (Inl err, s, w1)
        | (None, w1) \<Rightarrow>
            (case setVlanIdsSpoofChkInternalPorts env addr (sint vfCnt) (s, w1) of
               (Some err, sw) \<Rightarrow> (Inl err, sw)
             | (None, s2, w2) \<Rightarrow> (Inr vfCnt, s2\<lparr>ns_vfCnt := sint vfCnt\<rparr>, w2)))"

fun destroy_pairs :: "'w vnet \<Rightarrow> (string, VEthPairDeviceInfo) gomap \<Rightarrow> 'w \<Rightarrow> 'w" where
  "destroy_pairs env [] w = w"
| "destroy_pairs env ((_, dev) # rest) w = destroy_pairs env rest (snd (DestroyVethPair env (veth_IfName dev) w))"

definition netsec_Stop :: "'w vnet \<Rightarrow> intelNetSecVspServer \<times> 'w \<Rightarrow> intelNetSecVspServer \<times> 'w" where
  "netsec_Stop env = (\<lambda>(s, w). (s, destroy_pairs env (ns_vethTunnelPairDevs s) (snd (DeleteOvSBridge env OvSBridgeName w))))"

text \<open>The process as the daemon calls it.\<close>

definition netsec_service :: "pci_parse \<Rightarrow> 'w vnet \<Rightarrow> (intelNetSecVspServer \<times> 'w) vsp_service" where
  "netsec_service parse env =
     \<lparr>vsp_Init = netsec_Init parse env, vsp_CreateBridgePort = netsec_CreateBridgePort env,
      vsp_DeleteBridgePort = netsec_DeleteBridgePort env, vsp_CreateNetworkFunction = netsec_CreateNetworkFunction env,
      vsp_DeleteNetworkFunction = netsec_DeleteNetworkFunction env,
      vsp_GetDevices = (\<lambda>sw. (netsec_GetDevices parse env sw, sw)), vsp_SetNumVfs = netsec_SetNumVfs env\<rparr>"

section \<open>Records of virtual functions\<close>

definition rep_of :: "intelNetSecVspServer \<Rightarrow> VfDeviceKey \<Rightarrow> intelNetSecVfRepDev option" where
  "rep_of s k = (case ns_chain s of Some chain \<Rightarrow> map_get (chain_vfRepDevs chain) k | None \<Rightarrow> None)"

definition netsec_inv :: "intelNetSecVspServer \<Rightarrow> bool" where
  "netsec_inv s \<longleftrightarrow>
     (\<forall>k p. map_get (ns_vfDevs s) k = Some p \<longrightarrow> p < length (ns_store s) \<and> vfd_VfKey (ns_store s ! p) = k) \<and>
     (\<forall>vf \<in> set (ns_store s). vfd_Vlan vf = snd (vfd_VfKey vf) + 2) \<and>
     (\<forall>k rep. rep_of s k = Some rep \<longrightarrow> rep_vfRepDev rep < length (ns_store s) \<and>
        vfd_VfKey (ns_store s ! rep_vfRepDev rep) = k \<and> vfd_Allocated (ns_store s ! rep_vfRepDev rep))"

text \<open>What a request may reach, whatever the host does in between.\<close>

inductive netsec_reachable :: "pci_parse \<Rightarrow> 'w vnet \<Rightarrow> intelNetSecVspServer \<times> 'w \<Rightarrow> bool" for parse env where
  start: "netsec_reachable parse env (NewIntelNetSecVspServer, w)"
| host: "netsec_reachable parse env (s, w) \<Longrightarrow> netsec_reachable parse env (s, w')"
| init: "netsec_reachable parse env sw \<Longrightarrow> netsec_reachable parse env (snd (netsec_Init parse env x sw))"
| create: "netsec_reachable parse env sw \<Longrightarrow> netsec_reachable parse env (snd (netsec_CreateBridgePort env req sw))"
| delete: "netsec_reachable parse env sw \<Longrightarrow> netsec_reachable parse env (snd (netsec_DeleteBridgePort env name sw))"
| nf_create: "netsec_reachable parse env sw \<Longrightarrow> netsec_reachable parse env (snd (netsec_CreateNetworkFunction env nf sw))"
| nf_delete: "netsec_reachable parse env sw \<Longrightarrow> netsec_reachable parse env (snd (netsec_DeleteNetworkFunction env nf sw))"
| set_vfs: "netsec_reachable parse env sw \<Longrightarrow> netsec_reachable parse env (snd (netsec_SetNumVfs env n sw))"

text \<open>The invariant reads only the records and the chain.\<close>

definition same_records :: "intelNetSecVspServer \<Rightarrow> intelNetSecVspServer \<Rightarrow> bool" where
  "same_records s t \<longleftrightarrow> ns_store t = ns_store s \<and> ns_vfDevs t = ns_vfDevs s \<and> (\<forall>k rep. rep_of t k = Some rep \<longrightarrow> rep_of s k = Some rep)"

lemma netsec_inv_same: "netsec_inv s \<Longrightarrow> same_records s t \<Longrightarrow> netsec_inv t"
  unfolding netsec_inv_def same_records_def by (simp del: split_paired_All) blast

lemma same_records_refl [simp]: "same_records s s"
  by (simp add: same_records_def)

lemma same_records_trans: "same_records s t \<Longrightarrow> same_records t u \<Longrightarrow> same_records s u"
  by (auto simp: same_records_def)

lemma createVethPairs_records: "same_records s (fst (snd (createVethPairs env idxs (s, w))))"
proof (induction idxs arbitrary: s w)
  case (Cons idx idxs)
  obtain r w1 where r: "CreateNfVethPair env (int idx) w = (r, w1)" by (metis prod.exhaust)
  show ?case
  proof (cases r)
    case (Inr pair)
    let ?s = "s\<lparr>ns_vethTunnelPairDevs := map_put (veth_IfMac pair) pair (ns_vethTunnelPairDevs s)\<rparr>"
    have "same_records s ?s" by (simp add: same_records_def rep_of_def)
    then show ?thesis using same_records_trans Cons.IH [of ?s w1] r Inr by simp
  qed (use r in simp)
qed simp

lemma initOvS_records: "same_records s (fst (snd (initOvSDataPlane env (s, w))))"
  by (auto simp: initOvSDataPlane_def same_records_def rep_of_def split: prod.splits sum.splits option.splits)

lemma netsec_Init_records: "same_records s (fst (snd (netsec_Init parse env x (s, w))))"
proof -
  have upd: "same_records s (s\<lparr>ns_isDPUMode := b, ns_dpuIdentifier := i, ns_dpuPcieAddress := a\<rparr>)" for b i a
    by (simp add: same_records_def rep_of_def)
  obtain d i where x: "x = (d, i)" by (metis prod.exhaust)
  show ?thesis
  proof (cases "GetDpuPcieAddress parse (vn_platform env w) d i")
    case (Inl err)
    then show ?thesis using upd by (simp add: netsec_Init_def x Let_def)
  next
    case (Inr addr)
    let ?s1 = "s\<lparr>ns_isDPUMode := d, ns_dpuIdentifier := i, ns_dpuPcieAddress := addr\<rparr>"
    obtain r w1 where r: "configureCommChannelIPs env ?s1 d w = (r, w1)" by (metis prod.exhaust)
    obtain e2 s2 w2 where v: "createVethPairs env [0..<2] (?s1, w1) = (e2, s2, w2)" by (metis prod.exhaust)
    have s2: "same_records s s2" using same_records_trans [OF upd createVethPairs_records [of _ env "[0..<2]" w1]] v by (metis fst_conv snd_conv)
    obtain e3 w3 where e3: "setExternalPortNumVfs env 1 w2 = (e3, w3)" by (metis prod.exhaust)
    obtain e4 s4 w4 where o: "initOvSDataPlane env (s2, w3) = (e4, s4, w4)" by (metis prod.exhaust)
    have s4: "same_records s s4" using same_records_trans [OF s2 initOvS_records [of s2 env w3]] o by simp
    show ?thesis using Inr r v e3 o s2 s4 upd
      by (cases d; cases r; cases e2; cases e3; cases e4) (simp_all add: netsec_Init_def x Let_def del: upt_rec_numeral upt_Suc)
  qed
qed

lemma netsec_inv_vf: "netsec_inv s \<Longrightarrow> map_get (ns_vfDevs s) k = Some p \<Longrightarrow> p < length (ns_store s) \<and> vfd_VfKey (ns_store s ! p) = k"
  unfolding netsec_inv_def by blast

lemma netsec_inv_rep: "netsec_inv s \<Longrightarrow> rep_of s k = Some rep \<Longrightarrow> rep_vfRepDev rep < length (ns_store s) \<and>
    vfd_VfKey (ns_store s ! rep_vfRepDev rep) = k \<and> vfd_Allocated (ns_store s ! rep_vfRepDev rep)"
  unfolding netsec_inv_def by blast

lemma new_vf_inv:
  assumes "netsec_inv s" "vlan = snd key + 2"
  shows "netsec_inv (new_vf key addr vlan s)"
  using assms
  by (auto simp: netsec_inv_def new_vf_def rep_of_def nth_append less_SucI split: option.splits simp del: split_paired_All)

lemma setup_internal_inv: "netsec_inv s \<Longrightarrow> netsec_inv (fst (snd (setup_internal env ifName ids (s, w))))"
proof (induction ids arbitrary: s w)
  case (Cons vfID ids)
  then show ?case
    using new_vf_inv [OF Cons.prems, of "vfID + 2" "(ifName, vfID)"]
    by (auto split: prod.splits sum.splits option.splits)
qed simp

lemma SetNumVfs_inv: "netsec_inv s \<Longrightarrow> netsec_inv (fst (snd (netsec_SetNumVfs env n (s, w))))"
proof -
  assume inv: "netsec_inv s"
  let ?addr = "if ns_isDPUMode s then Backplanef2PCIeAddress else ns_dpuPcieAddress s"
  obtain e w1 where e: "SetSriovNumVfs env ?addr (sint n) w = (e, w1)" by (metis prod.exhaust)
  obtain e2 s2 w2 where v: "setVlanIdsSpoofChkInternalPorts env ?addr (sint n) (s, w1) = (e2, s2, w2)" by (metis prod.exhaust)
  have "netsec_inv (fst (snd (setVlanIdsSpoofChkInternalPorts env ?addr (sint n) (s, w1))))"
    using inv by (auto simp: setVlanIdsSpoofChkInternalPorts_def setup_internal_inv split: prod.splits sum.splits option.splits)
  then have "netsec_inv s2" "netsec_inv (s2\<lparr>ns_vfCnt := sint n\<rparr>)"
    using netsec_inv_same [of s2 "s2\<lparr>ns_vfCnt := sint n\<rparr>"] by (simp_all add: v same_records_def rep_of_def)
  then show ?thesis using inv e v by (cases e; cases e2) (simp_all add: netsec_SetNumVfs_def Let_def)
qed

lemma getConnectedVf_found:
  assumes "getConnectedVf env name (s, w) = Inr p"
  shows "\<exists>k. map_get (ns_vfDevs s) k = Some p"
  using assms by (auto simp: getConnectedVf_def split: option.splits sum.splits prod.splits list.splits if_splits)

lemma getConnectedVf_cong:
  assumes "ns_vfDevs s1 = ns_vfDevs s" "netdev_name env Backplanef2PCIeAddress w1 = netdev_name env Backplanef2PCIeAddress w"
  shows "getConnectedVf env name (s1, w1) = getConnectedVf env name (s, w)"
  unfolding getConnectedVf_def prod.case assms by (rule refl)

lemma set_allocated_nth:
  "p < length store \<Longrightarrow> set_allocated p b store ! q = (if q = p then (store ! p)\<lparr>vfd_Allocated := b\<rparr> else store ! q)"
  "length (set_allocated p b store) = length store"
  by (auto simp: set_allocated_def)

lemma set_allocated_entries: "x \<in> set (set_allocated p b store) \<Longrightarrow> p < length store \<Longrightarrow>
    \<exists>y \<in> set store. vfd_VfKey x = vfd_VfKey y \<and> vfd_Vlan x = vfd_Vlan y"
  unfolding set_allocated_def by (auto dest!: set_update_subset_insert [THEN subsetD])

text \<open>Setting the flag of one record keeps the invariant when the look-ups of the chain agree with it.\<close>

lemma netsec_inv_allocate:
  assumes inv: "netsec_inv s" and p: "p < length (ns_store s)"
    and eqs: "ns_store s' = set_allocated p b (ns_store s)" "ns_vfDevs s' = ns_vfDevs s"
    and rep: "\<And>k rep. rep_of s' k = Some rep \<Longrightarrow>
      if k = vfd_VfKey (ns_store s ! p) then rep_vfRepDev rep = p \<and> b else rep_of s k = Some rep"
  shows "netsec_inv s'"
  unfolding netsec_inv_def
proof (intro conjI allI impI ballI)
  fix vf assume "vf \<in> set (ns_store s')"
  then obtain y where "y \<in> set (ns_store s)" "vfd_VfKey vf = vfd_VfKey y" "vfd_Vlan vf = vfd_Vlan y"
    using set_allocated_entries [of vf p b "ns_store s"] p eqs by auto
  then show "vfd_Vlan vf = snd (vfd_VfKey vf) + 2" using inv by (simp add: netsec_inv_def)
next
  fix k q assume "map_get (ns_vfDevs s') k = Some q"
  then have "q < length (ns_store s) \<and> vfd_VfKey (ns_store s ! q) = k" using netsec_inv_vf [OF inv] eqs by simp
  then show "q < length (ns_store s')" "vfd_VfKey (ns_store s' ! q) = k" using p by (auto simp: eqs set_allocated_nth)
next
  fix k r assume r: "rep_of s' k = Some r"
  have old: "rep_vfRepDev r < length (ns_store s) \<and> vfd_VfKey (ns_store s ! rep_vfRepDev r) = k \<and> vfd_Allocated (ns_store s ! rep_vfRepDev r)"
    if "rep_of s k = Some r" using netsec_inv_rep [OF inv that] .
  show "rep_vfRepDev r < length (ns_store s')" "vfd_VfKey (ns_store s' ! rep_vfRepDev r) = k"
    "vfd_Allocated (ns_store s' ! rep_vfRepDev r)"
    using rep [OF r] old p by (auto simp: eqs set_allocated_nth split: if_splits)
qed

text \<open>A new bridge port.\<close>

lemma CreateBridgePort_cases:
  assumes "netsec_CreateBridgePort env req (s, w) = (r, s', w')"
  obtains (same) "s' = s" "\<exists>err. r = Inl err"
  | (port) port spec chain p where "cbp_BridgePort req = Some port" "obp_Spec port = Some spec" "ns_chain s = Some chain"
      "getConnectedVf env (obp_Name port) (s, w) = Inr p" "\<not> vfd_Allocated (ns_store s ! p)" "rep_of s (vfd_VfKey (ns_store s ! p)) = None"
      "\<exists>port. r = Inr port"
      "s' = s\<lparr>ns_chain := Some (chain\<lparr>chain_vfRepDevs := map_put (vfd_VfKey (ns_store s ! p))
               \<lparr>rep_vfRepDev = p, rep_hostSideMac = HardwareAddr_String (MacAddress spec)\<rparr> (chain_vfRepDevs chain)\<rparr>),
             ns_store := set_allocated p True (ns_store s)\<rparr>"
proof (cases "\<exists>port p w1 w2 ifName spec chain. cbp_BridgePort req = Some port \<and> getConnectedVf env (obp_Name port) (s, w) = Inr p \<and>
    \<not> vfd_Allocated (ns_store s ! p) \<and> WaitForNetDevReady env (vfd_PciAddress (ns_store s ! p)) w = (Inr ifName, w1) \<and>
    ifUpAndAddToBridge env ifName w1 = (None, w2) \<and> obp_Spec port = Some spec \<and> ns_chain s = Some chain \<and>
    map_get (chain_vfRepDevs chain) (vfd_VfKey (ns_store s ! p)) = None")
  case True
  then show ?thesis using assms port by (fastforce simp: netsec_CreateBridgePort_def Let_def rep_of_def)
next
  case False
  then have "s' = s \<and> (\<exists>err. r = Inl err)" using assms
    by (simp add: netsec_CreateBridgePort_def Let_def split: option.split_asm sum.split_asm prod.split_asm if_split_asm; blast)
  then show ?thesis using same by blast
qed

lemma CreateBridgePort_inv:
  assumes inv: "netsec_inv s"
  shows "netsec_inv (fst (snd (netsec_CreateBridgePort env req (s, w))))"
proof -
  obtain r s' w' where run: "netsec_CreateBridgePort env req (s, w) = (r, s', w')" by (metis prod.exhaust)
  from run show ?thesis
  proof (cases rule: CreateBridgePort_cases)
    case same
    then show ?thesis using inv run by simp
  next
    case (port port spec chain p)
    obtain k where k: "map_get (ns_vfDevs s) k = Some p" using getConnectedVf_found [OF port(4)] by blast
    have p: "p < length (ns_store s)" "vfd_VfKey (ns_store s ! p) = k" using netsec_inv_vf [OF inv k] by auto
    have rep: "rep_of s' k' = (if k' = k then Some \<lparr>rep_vfRepDev = p, rep_hostSideMac = HardwareAddr_String (MacAddress spec)\<rparr> else rep_of s k')" for k'
      using port(3,8) p(2) by (simp add: rep_of_def)
    have eqs: "ns_store s' = set_allocated p True (ns_store s)" "ns_vfDevs s' = ns_vfDevs s" using port(8) by simp_all
    have "netsec_inv s'"
    proof (rule netsec_inv_allocate [OF inv p(1) eqs])
      fix k' rep' assume "rep_of s' k' = Some rep'"
      then show "if k' = vfd_VfKey (ns_store s ! p) then rep_vfRepDev rep' = p \<and> True else rep_of s k' = Some rep'"
        using rep [of k'] p(2) by (auto split: if_splits)
    qed
    then show ?thesis using run by simp
  qed
qed

lemma DeleteBridgePort_cases:
  assumes "netsec_DeleteBridgePort env name (s, w) = (r, s', w')"
  obtains (same) "s' = s" "\<exists>err. r = Some err"
  | (port) chain p rep where "ns_chain s = Some chain" "getConnectedVf env name (s, w) = Inr p"
      "rep_of s (vfd_VfKey (ns_store s ! p)) = Some rep" "r = None"
      "s' = s\<lparr>ns_chain := Some (chain\<lparr>chain_vfRepDevs := map_del (vfd_VfKey (ns_store s ! p)) (chain_vfRepDevs chain)\<rparr>),
             ns_store := set_allocated (rep_vfRepDev rep) False (ns_store s)\<rparr>"
proof (cases "\<exists>p w1 w2 ifName chain rep. getConnectedVf env name (s, w) = Inr p \<and>
    WaitForNetDevReady env (vfd_PciAddress (ns_store s ! p)) w = (Inr ifName, w1) \<and>
    ifDownAndDelFromBridge env ifName w1 = (None, w2) \<and> ns_chain s = Some chain \<and>
    map_get (chain_vfRepDevs chain) (vfd_VfKey (ns_store s ! p)) = Some rep \<and> vfd_Allocated (ns_store s ! rep_vfRepDev rep)")
  case True
  then show ?thesis using assms port by (fastforce simp: netsec_DeleteBridgePort_def Let_def rep_of_def)
next
  case False
  then have "s' = s \<and> (\<exists>err. r = Some err)" using assms
    by (simp add: netsec_DeleteBridgePort_def Let_def split: option.split_asm sum.split_asm prod.split_asm if_split_asm; blast)
  then show ?thesis using same by blast
qed

lemma DeleteBridgePort_inv:
  assumes inv: "netsec_inv s"
  shows "netsec_inv (fst (snd (netsec_DeleteBridgePort env name (s, w))))"
proof -
  obtain r s' w' where run: "netsec_DeleteBridgePort env name (s, w) = (r, s', w')" by (metis prod.exhaust)
  from run show ?thesis
  proof (cases rule: DeleteBridgePort_cases)
    case same
    then show ?thesis using inv run by simp
  next
    case (port chain p rep)
    have rep: "rep_vfRepDev rep < length (ns_store s)" "vfd_VfKey (ns_store s ! rep_vfRepDev rep) = vfd_VfKey (ns_store s ! p)"
      using netsec_inv_rep [OF inv port(3)] by auto
    have gone: "rep_of s' k = (if k = vfd_VfKey (ns_store s ! p) then None else rep_of s k)" for k
      using port(1,5) by (simp add: rep_of_def)
    have eqs: "ns_store s' = set_allocated (rep_vfRepDev rep) False (ns_store s)" "ns_vfDevs s' = ns_vfDevs s" using port(5) by simp_all
    have "netsec_inv s'"
    proof (rule netsec_inv_allocate [OF inv rep(1) eqs])
      fix k' rep' assume "rep_of s' k' = Some rep'"
      then show "if k' = vfd_VfKey (ns_store s ! rep_vfRepDev rep) then rep_vfRepDev rep' = rep_vfRepDev rep \<and> False else rep_of s k' = Some rep'"
        using gone [of k'] rep(2) by (auto split: if_splits)
    qed
    then show ?thesis using run by simp
  qed
qed

lemma network_function_records:
  "same_records s (fst (snd (netsec_CreateNetworkFunction env nf (s, w))))"
  "same_records s (fst (snd (netsec_DeleteNetworkFunction env nf (s, w))))"
  by (auto simp: netsec_CreateNetworkFunction_def netsec_DeleteNetworkFunction_def same_records_def rep_of_def Let_def
      split: prod.splits sum.splits option.splits)

lemma netsec_reachable_inv: "netsec_reachable parse env sw \<Longrightarrow> netsec_inv (fst sw)"
proof (induction rule: netsec_reachable.induct)
  case (start w)
  then show ?case by (simp add: netsec_inv_def NewIntelNetSecVspServer_def rep_of_def)
next
  case (init sw x)
  then show ?case using netsec_inv_same netsec_Init_records [of "fst sw" parse env x "snd sw"] by simp
next
  case (create sw req)
  then show ?case using CreateBridgePort_inv [of "fst sw" env req "snd sw"] by simp
next
  case (delete sw name)
  then show ?case using DeleteBridgePort_inv [of "fst sw" env name "snd sw"] by simp
next
  case (nf_create sw nf)
  then show ?case using netsec_inv_same network_function_records(1) [of "fst sw" env nf "snd sw"] by simp
next
  case (nf_delete sw nf)
  then show ?case using netsec_inv_same network_function_records(2) [of "fst sw" env nf "snd sw"] by simp
next
  case (set_vfs sw n)
  then show ?case using SetNumVfs_inv [of "fst sw" env n "snd sw"] by simp
qed simp

text \<open>
  C22: Whatever requests the NetSec process serves and whatever the host does in between, \<open>vfDevs\<close> maps the virtual
  function \<open>i\<close> of a physical function to a record of exactly this function with VLAN \<open>i + 2\<close>, two functions never
  share a record, and every function in the service chain has a record of its own key that is marked allocated.
\<close>

theorem netsec_records:
  assumes "netsec_reachable parse env (s, w)"
  shows "(\<forall>pf i p. map_get (ns_vfDevs s) (pf, i) = Some p \<longrightarrow>
       p < length (ns_store s) \<and> vfd_VfKey (ns_store s ! p) = (pf, i) \<and> vfd_Vlan (ns_store s ! p) = i + 2 \<and>
       (\<forall>k. map_get (ns_vfDevs s) k = Some p \<longrightarrow> k = (pf, i))) \<and>
     (\<forall>k rep. rep_of s k = Some rep \<longrightarrow> rep_vfRepDev rep < length (ns_store s) \<and>
       vfd_VfKey (ns_store s ! rep_vfRepDev rep) = k \<and> vfd_Allocated (ns_store s ! rep_vfRepDev rep))"
proof (intro conjI [OF allI [OF allI [OF allI]]] impI)
  have inv: "netsec_inv s" using netsec_reachable_inv [OF assms] by simp
  show "\<forall>k rep. rep_of s k = Some rep \<longrightarrow> rep_vfRepDev rep < length (ns_store s) \<and>
       vfd_VfKey (ns_store s ! rep_vfRepDev rep) = k \<and> vfd_Allocated (ns_store s ! rep_vfRepDev rep)"
    using netsec_inv_rep [OF inv] by blast
  fix pf i p assume "map_get (ns_vfDevs s) (pf, i) = Some p"
  note p = netsec_inv_vf [OF inv this]
  have "vfd_Vlan (ns_store s ! p) = i + 2" using inv p by (simp add: netsec_inv_def)
  then show "p < length (ns_store s) \<and> vfd_VfKey (ns_store s ! p) = (pf, i) \<and> vfd_Vlan (ns_store s ! p) = i + 2 \<and>
       (\<forall>k. map_get (ns_vfDevs s) k = Some p \<longrightarrow> k = (pf, i))"
    using p netsec_inv_vf [OF inv] by metis
qed

text \<open>
  Deleting a bridge port of the NetSec process undoes its creation: the records of the virtual functions and
  the members of the chain are those before, as long as the backplane keeps its name in between.
\<close>

theorem netsec_port_roundtrip:
  assumes reach: "netsec_reachable parse env (s, w)"
    and create: "netsec_CreateBridgePort env req (s, w) = (Inr created, s1, w1)" and port: "cbp_BridgePort req = Some port"
    and name: "netdev_name env Backplanef2PCIeAddress w2 = netdev_name env Backplanef2PCIeAddress w"
    and delete: "netsec_DeleteBridgePort env (obp_Name port) (s1, w2) = (None, s2, w3)"
  shows "ns_store s2 = ns_store s \<and> ns_vfDevs s2 = ns_vfDevs s \<and> rep_of s2 k = rep_of s k"
proof -
  have inv: "netsec_inv s" using netsec_reachable_inv [OF reach] by simp
  from create obtain spec :: BridgePortSpec and chain p where c: "ns_chain s = Some chain" "getConnectedVf env (obp_Name port) (s, w) = Inr p"
      "\<not> vfd_Allocated (ns_store s ! p)" "rep_of s (vfd_VfKey (ns_store s ! p)) = None"
      "s1 = s\<lparr>ns_chain := Some (chain\<lparr>chain_vfRepDevs := map_put (vfd_VfKey (ns_store s ! p))
               \<lparr>rep_vfRepDev = p, rep_hostSideMac = HardwareAddr_String (MacAddress spec)\<rparr> (chain_vfRepDevs chain)\<rparr>),
             ns_store := set_allocated p True (ns_store s)\<rparr>"
  proof (cases rule: CreateBridgePort_cases)
    case same
    then show ?thesis by simp
  next
    case (port port' spec chain p)
    then have "port' = port" using assms(3) by simp
    then show ?thesis using that [of chain p spec] port by simp
  qed
  have p: "p < length (ns_store s)" using getConnectedVf_found [OF c(2)] netsec_inv_vf [OF inv] by blast
  have same: "getConnectedVf env (obp_Name port) (s1, w2) = Inr p"
    using c(2) getConnectedVf_cong [of s1 s env w2 w, OF _ name] c(5) by simp
  from delete show ?thesis
  proof (cases rule: DeleteBridgePort_cases)
    case same
    then show ?thesis by simp
  next
    case (port chain' p' rep)
    have p': "p' = p" using same port(2) by simp
    have key: "vfd_VfKey (ns_store s1 ! p) = vfd_VfKey (ns_store s ! p)" using p c(5) by (simp add: set_allocated_nth)
    have rep: "rep_vfRepDev rep = p" using port(3) key c(5) by (auto simp: p' rep_of_def)
    have "ns_store s2 = set_allocated p False (set_allocated p True (ns_store s))" using port(5) rep c(5) by simp
    moreover have "(ns_store s ! p)\<lparr>vfd_Allocated := False\<rparr> = ns_store s ! p" using c(3) by (cases "ns_store s ! p") simp
    ultimately have "ns_store s2 = ns_store s" using p by (simp add: set_allocated_def)
    moreover have "rep_of s2 k = rep_of s k" using port(1,5) c(1,4,5) key by (auto simp: rep_of_def p')
    ultimately show ?thesis using port(5) c(5) by simp
  qed
qed

section \<open>Lanes\<close>

text \<open>Host and DPU are connected by a VLAN per number of a virtual function. The settings of a virtual function
  are read from the host by \<open>conf\<close>; netlink changes one setting of one function, and nothing else that is called
  while the functions are set up changes any.\<close>

record vf_setting =
  vc_vlan :: int
  vc_spoofchk :: bool
  vc_trust :: bool

definition set_conf :: "(vf_setting \<Rightarrow> vf_setting) \<Rightarrow> VfDeviceKey \<Rightarrow> (VfDeviceKey \<Rightarrow> vf_setting) \<Rightarrow> VfDeviceKey \<Rightarrow> vf_setting" where
  "set_conf f k c = c(k := f (c k))"

definition lane :: "int \<Rightarrow> vf_setting" where
  "lane i = \<lparr>vc_vlan = i + 2, vc_spoofchk = False, vc_trust = True\<rparr>"

definition vf_laws :: "'w vnet \<Rightarrow> ('w \<Rightarrow> VfDeviceKey \<Rightarrow> vf_setting) \<Rightarrow> bool" where
  "vf_laws env conf \<longleftrightarrow>
     (\<forall>n w link. vn_LinkByName env n w = Inr link \<longrightarrow> vl_Name link = n) \<and>
     (\<forall>link i v w w'. vn_LinkSetVfVlan env link i v w = (None, w') \<longrightarrow> conf w' = set_conf (vc_vlan_update (\<lambda>_. v)) (vl_Name link, i) (conf w)) \<and>
     (\<forall>link i b w w'. vn_LinkSetVfSpoofchk env link i b w = (None, w') \<longrightarrow>
        conf w' = set_conf (vc_spoofchk_update (\<lambda>_. b)) (vl_Name link, i) (conf w)) \<and>
     (\<forall>link i b w w'. vn_LinkSetVfTrust env link i b w = (None, w') \<longrightarrow> conf w' = set_conf (vc_trust_update (\<lambda>_. b)) (vl_Name link, i) (conf w)) \<and>
     (\<forall>link w. conf (snd (vn_LinkSetDown env link w)) = conf w) \<and>
     (\<forall>w. conf (vn_Sleep env w) = conf w)"

locale vf_netlink =
  fixes env :: "'w vnet" and conf :: "'w \<Rightarrow> VfDeviceKey \<Rightarrow> vf_setting"
  assumes laws: "vf_laws env conf"
begin

lemma wait_keeps: "conf (snd (wait_loop (vn_Sleep env) attempt n w)) = conf w"
proof (induction n arbitrary: w)
  case 0
  then show ?case by (subst wait_loop.simps) (simp split: sum.split)
next
  case (Suc n)
  then show ?case using laws by (subst wait_loop.simps) (simp add: vf_laws_def split: sum.split)
qed

lemma finish_keeps: "conf (snd (finishVfSetup env ifName i w)) = conf w"
proof -
  have map: "snd (map_error f r) = snd r" for f and r :: "'a result \<times> 'w"
    by (auto simp: map_error_def split: prod.splits sum.splits)
  have "conf (snd (WaitForVfPciAddressReady env ifName i w)) = conf w" "conf (snd (WaitForLinkReady env a w)) = conf w" for a w
    by (simp_all add: WaitForVfPciAddressReady_def WaitForLinkReady_def map wait_keeps)
  moreover have "conf (snd (vn_LinkSetDown env link w)) = conf w" for link w using laws by (simp add: vf_laws_def)
  ultimately show ?thesis unfolding finishVfSetup_def
    by (auto split: prod.splits sum.splits option.splits) (metis snd_conv)+
qed

lemma vf_steps:
  assumes "vn_LinkByName env ifName w = Inr link"
    "and_then (vn_LinkSetVfVlan env link i (i + 2) w) (\<lambda>e. e)
       (\<lambda>w. and_then (vn_LinkSetVfSpoofchk env link i False w) (\<lambda>e. e) (vn_LinkSetVfTrust env link i True)) = (None, w')"
  shows "conf w' = (conf w)((ifName, i) := lane i)"
proof -
  obtain w1 w2 where "vn_LinkSetVfVlan env link i (i + 2) w = (None, w1)" "vn_LinkSetVfSpoofchk env link i False w1 = (None, w2)"
      "vn_LinkSetVfTrust env link i True w2 = (None, w')"
    using assms(2) by (auto simp: and_then_def split: prod.splits option.splits)
  moreover have "vl_Name link = ifName" using assms(1) laws by (simp add: vf_laws_def)
  ultimately have "conf w1 = set_conf (vc_vlan_update (\<lambda>_. i + 2)) (ifName, i) (conf w)"
      "conf w2 = set_conf (vc_spoofchk_update (\<lambda>_. False)) (ifName, i) (conf w1)"
      "conf w' = set_conf (vc_trust_update (\<lambda>_. True)) (ifName, i) (conf w2)"
    using laws unfolding vf_laws_def by metis+
  then show ?thesis by (auto simp: set_conf_def lane_def fun_eq_iff)
qed

lemma setup_lanes:
  assumes "setup_internal env ifName ids (s, w) = (None, s', w')"
  shows "conf w' k = (if fst k = ifName \<and> snd k \<in> set ids then lane (snd k) else conf w k)"
  using assms
proof (induction ids arbitrary: s w)
  case (Cons i ids)
  obtain link w1 addr n w2 where steps: "vn_LinkByName env ifName w = Inr link"
      "and_then (vn_LinkSetVfVlan env link i (i + 2) w) (\<lambda>e. e)
         (\<lambda>w. and_then (vn_LinkSetVfSpoofchk env link i False w) (\<lambda>e. e) (vn_LinkSetVfTrust env link i True)) = (None, w1)"
      "finishVfSetup env ifName i w1 = (Inr (addr, n), w2)"
      "setup_internal env ifName ids (new_vf (ifName, i) addr (i + 2) s, w2) = (None, s', w')"
    using Cons.prems by (auto split: sum.splits prod.splits option.splits)
  have "conf w2 = (conf w)((ifName, i) := lane i)" using vf_steps [OF steps(1,2)] finish_keeps [of ifName i w1] steps(3) by simp
  then show ?case using Cons.IH [OF steps(4)] by (cases k) auto
qed simp

lemma SetNumVfs_lanes:
  assumes "netsec_SetNumVfs env n (s, w) = (Inr m, s', w')"
    and addr: "addr = (if ns_isDPUMode s then Backplanef2PCIeAddress else ns_dpuPcieAddress s)"
  shows "\<exists>ifName. netdev_name env addr (snd (SetSriovNumVfs env addr (sint n) w)) = Inr ifName \<and>
      (\<forall>i. 0 \<le> i \<and> i < sint n \<longrightarrow> conf w' (ifName, i) = lane i)"
proof -
  obtain w1 s2 where w1: "SetSriovNumVfs env addr (sint n) w = (None, w1)"
      "setVlanIdsSpoofChkInternalPorts env addr (sint n) (s, w1) = (None, s2, w')"
    using assms by (auto simp: netsec_SetNumVfs_def Let_def split: prod.splits option.splits)
  then obtain ifName w2 where n: "netdev_name env addr w1 = Inr ifName" "setup_internal env ifName (vf_ids (sint n)) (s, w2) = (None, s2, w')"
    by (auto simp: setVlanIdsSpoofChkInternalPorts_def split: prod.splits option.splits sum.splits)
  have ids: "i \<in> set (vf_ids (sint n)) \<longleftrightarrow> 0 \<le> i \<and> i < sint n" for i
    by (auto simp: vf_ids_def image_iff intro: bexI [of _ "nat i"])
  show ?thesis using setup_lanes [OF n(2)] n(1) w1(1) by (auto simp: ids)
qed

end

text \<open>A card whose physical functions are called after their addresses, with virtual functions that appear at
  once.\<close>

record card =
  card_conf :: "VfDeviceKey \<Rightarrow> vf_setting"

definition no_conf :: card where
  "no_conf = \<lparr>card_conf = (\<lambda>_. \<lparr>vc_vlan = 0, vc_spoofchk = True, vc_trust = False\<rparr>)\<rparr>"

definition sim_card :: "card vnet" where
  "sim_card =
     \<lparr>vn_Run = (\<lambda>_ w. (None, w)), vn_Output = (\<lambda>_ _. Inr []), vn_WriteFile = (\<lambda>_ _ w. (None, w)),
      vn_Readlink = (\<lambda>path _. (''../'' @ path, None)), vn_ReadDir = (\<lambda>_ _. Inr []),
      vn_platform = (\<lambda>_. \<lparr>PciDevices = Inr [], Product = Inr [], ReadDeviceSerialNumber = (\<lambda>_. Inr []),
         GetNetDevNamesFromPCIeAddr = (\<lambda>a. Inr [a]), GetNetDevMACAddressFromPCIeAddr = (\<lambda>_. Inr []), stat_physfn = (\<lambda>_. StatOk)\<rparr>),
      vn_LinkByName = (\<lambda>n _. Inr \<lparr>vl_Name = n, vl_HardwareAddr = [], vl_Up = True\<rparr>), vn_LinkAdd = (\<lambda>_ _ w. (None, w)),
      vn_LinkDel = (\<lambda>_ w. (None, w)), vn_LinkSetUp = (\<lambda>_ w. (None, w)), vn_LinkSetDown = (\<lambda>_ w. (None, w)),
      vn_LinkSetVfVlan = (\<lambda>link i v w. (None, w\<lparr>card_conf := set_conf (vc_vlan_update (\<lambda>_. v)) (vl_Name link, i) (card_conf w)\<rparr>)),
      vn_LinkSetVfSpoofchk = (\<lambda>link i b w. (None, w\<lparr>card_conf := set_conf (vc_spoofchk_update (\<lambda>_. b)) (vl_Name link, i) (card_conf w)\<rparr>)),
      vn_LinkSetVfTrust = (\<lambda>link i b w. (None, w\<lparr>card_conf := set_conf (vc_trust_update (\<lambda>_. b)) (vl_Name link, i) (card_conf w)\<rparr>)),
      vn_Sleep = (\<lambda>w. w)\<rparr>"

lemma sim_card_laws: "vf_laws sim_card card_conf"
  by (auto simp: vf_laws_def sim_card_def)

interpretation card: vf_netlink sim_card card_conf
  by unfold_locales (rule sim_card_laws)

text \<open>
  C21: After \<open>SetNumVfs\<close> has succeeded on a host and on a DPU, every requested virtual function of either side has
  spoof checking off and trust on, and the function \<open>i\<close> of the host shares a VLAN with the function \<open>j\<close> of the DPU
  exactly when \<open>i = j\<close>: traffic of a pod reaches only its own lane.
\<close>

theorem netsec_lanes:
  assumes host: "vf_laws henv hconf" "\<not> ns_isDPUMode h" "netsec_SetNumVfs henv n (h, hw) = (Inr n', h', hw')"
      "netdev_name henv (ns_dpuPcieAddress h) (snd (SetSriovNumVfs henv (ns_dpuPcieAddress h) (sint n) hw)) = Inr hpf"
    and dpu: "vf_laws denv dconf" "ns_isDPUMode d" "netsec_SetNumVfs denv m (d, dw) = (Inr m', d', dw')"
      "netdev_name denv Backplanef2PCIeAddress (snd (SetSriovNumVfs denv Backplanef2PCIeAddress (sint m) dw)) = Inr dpf"
    and range: "0 \<le> i" "i < sint n" "0 \<le> j" "j < sint m"
  shows "(vc_vlan (hconf hw' (hpf, i)) = vc_vlan (dconf dw' (dpf, j)) \<longleftrightarrow> i = j) \<and>
    \<not> vc_spoofchk (hconf hw' (hpf, i)) \<and> vc_trust (hconf hw' (hpf, i)) \<and>
    \<not> vc_spoofchk (dconf dw' (dpf, j)) \<and> vc_trust (dconf dw' (dpf, j))"
proof -
  have "hconf hw' (hpf, i) = lane i"
    using vf_netlink.SetNumVfs_lanes [OF vf_netlink.intro [OF host(1)] host(3), of "ns_dpuPcieAddress h"] host(2,4) range by auto
  moreover have "dconf dw' (dpf, j) = lane j"
    using vf_netlink.SetNumVfs_lanes [OF vf_netlink.intro [OF dpu(1)] dpu(3), of Backplanef2PCIeAddress] dpu(2,4) range by auto
  ultimately show ?thesis by (simp add: lane_def)
qed

text \<open>A host and a DPU with two and three virtual functions.\<close>

definition host_server :: intelNetSecVspServer where
  "host_server = NewIntelNetSecVspServer\<lparr>ns_dpuPcieAddress := ''h''\<rparr>"

definition dpu_server :: intelNetSecVspServer where
  "dpu_server = NewIntelNetSecVspServer\<lparr>ns_isDPUMode := True\<rparr>"

abbreviation "host_run \<equiv> netsec_SetNumVfs sim_card 2 (host_server, no_conf)"

abbreviation "dpu_run \<equiv> netsec_SetNumVfs sim_card 3 (dpu_server, no_conf)"

theorem netsec_lanes_witness:
  "fst host_run = Inr 2 \<and> fst dpu_run = Inr 3 \<and>
   vc_vlan (card_conf (snd (snd host_run)) (''h'', 1)) \<noteq> vc_vlan (card_conf (snd (snd dpu_run)) (Backplanef2PCIeAddress, 2)) \<and>
   \<not> vc_spoofchk (card_conf (snd (snd host_run)) (''h'', 1))"
proof -
  have runs: "fst host_run = Inr 2" "fst dpu_run = Inr 3" by code_simp+
  have mode: "\<not> ns_isDPUMode host_server" "ns_isDPUMode dpu_server" "ns_dpuPcieAddress host_server = ''h''"
    by (simp_all add: host_server_def dpu_server_def NewIntelNetSecVspServer_def)
  have names: "netdev_name sim_card a w = Inr a" for a w by (simp add: sim_card_def GetNetDevNameFromPCIeAddr_def)
  have "host_run = (Inr 2, fst (snd host_run), snd (snd host_run))" "dpu_run = (Inr 3, fst (snd dpu_run), snd (snd dpu_run))"
    using runs by (metis prod.collapse)+
  note lanes = netsec_lanes [OF sim_card_laws mode(1) this(1) names sim_card_laws mode(2) this(2) names, of 1 2]
  show ?thesis using lanes runs by (simp add: mode(3))
qed

text \<open>The records under requests: start, virtual functions, a port, and its end.\<close>

definition card_port :: CreateBridgePortRequest where
  "card_port = \<lparr>BridgePortId = [], cbp_BridgePort = Some \<lparr>obp_Name = ''host0-1'',
     obp_Spec = Some \<lparr>MacAddress = [1], Ptype = TYPE_ACCESS, LogicalBridges = []\<rparr>\<rparr>\<rparr>"

abbreviation "card_start \<equiv> snd (netsec_SetNumVfs sim_card 2 (snd (netsec_Init (\<lambda>_. None) sim_card (True, ''d'') (NewIntelNetSecVspServer, no_conf))))"

abbreviation "card_created \<equiv> netsec_CreateBridgePort sim_card card_port card_start"

abbreviation "card_deleted \<equiv> netsec_DeleteBridgePort sim_card ''host0-1'' (snd card_created)"

lemma card_reachable:
  "netsec_reachable (\<lambda>_. None) sim_card card_start" "netsec_reachable (\<lambda>_. None) sim_card (snd card_created)"
  by (intro netsec_reachable.intros)+

theorem netsec_records_witness:
  "map_get (ns_vfDevs (fst (snd card_created))) (Backplanef2PCIeAddress, 1) = Some 1 \<and>
   vfd_Vlan (ns_store (fst (snd card_created)) ! 1) = 3 \<and> rep_of (fst (snd card_created)) (Backplanef2PCIeAddress, 1) \<noteq> None"
proof -
  have found: "map_get (ns_vfDevs (fst (snd card_created))) (Backplanef2PCIeAddress, 1) = Some 1" by code_simp
  have rep: "rep_of (fst (snd card_created)) (Backplanef2PCIeAddress, 1) \<noteq> None" by code_simp
  have "netsec_reachable (\<lambda>_. None) sim_card (fst (snd card_created), snd (snd card_created))" using card_reachable(2) by simp
  note recs = netsec_records [OF this, THEN conjunct1, rule_format, OF found]
  show ?thesis using recs found rep by simp
qed

theorem netsec_port_roundtrip_witness:
  "fst card_deleted = None \<and> ns_store (fst (snd card_deleted)) = ns_store (fst card_start) \<and>
   rep_of (fst (snd card_created)) (Backplanef2PCIeAddress, 1) \<noteq> None \<and> rep_of (fst (snd card_deleted)) (Backplanef2PCIeAddress, 1) = None"
proof -
  have rep: "rep_of (fst (snd card_created)) (Backplanef2PCIeAddress, 1) \<noteq> None" "rep_of (fst card_start) (Backplanef2PCIeAddress, 1) = None"
    by code_simp+
  have results: "fst card_created = Inr \<lparr>obp_Name = [], obp_Spec = None\<rparr>" "fst card_deleted = None" by code_simp+
  have reach: "netsec_reachable (\<lambda>_. None) sim_card (fst card_start, snd card_start)" using card_reachable(1) by simp
  have created: "netsec_CreateBridgePort sim_card card_port (fst card_start, snd card_start) =
      (Inr \<lparr>obp_Name = [], obp_Spec = None\<rparr>, fst (snd card_created), snd (snd card_created))"
    using results(1) by (metis prod.collapse)
  have port: "cbp_BridgePort card_port = Some \<lparr>obp_Name = ''host0-1'', obp_Spec = Some \<lparr>MacAddress = [1], Ptype = TYPE_ACCESS, LogicalBridges = []\<rparr>\<rparr>"
    by (simp add: card_port_def)
  have name: "netdev_name sim_card a (snd (snd card_created)) = netdev_name sim_card a (snd card_start)" for a
    by (simp add: sim_card_def)
  have deleted: "netsec_DeleteBridgePort sim_card (obp_Name \<lparr>obp_Name = ''host0-1'', obp_Spec = Some \<lparr>MacAddress = [1 :: 8 word], Ptype = TYPE_ACCESS, LogicalBridges = []\<rparr>\<rparr>)
      (fst (snd card_created), snd (snd card_created)) = (None, fst (snd card_deleted), snd (snd card_deleted))"
    using results(2) by (metis prod.collapse opi_BridgePort.select_convs(1))
  note trip = netsec_port_roundtrip [OF reach created port name deleted]
  show ?thesis using trip results(2) rep by metis
qed

text \<open>
  A second \<open>Init\<close> of the NetSec process on the DPU empties the service chain but leaves the virtual functions
  marked as allocated: a port that existed can neither be created again nor deleted.
\<close>

theorem netsec_reinit_stuck:
  assumes init: "netsec_Init parse env (True, i) (s, w) = (Inr ip, s1, w1)"
    and port: "cbp_BridgePort req = Some port" "getConnectedVf env (obp_Name port) (s, w) = Inr p" "vfd_Allocated (ns_store s ! p)"
    and name: "netdev_name env Backplanef2PCIeAddress w2 = netdev_name env Backplanef2PCIeAddress w"
  shows "(\<exists>err w'. netsec_CreateBridgePort env req (s1, w2) = (Inl err, s1, w')) \<and>
    (\<exists>err w'. netsec_DeleteBridgePort env (obp_Name port) (s1, w2) = (Some err, s1, w'))"
proof -
  have same: "ns_store s1 = ns_store s" "ns_vfDevs s1 = ns_vfDevs s"
    using netsec_Init_records [of s parse env "(True, i)" w] init by (simp_all add: same_records_def)
  have "rep_of s1 k = None" for k
    using init by (auto simp: netsec_Init_def initOvSDataPlane_def rep_of_def Let_def simp del: upt_rec_numeral upt_Suc
        split: sum.splits prod.splits option.splits)
  moreover have vf: "getConnectedVf env (obp_Name port) (s1, w2) = Inr p" using port(2) getConnectedVf_cong [OF same(2) name] by simp
  moreover obtain r s2 w3 where run: "netsec_DeleteBridgePort env (obp_Name port) (s1, w2) = (r, s2, w3)" by (metis prod.exhaust)
  ultimately have "\<exists>err w'. netsec_DeleteBridgePort env (obp_Name port) (s1, w2) = (Some err, s1, w')"
    by (cases rule: DeleteBridgePort_cases [OF run]) auto
  moreover have "\<exists>err w'. netsec_CreateBridgePort env req (s1, w2) = (Inl err, s1, w')"
    using port vf by (simp add: netsec_CreateBridgePort_def same)
  ultimately show ?thesis by blast
qed

end
