(* ===== verification/Host_Files.thy ===== *)
theory Host_Files
  imports Pci_Scan Go_Errors "HOL-Library.Word"
begin

text \<open>
  Files that the daemon prepares: the paths of the path manager and the directory of a socket
  (\<open>internal/utils/path_manager.go\<close>), the socket of the CNI server (\<open>cniserver.go\<close>), copying and marking files
  (\<open>fileutils.go\<close>) and the installation of the CNI binary (\<open>prepareCni\<close> of \<open>internal/daemon/daemon.go\<close>). The file
  system is the parameter \<open>host_fs\<close>, with its laws in the locale \<open>posix\<close>; modes are 32-bit words. The lemmas show that the
  socket and its directory are private to root and that the installed binary is the one that was shipped,
  executable by everyone.
\<close>

section \<open>File system\<close>

text \<open>\<open>fi_Uid\<close> is \<open>None\<close> when the system information of a file has another type than \<open>Stat_t\<close>.\<close>

record file_info =
  fi_Uid :: "32 word option"
  fi_Mode :: "32 word"

record 'w host_fs =
  hf_RemoveAll :: "string \<Rightarrow> 'w \<Rightarrow> go_error option \<times> 'w"
  hf_IsNotExist :: "go_error \<Rightarrow> bool"
  hf_Stat :: "string \<Rightarrow> 'w \<Rightarrow> file_info result"
  hf_Remove :: "string \<Rightarrow> 'w \<Rightarrow> go_error option \<times> 'w"
  hf_MkdirAll :: "string \<Rightarrow> 32 word \<Rightarrow> 'w \<Rightarrow> go_error option \<times> 'w"
  hf_Open :: "string \<Rightarrow> 'w \<Rightarrow> go_error option"
  hf_Read :: "string \<Rightarrow> 'w \<Rightarrow> string result"
  hf_Create :: "string \<Rightarrow> 'w \<Rightarrow> go_error option \<times> 'w"
  hf_Write :: "string \<Rightarrow> string \<Rightarrow> 'w \<Rightarrow> go_error option \<times> 'w"
  hf_Chmod :: "string \<Rightarrow> 32 word \<Rightarrow> 'w \<Rightarrow> go_error option \<times> 'w"
  hf_Listen :: "string \<Rightarrow> 'w \<Rightarrow> go_error option \<times> 'w"
  hf_CloseListener :: "string \<Rightarrow> 'w \<Rightarrow> 'w"

section \<open>Paths\<close>

text \<open>\<open>filepath.Join\<close> of a root and an absolute path, where the root is \<open>/\<close> or a clean path; \<open>filepath.Dir\<close> of
  a clean absolute path.\<close>

record PathManager =
  rootDir :: string

definition pm_wrap :: "PathManager \<Rightarrow> string \<Rightarrow> string" where
  "pm_wrap p path = (if rootDir p = ''/'' then path else rootDir p @ path)"

definition path_dir :: "string \<Rightarrow> string" where
  "path_dir p = (case rev (tl (dropWhile (\<lambda>c. c \<noteq> CHR ''/'') (rev p))) of [] \<Rightarrow> ''/'' | d \<Rightarrow> d)"

definition CNIServerPath :: "PathManager \<Rightarrow> string" where
  "CNIServerPath p = pm_wrap p ''/var/run/dpu-daemon/dpu-cni/dpu-cni-server.sock''"

definition KubeletEndPoint :: "PathManager \<Rightarrow> string" where
  "KubeletEndPoint p = pm_wrap p ''/var/lib/kubelet/device-plugins/kubelet.sock''"

definition PluginEndpoint :: "PathManager \<Rightarrow> string" where
  "PluginEndpoint p = pm_wrap p ''/var/lib/kubelet/device-plugins/dpuNet.sock''"

definition PluginEndpointFilename :: "PathManager \<Rightarrow> string" where
  "PluginEndpointFilename p = path_base (PluginEndpoint p)"

definition CniPath :: string where
  "CniPath = ''/var/lib/cni/bin/dpu-cni''"

definition VendorPluginSocket :: "PathManager \<Rightarrow> string" where
  "VendorPluginSocket p = pm_wrap p ''/var/run/dpu-daemon/vendor-plugin/vendor-plugin.sock''"

section \<open>Socket directories\<close>

text \<open>The modes are octal in the source: 777, 700 and 111.\<close>

definition rwx :: "32 word" where
  "rwx = 0x1FF"

definition root_only :: "32 word" where
  "root_only = 0x1C0"

unbundle bit_operations_syntax

text \<open>The checks when the old directory could not be removed. The numbers in the messages stand for the texts that
  Go prints for them.\<close>

definition old_dir_error :: "'w host_fs \<Rightarrow> string \<Rightarrow> 'w \<Rightarrow> go_error option" where
  "old_dir_error fs runDir w =
     (case hf_Stat fs runDir w of
        Inl err \<Rightarrow> Some (Errorf ''failed to stat old socket directory %s: %v'' [FStr runDir, FErr err])
      | Inr info \<Rightarrow>
          (case fi_Uid info of
             None \<Rightarrow> Some (Errorf ''failed to read socket directory stat info: %T'' [])
           | Some uid \<Rightarrow>
               if uid \<noteq> 0 then Some (Errorf ''insecure owner of socket directory %s: %v'' [FStr runDir, FInt (uint uid)])
               else if fi_Mode info AND rwx \<noteq> root_only
               then Some (Errorf ''insecure permissions on socket directory %s: %v'' [FStr runDir, FInt (uint (fi_Mode info))])
               else None))"

definition EnsureSocketDirExists :: "'w host_fs \<Rightarrow> string \<Rightarrow> 'w \<Rightarrow> go_error option \<times> 'w" where
  "EnsureSocketDirExists fs serverSocketPath w =
     (let runDir = path_dir serverSocketPath;
          create = (\<lambda>w. case hf_MkdirAll fs runDir root_only w of
             (Some err, w') \<Rightarrow> (Some (Errorf ''failed to create socket directory %s: %v'' [FStr runDir, FErr err]), w')
           | (None, w') \<Rightarrow> (None, w'))
      in case hf_RemoveAll fs runDir w of
           (Some err, w1) \<Rightarrow>
             if hf_IsNotExist fs err then create w1
             else (case old_dir_error fs runDir w1 of
                     Some e \<Rightarrow> (Some e, w1)
                   | None \<Rightarrow>
                       (case hf_Remove fs serverSocketPath w1 of
                          (Some e, w2) \<Rightarrow>
                            if hf_IsNotExist fs e then create w2
                            else (Some (Errorf ''failed to remove old socket %s: %v'' [FStr serverSocketPath, FErr e]), w2)
                        | (None, w2) \<Rightarrow> create w2))
         | (None, w1) \<Rightarrow> create w1)"

section \<open>The socket of the CNI server\<close>

definition cni_Listen :: "'w host_fs \<Rightarrow> PathManager \<Rightarrow> 'w \<Rightarrow> string result \<times> 'w" where
  "cni_Listen fs p w =
     (case EnsureSocketDirExists fs (CNIServerPath p) w of
        (Some err, w1) \<Rightarrow> (Inl (Errorf ''failed to create run directory for DPU CNI socket: %v'' [FErr err]), w1)
      | (None, w1) \<Rightarrow>
          (case hf_Listen fs (CNIServerPath p) w1 of
             (Some err, w2) \<Rightarrow> (Inl (Errorf ''failed to listen on DPU CNI socket: %v'' [FErr err]), w2)
           | (None, w2) \<Rightarrow>
               (case hf_Chmod fs (CNIServerPath p) 0x180 w2 of
                  (Some err, w3) \<Rightarrow>
                    (Inl (Errorf ''failed to set file permissions on DPU CNI socket: %v'' [FErr err]), hf_CloseListener fs (CNIServerPath p) w3)
                | (None, w3) \<Rightarrow> (Inr (CNIServerPath p), w3))))"

text \<open>The HTTP server is the parameter \<open>serve\<close>; a listener is the path it listens on, and accepting on the nil listener
  is a panic. \<open>ListenAndServe\<close> logs the error of \<open>Listen\<close> and goes on with the nil listener.\<close>

definition http_Serve :: "(string \<Rightarrow> 'w \<Rightarrow> go_error option \<times> 'w) \<Rightarrow> string option \<Rightarrow> 'w \<Rightarrow> go_error option \<times> 'w" where
  "http_Serve serve listener w =
     (case listener of None \<Rightarrow> (Some (Panic ''invalid memory address or nil pointer dereference''), w) | Some l \<Rightarrow> serve l w)"

definition cni_ListenAndServe :: "'w host_fs \<Rightarrow> PathManager \<Rightarrow> (string \<Rightarrow> 'w \<Rightarrow> go_error option \<times> 'w) \<Rightarrow> 'w \<Rightarrow> go_error option \<times> 'w" where
  "cni_ListenAndServe fs p serve w =
     (case cni_Listen fs p w of
        (Inl err, w1) \<Rightarrow> http_Serve serve None w1
      | (Inr l, w1) \<Rightarrow> http_Serve serve (Some l) w1)"

section \<open>Files (fileutils.go)\<close>

definition Touch :: "'w host_fs \<Rightarrow> string \<Rightarrow> 'w \<Rightarrow> go_error option \<times> 'w" where
  "Touch fs dst w = (case hf_Create fs dst w of (Some err, w') \<Rightarrow> (Some (Errorf ''failed to create file: %v'' [FErr err]), w') | (None, w') \<Rightarrow> (None, w'))"

text \<open>\<open>io.Copy\<close> reads the open source to its end and writes the new file. An error while writing may leave a part
  of the content.\<close>

definition CopyFile :: "'w host_fs \<Rightarrow> string \<Rightarrow> string \<Rightarrow> 'w \<Rightarrow> go_error option \<times> 'w" where
  "CopyFile fs src dst w =
     (case hf_Open fs src w of
        Some err \<Rightarrow> (Some err, w)
      | None \<Rightarrow>
          (case hf_Create fs dst w of
             (Some err, w1) \<Rightarrow> (Some err, w1)
           | (None, w1) \<Rightarrow>
               (case hf_Read fs src w1 of
                  Inl err \<Rightarrow> (Some err, w1)
                | Inr content \<Rightarrow> hf_Write fs dst content w1)))"

definition exec_bits :: "32 word" where
  "exec_bits = 0x49"

definition MakeExecutable :: "'w host_fs \<Rightarrow> string \<Rightarrow> 'w \<Rightarrow> go_error option \<times> 'w" where
  "MakeExecutable fs file w =
     (case hf_Stat fs file w of Inl err \<Rightarrow> (Some err, w) | Inr info \<Rightarrow> hf_Chmod fs file (fi_Mode info OR exec_bits) w)"

definition prepareCni :: "'w host_fs \<Rightarrow> 'w \<Rightarrow> go_error option \<times> 'w" where
  "prepareCni fs w =
     (case CopyFile fs ''/dpu-cni'' CniPath w of
        (Some _, w1) \<Rightarrow> (Some (Errorf ''Failed to prepare CNI binary from /dpu-cni to %v'' [FStr CniPath]), w1)
      | (None, w1) \<Rightarrow> MakeExecutable fs CniPath w1)"

section \<open>What a file system promises\<close>

text \<open>The daemon runs as root, with a mask that leaves the owner's bits. \<open>node\<close> reads owner and mode of a path, \<open>data\<close> its
  content. Removing a tree leaves nothing at its path unless it reports an error, and creating a directory that exists changes
  nothing.\<close>

locale posix =
  fixes fs :: "'w host_fs" and node :: "'w \<Rightarrow> string \<Rightarrow> (32 word \<times> 32 word) option" and data :: "'w \<Rightarrow> string \<Rightarrow> string option"
  assumes removed: "hf_RemoveAll fs p w = (None, w') \<Longrightarrow> node w' p = None"
    and not_there: "hf_RemoveAll fs p w = (Some err, w') \<Longrightarrow> hf_IsNotExist fs err \<Longrightarrow> node w' p = None"
    and stat: "hf_Stat fs p w = Inr info \<Longrightarrow> \<exists>uid. node w p = Some (uid, fi_Mode info) \<and> (fi_Uid info = None \<or> fi_Uid info = Some uid)"
    and remove_other: "q \<noteq> p \<Longrightarrow> node (snd (hf_Remove fs p w)) q = node w q"
    and mkdir_new: "hf_MkdirAll fs p m w = (None, w') \<Longrightarrow> node w p = None \<Longrightarrow> node w' p = Some (0, m)"
    and mkdir_old: "hf_MkdirAll fs p m w = (None, w') \<Longrightarrow> node w p = Some x \<Longrightarrow> node w' p = Some x"
    and create_other: "hf_Create fs p w = (None, w') \<Longrightarrow> q \<noteq> p \<Longrightarrow> data w' q = data w q"
    and read: "hf_Read fs p w = Inr c \<Longrightarrow> data w p = Some c"
    and written: "hf_Write fs p c w = (None, w') \<Longrightarrow> data w' p = Some c"
    and chmod: "hf_Chmod fs p m w = (None, w') \<Longrightarrow> data w' = data w \<and> (\<exists>uid. node w' p = Some (uid, m))"
    and chmod_other: "q \<noteq> p \<Longrightarrow> node (snd (hf_Chmod fs p m w)) q = node w q"
    and listen_other: "q \<noteq> p \<Longrightarrow> node (snd (hf_Listen fs p w)) q = node w q"
begin

lemma mkdir_root_only:
  assumes "hf_MkdirAll fs p root_only w = (None, w')" "\<And>uid m. node w p = Some (uid, m) \<Longrightarrow> uid = 0 \<and> m AND rwx = root_only"
  shows "\<exists>m. node w' p = Some (0, m) \<and> m AND rwx = root_only"
proof (cases "node w p")
  case None
  moreover have "root_only AND rwx = root_only" by (simp add: root_only_def rwx_def)
  ultimately show ?thesis using mkdir_new [OF assms(1)] by blast
next
  case (Some x)
  then show ?thesis using mkdir_old [OF assms(1) Some] assms(2) by (cases x) auto
qed

lemma old_dir_ok:
  assumes "old_dir_error fs p w = None"
  shows "\<exists>m. node w p = Some (0, m) \<and> m AND rwx = root_only"
proof -
  obtain info where "hf_Stat fs p w = Inr info" "fi_Uid info = Some 0" "fi_Mode info AND rwx = root_only"
    using assms by (auto simp: old_dir_error_def split: sum.splits option.splits if_splits)
  then show ?thesis using stat by fastforce
qed

text \<open>On every path to a success the directory is gone or its owner and mode have been checked before it is made.\<close>

lemma socket_dir:
  assumes "EnsureSocketDirExists fs path w = (None, w')" "path_dir path \<noteq> path"
  shows "\<exists>m. node w' (path_dir path) = Some (0, m) \<and> m AND rwx = root_only"
proof -
  let ?d = "path_dir path"
  obtain r w1 where r: "hf_RemoveAll fs ?d w = (r, w1)" by (metis prod.exhaust)
  show ?thesis
  proof (cases "\<exists>err. r = Some err \<and> \<not> hf_IsNotExist fs err")
    case False
    then have "hf_MkdirAll fs ?d root_only w1 = (None, w')" using assms(1) r
      by (auto simp: EnsureSocketDirExists_def Let_def split: option.splits prod.splits)
    moreover have "node w1 ?d = None" using False r removed not_there by (cases r) auto
    ultimately show ?thesis using mkdir_root_only [of ?d w1 w'] by simp
  next
    case True
    obtain e w2 where e: "hf_Remove fs path w1 = (e, w2)" by (metis prod.exhaust)
    have old: "old_dir_error fs ?d w1 = None" and made: "hf_MkdirAll fs ?d root_only w2 = (None, w')" using assms(1) r True e
      by (auto simp: EnsureSocketDirExists_def Let_def split: option.splits prod.splits if_splits)
    have "node w2 ?d = node w1 ?d" using remove_other [OF assms(2), of w1] e by simp
    then show ?thesis using mkdir_root_only [OF made] old_dir_ok [OF old] by force
  qed
qed

lemma socket_private:
  assumes "cni_Listen fs p w = (Inr l, w')" "path_dir (CNIServerPath p) \<noteq> CNIServerPath p"
  shows "l = CNIServerPath p \<and> (\<exists>uid. node w' l = Some (uid, 0x180)) \<and> (\<exists>m. node w' (path_dir l) = Some (0, m) \<and> m AND rwx = root_only)"
proof -
  let ?s = "CNIServerPath p"
  obtain w1 where w1: "EnsureSocketDirExists fs ?s w = (None, w1)" using assms(1) by (auto simp: cni_Listen_def split: prod.splits option.splits)
  obtain w2 where w2: "hf_Listen fs ?s w1 = (None, w2)" using assms(1) w1 by (auto simp: cni_Listen_def split: prod.splits option.splits)
  have w3: "hf_Chmod fs ?s 0x180 w2 = (None, w')" "l = ?s" using assms(1) w1 w2 by (auto simp: cni_Listen_def split: prod.splits option.splits)
  have "node w' (path_dir ?s) = node w1 (path_dir ?s)"
    using chmod_other [OF assms(2), of "0x180" w2] listen_other [OF assms(2), of w1] w2 w3 by simp
  then show ?thesis using socket_dir [OF w1 assms(2)] chmod [OF w3(1)] w3(2) by simp
qed

lemma copied:
  assumes "CopyFile fs src dst w = (None, w')" "src \<noteq> dst"
  shows "data w' dst = data w src \<and> data w src \<noteq> None"
proof -
  obtain w1 where w1: "hf_Create fs dst w = (None, w1)" using assms(1)
    by (auto simp: CopyFile_def split: option.splits prod.splits)
  then obtain c where c: "hf_Read fs src w1 = Inr c" "hf_Write fs dst c w1 = (None, w')" using assms(1)
    by (auto simp: CopyFile_def split: option.splits sum.splits)
  then show ?thesis using create_other [OF w1 assms(2)] read [OF c(1)] written [OF c(2)] by (metis option.distinct(1))
qed

lemma made_executable:
  assumes "MakeExecutable fs p w = (None, w')"
  shows "data w' = data w \<and> (\<exists>uid m0. node w p = Some (uid, m0) \<and> (\<exists>uid. node w' p = Some (uid, m0 OR exec_bits)))"
proof -
  obtain info where "hf_Stat fs p w = Inr info" "hf_Chmod fs p (fi_Mode info OR exec_bits) w = (None, w')" using assms
    by (auto simp: MakeExecutable_def split: sum.splits)
  then show ?thesis using stat chmod by blast
qed

end

lemma path_dir_shorter:
  assumes "path \<noteq> ''/''"
  shows "path_dir path \<noteq> path"
proof
  assume eq: "path_dir path = path"
  define d where "d = dropWhile (\<lambda>c. c \<noteq> CHR ''/'') (rev path)"
  have p: "path = (case rev (tl d) of [] \<Rightarrow> ''/'' | x # xs \<Rightarrow> x # xs)" using eq by (simp add: path_dir_def d_def)
  then have path: "path = rev (tl d)" "tl d \<noteq> []" using assms by (auto split: list.splits)
  have "length d \<le> length path" unfolding d_def using length_dropWhile_le [of _ "rev path"] by simp
  moreover have "length path = length d - 1" using path(1) by simp
  moreover have "d \<noteq> []" using path(2) by auto
  ultimately show False by (cases d) auto
qed

section \<open>A simulated file system\<close>

text \<open>Owner, mode and content by path. A path in \<open>busy\<close> is a mount point, which cannot be removed.\<close>

type_synonym sim_files = "string \<Rightarrow> (32 word \<times> 32 word \<times> string) option"

definition below :: "string \<Rightarrow> string \<Rightarrow> bool" where
  "below p q \<longleftrightarrow> q = p \<or> take (length p + 1) q = p @ ''/''"

definition sim_host :: "string list \<Rightarrow> sim_files host_fs" where
  "sim_host busy = \<lparr>
     hf_RemoveAll = (\<lambda>p w. if p \<in> set busy then (Some (ExtError ''EBUSY''), \<lambda>q. if below p q \<and> q \<noteq> p then None else w q)
       else (None, \<lambda>q. if below p q then None else w q)),
     hf_IsNotExist = (\<lambda>err. err = (ExtError ''ENOENT'')),
     hf_Stat = (\<lambda>p w. case w p of None \<Rightarrow> Inl (ExtError ''ENOENT'') | Some (uid, m, c) \<Rightarrow> Inr \<lparr>fi_Uid = Some uid, fi_Mode = m\<rparr>),
     hf_Remove = (\<lambda>p w. if w p = None then (Some (ExtError ''ENOENT''), w) else (None, w(p := None))),
     hf_MkdirAll = (\<lambda>p m w. (None, if w p = None then w(p \<mapsto> (0, m, [])) else w)),
     hf_Open = (\<lambda>p w. if w p = None then Some (ExtError ''ENOENT'') else None),
     hf_Read = (\<lambda>p w. case w p of None \<Rightarrow> Inl (ExtError ''ENOENT'') | Some (uid, m, c) \<Rightarrow> Inr c),
     hf_Create = (\<lambda>p w. (None, case w p of None \<Rightarrow> w(p \<mapsto> (0, 0x1A4, [])) | Some (uid, m, c) \<Rightarrow> w(p \<mapsto> (uid, m, [])))),
     hf_Write = (\<lambda>p c w. case w p of None \<Rightarrow> (Some (ExtError ''ENOENT''), w) | Some (uid, m, _) \<Rightarrow> (None, w(p \<mapsto> (uid, m, c)))),
     hf_Chmod = (\<lambda>p m w. case w p of None \<Rightarrow> (Some (ExtError ''ENOENT''), w) | Some (uid, _, c) \<Rightarrow> (None, w(p \<mapsto> (uid, m, c)))),
     hf_Listen = (\<lambda>p w. if w p = None then (None, w(p \<mapsto> (0, 0x1ED, []))) else (Some (ExtError ''EADDRINUSE''), w)),
     hf_CloseListener = (\<lambda>p w. w(p := None))\<rparr>"

definition sim_node :: "sim_files \<Rightarrow> string \<Rightarrow> (32 word \<times> 32 word) option" where
  "sim_node w p = map_option (\<lambda>(uid, m, c). (uid, m)) (w p)"

definition sim_data :: "sim_files \<Rightarrow> string \<Rightarrow> string option" where
  "sim_data w p = map_option (\<lambda>(uid, m, c). c) (w p)"

interpretation sim_posix: posix "sim_host busy" sim_node sim_data
  by unfold_locales (auto simp: sim_host_def sim_node_def sim_data_def below_def intro!: ext split: option.splits if_splits prod.splits)

section \<open>Properties\<close>

text \<open>
  C31: When the CNI server listens, nobody but root can reach it: the socket has mode 600, and its directory belongs to root
  with mode 700, however an old directory came about. When that could not be removed, a directory of another owner or with
  other permissions is refused; otherwise it is made anew.
\<close>

theorem cni_socket_private:
  assumes "posix fs node data" "cni_Listen fs p w = (Inr l, w')"
  shows "l = CNIServerPath p \<and> (\<exists>uid. node w' l = Some (uid, 0x180)) \<and> (\<exists>mode. node w' (path_dir l) = Some (0, mode) \<and> mode AND rwx = root_only)"
proof -
  have "length (CNIServerPath p) > 1" by (simp add: CNIServerPath_def pm_wrap_def)
  then have "CNIServerPath p \<noteq> ''/''" by (metis One_nat_def length_Cons less_irrefl list.size(3))
  then show ?thesis using posix.socket_private [OF assms path_dir_shorter] by blast
qed

definition sample_files :: sim_files where
  "sample_files = [''/var/run/dpu-daemon/dpu-cni'' \<mapsto> (0, 0x800001C0, []), ''/var/run/dpu-daemon/dpu-cni/dpu-cni-server.sock'' \<mapsto> (0, 0x1A4, []),
     ''/dpu-cni'' \<mapsto> (0, 0x1A4, ''ELF'')]"

theorem cni_socket_private_witness:
  "let (r, w) = cni_Listen (sim_host [''/var/run/dpu-daemon/dpu-cni'']) \<lparr>rootDir = ''/''\<rparr> sample_files
   in \<exists>mode. r = Inr ''/var/run/dpu-daemon/dpu-cni/dpu-cni-server.sock'' \<and> sim_node w ''/var/run/dpu-daemon/dpu-cni'' = Some (0, mode) \<and> mode AND rwx = root_only"
proof -
  let ?p = "\<lparr>rootDir = ''/''\<rparr>" and ?fs = "sim_host [''/var/run/dpu-daemon/dpu-cni'']" and ?s = "''/var/run/dpu-daemon/dpu-cni/dpu-cni-server.sock''"
  have "fst (cni_Listen ?fs ?p sample_files) = Inr ?s" by code_simp
  then obtain w where w: "cni_Listen ?fs ?p sample_files = (Inr ?s, w)" by (metis prod.collapse)
  have dir: "path_dir ?s = ''/var/run/dpu-daemon/dpu-cni''" by code_simp
  from cni_socket_private [OF sim_posix.posix_axioms w] show ?thesis by (simp add: w dir)
qed

text \<open>A daemon that cannot open its CNI socket does not report the error: it panics.\<close>

lemma listen_failure_panics:
  assumes "cni_Listen fs p w = (Inl err, w')"
  shows "cni_ListenAndServe fs p serve w = (Some (Panic ''invalid memory address or nil pointer dereference''), w')"
  using assms by (simp add: cni_ListenAndServe_def http_Serve_def)

text \<open>It happens when the old directory cannot be removed and belongs to somebody else.\<close>

lemma foreign_directory_panics:
  "fst (cni_ListenAndServe (sim_host [''/var/run/dpu-daemon/dpu-cni'']) \<lparr>rootDir = ''/''\<rparr> serve
     [''/var/run/dpu-daemon/dpu-cni'' \<mapsto> (1000, 0x800001C0, [])]) = Some (Panic ''invalid memory address or nil pointer dereference'')"
proof -
  let ?r = "cni_Listen (sim_host [''/var/run/dpu-daemon/dpu-cni'']) \<lparr>rootDir = ''/''\<rparr> [''/var/run/dpu-daemon/dpu-cni'' \<mapsto> (1000, 0x800001C0, [])]"
  have "isl (fst ?r)" by code_simp
  then obtain err w' where "?r = (Inl err, w')" by (cases ?r; cases "fst ?r") auto
  then show ?thesis by (simp add: listen_failure_panics)
qed

text \<open>
  When \<open>prepareCni\<close> succeeds, the CNI binary that kubelet runs has the content of the one in the daemon's image, and it
  may be executed by everyone; its other permissions are those it had.
\<close>

theorem prepareCni_installs:
  assumes "posix fs node data" "prepareCni fs w = (None, w')"
  shows "data w' CniPath = data w ''/dpu-cni'' \<and> data w ''/dpu-cni'' \<noteq> None \<and>
    (\<exists>uid mode. node w' CniPath = Some (uid, mode) \<and> mode AND exec_bits = exec_bits)"
proof -
  have bits: "(m OR exec_bits) AND exec_bits = exec_bits" for m by (rule bit_word_eqI) (auto simp: bit_simps)
  obtain w1 where w1: "CopyFile fs ''/dpu-cni'' CniPath w = (None, w1)" "MakeExecutable fs CniPath w1 = (None, w')"
    using assms(2) by (auto simp: prepareCni_def split: prod.splits option.splits)
  have "''/dpu-cni'' \<noteq> CniPath" by (simp add: CniPath_def)
  from posix.copied [OF assms(1) w1(1) this] posix.made_executable [OF assms(1) w1(2)] show ?thesis
    using bits by auto
qed

theorem prepareCni_installs_witness:
  "let (e, w) = prepareCni (sim_host []) sample_files
   in e = None \<and> sim_data w CniPath = Some ''ELF'' \<and> (\<exists>uid mode. sim_node w CniPath = Some (uid, mode) \<and> mode AND exec_bits = exec_bits)"
proof -
  have "fst (prepareCni (sim_host []) sample_files) = None" by code_simp
  then obtain w where w: "prepareCni (sim_host []) sample_files = (None, w)" by (metis prod.collapse)
  have "sim_data sample_files ''/dpu-cni'' = Some ''ELF''" by code_simp
  with prepareCni_installs [OF sim_posix.posix_axioms w] show ?thesis by (simp add: w)
qed

end
