(* ===== verification/Serving.thy ===== *)
theory Serving
  imports Host_Files
begin

text \<open>
  The goroutines of the daemon: \<open>Serve\<close> of the two side managers (\<open>hostsidemanager.go\<close>, \<open>dpusidemanager.go\<close>) and
  the shutdown of the daemon (\<open>daemon.go\<close>), and \<open>Serve\<close> of the device plugin (\<open>deviceplugin.go\<close>) with its registration. The
  first two are machines whose steps are the sends and receives on channels, the
  counting of the wait group and the calls of the goroutine that shuts the servers down. The servers
  themselves are parameters that may return at any time, and do return once they are told to stop: the
  manager and the ping loop by the context, the others by the call that stops them (on the DPU side this
  needs the device plugin to listen before it is stopped). The field \<open>stopRequested\<close> of the host side is
  never set, so its test is left out. The lemmas show that
  \<open>Serve\<close> always returns after a cancellation and what it returns, and exactly when the shutdown of the
  daemon returns.
\<close>

section \<open>Serve of a side manager\<close>

datatype server = CniServer | DevicePluginServer | OpiServer | ManagerLoop | PingLoop

datatype stop_call = ShutdownCni | StopDevicePlugin | StopOpi | CloseVsp | CloseListener | CloseDpListener

text \<open>A goroutine runs its server, sends the result on the channel and leaves the wait group.\<close>

datatype goroutine = Running | Sending "go_error option" | Leaving | Left

datatype main_routine = Selecting | Waiting "go_error option" | Returned "go_error option"

record serve_state =
  sv_go :: "(server \<times> goroutine) list"
  sv_done :: "go_error option list"
  sv_wg :: nat
  sv_cancelled :: bool
  sv_calls :: "stop_call list"
  sv_called :: bool
  sv_main :: main_routine

definition done_capacity :: nat where
  "done_capacity = 4"

definition serve_start :: "server list \<Rightarrow> stop_call list \<Rightarrow> serve_state" where
  "serve_start servers calls =
     \<lparr>sv_go = map (\<lambda>srv. (srv, Running)) servers, sv_done = [], sv_wg = length servers, sv_cancelled = False,
      sv_calls = calls, sv_called = False, sv_main = Selecting\<rparr>"

definition host_Serve :: serve_state where
  "host_Serve = serve_start [CniServer, DevicePluginServer, ManagerLoop, PingLoop]
     [ShutdownCni, StopDevicePlugin, CloseVsp, CloseListener, CloseDpListener]"

definition dpu_Serve :: serve_state where
  "dpu_Serve = serve_start [OpiServer, DevicePluginServer, CniServer, ManagerLoop]
     [StopOpi, StopDevicePlugin, CloseVsp, ShutdownCni, CloseListener]"

text \<open>The first remaining call has been entered when \<open>sv_called\<close> is set.\<close>

definition has_called :: "stop_call \<Rightarrow> serve_state \<Rightarrow> bool" where
  "has_called c s \<longleftrightarrow> c \<notin> set (sv_calls s) \<or> (sv_called s \<and> take 1 (sv_calls s) = [c])"

definition told :: "server \<Rightarrow> serve_state \<Rightarrow> bool" where
  "told srv s =
     (case srv of
        CniServer \<Rightarrow> has_called ShutdownCni s
      | DevicePluginServer \<Rightarrow> has_called StopDevicePlugin s
      | OpiServer \<Rightarrow> has_called StopOpi s
      | ManagerLoop \<Rightarrow> sv_cancelled s
      | PingLoop \<Rightarrow> sv_cancelled s)"

text \<open>\<open>Stop\<close> of the device plugin waits until its \<open>Serve\<close> has returned; the other calls return by themselves.\<close>

definition call_returns :: "stop_call \<Rightarrow> serve_state \<Rightarrow> bool" where
  "call_returns c s \<longleftrightarrow> c = StopDevicePlugin \<longrightarrow> list_all (\<lambda>(srv, g). srv = DevicePluginServer \<longrightarrow> g \<noteq> Running) (sv_go s)"

datatype action =
    Cancel
  | Exit nat "go_error option"
  | Send nat
  | Leave nat
  | EnterCall
  | LeaveCall
  | TakeResult
  | TakeCancel go_error
  | WaitDone

definition set_go :: "nat \<Rightarrow> goroutine \<Rightarrow> serve_state \<Rightarrow> serve_state" where
  "set_go i g s = s\<lparr>sv_go := (sv_go s)[i := (fst (sv_go s ! i), g)]\<rparr>"

fun go_at :: "nat \<Rightarrow> serve_state \<Rightarrow> goroutine option" where
  "go_at i s = (if i < length (sv_go s) then Some (snd (sv_go s ! i)) else None)"

fun act :: "action \<Rightarrow> serve_state \<Rightarrow> serve_state option" where
  "act Cancel s = (if sv_cancelled s then None else Some (s\<lparr>sv_cancelled := True\<rparr>))"
| "act (Exit i r) s = (if go_at i s = Some Running then Some (set_go i (Sending r) s) else None)"
| "act (Send i) s =
     (case go_at i s of
        Some (Sending r) \<Rightarrow>
          if length (sv_done s) < done_capacity then Some ((set_go i Leaving s)\<lparr>sv_done := sv_done s @ [r]\<rparr>) else None
      | _ \<Rightarrow> None)"
| "act (Leave i) s = (if go_at i s = Some Leaving then Some ((set_go i Left s)\<lparr>sv_wg := sv_wg s - 1\<rparr>) else None)"
| "act EnterCall s = (if sv_cancelled s \<and> sv_calls s \<noteq> [] \<and> \<not> sv_called s then Some (s\<lparr>sv_called := True\<rparr>) else None)"
| "act LeaveCall s =
     (case sv_calls s of
        c # cs \<Rightarrow> if sv_called s \<and> call_returns c s then Some (s\<lparr>sv_calls := cs, sv_called := False\<rparr>) else None
      | [] \<Rightarrow> None)"
| "act TakeResult s =
     (case (sv_main s, sv_done s) of
        (Selecting, r # rs) \<Rightarrow> Some (s\<lparr>sv_main := Waiting r, sv_done := rs\<rparr>)
      | _ \<Rightarrow> None)"
| "act (TakeCancel err) s =
     (if sv_main s = Selecting \<and> sv_cancelled s then Some (s\<lparr>sv_main := Waiting (Some err)\<rparr>) else None)"
| "act WaitDone s =
     (case sv_main s of
        Waiting r \<Rightarrow> if sv_wg s = 0 then Some (s\<lparr>sv_main := Returned r\<rparr>) else None
      | _ \<Rightarrow> None)"

text \<open>What happens without the environment's doing: a server that was told to stop returns, and everything
  else but the cancellation. A server that was not told may return, too, or never.\<close>

fun forced :: "action \<Rightarrow> serve_state \<Rightarrow> bool" where
  "forced Cancel s = False"
| "forced (Exit i r) s = (i < length (sv_go s) \<and> told (fst (sv_go s ! i)) s)"
| "forced _ s = True"

inductive serve_runs :: "serve_state \<Rightarrow> action list \<Rightarrow> serve_state \<Rightarrow> bool" where
  serve_nil: "serve_runs s [] s"
| serve_act: "serve_runs s as t \<Longrightarrow> act a t = Some u \<Longrightarrow> serve_runs s (as @ [a]) u"

section \<open>Invariant\<close>

definition sent :: "goroutine \<Rightarrow> bool" where
  "sent g \<longleftrightarrow> g = Leaving \<or> g = Left"

definition count_go :: "(goroutine \<Rightarrow> bool) \<Rightarrow> serve_state \<Rightarrow> nat" where
  "count_go P s = length (filter (\<lambda>x. P (snd x)) (sv_go s))"

definition serve_inv :: "server list \<Rightarrow> stop_call list \<Rightarrow> serve_state \<Rightarrow> bool" where
  "serve_inv servers calls s \<longleftrightarrow>
     map fst (sv_go s) = servers \<and>
     sv_wg s = count_go (\<lambda>g. g \<noteq> Left) s \<and>
     length (sv_done s) \<le> count_go sent s \<and>
     (\<exists>prev. calls = prev @ sv_calls s \<and> (prev = [] \<or> sv_cancelled s)) \<and>
     (sv_called s \<longrightarrow> sv_cancelled s \<and> sv_calls s \<noteq> []) \<and>
     (\<forall>r. sv_main s = Returned r \<longrightarrow> sv_wg s = 0)"

lemma count_update:
  assumes "i < length (sv_go s)"
  shows "count_go P (set_go i g s) + (if P (snd (sv_go s ! i)) then 1 else 0) = count_go P s + (if P g then 1 else 0)"
proof -
  let ?n = "\<lambda>xs. length (filter (\<lambda>x. P (snd x)) xs)"
  have "?n (sv_go s) = ?n (take i (sv_go s)) + (if P (snd (sv_go s ! i)) then 1 else 0) + ?n (drop (Suc i) (sv_go s))"
    using arg_cong [OF id_take_nth_drop [OF assms], of ?n] by simp
  moreover have "?n ((sv_go s)[i := (srv, g)]) = ?n (take i (sv_go s)) + (if P g then 1 else 0) + ?n (drop (Suc i) (sv_go s))" for srv
    using arg_cong [OF upd_conv_take_nth_drop [OF assms, of "(srv, g)"], of ?n] by simp
  ultimately show ?thesis by (simp add: count_go_def set_go_def)
qed

lemma count_go_other [simp]:
  "count_go P (s\<lparr>sv_done := d\<rparr>) = count_go P s" "count_go P (s\<lparr>sv_wg := n\<rparr>) = count_go P s" "count_go P (s\<lparr>sv_cancelled := b\<rparr>) = count_go P s"
  "count_go P (s\<lparr>sv_calls := c\<rparr>) = count_go P s" "count_go P (s\<lparr>sv_called := b\<rparr>) = count_go P s" "count_go P (s\<lparr>sv_main := m\<rparr>) = count_go P s"
  by (simp_all add: count_go_def)

lemma set_go_fields [simp]:
  "sv_done (set_go i g s) = sv_done s" "sv_wg (set_go i g s) = sv_wg s" "sv_cancelled (set_go i g s) = sv_cancelled s"
  "sv_calls (set_go i g s) = sv_calls s" "sv_called (set_go i g s) = sv_called s" "sv_main (set_go i g s) = sv_main s"
  "length (sv_go (set_go i g s)) = length (sv_go s)"
  by (simp_all add: set_go_def)

lemma set_go_servers [simp]: "map fst (sv_go (set_go i g s)) = map fst (sv_go s)"
proof (cases "i < length (sv_go s)")
  case True
  have "map fst ((sv_go s)[i := (fst (sv_go s ! i), g)]) = (map fst (sv_go s))[i := map fst (sv_go s) ! i]"
    using True by (simp add: map_update)
  then show ?thesis by (simp add: set_go_def)
qed (simp add: set_go_def list_update_beyond)

lemma count_bounded: "count_go P s \<le> length (sv_go s)"
  by (simp add: count_go_def)

lemma count_misses: "i < length (sv_go s) \<Longrightarrow> \<not> P (snd (sv_go s ! i)) \<Longrightarrow> count_go P s < length (sv_go s)"
  unfolding count_go_def by (rule length_filter_less [of "sv_go s ! i"]) simp_all

lemma count_zero: "count_go P s = 0 \<longleftrightarrow> (\<forall>i < length (sv_go s). \<not> P (snd (sv_go s ! i)))"
  by (auto simp: count_go_def filter_empty_conv all_set_conv_all_nth)

text \<open>No server is forgotten, the wait group counts the goroutines that have not left, and the channel never holds
  more than the goroutines have sent.\<close>

lemma act_inv:
  assumes "serve_inv servers calls s" "act a s = Some t"
  shows "serve_inv servers calls t"
proof -
  note inv = assms(1) [unfolded serve_inv_def]
  have upd: "count_go P (set_go i g s) + (if P (snd (sv_go s ! i)) then 1 else 0) = count_go P s + (if P g then 1 else 0)"
    if "i < length (sv_go s)" for P i g using that by (rule count_update)
  show ?thesis
  proof (cases a)
    case Cancel
    then show ?thesis using assms(2) inv by (auto simp: serve_inv_def split: if_splits)
  next
    case (Exit i r)
    then have i: "i < length (sv_go s)" "snd (sv_go s ! i) = Running" "t = set_go i (Sending r) s" using assms(2) by (auto split: if_splits)
    then show ?thesis using inv upd [OF i(1), of "\<lambda>g. g \<noteq> Left" "Sending r"] upd [OF i(1), of sent "Sending r"] by (auto simp: serve_inv_def sent_def)
  next
    case (Send i)
    then obtain r where i: "i < length (sv_go s)" "snd (sv_go s ! i) = Sending r" "t = (set_go i Leaving s)\<lparr>sv_done := sv_done s @ [r]\<rparr>"
      using assms(2) by (auto split: if_splits goroutine.splits option.splits)
    then show ?thesis using inv upd [OF i(1), of "\<lambda>g. g \<noteq> Left" Leaving] upd [OF i(1), of sent Leaving] by (auto simp: serve_inv_def sent_def)
  next
    case (Leave i)
    then have i: "i < length (sv_go s)" "snd (sv_go s ! i) = Leaving" "t = (set_go i Left s)\<lparr>sv_wg := sv_wg s - 1\<rparr>"
      using assms(2) by (auto split: if_splits)
    then show ?thesis using inv upd [OF i(1), of "\<lambda>g. g \<noteq> Left" Left] upd [OF i(1), of sent Left] by (auto simp: serve_inv_def sent_def)
  next
    case EnterCall
    then show ?thesis using assms(2) inv by (auto simp: serve_inv_def split: if_splits)
  next
    case LeaveCall
    then obtain c cs where "sv_calls s = c # cs" "sv_called s" "t = s\<lparr>sv_calls := cs, sv_called := False\<rparr>"
      using assms(2) by (auto split: list.splits if_splits)
    moreover from this obtain prev where "calls = (prev @ [c]) @ cs" "sv_cancelled s" using inv by auto
    ultimately show ?thesis using inv by (auto simp: serve_inv_def)
  next
    case TakeResult
    then show ?thesis using assms(2) inv by (auto simp: serve_inv_def split: main_routine.splits list.splits)
  next
    case (TakeCancel err)
    then show ?thesis using assms(2) inv by (auto simp: serve_inv_def split: if_splits)
  next
    case WaitDone
    then show ?thesis using assms(2) inv by (auto simp: serve_inv_def split: main_routine.splits if_splits)
  qed
qed

lemma serve_start_inv: "serve_inv servers calls (serve_start servers calls)"
  by (simp add: serve_inv_def serve_start_def count_go_def comp_def)

lemma serve_runs_inv: "serve_runs s as t \<Longrightarrow> serve_inv servers calls s \<Longrightarrow> serve_inv servers calls t"
  by (induction rule: serve_runs.induct) (auto intro: act_inv)

section \<open>Every run ends\<close>

fun go_weight :: "goroutine \<Rightarrow> nat" where
  "go_weight Running = 3" | "go_weight (Sending r) = 2" | "go_weight Leaving = 1" | "go_weight Left = 0"

fun main_weight :: "main_routine \<Rightarrow> nat" where
  "main_weight Selecting = 2" | "main_weight (Waiting r) = 1" | "main_weight (Returned r) = 0"

definition serve_measure :: "serve_state \<Rightarrow> nat" where
  "serve_measure s = sum_list (map (\<lambda>x. go_weight (snd x)) (sv_go s)) + (if sv_cancelled s then 0 else 1) +
     (2 * length (sv_calls s) - (if sv_called s then 1 else 0)) + main_weight (sv_main s)"

lemma set_go_weight:
  assumes "i < length (sv_go s)"
  shows "sum_list (map (\<lambda>x. go_weight (snd x)) (sv_go (set_go i g s))) + go_weight (snd (sv_go s ! i)) =
    sum_list (map (\<lambda>x. go_weight (snd x)) (sv_go s)) + go_weight g"
proof -
  let ?ws = "map (\<lambda>x. go_weight (snd x)) (sv_go s)"
  have "?ws ! i \<le> sum_list ?ws" using assms by (intro member_le_sum_list) simp_all
  moreover have "sum_list (?ws[i := go_weight g]) = sum_list ?ws + go_weight g - ?ws ! i" using assms by (simp add: sum_list_update)
  ultimately show ?thesis using assms by (simp add: set_go_def map_update)
qed

lemma act_decreases:
  assumes "serve_inv servers calls s" "act a s = Some t"
  shows "serve_measure t < serve_measure s"
proof (cases a)
  case (Exit i r)
  then have i: "i < length (sv_go s)" "snd (sv_go s ! i) = Running" "t = set_go i (Sending r) s" using assms(2) by (auto split: if_splits)
  then show ?thesis using set_go_weight [OF i(1), of "Sending r"] by (simp add: serve_measure_def)
next
  case (Send i)
  then obtain r where i: "i < length (sv_go s)" "snd (sv_go s ! i) = Sending r" "t = (set_go i Leaving s)\<lparr>sv_done := sv_done s @ [r]\<rparr>"
    using assms(2) by (auto split: if_splits goroutine.splits option.splits)
  then show ?thesis using set_go_weight [OF i(1), of Leaving] by (simp add: serve_measure_def)
next
  case (Leave i)
  then have i: "i < length (sv_go s)" "snd (sv_go s ! i) = Leaving" "t = (set_go i Left s)\<lparr>sv_wg := sv_wg s - 1\<rparr>"
    using assms(2) by (auto split: if_splits)
  then show ?thesis using set_go_weight [OF i(1), of Left] by (simp add: serve_measure_def)
next
  case EnterCall
  then show ?thesis using assms(2) by (cases "sv_calls s") (auto simp: serve_measure_def split: if_splits)
next
  case LeaveCall
  then show ?thesis using assms(2) by (auto simp: serve_measure_def split: list.splits if_splits)
qed (use assms(2) in \<open>auto simp: serve_measure_def split: if_splits main_routine.splits list.splits\<close>)

lemma serve_runs_bounded:
  "serve_runs s as t \<Longrightarrow> serve_inv servers calls s \<Longrightarrow> length as + serve_measure t \<le> serve_measure s"
proof (induction rule: serve_runs.induct)
  case (serve_act s as t a u)
  then show ?case using act_decreases [OF serve_runs_inv [OF serve_act.hyps(1) serve_act.prems] serve_act.hyps(2)] by simp
qed simp

text \<open>After the cancellation something can always happen until \<open>Serve\<close> has returned: nobody waits for ever.\<close>

lemma go_cases:
  assumes "\<not> (\<exists>i < length (sv_go s). \<exists>r. snd (sv_go s ! i) = Sending r)" "\<not> (\<exists>i < length (sv_go s). snd (sv_go s ! i) = Leaving)"
    "i < length (sv_go s)"
  shows "snd (sv_go s ! i) = Running \<or> snd (sv_go s ! i) = Left"
  using assms by (cases "snd (sv_go s ! i)") auto

lemma serve_progress:
  assumes inv: "serve_inv servers calls s" "length servers \<le> done_capacity" and cancelled: "sv_cancelled s" and waits: "\<And>r. sv_main s \<noteq> Returned r"
  shows "\<exists>a t. forced a s \<and> act a s = Some t"
proof -
  have len: "length (sv_go s) \<le> done_capacity" using inv by (metis length_map serve_inv_def)
  have told: "told srv s" if "sv_calls s = []" for srv using that cancelled by (simp add: told_def has_called_def split: server.split)
  consider (sending) i r where "i < length (sv_go s)" "snd (sv_go s ! i) = Sending r"
    | (leaving) i where "i < length (sv_go s)" "snd (sv_go s ! i) = Leaving"
    | (rest) "\<forall>i < length (sv_go s). snd (sv_go s ! i) = Running \<or> snd (sv_go s ! i) = Left"
    using go_cases by blast
  then show ?thesis
  proof cases
    case sending
    then have "length (sv_done s) < done_capacity"
      using count_misses [of i s sent] inv(1) len by (simp add: sent_def serve_inv_def)
    then have "forced (Send i) s \<and> (\<exists>t. act (Send i) s = Some t)" using sending by simp
    then show ?thesis by blast
  next
    case leaving
    then have "forced (Leave i) s \<and> (\<exists>t. act (Leave i) s = Some t)" by simp
    then show ?thesis by blast
  next
    case rest
    have exit: ?thesis if "i < length (sv_go s)" "snd (sv_go s ! i) = Running" "told (fst (sv_go s ! i)) s" for i
    proof -
      have "forced (Exit i None) s \<and> (\<exists>t. act (Exit i None) s = Some t)" using that by simp
      then show ?thesis by blast
    qed
    show ?thesis
    proof (cases "sv_calls s")
      case (Cons c cs)
      show ?thesis
      proof (cases "sv_called s")
        case False
        then have "forced EnterCall s \<and> (\<exists>t. act EnterCall s = Some t)" using Cons cancelled by simp
        then show ?thesis by blast
      next
        case True
        show ?thesis
        proof (cases "call_returns c s")
          case True
          then have "forced LeaveCall s \<and> (\<exists>t. act LeaveCall s = Some t)" using Cons \<open>sv_called s\<close> by simp
          then show ?thesis by blast
        next
          case False
          then obtain i where "i < length (sv_go s)" "fst (sv_go s ! i) = DevicePluginServer" "snd (sv_go s ! i) = Running" "c = StopDevicePlugin"
            by (auto simp: call_returns_def list_all_length split_beta)
          then show ?thesis using exit Cons True by (simp add: told_def has_called_def)
        qed
      qed
    next
      case Nil
      show ?thesis
      proof (cases "\<exists>i < length (sv_go s). snd (sv_go s ! i) = Running")
        case True
        then show ?thesis using exit told [OF Nil] by blast
      next
        case False
        then have "sv_wg s = 0" using rest inv(1) by (auto simp: serve_inv_def count_zero)
        then have "forced WaitDone s \<and> (\<exists>t. act WaitDone s = Some t) \<or> forced (TakeCancel ErrNotImplemented) s \<and> (\<exists>t. act (TakeCancel ErrNotImplemented) s = Some t)"
          using waits cancelled by (cases "sv_main s") auto
        then show ?thesis by blast
      qed
    qed
  qed
qed

lemma serve_start_measure: "serve_measure (serve_start servers calls) = 3 * length servers + 2 * length calls + 3"
  by (induction servers) (simp_all add: serve_measure_def serve_start_def)

lemma serve_starts:
  assumes "s0 \<in> {host_Serve, dpu_Serve}"
  obtains servers calls where "s0 = serve_start servers calls" "length servers = 4" "length calls = 5"
  using assms that [of "[CniServer, DevicePluginServer, ManagerLoop, PingLoop]" "[ShutdownCni, StopDevicePlugin, CloseVsp, CloseListener, CloseDpListener]"]
    that [of "[OpiServer, DevicePluginServer, CniServer, ManagerLoop]" "[StopOpi, StopDevicePlugin, CloseVsp, ShutdownCni, CloseListener]"]
  by (auto simp: host_Serve_def dpu_Serve_def)


text \<open>A cancellation with the device plugin slow to stop.\<close>

definition sample_actions :: "action list" where
  "sample_actions = [Cancel, EnterCall, Exit 0 None, LeaveCall, EnterCall, Exit 3 (Some ErrNotImplemented), Send 3, TakeResult, Exit 1 None, LeaveCall,
     EnterCall, LeaveCall, EnterCall, LeaveCall, EnterCall, LeaveCall, Exit 2 None, Send 0, Send 1, Send 2, Leave 0, Leave 1, Leave 2, Leave 3, WaitDone]"

fun run_actions :: "action list \<Rightarrow> serve_state \<Rightarrow> serve_state option" where
  "run_actions [] s = Some s"
| "run_actions (a # as) s = (case act a s of Some t \<Rightarrow> run_actions as t | None \<Rightarrow> None)"

lemma run_actions_runs: "serve_runs s0 bs s \<Longrightarrow> run_actions as s = Some t \<Longrightarrow> serve_runs s0 (bs @ as) t"
proof (induction as arbitrary: bs s)
  case (Cons a as)
  then obtain u where u: "act a s = Some u" "run_actions as u = Some t" by (auto split: option.splits)
  have "serve_runs s0 (bs @ [a]) u" using Cons.prems(1) u(1) by (rule serve_act)
  then show ?case using Cons.IH [of "bs @ [a]" u] u(2) by simp
qed simp


text \<open>Without a cancellation a failed server is not reported as long as another one runs: the error is taken from the
  channel, but \<open>Serve\<close> then waits for all goroutines.\<close>

theorem serve_error_held:
  assumes "s0 \<in> {host_Serve, dpu_Serve}" "serve_runs s0 as s" "go_at i s = Some Running"
  shows "sv_main s \<noteq> Returned r"
proof
  assume "sv_main s = Returned r"
  moreover have "serve_inv servers calls s" if "s0 = serve_start servers calls" for servers calls
    using serve_runs_inv [OF assms(2)] serve_start_inv that by blast
  then obtain servers calls where "serve_inv servers calls s" using assms(1) serve_starts by metis
  ultimately have "\<forall>i < length (sv_go s). snd (sv_go s ! i) = Left" by (auto simp: serve_inv_def count_zero)
  then show False using assms(3) by (auto split: if_splits)
qed

section \<open>Shutdown of the daemon\<close>

text \<open>A routine of the daemon (the readiness server or a side manager) returns a result, which is fixed here; an error
  is sent on \<open>errChan\<close>, which has room for one, before the routine closes its \<open>done\<close> channel. During
  the shutdown nobody receives from \<open>errChan\<close>; the daemon waits for the \<open>done\<close> channels in order.\<close>

datatype routine = Working "go_error option" | Reporting go_error | Closed

record shutdown_state =
  sh_routines :: "routine list"
  sh_errChan :: "go_error list"
  sh_waited :: nat

definition errChan_capacity :: nat where
  "errChan_capacity = 1"

inductive shutdown_step :: "shutdown_state \<Rightarrow> shutdown_state \<Rightarrow> bool" where
  returns_nil: "i < length (sh_routines s) \<Longrightarrow> sh_routines s ! i = Working None \<Longrightarrow>
     shutdown_step s (s\<lparr>sh_routines := (sh_routines s)[i := Closed]\<rparr>)"
| returns_err: "i < length (sh_routines s) \<Longrightarrow> sh_routines s ! i = Working (Some err) \<Longrightarrow>
     shutdown_step s (s\<lparr>sh_routines := (sh_routines s)[i := Reporting err]\<rparr>)"
| reports: "i < length (sh_routines s) \<Longrightarrow> sh_routines s ! i = Reporting err \<Longrightarrow> length (sh_errChan s) < errChan_capacity \<Longrightarrow>
     shutdown_step s (s\<lparr>sh_routines := (sh_routines s)[i := Closed], sh_errChan := sh_errChan s @ [err]\<rparr>)"
| waits: "sh_waited s < length (sh_routines s) \<Longrightarrow> sh_routines s ! sh_waited s = Closed \<Longrightarrow>
     shutdown_step s (s\<lparr>sh_waited := sh_waited s + 1\<rparr>)"

inductive_cases shutdown_stepE: "shutdown_step s t"

definition shutdown_start :: "go_error option list \<Rightarrow> go_error list \<Rightarrow> shutdown_state" where
  "shutdown_start results queued = \<lparr>sh_routines = map Working results, sh_errChan = queued, sh_waited = 0\<rparr>"

definition shutdown_done :: "shutdown_state \<Rightarrow> bool" where
  "shutdown_done s \<longleftrightarrow> sh_waited s = length (sh_routines s)"

fun fails :: "routine \<Rightarrow> bool" where
  "fails (Working r) = (r \<noteq> None)" | "fails (Reporting err) = True" | "fails Closed = False"

text \<open>Errors are neither lost nor made up, and what the daemon has waited for is closed.\<close>

definition shutdown_inv :: "nat \<Rightarrow> shutdown_state \<Rightarrow> bool" where
  "shutdown_inv n s \<longleftrightarrow> length (filter fails (sh_routines s)) + length (sh_errChan s) = n \<and> length (sh_errChan s) \<le> errChan_capacity \<and>
     sh_waited s \<le> length (sh_routines s) \<and> (\<forall>i < sh_waited s. sh_routines s ! i = Closed)"

lemma filter_update:
  assumes "i < length xs"
  shows "length (filter P (xs[i := y])) + (if P (xs ! i) then 1 else 0) = length (filter P xs) + (if P y then 1 else 0)"
proof -
  let ?n = "\<lambda>xs. length (filter P xs)"
  have "?n xs = ?n (take i xs) + (if P (xs ! i) then 1 else 0) + ?n (drop (Suc i) xs)"
    using arg_cong [OF id_take_nth_drop [OF assms], of ?n] by simp
  moreover have "?n (xs[i := y]) = ?n (take i xs) + (if P y then 1 else 0) + ?n (drop (Suc i) xs)"
    using arg_cong [OF upd_conv_take_nth_drop [OF assms, of y], of ?n] by simp
  ultimately show ?thesis by simp
qed

lemma shutdown_step_inv:
  assumes "shutdown_step s t" "shutdown_inv n s"
  shows "shutdown_inv n t"
  using assms(1)
proof (cases rule: shutdown_step.cases)
  case (returns_nil i)
  then show ?thesis using assms(2) filter_update [OF returns_nil(2), of fails Closed] by (auto simp: shutdown_inv_def nth_list_update)
next
  case (returns_err i err)
  then have "\<not> i < sh_waited s" using assms(2) by (auto simp: shutdown_inv_def)
  then show ?thesis using returns_err assms(2) filter_update [OF returns_err(2), of fails "Reporting err"]
    by (auto simp: shutdown_inv_def nth_list_update)
next
  case (reports i err)
  then show ?thesis using assms(2) filter_update [OF reports(2), of fails Closed] by (auto simp: shutdown_inv_def nth_list_update errChan_capacity_def)
next
  case waits
  then show ?thesis using assms(2) by (auto simp: shutdown_inv_def less_Suc_eq)
qed

fun routine_weight :: "routine \<Rightarrow> nat" where
  "routine_weight (Working r) = 2" | "routine_weight (Reporting err) = 1" | "routine_weight Closed = 0"

definition shutdown_measure :: "shutdown_state \<Rightarrow> nat" where
  "shutdown_measure s = sum_list (map routine_weight (sh_routines s)) + (length (sh_routines s) - sh_waited s)"

lemma routine_update:
  assumes "i < length rs" "routine_weight r < routine_weight (rs ! i)"
  shows "sum_list (map routine_weight (rs[i := r])) < sum_list (map routine_weight rs)"
proof -
  have "map routine_weight rs ! i \<le> sum_list (map routine_weight rs)" using assms by (intro member_le_sum_list) simp_all
  then show ?thesis using assms by (simp add: map_update sum_list_update)
qed

lemma shutdown_step_decreases: "shutdown_step s t \<Longrightarrow> shutdown_measure t < shutdown_measure s"
  by (cases rule: shutdown_stepE) (auto simp: shutdown_measure_def intro!: routine_update)

lemma shutdown_reached_inv: "shutdown_step\<^sup>*\<^sup>* s t \<Longrightarrow> shutdown_inv n s \<Longrightarrow> shutdown_inv n t"
  by (induction rule: rtranclp_induct) (auto intro: shutdown_step_inv)

lemma shutdown_start_inv:
  "length queued \<le> errChan_capacity \<Longrightarrow> shutdown_inv (length (filter (\<lambda>r. r \<noteq> None) results) + length queued) (shutdown_start results queued)"
  by (simp add: shutdown_inv_def shutdown_start_def filter_map comp_def)

text \<open>In a state without a next step every routine is closed, or blocks with its error on the full channel.\<close>

lemma shutdown_stuck_routine:
  assumes "\<not> (\<exists>t. shutdown_step s t)" "i < length (sh_routines s)"
  shows "sh_routines s ! i = Closed \<or> (\<exists>err. sh_routines s ! i = Reporting err) \<and> \<not> length (sh_errChan s) < errChan_capacity"
proof (cases "sh_routines s ! i")
  case (Working r)
  then have "\<exists>t. shutdown_step s t" using assms(2) by (cases r) (blast intro: shutdown_step.intros)+
  then show ?thesis using assms(1) by blast
next
  case (Reporting err)
  then show ?thesis using assms shutdown_step.reports by blast
qed simp

lemma shutdown_stuck_iff:
  assumes inv: "shutdown_inv n s" and stuck: "\<not> (\<exists>t. shutdown_step s t)"
  shows "shutdown_done s \<longleftrightarrow> n \<le> errChan_capacity"
proof
  assume "shutdown_done s"
  then have "\<forall>r \<in> set (sh_routines s). r = Closed" using inv by (auto simp: shutdown_inv_def shutdown_done_def all_set_conv_all_nth)
  then have "filter fails (sh_routines s) = []" by (auto simp: filter_empty_conv)
  then show "n \<le> errChan_capacity" using inv by (simp add: shutdown_inv_def)
next
  assume n: "n \<le> errChan_capacity"
  have closed: "sh_routines s ! i = Closed" if i: "i < length (sh_routines s)" for i
  proof (rule ccontr)
    assume "sh_routines s ! i \<noteq> Closed"
    then obtain err where r: "sh_routines s ! i = Reporting err" and full: "\<not> length (sh_errChan s) < errChan_capacity"
      using shutdown_stuck_routine [OF stuck i] by blast
    have "filter fails (sh_routines s) \<noteq> []" using r nth_mem [OF i] by (force simp: filter_empty_conv)
    then have "length (filter fails (sh_routines s)) > 0" by simp
    then show False using inv n full by (auto simp: shutdown_inv_def)
  qed
  have "\<not> sh_waited s < length (sh_routines s)" using stuck closed shutdown_step.waits by blast
  then show "shutdown_done s" using inv by (simp add: shutdown_inv_def shutdown_done_def)
qed

text \<open>
  C12: The shutdown of the daemon ends exactly when at most one error is left to report. It has no infinite run, and
  a run that cannot go on has collected all \<open>done\<close> channels if and only if the errors that the routines return
  and those already queued are together at most one. With two or more, as when the processes of two DPUs
  are not up and \<open>StartVsp\<close> is cancelled for both, the daemon hangs: a routine blocks on \<open>errChan\<close>, from which nobody
  receives any more.
\<close>

theorem daemon_shutdown_exact:
  assumes "length queued \<le> errChan_capacity" "shutdown_step\<^sup>*\<^sup>* (shutdown_start results queued) s" "\<not> (\<exists>t. shutdown_step s t)"
  shows "wfP (\<lambda>t s. shutdown_step s t) \<and>
    (shutdown_done s \<longleftrightarrow> length (filter (\<lambda>r. r \<noteq> None) results) + length queued \<le> 1)"
proof
  show "wfP (\<lambda>t s. shutdown_step s t)"
    by (rule wfp_if_convertible_to_nat [of _ shutdown_measure]) (rule shutdown_step_decreases)
  show "shutdown_done s \<longleftrightarrow> length (filter (\<lambda>r. r \<noteq> None) results) + length queued \<le> 1"
    using shutdown_stuck_iff [OF shutdown_reached_inv [OF assms(2) shutdown_start_inv [OF assms(1)]] assms(3)] by (simp add: errChan_capacity_def)
qed

text \<open>Two side managers that fail: both have returned, one error is queued, the other blocks.\<close>

definition hung :: shutdown_state where
  "hung = \<lparr>sh_routines = [Closed, Reporting ErrNotImplemented], sh_errChan = [ErrNotImplemented], sh_waited = 1\<rparr>"

lemma hung_reached: "shutdown_step\<^sup>*\<^sup>* (shutdown_start [Some ErrNotImplemented, Some ErrNotImplemented] []) hung"
proof -
  let ?e = ErrNotImplemented
  let ?s0 = "shutdown_start [Some ?e, Some ?e] []"
  let ?s1 = "\<lparr>sh_routines = [Reporting ?e, Working (Some ?e)], sh_errChan = [], sh_waited = 0\<rparr>"
  let ?s2 = "\<lparr>sh_routines = [Reporting ?e, Reporting ?e], sh_errChan = [], sh_waited = 0\<rparr>"
  let ?s3 = "\<lparr>sh_routines = [Closed, Reporting ?e], sh_errChan = [?e], sh_waited = 0\<rparr>"
  have "shutdown_step ?s0 ?s1" using returns_err [of 0 ?s0 ?e] by (simp add: shutdown_start_def)
  moreover have "shutdown_step ?s1 ?s2" using returns_err [of 1 ?s1 ?e] by simp
  moreover have "shutdown_step ?s2 ?s3" using reports [of 0 ?s2 ?e] by (simp add: errChan_capacity_def)
  moreover have "shutdown_step ?s3 hung" using waits [of ?s3] by (simp add: hung_def)
  ultimately show ?thesis by (meson rtranclp.rtrancl_into_rtrancl rtranclp.rtrancl_refl)
qed

lemma hung_stuck: "\<not> (\<exists>t. shutdown_step hung t)"
  by (auto simp: hung_def errChan_capacity_def less_Suc_eq nth_Cons' elim!: shutdown_stepE)

theorem daemon_shutdown_exact_witness:
  "\<not> shutdown_done hung \<and> shutdown_step\<^sup>*\<^sup>* (shutdown_start [Some ErrNotImplemented, Some ErrNotImplemented] []) hung"
  using daemon_shutdown_exact [of "[]", OF _ hung_reached hung_stuck] hung_reached by simp

section \<open>Serve of the device plugin\<close>

text \<open>\<open>kubelet_env\<close> is what gRPC does: connecting to an endpoint until it answers (\<open>connectWithRetry\<close> is one dial with a retry
  policy and a deadline), dialling without waiting, a registration, and the result of the server that runs in the goroutine once it
  stops. \<open>DpuResourceName\<close> can be set from outside.\<close>

record register_request =
  rr_Version :: string
  rr_Endpoint :: string
  rr_ResourceName :: string

record 'w kubelet_env =
  ku_StartServe :: "'w \<Rightarrow> 'w"
  ku_Connect :: "string \<Rightarrow> 'w \<Rightarrow> go_error option \<times> 'w"
  ku_Dial :: "string \<Rightarrow> 'w \<Rightarrow> go_error option \<times> 'w"
  ku_Register :: "register_request \<Rightarrow> 'w \<Rightarrow> go_error option \<times> 'w"
  ku_Close :: "'w \<Rightarrow> 'w"
  ku_Served :: "'w \<Rightarrow> go_error option \<times> 'w"

definition ensureDevicePluginServerStarted :: "'w kubelet_env \<Rightarrow> PathManager \<Rightarrow> string \<Rightarrow> 'w \<Rightarrow> go_error option \<times> 'w" where
  "ensureDevicePluginServerStarted ku p resource w =
     (case ku_Connect ku (''unix:'' @ PluginEndpoint p) w of
        (Some err, w1) \<Rightarrow>
          (Some (Errorf ''resource %s unable to establish test connection with gRPC server: %v'' [FStr resource, FErr err]), w1)
      | (None, w1) \<Rightarrow> (None, ku_Close ku w1))"

definition registerWithKubelet :: "'w kubelet_env \<Rightarrow> PathManager \<Rightarrow> string \<Rightarrow> 'w \<Rightarrow> go_error option \<times> 'w" where
  "registerWithKubelet ku p resource w =
     (case ku_Dial ku (''unix:'' @ KubeletEndPoint p) w of
        (Some err, w1) \<Rightarrow> (Some (Errorf ''resource %s unable connect to Kubelet: %v'' [FStr resource, FErr err]), w1)
      | (None, w1) \<Rightarrow>
          (case ku_Register ku \<lparr>rr_Version = ''v1beta1'', rr_Endpoint = PluginEndpointFilename p, rr_ResourceName = resource\<rparr> w1 of
             (Some err, w2) \<Rightarrow> (Some (Errorf ''unable to register resource %s with Kubelet: %v'' [FStr resource, FErr err]), ku_Close ku w2)
           | (None, w2) \<Rightarrow> (None, ku_Close ku w2)))"

definition dp_Serve :: "'w kubelet_env \<Rightarrow> PathManager \<Rightarrow> string \<Rightarrow> 'w \<Rightarrow> go_error option \<times> 'w" where
  "dp_Serve ku p resource w =
     (case ensureDevicePluginServerStarted ku p resource (ku_StartServe ku w) of
        (Some err, w1) \<Rightarrow> (Some (Errorf ''failed to ensure Device Plugin server started: %v'' [FErr err]), w1)
      | (None, w1) \<Rightarrow>
          (case registerWithKubelet ku p resource w1 of
             (Some err, w2) \<Rightarrow> (Some (Errorf ''failed to register the Device Plugin server with Kubelet: %v'' [FErr err]), w2)
           | (None, w2) \<Rightarrow>
               (case ku_Served ku w2 of
                  (Some err, w3) \<Rightarrow> (Some (Errorf ''serving Device Plugin incoming requests failed: %v'' [FErr err]), w3)
                | (None, w3) \<Rightarrow> (None, w3))))"

definition dp_ListenAndServe :: "'w kubelet_env \<Rightarrow> PathManager \<Rightarrow> string \<Rightarrow> go_error option \<Rightarrow> 'w \<Rightarrow> go_error option \<times> 'w" where
  "dp_ListenAndServe ku p resource listenErr w =
     (case listenErr of Some err \<Rightarrow> (Some err, w) | None \<Rightarrow> dp_Serve ku p resource w)"

text \<open>Kubelet's registration blocks until it can connect back, so the plugin must not register before it serves. \<open>serving\<close> is
  any condition that a connection to the plugin's own endpoint establishes and that closing and dialling keep: under it
  a registration is only sent when it holds. What a registration would do otherwise makes no difference.\<close>

theorem registers_only_when_serving:
  assumes connects: "\<And>w w'. ku_Connect ku (''unix:'' @ PluginEndpoint p) w = (None, w') \<Longrightarrow> serving w'"
    and closes: "\<And>w. serving w \<Longrightarrow> serving (ku_Close ku w)"
    and dials: "\<And>w w'. ku_Dial ku (''unix:'' @ KubeletEndPoint p) w = (None, w') \<Longrightarrow> serving w \<Longrightarrow> serving w'"
  shows "dp_Serve (ku\<lparr>ku_Register := \<lambda>req w. if serving w then ku_Register ku req w else blocked req w\<rparr>) p resource w = dp_Serve ku p resource w"
  using assms by (auto simp: dp_Serve_def ensureDevicePluginServerStarted_def registerWithKubelet_def split: prod.split option.split)

end
