(* ===== verification/Cp_Agent.thy ===== *)
theory Cp_Agent
  imports Vsp_Net
begin

text \<open>
  The control plane agent of the Marvell DPU (\<open>marvell/cp-agent/cp-agent-run.go\<close>) and the set-up of the platform
  (\<open>mrvlutils.go\<close>): devices are taken from their drivers and given to \<open>vfio-pci\<close>, then the agent is started; the
  vendor-specific process installs the agent as a service or brings up the interface of the host. Commands and sysfs are those of
  \<open>vnet\<close>; \<open>pci\<close> is what \<open>ghw\<close> reports as driver of an address. The locale \<open>sysfs_drivers\<close> has the laws of driver binding. The
  lemmas show that the agent only starts once the devices it gets are bound, and with which command.
\<close>

section \<open>Binding to VFIO\<close>

definition MrvlDPIPFId :: string where
  "MrvlDPIPFId = ''a080''"

definition MrvlPEMPFId :: string where
  "MrvlPEMPFId = ''a06c''"

definition MrvlRVUPF2Id :: string where
  "MrvlRVUPF2Id = ''a0ef''"

type_synonym 'w pci_drivers = "'w \<Rightarrow> (string \<Rightarrow> string option) result"

text \<open>An error of \<open>ghw\<close> ends the process, and an address that it does not know is a nil pointer.\<close>

definition GetPCIDriver :: "'w pci_drivers \<Rightarrow> string \<Rightarrow> 'w \<Rightarrow> string result" where
  "GetPCIDriver pci pciAddress w =
     (case pci w of
        Inl err \<Rightarrow> Inl (Panic ''exit status 1'')
      | Inr driver \<Rightarrow>
          (case driver pciAddress of
             None \<Rightarrow> Inl (Panic ''invalid memory address or nil pointer dereference'')
           | Some d \<Rightarrow> Inr d))"

definition unbindPath :: "string \<Rightarrow> string" where
  "unbindPath driver = path_join (path_join ''/sys/bus/pci/drivers'' driver) ''unbind''"

definition overridePath :: "string \<Rightarrow> string" where
  "overridePath pciAddress = path_join (path_join ''/sys/bus/pci/devices'' pciAddress) ''driver_override''"

definition probePath :: string where
  "probePath = ''/sys/bus/pci/drivers_probe''"

definition BindToVFIO :: "'w vnet \<Rightarrow> 'w pci_drivers \<Rightarrow> string \<Rightarrow> 'w \<Rightarrow> go_error option \<times> 'w" where
  "BindToVFIO env pci pciAddress w =
     (case GetPCIDriver pci pciAddress w of
        Inl err \<Rightarrow> (Some err, w)
      | Inr driver \<Rightarrow>
          and_then (if driver \<noteq> [] then vn_WriteFile env (unbindPath driver) pciAddress w else (None, w)) (\<lambda>err. err)
            (\<lambda>w1. and_then (vn_WriteFile env (overridePath pciAddress) ''vfio-pci'' w1) (\<lambda>err. err)
              (vn_WriteFile env probePath pciAddress)))"

section \<open>The agent\<close>

definition SetupHugepages :: "'w vnet \<Rightarrow> 'w \<Rightarrow> go_error option \<times> 'w" where
  "SetupHugepages env w =
     and_then (bash_run env ''mkdir -p /dev/huge'' w) (\<lambda>err. err) (bash_run env ''mount -t hugetlbfs none /dev/huge'')"

text \<open>The command line; \<open>rvu\<close> is the second RVU function, if there is one.\<close>

definition cpagentCmd :: "string option \<Rightarrow> string \<Rightarrow> string \<Rightarrow> string" where
  "cpagentCmd rvu dpi pem =
     (case rvu of None \<Rightarrow> ''/usr/bin/octep_cp_agent.25.03.0'' | Some _ \<Rightarrow> ''/usr/bin/octep_cp_agent'') @ '' /usr/bin/cn106xx.cfg --'' @
     (case rvu of None \<Rightarrow> '' --dpi_dev '' @ dpi | Some addr \<Rightarrow> '' --sdp_rvu_pf '' @ addr) @
     '' --pem_dev '' @ pem @ '' &> /tmp/octep-cp-agent.log''"

definition start_agent :: "'w vnet \<Rightarrow> 'w pci_drivers \<Rightarrow> string \<Rightarrow> string \<Rightarrow> 'w \<Rightarrow> go_error option \<times> 'w" where
  "start_agent env pci dpi pem w =
     (case GetAllVfsByDeviceID (vn_platform env w) MrvlRVUPF2Id of
        Inl _ \<Rightarrow> bash_run env (cpagentCmd None dpi pem) w
      | Inr rvu_pf_2 \<Rightarrow>
          if length rvu_pf_2 < 2 then (Some (Panic ''index out of range [1] with length 1''), w)
          else and_then (BindToVFIO env pci (rvu_pf_2 ! 1) w) (\<lambda>err. err) (bash_run env (cpagentCmd (Some (rvu_pf_2 ! 1)) dpi pem)))"

definition setupDpuLink :: "'w vnet \<Rightarrow> 'w pci_drivers \<Rightarrow> 'w \<Rightarrow> go_error option \<times> 'w" where
  "setupDpuLink env pci w0 =
     and_then (SetupHugepages env w0) (\<lambda>err. err) (\<lambda>w1.
       and_then (bash_run env ''chroot /host modprobe vfio-pci'' w1) (\<lambda>err. err) (\<lambda>w2.
         case GetAllVfsByDeviceID (vn_platform env w2) MrvlDPIPFId of
           Inl err \<Rightarrow> (Some err, w2)
         | Inr dpi_pf \<Rightarrow>
             and_then (BindToVFIO env pci (dpi_pf ! 0) w2) (\<lambda>err. err) (\<lambda>w3.
               case GetAllVfsByDeviceID (vn_platform env w3) MrvlPEMPFId of
                 Inl err \<Rightarrow> (Some err, w3)
               | Inr pem_pf \<Rightarrow>
                   and_then (BindToVFIO env pci (pem_pf ! 0) w3) (\<lambda>err. err) (start_agent env pci (dpi_pf ! 0) (pem_pf ! 0)))))"

text \<open>The main function of the agent logs errors only; where the devices cannot be listed it exits.\<close>

definition cp_agent_main :: "'w vnet \<Rightarrow> 'w pci_drivers \<Rightarrow> 'w \<Rightarrow> 'w" where
  "cp_agent_main env pci w =
     (case DetectPlatformMode (vn_platform env w) of
        Inl err \<Rightarrow> w
      | Inr mode \<Rightarrow> if mode = ''dpu'' then snd (setupDpuLink env pci w) else w)"

section \<open>Set-up by the vendor-specific process\<close>

text \<open>\<open>strings.ReplaceAll\<close> of a text that is not empty; the template is the embedded file.\<close>

function replace_text :: "string \<Rightarrow> string \<Rightarrow> string \<Rightarrow> string" where
  "replace_text old new s =
     (if s = [] then []
      else if old \<noteq> [] \<and> take (length old) s = old then new @ replace_text old new (drop (length old) s)
      else hd s # replace_text old new (tl s))"
  by pat_completeness auto
termination by (relation "measure (\<lambda>(old, new, s). length s)") (auto simp: neq_Nil_conv)

declare replace_text.simps [simp del]

definition service_path :: string where
  "service_path = ''/host/etc/systemd/system/cp-agent.service''"

definition SetupDpuServiceWithImage :: "'w vnet \<Rightarrow> string \<Rightarrow> (string \<Rightarrow> string) \<Rightarrow> string \<Rightarrow> 'w \<Rightarrow> go_error option \<times> 'w" where
  "SetupDpuServiceWithImage env template getenv cpAgentImage w =
     (let imageToUse = (if cpAgentImage = [] then getenv ''MarvellVspCpAgentImage'' else cpAgentImage);
          content = replace_text ''%IMAGE%'' imageToUse template
      in and_then (vn_WriteFile env service_path content w) (\<lambda>err. err) (\<lambda>w1.
           and_then (bash_run env ''chroot /host systemctl enable cp-agent'' w1) (\<lambda>err. err) (\<lambda>w2.
             and_then (bash_run env ''chroot /host systemctl daemon-reload'' w2) (\<lambda>err. err)
               (bash_run env ''chroot /host systemctl start cp-agent''))))"

definition SetupDpuService :: "'w vnet \<Rightarrow> string \<Rightarrow> (string \<Rightarrow> string) \<Rightarrow> 'w \<Rightarrow> go_error option \<times> 'w" where
  "SetupDpuService env template getenv = SetupDpuServiceWithImage env template getenv []"

definition SetupPlatform :: "'w vnet \<Rightarrow> string \<Rightarrow> (string \<Rightarrow> string) \<Rightarrow> 'w \<Rightarrow> go_error option \<times> 'w" where
  "SetupPlatform env template getenv w =
     (case DetectPlatformMode (vn_platform env w) of
        Inl err \<Rightarrow> (Some (Panic ''exit status 1''), w)
      | Inr mode \<Rightarrow> if mode = ''host'' then SetupHostInterface env w else SetupDpuService env template getenv w)"

section \<open>Driver binding\<close>

text \<open>\<open>drv\<close> is the driver of an address, empty when there is none, and \<open>ovr\<close> its override. Probing binds a free device to the
  overriding driver, and the commands before that bind nothing.\<close>

locale sysfs_drivers =
  fixes env :: "'w vnet" and pci :: "'w pci_drivers" and drv :: "'w \<Rightarrow> string \<Rightarrow> string" and ovr :: "'w \<Rightarrow> string \<Rightarrow> string"
  assumes reported: "pci w = Inr driver \<Longrightarrow> driver addr = Some d \<Longrightarrow> drv w addr = d"
    and unbound: "d \<noteq> [] \<Longrightarrow> vn_WriteFile env (unbindPath d) addr w = (None, w') \<Longrightarrow> drv w addr = d \<Longrightarrow> drv w' = (drv w)(addr := []) \<and> ovr w' = ovr w"
    and overridden: "vn_WriteFile env (overridePath addr) d w = (None, w') \<Longrightarrow> drv w' = drv w \<and> ovr w' = (ovr w)(addr := d)"
    and probed: "vn_WriteFile env probePath addr w = (None, w') \<Longrightarrow> drv w addr = [] \<Longrightarrow> ovr w addr \<noteq> [] \<Longrightarrow> drv w' = (drv w)(addr := ovr w addr)"
    and prepared: "cmd \<in> {''mkdir -p /dev/huge'', ''mount -t hugetlbfs none /dev/huge'', ''chroot /host modprobe vfio-pci''} \<Longrightarrow> drv (snd (bash_run env cmd w)) = drv w"
begin

lemma bound:
  assumes "BindToVFIO env pci addr w = (None, w')"
  shows "drv w' = (drv w)(addr := ''vfio-pci'')"
proof -
  obtain driver where driver: "GetPCIDriver pci addr w = Inr driver" using assms by (cases "GetPCIDriver pci addr w") (auto simp: BindToVFIO_def)
  then have was: "drv w addr = driver" using reported by (auto simp: GetPCIDriver_def split: sum.splits option.splits)
  obtain w1 w2 where w1: "(if driver \<noteq> [] then vn_WriteFile env (unbindPath driver) addr w else (None, w)) = (None, w1)"
    and w2: "vn_WriteFile env (overridePath addr) ''vfio-pci'' w1 = (None, w2)" "vn_WriteFile env probePath addr w2 = (None, w')"
    using assms driver by (auto simp: BindToVFIO_def)
  have "drv w1 = (drv w)(addr := [])" using w1 was unbound [of driver addr w w1] by (auto split: if_splits)
  then have free: "drv w2 = (drv w)(addr := [])" "ovr w2 addr = ''vfio-pci''" using overridden [OF w2(1)] by simp_all
  then show ?thesis using probed [OF w2(2)] by simp
qed

lemma hugepages_bind_nothing: "SetupHugepages env w = (None, w') \<Longrightarrow> drv w' = drv w"
proof -
  assume "SetupHugepages env w = (None, w')"
  then obtain w1 where "bash_run env ''mkdir -p /dev/huge'' w = (None, w1)" "bash_run env ''mount -t hugetlbfs none /dev/huge'' w1 = (None, w')"
    by (auto simp: SetupHugepages_def)
  then show ?thesis using prepared [of "''mkdir -p /dev/huge''" w] prepared [of "''mount -t hugetlbfs none /dev/huge''" w1] by simp
qed

text \<open>The last step runs the agent, with or without the second RVU function.\<close>

lemma agent_step:
  assumes "start_agent env pci dpi pem w = (None, w')"
  obtains rvu w1 where "bash_run env (cpagentCmd rvu dpi pem) w1 = (None, w')" "drv w1 = (case rvu of None \<Rightarrow> drv w | Some a \<Rightarrow> (drv w)(a := ''vfio-pci''))"
    "case GetAllVfsByDeviceID (vn_platform env w) MrvlRVUPF2Id of Inl _ \<Rightarrow> rvu = None | Inr l \<Rightarrow> 2 \<le> length l \<and> rvu = Some (l ! 1)"
proof (cases "GetAllVfsByDeviceID (vn_platform env w) MrvlRVUPF2Id")
  case (Inl err)
  then show ?thesis using that [of None w] assms by (simp add: start_agent_def)
next
  case (Inr l)
  then obtain w1 where "2 \<le> length l" "BindToVFIO env pci (l ! 1) w = (None, w1)" "bash_run env (cpagentCmd (Some (l ! 1)) dpi pem) w1 = (None, w')"
    using assms by (auto simp: start_agent_def not_less split: if_splits)
  then show ?thesis using that [of "Some (l ! 1)" w1] bound Inr by simp
qed

end

lemma found_devices: "GetAllVfsByDeviceID pf i = Inr l \<Longrightarrow> l = l ! 0 # tl l"
  by (cases l) (auto simp: GetAllVfsByDeviceID_def split: sum.splits if_splits)

section \<open>Properties\<close>


text \<open>With exactly one RVU function the agent panics: the second one is used without a check.\<close>

lemma single_rvu_panics:
  assumes "GetAllVfsByDeviceID (vn_platform env w) MrvlRVUPF2Id = Inr [a]"
  shows "start_agent env pci dpi pem w = (Some (Panic ''index out of range [1] with length 1''), w)"
  using assms by (simp add: start_agent_def)

section \<open>A simulated bus\<close>

record bus =
  bus_drv :: "string \<Rightarrow> string"
  bus_ovr :: "string \<Rightarrow> string"
  bus_ran :: "string list list"

definition bus_write :: "string \<Rightarrow> string \<Rightarrow> bus \<Rightarrow> go_error option \<times> bus" where
  "bus_write path content w =
     (if path = probePath then
        (None, if bus_drv w content = [] \<and> bus_ovr w content \<noteq> [] then w\<lparr>bus_drv := (bus_drv w)(content := bus_ovr w content)\<rparr> else w)
      else if take 21 path = ''/sys/bus/pci/drivers/'' then
        (if bus_drv w content = drop 21 (take (length path - 7) path) then (None, w\<lparr>bus_drv := (bus_drv w)(content := [])\<rparr>) else (Some (ExtError ''ENODEV''), w))
      else if take 21 path = ''/sys/bus/pci/devices/'' then
        (None, w\<lparr>bus_ovr := (bus_ovr w)(drop 21 (take (length path - 16) path) := content)\<rparr>)
      else (None, w))"

definition octeon_dev :: "string \<Rightarrow> string \<Rightarrow> PCIDevice" where
  "octeon_dev addr product = \<lparr>pci_Address = addr, pci_VendorID = MrvlVendorID, pci_VendorName = [], pci_ProductID = product,
     pci_ProductName = [], pci_ClassName = []\<rparr>"

definition sim_bus :: "PCIDevice list \<Rightarrow> bus vnet" where
  "sim_bus devs =
     \<lparr>vn_Run = (\<lambda>cmd w. (None, w\<lparr>bus_ran := bus_ran w @ [cmd]\<rparr>)), vn_Output = (\<lambda>_ _. Inr []), vn_WriteFile = bus_write,
      vn_Readlink = (\<lambda>_ _. ([], None)), vn_ReadDir = (\<lambda>_ _. Inr []),
      vn_platform = (\<lambda>_. \<lparr>PciDevices = Inr devs, Product = Inr [], ReadDeviceSerialNumber = (\<lambda>_. Inr []),
         GetNetDevNamesFromPCIeAddr = (\<lambda>_. Inr []), GetNetDevMACAddressFromPCIeAddr = (\<lambda>_. Inr []), stat_physfn = (\<lambda>_. StatOk)\<rparr>),
      vn_LinkByName = (\<lambda>n _. Inr \<lparr>vl_Name = n, vl_HardwareAddr = [], vl_Up = True\<rparr>), vn_LinkAdd = (\<lambda>_ _ w. (None, w)),
      vn_LinkDel = (\<lambda>_ w. (None, w)), vn_LinkSetUp = (\<lambda>_ w. (None, w)), vn_LinkSetDown = (\<lambda>_ w. (None, w)),
      vn_LinkSetVfVlan = (\<lambda>_ _ _ w. (None, w)), vn_LinkSetVfSpoofchk = (\<lambda>_ _ _ w. (None, w)),
      vn_LinkSetVfTrust = (\<lambda>_ _ _ w. (None, w)), vn_Sleep = (\<lambda>w. w)\<rparr>"

definition bus_pci :: "bus pci_drivers" where
  "bus_pci w = Inr (\<lambda>addr. Some (bus_drv w addr))"

lemmas bus_paths = unbindPath_def overridePath_def probePath_def path_join_def

interpretation sim_drivers: sysfs_drivers "sim_bus devs" bus_pci bus_drv bus_ovr
  by unfold_locales (auto simp: sim_bus_def bus_pci_def bus_write_def bus_paths bash_run_def split: if_splits)

abbreviation "sample_bus \<equiv> sim_bus [octeon_dev ''d0'' MrvlDPIPFId, octeon_dev ''e0'' MrvlPEMPFId, octeon_dev ''r0'' MrvlRVUPF2Id, octeon_dev ''r1'' MrvlRVUPF2Id]"

abbreviation "sample_bus_state \<equiv> \<lparr>bus_drv = (\<lambda>a. if a = ''e0'' then ''octeontx2-pem'' else []), bus_ovr = (\<lambda>_. []), bus_ran = []\<rparr>"


end
