(* ===== verification/Spec2Isabelle.thy ===== *)
theory Spec2Isabelle
  imports Dpu_Config Side_Managers Operator_Config Marvell_Vsp Netsec_Vsp Serving Host_Files Cp_Agent
begin

text \<open>
  Verification of the DPU operator (\<open>src/\<close>), a Kubernetes operator in Go that manages data processing units
  (DPUs) and the network functions that run on them.

  \<^bold>\<open>The program.\<close> Six kinds of processes work together.

  \<^item> The operator (\<open>internal/controller\<close>, \<open>pkgs/render\<close>, \<open>internal/images\<close>) reconciles four custom
    resources: \<open>DpuOperatorConfig\<close> installs the daemons, network attachment definitions, resource injector and
    shared resources; \<open>DataProcessingUnit\<close> installs the vendor plugin of a DPU; \<open>DataProcessingUnitConfig\<close>
    asks for numbers of virtual functions by annotations; \<open>ServiceFunctionChain\<close> keeps one pod per network
    function.
  \<^item> The daemon of every node (\<open>internal/daemon/daemon.go\<close>) detects DPUs every second
    (\<open>internal/platform\<close>), keeps a plugin and a side manager per DPU, writes the \<open>DataProcessingUnit\<close>
    resources and the node label, and applies the annotated numbers of virtual functions.
  \<^item> The side managers (\<open>hostsidemanager.go\<close>, \<open>dpusidemanager.go\<close>) serve CNI requests and the device plugin
    of the kubelet, and talk to the vendor plugin of the DPU over gRPC.
  \<^item> The vendor plugin of the daemon (\<open>internal/daemon/plugin/vendorplugin.go\<close>) calls the vendor-specific
    process, or a plugin of the registry (\<open>pkg/plugin\<close>) that speaks OPI (\<open>pkg/opi\<close>).
  \<^item> The vendor-specific processes (\<open>vendor-specific-plugins\<close>) configure the hardware and the switch of one
    kind of DPU.
  \<^item> The CNI plugin (\<open>dpu-cni\<close>) is a small binary that posts its request to the server in the daemon, which
    moves virtual functions (\<open>sriov\<close>) or network devices (\<open>networkfn\<close>) into pods.

  \<^bold>\<open>The theories.\<close> Definitions keep the names of the source; where two types have methods of the same name,
  the receiver is a prefix (\<open>intel_Initialize\<close>, \<open>op_Reconcile\<close>, \<open>sfc_Reconcile\<close>).

  \<^item> \<open>Prelude\<close>, \<open>Go_Errors\<close>, \<open>Plugin_Types\<close>, \<open>Mac_Address\<close>: what the sources use of Go, errors as
    values with \<open>errors.Is\<close>, the structs of package \<open>plugin\<close>, hardware addresses.
  \<^item> \<open>Registry\<close> (\<open>registry.go\<close>), \<open>Pci_Scan\<close> (\<open>pci/scanner.go\<close>, \<open>scan.go\<close>), \<open>Opi_Client\<close>
    (\<open>opi/client.go\<close>), \<open>Vendor_Plugins\<close> and \<open>Nvidia_Plugin\<close> (the plugins of the five vendors),
    \<open>Builtin_Plugins\<close> (the \<open>init\<close> functions), \<open>Grpc_Plugin\<close> (\<open>vendorplugin.go\<close>). The locale
    \<open>plugin_directory\<close> is the contract of a registry, \<open>vendor_lifecycle\<close> that of a vendor plugin; both are
    interpreted on the models of the code. The registry refines an abstract directory; look-ups,
    registration and its failures are exact; no vendor plugin leaks a connection.
  \<^item> \<open>Api_Types\<close>, \<open>Kube_Api\<close>: custom resources, conditions, the API server as the record \<open>kube\<close>.
  \<^item> \<open>Platform\<close>, \<open>Detection\<close>: hardware access, the six detectors (locales \<open>vendor_detector\<close> and
    \<open>deduping_detector\<close>) and their manager. Names of detected DPUs are distinct, both entry points agree.
  \<^item> \<open>Daemon\<close>, \<open>Daemon_Props\<close>, \<open>Dpu_Config\<close>: the loop of the daemon (locale \<open>daemon_plugin\<close>) and the
    controller that annotates. What is managed follows detection, the resources follow what is managed,
    lost plugins are released, a requested number of virtual functions reaches the plugin.
  \<^item> \<open>Cni_Types\<close>, \<open>Cni_Server\<close>, \<open>Sriov_Config\<close>, \<open>Sriov\<close>, \<open>Sriov_Props\<close>, \<open>Network_Fn\<close>: the CNI plugin
    from the binary to netlink. The locale \<open>netlink_kernel\<close> has the laws of the kernel that the code relies
    on, and a simulated kernel shows that they can hold. Virtual functions are handed out exclusively, and
    they and network devices come back as they were; what an ADD writes down a DEL removes.
  \<^item> \<open>Device_Plugin\<close>, \<open>Side_Managers\<close>: the devices offered to the kubelet, the CNI handlers, bridge ports,
    the heartbeat between host and DPU.
  \<^item> \<open>Serving\<close>: the goroutines of \<open>Serve\<close> of the side managers and of the daemon's shutdown as machines whose
    steps are channel operations, and the registration of the device plugin. \<open>Serve\<close> returns under every
    schedule; the shutdown ends exactly when at most one error is left to report; the plugin registers only
    once it serves.
  \<^item> \<open>Host_Files\<close>: paths, the socket of the CNI server and its directory, the installation of the CNI binary
    (locale \<open>posix\<close>, interpreted on a simulated file system). The socket is private to root.
  \<^item> \<open>Service_Chain\<close>: both reconcilers of service function chains; repeated passes converge (locale
    \<open>pod_server\<close>).
  \<^item> \<open>Rendering\<close>, \<open>Operator_Config\<close>: templates, tracked objects and their clean-up (locale
    \<open>shrinking_cluster\<close>), the controllers of \<open>DpuOperatorConfig\<close> and \<open>DataProcessingUnit\<close>, the admission
    checks. Readiness is reported exactly, deletion leaves nothing behind.
  \<^item> \<open>Vsp_Net\<close>, \<open>Marvell_Vsp\<close>, \<open>Netsec_Vsp\<close>: the vendor-specific processes that the daemon calls over gRPC
    (\<open>internal/daemon/vendor-specific-plugins\<close>), each as a \<open>vsp_service\<close> on its state and the host. The
    locale \<open>working_dataplane\<close> has the laws of a switch, \<open>vf_netlink\<close> those of the settings of virtual
    functions; both are interpreted on simulations that run the commands of the code. The flow rules of
    the Marvell process are exactly those its store asks for; the NetSec process keeps its records
    consistent and gives every virtual function its own VLAN.
  \<^item> \<open>Cp_Agent\<close>: the control plane agent of the Marvell DPU and the set-up of its platform (locale
    \<open>sysfs_drivers\<close>, interpreted on a simulated bus). The agent starts on devices that are bound to VFIO.

  \<^item> This theory: the path of a pod's traffic through the components, from the CNI handler of the host over
    the side manager and the plugin of the DPU to the flow rules that the Marvell process installs, and back.

  \<^bold>\<open>State, effects, errors.\<close> A struct is a record, a Go map an association list with \<open>map_get\<close>, \<open>map_put\<close>
  and \<open>map_del\<close>; a method is a function on the state that returns the new state. Errors are values of
  \<open>go_error\<close>, and a panic is the error \<open>Panic\<close> or a constructor of its own. What runs under a mutex is one step.
  Integers of fixed width are words where the width matters (numbers of virtual functions, PCI offsets), strings
  are byte strings, and case conversion is that of ASCII.

  \<^bold>\<open>Parameters.\<close> Code outside the repository is an argument of the definitions: the API server (\<open>kube\<close>,
  \<open>pod_api\<close>, \<open>cluster\<close>), templates, YAML and the embedded files (\<open>bindata\<close>), netlink and the file system
  (\<open>netlink\<close>, \<open>os_env\<close>, \<open>fs\<close>, \<open>vnet\<close>), gRPC peers, JSON decoding, IPAM plugins, hashing, environment
  variables and clocks. Properties name what they rely on as hypotheses, and their witnesses discharge them on
  concrete instances.

  \<^bold>\<open>Loops.\<close> Loops over slices are structural recursions. Loops that wait run over the list of answers they
  get (\<open>Start\<close>, \<open>Serve\<close>) or over a bound that the code has: \<open>Retry\<close> twenty attempts, \<open>poll_gone\<close> 3000
  polls (five minutes in steps of 100 milliseconds), \<open>wait_loop\<close> 82 attempts (forty seconds in steps of half a
  second), \<open>SetupHostInterface\<close> nine. That passes of the chain controller converge is proved
  with a bound of one more than the number of network functions.

  \<^bold>\<open>Not modelled.\<close> Entry points, flags and wiring of managers (\<open>cmd\<close>, \<open>SetupWithManager\<close>,
  the gRPC and HTTP servers themselves); metrics, logging, the drain helper; generated code; test support and tools.
  Outside \<open>Serving\<close>, concurrency is modelled as sequences of steps: every modelled state is guarded by a mutex
  or used by one goroutine only.
\<close>

section \<open>From a pod to the flow rules of the DPU\<close>

text \<open>With the Marvell plugin attached, a bridge port of the daemon's plugin is a request to the Marvell process;
  connecting does not touch its state.\<close>

lemma ensureConnected_remote:
  assumes "ensureConnected env (g, w) = (e, g', w')"
  shows "remote w' = remote w" "registryPlugin g' = registryPlugin g" "registryInitialized g' = registryInitialized g" "registryState g' = registryState g"
  using assms by (auto simp: ensureConnected_def dial_vsp_def close_conn_def Let_def split: option.splits if_splits)

lemma ensureConnected_dials:
  assumes "\<And>sock. ve_dial env sock = None"
  obtains g' w' where "ensureConnected env (g, w) = (None, g', w')"
proof -
  have "fst (ensureConnected env (g, w)) = None"
    by (simp add: ensureConnected_def dial_vsp_def assms Let_def split: option.split)
  then show ?thesis using that by (metis prod.collapse)
qed

definition marvell_attached :: "filesys \<Rightarrow> 'r opi_env \<Rightarrow> 'r pstate GrpcPlugin \<Rightarrow> bool" where
  "marvell_attached fs oe g \<longleftrightarrow>
     registryPlugin g = Some (marvell_methods fs oe) \<and> registryInitialized g \<and> initialized (fst (registryState g))"

lemma marvell_via_vsp:
  assumes "marvell_attached fs oe g"
  shows "GrpcPlugin_CreateBridgePort env (Some req) (g, w) =
      via_vsp env ''CreateBridgePort failed to ensure GRPC connection: %v'' Inl (\<lambda>svc. vsp_CreateBridgePort svc req) (g, w)"
    and "GrpcPlugin_DeleteBridgePort env (Some name) (g, w) =
      via_vsp env ''DeleteBridgePort failed to ensure GRPC connection: %v'' Some (\<lambda>svc. vsp_DeleteBridgePort svc name) (g, w)"
proof -
  have "registryPlugin g = Some (scan_methods marvell_Info (marvell_Initialize oe) marvell_Shutdown (marvell_DiscoverDevices fs))"
    "registryInitialized g" "initialized (fst (registryState g))"
    using assms by (simp_all add: marvell_attached_def marvell_methods_def)
  note vsp = scan_methods_vsp [OF this scan_DiscoverDevices_init [of marvell_supportedDevices "''Marvell''" "''marvell''" "''MARVELL''" fs, folded marvell_DiscoverDevices_def]]
  show "GrpcPlugin_CreateBridgePort env (Some req) (g, w) =
      via_vsp env ''CreateBridgePort failed to ensure GRPC connection: %v'' Inl (\<lambda>svc. vsp_CreateBridgePort svc req) (g, w)" by (rule vsp)
  show "GrpcPlugin_DeleteBridgePort env (Some name) (g, w) =
      via_vsp env ''DeleteBridgePort failed to ensure GRPC connection: %v'' Some (\<lambda>svc. vsp_DeleteBridgePort svc name) (g, w)"
    unfolding GrpcPlugin_DeleteBridgePort_def option.case by (rule vsp)
qed

lemma marvell_create:
  assumes "marvell_attached fs oe g" "ve_svc venv = marvell_service vn dp"
    and "vp_CreateBridgePort (grpc_vendor_plugin venv) req (g, w) = (Inr port, g1, w1)"
  shows "mrvl_CreateBridgePort vn dp req (remote w) = (Inr port, remote w1) \<and> marvell_attached fs oe g1"
proof -
  obtain e g' w' where c: "ensureConnected venv (g, w) = (e, g', w')" by (metis prod.exhaust)
  have "via_vsp venv ''CreateBridgePort failed to ensure GRPC connection: %v'' Inl (\<lambda>svc. vsp_CreateBridgePort svc req) (g, w) = (Inr port, g1, w1)"
    using assms(3) by (simp add: grpc_vendor_plugin_def marvell_via_vsp(1) [OF assms(1)])
  then show ?thesis using c ensureConnected_remote [OF c] assms(1,2)
    by (auto simp: via_vsp_def rpc_def marvell_service_def marvell_attached_def split: option.splits prod.splits)
qed

lemma marvell_delete:
  assumes "marvell_attached fs oe g" "ve_svc venv = marvell_service vn dp" "\<And>sock. ve_dial venv sock = None"
    and "vp_DeleteBridgePort (grpc_vendor_plugin venv) name (g, w) = (e, g1, w1)"
  shows "mrvl_DeleteBridgePort vn dp name (remote w) = (e, remote w1)"
proof -
  obtain g' w' where c: "ensureConnected venv (g, w) = (None, g', w')" using ensureConnected_dials [OF assms(3)] by blast
  have "via_vsp venv ''DeleteBridgePort failed to ensure GRPC connection: %v'' Some (\<lambda>svc. vsp_DeleteBridgePort svc name) (g, w) = (e, g1, w1)"
    using assms(4) by (simp add: grpc_vendor_plugin_def marvell_via_vsp(2) [OF assms(1)])
  then show ?thesis using c ensureConnected_remote [OF c] assms(2)
    by (auto simp: via_vsp_def rpc_def marvell_service_def split: prod.splits)
qed

text \<open>A port that was created is stored last.\<close>

lemma mrvl_create_stored:
  assumes "mrvl_CreateBridgePort vn dp req (s, w) = (Inr port, s', w')"
  obtains p spec vfName pci where "cbp_BridgePort req = Some p" "obp_Spec p = Some spec" "getVFDetails vn (obp_Name p) w = Inr (vfName, pci)"
    "s' = store_port \<lparr>vfi_vfName = vfName, vfi_mac = HardwareAddr_String (MacAddress spec)\<rparr> s"
  using assms by (auto simp: mrvl_CreateBridgePort_def Let_def split: option.splits sum.splits prod.splits if_splits)

text \<open>The rules of a stored port next to a network function.\<close>

lemma find_by_mac: "distinct (map vfi_mac vfs) \<Longrightarrow> vf \<in> set vfs \<Longrightarrow> List.find (\<lambda>v. vfi_mac v = vfi_mac vf) vfs = Some vf"
  by (induction vfs) (auto simp: image_iff)

lemma wanted_port:
  assumes "vsp_inv rpm s" "mv_isNF s" "vf \<in> set (nf_vfs s)"
  shows "wanted rpm s (10, vfi_vfName vf, []) = Some (''output:'' @ nf_inp s)"
    "wanted rpm s (32768, nf_inp s, vfi_mac vf) = Some (''output:'' @ vfi_vfName vf)"
    "wanted rpm s (100, nf_out s, vfi_mac vf) = Some ''in_port''"
proof -
  have ok: "ports_ok rpm (nf_vfs s)" "nf_ok rpm (nf_vfs s) (nf_inp s) (nf_out s)" using assms(1,2) by (simp_all add: vsp_inv_vfs)
  have mac: "vfi_mac vf \<noteq> []" using ok(1) assms(3) by (auto simp: ports_ok_def list_all_iff vf_ok_def nice_def)
  have other: "nf_out s \<noteq> vfi_vfName vf" "rpm \<noteq> vfi_vfName vf" using ok assms(3) by (auto simp: ports_ok_def nf_ok_def)
  have "distinct (map vfi_mac (nf_vfs s))" using ok(1) by (simp add: ports_ok_def)
  then have find: "List.find (\<lambda>v. vfi_mac v = vfi_mac vf) (nf_vfs s) = Some vf" using find_by_mac assms(3) by blast
  show "wanted rpm s (10, vfi_vfName vf, []) = Some (''output:'' @ nf_inp s)"
    "wanted rpm s (32768, nf_inp s, vfi_mac vf) = Some (''output:'' @ vfi_vfName vf)"
    "wanted rpm s (100, nf_out s, vfi_mac vf) = Some ''in_port''"
    using assms(2,3) mac other find by (auto simp: wanted_vfs expected_def)
qed

text \<open>Deleting the port that was created last brings the rules back.\<close>

lemma marvell_port_undone:
  assumes plane: "plane_ok vn dp (mv_bridgeName s) tab"
    and start: "vsp_good vn (mv_bridgeName s) tab rpm (s, w)" and after: "vsp_good vn (mv_bridgeName s) tab rpm (s1, w1)"
    and vf: "getVFDetails vn name w = Inr (vfName, pci)" "s1 = store_port \<lparr>vfi_vfName = vfName, vfi_mac = mac\<rparr> s"
    and host: "same_host vn w w1"
  shows "same_rules (tab (snd (snd (mrvl_DeleteBridgePort vn dp name (s1, w1))))) (tab w)"
proof -
  have details: "getVFDetails vn name w1 = Inr (vfName, pci)" using same_host_reads(2) [OF host] vf(1) by simp
  have proper: "proper vn rpm (PortDel name) s1 w1" by (simp add: details vf(2) store_port_entry)
  obtain s2 w2 where run: "mrvl_DeleteBridgePort vn dp name (s1, w1) = (None, s2, w2)" "vsp_good vn (mv_bridgeName s) tab rpm (s2, w2)"
      "s2 = drop_port vfName s1"
    by (rule working_dataplane.port_del_good [OF working_dataplane.intro [OF plane] after proper]) (use details in auto)
  have "distinct (map vfi_vfName (nf_vfs s1))" using after by (simp add: vsp_good_def vsp_inv_vfs ports_ok_def)
  then have "nf_vfs s2 = nf_vfs s" by (simp add: run(3) drop_port_entry vf(2) store_port_entry remove_vf_filter filter_id_conv image_iff) blast
  then have "wanted rpm s2 = wanted rpm s" by (simp add: wanted_vfs run(3) drop_port_entry vf(2) store_port_entry)
  then show ?thesis using run start by (simp add: vsp_good_def same_rules_def)
qed

text \<open>
  C5: From a pod on the host to the switch of a Marvell DPU and back. Suppose the network function is in place
  and the flow rules are those the process wants. A host-side ADD that succeeds leaves rules that carry the
  traffic of the pod's function to the input port of the network function, bring back by the pod's MAC
  address what the network function sends, and turn around packets for the pod that arrive at the output port; every
  other rule is as the store asks. When a DEL of the same container and interface then releases the function,
  the rules are those from before the ADD.
\<close>

theorem pod_flows_lifecycle:
  assumes plane: "plane_ok vn dp (mv_bridgeName ms) tab" and svc: "ve_svc venv = marvell_service vn dp" "\<And>sock. ve_dial venv sock = None"
    and good: "vsp_inv rpm ms" "GetNameByDeviceID vn DpuRpmDeviceID sw = Inr rpm" "same_rules (tab sw) (wanted rpm ms)" "mv_isNF ms"
    and reg: "marvell_attached fs oe g" "remote w = (ms, sw)"
    and files: "files_work env"
    and add: "host_cniCmdAddHandler env nl cur (dpu_peer_of (grpc_vendor_plugin venv) now) req (h, d, ds, g, w) = (Inr result, h1, d1, ds1, g1, w1)"
    and fresh: "\<forall>conf mac. sriov_CmdAdd env nl cur req h = (Inr result, conf, h1) \<longrightarrow> ParseMAC (vs_EffectiveMAC (nc_OrigVfState conf)) = Inr mac \<longrightarrow>
      proper vn rpm (PortAdd (host_port_request 0 (nc_VFID conf) mac)) ms sw"
    and del: "sriov_CmdDel env nl cur req' h1 = (Inr True, conf', h2)" "pr_ContainerId req' = pr_ContainerId req" "pr_IfName req' = pr_IfName req"
  shows "\<exists>conf mac vfName pci. sriov_CmdAdd env nl cur req h = (Inr result, conf, h1) \<and>
      ParseMAC (vs_EffectiveMAC (nc_OrigVfState conf)) = Inr mac \<and>
      getVFDetails vn (host_port_name 0 (nc_VFID conf)) sw = Inr (vfName, pci) \<and>
      (let rules = tab (snd (remote w1)) in
         rules (10, vfName, []) = Some (''output:'' @ nf_inp ms) \<and>
         rules (32768, nf_inp ms, HardwareAddr_String mac) = Some (''output:'' @ vfName) \<and>
         rules (100, nf_out ms, HardwareAddr_String mac) = Some ''in_port'' \<and> same_rules rules (wanted rpm (fst (remote w1)))) \<and>
      (let (h2', d2, ds2, g2, w2) = snd (host_cniCmdDelHandler env nl cur (dpu_peer_of (grpc_vendor_plugin venv) now') req' (h1, d1, ds1, g1, w1)) in
         h2' = h2 \<and> same_rules (tab (snd (remote w2))) (tab sw))"
proof -
  let ?vp = "grpc_vendor_plugin venv"
  obtain conf mac port where life: "sriov_CmdAdd env nl cur req h = (Inr result, conf, h1)"
      "ParseMAC (vs_EffectiveMAC (nc_OrigVfState conf)) = Inr mac"
      "vp_CreateBridgePort ?vp (host_port_request 0 (nc_VFID conf) mac) (g, w) = (Inr port, g1, w1)"
      "snd (host_cniCmdDelHandler env nl cur (dpu_peer_of ?vp now') req' (h1, d1, ds1, g1, w1)) =
         (h2, d1, ds1, snd (vp_DeleteBridgePort ?vp (host_port_name 0 (nc_VFID conf)) (g1, w1)))"
    using host_port_lifecycle [OF files add del] by blast
  obtain ms1 sw1 where w1: "remote w1 = (ms1, sw1)" by (metis prod.exhaust)
  have run: "mrvl_CreateBridgePort vn dp (host_port_request 0 (nc_VFID conf) mac) (ms, sw) = (Inr port, ms1, sw1)" and g1: "marvell_attached fs oe g1"
    using marvell_create [OF reg(1) svc(1) life(3)] reg(2) w1 by simp_all
  obtain vfName pci where vf: "getVFDetails vn (host_port_name 0 (nc_VFID conf)) sw = Inr (vfName, pci)"
      "ms1 = store_port \<lparr>vfi_vfName = vfName, vfi_mac = HardwareAddr_String mac\<rparr> ms"
    by (rule mrvl_create_stored [OF run]) (use that in \<open>auto simp: host_port_request_def\<close>)
  have start: "vsp_good vn (mv_bridgeName ms) tab rpm (ms, sw)" using good by (simp add: vsp_good_def)
  obtain sw' where "mrvl_handle vn dp (PortAdd (host_port_request 0 (nc_VFID conf) mac)) (ms, sw) = (None, sw')" "vsp_good vn (mv_bridgeName ms) tab rpm sw'" "same_host vn sw (snd sw')"
    using working_dataplane.port_add_good [OF working_dataplane.intro [OF plane] start fresh [rule_format, OF life(1,2)]] by blast
  then have after: "vsp_good vn (mv_bridgeName ms) tab rpm (ms1, sw1)" "same_host vn sw sw1" using run by auto
  have gone: "same_rules (tab (snd (remote w2))) (tab sw)"
    if "vp_DeleteBridgePort ?vp (host_port_name 0 (nc_VFID conf)) (g1, w1) = (e, g2, w2)" for e g2 w2
    using marvell_port_undone [OF plane start after(1) vf after(2)] marvell_delete [OF g1 svc that] w1 by simp
  obtain e g2 w2 where e: "vp_DeleteBridgePort ?vp (host_port_name 0 (nc_VFID conf)) (g1, w1) = (e, g2, w2)" by (metis prod.exhaust)
  have rules: "same_rules (tab sw1) (wanted rpm ms1)" "vsp_inv rpm ms1" using after(1) by (simp_all add: vsp_good_def)
  let ?vf = "\<lparr>vfi_vfName = vfName, vfi_mac = HardwareAddr_String mac\<rparr>"
  have stored: "mv_isNF ms1" "nf_inp ms1 = nf_inp ms" "nf_out ms1 = nf_out ms" "?vf \<in> set (nf_vfs ms1)"
    using good(4) by (simp_all add: vf(2) store_port_entry)
  note want = wanted_port [OF rules(2) stored(1,4), unfolded stored vfInfo.select_convs]
  have ports: "vfName \<noteq> []" "nf_inp ms \<noteq> []" "nf_out ms \<noteq> []"
    using rules(2) stored by (auto simp: vsp_inv_vfs ports_ok_def nf_ok_def list_all_iff vf_ok_def nice_def)
  have table: "tab sw1 (10, vfName, []) = Some (''output:'' @ nf_inp ms)" "tab sw1 (32768, nf_inp ms, HardwareAddr_String mac) = Some (''output:'' @ vfName)"
      "tab sw1 (100, nf_out ms, HardwareAddr_String mac) = Some ''in_port''"
    using rules(1) want ports by (simp_all add: same_rules_def)
  show ?thesis using life(1,2,4) vf(1) table rules(1) w1 gone [OF e] e by (auto simp: Let_def)
qed

text \<open>The simulated host, kernel and switch together: a network function between two ports, and a pod that comes
  and goes.\<close>

definition dpu_env :: "(mrvlVspServer \<times> switch) vsp_env" where
  "dpu_env = \<lparr>ve_now = 0, ve_dial = (\<lambda>_. None), ve_state = (\<lambda>_. Ready), ve_svc = marvell_service sim_dpu (OvsDP sim_dpu)\<rparr>"

abbreviation "nf_start \<equiv> snd (mrvl_CreateNetworkFunction sim_dpu (OvsDP sim_dpu) (''m0'', ''m1'') sample_start)"

definition dpu_plugin :: "unit pstate GrpcPlugin" where
  "dpu_plugin = (NewGrpcPlugin True ''id'' ''s'' (marvell_New\<lparr>initialized := True\<rparr>, sample_world))
     \<lparr>registryPlugin := Some (marvell_methods (sample_sysfs DirEntry) sample_env), registryInitialized := True\<rparr>"

definition dpu_world :: "(mrvlVspServer \<times> switch) world" where
  "dpu_world = \<lparr>open_conns = [], next_conn = 0, remote = nf_start\<rparr>"

abbreviation "pod_dpu \<equiv> dpu_peer_of (grpc_vendor_plugin dpu_env) 0"

lemma nf_start_good: "vsp_good sim_dpu ''br-mrv0'' sw_flows ''rpm'' nf_start" "mv_isNF (fst nf_start)"
proof -
  have rpm: "GetNameByDeviceID sim_dpu DpuRpmDeviceID \<lparr>sw_flows = Map.empty\<rparr> = Inr ''rpm''" by code_simp
  have inv: "vsp_inv ''rpm'' sample_vsp_server" by code_simp
  have "vsp_good sim_dpu ''br-mrv0'' sw_flows ''rpm'' sample_start"
    using rpm inv by (simp add: vsp_good_def same_rules_def wanted_def sample_vsp_server_def NewMarvellVspServer_def)
  moreover have "proper sim_dpu ''rpm'' (NfAdd (''m0'', ''m1'')) sample_vsp_server \<lparr>sw_flows = Map.empty\<rparr>" by code_simp
  ultimately show "vsp_good sim_dpu ''br-mrv0'' sw_flows ''rpm'' nf_start"
    using ovs.nf_add_good [of "''br-mrv0''" "''rpm''" sample_vsp_server "\<lparr>sw_flows = Map.empty\<rparr>" "''m0''" "''m1''"]
    by (metis mrvl_handle.simps(3) snd_conv)
  show "mv_isNF (fst nf_start)" by code_simp
qed

lemma pod_add_runs:
  obtains result d1 ds1 g1 w1 where
    "host_cniCmdAddHandler kernel_env sim_netlink host_ns pod_dpu pod_a (sample_host, new_HostSideManager, new_DpuSideManager, dpu_plugin, dpu_world) =
       (Inr result, host_after_add, d1, ds1, g1, w1)"
proof -
  obtain result where add: "sriov_CmdAdd kernel_env sim_netlink host_ns pod_a sample_host = (Inr result, conf_after_add, host_after_add)"
    using sample_add by blast
  have conf: "nc_VFID conf_after_add = 1" "vs_EffectiveMAC (nc_OrigVfState conf_after_add) = ''02:00:00:00:00:0a''" by code_simp+
  let ?r = "host_CreateBridgePort pod_dpu 0 1 2 ''02:00:00:00:00:0a'' (new_HostSideManager, new_DpuSideManager, dpu_plugin, dpu_world)"
  have "case fst ?r of Inl _ \<Rightarrow> False | Inr _ \<Rightarrow> True" by code_simp
  then obtain port d1 ds1 g1 w1 where "?r = (Inr port, d1, ds1, g1, w1)" by (cases ?r) (auto split: sum.splits)
  then show ?thesis using that by (simp add: host_cniCmdAddHandler_def add conf)
qed

theorem pod_flows_lifecycle_witness:
  "\<exists>result d1 ds1 g1 w1. host_cniCmdAddHandler kernel_env sim_netlink host_ns pod_dpu pod_a
       (sample_host, new_HostSideManager, new_DpuSideManager, dpu_plugin, dpu_world) = (Inr result, host_after_add, d1, ds1, g1, w1) \<and>
     sw_flows (snd (remote w1)) (10, ''sdp2'', []) = Some ''output:dp0'' \<and>
     sw_flows (snd (remote w1)) (32768, ''dp0'', ''02:00:00:00:00:0a'') = Some ''output:sdp2'' \<and>
     (let (h2, d2, ds2, g2, w2) = snd (host_cniCmdDelHandler kernel_env sim_netlink host_ns pod_dpu pod_a (host_after_add, d1, ds1, g1, w1))
      in same_rules (sw_flows (snd (remote w2))) (sw_flows (snd nf_start)))"
proof -
  obtain result d1 ds1 g1 w1 where add: "host_cniCmdAddHandler kernel_env sim_netlink host_ns pod_dpu pod_a
      (sample_host, new_HostSideManager, new_DpuSideManager, dpu_plugin, dpu_world) = (Inr result, host_after_add, d1, ds1, g1, w1)"
    by (rule pod_add_runs)
  have conf: "nc_VFID conf_after_add = 1" "ParseMAC (vs_EffectiveMAC (nc_OrigVfState conf_after_add)) = Inr [2, 0, 0, 0, 0, 10]" by code_simp+
  have known: "conf = conf_after_add" if "sriov_CmdAdd kernel_env sim_netlink host_ns pod_a sample_host = (Inr r, conf, h1)" for r conf h1
    using that sample_add by auto
  have good: "vsp_inv ''rpm'' (fst nf_start)" "GetNameByDeviceID sim_dpu DpuRpmDeviceID (snd nf_start) = Inr ''rpm''"
      "same_rules (sw_flows (snd nf_start)) (wanted ''rpm'' (fst nf_start))" "mv_bridgeName (fst nf_start) = ''br-mrv0''"
    using nf_start_good(1) by (auto simp: vsp_good_def)
  have fresh: "proper sim_dpu ''rpm'' (PortAdd (host_port_request 0 1 [2, 0, 0, 0, 0, 10])) (fst nf_start) (snd nf_start)" by code_simp
  have names: "nf_inp (fst nf_start) = ''dp0''" "HardwareAddr_String [2, 0, 0, 0, 0, 10] = ''02:00:00:00:00:0a''"
      "getVFDetails sim_dpu (host_port_name 0 1) (snd nf_start) = Inr (''sdp2'', ''p2'')" by code_simp+
  have "fst (sriov_CmdDel kernel_env sim_netlink host_ns pod_a host_after_add) = Inr True" by code_simp
  then have del: "sriov_CmdDel kernel_env sim_netlink host_ns pod_a host_after_add =
      (Inr True, fst (snd (sriov_CmdDel kernel_env sim_netlink host_ns pod_a host_after_add)),
       snd (snd (sriov_CmdDel kernel_env sim_netlink host_ns pod_a host_after_add)))" by (simp add: prod_eq_iff)
  have reg: "marvell_attached (sample_sysfs DirEntry) sample_env dpu_plugin" by (simp add: marvell_attached_def dpu_plugin_def NewGrpcPlugin_def)
  have svc: "ve_svc dpu_env = marvell_service sim_dpu (OvsDP sim_dpu)" "\<And>sock. ve_dial dpu_env sock = None" by (simp_all add: dpu_env_def)
  have start: "remote dpu_world = (fst nf_start, snd nf_start)" by (simp add: dpu_world_def)
  have port: "\<forall>conf mac. sriov_CmdAdd kernel_env sim_netlink host_ns pod_a sample_host = (Inr result, conf, host_after_add) \<longrightarrow>
      ParseMAC (vs_EffectiveMAC (nc_OrigVfState conf)) = Inr mac \<longrightarrow>
      proper sim_dpu ''rpm'' (PortAdd (host_port_request 0 (nc_VFID conf) mac)) (fst nf_start) (snd nf_start)"
  proof (intro allI impI)
    fix conf mac assume "sriov_CmdAdd kernel_env sim_netlink host_ns pod_a sample_host = (Inr result, conf, host_after_add)"
      "ParseMAC (vs_EffectiveMAC (nc_OrigVfState conf)) = Inr mac"
    then show "proper sim_dpu ''rpm'' (PortAdd (host_port_request 0 (nc_VFID conf) mac)) (fst nf_start) (snd nf_start)"
      using known conf fresh by (metis sum.inject(2))
  qed
  from pod_flows_lifecycle [where now' = 0, OF sim_dpu_works svc good(1,2,3) nf_start_good(2) reg start sim_env_files add port del refl refl]
  show ?thesis
  proof (elim exE conjE, unfold Let_def, elim conjE, goal_cases)
    case (1 conf mac vfName pci)
    have "mac = [2, 0, 0, 0, 0, 10]" "vfName = ''sdp2''" using 1(2,3) known [OF 1(1)] conf names(3) by auto
    then have rules: "sw_flows (snd (remote w1)) (10, ''sdp2'', []) = Some ''output:dp0''"
        "sw_flows (snd (remote w1)) (32768, ''dp0'', ''02:00:00:00:00:0a'') = Some ''output:sdp2''"
      using 1(5-) names(1,2) by simp_all
    have gone: "case snd (host_cniCmdDelHandler kernel_env sim_netlink host_ns pod_dpu pod_a (host_after_add, d1, ds1, g1, w1)) of
        (h2, d2, ds2, g2, w2) \<Rightarrow> same_rules (sw_flows (snd (remote w2))) (sw_flows (snd nf_start))"
      using 1(4-) by (simp add: split_beta)
    show ?case by (intro exI conjI) (rule add rules(1) rules(2) gone)+
  qed
qed

end
